(* ===== verification/Prelude.thy ===== *)
theory Prelude
  imports Main "HOL-Library.Word" "HOL-Library.Monad_Syntax"
begin

text \<open>
  Shared vocabulary of the development: bytes, little-endian words and loads from byte
  buffers. A load outside the buffer is \<^const>\<open>None\<close>: that value is the out-of-bounds access the
  BPF verifier forbids, and the memory-safety theorems show that it never arises. The
  machines the program runs on are little-endian, and so is every load and store here;
  the network byte order of packet fields is handled by \<open>bpf_ntohs\<close>, as in the code.
\<close>

unbundle bit_operations_syntax

type_synonym byte = "8 word"

named_theorems load_simps "evaluation of loads of structure members"
named_theorems size_simps "sizes of the C structures of the model"

primrec le_word :: "byte list \<Rightarrow> 'a::len word" where
  "le_word [] = 0"
| "le_word (b # bs) = ucast b OR push_bit 8 (le_word bs)"

primrec le_bytes :: "nat \<Rightarrow> 'a::len word \<Rightarrow> byte list" where
  "le_bytes 0 w = []"
| "le_bytes (Suc n) w = ucast w # le_bytes n (drop_bit 8 w)"

lemma le_bytes_numeral:
  "le_bytes (numeral k) w = ucast w # le_bytes (pred_numeral k) (drop_bit 8 w)"
  by (simp add: numeral_eq_Suc)

lemma length_le_bytes [simp]: "length (le_bytes n w) = n"
  by (induction n arbitrary: w) auto

subsection \<open>Little-endian words\<close>

lemma bit_le_word:
  "bit (le_word bs :: 'a::len word) i \<longleftrightarrow>
     i < LENGTH('a) \<and> i div 8 < length bs \<and> bit (bs ! (i div 8)) (i mod 8)"
proof (induction bs arbitrary: i)
  case Nil
  then show ?case by simp
next
  case (Cons b bs)
  show ?case
  proof (cases "i < 8")
    case True
    then show ?thesis by (auto simp: bit_simps)
  next
    case False
    then have "i div 8 = Suc ((i - 8) div 8)" "i mod 8 = (i - 8) mod 8"
      by (simp_all add: le_div_geq le_mod_geq)
    moreover have "\<not> bit b i" using False bit_imp_le_length[of b i] by auto
    ultimately show ?thesis using False
      by (auto simp: bit_simps Cons.IH)
  qed
qed

lemma nth_le_bytes:
  "i < n \<Longrightarrow> le_bytes n w ! i = ucast (drop_bit (8 * i) w)"
proof (induction n arbitrary: w i)
  case 0
  then show ?case by simp
next
  case (Suc n)
  then show ?case by (cases i) (auto simp: algebra_simps)
qed

lemma le_word_le_bytes:
  assumes "LENGTH('a::len) \<le> 8 * n"
  shows "le_word (le_bytes n w) = (w :: 'a word)"
proof (rule bit_word_eqI)
  fix i assume i: "i < LENGTH('a)"
  then have "i div 8 < n" using assms by (simp add: less_mult_imp_div_less mult.commute)
  with i show "bit (le_word (le_bytes n w) :: 'a word) i = bit w i"
    by (simp add: bit_le_word nth_le_bytes bit_simps)
qed

lemma le_bytes_le_word:
  assumes "8 * length bs \<le> LENGTH('a::len)"
  shows "le_bytes (length bs) (le_word bs :: 'a word) = bs"
proof (rule nth_equalityI)
  fix i assume "i < length (le_bytes (length bs) (le_word bs :: 'a word))"
  then have i: "i < length bs" by simp
  then show "le_bytes (length bs) (le_word bs :: 'a word) ! i = bs ! i"
    using assms by (auto intro!: bit_word_eqI simp: nth_le_bytes bit_simps bit_le_word div_add1_eq)
qed simp

lemma le_bytes_inj:
  assumes "LENGTH('a::len) \<le> 8 * n" "le_bytes n v = le_bytes n (w :: 'a word)"
  shows "v = w"
  by (metis assms le_word_le_bytes)

definition load :: "nat \<Rightarrow> byte list \<Rightarrow> nat \<Rightarrow> 'a::len word option" where
  "load n bs i = (if i + n \<le> length bs then Some (le_word (take n (drop i bs))) else None)"

lemmas le_bytes_eval = le_bytes.simps le_bytes_numeral

declare le_bytes.simps [simp del]

lemma load_Some [load_simps]:
  "i + n \<le> length bs \<Longrightarrow> load n bs i = Some (le_word (take n (drop i bs)))"
  by (simp add: load_def)

lemma load_eq_None_iff: "load n bs i = None \<longleftrightarrow> length bs < i + n"
  by (auto simp: load_def)

text \<open>A load reads only the bytes it names.\<close>

lemma load_cong:
  assumes "\<And>j. i \<le> j \<Longrightarrow> j < i + n \<Longrightarrow> bs ! j = cs ! j" "length bs = length cs"
  shows "load n bs i = load n cs i"
proof -
  have "take n (drop i bs) = take n (drop i cs)"
    by (rule nth_equalityI) (use assms in auto)
  then show ?thesis using assms by (simp add: load_def)
qed

lemma load_append_left:
  "i + n \<le> length bs \<Longrightarrow> load n (bs @ cs) i = load n bs i"
  by (simp add: load_def)

lemma load_le_bytes_at:
  assumes "length pre = i" "LENGTH('a::len) \<le> 8 * n"
  shows "load n (pre @ le_bytes n (w :: 'a word) @ post) i = Some w"
  using assms by (simp add: load_def le_word_le_bytes)

subsection \<open>Byte order\<close>

text \<open>
  \<open>bpf_ntohs\<close> and \<open>bpf_htons\<close> swap the two bytes of a 16-bit value on a little-endian machine.
\<close>

definition bswap16 :: "16 word \<Rightarrow> 16 word" where
  "bswap16 x = push_bit 8 x OR drop_bit 8 x"

lemma bswap16_bswap16 [simp]: "bswap16 (bswap16 x) = x"
  by (rule bit_word_eqI) (auto simp: bswap16_def bit_simps)

lemma bswap16_inj [simp]: "bswap16 x = bswap16 y \<longleftrightarrow> x = y"
  by (metis bswap16_bswap16)

lemma bswap16_eq_iff: "bswap16 x = y \<longleftrightarrow> x = bswap16 y"
  by (metis bswap16_bswap16)

lemma le_bytes_bswap16: "le_bytes 2 (bswap16 w) = rev (le_bytes 2 w)"
  by (auto simp: bswap16_def le_bytes_eval intro!: bit_word_eqI simp: bit_simps)

subsection \<open>Decimal numbers\<close>

text \<open>\<^verbatim>\<open>fmt.Sprintf("%d")\<close> on an unsigned number, and the number a string of digits stands for.\<close>

fun sprintf_d :: "nat \<Rightarrow> string" where
  "sprintf_d n = (if n < 10 then [char_of (48 + n)]
     else sprintf_d (n div 10) @ [char_of (48 + n mod 10)])"

declare sprintf_d.simps [simp del]

definition is_digit :: "char \<Rightarrow> bool" where
  "is_digit c \<longleftrightarrow> 48 \<le> (of_char c :: nat) \<and> (of_char c :: nat) \<le> 57"

definition parse_decimal :: "string \<Rightarrow> nat" where
  "parse_decimal s = foldl (\<lambda>a c. a * 10 + (of_char c - 48)) 0 s"

lemma digit_facts:
  fixes n :: nat
  assumes "n < 10"
  shows "is_digit (char_of (48 + n))" "of_char (char_of (48 + n)) - 48 = n"
  using assms by (simp_all add: is_digit_def)

lemma sprintf_d_digits: "list_all is_digit (sprintf_d n) \<and> sprintf_d n \<noteq> []"
proof (induction n rule: sprintf_d.induct)
  case (1 n)
  show ?case
    using 1 digit_facts(1)[of n] digit_facts(1)[of "n mod 10"]
    by (subst (1 2) sprintf_d.simps) simp
qed

lemma parse_sprintf: "parse_decimal (sprintf_d n) = n"
proof (induction n rule: sprintf_d.induct)
  case (1 n)
  show ?case
  proof (cases "n < 10")
    case True
    then show ?thesis by (subst sprintf_d.simps) (simp add: parse_decimal_def digit_facts(2))
  next
    case False
    then show ?thesis
      using 1 by (subst sprintf_d.simps) (simp add: parse_decimal_def digit_facts(2)[of "n mod 10", simplified])
  qed
qed

end
