(* ===== verification/CTypes.thy ===== *)
theory CTypes
  imports Prelude
begin


text \<open>
  The declarations of the C sources (structures, unions, bit fields, typedefs, enumerations)
  are values of the type \<open>ctype\<close>, and \<open>sizeof\<close>, \<open>alignof\<close> and \<open>member\<close> compute
  what the C compiler computes from them on the 64-bit little-endian targets of the program
  (x86-64 user space and the BPF target share these rules): natural alignment, trailing
  padding, bit fields packed from the least significant bit of their storage unit without
  straddling it, and no padding at all under \<open>__attribute__((packed))\<close>.
\<close>

datatype cscalar =
    CBool | CChar | CSChar | CUChar | CShort | CUShort | CInt | CUInt | CLong | CULong
  | CLongLong | CULongLong | CInt128 | CUInt128

datatype ctype =
    Scalar cscalar
  | Ptr string
  | EnumT string
  | Arr ctype nat
  | Struct bool "cfield list"
  | Union bool "cfield list"
and cfield =
    Field string ctype
  | Bits string ctype nat

fun scalar_size :: "cscalar \<Rightarrow> nat" where
  "scalar_size CBool = 1"
| "scalar_size CChar = 1"
| "scalar_size CSChar = 1"
| "scalar_size CUChar = 1"
| "scalar_size CShort = 2"
| "scalar_size CUShort = 2"
| "scalar_size CInt = 4"
| "scalar_size CUInt = 4"
| "scalar_size CLong = 8"
| "scalar_size CULong = 8"
| "scalar_size CLongLong = 8"
| "scalar_size CULongLong = 8"
| "scalar_size CInt128 = 16"
| "scalar_size CUInt128 = 16"

definition round_up :: "nat \<Rightarrow> nat \<Rightarrow> nat" where
  "round_up n a = (if n mod a = 0 then n else n + (a - n mod a))"

text \<open>
  Where the next member starts, in bits: an ordinary member at the next multiple of its
  alignment (the next byte when packed), a bit field right after the previous member unless
  it would straddle a storage unit of its type; width 0 closes the current unit.
\<close>

definition place_bytes :: "bool \<Rightarrow> nat \<Rightarrow> nat \<Rightarrow> nat" where
  "place_bytes pk al pos = round_up pos (if pk then 8 else 8 * al)"

definition place_bits :: "bool \<Rightarrow> nat \<Rightarrow> nat \<Rightarrow> nat \<Rightarrow> nat \<Rightarrow> nat" where
  "place_bits pk sz al w pos =
     (if w = 0 then round_up pos (8 * al)
      else if pk then pos
      else if pos div (8 * sz) = (pos + w - 1) div (8 * sz) then pos
      else round_up pos (8 * al))"

fun sizeof :: "ctype \<Rightarrow> nat"
  and alignof :: "ctype \<Rightarrow> nat"
  and fields_align :: "cfield list \<Rightarrow> nat"
  and struct_end :: "bool \<Rightarrow> cfield list \<Rightarrow> nat \<Rightarrow> nat"
  and union_end :: "cfield list \<Rightarrow> nat"
where
  "sizeof (Scalar s) = scalar_size s"
| "sizeof (Ptr _) = 8"
| "sizeof (EnumT _) = 4"
| "sizeof (Arr t n) = n * sizeof t"
| "sizeof (Struct pk fs) =
     round_up (struct_end pk fs 0) (8 * (if pk then 1 else fields_align fs)) div 8"
| "sizeof (Union pk fs) =
     round_up (union_end fs) (8 * (if pk then 1 else fields_align fs)) div 8"
| "alignof (Scalar s) = scalar_size s"
| "alignof (Ptr _) = 8"
| "alignof (EnumT _) = 4"
| "alignof (Arr t n) = alignof t"
| "alignof (Struct pk fs) = (if pk then 1 else fields_align fs)"
| "alignof (Union pk fs) = (if pk then 1 else fields_align fs)"
| "fields_align [] = 1"
| "fields_align (Field nm t # fs) = max (alignof t) (fields_align fs)"
| "fields_align (Bits nm t w # fs) =
     (if nm = [] then fields_align fs else max (alignof t) (fields_align fs))"
| "struct_end pk [] pos = pos"
| "struct_end pk (Field nm t # fs) pos =
     struct_end pk fs (place_bytes pk (alignof t) pos + 8 * sizeof t)"
| "struct_end pk (Bits nm t w # fs) pos =
     struct_end pk fs (place_bits pk (sizeof t) (alignof t) w pos + w)"
| "union_end [] = 0"
| "union_end (Field nm t # fs) = max (8 * sizeof t) (union_end fs)"
| "union_end (Bits nm t w # fs) = max w (union_end fs)"

text \<open>
  The layout of a structure: for each member its name, its type, its first bit and its width
  in bits, in declaration order.
\<close>

fun layout :: "bool \<Rightarrow> cfield list \<Rightarrow> nat \<Rightarrow> (string \<times> ctype \<times> nat \<times> nat) list" where
  "layout pk [] pos = []"
| "layout pk (Field nm t # fs) pos =
     (let st = place_bytes pk (alignof t) pos
      in (nm, t, st, 8 * sizeof t) # layout pk fs (st + 8 * sizeof t))"
| "layout pk (Bits nm t w # fs) pos =
     (let st = place_bits pk (sizeof t) (alignof t) w pos
      in (nm, t, st, w) # layout pk fs (st + w))"

text \<open>
  Member access \<open>x.nm\<close>: the bit offset and width of \<open>nm\<close>, searching the members of
  anonymous structures and unions as C11 does.
\<close>

fun member :: "ctype \<Rightarrow> string \<Rightarrow> (nat \<times> nat) option"
  and smember :: "bool \<Rightarrow> cfield list \<Rightarrow> nat \<Rightarrow> string \<Rightarrow> (nat \<times> nat) option"
  and umember :: "cfield list \<Rightarrow> string \<Rightarrow> (nat \<times> nat) option"
where
  "member (Struct pk fs) nm = smember pk fs 0 nm"
| "member (Union pk fs) nm = umember fs nm"
| "member _ nm = None"
| "smember pk [] pos nm = None"
| "smember pk (Field n t # fs) pos nm =
     (if n = nm then Some (place_bytes pk (alignof t) pos, 8 * sizeof t)
      else case (if n = [] then member t nm else None) of
          Some (o', w) \<Rightarrow> Some (place_bytes pk (alignof t) pos + o', w)
        | None \<Rightarrow> smember pk fs (place_bytes pk (alignof t) pos + 8 * sizeof t) nm)"
| "smember pk (Bits n t w # fs) pos nm =
     (if n = nm then Some (place_bits pk (sizeof t) (alignof t) w pos, w)
      else smember pk fs (place_bits pk (sizeof t) (alignof t) w pos + w) nm)"
| "umember [] nm = None"
| "umember (Field n t # fs) nm =
     (if n = nm then Some (0, 8 * sizeof t)
      else case (if n = [] then member t nm else None) of
          Some r \<Rightarrow> Some r
        | None \<Rightarrow> umember fs nm)"
| "umember (Bits n t w # fs) nm =
     (if n = nm then Some (0, w) else umember fs nm)"

definition offsetof :: "ctype \<Rightarrow> string \<Rightarrow> nat option" where
  "offsetof t nm = map_option (\<lambda>(o', w). o' div 8) (member t nm)"


lemma round_up_ge [simp]: "n \<le> round_up n a"
  by (simp add: round_up_def)

lemma round_up_dvd:
  assumes "0 < a"
  shows "a dvd round_up n a"
proof (cases "n mod a = 0")
  case False
  have "n + (a - n mod a) = (n div a + 1) * a"
    using div_mult_mod_eq[of n a] mod_less_divisor[OF assms, of n]
      distrib_right[of "n div a" 1 a] by linarith
  with False show ?thesis unfolding round_up_def by (metis dvd_triv_right)
qed (simp add: round_up_def mod_eq_0_iff_dvd)

lemma round_up_id: "a dvd n \<Longrightarrow> round_up n a = n"
  by (simp add: round_up_def)

lemma place_bytes_ge [simp]: "pos \<le> place_bytes pk al pos"
  by (simp add: place_bytes_def)

lemma place_bits_ge [simp]: "pos \<le> place_bits pk sz al w pos"
  by (simp add: place_bits_def)

lemma struct_end_ge: "pos \<le> struct_end pk fs pos"
proof (induction fs arbitrary: pos)
  case Nil
  then show ?case by simp
next
  case (Cons f fs)
  show ?case
  proof (cases f)
    case (Field nm t)
    have "pos \<le> place_bytes pk (alignof t) pos + 8 * sizeof t" by (rule trans_le_add1) simp
    also have "\<dots> \<le> struct_end pk (f # fs) pos" using Cons.IH Field by simp
    finally show ?thesis .
  next
    case (Bits nm t w)
    have "pos \<le> place_bits pk (sizeof t) (alignof t) w pos + w" by (rule trans_le_add1) simp
    also have "\<dots> \<le> struct_end pk (f # fs) pos" using Cons.IH Bits by simp
    finally show ?thesis .
  qed
qed

lemma fields_align_ge1 [simp]: "Suc 0 \<le> fields_align fs"
proof (induction fs)
  case (Cons f fs)
  then show ?case by (cases f) (auto simp: le_max_iff_disj)
qed simp

text \<open>Every member lies inside the structure, after all earlier members.\<close>

lemma layout_bounds:
  "(nm, t, st, w) \<in> set (layout pk fs pos) \<Longrightarrow> pos \<le> st \<and> st + w \<le> struct_end pk fs pos"
proof (induction fs arbitrary: pos)
  case Nil
  then show ?case by simp
next
  case (Cons f fs)
  show ?case
  proof (cases f)
    case (Field n u)
    let ?e = "place_bytes pk (alignof u) pos + 8 * sizeof u"
    have "pos \<le> ?e" by (rule trans_le_add1) simp
    with Cons Field show ?thesis
      using struct_end_ge[of ?e pk fs] by (fastforce simp: Let_def)
  next
    case (Bits n u k)
    let ?e = "place_bits pk (sizeof u) (alignof u) k pos + k"
    have "pos \<le> ?e" by (rule trans_le_add1) simp
    with Cons Bits show ?thesis
      using struct_end_ge[of ?e pk fs] by (fastforce simp: Let_def)
  qed
qed

lemma layout_sorted:
  "sorted_wrt (\<lambda>(_, _, st, w) (_, _, st', _). st + w \<le> st') (layout pk fs pos)"
proof (induction fs arbitrary: pos)
  case Nil
  then show ?case by simp
next
  case (Cons f fs)
  then show ?case
    by (cases f) (auto simp: Let_def dest: layout_bounds)
qed

lemma struct_end_le_sizeof: "struct_end pk fs 0 \<le> 8 * sizeof (Struct pk fs)"
proof -
  let ?a = "8 * (if pk then 1 else fields_align fs)"
  have "8 dvd ?a" by simp
  moreover have "?a dvd round_up (struct_end pk fs 0) ?a"
    using fields_align_ge1[of fs] by (intro round_up_dvd) (simp add: Suc_le_eq)
  ultimately have "8 dvd round_up (struct_end pk fs 0) ?a" by (rule dvd_trans)
  then show ?thesis by simp
qed

lemma layout_in_sizeof:
  "(nm, t, st, w) \<in> set (layout pk fs 0) \<Longrightarrow> st + w \<le> 8 * sizeof (Struct pk fs)"
  by (meson layout_bounds struct_end_le_sizeof le_trans)

text \<open>Every member lies at its natural alignment when the structure is not packed.\<close>

lemma layout_aligned:
  assumes "(nm, t, st, w) \<in> set (layout False fs pos)" "\<forall>u k. Bits nm u k \<notin> set fs" "0 < alignof t"
  shows "8 * alignof t dvd st"
  using assms
proof (induction fs arbitrary: pos)
  case (Cons f fs)
  then show ?case
    by (cases f) (auto simp: Let_def place_bytes_def round_up_dvd)
qed simp

text \<open>
  A structure without holes: the members' widths add up to its size, so its bytes are
  determined by its members.
\<close>

definition gapless :: "ctype \<Rightarrow> bool" where
  "gapless t = (case t of
      Struct pk fs \<Rightarrow> sum_list (map (\<lambda>(_, _, _, w). w) (layout pk fs 0)) = 8 * sizeof t
    | _ \<Rightarrow> True)"

subsection \<open>Reading a member through a pointer\<close>

text \<open>
  \<open>read_field t nm buf base\<close> is \<open>((t *)(buf + base))->nm\<close> for a member of whole bytes, and
  \<open>read_bits\<close> the same for a bit field inside one byte. \<^const>\<open>None\<close> is an access outside the
  buffer (or a member the structure does not have).
\<close>

definition read_field :: "ctype \<Rightarrow> string \<Rightarrow> byte list \<Rightarrow> nat \<Rightarrow> 'a::len word option" where
  "read_field t nm buf base = (case member t nm of
      None \<Rightarrow> None
    | Some (st, w) \<Rightarrow>
        if st mod 8 = 0 \<and> w = LENGTH('a) then load (w div 8) buf (base + st div 8) else None)"

definition read_bits :: "ctype \<Rightarrow> string \<Rightarrow> byte list \<Rightarrow> nat \<Rightarrow> 8 word option" where
  "read_bits t nm buf base = (case member t nm of
      None \<Rightarrow> None
    | Some (st, w) \<Rightarrow>
        if st mod 8 + w \<le> 8
        then map_option (\<lambda>b. take_bit w (drop_bit (st mod 8) b)) (load 1 buf (base + st div 8))
        else None)"

lemma read_field_member:
  "member t nm = Some (st, w) \<Longrightarrow> st mod 8 = 0 \<Longrightarrow> w = LENGTH('a::len) \<Longrightarrow>
   (read_field t nm buf base :: 'a word option) = load (w div 8) buf (base + st div 8)"
  by (simp add: read_field_def)

lemma read_bits_member:
  "member t nm = Some (st, w) \<Longrightarrow> st mod 8 + w \<le> 8 \<Longrightarrow>
   read_bits t nm buf base =
     map_option (\<lambda>b. take_bit w (drop_bit (st mod 8) b)) (load 1 buf (base + st div 8))"
  by (simp add: read_bits_def)

subsection \<open>Enumerations\<close>

text \<open>An enumeration is the list of its enumerators with their values, in source order.\<close>

type_synonym c_enum = "(string \<times> int) list"

definition enum_value :: "c_enum \<Rightarrow> string \<Rightarrow> int option" where
  "enum_value e nm = map_of e nm"

definition enum_wf :: "c_enum \<Rightarrow> bool" where
  "enum_wf e = distinct (map fst e)"

text \<open>
  Where the source writes no value, C gives an enumerator the previous value plus one (0 for
  the first).
\<close>

primrec enum_values :: "int \<Rightarrow> (string \<times> int option) list \<Rightarrow> c_enum" where
  "enum_values n [] = []"
| "enum_values n (d # ds) =
     (let v = (case snd d of None \<Rightarrow> n | Some v \<Rightarrow> v) in (fst d, v) # enum_values (v + 1) ds)"

lemma enum_value_mem: "enum_wf e \<Longrightarrow> (nm, v) \<in> set e \<Longrightarrow> enum_value e nm = Some v"
  by (simp add: enum_wf_def enum_value_def)

lemma map_fst_enum_values [simp]: "map fst (enum_values n ds) = map fst ds"
  by (induction ds arbitrary: n) (auto simp: Let_def)

end
