(* ===== verification/Vmlinux_Net.thy ===== *)
theory Vmlinux_Net
  imports CTypes
begin

text \<open>
  The part of \<^verbatim>\<open>nhp/ebpf/xdp/vmlinux.h\<close> the two BPF programs dereference: the fixed-width
  typedefs, the Ethernet, IPv4, TCP, UDP and ICMP headers, the contexts \<^verbatim>\<open>xdp_md\<close> and
  \<^verbatim>\<open>__sk_buff\<close> the programs are called with, and the verdicts they return. Each declaration
  is a constant named after it (\<^verbatim>\<open>struct iphdr\<close> is \<open>struct_iphdr\<close>), member by member; the
  lemmas evaluate the sizes and the offsets the programs use from those declarations.
\<close>

definition typedef___u8 :: ctype where
  "typedef___u8 = Scalar CUChar"

definition typedef___u16 :: ctype where
  "typedef___u16 = Scalar CUShort"

definition typedef___u32 :: ctype where
  "typedef___u32 = Scalar CUInt"

definition typedef___u64 :: ctype where
  "typedef___u64 = Scalar CULongLong"

definition typedef___be16 :: ctype where
  "typedef___be16 = typedef___u16"

definition typedef___be32 :: ctype where
  "typedef___be32 = typedef___u32"

definition typedef___sum16 :: ctype where
  "typedef___sum16 = typedef___u16"

definition struct_ethhdr :: ctype where
  "struct_ethhdr = Struct False [
     Field ''h_dest'' (Arr (Scalar CUChar) 6), Field ''h_source'' (Arr (Scalar CUChar) 6),
     Field ''h_proto'' typedef___be16]"

definition struct_iphdr :: ctype where
  "struct_iphdr = Struct False [
     Bits ''ihl'' typedef___u8 4, Bits ''version'' typedef___u8 4,
     Field ''tos'' typedef___u8, Field ''tot_len'' typedef___be16,
     Field ''id'' typedef___be16, Field ''frag_off'' typedef___be16,
     Field ''ttl'' typedef___u8, Field ''protocol'' typedef___u8,
     Field ''check'' typedef___sum16,
     Field '''' (Union False [Field '''' (Struct False [Field ''saddr'' typedef___be32, Field ''daddr'' typedef___be32]), Field ''addrs'' (Struct False [Field ''saddr'' typedef___be32, Field ''daddr'' typedef___be32])])]"

definition struct_tcphdr :: ctype where
  "struct_tcphdr = Struct False [
     Field ''source'' typedef___be16, Field ''dest'' typedef___be16,
     Field ''seq'' typedef___be32, Field ''ack_seq'' typedef___be32,
     Bits ''res1'' typedef___u16 4, Bits ''doff'' typedef___u16 4,
     Bits ''fin'' typedef___u16 1, Bits ''syn'' typedef___u16 1,
     Bits ''rst'' typedef___u16 1, Bits ''psh'' typedef___u16 1,
     Bits ''ack'' typedef___u16 1, Bits ''urg'' typedef___u16 1,
     Bits ''ece'' typedef___u16 1, Bits ''cwr'' typedef___u16 1,
     Field ''window'' typedef___be16, Field ''check'' typedef___sum16,
     Field ''urg_ptr'' typedef___be16]"

definition struct_udphdr :: ctype where
  "struct_udphdr = Struct False [
     Field ''source'' typedef___be16, Field ''dest'' typedef___be16,
     Field ''len'' typedef___be16, Field ''check'' typedef___sum16]"

definition struct_icmphdr :: ctype where
  "struct_icmphdr = Struct False [
     Field ''type'' typedef___u8, Field ''code'' typedef___u8,
     Field ''checksum'' typedef___sum16,
     Field ''un'' (Union False [Field ''echo'' (Struct False [Field ''id'' typedef___be16, Field ''sequence'' typedef___be16]), Field ''gateway'' typedef___be32, Field ''frag'' (Struct False [Field ''__unused'' typedef___be16, Field ''mtu'' typedef___be16]), Field ''reserved'' (Arr typedef___u8 4)])]"

definition struct_xdp_md :: ctype where
  "struct_xdp_md = Struct False [
     Field ''data'' typedef___u32, Field ''data_end'' typedef___u32,
     Field ''data_meta'' typedef___u32, Field ''ingress_ifindex'' typedef___u32,
     Field ''rx_queue_index'' typedef___u32, Field ''egress_ifindex'' typedef___u32]"

definition struct___sk_buff :: ctype where
  "struct___sk_buff = Struct False [
     Field ''len'' typedef___u32, Field ''pkt_type'' typedef___u32,
     Field ''mark'' typedef___u32, Field ''queue_mapping'' typedef___u32,
     Field ''protocol'' typedef___u32, Field ''vlan_present'' typedef___u32,
     Field ''vlan_tci'' typedef___u32, Field ''vlan_proto'' typedef___u32,
     Field ''priority'' typedef___u32, Field ''ingress_ifindex'' typedef___u32,
     Field ''ifindex'' typedef___u32, Field ''tc_index'' typedef___u32,
     Field ''cb'' (Arr typedef___u32 5), Field ''hash'' typedef___u32,
     Field ''tc_classid'' typedef___u32, Field ''data'' typedef___u32,
     Field ''data_end'' typedef___u32, Field ''napi_id'' typedef___u32,
     Field ''family'' typedef___u32, Field ''remote_ip4'' typedef___u32,
     Field ''local_ip4'' typedef___u32, Field ''remote_ip6'' (Arr typedef___u32 4),
     Field ''local_ip6'' (Arr typedef___u32 4), Field ''remote_port'' typedef___u32,
     Field ''local_port'' typedef___u32, Field ''data_meta'' typedef___u32,
     Field '''' (Union False [Field ''flow_keys'' (Ptr ''struct bpf_flow_keys'')]),
     Field ''tstamp'' typedef___u64, Field ''wire_len'' typedef___u32,
     Field ''gso_segs'' typedef___u32,
     Field '''' (Union False [Field ''sk'' (Ptr ''struct bpf_sock'')]),
     Field ''gso_size'' typedef___u32, Field ''tstamp_type'' typedef___u8,
     Field ''hwtstamp'' typedef___u64]"

definition enum_xdp_action :: c_enum where
  "enum_xdp_action = [
     (''XDP_ABORTED'', 0), (''XDP_DROP'', 1), (''XDP_PASS'', 2), (''XDP_TX'', 3),
     (''XDP_REDIRECT'', 4)]"

definition enum_tcx_action_base :: c_enum where
  "enum_tcx_action_base = [
     (''TCX_NEXT'', -1), (''TCX_PASS'', 0), (''TCX_DROP'', 2), (''TCX_REDIRECT'', 7)]"

subsection \<open>Sizes and offsets\<close>

lemma sizeof_struct_ethhdr [simp, size_simps]: "sizeof struct_ethhdr = 14"
  by code_simp

lemma member_ethhdr_h_proto: "member struct_ethhdr ''h_proto'' = Some (96, 16)"
  by code_simp

lemma sizeof_struct_iphdr [simp, size_simps]: "sizeof struct_iphdr = 20"
  by code_simp

lemma member_iphdr_ihl: "member struct_iphdr ''ihl'' = Some (0, 4)"
  by code_simp

lemma member_iphdr_version: "member struct_iphdr ''version'' = Some (4, 4)"
  by code_simp

lemma member_iphdr_tot_len: "member struct_iphdr ''tot_len'' = Some (16, 16)"
  by code_simp

lemma member_iphdr_protocol: "member struct_iphdr ''protocol'' = Some (72, 8)"
  by code_simp

lemma member_iphdr_saddr: "member struct_iphdr ''saddr'' = Some (96, 32)"
  by code_simp

lemma member_iphdr_daddr: "member struct_iphdr ''daddr'' = Some (128, 32)"
  by code_simp

lemma sizeof_struct_tcphdr [simp, size_simps]: "sizeof struct_tcphdr = 20"
  by code_simp

lemma member_tcphdr_source: "member struct_tcphdr ''source'' = Some (0, 16)"
  by code_simp

lemma member_tcphdr_dest: "member struct_tcphdr ''dest'' = Some (16, 16)"
  by code_simp

lemma sizeof_struct_udphdr [simp, size_simps]: "sizeof struct_udphdr = 8"
  by code_simp

lemma member_udphdr_source: "member struct_udphdr ''source'' = Some (0, 16)"
  by code_simp

lemma member_udphdr_dest: "member struct_udphdr ''dest'' = Some (16, 16)"
  by code_simp

lemma sizeof_struct_icmphdr [simp, size_simps]: "sizeof struct_icmphdr = 8"
  by code_simp

lemma member_icmphdr_type: "member struct_icmphdr ''type'' = Some (0, 8)"
  by code_simp

lemma member_icmphdr_code: "member struct_icmphdr ''code'' = Some (8, 8)"
  by code_simp

lemma sizeof_struct_xdp_md [simp, size_simps]: "sizeof struct_xdp_md = 24"
  by code_simp

lemma member_xdp_md_data: "member struct_xdp_md ''data'' = Some (0, 32)"
  by code_simp

lemma member_xdp_md_data_end: "member struct_xdp_md ''data_end'' = Some (32, 32)"
  by code_simp

lemma sizeof_struct___sk_buff [simp, size_simps]: "sizeof struct___sk_buff = 192"
  by code_simp

lemma member___sk_buff_data: "member struct___sk_buff ''data'' = Some (608, 32)"
  by code_simp

lemma member___sk_buff_data_end: "member struct___sk_buff ''data_end'' = Some (640, 32)"
  by code_simp

subsection \<open>Loads of header members\<close>

lemma read_ethhdr_h_proto [simp, load_simps]:
  "(read_field struct_ethhdr ''h_proto'' buf base :: 16 word option) = load 2 buf (base + 12)"
  by (simp add: read_field_member[OF member_ethhdr_h_proto])

lemma read_iphdr_ihl [simp, load_simps]:
  "read_bits struct_iphdr ''ihl'' buf base =
     map_option (\<lambda>b. take_bit 4 (drop_bit 0 b)) (load 1 buf (base + 0))"
  by (simp add: read_bits_member[OF member_iphdr_ihl])

lemma read_iphdr_version [simp, load_simps]:
  "read_bits struct_iphdr ''version'' buf base =
     map_option (\<lambda>b. take_bit 4 (drop_bit 4 b)) (load 1 buf (base + 0))"
  by (simp add: read_bits_member[OF member_iphdr_version])

lemma read_iphdr_tot_len [simp, load_simps]:
  "(read_field struct_iphdr ''tot_len'' buf base :: 16 word option) = load 2 buf (base + 2)"
  by (simp add: read_field_member[OF member_iphdr_tot_len])

lemma read_iphdr_protocol [simp, load_simps]:
  "(read_field struct_iphdr ''protocol'' buf base :: 8 word option) = load 1 buf (base + 9)"
  by (simp add: read_field_member[OF member_iphdr_protocol])

lemma read_iphdr_saddr [simp, load_simps]:
  "(read_field struct_iphdr ''saddr'' buf base :: 32 word option) = load 4 buf (base + 12)"
  by (simp add: read_field_member[OF member_iphdr_saddr])

lemma read_iphdr_daddr [simp, load_simps]:
  "(read_field struct_iphdr ''daddr'' buf base :: 32 word option) = load 4 buf (base + 16)"
  by (simp add: read_field_member[OF member_iphdr_daddr])

lemma read_tcphdr_source [simp, load_simps]:
  "(read_field struct_tcphdr ''source'' buf base :: 16 word option) = load 2 buf (base + 0)"
  by (simp add: read_field_member[OF member_tcphdr_source])

lemma read_tcphdr_dest [simp, load_simps]:
  "(read_field struct_tcphdr ''dest'' buf base :: 16 word option) = load 2 buf (base + 2)"
  by (simp add: read_field_member[OF member_tcphdr_dest])

lemma read_udphdr_source [simp, load_simps]:
  "(read_field struct_udphdr ''source'' buf base :: 16 word option) = load 2 buf (base + 0)"
  by (simp add: read_field_member[OF member_udphdr_source])

lemma read_udphdr_dest [simp, load_simps]:
  "(read_field struct_udphdr ''dest'' buf base :: 16 word option) = load 2 buf (base + 2)"
  by (simp add: read_field_member[OF member_udphdr_dest])

lemma read_icmphdr_type [simp, load_simps]:
  "(read_field struct_icmphdr ''type'' buf base :: 8 word option) = load 1 buf (base + 0)"
  by (simp add: read_field_member[OF member_icmphdr_type])

lemma read_icmphdr_code [simp, load_simps]:
  "(read_field struct_icmphdr ''code'' buf base :: 8 word option) = load 1 buf (base + 1)"
  by (simp add: read_field_member[OF member_icmphdr_code])

end
