(* ===== verification/Nhp_Maps.thy ===== *)
theory Nhp_Maps
  imports Vmlinux_Net
begin

text \<open>
  The map declarations of \<^verbatim>\<open>nhp_ebpf_xdp.c\<close> and \<^verbatim>\<open>tc_egress.c\<close>: the key and value structures as
  C declarations (which fix the bytes the kernel stores) and as records (which the programs
  compute with), and the translation between the two. A \<^verbatim>\<open>__be16\<close> or \<^verbatim>\<open>__be32\<close> member holds the
  value the little-endian load of its bytes gives, as in the C code.
\<close>

subsection \<open>Structures\<close>

definition struct_whitelist_key :: ctype where
  "struct_whitelist_key = Struct True [
     Field ''src_ip'' typedef___be32, Field ''dst_ip'' typedef___be32,
     Field ''dst_port'' typedef___be16, Field ''protocol'' typedef___u8]"

definition struct_src_port_list_key :: ctype where
  "struct_src_port_list_key = Struct True [
     Field ''src_ip'' typedef___be32, Field ''dst_port'' typedef___be16]"

definition struct_port_list_key :: ctype where
  "struct_port_list_key = Struct True [
     Field ''src_ip'' typedef___be32, Field ''min_port'' typedef___be16,
     Field ''max_port'' typedef___be16]"

definition struct_protocol_port_key :: ctype where
  "struct_protocol_port_key = Struct True [
     Field ''dst_port'' typedef___be16, Field ''protocol'' typedef___u8]"

definition struct_icmpwhitelist_key :: ctype where
  "struct_icmpwhitelist_key = Struct True [
     Field ''src_ip'' typedef___be32, Field ''dst_ip'' typedef___be32]"

definition struct_sdwhitelist_key :: ctype where
  "struct_sdwhitelist_key = Struct True [
     Field ''src_ip'' typedef___be32, Field ''dst_ip'' typedef___be32]"

definition struct_whitelist_value :: ctype where
  "struct_whitelist_value = Struct False [
     Field ''allowed'' typedef___u8, Field ''expire_time'' typedef___u64]"

definition struct_icmpwhitelist_value :: ctype where
  "struct_icmpwhitelist_value = Struct False [
     Field ''allowed'' typedef___u8, Field ''expire_time'' typedef___u64]"

definition struct_sdwhitelist_value :: ctype where
  "struct_sdwhitelist_value = Struct False [
     Field ''allowed'' typedef___u8, Field ''expire_time'' typedef___u64]"

definition struct_src_port_list_value :: ctype where
  "struct_src_port_list_value = Struct False [
     Field ''allowed'' typedef___u8, Field ''expire_time'' typedef___u64]"

definition struct_port_list_value :: ctype where
  "struct_port_list_value = Struct False [
     Field ''allowed'' typedef___u8, Field ''expire_time'' typedef___u64]"

definition struct_protocol_port_value :: ctype where
  "struct_protocol_port_value = Struct True [
     Field ''allowed'' typedef___u8, Field ''expire_time'' typedef___u64]"

text \<open>
  The connection key is declared with \<^verbatim>\<open>__packed\<close> behind its closing brace. No header of the program
  defines such a macro, so these words declare a variable of that name and the structure has the
  usual layout: 14 bytes of members and two bytes of padding.
\<close>

definition struct_ipv4_ct_tuple :: ctype where
  "struct_ipv4_ct_tuple = Struct False [
     Field ''daddr'' typedef___be32, Field ''saddr'' typedef___be32,
     Field ''dport'' typedef___be16, Field ''sport'' typedef___be16,
     Field ''nexthdr'' typedef___u8, Field ''flags'' typedef___u8]"

definition struct_conn_value :: ctype where
  "struct_conn_value = Struct False [
     Field ''timestamp'' typedef___u64, Field ''last_timestamp'' typedef___u64,
     Field ''ttl_ns'' typedef___u64, Field ''state'' typedef___u8,
     Field ''flags'' typedef___u8, Field ''rx_packets'' typedef___u32,
     Field ''tx_packets'' typedef___u32]"

definition struct_event_t :: ctype where
  "struct_event_t = Struct True [
     Field ''timestamp'' typedef___u64, Field ''action'' typedef___u8,
     Field ''src_ip'' typedef___be32, Field ''dst_ip'' typedef___be32,
     Field ''src_port'' typedef___be16, Field ''dst_port'' typedef___be16,
     Field ''protocol'' typedef___u8, Field ''len'' typedef___be16]"

lemma sizeof_maps [simp, size_simps]:
  "sizeof struct_whitelist_key = 11"
  "sizeof struct_src_port_list_key = 6"
  "sizeof struct_port_list_key = 8"
  "sizeof struct_protocol_port_key = 3"
  "sizeof struct_icmpwhitelist_key = 8"
  "sizeof struct_sdwhitelist_key = 8"
  "sizeof struct_whitelist_value = 16"
  "sizeof struct_icmpwhitelist_value = 16"
  "sizeof struct_sdwhitelist_value = 16"
  "sizeof struct_src_port_list_value = 16"
  "sizeof struct_port_list_value = 16"
  "sizeof struct_protocol_port_value = 9"
  "sizeof struct_ipv4_ct_tuple = 16"
  "sizeof struct_conn_value = 40"
  "sizeof struct_event_t = 24"
  by code_simp+

subsection \<open>Maps\<close>

text \<open>The maps of the \<^verbatim>\<open>.maps\<close> sections, named as in the source.\<close>

datatype bpf_map =
    Spp | Src_port | Icmpwhitelist | Sdwhitelist | Port_list | Protocol_port
  | Conn_track | Events

text \<open>The maps in the order of their declarations, so that statements over all maps can be computed.\<close>

instantiation bpf_map :: enum
begin

definition enum_bpf_map :: "bpf_map list" where
  "enum_bpf_map = [Spp, Src_port, Icmpwhitelist, Sdwhitelist, Port_list, Protocol_port, Conn_track, Events]"

definition enum_all_bpf_map :: "(bpf_map \<Rightarrow> bool) \<Rightarrow> bool" where
  "enum_all_bpf_map P = list_all P enum_class.enum"

definition enum_ex_bpf_map :: "(bpf_map \<Rightarrow> bool) \<Rightarrow> bool" where
  "enum_ex_bpf_map P = list_ex P enum_class.enum"

instance
proof
  show univ: "UNIV = set (enum_class.enum :: bpf_map list)"
    by (auto simp: enum_bpf_map_def intro: bpf_map.exhaust)
  show "distinct (enum_class.enum :: bpf_map list)" by (simp add: enum_bpf_map_def)
  show "enum_class.enum_all P \<longleftrightarrow> Ball UNIV P" for P :: "bpf_map \<Rightarrow> bool"
    by (simp add: enum_all_bpf_map_def list_all_iff univ)
  show "enum_class.enum_ex P \<longleftrightarrow> Bex UNIV P" for P :: "bpf_map \<Rightarrow> bool"
    by (simp add: enum_ex_bpf_map_def list_ex_iff univ)
qed

end

record map_decl =
  md_type :: string
  md_key :: "ctype option"
  md_value :: "ctype option"
  md_max_entries :: nat
  md_pinned :: bool

definition MAX_ENTRIES :: nat where
  "MAX_ENTRIES = 1000000"

definition spp_map :: map_decl where
  "spp_map = \<lparr>md_type = ''BPF_MAP_TYPE_LRU_HASH'', md_key = Some struct_whitelist_key,
     md_value = Some struct_whitelist_value, md_max_entries = MAX_ENTRIES, md_pinned = True\<rparr>"

definition src_port_map :: map_decl where
  "src_port_map = \<lparr>md_type = ''BPF_MAP_TYPE_LRU_HASH'', md_key = Some struct_src_port_list_key,
     md_value = Some struct_src_port_list_value, md_max_entries = MAX_ENTRIES, md_pinned = True\<rparr>"

definition icmpwhitelist_map :: map_decl where
  "icmpwhitelist_map = \<lparr>md_type = ''BPF_MAP_TYPE_HASH'', md_key = Some struct_icmpwhitelist_key,
     md_value = Some struct_icmpwhitelist_value, md_max_entries = MAX_ENTRIES, md_pinned = True\<rparr>"

definition sdwhitelist_map :: map_decl where
  "sdwhitelist_map = \<lparr>md_type = ''BPF_MAP_TYPE_LRU_HASH'', md_key = Some struct_sdwhitelist_key,
     md_value = Some struct_sdwhitelist_value, md_max_entries = MAX_ENTRIES, md_pinned = True\<rparr>"

definition port_list_map :: map_decl where
  "port_list_map = \<lparr>md_type = ''BPF_MAP_TYPE_LRU_HASH'', md_key = Some struct_port_list_key,
     md_value = Some struct_port_list_value, md_max_entries = MAX_ENTRIES, md_pinned = True\<rparr>"

definition protocol_port_map :: map_decl where
  "protocol_port_map = \<lparr>md_type = ''BPF_MAP_TYPE_LRU_HASH'', md_key = Some struct_protocol_port_key,
     md_value = Some struct_protocol_port_value, md_max_entries = MAX_ENTRIES, md_pinned = True\<rparr>"

definition conn_track_map :: map_decl where
  "conn_track_map = \<lparr>md_type = ''BPF_MAP_TYPE_LRU_HASH'', md_key = Some struct_ipv4_ct_tuple,
     md_value = Some struct_conn_value, md_max_entries = MAX_ENTRIES, md_pinned = True\<rparr>"

definition events_map :: map_decl where
  "events_map = \<lparr>md_type = ''BPF_MAP_TYPE_PERF_EVENT_ARRAY'', md_key = None,
     md_value = None, md_max_entries = 1024, md_pinned = False\<rparr>"

fun map_decl_of :: "bpf_map \<Rightarrow> map_decl" where
  "map_decl_of Spp = spp_map"
| "map_decl_of Src_port = src_port_map"
| "map_decl_of Icmpwhitelist = icmpwhitelist_map"
| "map_decl_of Sdwhitelist = sdwhitelist_map"
| "map_decl_of Port_list = port_list_map"
| "map_decl_of Protocol_port = protocol_port_map"
| "map_decl_of Conn_track = conn_track_map"
| "map_decl_of Events = events_map"

text \<open>The name of a map, under which \<^verbatim>\<open>LIBBPF_PIN_BY_NAME\<close> pins it.\<close>

fun map_name :: "bpf_map \<Rightarrow> string" where
  "map_name Spp = ''spp''"
| "map_name Src_port = ''src_port''"
| "map_name Icmpwhitelist = ''icmpwhitelist''"
| "map_name Sdwhitelist = ''sdwhitelist''"
| "map_name Port_list = ''port_list''"
| "map_name Protocol_port = ''protocol_port''"
| "map_name Conn_track = ''conn_track''"
| "map_name Events = ''events''"

definition key_size :: "bpf_map \<Rightarrow> nat" where
  "key_size m = (case md_key (map_decl_of m) of Some t \<Rightarrow> sizeof t | None \<Rightarrow> 0)"

definition value_size :: "bpf_map \<Rightarrow> nat" where
  "value_size m = (case md_value (map_decl_of m) of Some t \<Rightarrow> sizeof t | None \<Rightarrow> 0)"

lemmas map_decl_defs = spp_map_def src_port_map_def icmpwhitelist_map_def sdwhitelist_map_def
  port_list_map_def protocol_port_map_def conn_track_map_def events_map_def

lemma key_sizes [simp, size_simps]:
  "key_size Spp = 11" "key_size Src_port = 6" "key_size Icmpwhitelist = 8"
  "key_size Sdwhitelist = 8" "key_size Port_list = 8" "key_size Protocol_port = 3"
  "key_size Conn_track = 16"
  by (simp_all add: key_size_def map_decl_defs)

lemma value_sizes [simp, size_simps]:
  "value_size Spp = 16" "value_size Src_port = 16" "value_size Icmpwhitelist = 16"
  "value_size Sdwhitelist = 16" "value_size Port_list = 16" "value_size Protocol_port = 9"
  "value_size Conn_track = 40"
  by (simp_all add: value_size_def map_decl_defs)

subsection \<open>Keys\<close>

record whitelist_key =
  wk_src_ip :: "32 word"
  wk_dst_ip :: "32 word"
  wk_dst_port :: "16 word"
  wk_protocol :: "8 word"

record src_port_list_key =
  sk_src_ip :: "32 word"
  sk_dst_port :: "16 word"

record port_list_key =
  lk_src_ip :: "32 word"
  lk_min_port :: "16 word"
  lk_max_port :: "16 word"

record protocol_port_key =
  pk_dst_port :: "16 word"
  pk_protocol :: "8 word"

text \<open>\<^verbatim>\<open>struct icmpwhitelist_key\<close> and \<^verbatim>\<open>struct sdwhitelist_key\<close> have the same members.\<close>

record ip_pair_key =
  ik_src_ip :: "32 word"
  ik_dst_ip :: "32 word"

record ipv4_ct_tuple =
  ct_daddr :: "32 word"
  ct_saddr :: "32 word"
  ct_dport :: "16 word"
  ct_sport :: "16 word"
  ct_nexthdr :: "8 word"
  ct_flags :: "8 word"

definition enc_whitelist_key :: "whitelist_key \<Rightarrow> byte list" where
  "enc_whitelist_key k = le_bytes 4 (wk_src_ip k) @ le_bytes 4 (wk_dst_ip k) @
     le_bytes 2 (wk_dst_port k) @ le_bytes 1 (wk_protocol k)"

definition enc_src_port_list_key :: "src_port_list_key \<Rightarrow> byte list" where
  "enc_src_port_list_key k = le_bytes 4 (sk_src_ip k) @ le_bytes 2 (sk_dst_port k)"

definition enc_port_list_key :: "port_list_key \<Rightarrow> byte list" where
  "enc_port_list_key k = le_bytes 4 (lk_src_ip k) @ le_bytes 2 (lk_min_port k) @
     le_bytes 2 (lk_max_port k)"

definition enc_protocol_port_key :: "protocol_port_key \<Rightarrow> byte list" where
  "enc_protocol_port_key k = le_bytes 2 (pk_dst_port k) @ le_bytes 1 (pk_protocol k)"

definition enc_ip_pair_key :: "ip_pair_key \<Rightarrow> byte list" where
  "enc_ip_pair_key k = le_bytes 4 (ik_src_ip k) @ le_bytes 4 (ik_dst_ip k)"

text \<open>The program zeroes the whole connection key, padding included, before it fills in the members.\<close>

definition enc_ct_tuple :: "ipv4_ct_tuple \<Rightarrow> byte list" where
  "enc_ct_tuple k = le_bytes 4 (ct_daddr k) @ le_bytes 4 (ct_saddr k) @
     le_bytes 2 (ct_dport k) @ le_bytes 2 (ct_sport k) @
     le_bytes 1 (ct_nexthdr k) @ le_bytes 1 (ct_flags k) @ replicate 2 0"

lemmas enc_key_defs = enc_whitelist_key_def enc_src_port_list_key_def enc_port_list_key_def
  enc_protocol_port_key_def enc_ip_pair_key_def enc_ct_tuple_def

lemma length_enc_keys [simp]:
  "length (enc_whitelist_key wk) = 11"
  "length (enc_src_port_list_key sk) = 6"
  "length (enc_port_list_key lk) = 8"
  "length (enc_protocol_port_key pk) = 3"
  "length (enc_ip_pair_key ik) = 8"
  "length (enc_ct_tuple ct) = 16"
  by (simp_all add: enc_key_defs)

text \<open>Two keys are the same bytes only when they are the same key.\<close>

lemma le_bytes_eq_iff [simp]:
  "le_bytes 4 (a :: 32 word) = le_bytes 4 b \<longleftrightarrow> a = b"
  "le_bytes 2 (c :: 16 word) = le_bytes 2 d \<longleftrightarrow> c = d"
  "le_bytes (Suc 0) (e :: 8 word) = le_bytes (Suc 0) f \<longleftrightarrow> e = f"
  "le_bytes 8 (g :: 64 word) = le_bytes 8 h \<longleftrightarrow> g = h"
  by (auto dest: le_bytes_inj[rotated])

lemma enc_keys_inj [simp]:
  "enc_whitelist_key a = enc_whitelist_key b \<longleftrightarrow> a = b"
  "enc_src_port_list_key c = enc_src_port_list_key d \<longleftrightarrow> c = d"
  "enc_port_list_key e = enc_port_list_key f \<longleftrightarrow> e = f"
  "enc_protocol_port_key g = enc_protocol_port_key h \<longleftrightarrow> g = h"
  "enc_ip_pair_key i = enc_ip_pair_key j \<longleftrightarrow> i = j"
  "enc_ct_tuple k = enc_ct_tuple l \<longleftrightarrow> k = l"
  by (auto simp: enc_key_defs)

subsection \<open>Values\<close>

text \<open>
  The six allow-list value structures have the same two members at different offsets: the
  seven padding bytes after \<^verbatim>\<open>allowed\<close> are absent from the packed \<^verbatim>\<open>struct protocol_port_value\<close>.
  The programs read them through their declaration. C leaves the padding bytes of a value
  unspecified and nothing reads them; the encoders write zeros there.
\<close>

record acl_value =
  av_allowed :: "8 word"
  av_expire_time :: "64 word"

definition dec_acl_value :: "ctype \<Rightarrow> byte list \<Rightarrow> acl_value option" where
  "dec_acl_value t v = do {
     a \<leftarrow> read_field t ''allowed'' v 0;
     e \<leftarrow> read_field t ''expire_time'' v 0;
     Some \<lparr>av_allowed = a, av_expire_time = e\<rparr>
   }"

definition enc_whitelist_value :: "acl_value \<Rightarrow> byte list" where
  "enc_whitelist_value v =
     le_bytes 1 (av_allowed v) @ replicate 7 0 @ le_bytes 8 (av_expire_time v)"

definition enc_protocol_port_value :: "acl_value \<Rightarrow> byte list" where
  "enc_protocol_port_value v = le_bytes 1 (av_allowed v) @ le_bytes 8 (av_expire_time v)"

record conn_value =
  cv_timestamp :: "64 word"
  cv_last_timestamp :: "64 word"
  cv_ttl_ns :: "64 word"
  cv_state :: "8 word"
  cv_flags :: "8 word"
  cv_rx_packets :: "32 word"
  cv_tx_packets :: "32 word"

definition dec_conn_value :: "byte list \<Rightarrow> conn_value option" where
  "dec_conn_value v = do {
     ts \<leftarrow> read_field struct_conn_value ''timestamp'' v 0;
     lts \<leftarrow> read_field struct_conn_value ''last_timestamp'' v 0;
     ttl \<leftarrow> read_field struct_conn_value ''ttl_ns'' v 0;
     st \<leftarrow> read_field struct_conn_value ''state'' v 0;
     fl \<leftarrow> read_field struct_conn_value ''flags'' v 0;
     rx \<leftarrow> read_field struct_conn_value ''rx_packets'' v 0;
     tx \<leftarrow> read_field struct_conn_value ''tx_packets'' v 0;
     Some \<lparr>cv_timestamp = ts, cv_last_timestamp = lts, cv_ttl_ns = ttl, cv_state = st,
           cv_flags = fl, cv_rx_packets = rx, cv_tx_packets = tx\<rparr>
   }"

definition enc_conn_value :: "conn_value \<Rightarrow> byte list" where
  "enc_conn_value v =
     le_bytes 8 (cv_timestamp v) @ le_bytes 8 (cv_last_timestamp v) @ le_bytes 8 (cv_ttl_ns v) @
     le_bytes 1 (cv_state v) @ le_bytes 1 (cv_flags v) @ replicate 2 0 @
     le_bytes 4 (cv_rx_packets v) @ le_bytes 4 (cv_tx_packets v) @ replicate 4 0"

lemma members_acl_value:
  "t \<in> {struct_whitelist_value, struct_icmpwhitelist_value, struct_sdwhitelist_value,
        struct_src_port_list_value, struct_port_list_value} \<Longrightarrow>
   member t ''allowed'' = Some (0, 8) \<and> member t ''expire_time'' = Some (64, 64)"
  by (elim insertE emptyE; hypsubst; code_simp)

lemma members_protocol_port_value:
  "member struct_protocol_port_value ''allowed'' = Some (0, 8)"
  "member struct_protocol_port_value ''expire_time'' = Some (8, 64)"
  by code_simp+

lemma members_conn_value:
  "member struct_conn_value ''timestamp'' = Some (0, 64)"
  "member struct_conn_value ''last_timestamp'' = Some (64, 64)"
  "member struct_conn_value ''ttl_ns'' = Some (128, 64)"
  "member struct_conn_value ''state'' = Some (192, 8)"
  "member struct_conn_value ''flags'' = Some (200, 8)"
  "member struct_conn_value ''rx_packets'' = Some (224, 32)"
  "member struct_conn_value ''tx_packets'' = Some (256, 32)"
  by code_simp+

lemma dec_acl_value_load:
  assumes "t \<in> {struct_whitelist_value, struct_icmpwhitelist_value, struct_sdwhitelist_value,
        struct_src_port_list_value, struct_port_list_value}"
  shows "dec_acl_value t v = do {
     a \<leftarrow> load 1 v 0; e \<leftarrow> load 8 v 8; Some \<lparr>av_allowed = a, av_expire_time = e\<rparr> }"
  using members_acl_value[OF assms] by (simp add: dec_acl_value_def read_field_member)

lemma dec_acl_value_packed_load:
  "dec_acl_value struct_protocol_port_value v = do {
     a \<leftarrow> load 1 v 0; e \<leftarrow> load 8 v 1; Some \<lparr>av_allowed = a, av_expire_time = e\<rparr> }"
  by (simp add: dec_acl_value_def read_field_member members_protocol_port_value)

lemma dec_conn_value_load:
  "dec_conn_value v = do {
     ts \<leftarrow> load 8 v 0; lts \<leftarrow> load 8 v 8; ttl \<leftarrow> load 8 v 16; st \<leftarrow> load 1 v 24;
     fl \<leftarrow> load 1 v 25; rx \<leftarrow> load 4 v 28; tx \<leftarrow> load 4 v 32;
     Some \<lparr>cv_timestamp = ts, cv_last_timestamp = lts, cv_ttl_ns = ttl, cv_state = st,
           cv_flags = fl, cv_rx_packets = rx, cv_tx_packets = tx\<rparr> }"
  by (simp add: dec_conn_value_def read_field_member members_conn_value)

lemma length_enc_values [simp]:
  "length (enc_whitelist_value v) = 16"
  "length (enc_protocol_port_value v) = 9"
  "length (enc_conn_value c) = 40"
  by (simp_all add: enc_whitelist_value_def enc_protocol_port_value_def enc_conn_value_def)

text \<open>Decoding never fails on a value of the declared size, and undoes the encoding.\<close>

lemma dec_acl_value_sized:
  assumes "t \<in> {struct_whitelist_value, struct_icmpwhitelist_value, struct_sdwhitelist_value,
        struct_src_port_list_value, struct_port_list_value}" "length v = 16"
  shows "\<exists>x. dec_acl_value t v = Some x"
  using assms(2) by (simp add: dec_acl_value_load[OF assms(1)] load_Some)

lemma dec_acl_value_packed_sized:
  "length v = 9 \<Longrightarrow> \<exists>x. dec_acl_value struct_protocol_port_value v = Some x"
  by (simp add: dec_acl_value_packed_load load_Some)

lemma dec_conn_value_sized: "length v = 40 \<Longrightarrow> \<exists>x. dec_conn_value v = Some x"
  by (simp add: dec_conn_value_load load_Some)

lemma le_word_bytes:
  "le_word (le_bytes 8 x) = (x :: 64 word)"
  "le_word (le_bytes 4 y) = (y :: 32 word)"
  "le_word (le_bytes 2 z) = (z :: 16 word)"
  "le_word (le_bytes (Suc 0) b) = (b :: 8 word)"
  by (simp_all add: le_word_le_bytes)

lemma dec_enc_whitelist_value [simp]:
  assumes "t \<in> {struct_whitelist_value, struct_icmpwhitelist_value, struct_sdwhitelist_value,
        struct_src_port_list_value, struct_port_list_value}"
  shows "dec_acl_value t (enc_whitelist_value v) = Some v"
  by (simp add: dec_acl_value_load[OF assms] load_Some enc_whitelist_value_def le_word_bytes)

lemma dec_enc_protocol_port_value [simp]:
  "dec_acl_value struct_protocol_port_value (enc_protocol_port_value v) = Some v"
  by (simp add: dec_acl_value_packed_load load_Some enc_protocol_port_value_def le_word_bytes)

lemma dec_enc_conn_value [simp]: "dec_conn_value (enc_conn_value v) = Some v"
  by (simp add: dec_conn_value_load load_Some enc_conn_value_def le_word_bytes)

end
