(* ===== verification/Bpf_Kernel.thy ===== *)
theory Bpf_Kernel
  imports Nhp_Maps
begin

text \<open>
  The BPF helper functions are kernel code, not part of the repository. The programs are
  modelled over an interface: a record of the helpers they call, over a kernel state type of
  its own, passed to every definition. What the programs rely on is the contract
  \<open>bpf_kernel_contract\<close>, the documented behaviour of the helpers: lookups return the current
  entry, an update that returns 0 stores it, LRU maps may evict any other entry, deletes
  remove, the clock is monotone. \<open>bpf_kernel_roomy\<close> adds that allocation succeeds. A small
  reference kernel shows that the contract can be met and lets the model run.
\<close>

record 's bpf_kernel =
  bpf_map_lookup_elem :: "bpf_map \<Rightarrow> byte list \<Rightarrow> 's \<Rightarrow> byte list option \<times> 's"
  bpf_map_update_elem :: "bpf_map \<Rightarrow> byte list \<Rightarrow> byte list \<Rightarrow> 64 word \<Rightarrow> 's \<Rightarrow> int \<times> 's"
  bpf_map_delete_elem :: "bpf_map \<Rightarrow> byte list \<Rightarrow> 's \<Rightarrow> int \<times> 's"
  bpf_ktime_get_ns :: "'s \<Rightarrow> 64 word \<times> 's"
  bpf_perf_event_output :: "bpf_map \<Rightarrow> 64 word \<Rightarrow> byte list \<Rightarrow> 's \<Rightarrow> int \<times> 's"

definition BPF_ANY :: "64 word" where "BPF_ANY = 0"
definition BPF_EXIST :: "64 word" where "BPF_EXIST = 2"
definition BPF_F_CURRENT_CPU :: "64 word" where "BPF_F_CURRENT_CPU = 4294967295"

text \<open>
  \<open>contents s m k\<close> is the value map \<open>m\<close> holds under key \<open>k\<close> in kernel state \<open>s\<close>,
  \<open>clock s\<close> the last time that was read and \<open>events s\<close> the records handed to the perf buffer.
\<close>

locale bpf_kernel_contract =
  fixes K :: "'s bpf_kernel"
    and contents :: "'s \<Rightarrow> bpf_map \<Rightarrow> byte list \<Rightarrow> byte list option"
    and clock :: "'s \<Rightarrow> 64 word"
    and events :: "'s \<Rightarrow> byte list list"
  assumes entry_sized:
      "contents s m k = Some v \<Longrightarrow> length k = key_size m \<and> length v = value_size m"
    and lookup_result: "fst (bpf_map_lookup_elem K m k s) = contents s m k"
    and lookup_frame:
      "contents (snd (bpf_map_lookup_elem K m k s)) = contents s"
      "clock (snd (bpf_map_lookup_elem K m k s)) = clock s"
      "events (snd (bpf_map_lookup_elem K m k s)) = events s"
    and update_ok:
      "fst (bpf_map_update_elem K m k v fl s) = 0 \<Longrightarrow>
       contents (snd (bpf_map_update_elem K m k v fl s)) m k = Some v"
    and update_failed:
      "fst (bpf_map_update_elem K m k v fl s) \<noteq> 0 \<Longrightarrow>
       contents (snd (bpf_map_update_elem K m k v fl s)) m k = contents s m k"
    and update_other_keys:
      "k' \<noteq> k \<Longrightarrow>
       contents (snd (bpf_map_update_elem K m k v fl s)) m k' = contents s m k' \<or>
       contents (snd (bpf_map_update_elem K m k v fl s)) m k' = None"
    and update_other_maps:
      "m' \<noteq> m \<Longrightarrow> contents (snd (bpf_map_update_elem K m k v fl s)) m' = contents s m'"
    and update_frame:
      "clock (snd (bpf_map_update_elem K m k v fl s)) = clock s"
      "events (snd (bpf_map_update_elem K m k v fl s)) = events s"
    and delete_contents:
      "contents (snd (bpf_map_delete_elem K m k s)) = (contents s)(m := (contents s m)(k := None))"
    and delete_frame:
      "clock (snd (bpf_map_delete_elem K m k s)) = clock s"
      "events (snd (bpf_map_delete_elem K m k s)) = events s"
    and ktime_clock:
      "clock (snd (bpf_ktime_get_ns K s)) = fst (bpf_ktime_get_ns K s)"
      "clock s \<le> fst (bpf_ktime_get_ns K s)"
    and ktime_frame:
      "contents (snd (bpf_ktime_get_ns K s)) = contents s"
      "events (snd (bpf_ktime_get_ns K s)) = events s"
    and perf_frame:
      "contents (snd (bpf_perf_event_output K m fl ev s)) = contents s"
      "clock (snd (bpf_perf_event_output K m fl ev s)) = clock s"
    and perf_events:
      "events (snd (bpf_perf_event_output K m fl ev s)) = events s \<or>
       events (snd (bpf_perf_event_output K m fl ev s)) = events s @ [ev]"
begin

lemmas frames = lookup_result lookup_frame update_frame update_other_maps delete_contents delete_frame
  ktime_clock(1) ktime_frame perf_frame

text \<open>An entry after an update is the new one or was there before.\<close>

lemma update_entry_cases:
  assumes "contents (snd (bpf_map_update_elem K m k v fl s)) m' k' = Some w"
  shows "m' = m \<and> k' = k \<and> w = v \<or> contents s m' k' = Some w"
  using assms update_ok[of m k v fl s] update_failed[of m k v fl s]
    update_other_keys[of k' k m v fl s] update_other_maps[of m' m k v fl s]
  by (cases "m' = m"; cases "k' = k"; cases "fst (bpf_map_update_elem K m k v fl s) = 0") auto

lemma delete_entry:
  assumes "contents (snd (bpf_map_delete_elem K m k s)) m' k' = Some w"
  shows "contents s m' k' = Some w \<and> (m', k') \<noteq> (m, k)"
  using assms by (auto simp: delete_contents split: if_splits)

end

locale bpf_kernel_roomy = bpf_kernel_contract +
  assumes update_any_succeeds:
      "length k = key_size m \<Longrightarrow> length v = value_size m \<Longrightarrow>
       fst (bpf_map_update_elem K m k v BPF_ANY s) = 0"
    and update_exist_succeeds:
      "length v = value_size m \<Longrightarrow> contents s m k \<noteq> None \<Longrightarrow>
       fst (bpf_map_update_elem K m k v BPF_EXIST s) = 0"
    and no_eviction:
      "k' \<noteq> k \<Longrightarrow> contents (snd (bpf_map_update_elem K m k v fl s)) m k' = contents s m k'"
    and perf_delivers:
      "events (snd (bpf_perf_event_output K m fl ev s)) = events s @ [ev]"
begin

lemma update_any_contents:
  assumes "length k = key_size m" "length v = value_size m"
  shows "contents (snd (bpf_map_update_elem K m k v BPF_ANY s)) =
    (contents s)(m := (contents s m)(k := Some v))"
proof (intro ext)
  fix m' k'
  show "contents (snd (bpf_map_update_elem K m k v BPF_ANY s)) m' k' =
      ((contents s)(m := (contents s m)(k := Some v))) m' k'"
    using assms update_ok[OF update_any_succeeds, of k m v s] no_eviction[of k' k m v BPF_ANY s]
      update_other_maps[of m' m k v BPF_ANY s]
    by (cases "m' = m"; cases "k' = k") auto
qed

lemma update_exist_contents:
  assumes "length v = value_size m" "contents s m k \<noteq> None"
  shows "contents (snd (bpf_map_update_elem K m k v BPF_EXIST s)) =
    (contents s)(m := (contents s m)(k := Some v))"
proof (intro ext)
  fix m' k'
  show "contents (snd (bpf_map_update_elem K m k v BPF_EXIST s)) m' k' =
      ((contents s)(m := (contents s m)(k := Some v))) m' k'"
    using assms update_ok[OF update_exist_succeeds, of v m s k] no_eviction[of k' k m v BPF_EXIST s]
      update_other_maps[of m' m k v BPF_EXIST s]
    by (cases "m' = m"; cases "k' = k") auto
qed

end

subsection \<open>A reference kernel\<close>

text \<open>
  The smallest kernel that honours the contract: maps as functions from keys to values, a
  clock that advances by a fixed amount at every reading (and stops before it would wrap), and
  a log. Entries of the wrong size are refused with \<^verbatim>\<open>-EINVAL\<close>, \<^verbatim>\<open>BPF_EXIST\<close> on a missing key with
  \<^verbatim>\<open>-ENOENT\<close>. It is used to run the model on concrete inputs, never by a program definition.
\<close>

record ref_state =
  rs_store :: "bpf_map \<Rightarrow> byte list \<Rightarrow> byte list option"
  rs_clock :: "64 word"
  rs_tick :: "64 word"
  rs_events :: "byte list list"

definition ref_contents :: "ref_state \<Rightarrow> bpf_map \<Rightarrow> byte list \<Rightarrow> byte list option" where
  "ref_contents s m k = (case rs_store s m k of
      None \<Rightarrow> None
    | Some v \<Rightarrow> if length k = key_size m \<and> length v = value_size m then Some v else None)"

definition ref_lookup :: "bpf_map \<Rightarrow> byte list \<Rightarrow> ref_state \<Rightarrow> byte list option \<times> ref_state" where
  "ref_lookup m k s = (ref_contents s m k, s)"

definition ref_update ::
  "bpf_map \<Rightarrow> byte list \<Rightarrow> byte list \<Rightarrow> 64 word \<Rightarrow> ref_state \<Rightarrow> int \<times> ref_state" where
  "ref_update m k v fl s =
     (if length k \<noteq> key_size m \<or> length v \<noteq> value_size m then (-22, s)
      else if fl = BPF_EXIST \<and> ref_contents s m k = None then (-2, s)
      else (0, s\<lparr>rs_store := (rs_store s)(m := (rs_store s m)(k := Some v))\<rparr>))"

definition ref_delete :: "bpf_map \<Rightarrow> byte list \<Rightarrow> ref_state \<Rightarrow> int \<times> ref_state" where
  "ref_delete m k s =
     (if ref_contents s m k = None then -2 else 0,
      s\<lparr>rs_store := (rs_store s)(m := (rs_store s m)(k := None))\<rparr>)"

definition ref_ktime :: "ref_state \<Rightarrow> 64 word \<times> ref_state" where
  "ref_ktime s =
     (let t = (if rs_clock s \<le> rs_clock s + rs_tick s then rs_clock s + rs_tick s else rs_clock s)
      in (t, s\<lparr>rs_clock := t\<rparr>))"

definition ref_perf :: "bpf_map \<Rightarrow> 64 word \<Rightarrow> byte list \<Rightarrow> ref_state \<Rightarrow> int \<times> ref_state" where
  "ref_perf m fl ev s = (0, s\<lparr>rs_events := rs_events s @ [ev]\<rparr>)"

definition ref_kernel :: "ref_state bpf_kernel" where
  "ref_kernel = \<lparr>bpf_map_lookup_elem = ref_lookup, bpf_map_update_elem = ref_update,
     bpf_map_delete_elem = ref_delete, bpf_ktime_get_ns = ref_ktime,
     bpf_perf_event_output = ref_perf\<rparr>"

lemmas ref_kernel_defs = ref_kernel_def ref_contents_def ref_lookup_def ref_update_def
  ref_delete_def ref_ktime_def ref_perf_def

interpretation rk: bpf_kernel_contract ref_kernel ref_contents rs_clock rs_events
  by unfold_locales
    (auto simp: ref_kernel_defs Let_def fun_eq_iff split: option.splits if_splits)

interpretation rkr: bpf_kernel_roomy ref_kernel ref_contents rs_clock rs_events
  by unfold_locales
    (auto simp: ref_kernel_defs Let_def BPF_ANY_def BPF_EXIST_def split: option.splits if_splits)

end
