(* ===== verification/Xdp_Prog.thy ===== *)
theory Xdp_Prog
  imports Bpf_Kernel
begin

text \<open>
  The ingress filter \<^verbatim>\<open>xdp_white_prog\<close> of \<^verbatim>\<open>nhp/ebpf/xdp/nhp_ebpf_xdp.c\<close>, stage by stage. A packet is
  the bytes between \<^verbatim>\<open>data\<close> and \<^verbatim>\<open>data_end\<close>, a pointer into it an offset, and a comparison with
  \<^verbatim>\<open>data_end\<close> a comparison with the length. Each stage either returns from the C function with a
  verdict (\<open>Return\<close>) or goes on (\<open>Continue\<close>); the option around it is \<^const>\<open>None\<close> only if a load
  leaves its buffer. The stages are composed in the order of the source, with the kernel state
  passed through.
\<close>

datatype xdp_action = XDP_ABORTED | XDP_DROP | XDP_PASS | XDP_TX | XDP_REDIRECT

datatype 'a flow = Return xdp_action | Continue 'a

type_synonym packet = "byte list"

definition flow_bind :: "('a flow \<times> 's) option \<Rightarrow> ('a \<Rightarrow> 's \<Rightarrow> ('b flow \<times> 's) option) \<Rightarrow>
    ('b flow \<times> 's) option" where
  "flow_bind m f = (case m of
      None \<Rightarrow> None
    | Some (Return a, s) \<Rightarrow> Some (Return a, s)
    | Some (Continue x, s) \<Rightarrow> f x s)"

lemma flow_bind_simps [simp]:
  "flow_bind None f = None"
  "flow_bind (Some (Return a, s)) f = Some (Return a, s)"
  "flow_bind (Some (Continue x, s)) f = f x s"
  by (simp_all add: flow_bind_def)

subsection \<open>Constants\<close>

definition ETH_P_ARP :: "16 word" where "ETH_P_ARP = 0x0806"
definition ETH_P_IP :: "16 word" where "ETH_P_IP = 0x0800"
definition ETH_P_IPV6 :: "16 word" where "ETH_P_IPV6 = 0x86DD"
definition IPPROTO_ICMP :: "8 word" where "IPPROTO_ICMP = 1"
definition IPPROTO_TCP :: "8 word" where "IPPROTO_TCP = 6"
definition IPPROTO_UDP :: "8 word" where "IPPROTO_UDP = 17"
definition ICMP_ECHO :: "8 word" where "ICMP_ECHO = 8"
definition ICMP_ECHOREPLY :: "8 word" where "ICMP_ECHOREPLY = 0"
definition MIN_PORT :: "16 word" where "MIN_PORT = 0"
definition MAX_PORT :: "16 word" where "MAX_PORT = 65535"
definition DNS_PORT :: "16 word" where "DNS_PORT = 53"
definition DHCP_PORT_R :: "16 word" where "DHCP_PORT_R = 67"
definition DHCP_PORT_O :: "16 word" where "DHCP_PORT_O = 68"
definition CT_ESTABLISHED :: "8 word" where "CT_ESTABLISHED = 1"
definition CT_FLAG_NONE :: "8 word" where "CT_FLAG_NONE = 0"
definition CT_DIR_INGRESS :: "8 word" where "CT_DIR_INGRESS = 0"
definition CT_DIR_EGRESS :: "8 word" where "CT_DIR_EGRESS = 1"

lemmas port_const_defs = MIN_PORT_def MAX_PORT_def DNS_PORT_def DHCP_PORT_R_def DHCP_PORT_O_def
lemmas proto_const_defs = IPPROTO_ICMP_def IPPROTO_TCP_def IPPROTO_UDP_def
lemmas eth_const_defs = ETH_P_ARP_def ETH_P_IP_def ETH_P_IPV6_def
lemmas ct_const_defs = CT_ESTABLISHED_def CT_FLAG_NONE_def CT_DIR_INGRESS_def CT_DIR_EGRESS_def

text \<open>The macro \<^verbatim>\<open>__constant_htons\<close>, on a 16-bit argument promoted to \<^verbatim>\<open>int\<close>.\<close>

definition constant_htons :: "16 word \<Rightarrow> 16 word" where
  "constant_htons x = ucast
     (drop_bit 8 ((ucast x :: 32 word) AND 0xFF00) OR push_bit 8 ((ucast x :: 32 word) AND 0x00FF))"

subsection \<open>Header parsing\<close>

record headers =
  h_ihl :: "8 word"
  h_protocol :: "8 word"
  h_saddr :: "32 word"
  h_daddr :: "32 word"
  h_tot_len :: "16 word"
  h_nexthdr :: "8 word"
  h_sport :: "16 word"
  h_dport :: "16 word"

text \<open>The Ethernet header: both (equal) bounds checks and the switch on the EtherType.\<close>

definition parse_eth :: "packet \<Rightarrow> unit flow option" where
  "parse_eth pkt =
     (if 0 + sizeof struct_ethhdr > length pkt then Some (Return XDP_DROP)
      else if sizeof struct_ethhdr > length pkt then Some (Return XDP_DROP)
      else do {
        h_proto \<leftarrow> read_field struct_ethhdr ''h_proto'' pkt 0;
        Some (if bswap16 h_proto = ETH_P_ARP then Return XDP_PASS
              else if bswap16 h_proto = ETH_P_IP then Continue ()
              else if bswap16 h_proto = ETH_P_IPV6 then Return XDP_PASS
              else Return XDP_DROP)
      })"

text \<open>
  The ports, read right behind the fixed part of the IP header (\<^verbatim>\<open>iph + 1\<close>): the result is
  \<open>(nexthdr, sport, dport)\<close> of the zero-initialised \<^verbatim>\<open>ct_key\<close>.
\<close>

definition parse_ports :: "packet \<Rightarrow> nat \<Rightarrow> 8 word \<Rightarrow> (8 word \<times> 16 word \<times> 16 word) flow option" where
  "parse_ports pkt iph protocol =
     (if protocol = IPPROTO_TCP then
        (let tcp = iph + sizeof struct_iphdr in
         if tcp + sizeof struct_tcphdr > length pkt then Some (Return XDP_DROP)
         else do {
           source \<leftarrow> read_field struct_tcphdr ''source'' pkt tcp;
           dest \<leftarrow> read_field struct_tcphdr ''dest'' pkt tcp;
           Some (Continue (IPPROTO_TCP, source, dest))
         })
      else if protocol = IPPROTO_UDP then
        (let udp = iph + sizeof struct_iphdr in
         if udp + sizeof struct_udphdr > length pkt then Some (Return XDP_DROP)
         else do {
           source \<leftarrow> read_field struct_udphdr ''source'' pkt udp;
           dest \<leftarrow> read_field struct_udphdr ''dest'' pkt udp;
           Some (Continue (IPPROTO_UDP, source, dest))
         })
      else Some (Continue (0, 0, 0)))"

text \<open>SSH: the TCP header where \<^verbatim>\<open>ihl\<close> puts it, and port 22 always passes.\<close>

definition ssh_check :: "packet \<Rightarrow> nat \<Rightarrow> 8 word \<Rightarrow> 8 word \<Rightarrow> unit flow option" where
  "ssh_check pkt iph ihl protocol =
     (if protocol = IPPROTO_TCP then
        (let tcp_start = iph + unat ihl * 4 in
         if tcp_start + sizeof struct_tcphdr > length pkt then Some (Return XDP_DROP)
         else do {
           dest \<leftarrow> read_field struct_tcphdr ''dest'' pkt tcp_start;
           Some (if constant_htons dest = 22 then Return XDP_PASS else Continue ())
         })
      else Some (Continue ()))"

text \<open>DHCP requests and offers and DNS answers always pass.\<close>

definition dhcp_dns_check :: "8 word \<Rightarrow> 16 word \<Rightarrow> 16 word \<Rightarrow> unit flow" where
  "dhcp_dns_check protocol sport dport =
     (if protocol = IPPROTO_UDP \<and>
         (dport = bswap16 DHCP_PORT_R \<or> dport = bswap16 DHCP_PORT_O \<or> sport = bswap16 DNS_PORT)
      then Return XDP_PASS else Continue ())"

definition flow_seq :: "'a flow option \<Rightarrow> ('a \<Rightarrow> 'b flow option) \<Rightarrow> 'b flow option" where
  "flow_seq m f = (case m of
      None \<Rightarrow> None
    | Some (Return a) \<Rightarrow> Some (Return a)
    | Some (Continue x) \<Rightarrow> f x)"

lemma flow_seq_simps [simp]:
  "flow_seq None f = None"
  "flow_seq (Some (Return a)) f = Some (Return a)"
  "flow_seq (Some (Continue x)) f = f x"
  by (simp_all add: flow_seq_def)

text \<open>Everything before the first helper call, lines 229 to 291.\<close>

definition xdp_headers :: "packet \<Rightarrow> headers flow option" where
  "xdp_headers pkt =
     flow_seq (parse_eth pkt) (\<lambda>_.
     let iph = sizeof struct_ethhdr in
     if iph + sizeof struct_iphdr > length pkt then Some (Return XDP_DROP)
     else do {
       ihl \<leftarrow> read_bits struct_iphdr ''ihl'' pkt iph;
       if ihl < 5 then Some (Return XDP_DROP)
       else do {
         protocol \<leftarrow> read_field struct_iphdr ''protocol'' pkt iph;
         saddr \<leftarrow> read_field struct_iphdr ''saddr'' pkt iph;
         daddr \<leftarrow> read_field struct_iphdr ''daddr'' pkt iph;
         tot_len \<leftarrow> read_field struct_iphdr ''tot_len'' pkt iph;
         flow_seq (parse_ports pkt iph protocol) (\<lambda>(nexthdr, sport, dport).
         flow_seq (ssh_check pkt iph ihl protocol) (\<lambda>_.
         flow_seq (Some (dhcp_dns_check protocol sport dport)) (\<lambda>_.
         Some (Continue \<lparr>h_ihl = ihl, h_protocol = protocol, h_saddr = saddr, h_daddr = daddr,
                 h_tot_len = tot_len, h_nexthdr = nexthdr, h_sport = sport, h_dport = dport\<rparr>))))
       }
     })"

subsection \<open>Events and connection entries\<close>

definition enc_event :: "64 word \<Rightarrow> 8 word \<Rightarrow> 32 word \<Rightarrow> 32 word \<Rightarrow> 16 word \<Rightarrow> 16 word \<Rightarrow> 8 word \<Rightarrow>
    16 word \<Rightarrow> byte list" where
  "enc_event timestamp action src_ip dst_ip src_port dst_port protocol len =
     le_bytes 8 timestamp @ le_bytes 1 action @ le_bytes 4 src_ip @ le_bytes 4 dst_ip @
     le_bytes 2 src_port @ le_bytes 2 dst_port @ le_bytes 1 protocol @ le_bytes 2 len"

definition submit_event :: "'s bpf_kernel \<Rightarrow> 8 word \<Rightarrow> headers \<Rightarrow> 's \<Rightarrow> int \<times> 's" where
  "submit_event K action h s =
     (let (timestamp, s1) = bpf_ktime_get_ns K s
      in bpf_perf_event_output K Events BPF_F_CURRENT_CPU
           (enc_event timestamp action (h_saddr h) (h_daddr h) (h_sport h) (h_dport h)
              (h_protocol h) (h_tot_len h)) s1)"

definition reverseTuple :: "ipv4_ct_tuple \<Rightarrow> ipv4_ct_tuple" where
  "reverseTuple key = key\<lparr>
     ct_flags := (if ct_flags key = 0 then 1 else 0),
     ct_daddr := ct_saddr key, ct_saddr := ct_daddr key,
     ct_dport := ct_sport key, ct_sport := ct_dport key\<rparr>"

definition check_conn_expiry :: "'s bpf_kernel \<Rightarrow> conn_value \<Rightarrow> 's \<Rightarrow> bool \<times> 's" where
  "check_conn_expiry K val s =
     (let (now, s1) = bpf_ktime_get_ns K s
      in (cv_timestamp val + cv_ttl_ns val < now, s1))"

definition ct_key_of :: "headers \<Rightarrow> ipv4_ct_tuple" where
  "ct_key_of h = \<lparr>ct_daddr = h_daddr h, ct_saddr = h_saddr h, ct_dport = h_dport h,
     ct_sport = h_sport h, ct_nexthdr = h_nexthdr h, ct_flags = CT_DIR_INGRESS\<rparr>"

subsection \<open>Reading an allow-list\<close>

text \<open>
  A lookup whose value is read through the value structure of the map: no entry, or the entry.
\<close>

definition acl_lookup :: "'s bpf_kernel \<Rightarrow> bpf_map \<Rightarrow> ctype \<Rightarrow> byte list \<Rightarrow> 's \<Rightarrow>
    (acl_value option \<times> 's) option" where
  "acl_lookup K m t key s =
     (let (r, s1) = bpf_map_lookup_elem K m key s
      in case r of
           None \<Rightarrow> Some (None, s1)
         | Some bytes \<Rightarrow> do { v \<leftarrow> dec_acl_value t bytes; Some (Some v, s1) })"

subsection \<open>ICMP\<close>

definition xdp_icmp :: "'s bpf_kernel \<Rightarrow> packet \<Rightarrow> headers \<Rightarrow> 's \<Rightarrow> (unit flow \<times> 's) option" where
  "xdp_icmp K pkt h s =
     (if h_protocol h = IPPROTO_ICMP then
        (let icmp = sizeof struct_ethhdr + unat (h_ihl h) * 4 in
         if icmp + sizeof struct_icmphdr > length pkt then Some (Return XDP_DROP, s)
         else do {
           type \<leftarrow> (read_field struct_icmphdr ''type'' pkt icmp :: 8 word option);
           code \<leftarrow> (read_field struct_icmphdr ''code'' pkt icmp :: 8 word option);
           if type = ICMP_ECHO \<and> code = 0 \<or> type = ICMP_ECHOREPLY \<and> code = 0 then
             (if type = ICMP_ECHO then
                (let icmpkey = enc_ip_pair_key \<lparr>ik_src_ip = h_saddr h, ik_dst_ip = h_daddr h\<rparr>
                 in do {
                   (iw, s1) \<leftarrow> acl_lookup K Icmpwhitelist struct_icmpwhitelist_value icmpkey s;
                   case iw of
                     None \<Rightarrow> Some (Return XDP_DROP, s1)
                   | Some iw_val \<Rightarrow>
                       (let (now, s2) = bpf_ktime_get_ns K s1 in
                        if av_expire_time iw_val < now then
                          Some (Return XDP_DROP, snd (bpf_map_delete_elem K Icmpwhitelist icmpkey s2))
                        else if av_allowed iw_val = 1 then Some (Return XDP_PASS, s2)
                        else Some (Continue (), s2))
                 })
              else Some (Return XDP_PASS, s))
           else Some (Continue (), s)
         })
      else Some (Continue (), s))"

subsection \<open>Connection tracking\<close>

text \<open>
  One of the two symmetric lookups: \<open>bump\<close> is the counter the branch increments.
\<close>

definition ct_lookup :: "'s bpf_kernel \<Rightarrow> (conn_value \<Rightarrow> conn_value) \<Rightarrow> ipv4_ct_tuple \<Rightarrow> 's \<Rightarrow>
    (unit flow \<times> 's) option" where
  "ct_lookup K bump ct_key s =
     (let (existing, s1) = bpf_map_lookup_elem K Conn_track (enc_ct_tuple ct_key) s
      in case existing of
           None \<Rightarrow> Some (Continue (), s1)
         | Some bytes \<Rightarrow> do {
             existing_val \<leftarrow> dec_conn_value bytes;
             let (expired, s2) = check_conn_expiry K existing_val s1;
             if expired then
               Some (Return XDP_DROP, snd (bpf_map_delete_elem K Conn_track (enc_ct_tuple ct_key) s2))
             else
               (let (t, s3) = bpf_ktime_get_ns K s2;
                    new_val = (bump existing_val)\<lparr>cv_last_timestamp := t\<rparr>
                in Some (Return XDP_PASS, snd (bpf_map_update_elem K Conn_track
                     (enc_ct_tuple ct_key) (enc_conn_value new_val) BPF_EXIST s3)))
           })"

definition bump_tx :: "conn_value \<Rightarrow> conn_value" where
  "bump_tx v = v\<lparr>cv_tx_packets := cv_tx_packets v + 1\<rparr>"

definition bump_rx :: "conn_value \<Rightarrow> conn_value" where
  "bump_rx v = v\<lparr>cv_rx_packets := cv_rx_packets v + 1\<rparr>"

definition xdp_conntrack :: "'s bpf_kernel \<Rightarrow> headers \<Rightarrow> 's \<Rightarrow> (unit flow \<times> 's) option" where
  "xdp_conntrack K h s =
     flow_bind (ct_lookup K bump_tx (ct_key_of h) s) (\<lambda>_ s1.
     ct_lookup K bump_rx (reverseTuple (ct_key_of h)) s1)"

subsection \<open>Allow-lists\<close>

definition spp_key :: "headers \<Rightarrow> whitelist_key" where
  "spp_key h = \<lparr>wk_src_ip = h_saddr h, wk_dst_ip = h_daddr h, wk_dst_port = h_dport h,
     wk_protocol = h_protocol h\<rparr>"

definition sd_key :: "headers \<Rightarrow> ip_pair_key" where
  "sd_key h = \<lparr>ik_src_ip = h_saddr h, ik_dst_ip = h_daddr h\<rparr>"

definition sp_key :: "headers \<Rightarrow> src_port_list_key" where
  "sp_key h = \<lparr>sk_src_ip = h_saddr h, sk_dst_port = h_dport h\<rparr>"

definition pl_key :: "headers \<Rightarrow> port_list_key" where
  "pl_key h = \<lparr>lk_src_ip = h_saddr h, lk_min_port = MIN_PORT, lk_max_port = MAX_PORT\<rparr>"

definition pp_key :: "headers \<Rightarrow> protocol_port_key" where
  "pp_key h = \<lparr>pk_dst_port = h_dport h, pk_protocol = h_protocol h\<rparr>"

text \<open>Accepting a new flow: log it and track it for what is left of the grant.\<close>

definition accept_flow :: "'s bpf_kernel \<Rightarrow> headers \<Rightarrow> 64 word \<Rightarrow> 64 word \<Rightarrow> 's \<Rightarrow> 's" where
  "accept_flow K h expire_time now s =
     (let s1 = snd (submit_event K 1 h s);
          (ts, s2) = bpf_ktime_get_ns K s1;
          (lts, s3) = bpf_ktime_get_ns K s2;
          new_val = \<lparr>cv_timestamp = ts, cv_last_timestamp = lts, cv_ttl_ns = expire_time - now,
             cv_state = CT_ESTABLISHED, cv_flags = CT_FLAG_NONE, cv_rx_packets = 1,
             cv_tx_packets = 0\<rparr>
      in snd (bpf_map_update_elem K Conn_track (enc_ct_tuple (ct_key_of h))
           (enc_conn_value new_val) BPF_ANY s3))"

text \<open>The body of each of the five \<^verbatim>\<open>if (..._val)\<close> statements.\<close>

definition acl_block :: "'s bpf_kernel \<Rightarrow> headers \<Rightarrow> 64 word \<Rightarrow> bpf_map \<Rightarrow> byte list \<Rightarrow>
    acl_value option \<Rightarrow> 's \<Rightarrow> unit flow \<times> 's" where
  "acl_block K h now m key val s =
     (case val of
        None \<Rightarrow> (Continue (), s)
      | Some v \<Rightarrow>
          if av_expire_time v < now then (Return XDP_DROP, snd (bpf_map_delete_elem K m key s))
          else if av_allowed v = 1 then (Return XDP_PASS, accept_flow K h (av_expire_time v) now s)
          else (Continue (), s))"

definition spp_block where
  "spp_block K h now w_val s = acl_block K h now Spp (enc_whitelist_key (spp_key h)) w_val s"

definition sd_block where
  "sd_block K h now sd_val s = acl_block K h now Sdwhitelist (enc_ip_pair_key (sd_key h)) sd_val s"

definition sp_block where
  "sp_block K h now sp_val s = acl_block K h now Src_port (enc_src_port_list_key (sp_key h)) sp_val s"

definition pl_block where
  "pl_block K h now pl_val s = acl_block K h now Port_list (enc_port_list_key (pl_key h)) pl_val s"

definition pp_block where
  "pp_block K h now pp_val s =
     acl_block K h now Protocol_port (enc_protocol_port_key (pp_key h)) pp_val s"

lemmas acl_block_defs = spp_block_def sd_block_def sp_block_def pl_block_def pp_block_def

text \<open>
  All five lookups first, then the five blocks in order; a packet no block decides is logged
  and dropped.
\<close>

definition xdp_allowlists :: "'s bpf_kernel \<Rightarrow> headers \<Rightarrow> 64 word \<Rightarrow> 's \<Rightarrow> (unit flow \<times> 's) option" where
  "xdp_allowlists K h now s = do {
     (w_val, s1) \<leftarrow> acl_lookup K Spp struct_whitelist_value (enc_whitelist_key (spp_key h)) s;
     (sd_val, s2) \<leftarrow> acl_lookup K Sdwhitelist struct_sdwhitelist_value (enc_ip_pair_key (sd_key h)) s1;
     (sp_val, s3) \<leftarrow> acl_lookup K Src_port struct_src_port_list_value
        (enc_src_port_list_key (sp_key h)) s2;
     (pl_val, s4) \<leftarrow> acl_lookup K Port_list struct_port_list_value (enc_port_list_key (pl_key h)) s3;
     (pp_val, s5) \<leftarrow> acl_lookup K Protocol_port struct_protocol_port_value
        (enc_protocol_port_key (pp_key h)) s4;
     flow_bind (Some (spp_block K h now w_val s5)) (\<lambda>_ s.
     flow_bind (Some (sd_block K h now sd_val s)) (\<lambda>_ s.
     flow_bind (Some (sp_block K h now sp_val s)) (\<lambda>_ s.
     flow_bind (Some (pl_block K h now pl_val s)) (\<lambda>_ s.
     Some (pp_block K h now pp_val s)))))
   }"

subsection \<open>The program\<close>

definition xdp_stages :: "'s bpf_kernel \<Rightarrow> packet \<Rightarrow> headers \<Rightarrow> 's \<Rightarrow> (unit flow \<times> 's) option" where
  "xdp_stages K pkt h s =
     (let (now, s1) = bpf_ktime_get_ns K s in
      flow_bind (xdp_icmp K pkt h s1) (\<lambda>_ s2.
      flow_bind (xdp_conntrack K h s2) (\<lambda>_ s3.
      flow_bind (xdp_allowlists K h now s3) (\<lambda>_ s4.
      Some (Return XDP_DROP, snd (submit_event K 0 h s4))))))"

definition xdp_white_prog :: "'s bpf_kernel \<Rightarrow> packet \<Rightarrow> 's \<Rightarrow> (xdp_action \<times> 's) option" where
  "xdp_white_prog K pkt s =
     (case xdp_headers pkt of
        None \<Rightarrow> None
      | Some (Return a) \<Rightarrow> Some (a, s)
      | Some (Continue h) \<Rightarrow>
          (case xdp_stages K pkt h s of
             None \<Rightarrow> None
           | Some (Return a, s') \<Rightarrow> Some (a, s')
           | Some (Continue _, s') \<Rightarrow> None))"

end
