(* ===== verification/Allow_Maps.thy ===== *)
theory Allow_Maps
  imports Xdp_Prog
begin

text \<open>
  What the six allow-lists share: keys of the map's size that determine the key record, values
  of the map's size that decode, and the decoder undoing the writer's encoding. \<open>allow_map\<close>
  states it, each map is an interpretation, and \<open>allow_map_kernel\<close> proves the lookup of the
  program once for all of them.
\<close>

text \<open>The entry a map holds under a key, read through the map's value structure.\<close>

definition acl_entry :: "(bpf_map \<Rightarrow> byte list \<Rightarrow> byte list option) \<Rightarrow> bpf_map \<Rightarrow> ctype \<Rightarrow> byte list \<Rightarrow>
    acl_value option" where
  "acl_entry maps m t key = Option.bind (maps m key) (dec_acl_value t)"

definition conn_entry :: "(bpf_map \<Rightarrow> byte list \<Rightarrow> byte list option) \<Rightarrow> ipv4_ct_tuple \<Rightarrow> conn_value option" where
  "conn_entry maps key = Option.bind (maps Conn_track (enc_ct_tuple key)) dec_conn_value"

locale allow_map =
  fixes m :: bpf_map
    and t :: ctype
    and enc_key :: "'k \<Rightarrow> byte list"
    and enc_value :: "acl_value \<Rightarrow> byte list"
  assumes not_conn_track: "m \<noteq> Conn_track"
    and key_sized: "length (enc_key k) = key_size m"
    and key_inj: "enc_key k = enc_key k' \<longleftrightarrow> k = k'"
    and value_sized: "length (enc_value v) = value_size m"
    and dec_total: "length bs = value_size m \<Longrightarrow> \<exists>v. dec_acl_value t bs = Some v"
    and dec_enc: "dec_acl_value t (enc_value v) = Some v"
begin

lemma entry_after_store:
  "acl_entry (maps(m := (maps m)(enc_key k := Some (enc_value v)))) m t (enc_key k') =
     (if k' = k then Some v else acl_entry maps m t (enc_key k'))"
  by (auto simp: acl_entry_def dec_enc key_inj)

end

interpretation spp: allow_map Spp struct_whitelist_value enc_whitelist_key enc_whitelist_value
  by unfold_locales (auto intro: dec_acl_value_sized)

interpretation sd: allow_map Sdwhitelist struct_sdwhitelist_value enc_ip_pair_key enc_whitelist_value
  by unfold_locales (auto intro: dec_acl_value_sized)

interpretation icmp: allow_map Icmpwhitelist struct_icmpwhitelist_value enc_ip_pair_key
  enc_whitelist_value
  by unfold_locales (auto intro: dec_acl_value_sized)

interpretation sp: allow_map Src_port struct_src_port_list_value enc_src_port_list_key
  enc_whitelist_value
  by unfold_locales (auto intro: dec_acl_value_sized)

interpretation pl: allow_map Port_list struct_port_list_value enc_port_list_key enc_whitelist_value
  by unfold_locales (auto intro: dec_acl_value_sized)

interpretation pp: allow_map Protocol_port struct_protocol_port_value enc_protocol_port_key
  enc_protocol_port_value
  by unfold_locales (auto intro: dec_acl_value_packed_sized)

subsection \<open>Lookups under the kernel contract\<close>

locale allow_map_kernel =
  allow_map m t enc_key enc_value + bpf_kernel_contract K contents clock events
  for m t enc_key enc_value K contents clock events
begin

lemma acl_lookup_eq:
  "acl_lookup K m t key s =
     Some (acl_entry (contents s) m t key, snd (bpf_map_lookup_elem K m key s))"
proof (cases "contents s m key")
  case None
  then show ?thesis
    using lookup_result[of m key s]
    by (cases "bpf_map_lookup_elem K m key s") (simp add: acl_lookup_def acl_entry_def)
next
  case (Some bs)
  obtain v where "dec_acl_value t bs = Some v"
    using dec_total entry_sized[OF Some] by blast
  with Some show ?thesis
    using lookup_result[of m key s]
    by (cases "bpf_map_lookup_elem K m key s") (simp add: acl_lookup_def acl_entry_def)
qed

end

text \<open>The same facts for the six maps of the program, over any kernel that honours the contract.\<close>

lemma acl_lookup_maps:
  assumes "bpf_kernel_contract K contents clock events"
  shows "acl_lookup K Spp struct_whitelist_value key s =
      Some (acl_entry (contents s) Spp struct_whitelist_value key, snd (bpf_map_lookup_elem K Spp key s))"
    and "acl_lookup K Sdwhitelist struct_sdwhitelist_value key s =
      Some (acl_entry (contents s) Sdwhitelist struct_sdwhitelist_value key,
        snd (bpf_map_lookup_elem K Sdwhitelist key s))"
    and "acl_lookup K Icmpwhitelist struct_icmpwhitelist_value key s =
      Some (acl_entry (contents s) Icmpwhitelist struct_icmpwhitelist_value key,
        snd (bpf_map_lookup_elem K Icmpwhitelist key s))"
    and "acl_lookup K Src_port struct_src_port_list_value key s =
      Some (acl_entry (contents s) Src_port struct_src_port_list_value key,
        snd (bpf_map_lookup_elem K Src_port key s))"
    and "acl_lookup K Port_list struct_port_list_value key s =
      Some (acl_entry (contents s) Port_list struct_port_list_value key,
        snd (bpf_map_lookup_elem K Port_list key s))"
    and "acl_lookup K Protocol_port struct_protocol_port_value key s =
      Some (acl_entry (contents s) Protocol_port struct_protocol_port_value key,
        snd (bpf_map_lookup_elem K Protocol_port key s))"
  using
    allow_map_kernel.acl_lookup_eq[OF allow_map_kernel.intro, OF spp.allow_map_axioms assms]
    allow_map_kernel.acl_lookup_eq[OF allow_map_kernel.intro, OF sd.allow_map_axioms assms]
    allow_map_kernel.acl_lookup_eq[OF allow_map_kernel.intro, OF icmp.allow_map_axioms assms]
    allow_map_kernel.acl_lookup_eq[OF allow_map_kernel.intro, OF sp.allow_map_axioms assms]
    allow_map_kernel.acl_lookup_eq[OF allow_map_kernel.intro, OF pl.allow_map_axioms assms]
    allow_map_kernel.acl_lookup_eq[OF allow_map_kernel.intro, OF pp.allow_map_axioms assms]
  by simp_all

interpretation spp_rk: allow_map_kernel Spp struct_whitelist_value enc_whitelist_key
  enc_whitelist_value ref_kernel ref_contents rs_clock rs_events
  by unfold_locales

end
