(* ===== verification/Xdp_Correct.thy ===== *)
theory Xdp_Correct
  imports Allow_Maps
begin

text \<open>
  Correctness of the ingress filter over any kernel that honours the contract. \<open>policy\<close> is the
  abstract specification: a pure function of the packet, the map contents on entry and three
  clock readings. The stages are shown never to load outside a buffer, to decide as the policy
  does, and to change the maps only as \<open>stage_frame\<close> and \<open>conn_written\<close> allow.
\<close>

subsection \<open>Header parsing is total\<close>

lemma flow_seq_total:
  "\<exists>r. m = Some r \<Longrightarrow> (\<And>x. \<exists>r. f x = Some r) \<Longrightarrow> \<exists>r. flow_seq m f = Some r"
  by (auto simp: flow_seq_def split: flow.splits)

lemma flow_seq_Some_total: "(\<And>x. \<exists>r. f x = Some r) \<Longrightarrow> \<exists>r. flow_seq (Some m) f = Some r"
  by (rule flow_seq_total) auto

lemma parse_eth_total: "\<exists>f. parse_eth pkt = Some f"
  by (simp add: parse_eth_def load_Some)

lemma parse_ports_total: "\<exists>f. parse_ports pkt iph p = Some f"
  by (simp add: parse_ports_def load_Some Let_def)

lemma ssh_check_total: "\<exists>f. ssh_check pkt iph ihl p = Some f"
  by (simp add: ssh_check_def load_Some Let_def)

lemma xdp_headers_total: "\<exists>f. xdp_headers pkt = Some f"
  unfolding xdp_headers_def Let_def
  by (rule flow_seq_total[OF parse_eth_total])
    (auto simp: load_Some intro!: flow_seq_total[OF parse_ports_total]
      flow_seq_total[OF ssh_check_total] flow_seq_Some_total)

subsection \<open>The policy\<close>

type_synonym maps = "bpf_map \<Rightarrow> byte list \<Rightarrow> byte list option"

text \<open>The echo rules: an echo reply passes, an echo request needs a live allow-list entry.\<close>

definition icmp_policy :: "packet \<Rightarrow> maps \<Rightarrow> headers \<Rightarrow> 64 word \<Rightarrow> unit flow" where
  "icmp_policy pkt maps h now =
     (let icmp = 14 + unat (h_ihl h) * 4 in
      if h_protocol h \<noteq> IPPROTO_ICMP then Continue ()
      else if length pkt < icmp + 8 then Return XDP_DROP
      else if pkt ! icmp = 0 \<and> pkt ! (icmp + 1) = 0 then Return XDP_PASS
      else if pkt ! icmp = 8 \<and> pkt ! (icmp + 1) = 0 then
        (case acl_entry maps Icmpwhitelist struct_icmpwhitelist_value (enc_ip_pair_key (sd_key h)) of
           None \<Rightarrow> Return XDP_DROP
         | Some v \<Rightarrow> if av_expire_time v < now then Return XDP_DROP
                     else if av_allowed v = 1 then Return XDP_PASS else Continue ())
      else Continue ())"

text \<open>A tracked connection decides by its age, looked up in both directions.\<close>

definition conn_expired :: "64 word \<Rightarrow> conn_value \<Rightarrow> bool" where
  "conn_expired now c \<longleftrightarrow> cv_timestamp c + cv_ttl_ns c < now"

definition conn_policy1 :: "maps \<Rightarrow> ipv4_ct_tuple \<Rightarrow> 64 word \<Rightarrow> unit flow" where
  "conn_policy1 maps key now = (case conn_entry maps key of
      None \<Rightarrow> Continue ()
    | Some c \<Rightarrow> Return (if conn_expired now c then XDP_DROP else XDP_PASS))"

definition conn_policy :: "maps \<Rightarrow> headers \<Rightarrow> 64 word \<Rightarrow> unit flow" where
  "conn_policy maps h now = (case conn_policy1 maps (ct_key_of h) now of
      Return a \<Rightarrow> Return a
    | Continue _ \<Rightarrow> conn_policy1 maps (reverseTuple (ct_key_of h)) now)"

text \<open>The five allow-list entries of a flow, in the order the code consults them.\<close>

definition acl_entries :: "maps \<Rightarrow> headers \<Rightarrow> acl_value option list" where
  "acl_entries maps h =
     [acl_entry maps Spp struct_whitelist_value (enc_whitelist_key (spp_key h)),
      acl_entry maps Sdwhitelist struct_sdwhitelist_value (enc_ip_pair_key (sd_key h)),
      acl_entry maps Src_port struct_src_port_list_value (enc_src_port_list_key (sp_key h)),
      acl_entry maps Port_list struct_port_list_value (enc_port_list_key (pl_key h)),
      acl_entry maps Protocol_port struct_protocol_port_value (enc_protocol_port_key (pp_key h))]"

text \<open>The first entry that is expired or allowing decides; no such entry means drop.\<close>

fun first_match :: "64 word \<Rightarrow> acl_value option list \<Rightarrow> xdp_action" where
  "first_match now [] = XDP_DROP"
| "first_match now (None # es) = first_match now es"
| "first_match now (Some v # es) =
     (if av_expire_time v < now then XDP_DROP
      else if av_allowed v = 1 then XDP_PASS
      else first_match now es)"

definition flow_policy :: "packet \<Rightarrow> maps \<Rightarrow> headers \<Rightarrow> 64 word \<Rightarrow> 64 word \<Rightarrow> 64 word \<Rightarrow> xdp_action" where
  "flow_policy pkt maps h now now1 now2 = (case icmp_policy pkt maps h now1 of
      Return a \<Rightarrow> a
    | Continue _ \<Rightarrow> (case conn_policy maps h now2 of
         Return a \<Rightarrow> a
       | Continue _ \<Rightarrow> first_match now (acl_entries maps h)))"

definition policy :: "packet \<Rightarrow> maps \<Rightarrow> 64 word \<Rightarrow> 64 word \<Rightarrow> 64 word \<Rightarrow> xdp_action" where
  "policy pkt maps now now1 now2 = (case xdp_headers pkt of
      Some (Return a) \<Rightarrow> a
    | Some (Continue h) \<Rightarrow> flow_policy pkt maps h now now1 now2
    | None \<Rightarrow> XDP_ABORTED)"

subsection \<open>What a stage may do to the maps\<close>

text \<open>\<open>maps_le a b\<close>: every entry of \<open>a\<close> is an entry of \<open>b\<close>.\<close>

definition maps_le :: "maps \<Rightarrow> maps \<Rightarrow> bool" where
  "maps_le a b \<longleftrightarrow> (\<forall>m k w. a m k = Some w \<longrightarrow> b m k = Some w)"

lemma maps_le_refl [simp, intro]: "maps_le a a"
  by (simp add: maps_le_def)

lemma maps_le_trans: "maps_le a b \<Longrightarrow> maps_le b c \<Longrightarrow> maps_le a c"
  by (simp add: maps_le_def)

lemma maps_leD: "maps_le a b \<Longrightarrow> a m k = Some w \<Longrightarrow> b m k = Some w"
  by (simp add: maps_le_def)

lemma maps_le_delete [intro]: "maps_le (a(m := (a m)(k := None))) a"
  by (auto simp: maps_le_def split: if_splits)

text \<open>
  \<open>one_conn a b key w\<close>: every entry of \<open>b\<close> is an entry of \<open>a\<close>, but for the connection entry \<open>w\<close>
  under \<open>key\<close>.
\<close>

definition one_conn :: "maps \<Rightarrow> maps \<Rightarrow> ipv4_ct_tuple \<Rightarrow> conn_value \<Rightarrow> bool" where
  "one_conn a b key c \<longleftrightarrow> (\<forall>m k w. b m k = Some w \<longrightarrow>
     a m k = Some w \<or> m = Conn_track \<and> k = enc_ct_tuple key \<and> w = enc_conn_value c)"

text \<open>
  A tracked connection is \<open>refreshed\<close> when only its counters and its last-seen time change, so
  its lifetime does not; \<open>new_conn\<close> is the entry a newly accepted flow gets.
\<close>

definition refreshed :: "conn_value \<Rightarrow> conn_value \<Rightarrow> bool" where
  "refreshed c c' \<longleftrightarrow> cv_timestamp c' = cv_timestamp c \<and> cv_ttl_ns c' = cv_ttl_ns c \<and>
     cv_state c' = cv_state c \<and> cv_flags c' = cv_flags c"

lemma refreshed_bump:
  "refreshed c ((bump_tx c)\<lparr>cv_last_timestamp := t\<rparr>)"
  "refreshed c ((bump_rx c)\<lparr>cv_last_timestamp := t\<rparr>)"
  by (simp_all add: refreshed_def bump_tx_def bump_rx_def)

definition new_conn :: "64 word \<Rightarrow> 64 word \<Rightarrow> 64 word \<Rightarrow> conn_value" where
  "new_conn ts lts ttl = \<lparr>cv_timestamp = ts, cv_last_timestamp = lts, cv_ttl_ns = ttl,
     cv_state = CT_ESTABLISHED, cv_flags = CT_FLAG_NONE, cv_rx_packets = 1, cv_tx_packets = 0\<rparr>"

text \<open>An entry that grants access at time \<open>now\<close>.\<close>

definition grants :: "64 word \<Rightarrow> acl_value \<Rightarrow> bool" where
  "grants now v \<longleftrightarrow> av_allowed v = 1 \<and> now \<le> av_expire_time v"

fun block_policy :: "64 word \<Rightarrow> acl_value option \<Rightarrow> unit flow" where
  "block_policy now None = Continue ()"
| "block_policy now (Some v) =
     (if av_expire_time v < now then Return XDP_DROP
      else if av_allowed v = 1 then Return XDP_PASS else Continue ())"

text \<open>
  What processing one packet of flow \<open>h\<close> may do to the maps: remove entries, refresh a live
  tracked connection of the flow, or track the flow anew for what is left of a live grant.
\<close>

definition flow_effect :: "maps \<Rightarrow> maps \<Rightarrow> headers \<Rightarrow> 64 word \<Rightarrow> 64 word \<Rightarrow> 64 word \<Rightarrow> xdp_action \<Rightarrow> bool" where
  "flow_effect maps maps' h now now2 tend a \<longleftrightarrow>
     maps_le maps' maps \<or>
     a = XDP_PASS \<and> (\<exists>key c c'. key \<in> {ct_key_of h, reverseTuple (ct_key_of h)} \<and>
        conn_entry maps key = Some c \<and> \<not> conn_expired now2 c \<and> refreshed c c' \<and>
        one_conn maps maps' key c') \<or>
     a = XDP_PASS \<and> (\<exists>v ts lts. Some v \<in> set (acl_entries maps h) \<and> grants now v \<and>
        now2 \<le> ts \<and> ts \<le> lts \<and> lts \<le> tend \<and>
        one_conn maps maps' (ct_key_of h) (new_conn ts lts (av_expire_time v - now)))"

subsection \<open>The stages\<close>

lemma load_byte: "i < length bs \<Longrightarrow> load (Suc 0) bs i = Some (bs ! i)"
  by (simp add: load_def take_Suc hd_drop_conv_nth)

context bpf_kernel_contract
begin

lemma icmp_stage:
  "\<exists>r s' now1. xdp_icmp K pkt h s = Some (r, s') \<and> clock s \<le> now1 \<and> now1 \<le> clock s' \<and>
     r = icmp_policy pkt (contents s) h now1 \<and> maps_le (contents s') (contents s) \<and>
     (r = Continue () \<longrightarrow> contents s' = contents s) \<and> events s' = events s"
proof (cases "h_protocol h = IPPROTO_ICMP \<and> 14 + unat (h_ihl h) * 4 + 8 \<le> length pkt")
  case False
  then show ?thesis
    by (auto simp: xdp_icmp_def icmp_policy_def Let_def)
next
  case True
  let ?i = "14 + unat (h_ihl h) * 4"
  let ?key = "enc_ip_pair_key (sd_key h)"
  have bytes: "(load 1 pkt ?i :: 8 word option) = Some (pkt ! ?i)"
    "(load 1 pkt (?i + 1) :: 8 word option) = Some (pkt ! (?i + 1))"
    using True by (simp_all add: load_byte)
  show ?thesis
  proof (cases "pkt ! ?i = 8 \<and> pkt ! (?i + 1) = 0")
    case False
    then show ?thesis
      using True bytes
      by (auto simp: xdp_icmp_def icmp_policy_def Let_def ICMP_ECHO_def ICMP_ECHOREPLY_def)
  next
    case echo: True
    obtain s1 where s1: "s1 = snd (bpf_map_lookup_elem K Icmpwhitelist ?key s)" by simp
    obtain now s2 where t: "bpf_ktime_get_ns K s1 = (now, s2)" by fastforce
    have f: "contents s1 = contents s" "clock s1 = clock s" "events s1 = events s"
      "contents s2 = contents s" "clock s2 = now" "events s2 = events s" "clock s \<le> now"
      using t ktime_clock[of s1] ktime_frame[of s1] by (auto simp: s1 lookup_frame)
    show ?thesis
      using True echo bytes f
      by (auto simp: xdp_icmp_def icmp_policy_def Let_def ICMP_ECHO_def ICMP_ECHOREPLY_def
          acl_lookup_maps[OF bpf_kernel_contract_axioms] sd_key_def[symmetric] s1[symmetric] t
          delete_contents delete_frame split: option.splits)
  qed
qed

lemma ktime_obtain:
  obtains t s' where "bpf_ktime_get_ns K s = (t, s')" "clock s \<le> t" "clock s' = t"
    "contents s' = contents s" "events s' = events s"
  using ktime_clock[of s] ktime_frame[of s] by (cases "bpf_ktime_get_ns K s") auto

lemma update_one_conn:
  "one_conn (contents s)
     (contents (snd (bpf_map_update_elem K Conn_track (enc_ct_tuple key) (enc_conn_value c) fl s))) key c"
  unfolding one_conn_def by (blast dest: update_entry_cases)

lemma conn_value_decodes:
  "contents s Conn_track k = Some bs \<Longrightarrow> \<exists>c. dec_conn_value bs = Some c"
  using entry_sized[of s Conn_track k bs] dec_conn_value_sized by simp

lemma ct_lookup_stage:
  "\<exists>r s' now2. ct_lookup K bump key s = Some (r, s') \<and> clock s \<le> now2 \<and> now2 \<le> clock s' \<and>
     r = conn_policy1 (contents s) key now2 \<and> events s' = events s \<and>
     (r = Continue () \<longrightarrow> contents s' = contents s) \<and>
     (r = Return XDP_DROP \<longrightarrow> maps_le (contents s') (contents s)) \<and>
     (r = Return XDP_PASS \<longrightarrow> (\<exists>c t. conn_entry (contents s) key = Some c \<and>
        \<not> conn_expired now2 c \<and> now2 \<le> t \<and> t \<le> clock s' \<and>
        one_conn (contents s) (contents s') key ((bump c)\<lparr>cv_last_timestamp := t\<rparr>)))"
proof -
  obtain r0 s1 where l: "bpf_map_lookup_elem K Conn_track (enc_ct_tuple key) s = (r0, s1)" by fastforce
  have r0: "r0 = contents s Conn_track (enc_ct_tuple key)"
    and f1: "contents s1 = contents s" "clock s1 = clock s" "events s1 = events s"
    using lookup_result[of Conn_track "enc_ct_tuple key" s]
      lookup_frame[of Conn_track "enc_ct_tuple key" s] by (simp_all add: l)
  show ?thesis
  proof (cases r0)
    case None
    then show ?thesis
      using f1 r0 by (auto simp: ct_lookup_def l conn_policy1_def conn_entry_def)
  next
    case (Some bs)
    then obtain c where c: "dec_conn_value bs = Some c"
      using r0 conn_value_decodes by metis
    have ce: "conn_entry (contents s) key = Some c"
      unfolding conn_entry_def r0[symmetric] Some using c by simp
    obtain now2 s2 where t2: "bpf_ktime_get_ns K s1 = (now2, s2)" "clock s1 \<le> now2" "clock s2 = now2"
      "contents s2 = contents s1" "events s2 = events s1" by (rule ktime_obtain)
    obtain t s3 where t3: "bpf_ktime_get_ns K s2 = (t, s3)" "clock s2 \<le> t" "clock s3 = t"
      "contents s3 = contents s2" "events s3 = events s2" by (rule ktime_obtain)
    show ?thesis
    proof (cases "conn_expired now2 c")
      case True
      then have "ct_lookup K bump key s =
          Some (Return XDP_DROP, snd (bpf_map_delete_elem K Conn_track (enc_ct_tuple key) s2))"
        by (simp add: ct_lookup_def l Some c check_conn_expiry_def conn_expired_def t2)
      moreover have "conn_policy1 (contents s) key now2 = Return XDP_DROP"
        using True ce by (simp add: conn_policy1_def)
      moreover have "maps_le (contents (snd (bpf_map_delete_elem K Conn_track (enc_ct_tuple key) s2)))
          (contents s)"
        using f1 t2 by (auto simp: delete_contents)
      ultimately show ?thesis
        using f1 t2 by (auto simp: delete_frame)
    next
      case False
      let ?c = "(bump c)\<lparr>cv_last_timestamp := t\<rparr>"
      let ?s' = "snd (bpf_map_update_elem K Conn_track (enc_ct_tuple key) (enc_conn_value ?c) BPF_EXIST s3)"
      have "ct_lookup K bump key s = Some (Return XDP_PASS, ?s')"
        using False by (simp add: ct_lookup_def l Some c check_conn_expiry_def conn_expired_def t2 t3)
      moreover have "conn_policy1 (contents s) key now2 = Return XDP_PASS"
        using False ce by (simp add: conn_policy1_def)
      moreover have "one_conn (contents s) (contents ?s') key ?c"
        using f1 t2 t3 update_one_conn[of s3 key ?c BPF_EXIST] by simp
      moreover have "now2 \<le> t" "clock ?s' = t" "events ?s' = events s"
        using f1 t2 t3 by (simp_all add: update_frame)
      ultimately show ?thesis
        using False ce f1(2) t2(2) by (intro exI[of _ "Return XDP_PASS"] exI[of _ ?s'] exI[of _ now2]) auto
    qed
  qed
qed

lemma conntrack_stage:
  "\<exists>r s' now2. xdp_conntrack K h s = Some (r, s') \<and> clock s \<le> now2 \<and> now2 \<le> clock s' \<and>
     events s' = events s \<and>
     r = conn_policy (contents s) h now2 \<and>
     (r = Continue () \<longrightarrow> contents s' = contents s) \<and>
     (r = Return XDP_DROP \<longrightarrow> maps_le (contents s') (contents s)) \<and>
     (r = Return XDP_PASS \<longrightarrow> (\<exists>key c c'. key \<in> {ct_key_of h, reverseTuple (ct_key_of h)} \<and>
        conn_entry (contents s) key = Some c \<and> \<not> conn_expired now2 c \<and> refreshed c c' \<and>
        one_conn (contents s) (contents s') key c'))"
proof -
  obtain r s1 now2 where st1: "ct_lookup K bump_tx (ct_key_of h) s = Some (r, s1)" "clock s \<le> now2"
    "now2 \<le> clock s1" "r = conn_policy1 (contents s) (ct_key_of h) now2" "events s1 = events s"
    "r = Continue () \<Longrightarrow> contents s1 = contents s"
    "r = Return XDP_DROP \<Longrightarrow> maps_le (contents s1) (contents s)"
    "r = Return XDP_PASS \<Longrightarrow> \<exists>c t. conn_entry (contents s) (ct_key_of h) = Some c \<and>
       \<not> conn_expired now2 c \<and> now2 \<le> t \<and> t \<le> clock s1 \<and>
       one_conn (contents s) (contents s1) (ct_key_of h) ((bump_tx c)\<lparr>cv_last_timestamp := t\<rparr>)"
    using ct_lookup_stage[of bump_tx "ct_key_of h" s] by blast
  show ?thesis
  proof (cases r)
    case (Return a)
    have "\<exists>key c c'. key \<in> {ct_key_of h, reverseTuple (ct_key_of h)} \<and>
        conn_entry (contents s) key = Some c \<and> \<not> conn_expired now2 c \<and> refreshed c c' \<and>
        one_conn (contents s) (contents s1) key c'" if "r = Return XDP_PASS"
      using st1(8)[OF that] refreshed_bump(1) by blast
    moreover have "xdp_conntrack K h s = Some (r, s1)"
      by (simp add: xdp_conntrack_def st1(1) Return)
    moreover have "r = conn_policy (contents s) h now2"
      unfolding conn_policy_def st1(4)[symmetric] Return by simp
    ultimately show ?thesis
      using st1(2,3,5-7) by (intro exI[of _ r] exI[of _ s1] exI[of _ now2]) simp
  next
    case (Continue u)
    obtain r' s2 now3 where st2: "ct_lookup K bump_rx (reverseTuple (ct_key_of h)) s1 = Some (r', s2)"
      "clock s1 \<le> now3" "now3 \<le> clock s2"
      "r' = conn_policy1 (contents s1) (reverseTuple (ct_key_of h)) now3" "events s2 = events s1"
      "r' = Continue () \<Longrightarrow> contents s2 = contents s1"
      "r' = Return XDP_DROP \<Longrightarrow> maps_le (contents s2) (contents s1)"
      "r' = Return XDP_PASS \<Longrightarrow> \<exists>c t. conn_entry (contents s1) (reverseTuple (ct_key_of h)) = Some c \<and>
         \<not> conn_expired now3 c \<and> now3 \<le> t \<and> t \<le> clock s2 \<and>
         one_conn (contents s1) (contents s2) (reverseTuple (ct_key_of h))
           ((bump_rx c)\<lparr>cv_last_timestamp := t\<rparr>)"
      using ct_lookup_stage[of bump_rx "reverseTuple (ct_key_of h)" s1] by blast
    have c1: "contents s1 = contents s" using st1(6) Continue by simp
    have none: "conn_policy1 (contents s) (ct_key_of h) now3 = Continue ()"
      using st1(4) Continue by (simp add: conn_policy1_def split: option.splits)
    have "\<exists>key c c'. key \<in> {ct_key_of h, reverseTuple (ct_key_of h)} \<and>
        conn_entry (contents s) key = Some c \<and> \<not> conn_expired now3 c \<and> refreshed c c' \<and>
        one_conn (contents s) (contents s2) key c'" if "r' = Return XDP_PASS"
      using st2(8)[OF that] refreshed_bump(2) unfolding c1 by blast
    moreover have "xdp_conntrack K h s = Some (r', s2)"
      by (simp add: xdp_conntrack_def st1(1) Continue st2(1))
    moreover have "r' = conn_policy (contents s) h now3"
      by (simp add: conn_policy_def none st2(4) c1)
    moreover have "clock s \<le> now3" using st1(2,3) st2(2) by (meson order_trans)
    ultimately show ?thesis
      using st1(5) st2(3,5-7) c1 by (intro exI[of _ r'] exI[of _ s2] exI[of _ now3]) simp
  qed
qed

lemma submit_event_frame:
  "contents (snd (submit_event K a h s)) = contents s"
  "clock s \<le> clock (snd (submit_event K a h s))"
  by (rule ktime_obtain[of s]; simp add: submit_event_def perf_frame)+

lemma submit_event_logs:
  "\<exists>ts. clock s \<le> ts \<and> ts \<le> clock (snd (submit_event K a h s)) \<and>
     (events (snd (submit_event K a h s)) = events s \<or>
      events (snd (submit_event K a h s)) = events s @ [enc_event ts a (h_saddr h) (h_daddr h)
        (h_sport h) (h_dport h) (h_protocol h) (h_tot_len h)])"
proof -
  obtain t s1 where t: "bpf_ktime_get_ns K s = (t, s1)" "clock s \<le> t" "clock s1 = t"
    "contents s1 = contents s" "events s1 = events s" by (rule ktime_obtain)
  let ?ev = "enc_event t a (h_saddr h) (h_daddr h) (h_sport h) (h_dport h) (h_protocol h) (h_tot_len h)"
  show ?thesis
    using t perf_events[of Events BPF_F_CURRENT_CPU ?ev s1]
    by (intro exI[of _ t]) (simp add: submit_event_def perf_frame)
qed

text \<open>Accepting a flow writes one connection entry, stamped after the decision.\<close>

lemma accept_flow_stage:
  "\<exists>ts lts. clock s \<le> ts \<and> ts \<le> lts \<and> lts \<le> clock (accept_flow K h e now s) \<and>
     one_conn (contents s) (contents (accept_flow K h e now s)) (ct_key_of h) (new_conn ts lts (e - now))"
proof -
  let ?s1 = "snd (submit_event K 1 h s)"
  obtain ts s2 where t2: "bpf_ktime_get_ns K ?s1 = (ts, s2)" "clock ?s1 \<le> ts" "clock s2 = ts"
    "contents s2 = contents ?s1" "events s2 = events ?s1" by (rule ktime_obtain)
  obtain lts s3 where t3: "bpf_ktime_get_ns K s2 = (lts, s3)" "clock s2 \<le> lts" "clock s3 = lts"
    "contents s3 = contents s2" "events s3 = events s2" by (rule ktime_obtain)
  have "accept_flow K h e now s = snd (bpf_map_update_elem K Conn_track (enc_ct_tuple (ct_key_of h))
      (enc_conn_value (new_conn ts lts (e - now))) BPF_ANY s3)"
    by (simp add: accept_flow_def t2(1) t3(1) new_conn_def)
  moreover have "contents s3 = contents s" "clock s \<le> ts"
    using t2 t3 submit_event_frame[where a = 1 and h = h and s = s] by auto
  ultimately show ?thesis
    using t2 t3 update_one_conn[of s3 "ct_key_of h" "new_conn ts lts (e - now)" BPF_ANY]
    by (intro exI[of _ ts] exI[of _ lts]) (simp add: update_frame)
qed

text \<open>One block: it decides as \<open>block_policy\<close> does and leaves what its verdict allows.\<close>

definition block_frame :: "headers \<Rightarrow> 64 word \<Rightarrow> acl_value option \<Rightarrow> 's \<Rightarrow> unit flow \<times> 's \<Rightarrow> bool" where
  "block_frame h now val s r \<longleftrightarrow>
     fst r = block_policy now val \<and> clock s \<le> clock (snd r) \<and>
     (fst r = Continue () \<longrightarrow> snd r = s) \<and>
     (fst r = Return XDP_DROP \<longrightarrow> maps_le (contents (snd r)) (contents s) \<and> events (snd r) = events s) \<and>
     (fst r = Return XDP_PASS \<longrightarrow> (\<exists>v ts lts. val = Some v \<and> grants now v \<and> clock s \<le> ts \<and>
        ts \<le> lts \<and> lts \<le> clock (snd r) \<and>
        one_conn (contents s) (contents (snd r)) (ct_key_of h)
          (new_conn ts lts (av_expire_time v - now))))"

lemma acl_block_frame: "block_frame h now val s (acl_block K h now m key val s)"
proof (cases "block_policy now val")
  case (Return a)
  then obtain v where v: "val = Some v" by (cases val) auto
  show ?thesis
  proof (cases "av_expire_time v < now")
    case True
    then show ?thesis
      using v by (auto simp: block_frame_def acl_block_def delete_contents delete_frame)
  next
    case False
    then have "acl_block K h now m key val s = (Return XDP_PASS, accept_flow K h (av_expire_time v) now s)"
      "grants now v"
      using v Return by (auto simp: acl_block_def grants_def split: if_splits)
    then show ?thesis
      using accept_flow_stage[where s = s and h = h and e = "av_expire_time v" and now = now] False Return v
      by (auto simp: block_frame_def grants_def)
  qed
next
  case (Continue u)
  then show ?thesis
    by (cases val) (auto simp: block_frame_def acl_block_def split: if_splits)
qed

text \<open>The chain of blocks: the first one that returns decides.\<close>

definition chain_result :: "headers \<Rightarrow> 64 word \<Rightarrow> acl_value option list \<Rightarrow> 's \<Rightarrow>
    (unit flow \<times> 's) option \<Rightarrow> bool" where
  "chain_result h now vals s R \<longleftrightarrow> (\<exists>r s'. R = Some (r, s') \<and> clock s \<le> clock s' \<and>
     (r = Continue () \<and> s' = s \<and> first_match now vals = XDP_DROP \<and>
        (\<forall>v. Some v \<in> set vals \<longrightarrow> \<not> grants now v) \<or>
      r = Return XDP_DROP \<and> first_match now vals = XDP_DROP \<and>
        maps_le (contents s') (contents s) \<and> events s' = events s \<or>
      r = Return XDP_PASS \<and> first_match now vals = XDP_PASS \<and>
        (\<exists>v ts lts. Some v \<in> set vals \<and> grants now v \<and> clock s \<le> ts \<and> ts \<le> lts \<and> lts \<le> clock s' \<and>
           one_conn (contents s) (contents s') (ct_key_of h)
             (new_conn ts lts (av_expire_time v - now)))))"

lemma chain_nil: "chain_result h now [] s (Some (Continue (), s))"
  by (simp add: chain_result_def)

lemma chain_cons:
  assumes b: "block_frame h now val s b" and rest: "chain_result h now vals s (f s)"
  shows "chain_result h now (val # vals) s (flow_bind (Some b) (\<lambda>_. f))"
proof (cases b)
  case (Pair r s')
  show ?thesis
  proof (cases "block_policy now val")
    case (Continue u)
    then have "flow_bind (Some b) (\<lambda>_. f) = f s" "first_match now (val # vals) = first_match now vals"
      "\<And>v. val = Some v \<Longrightarrow> \<not> grants now v"
      using b Pair by (cases val; auto simp: block_frame_def grants_def split: if_splits)+
    with rest show ?thesis by (fastforce simp: chain_result_def)
  next
    case (Return a)
    then obtain v where v: "val = Some v" by (cases val) auto
    show ?thesis
    proof (cases "av_expire_time v < now")
      case True
      then show ?thesis using b Pair v by (auto simp: chain_result_def block_frame_def)
    next
      case False
      then have "a = XDP_PASS" "first_match now (val # vals) = XDP_PASS"
        using Return v by (auto split: if_splits)
      with b Pair Return v show ?thesis by (fastforce simp: chain_result_def block_frame_def)
    qed
  qed
qed

lemma flow_bind_Continue: "flow_bind (Some b) (\<lambda>_ s. Some (Continue (), s)) = Some b"
proof (cases b)
  case (Pair r s')
  then show ?thesis by (cases r) auto
qed

lemma lookup_frame_chain:
  "contents (snd (bpf_map_lookup_elem K m k s)) = contents s"
  "clock (snd (bpf_map_lookup_elem K m k s)) = clock s"
  "events (snd (bpf_map_lookup_elem K m k s)) = events s"
  by (simp_all add: lookup_frame)

lemma allowlists_stage:
  "\<exists>s5 R. xdp_allowlists K h now s = R \<and> contents s5 = contents s \<and> clock s5 = clock s \<and>
     events s5 = events s \<and> chain_result h now (acl_entries (contents s) h) s5 R"
proof -
  let ?L = "\<lambda>m k s. snd (bpf_map_lookup_elem K m k s)"
  let ?s1 = "?L Spp (enc_whitelist_key (spp_key h)) s"
  let ?s2 = "?L Sdwhitelist (enc_ip_pair_key (sd_key h)) ?s1"
  let ?s3 = "?L Src_port (enc_src_port_list_key (sp_key h)) ?s2"
  let ?s4 = "?L Port_list (enc_port_list_key (pl_key h)) ?s3"
  let ?s5 = "?L Protocol_port (enc_protocol_port_key (pp_key h)) ?s4"
  obtain e1 e2 e3 e4 e5 where es: "acl_entries (contents s) h = [e1, e2, e3, e4, e5]"
    by (simp add: acl_entries_def)
  let ?R = "flow_bind (Some (spp_block K h now e1 ?s5)) (\<lambda>_ s.
     flow_bind (Some (sd_block K h now e2 s)) (\<lambda>_ s.
     flow_bind (Some (sp_block K h now e3 s)) (\<lambda>_ s.
     flow_bind (Some (pl_block K h now e4 s)) (\<lambda>_ s.
     flow_bind (Some (pp_block K h now e5 s)) (\<lambda>_ s. Some (Continue (), s))))))"
  have "xdp_allowlists K h now s = ?R"
    using es by (simp add: xdp_allowlists_def acl_lookup_maps[OF bpf_kernel_contract_axioms]
        lookup_frame_chain acl_entries_def flow_bind_Continue)
  moreover have "chain_result h now (acl_entries (contents s) h) ?s5 ?R"
    unfolding es acl_block_defs by (intro chain_cons chain_nil acl_block_frame)
  ultimately show ?thesis
    by (intro exI[of _ ?s5] exI[of _ ?R]) (simp add: lookup_frame_chain)
qed

text \<open>The allow-lists and the final deny together, seen from the map contents.\<close>

lemma allow_or_deny_stage:
  "\<exists>a s'. flow_bind (xdp_allowlists K h now s)
       (\<lambda>_ s4. Some (Return XDP_DROP, snd (submit_event K 0 h s4)) :: (unit flow \<times> 's) option) =
       Some (Return a, s') \<and>
     clock s \<le> clock s' \<and> a = first_match now (acl_entries (contents s) h) \<and>
     (maps_le (contents s') (contents s) \<or>
      a = XDP_PASS \<and> (\<exists>v ts lts. Some v \<in> set (acl_entries (contents s) h) \<and> grants now v \<and>
        clock s \<le> ts \<and> ts \<le> lts \<and> lts \<le> clock s' \<and>
        one_conn (contents s) (contents s') (ct_key_of h) (new_conn ts lts (av_expire_time v - now))))"
proof -
  obtain s5 where l: "contents s5 = contents s" "clock s5 = clock s"
    "chain_result h now (acl_entries (contents s) h) s5 (xdp_allowlists K h now s)"
    using allowlists_stage[of h now s] by blast
  let ?fm = "first_match now (acl_entries (contents s) h)"
  from l(3) obtain r s' where R: "xdp_allowlists K h now s = Some (r, s')" and clk: "clock s5 \<le> clock s'"
    and cs: "r = Continue () \<and> s' = s5 \<and> ?fm = XDP_DROP \<and>
        (\<forall>v. Some v \<in> set (acl_entries (contents s) h) \<longrightarrow> \<not> grants now v) \<or>
      r = Return XDP_DROP \<and> ?fm = XDP_DROP \<and>
        maps_le (contents s') (contents s5) \<and> events s' = events s5 \<or>
      r = Return XDP_PASS \<and> ?fm = XDP_PASS \<and>
        (\<exists>v ts lts. Some v \<in> set (acl_entries (contents s) h) \<and> grants now v \<and> clock s5 \<le> ts \<and>
           ts \<le> lts \<and> lts \<le> clock s' \<and>
           one_conn (contents s5) (contents s') (ct_key_of h)
             (new_conn ts lts (av_expire_time v - now)))"
    unfolding chain_result_def by (elim exE conjE)
  from cs consider
      "r = Continue ()" "s' = s5" "?fm = XDP_DROP"
    | "r = Return XDP_DROP" "?fm = XDP_DROP" "maps_le (contents s') (contents s5)"
    | v ts lts where "r = Return XDP_PASS" "?fm = XDP_PASS"
        "Some v \<in> set (acl_entries (contents s) h)" "grants now v" "clock s5 \<le> ts" "ts \<le> lts"
        "lts \<le> clock s'" "one_conn (contents s5) (contents s') (ct_key_of h)
           (new_conn ts lts (av_expire_time v - now))"
    by blast
  then show ?thesis
  proof cases
    case 1
    then show ?thesis
      using l submit_event_frame[where s = s5 and a = 0 and h = h] by (simp add: R)
  next
    case 2
    then show ?thesis using l clk by (simp add: R)
  next
    case (3 v ts lts)
    then show ?thesis using l clk
      by (intro exI[of _ XDP_PASS] exI[of _ s']) (auto simp: R)
  qed
qed

lemma xdp_stages_correct:
  "\<exists>a s' now now1 now2. xdp_stages K pkt h s = Some (Return a, s') \<and>
     clock s \<le> now \<and> now \<le> now1 \<and> now1 \<le> now2 \<and> now2 \<le> clock s' \<and>
     a = flow_policy pkt (contents s) h now now1 now2 \<and>
     flow_effect (contents s) (contents s') h now now2 (clock s') a"
proof -
  obtain now s1 where t: "bpf_ktime_get_ns K s = (now, s1)" "clock s \<le> now" "clock s1 = now"
    "contents s1 = contents s" "events s1 = events s" by (rule ktime_obtain)
  obtain r2 s2 now1 where i: "xdp_icmp K pkt h s1 = Some (r2, s2)" "clock s1 \<le> now1" "now1 \<le> clock s2"
    "r2 = icmp_policy pkt (contents s1) h now1" "maps_le (contents s2) (contents s1)"
    "r2 = Continue () \<Longrightarrow> contents s2 = contents s1"
    using icmp_stage[of pkt h s1] by blast
  have ip: "icmp_policy pkt (contents s) h now1 = r2" using i(4) unfolding t(4) by simp
  show ?thesis
  proof (cases r2)
    case (Return a)
    then have "xdp_stages K pkt h s = Some (Return a, s2)"
      "a = flow_policy pkt (contents s) h now now1 now1"
      "flow_effect (contents s) (contents s2) h now now1 (clock s2) a"
      using i(5) t(4) by (simp_all add: xdp_stages_def t(1) i(1) flow_policy_def ip flow_effect_def)
    then show ?thesis using t i(2,3) by (metis order_refl)
  next
    case (Continue u2)
    have c2: "contents s2 = contents s" using i(6) Continue t(4) by simp
    obtain r3 s3 now2 where c: "xdp_conntrack K h s2 = Some (r3, s3)" "clock s2 \<le> now2"
      "now2 \<le> clock s3" "r3 = conn_policy (contents s2) h now2"
      "r3 = Continue () \<Longrightarrow> contents s3 = contents s2"
      "r3 = Return XDP_DROP \<Longrightarrow> maps_le (contents s3) (contents s2)"
      "r3 = Return XDP_PASS \<Longrightarrow> (\<exists>key c c'. key \<in> {ct_key_of h, reverseTuple (ct_key_of h)} \<and>
        conn_entry (contents s2) key = Some c \<and> \<not> conn_expired now2 c \<and> refreshed c c' \<and>
        one_conn (contents s2) (contents s3) key c')"
      using conntrack_stage[of h s2] by blast
    have cp: "conn_policy (contents s) h now2 = r3" using c(4) unfolding c2 by simp
    have le: "now1 \<le> now2" "now \<le> now1" using i(2,3) c(2) t(3) by auto
    show ?thesis
    proof (cases r3)
      case (Return a)
      have "a = XDP_DROP \<or> a = XDP_PASS"
        using c(4) Return by (auto simp: conn_policy_def conn_policy1_def split: option.splits flow.splits if_splits)
      then have "flow_effect (contents s) (contents s3) h now now2 (clock s3) a"
        using c(6,7) Return c2 by (auto simp: flow_effect_def)
      moreover have "xdp_stages K pkt h s = Some (Return a, s3)"
        by (simp add: xdp_stages_def t(1) i(1) Continue c(1) Return)
      moreover have "a = flow_policy pkt (contents s) h now now1 now2"
        by (simp add: flow_policy_def ip cp Continue Return)
      ultimately show ?thesis using t le c(3) by blast
    next
      case cont3: (Continue u3)
      have c3: "contents s3 = contents s" using c(5) cont3 c2 by simp
      obtain a s' where d: "flow_bind (xdp_allowlists K h now s3)
         (\<lambda>_ s4. Some (Return XDP_DROP, snd (submit_event K 0 h s4)) :: (unit flow \<times> 's) option) =
           Some (Return a, s')"
        "clock s3 \<le> clock s'" "a = first_match now (acl_entries (contents s3) h)"
        "maps_le (contents s') (contents s3) \<or>
         a = XDP_PASS \<and> (\<exists>v ts lts. Some v \<in> set (acl_entries (contents s3) h) \<and> grants now v \<and>
          clock s3 \<le> ts \<and> ts \<le> lts \<and> lts \<le> clock s' \<and>
          one_conn (contents s3) (contents s') (ct_key_of h) (new_conn ts lts (av_expire_time v - now)))"
        using allow_or_deny_stage[of h now s3] by blast
      have "xdp_stages K pkt h s = Some (Return a, s')"
        using d(1) by (simp add: xdp_stages_def t(1) i(1) Continue c(1) cont3)
      moreover have "a = flow_policy pkt (contents s) h now now1 now2"
        using d(3) by (simp add: flow_policy_def ip cp Continue cont3 c3)
      moreover have "flow_effect (contents s) (contents s') h now now2 (clock s') a"
        using d(4) c(3) unfolding flow_effect_def c3 by (meson order_trans)
      moreover have "now2 \<le> clock s'" using c(3) d(2) by (rule order_trans)
      ultimately show ?thesis using t(2) le by blast
    qed
  qed
qed

text \<open>The whole program: it returns, it decides as the policy, it changes only what it may.\<close>

lemma xdp_correct:
  "\<exists>a s' now now1 now2. xdp_white_prog K pkt s = Some (a, s') \<and>
     clock s \<le> now \<and> now \<le> now1 \<and> now1 \<le> now2 \<and>
     a = policy pkt (contents s) now now1 now2 \<and>
     (\<forall>b. xdp_headers pkt = Some (Return b) \<longrightarrow> s' = s) \<and>
     (\<forall>h. xdp_headers pkt = Some (Continue h) \<longrightarrow>
        now2 \<le> clock s' \<and> flow_effect (contents s) (contents s') h now now2 (clock s') a)"
proof -
  obtain f where f: "xdp_headers pkt = Some f" using xdp_headers_total by blast
  show ?thesis
  proof (cases f)
    case (Return a)
    then show ?thesis using f by (auto simp: xdp_white_prog_def policy_def)
  next
    case (Continue h)
    with f xdp_stages_correct[of pkt h s] show ?thesis
      by (fastforce simp: xdp_white_prog_def policy_def)
  qed
qed

lemma xdp_runE:
  assumes "xdp_white_prog K pkt s = Some (a, s')" "xdp_headers pkt = Some (Continue h)"
  obtains now now1 now2 where "clock s \<le> now" "now \<le> now1" "now1 \<le> now2" "now2 \<le> clock s'"
    "a = flow_policy pkt (contents s) h now now1 now2"
    "flow_effect (contents s) (contents s') h now now2 (clock s') a"
proof -
  obtain a0 s0 now now1 now2 where p: "xdp_stages K pkt h s = Some (Return a0, s0)"
    "clock s \<le> now" "now \<le> now1" "now1 \<le> now2" "now2 \<le> clock s0"
    "a0 = flow_policy pkt (contents s) h now now1 now2"
    "flow_effect (contents s) (contents s0) h now now2 (clock s0) a0"
    using xdp_stages_correct[of pkt h s] by blast
  have "a = a0" "s' = s0" using assms p(1) by (simp_all add: xdp_white_prog_def)
  with p(2-) that show ?thesis by blast
qed

end

end
