(* ===== verification/Xdp_Outcomes.thy ===== *)
theory Xdp_Outcomes
  imports Xdp_Correct
begin

text \<open>
  What a packet leaves behind, exactly. The five blocks are a chain over the list of the flow's
  allow-list slots (map, key, entry); the first slot that is not \<open>undecided\<close> decides, and the
  state after the packet is the state that slot's block makes. In a kernel that always has room
  (\<open>bpf_kernel_roomy\<close>) this gives the map contents and the log after the packet.
\<close>

type_synonym slot = "bpf_map \<times> byte list \<times> acl_value option"

definition acl_slots :: "maps \<Rightarrow> headers \<Rightarrow> slot list" where
  "acl_slots maps h =
     [(Spp, enc_whitelist_key (spp_key h),
         acl_entry maps Spp struct_whitelist_value (enc_whitelist_key (spp_key h))),
      (Sdwhitelist, enc_ip_pair_key (sd_key h),
         acl_entry maps Sdwhitelist struct_sdwhitelist_value (enc_ip_pair_key (sd_key h))),
      (Src_port, enc_src_port_list_key (sp_key h),
         acl_entry maps Src_port struct_src_port_list_value (enc_src_port_list_key (sp_key h))),
      (Port_list, enc_port_list_key (pl_key h),
         acl_entry maps Port_list struct_port_list_value (enc_port_list_key (pl_key h))),
      (Protocol_port, enc_protocol_port_key (pp_key h),
         acl_entry maps Protocol_port struct_protocol_port_value (enc_protocol_port_key (pp_key h)))]"

lemma acl_entries_slots: "acl_entries maps h = map (snd \<circ> snd) (acl_slots maps h)"
  by (simp add: acl_entries_def acl_slots_def)

text \<open>A slot that decides nothing: no entry, or one that is neither expired nor allowing.\<close>

fun undecided :: "64 word \<Rightarrow> acl_value option \<Rightarrow> bool" where
  "undecided now None = True"
| "undecided now (Some v) = (\<not> av_expire_time v < now \<and> av_allowed v \<noteq> 1)"

lemma first_match_undecided:
  "\<forall>e \<in> set es. undecided now e \<Longrightarrow> first_match now (es @ fs) = first_match now fs"
proof (induction es)
  case Nil
  then show ?case by simp
next
  case (Cons e es)
  then show ?case by (cases e) auto
qed

lemma undecided_earlier: "undecided t e \<Longrightarrow> now \<le> t \<Longrightarrow> undecided now e"
  by (cases e) (auto simp: not_less intro: order_trans)

lemma grants_earlier: "grants t v \<Longrightarrow> now \<le> t \<Longrightarrow> grants now v"
  by (auto simp: grants_def intro: order_trans)

primrec acl_chain :: "'s bpf_kernel \<Rightarrow> headers \<Rightarrow> 64 word \<Rightarrow> slot list \<Rightarrow> 's \<Rightarrow> unit flow \<times> 's" where
  "acl_chain K h now [] s = (Continue (), s)"
| "acl_chain K h now (sl # sls) s = (case sl of (m, key, val) \<Rightarrow>
     (case acl_block K h now m key val s of
        (Return a, s') \<Rightarrow> (Return a, s')
      | (Continue _, s') \<Rightarrow> acl_chain K h now sls s'))"

lemma acl_block_undecided:
  "undecided now val \<Longrightarrow> acl_block K h now m key val s = (Continue (), s)"
  by (cases val) (auto simp: acl_block_def)

lemma acl_chain_undecided:
  assumes "\<forall>sl \<in> set pre. undecided now (snd (snd sl))"
  shows "acl_chain K h now (pre @ sls) s = acl_chain K h now sls s"
  using assms by (induction pre) (auto simp: acl_block_undecided split: prod.splits)

lemma acl_chain_expired:
  assumes "\<forall>sl \<in> set pre. undecided now (snd (snd sl))" "av_expire_time v < now"
  shows "acl_chain K h now (pre @ (m, key, Some v) # post) s =
    (Return XDP_DROP, snd (bpf_map_delete_elem K m key s))"
  using assms by (simp add: acl_chain_undecided acl_block_def)

lemma acl_chain_grants:
  assumes "\<forall>sl \<in> set pre. undecided now (snd (snd sl))" "grants now v"
  shows "acl_chain K h now (pre @ (m, key, Some v) # post) s =
    (Return XDP_PASS, accept_flow K h (av_expire_time v) now s)"
  using assms by (auto simp: acl_chain_undecided acl_block_def grants_def)

lemma acl_chain_denies:
  assumes "\<forall>sl \<in> set sls. undecided now (snd (snd sl))"
  shows "acl_chain K h now sls s = (Continue (), s)"
  using acl_chain_undecided[OF assms, where sls = "[]" and K = K and h = h and s = s] by simp

lemma flow_bind_block:
  "flow_bind (Some r) (\<lambda>_ s'. Some (f s')) =
     Some (case r of (Return a, s') \<Rightarrow> (Return a, s') | (Continue _, s') \<Rightarrow> f s')"
  by (auto simp: flow_bind_def split: flow.splits prod.splits)

lemma chain_last:
  "(case r of (Return a, s') \<Rightarrow> (Return a, s') | (Continue _, s') \<Rightarrow> (Continue (), s')) = r"
  by (auto split: prod.splits flow.splits)

context bpf_kernel_contract
begin

lemma allowlists_chain:
  "\<exists>s5. contents s5 = contents s \<and> clock s5 = clock s \<and> events s5 = events s \<and>
     xdp_allowlists K h now s = Some (acl_chain K h now (acl_slots (contents s) h) s5)"
proof -
  let ?L = "\<lambda>m k s. snd (bpf_map_lookup_elem K m k s)"
  let ?s5 = "?L Protocol_port (enc_protocol_port_key (pp_key h))
    (?L Port_list (enc_port_list_key (pl_key h))
    (?L Src_port (enc_src_port_list_key (sp_key h))
    (?L Sdwhitelist (enc_ip_pair_key (sd_key h))
    (?L Spp (enc_whitelist_key (spp_key h)) s))))"
  have "xdp_allowlists K h now s = Some (acl_chain K h now (acl_slots (contents s) h) ?s5)"
    by (simp only: xdp_allowlists_def acl_lookup_maps[OF bpf_kernel_contract_axioms]
        lookup_frame_chain acl_slots_def acl_chain.simps acl_block_defs flow_bind_block
        bind.bind_lunit prod.case chain_last)
  then show ?thesis
    by (intro exI[of _ ?s5]) (simp only: lookup_frame_chain simp_thms)
qed

text \<open>
  A flow that neither the echo rules nor connection tracking decide reaches the chain with the
  maps and the log as they were.
\<close>

lemma xdp_reaches_chain:
  assumes hd: "xdp_headers pkt = Some (Continue h)"
    and icmp: "\<forall>t. icmp_policy pkt (contents s) h t = Continue ()"
    and none: "conn_entry (contents s) (ct_key_of h) = None"
      "conn_entry (contents s) (reverseTuple (ct_key_of h)) = None"
  obtains now s5 where "clock s \<le> now" "now \<le> clock s5" "contents s5 = contents s"
    "events s5 = events s"
    "\<forall>a s'. acl_chain K h now (acl_slots (contents s) h) s5 = (Return a, s') \<longrightarrow>
       xdp_white_prog K pkt s = Some (a, s')"
    "\<forall>s'. acl_chain K h now (acl_slots (contents s) h) s5 = (Continue (), s') \<longrightarrow>
       xdp_white_prog K pkt s = Some (XDP_DROP, snd (submit_event K 0 h s'))"
proof -
  obtain now s1 where t: "bpf_ktime_get_ns K s = (now, s1)" "clock s \<le> now" "clock s1 = now"
    "contents s1 = contents s" "events s1 = events s" by (rule ktime_obtain)
  obtain r2 s2 where i: "xdp_icmp K pkt h s1 = Some (r2, s2)" "clock s1 \<le> clock s2"
    "r2 = Continue ()" "contents s2 = contents s1" "events s2 = events s1"
    using icmp_stage[of pkt h s1] icmp unfolding t(4) by (metis order_trans)
  have np: "conn_policy (contents s2) h t = Continue ()" for t
    using none i(4) t(4) by (simp add: conn_policy_def conn_policy1_def)
  obtain r3 s3 where c: "xdp_conntrack K h s2 = Some (r3, s3)" "clock s2 \<le> clock s3"
    "r3 = Continue ()" "contents s3 = contents s2" "events s3 = events s2"
    using conntrack_stage[of h s2] np by (metis order_trans)
  have eq: "contents s3 = contents s" "events s3 = events s" "now \<le> clock s3"
    using t i(2,4,5) c(2,4,5) by auto
  obtain s5 where a: "contents s5 = contents s3" "clock s5 = clock s3" "events s5 = events s3"
    "xdp_allowlists K h now s3 = Some (acl_chain K h now (acl_slots (contents s3) h) s5)"
    using allowlists_chain[of s3 h now] by blast
  have run: "xdp_white_prog K pkt s = (case flow_bind (Some (acl_chain K h now (acl_slots (contents s) h) s5))
       (\<lambda>_ s4. Some (Return XDP_DROP, snd (submit_event K 0 h s4)) :: (unit flow \<times> 's) option) of
         Some (Return a, s') \<Rightarrow> Some (a, s') | _ \<Rightarrow> None)"
    using a(4) unfolding eq(1)
    by (simp add: xdp_white_prog_def hd xdp_stages_def t(1) i(1,3) c(1,3) split: option.splits flow.splits)
  have "xdp_white_prog K pkt s = Some (a, s')"
    if "acl_chain K h now (acl_slots (contents s) h) s5 = (Return a, s')" for a s'
    by (simp add: run that)
  moreover have "xdp_white_prog K pkt s = Some (XDP_DROP, snd (submit_event K 0 h s'))"
    if "acl_chain K h now (acl_slots (contents s) h) s5 = (Continue (), s')" for s'
    by (simp add: run that)
  moreover have "now \<le> clock s5" "contents s5 = contents s" "events s5 = events s"
    using eq a(1-3) by simp_all
  ultimately show ?thesis using that[OF t(2)] by blast
qed

end

context bpf_kernel_contract
begin

lemma accept_flow_clock: "clock s \<le> clock (accept_flow K h e now s)"
  using accept_flow_stage[of s h e now] by (meson order_trans)

lemma chain_clock: "clock s \<le> clock (snd (acl_chain K h now sls s))"
proof (induction sls)
  case Nil
  then show ?case by simp
next
  case (Cons sl sls)
  obtain m key val where sl: "sl = (m, key, val)" by (cases sl)
  from acl_block_frame[of h now val s m key] have
    "clock s \<le> clock (snd (acl_block K h now m key val s))"
    "fst (acl_block K h now m key val s) = Continue () \<Longrightarrow> snd (acl_block K h now m key val s) = s"
    by (auto simp: block_frame_def)
  with Cons.IH show ?case by (auto simp: sl split: prod.splits flow.splits)
qed

end

text \<open>The record the program logs for a packet of flow \<open>h\<close>.\<close>

definition event_of :: "64 word \<Rightarrow> 8 word \<Rightarrow> headers \<Rightarrow> byte list" where
  "event_of ts action h = enc_event ts action (h_saddr h) (h_daddr h) (h_sport h) (h_dport h)
     (h_protocol h) (h_tot_len h)"

context bpf_kernel_roomy
begin

lemma submit_event_roomy:
  "\<exists>ts. clock s \<le> ts \<and> ts \<le> clock (snd (submit_event K a h s)) \<and>
     events (snd (submit_event K a h s)) = events s @ [event_of ts a h]"
proof -
  obtain t s1 where t: "bpf_ktime_get_ns K s = (t, s1)" "clock s \<le> t" "clock s1 = t"
    "contents s1 = contents s" "events s1 = events s" by (rule ktime_obtain)
  show ?thesis
    by (intro exI[of _ t]) (simp add: submit_event_def t perf_frame perf_delivers event_of_def)
qed

lemma accept_flow_roomy:
  "\<exists>t0 ts lts. clock s \<le> t0 \<and> t0 \<le> ts \<and> ts \<le> lts \<and> lts = clock (accept_flow K h e now s) \<and>
     events (accept_flow K h e now s) = events s @ [event_of t0 1 h] \<and>
     contents (accept_flow K h e now s) = (contents s)(Conn_track := (contents s Conn_track)
       (enc_ct_tuple (ct_key_of h) := Some (enc_conn_value (new_conn ts lts (e - now)))))"
proof -
  let ?s1 = "snd (submit_event K 1 h s)"
  obtain t0 where t0: "clock s \<le> t0" "t0 \<le> clock ?s1" "events ?s1 = events s @ [event_of t0 1 h]"
    using submit_event_roomy by blast
  obtain ts s2 where t2: "bpf_ktime_get_ns K ?s1 = (ts, s2)" "clock ?s1 \<le> ts" "clock s2 = ts"
    "contents s2 = contents ?s1" "events s2 = events ?s1" by (rule ktime_obtain)
  obtain lts s3 where t3: "bpf_ktime_get_ns K s2 = (lts, s3)" "clock s2 \<le> lts" "clock s3 = lts"
    "contents s3 = contents s2" "events s3 = events s2" by (rule ktime_obtain)
  have "accept_flow K h e now s = snd (bpf_map_update_elem K Conn_track (enc_ct_tuple (ct_key_of h))
      (enc_conn_value (new_conn ts lts (e - now))) BPF_ANY s3)"
    by (simp add: accept_flow_def t2(1) t3(1) new_conn_def)
  moreover have "contents s3 = contents s" "events s3 = events s @ [event_of t0 1 h]"
    using t2 t3 t0 submit_event_frame[where a = 1 and h = h and s = s] by auto
  moreover have "t0 \<le> ts" "ts \<le> lts" "clock s3 = lts" using t0(2) t2(2,3) t3(2,3) by auto
  ultimately show ?thesis
    using t0(1) by (intro exI[of _ t0] exI[of _ ts] exI[of _ lts])
      (simp add: update_frame update_any_contents)
qed

text \<open>A tracked flow: the entry is removed once its lifetime is over and refreshed before.\<close>

lemma xdp_tracked:
  assumes hd: "xdp_headers pkt = Some (Continue h)"
    and icmp: "\<forall>t. icmp_policy pkt (contents s) h t = Continue ()"
    and c: "conn_entry (contents s) (ct_key_of h) = Some c"
  shows "\<exists>a s'. xdp_white_prog K pkt s = Some (a, s') \<and> events s' = events s \<and>
     (conn_expired (clock s) c \<longrightarrow> a = XDP_DROP \<and> contents s' =
        (contents s)(Conn_track := (contents s Conn_track)(enc_ct_tuple (ct_key_of h) := None))) \<and>
     (\<not> conn_expired (clock s') c \<longrightarrow> a = XDP_PASS \<and> (\<exists>t. clock s \<le> t \<and> t \<le> clock s' \<and>
        contents s' = (contents s)(Conn_track := (contents s Conn_track)(enc_ct_tuple (ct_key_of h) :=
          Some (enc_conn_value ((bump_tx c)\<lparr>cv_last_timestamp := t\<rparr>))))))"
proof -
  let ?k = "enc_ct_tuple (ct_key_of h)"
  obtain now s1 where t: "bpf_ktime_get_ns K s = (now, s1)" "clock s \<le> now" "clock s1 = now"
    "contents s1 = contents s" "events s1 = events s" by (rule ktime_obtain)
  obtain r2 s2 where i: "xdp_icmp K pkt h s1 = Some (r2, s2)" "clock s1 \<le> clock s2"
    "r2 = Continue ()" "contents s2 = contents s1" "events s2 = events s1"
    using icmp_stage[of pkt h s1] icmp unfolding t(4) by (metis order_trans)
  obtain r0 s3 where l: "bpf_map_lookup_elem K Conn_track ?k s2 = (r0, s3)" by fastforce
  have r0: "r0 = contents s Conn_track ?k"
    and f3: "contents s3 = contents s" "clock s3 = clock s2" "events s3 = events s"
    using lookup_result[of Conn_track ?k s2] lookup_frame[of Conn_track ?k s2] i t
    by (simp_all add: l)
  obtain bs where bs: "r0 = Some bs" "dec_conn_value bs = Some c"
    using c r0 by (auto simp: conn_entry_def bind_eq_Some_conv)
  obtain now2 s4 where t4: "bpf_ktime_get_ns K s3 = (now2, s4)" "clock s3 \<le> now2" "clock s4 = now2"
    "contents s4 = contents s3" "events s4 = events s3" by (rule ktime_obtain)
  obtain t5 s5 where t5: "bpf_ktime_get_ns K s4 = (t5, s5)" "clock s4 \<le> t5" "clock s5 = t5"
    "contents s5 = contents s4" "events s5 = events s4" by (rule ktime_obtain)
  have le: "clock s \<le> now2" "now2 \<le> t5" using t i f3 t4 t5 by auto
  let ?c = "(bump_tx c)\<lparr>cv_last_timestamp := t5\<rparr>"
  show ?thesis
  proof (cases "conn_expired now2 c")
    case True
    let ?s' = "snd (bpf_map_delete_elem K Conn_track ?k s4)"
    have run: "xdp_white_prog K pkt s = Some (XDP_DROP, ?s')"
      using True by (simp add: xdp_white_prog_def hd xdp_stages_def t(1) i(1,3) xdp_conntrack_def
          ct_lookup_def l bs check_conn_expiry_def conn_expired_def t4(1))
    have "contents ?s' = (contents s)(Conn_track := (contents s Conn_track)(?k := None))"
      "events ?s' = events s" "conn_expired (clock ?s') c"
      using True t4 f3 by (simp_all add: delete_contents delete_frame)
    with run show ?thesis by simp
  next
    case False
    let ?s' = "snd (bpf_map_update_elem K Conn_track ?k (enc_conn_value ?c) BPF_EXIST s5)"
    have run: "xdp_white_prog K pkt s = Some (XDP_PASS, ?s')"
      using False by (simp add: xdp_white_prog_def hd xdp_stages_def t(1) i(1,3) xdp_conntrack_def
          ct_lookup_def l bs check_conn_expiry_def conn_expired_def t4(1) t5(1))
    have s5: "contents s5 = contents s" using t5(4) t4(4) f3(1) by simp
    have "contents s5 Conn_track ?k \<noteq> None" unfolding s5 r0[symmetric] using bs(1) by simp
    then have "contents ?s' =
        (contents s)(Conn_track := (contents s Conn_track)(?k := Some (enc_conn_value ?c)))"
      by (simp add: update_exist_contents s5)
    moreover have "\<not> conn_expired (clock s) c"
      using False le(1) by (auto simp: conn_expired_def)
    moreover have "clock ?s' = t5" "events ?s' = events s"
      using t4 t5 f3 by (simp_all add: update_frame)
    ultimately show ?thesis using run le
      by (intro exI[of _ XDP_PASS] exI[of _ ?s'] conjI impI exI[of _ t5]) simp_all
  qed
qed

end

context bpf_kernel_contract
begin

text \<open>An echo request is decided by its allow-list entry alone.\<close>

lemma xdp_echo:
  assumes hd: "xdp_headers pkt = Some (Continue h)" and proto: "h_protocol h = IPPROTO_ICMP"
    and len: "14 + unat (h_ihl h) * 4 + 8 \<le> length pkt"
    and echo: "pkt ! (14 + unat (h_ihl h) * 4) = 8" "pkt ! (15 + unat (h_ihl h) * 4) = 0"
    and e: "acl_entry (contents s) Icmpwhitelist struct_icmpwhitelist_value
        (enc_ip_pair_key (sd_key h)) = e"
    and dec: "\<not> undecided (clock s) e \<or> e = None"
  shows "\<exists>a s'. xdp_white_prog K pkt s = Some (a, s') \<and> events s' = events s \<and>
     (e = None \<longrightarrow> a = XDP_DROP \<and> contents s' = contents s) \<and>
     (\<forall>v. e = Some v \<longrightarrow> av_expire_time v < clock s \<longrightarrow> a = XDP_DROP \<and> contents s' =
        (contents s)(Icmpwhitelist := (contents s Icmpwhitelist)(enc_ip_pair_key (sd_key h) := None))) \<and>
     (\<forall>v. e = Some v \<longrightarrow> grants (clock s') v \<longrightarrow> a = XDP_PASS \<and> contents s' = contents s)"
proof -
  let ?i = "14 + unat (h_ihl h) * 4"
  let ?key = "enc_ip_pair_key (sd_key h)"
  have bytes: "(load (Suc 0) pkt ?i :: 8 word option) = Some 8"
    "(load (Suc 0) pkt (?i + 1) :: 8 word option) = Some 0"
    using len echo by (simp_all add: load_byte)
  obtain now s1 where t: "bpf_ktime_get_ns K s = (now, s1)" "clock s \<le> now" "clock s1 = now"
    "contents s1 = contents s" "events s1 = events s" by (rule ktime_obtain)
  obtain s2 where s2: "s2 = snd (bpf_map_lookup_elem K Icmpwhitelist ?key s1)" by simp
  have f2: "contents s2 = contents s" "clock s2 = now" "events s2 = events s"
    using t by (auto simp: s2 lookup_frame)
  have look: "acl_lookup K Icmpwhitelist struct_icmpwhitelist_value ?key s1 = Some (e, s2)"
    using e t(4) by (simp add: acl_lookup_maps[OF bpf_kernel_contract_axioms] s2)
  obtain now1 s3 where t3: "bpf_ktime_get_ns K s2 = (now1, s3)" "clock s2 \<le> now1" "clock s3 = now1"
    "contents s3 = contents s2" "events s3 = events s2" by (rule ktime_obtain)
  have le: "clock s \<le> now1" using t f2 t3 by auto
  note run = xdp_white_prog_def hd xdp_stages_def t(1) xdp_icmp_def proto sd_key_def[symmetric] look
    t3(1) ICMP_ECHO_def
  show ?thesis
  proof (cases e)
    case None
    then have "xdp_white_prog K pkt s = Some (XDP_DROP, s2)"
      using len bytes by (simp add: run)
    then show ?thesis using None f2 by simp
  next
    case (Some v)
    show ?thesis
    proof (cases "av_expire_time v < now1")
      case True
      then have "xdp_white_prog K pkt s =
          Some (XDP_DROP, snd (bpf_map_delete_elem K Icmpwhitelist ?key s3))"
        using len bytes Some by (simp add: run)
      moreover have "\<not> grants now1 v" using True by (auto simp: grants_def)
      ultimately show ?thesis using Some t3 f2 by (simp add: delete_contents delete_frame)
    next
      case False
      then have "av_allowed v = 1" using dec le Some by (auto simp: not_less intro: order_trans)
      then have "xdp_white_prog K pkt s = Some (XDP_PASS, s3)"
        using len bytes Some False by (simp add: run)
      moreover have "\<not> av_expire_time v < clock s" using False le by auto
      ultimately show ?thesis using Some t3 f2 by simp
    qed
  qed
qed

text \<open>A live first entry lets an untracked packet pass that is no echo traffic.\<close>

lemma xdp_first_slot_passes:
  assumes run: "xdp_white_prog K pkt s = Some (a, s')" and hd: "xdp_headers pkt = Some (Continue h)"
    and proto: "h_protocol h \<noteq> IPPROTO_ICMP"
    and none: "conn_entry (contents s) (ct_key_of h) = None"
      "conn_entry (contents s) (reverseTuple (ct_key_of h)) = None"
    and slots: "acl_slots (contents s) h = pre @ (m, k, Some v) # post"
    and pre: "\<forall>sl \<in> set pre. undecided (clock s') (snd (snd sl))" and v: "grants (clock s') v"
  shows "a = XDP_PASS"
proof -
  from xdp_runE[OF run hd] obtain now now1 now2 where
    t: "now \<le> now1" "now1 \<le> now2" "now2 \<le> clock s'"
    "a = flow_policy pkt (contents s) h now now1 now2" by metis
  have le: "now \<le> clock s'" using t(1-3) by (meson order_trans)
  have "grants now v" using v le by (rule grants_earlier)
  moreover have "\<forall>e \<in> set (map (snd \<circ> snd) pre). undecided now e"
    using pre undecided_earlier le by auto
  ultimately have "first_match now (acl_entries (contents s) h) = XDP_PASS"
    unfolding acl_entries_slots slots by (auto simp: grants_def first_match_undecided)
  moreover have "icmp_policy pkt (contents s) h now1 = Continue ()"
    using proto by (simp add: icmp_policy_def)
  ultimately show ?thesis
    using t(4) none by (simp add: flow_policy_def conn_policy_def conn_policy1_def)
qed

end

context bpf_kernel_roomy
begin

text \<open>In a kernel with room the packet is logged and its flow tracked for what the entry has left.\<close>

lemma xdp_grant_tracks:
  assumes "xdp_headers pkt = Some (Continue h)"
    and "\<forall>t. icmp_policy pkt (contents s) h t = Continue ()"
    and "conn_entry (contents s) (ct_key_of h) = None"
    and "conn_entry (contents s) (reverseTuple (ct_key_of h)) = None"
    and "acl_slots (contents s) h = pre @ (m, key, Some v) # post"
    and "xdp_white_prog K pkt s = Some (a, s')"
    and "\<forall>sl \<in> set pre. undecided (clock s') (snd (snd sl))"
    and "grants (clock s') v"
  shows "a = XDP_PASS \<and> (\<exists>now t0 ts lts. clock s \<le> now \<and> now \<le> t0 \<and> t0 \<le> ts \<and> ts \<le> lts \<and>
     lts = clock s' \<and> events s' = events s @ [event_of t0 1 h] \<and>
     contents s' = (contents s)(Conn_track := (contents s Conn_track)(enc_ct_tuple (ct_key_of h) :=
       Some (enc_conn_value (new_conn ts lts (av_expire_time v - now))))))"
proof -
  obtain now s5 where
    c: "clock s \<le> now" "now \<le> clock s5" "contents s5 = contents s" "events s5 = events s"
    "\<forall>a s'. acl_chain K h now (acl_slots (contents s) h) s5 = (Return a, s') \<longrightarrow>
       xdp_white_prog K pkt s = Some (a, s')"
    "\<forall>s'. acl_chain K h now (acl_slots (contents s) h) s5 = (Continue (), s') \<longrightarrow>
       xdp_white_prog K pkt s = Some (XDP_DROP, snd (submit_event K 0 h s'))"
    by (rule xdp_reaches_chain[OF assms(1-4)])
  have le: "now \<le> clock s'"
  proof (cases "acl_chain K h now (acl_slots (contents s) h) s5")
    case (Pair r s6)
    have "clock s5 \<le> clock s6"
      using chain_clock[of s5 h now "acl_slots (contents s) h"]
      by (simp add: Pair)
    moreover have "s' = s6 \<or> s' = snd (submit_event K 0 h s6)"
      using c(5,6) Pair assms(6) by (cases r) auto
    ultimately show ?thesis
      using c(2) submit_event_frame(2)[of s6 0 h] by auto
  qed
  have "\<forall>sl \<in> set pre. undecided now (snd (snd sl))" "grants now v"
    using assms(7,8) undecided_earlier grants_earlier le by blast+
  from acl_chain_grants[OF this, of K h m key post s5] assms(5)
  have "xdp_white_prog K pkt s = Some (XDP_PASS, accept_flow K h (av_expire_time v) now s5)"
    by (intro c(5)[rule_format]) simp
  with assms(6) have eq: "a = XDP_PASS" "s' = accept_flow K h (av_expire_time v) now s5" by simp_all
  obtain t0 ts lts where "clock s5 \<le> t0" "t0 \<le> ts" "ts \<le> lts" "lts = clock s'"
    "events s' = events s5 @ [event_of t0 1 h]"
    "contents s' = (contents s5)(Conn_track := (contents s5 Conn_track)
       (enc_ct_tuple (ct_key_of h) := Some (enc_conn_value (new_conn ts lts (av_expire_time v - now)))))"
    using accept_flow_roomy unfolding eq(2) by blast
  with c eq(1) show ?thesis
    by (intro conjI exI[of _ now] exI[of _ t0] exI[of _ ts] exI[of _ lts]) auto
qed

end

end
