(* ===== verification/Samples.thy ===== *)
theory Samples
  imports Xdp_Outcomes
begin

text \<open>
  Concrete packets and kernel states, on which the properties are instantiated: 10.0.0.1 talks
  to 10.0.0.2. The states are states of the reference kernel, whose clock ticks once per reading.
\<close>

definition eth_header :: "byte \<Rightarrow> byte \<Rightarrow> packet" where
  "eth_header hi lo = replicate 12 0 @ [hi, lo]"

definition ip_header :: "byte \<Rightarrow> byte \<Rightarrow> packet" where
  "ip_header version_ihl protocol =
     [version_ihl, 0, 0, 28, 0, 0, 0, 0, 64, protocol, 0, 0, 10, 0, 0, 1, 10, 0, 0, 2]"

text \<open>Ports 12345 and 8080, in network order.\<close>

definition udp_packet :: packet where
  "udp_packet = eth_header 8 0 @ ip_header 0x45 17 @ [0x30, 0x39, 0x1F, 0x90, 0, 8, 0, 0]"

definition tcp_packet :: "byte \<Rightarrow> byte \<Rightarrow> packet" where
  "tcp_packet hi lo = eth_header 8 0 @ ip_header 0x45 6 @
     [0x30, 0x39, hi, lo, 0, 0, 0, 1, 0, 0, 0, 0, 0x50, 2, 0, 0, 0, 0, 0, 0]"

definition icmp_packet :: "byte \<Rightarrow> packet" where
  "icmp_packet type = eth_header 8 0 @ ip_header 0x45 1 @ [type, 0, 0, 0, 0, 1, 0, 1]"

definition udp_flow :: headers where
  "udp_flow = \<lparr>h_ihl = 5, h_protocol = 17, h_saddr = 0x0100000A, h_daddr = 0x0200000A,
     h_tot_len = 0x1C00, h_nexthdr = 17, h_sport = 0x3930, h_dport = 0x901F\<rparr>"

definition icmp_flow :: headers where
  "icmp_flow = \<lparr>h_ihl = 5, h_protocol = 1, h_saddr = 0x0100000A, h_daddr = 0x0200000A,
     h_tot_len = 0x1C00, h_nexthdr = 0, h_sport = 0, h_dport = 0\<rparr>"

lemma udp_packet_headers: "xdp_headers udp_packet = Some (Continue udp_flow)"
  by code_simp

lemma icmp_packet_headers: "xdp_headers (icmp_packet 8) = Some (Continue icmp_flow)"
  by code_simp

definition empty_state :: ref_state where
  "empty_state = \<lparr>rs_store = (\<lambda>_ _. None), rs_clock = 1000, rs_tick = 1, rs_events = []\<rparr>"

definition with_entry :: "bpf_map \<Rightarrow> byte list \<Rightarrow> byte list \<Rightarrow> ref_state \<Rightarrow> ref_state" where
  "with_entry m k v s = s\<lparr>rs_store := (rs_store s)(m := (rs_store s m)(k := Some v))\<rparr>"

definition granted_state :: ref_state where
  "granted_state = with_entry Spp (enc_whitelist_key (spp_key udp_flow))
     (enc_whitelist_value \<lparr>av_allowed = 1, av_expire_time = 5000\<rparr>) empty_state"

lemma ref_contents_empty [simp]: "ref_contents empty_state = (\<lambda>_ _. None)"
  by (simp add: ref_contents_def empty_state_def fun_eq_iff)

lemma ref_contents_with_entry [simp]:
  "length k = key_size m \<Longrightarrow> length v = value_size m \<Longrightarrow>
   ref_contents (with_entry m k v s) = (ref_contents s)(m := (ref_contents s m)(k := Some v))"
  by (auto simp: ref_contents_def with_entry_def fun_eq_iff)

lemma with_entry_frame [simp]:
  "rs_clock (with_entry m k v s) = rs_clock s" "rs_tick (with_entry m k v s) = rs_tick s"
  "rs_events (with_entry m k v s) = rs_events s"
  by (simp_all add: with_entry_def)

lemma granted_contents: "ref_contents granted_state = (\<lambda>_ _. None)(Spp := (\<lambda>_. None)
     (enc_whitelist_key (spp_key udp_flow) \<mapsto> enc_whitelist_value \<lparr>av_allowed = 1, av_expire_time = 5000\<rparr>))"
  by (simp add: granted_state_def)

text \<open>The reference kernel, one helper at a time.\<close>

lemma ref_kernel_steps:
  "bpf_map_lookup_elem ref_kernel m k s = (ref_contents s m k, s)"
  "bpf_ktime_get_ns ref_kernel s = ref_ktime s"
  "bpf_map_delete_elem ref_kernel m k s = ref_delete m k s"
  "bpf_map_update_elem ref_kernel m k v fl s = ref_update m k v fl s"
  "bpf_perf_event_output ref_kernel m fl ev s = (0, s\<lparr>rs_events := rs_events s @ [ev]\<rparr>)"
  by (simp_all add: ref_kernel_def ref_lookup_def ref_perf_def)

lemma ref_contents_clock [simp]: "ref_contents (s\<lparr>rs_clock := t\<rparr>) = ref_contents s"
  "ref_contents (s\<lparr>rs_events := e\<rparr>) = ref_contents s"
  by (simp_all add: ref_contents_def fun_eq_iff)

lemma udp_flow_simps:
  "h_ihl udp_flow = 5" "h_protocol udp_flow = 17"
  by (simp_all add: udp_flow_def)

lemma state_fields [simp]:
  "rs_clock empty_state = 1000" "rs_tick empty_state = 1" "rs_events empty_state = []"
  "rs_clock granted_state = 1000" "rs_tick granted_state = 1" "rs_events granted_state = []"
  by (simp_all add: empty_state_def granted_state_def)

lemmas run_ref = xdp_white_prog_def xdp_stages_def ref_kernel_steps ref_ktime_def xdp_icmp_def
  xdp_conntrack_def ct_lookup_def xdp_allowlists_def acl_lookup_def acl_block_defs acl_block_def
  accept_flow_def submit_event_def ref_update_def BPF_ANY_def BPF_EXIST_def

lemma granted_run:
  "\<exists>s'. xdp_white_prog ref_kernel udp_packet granted_state = Some (XDP_PASS, s') \<and> rs_clock s' = 1004"
  by (simp add: run_ref udp_packet_headers udp_flow_simps IPPROTO_ICMP_def granted_contents)

lemma empty_run:
  "\<exists>s'. xdp_white_prog ref_kernel udp_packet empty_state = Some (XDP_DROP, s') \<and> rs_clock s' = 1002"
  by (simp add: run_ref udp_packet_headers udp_flow_simps IPPROTO_ICMP_def)

text \<open>A live and an expired tracked connection of the flow.\<close>

definition sample_conn :: conn_value where
  "sample_conn = \<lparr>cv_timestamp = 900, cv_last_timestamp = 950, cv_ttl_ns = 4000, cv_state = 1,
     cv_flags = 0, cv_rx_packets = 1, cv_tx_packets = 7\<rparr>"

definition tracked_state :: ref_state where
  "tracked_state = with_entry Conn_track (enc_ct_tuple (ct_key_of udp_flow))
     (enc_conn_value sample_conn) empty_state"

definition stale_state :: ref_state where
  "stale_state = with_entry Conn_track (enc_ct_tuple (ct_key_of udp_flow))
     (enc_conn_value (sample_conn\<lparr>cv_ttl_ns := 50\<rparr>)) empty_state"

definition expired_state :: ref_state where
  "expired_state = with_entry Spp (enc_whitelist_key (spp_key udp_flow))
     (enc_whitelist_value \<lparr>av_allowed = 1, av_expire_time = 999\<rparr>) empty_state"

definition ping_state :: ref_state where
  "ping_state = with_entry Icmpwhitelist (enc_ip_pair_key (sd_key icmp_flow))
     (enc_whitelist_value \<lparr>av_allowed = 1, av_expire_time = 5000\<rparr>) empty_state"

lemma more_state_fields [simp]:
  "rs_clock tracked_state = 1000" "rs_tick tracked_state = 1" "rs_events tracked_state = []"
  "rs_clock stale_state = 1000" "rs_tick stale_state = 1" "rs_events stale_state = []"
  "rs_clock expired_state = 1000" "rs_tick expired_state = 1" "rs_events expired_state = []"
  "rs_clock ping_state = 1000" "rs_tick ping_state = 1" "rs_events ping_state = []"
  by (simp_all add: tracked_state_def stale_state_def expired_state_def ping_state_def)

lemma sample_contents:
  "ref_contents tracked_state = (\<lambda>_ _. None)(Conn_track := (\<lambda>_. None)
     (enc_ct_tuple (ct_key_of udp_flow) \<mapsto> enc_conn_value sample_conn))"
  "ref_contents stale_state = (\<lambda>_ _. None)(Conn_track := (\<lambda>_. None)
     (enc_ct_tuple (ct_key_of udp_flow) \<mapsto> enc_conn_value (sample_conn\<lparr>cv_ttl_ns := 50\<rparr>)))"
  "ref_contents expired_state = (\<lambda>_ _. None)(Spp := (\<lambda>_. None)
     (enc_whitelist_key (spp_key udp_flow) \<mapsto>
        enc_whitelist_value \<lparr>av_allowed = 1, av_expire_time = 999\<rparr>))"
  "ref_contents ping_state = (\<lambda>_ _. None)(Icmpwhitelist := (\<lambda>_. None)
     (enc_ip_pair_key (sd_key icmp_flow) \<mapsto>
        enc_whitelist_value \<lparr>av_allowed = 1, av_expire_time = 5000\<rparr>))"
  by (simp_all add: tracked_state_def stale_state_def expired_state_def ping_state_def)

lemma tracked_run:
  "\<exists>s'. xdp_white_prog ref_kernel udp_packet tracked_state = Some (XDP_PASS, s') \<and> rs_clock s' = 1003"
  by (simp add: run_ref udp_packet_headers udp_flow_simps IPPROTO_ICMP_def sample_contents
      check_conn_expiry_def sample_conn_def)

lemma acl_entry_none [simp]: "acl_entry (\<lambda>_ _. None) m t k = None"
  by (simp add: acl_entry_def)

lemma conn_entry_none [simp]: "conn_entry (\<lambda>_ _. None) k = None"
  by (simp add: conn_entry_def)

lemma conn_entry_other [simp]: "m \<noteq> Conn_track \<Longrightarrow> conn_entry (maps(m := f)) k = conn_entry maps k"
  by (simp add: conn_entry_def)

end
