(* ===== verification/Xdp_Properties.thy ===== *)
theory Xdp_Properties
  imports Samples
begin

text \<open>
  The properties of the ingress filter \<^verbatim>\<open>xdp_white_prog\<close>, over any kernel that honours the helper
  contract. Each is stated over the model of the program and instantiated on a concrete packet
  and a state of the reference kernel.
\<close>

subsection \<open>Safety and refinement\<close>

lemma policy_verdicts:
  "icmp_policy pkt maps h now = Return a \<Longrightarrow> a \<in> {XDP_DROP, XDP_PASS}"
  "conn_policy maps h now = Return b \<Longrightarrow> b \<in> {XDP_DROP, XDP_PASS}"
  "first_match now es \<in> {XDP_DROP, XDP_PASS}"
  by (auto simp: icmp_policy_def conn_policy_def conn_policy1_def Let_def
      split: if_splits option.splits flow.splits)
    (induction now es rule: first_match.induct; auto split: if_splits)

lemma flow_policy_verdict: "flow_policy pkt maps h now now1 now2 \<in> {XDP_DROP, XDP_PASS}"
proof (cases "icmp_policy pkt maps h now1")
  case (Return a)
  then show ?thesis using policy_verdicts(1) by (simp add: flow_policy_def)
next
  case Continue
  then show ?thesis using policy_verdicts(2)[of maps h now2] policy_verdicts(3)
    by (cases "conn_policy maps h now2") (simp_all add: flow_policy_def)
qed

lemma flow_seq_Return_iff:
  "flow_seq m f = Some (Return a) \<longleftrightarrow>
     m = Some (Return a) \<or> (\<exists>x. m = Some (Continue x) \<and> f x = Some (Return a))"
  by (auto simp: flow_seq_def split: option.splits flow.splits)

lemma parse_verdicts:
  "parse_eth pkt = Some (Return a) \<Longrightarrow> a \<in> {XDP_DROP, XDP_PASS}"
  "parse_ports pkt iph p = Some (Return a) \<Longrightarrow> a \<in> {XDP_DROP, XDP_PASS}"
  "ssh_check pkt iph ihl p = Some (Return a) \<Longrightarrow> a \<in> {XDP_DROP, XDP_PASS}"
  "dhcp_dns_check p sport dport = Return a \<Longrightarrow> a \<in> {XDP_DROP, XDP_PASS}"
  by (auto simp: parse_eth_def parse_ports_def ssh_check_def dhcp_dns_check_def Let_def
      bind_eq_Some_conv split: if_splits)

lemma headers_verdict:
  assumes "xdp_headers pkt = Some (Return a)"
  shows "a \<in> {XDP_DROP, XDP_PASS}"
  using assms unfolding xdp_headers_def Let_def
  by (auto simp: flow_seq_Return_iff bind_eq_Some_conv split: if_splits prod.splits
      dest!: parse_verdicts)

lemma policy_verdict: "policy pkt maps now now1 now2 \<in> {XDP_DROP, XDP_PASS}"
proof -
  obtain f where f: "xdp_headers pkt = Some f" using xdp_headers_total by blast
  then show ?thesis
    using headers_verdict[of pkt] flow_policy_verdict by (cases f) (simp_all add: policy_def)
qed

text \<open>
  The program returns whatever other CPUs and user space do between its helper calls: all it needs
  of the kernel is that a lookup returns values of the size the map was declared with.
\<close>

definition lookups_sized :: "'s bpf_kernel \<Rightarrow> bool" where
  "lookups_sized K \<longleftrightarrow>
     (\<forall>m k s v. fst (bpf_map_lookup_elem K m k s) = Some v \<longrightarrow> length v = value_size m)"

definition stage_ok :: "('a flow \<times> 's) option \<Rightarrow> bool" where
  "stage_ok r \<longleftrightarrow> (\<exists>x s'. r = Some (x, s') \<and> (\<forall>a. x = Return a \<longrightarrow> a \<in> {XDP_DROP, XDP_PASS}))"

lemma stage_ok_simps [simp]:
  "\<not> stage_ok None" "stage_ok (Some (Continue x, s))" "stage_ok (Some (Return XDP_DROP, s))"
  "stage_ok (Some (Return XDP_PASS, s))"
  by (simp_all add: stage_ok_def)

lemma stage_ok_flow: "stage_ok r \<Longrightarrow> (\<And>x s. stage_ok (f x s)) \<Longrightarrow> stage_ok (flow_bind r f)"
  by (auto simp: stage_ok_def flow_bind_def split: flow.splits)

lemma stage_ok_bind:
  "\<exists>x s'. r = Some (x, s') \<Longrightarrow> (\<And>x s. stage_ok (f x s)) \<Longrightarrow> stage_ok (Option.bind r (\<lambda>(x, s). f x s))"
  by auto

lemma acl_lookup_returns:
  assumes "lookups_sized K" and "\<And>bs. length bs = value_size m \<Longrightarrow> \<exists>v. dec_acl_value t bs = Some v"
  shows "\<exists>v s'. acl_lookup K m t key s = Some (v, s')"
proof -
  obtain r s' where l: "bpf_map_lookup_elem K m key s = (r, s')" by fastforce
  then have "\<And>bs. r = Some bs \<Longrightarrow> length bs = value_size m"
    using assms(1) unfolding lookups_sized_def by (metis fst_conv)
  with assms(2) show ?thesis by (cases r) (fastforce simp: acl_lookup_def l)+
qed

lemmas acl_lookups_return = acl_lookup_returns[OF _ spp.dec_total] acl_lookup_returns[OF _ sd.dec_total]
  acl_lookup_returns[OF _ icmp.dec_total] acl_lookup_returns[OF _ sp.dec_total]
  acl_lookup_returns[OF _ pl.dec_total] acl_lookup_returns[OF _ pp.dec_total]

lemma ct_lookup_returns:
  assumes "lookups_sized K" shows "stage_ok (ct_lookup K bump key s)"
proof -
  obtain r s' where l: "bpf_map_lookup_elem K Conn_track (enc_ct_tuple key) s = (r, s')" by fastforce
  have "\<And>bs. r = Some bs \<Longrightarrow> \<exists>c. dec_conn_value bs = Some c"
    using assms l dec_conn_value_sized unfolding lookups_sized_def by (metis fst_conv value_sizes(7))
  then show ?thesis
    by (cases r) (auto simp: ct_lookup_def l split: prod.splits)
qed

lemma icmp_returns:
  assumes "lookups_sized K" shows "stage_ok (xdp_icmp K pkt h s)"
proof -
  have load: "\<exists>x. read_field struct_icmphdr ''type'' pkt i = Some (x :: 8 word)"
    "\<exists>x. read_field struct_icmphdr ''code'' pkt i = Some (x :: 8 word)" if "i + 8 \<le> length pkt" for i
    using that by (simp_all add: load_Some)
  obtain v s' where "acl_lookup K Icmpwhitelist struct_icmpwhitelist_value
      (enc_ip_pair_key \<lparr>ik_src_ip = h_saddr h, ik_dst_ip = h_daddr h\<rparr>) s = Some (v, s')"
    using acl_lookups_return(3)[OF assms] by blast
  then show ?thesis
    using load[of "14 + unat (h_ihl h) * 4"]
    by (auto simp: xdp_icmp_def Let_def split: option.splits prod.splits)
qed

lemma acl_block_returns: "stage_ok (Some (acl_block K h now m key val s))"
  by (auto simp: acl_block_def split: option.splits)

lemma allowlists_return:
  assumes "lookups_sized K" shows "stage_ok (xdp_allowlists K h now s)"
  unfolding xdp_allowlists_def acl_block_defs
  by (intro stage_ok_bind acl_lookups_return[OF assms] stage_ok_flow acl_block_returns)

lemma prog_returns:
  assumes "lookups_sized K"
  shows "\<exists>a s'. xdp_white_prog K pkt s = Some (a, s') \<and> a \<in> {XDP_DROP, XDP_PASS}"
proof -
  obtain f where f: "xdp_headers pkt = Some f" using xdp_headers_total by blast
  show ?thesis
  proof (cases f)
    case (Return a)
    with f headers_verdict show ?thesis by (fastforce simp: xdp_white_prog_def)
  next
    case (Continue h)
    obtain now s1 where t: "bpf_ktime_get_ns K s = (now, s1)" by fastforce
    have ok: "stage_ok (xdp_stages K pkt h s)"
      unfolding xdp_stages_def t Let_def prod.case
      by (intro stage_ok_flow icmp_returns allowlists_return assms)
        (auto simp: xdp_conntrack_def intro!: stage_ok_flow ct_lookup_returns assms)
    have ret: "\<exists>b s'. xdp_stages K pkt h s = Some (Return b, s')"
    proof -
      have "xdp_stages K pkt h s \<noteq> Some (Continue x, s')" for x s'
        by (auto simp: xdp_stages_def flow_bind_def split: option.splits flow.splits prod.splits)
      with ok show ?thesis unfolding stage_ok_def by (metis (full_types) flow.exhaust)
    qed
    with ok f Continue show ?thesis by (auto simp: stage_ok_def xdp_white_prog_def)
  qed
qed

text \<open>C30: The program returns on every packet and in every kernel state, and whatever happens between
  its helper calls: no load leaves the packet or a map value, and the verdict is \<^verbatim>\<open>XDP_DROP\<close> or
  \<^verbatim>\<open>XDP_PASS\<close>.\<close>

theorem xdp_returns:
  assumes "lookups_sized K"
  shows "\<exists>a s'. xdp_white_prog K pkt s = Some (a, s') \<and> a \<in> {XDP_DROP, XDP_PASS}"
  using prog_returns[OF assms] .

lemma ref_lookups_sized: "lookups_sized ref_kernel"
  using rk.entry_sized rk.lookup_result unfolding lookups_sized_def by metis

theorem xdp_returns_witness:
  "\<exists>a s'. xdp_white_prog ref_kernel [8, 0, 69] empty_state = Some (a, s') \<and> a \<in> {XDP_DROP, XDP_PASS}"
  by (rule xdp_returns[OF ref_lookups_sized])

text \<open>C1: The program implements the abstract policy: its verdict is the policy of the packet, the
  map contents on entry and three clock readings taken in order while it runs; packets settled
  by their headers change nothing, and the others change the maps as \<open>flow_effect\<close> says.\<close>

theorem xdp_refines_policy:
  assumes "bpf_kernel_contract K contents clock events"
  shows "\<exists>a s' now now1 now2. xdp_white_prog K pkt s = Some (a, s') \<and>
     clock s \<le> now \<and> now \<le> now1 \<and> now1 \<le> now2 \<and>
     a = policy pkt (contents s) now now1 now2 \<and>
     (\<forall>b. xdp_headers pkt = Some (Return b) \<longrightarrow> s' = s) \<and>
     (\<forall>h. xdp_headers pkt = Some (Continue h) \<longrightarrow>
        now2 \<le> clock s' \<and> flow_effect (contents s) (contents s') h now now2 (clock s') a)"
  by (rule bpf_kernel_contract.xdp_correct[OF assms])

theorem xdp_refines_policy_witness:
  "\<exists>a s' now now1 now2. xdp_white_prog ref_kernel udp_packet granted_state = Some (a, s') \<and>
     1000 \<le> now \<and> now \<le> now1 \<and> now1 \<le> now2 \<and>
     a = policy udp_packet (ref_contents granted_state) now now1 now2 \<and>
     flow_effect (ref_contents granted_state) (ref_contents s') udp_flow now now2 (rs_clock s') a"
  using xdp_refines_policy[OF rk.bpf_kernel_contract_axioms, of udp_packet granted_state]
  by (simp only: udp_packet_headers state_fields option.inject flow.inject) blast

lemma first_match_grants: "first_match now es = XDP_PASS \<Longrightarrow> \<exists>v. Some v \<in> set es \<and> grants now v"
  by (induction now es rule: first_match.induct) (auto simp: grants_def split: if_splits)

lemma icmp_policy_pass:
  "icmp_policy pkt maps h now = Return XDP_PASS \<Longrightarrow> h_protocol h = IPPROTO_ICMP \<and>
     (pkt ! (14 + unat (h_ihl h) * 4) = 0 \<or>
      (\<exists>v. acl_entry maps Icmpwhitelist struct_icmpwhitelist_value (enc_ip_pair_key (sd_key h)) =
         Some v \<and> grants now v))"
  by (auto simp: icmp_policy_def Let_def grants_def split: if_splits option.splits)

lemma conn_policy_pass:
  "conn_policy maps h now = Return XDP_PASS \<Longrightarrow>
   \<exists>key \<in> {ct_key_of h, reverseTuple (ct_key_of h)}. \<exists>c. conn_entry maps key = Some c \<and>
     \<not> conn_expired now c"
  by (auto simp: conn_policy_def conn_policy1_def split: option.splits if_splits flow.splits)

lemma flow_policy_pass:
  assumes "flow_policy pkt maps h now now1 now2 = XDP_PASS"
  shows "icmp_policy pkt maps h now1 = Return XDP_PASS \<or> conn_policy maps h now2 = Return XDP_PASS \<or>
    first_match now (acl_entries maps h) = XDP_PASS"
  using assms by (auto simp: flow_policy_def split: flow.splits)

text \<open>C3: Complete mediation: a packet that gets past the header checks and passes is an echo reply,
  or has a live entry in the echo allow-list, in the connection table or in one of the five
  allow-lists it is looked up in.\<close>

theorem xdp_pass_mediated:
  assumes "bpf_kernel_contract K contents clock events"
    and "xdp_headers pkt = Some (Continue h)"
    and "xdp_white_prog K pkt s = Some (XDP_PASS, s')"
  shows "\<exists>now. clock s \<le> now \<and> now \<le> clock s' \<and>
     (h_protocol h = IPPROTO_ICMP \<and> pkt ! (14 + unat (h_ihl h) * 4) = 0 \<or>
      h_protocol h = IPPROTO_ICMP \<and> (\<exists>v. acl_entry (contents s) Icmpwhitelist
         struct_icmpwhitelist_value (enc_ip_pair_key (sd_key h)) = Some v \<and> grants now v) \<or>
      (\<exists>key \<in> {ct_key_of h, reverseTuple (ct_key_of h)}. \<exists>c.
         conn_entry (contents s) key = Some c \<and> \<not> conn_expired now c) \<or>
      (\<exists>v. Some v \<in> set (acl_entries (contents s) h) \<and> grants now v))"
proof -
  from bpf_kernel_contract.xdp_runE[OF assms(1,3,2)] obtain now now1 now2 where
    t: "clock s \<le> now" "now \<le> now1" "now1 \<le> now2" "now2 \<le> clock s'" and
    "flow_policy pkt (contents s) h now now1 now2 = XDP_PASS" by metis
  then consider "icmp_policy pkt (contents s) h now1 = Return XDP_PASS"
    | "conn_policy (contents s) h now2 = Return XDP_PASS"
    | "first_match now (acl_entries (contents s) h) = XDP_PASS"
    using flow_policy_pass by blast
  then show ?thesis
  proof cases
    case 1
    with t show ?thesis using icmp_policy_pass by (intro exI[of _ now1]) (meson order_trans)
  next
    case 2
    with t show ?thesis using conn_policy_pass by (intro exI[of _ now2]) (meson order_trans)
  next
    case 3
    with t show ?thesis using first_match_grants by (intro exI[of _ now]) (meson order_trans)
  qed
qed

theorem xdp_pass_mediated_witness:
  "\<exists>now v. 1000 \<le> now \<and> Some v \<in> set (acl_entries (ref_contents granted_state) udp_flow) \<and> grants now v"
proof -
  obtain s' where "xdp_white_prog ref_kernel udp_packet granted_state = Some (XDP_PASS, s')"
    using granted_run by blast
  from xdp_pass_mediated[OF rk.bpf_kernel_contract_axioms udp_packet_headers this] show ?thesis
    by (auto simp: granted_contents udp_flow_simps IPPROTO_ICMP_def)
qed

text \<open>C23: Default deny: a flow that is neither echo traffic nor tracked and has no entry in any of
  the five allow-lists is dropped, the maps stay as they are, and one drop record of the packet is
  logged.\<close>

theorem xdp_default_deny:
  assumes "bpf_kernel_roomy K contents clock events"
    and "xdp_headers pkt = Some (Continue h)"
    and "\<forall>t. icmp_policy pkt (contents s) h t = Continue ()"
    and "conn_entry (contents s) (ct_key_of h) = None"
    and "conn_entry (contents s) (reverseTuple (ct_key_of h)) = None"
    and "\<forall>e \<in> set (acl_entries (contents s) h). e = None"
  shows "\<exists>s' ts. xdp_white_prog K pkt s = Some (XDP_DROP, s') \<and> contents s' = contents s \<and>
     clock s \<le> ts \<and> ts \<le> clock s' \<and> events s' = events s @ [event_of ts 0 h]"
proof -
  note con = bpf_kernel_roomy.axioms(1)[OF assms(1)]
  obtain now s5 where
    c: "clock s \<le> now" "now \<le> clock s5" "contents s5 = contents s" "events s5 = events s"
    "\<forall>a s'. acl_chain K h now (acl_slots (contents s) h) s5 = (Return a, s') \<longrightarrow>
       xdp_white_prog K pkt s = Some (a, s')"
    "\<forall>s'. acl_chain K h now (acl_slots (contents s) h) s5 = (Continue (), s') \<longrightarrow>
       xdp_white_prog K pkt s = Some (XDP_DROP, snd (submit_event K 0 h s'))"
    by (rule bpf_kernel_contract.xdp_reaches_chain[OF con assms(2-5)])
  have "\<forall>sl \<in> set (acl_slots (contents s) h). undecided now (snd (snd sl))"
    using assms(6) by (simp add: acl_entries_slots)
  from c(6)[rule_format, OF acl_chain_denies[OF this]]
  have run: "xdp_white_prog K pkt s = Some (XDP_DROP, snd (submit_event K 0 h s5))" .
  obtain ts where "clock s5 \<le> ts" "ts \<le> clock (snd (submit_event K 0 h s5))"
    "events (snd (submit_event K 0 h s5)) = events s5 @ [event_of ts 0 h]"
    using bpf_kernel_roomy.submit_event_roomy[OF assms(1)] by blast
  then show ?thesis
    using c(1-4) run bpf_kernel_contract.submit_event_frame(1)[OF con]
    by (intro exI[of _ "snd (submit_event K 0 h s5)"] exI[of _ ts]) auto
qed

theorem xdp_default_deny_witness:
  "\<exists>s' ts. xdp_white_prog ref_kernel udp_packet empty_state = Some (XDP_DROP, s') \<and>
     ref_contents s' = (\<lambda>_ _. None) \<and> 1000 \<le> ts \<and> rs_events s' = [event_of ts 0 udp_flow]"
  using xdp_default_deny[OF rkr.bpf_kernel_roomy_axioms udp_packet_headers, of empty_state]
  by (auto simp: icmp_policy_def udp_flow_simps IPPROTO_ICMP_def acl_entries_def)

text \<open>C24: Grants are honoured: the first entry of the flow, live until the program returns, lets a
  flow that is neither echo traffic nor tracked pass; one allow record is logged, and the flow is
  tracked for what was left of the grant, under its key, without any other change of the maps.\<close>

theorem xdp_grant_honoured:
  assumes "bpf_kernel_roomy K contents clock events"
    and "xdp_headers pkt = Some (Continue h)"
    and "\<forall>t. icmp_policy pkt (contents s) h t = Continue ()"
    and "conn_entry (contents s) (ct_key_of h) = None"
    and "conn_entry (contents s) (reverseTuple (ct_key_of h)) = None"
    and "acl_slots (contents s) h = pre @ (m, key, Some v) # post"
    and "xdp_white_prog K pkt s = Some (a, s')"
    and "\<forall>sl \<in> set pre. undecided (clock s') (snd (snd sl))"
    and "grants (clock s') v"
  shows "a = XDP_PASS \<and> (\<exists>now t0 ts lts. clock s \<le> now \<and> now \<le> t0 \<and> t0 \<le> ts \<and> ts \<le> lts \<and>
     lts = clock s' \<and> events s' = events s @ [event_of t0 1 h] \<and>
     contents s' = (contents s)(Conn_track := (contents s Conn_track)(enc_ct_tuple (ct_key_of h) :=
       Some (enc_conn_value (new_conn ts lts (av_expire_time v - now))))))"
  by (rule bpf_kernel_roomy.xdp_grant_tracks[OF assms])

lemma granted_slots:
  "acl_slots (ref_contents granted_state) udp_flow =
     [] @ (Spp, enc_whitelist_key (spp_key udp_flow), Some \<lparr>av_allowed = 1, av_expire_time = 5000\<rparr>) #
     tl (acl_slots (ref_contents granted_state) udp_flow)"
  by (simp add: acl_slots_def granted_contents acl_entry_def)

theorem xdp_grant_honoured_witness:
  "\<exists>s' now t0 ts lts. xdp_white_prog ref_kernel udp_packet granted_state = Some (XDP_PASS, s') \<and>
     1000 \<le> now \<and> now \<le> t0 \<and> t0 \<le> ts \<and> rs_events s' = [event_of t0 1 udp_flow] \<and>
     ref_contents s' Conn_track (enc_ct_tuple (ct_key_of udp_flow)) =
       Some (enc_conn_value (new_conn ts lts (5000 - now)))"
proof -
  obtain s' where r: "xdp_white_prog ref_kernel udp_packet granted_state = Some (XDP_PASS, s')"
    and c: "rs_clock s' = 1004" using granted_run by blast
  have "\<forall>t. icmp_policy udp_packet (ref_contents granted_state) udp_flow t = Continue ()"
    by (simp add: icmp_policy_def udp_flow_simps IPPROTO_ICMP_def)
  moreover have "conn_entry (ref_contents granted_state) k = None" for k
    by (simp add: granted_contents)
  moreover have "\<forall>sl \<in> set []. undecided (rs_clock s') (snd (snd (sl :: slot)))" by simp
  moreover have "grants (rs_clock s') \<lparr>av_allowed = 1, av_expire_time = 5000\<rparr>"
    by (simp add: c grants_def)
  ultimately have "\<exists>now t0 ts lts. rs_clock granted_state \<le> now \<and> now \<le> t0 \<and> t0 \<le> ts \<and> ts \<le> lts \<and>
     lts = rs_clock s' \<and> rs_events s' = rs_events granted_state @ [event_of t0 1 udp_flow] \<and>
     ref_contents s' = (ref_contents granted_state)(Conn_track :=
       (ref_contents granted_state Conn_track)(enc_ct_tuple (ct_key_of udp_flow) :=
       Some (enc_conn_value (new_conn ts lts (5000 - now)))))"
    using xdp_grant_honoured[OF rkr.bpf_kernel_roomy_axioms udp_packet_headers _ _ _ granted_slots r]
    by simp
  then obtain now t0 ts lts where "1000 \<le> now" "now \<le> t0" "t0 \<le> ts"
    "rs_events s' = [event_of t0 1 udp_flow]"
    "ref_contents s' Conn_track (enc_ct_tuple (ct_key_of udp_flow)) =
       Some (enc_conn_value (new_conn ts lts (5000 - now)))" by auto
  with r show ?thesis by blast
qed

text \<open>C25: An expired entry revokes itself: when the first entry of the flow expired before the packet
  arrived, the packet is dropped, that entry is deleted and nothing else changes. A live grant in
  a later allow-list does not help.\<close>

theorem xdp_expired_grant:
  assumes "bpf_kernel_contract K contents clock events"
    and "xdp_headers pkt = Some (Continue h)"
    and "\<forall>t. icmp_policy pkt (contents s) h t = Continue ()"
    and "conn_entry (contents s) (ct_key_of h) = None"
    and "conn_entry (contents s) (reverseTuple (ct_key_of h)) = None"
    and "acl_slots (contents s) h = pre @ (m, key, Some v) # post"
    and "\<forall>sl \<in> set pre. snd (snd sl) = None"
    and "av_expire_time v < clock s"
  shows "\<exists>s'. xdp_white_prog K pkt s = Some (XDP_DROP, s') \<and> events s' = events s \<and>
     contents s' = (contents s)(m := (contents s m)(key := None))"
proof -
  obtain now s5 where
    c: "clock s \<le> now" "now \<le> clock s5" "contents s5 = contents s" "events s5 = events s"
    "\<forall>a s'. acl_chain K h now (acl_slots (contents s) h) s5 = (Return a, s') \<longrightarrow>
       xdp_white_prog K pkt s = Some (a, s')"
    "\<forall>s'. acl_chain K h now (acl_slots (contents s) h) s5 = (Continue (), s') \<longrightarrow>
       xdp_white_prog K pkt s = Some (XDP_DROP, snd (submit_event K 0 h s'))"
    by (rule bpf_kernel_contract.xdp_reaches_chain[OF assms(1-5)])
  have "\<forall>sl \<in> set pre. undecided now (snd (snd sl))" "av_expire_time v < now"
    using assms(7,8) c(1) by auto
  from acl_chain_expired[OF this, of K h m key post s5] assms(6)
  have "xdp_white_prog K pkt s = Some (XDP_DROP, snd (bpf_map_delete_elem K m key s5))"
    by (intro c(5)[rule_format]) simp
  then show ?thesis
    using c(3,4) bpf_kernel_contract.delete_contents[OF assms(1), of m key s5]
      bpf_kernel_contract.delete_frame(2)[OF assms(1), of m key s5] by simp
qed

lemma expired_slots:
  "acl_slots (ref_contents expired_state) udp_flow =
     [] @ (Spp, enc_whitelist_key (spp_key udp_flow), Some \<lparr>av_allowed = 1, av_expire_time = 999\<rparr>) #
     tl (acl_slots (ref_contents expired_state) udp_flow)"
  by (simp add: acl_slots_def sample_contents acl_entry_def)

lemma udp_not_icmp: "\<forall>t. icmp_policy udp_packet maps udp_flow t = Continue ()"
  by (simp add: icmp_policy_def udp_flow_simps IPPROTO_ICMP_def)

lemma expired_no_conn: "conn_entry (ref_contents expired_state) k = None"
  by (simp add: sample_contents)

theorem xdp_expired_grant_witness:
  "\<exists>s'. xdp_white_prog ref_kernel udp_packet expired_state = Some (XDP_DROP, s') \<and>
     rs_events s' = rs_events expired_state \<and>
     ref_contents s' = (ref_contents expired_state)
       (Spp := (ref_contents expired_state Spp)(enc_whitelist_key (spp_key udp_flow) := None))"
  by (rule xdp_expired_grant[OF rk.bpf_kernel_contract_axioms udp_packet_headers udp_not_icmp
        expired_no_conn expired_no_conn expired_slots]) simp_all

lemma bump_tx_last: "(bump_tx c)\<lparr>cv_last_timestamp := t\<rparr> =
    c\<lparr>cv_last_timestamp := t, cv_tx_packets := cv_tx_packets c + 1\<rparr>"
  by (simp add: bump_tx_def)

text \<open>C26: Connection tracking decides before the allow-lists do. While a tracked connection lives, its
  packets pass; the entry gets a new last-seen time and one more transmitted packet, and its
  lifetime is not extended. Once it is over, the packet is dropped and the entry deleted. Neither
  case is logged.\<close>

theorem xdp_tracked_connection:
  assumes "bpf_kernel_roomy K contents clock events"
    and "xdp_headers pkt = Some (Continue h)"
    and "\<forall>t. icmp_policy pkt (contents s) h t = Continue ()"
    and "conn_entry (contents s) (ct_key_of h) = Some c"
  shows "\<exists>a s'. xdp_white_prog K pkt s = Some (a, s') \<and> events s' = events s \<and>
     (conn_expired (clock s) c \<longrightarrow> a = XDP_DROP \<and> contents s' =
        (contents s)(Conn_track := (contents s Conn_track)(enc_ct_tuple (ct_key_of h) := None))) \<and>
     (\<not> conn_expired (clock s') c \<longrightarrow> a = XDP_PASS \<and> (\<exists>t. clock s \<le> t \<and> t \<le> clock s' \<and>
        contents s' = (contents s)(Conn_track := (contents s Conn_track)(enc_ct_tuple (ct_key_of h) :=
          Some (enc_conn_value (c\<lparr>cv_last_timestamp := t, cv_tx_packets := cv_tx_packets c + 1\<rparr>))))))"
  using bpf_kernel_roomy.xdp_tracked[OF assms] unfolding bump_tx_last .

theorem xdp_tracked_connection_witness:
  "(\<exists>s' t. xdp_white_prog ref_kernel udp_packet tracked_state = Some (XDP_PASS, s') \<and>
     ref_contents s' Conn_track (enc_ct_tuple (ct_key_of udp_flow)) =
       Some (enc_conn_value (sample_conn\<lparr>cv_last_timestamp := t, cv_tx_packets := 8\<rparr>))) \<and>
   (\<exists>s'. xdp_white_prog ref_kernel udp_packet stale_state = Some (XDP_DROP, s') \<and>
     ref_contents s' Conn_track (enc_ct_tuple (ct_key_of udp_flow)) = None)"
proof (intro conjI)
  have live: "\<forall>t. icmp_policy udp_packet (ref_contents st) udp_flow t = Continue ()" for st
    by (simp add: icmp_policy_def udp_flow_simps IPPROTO_ICMP_def)
  obtain s' where r: "xdp_white_prog ref_kernel udp_packet tracked_state = Some (XDP_PASS, s')"
    and c: "rs_clock s' = 1003" using tracked_run by blast
  have e: "conn_entry (ref_contents tracked_state) (ct_key_of udp_flow) = Some sample_conn"
    by (simp add: sample_contents conn_entry_def)
  have "\<not> conn_expired (rs_clock s') sample_conn"
    by (simp add: c conn_expired_def sample_conn_def)
  with xdp_tracked_connection[OF rkr.bpf_kernel_roomy_axioms udp_packet_headers live e] r
  obtain t where "ref_contents s' = (ref_contents tracked_state)(Conn_track :=
      (ref_contents tracked_state Conn_track)(enc_ct_tuple (ct_key_of udp_flow) :=
        Some (enc_conn_value (sample_conn\<lparr>cv_last_timestamp := t,
          cv_tx_packets := cv_tx_packets sample_conn + 1\<rparr>))))" by auto
  moreover have "cv_tx_packets sample_conn + 1 = 8" by (simp add: sample_conn_def)
  ultimately show "\<exists>s' t. xdp_white_prog ref_kernel udp_packet tracked_state = Some (XDP_PASS, s') \<and>
     ref_contents s' Conn_track (enc_ct_tuple (ct_key_of udp_flow)) =
       Some (enc_conn_value (sample_conn\<lparr>cv_last_timestamp := t, cv_tx_packets := 8\<rparr>))"
    using r by (intro exI[of _ s'] exI[of _ t]) simp
  have e2: "conn_entry (ref_contents stale_state) (ct_key_of udp_flow) =
      Some (sample_conn\<lparr>cv_ttl_ns := 50\<rparr>)"
    by (simp add: sample_contents conn_entry_def)
  have "conn_expired (rs_clock stale_state) (sample_conn\<lparr>cv_ttl_ns := 50\<rparr>)"
    by (simp add: conn_expired_def sample_conn_def)
  with xdp_tracked_connection[OF rkr.bpf_kernel_roomy_axioms udp_packet_headers live e2]
  show "\<exists>s'. xdp_white_prog ref_kernel udp_packet stale_state = Some (XDP_DROP, s') \<and>
     ref_contents s' Conn_track (enc_ct_tuple (ct_key_of udp_flow)) = None"
    by auto
qed

text \<open>C29: The filter never opens an allow-list: whatever the packet, every allow-list entry after it
  was there before, and every connection entry after it was there before or belongs to the
  packet's flow.\<close>

theorem xdp_frame:
  assumes "bpf_kernel_contract K contents clock events"
    and "xdp_white_prog K pkt s = Some (a, s')"
    and "contents s' m k = Some w"
  shows "contents s m k = Some w \<or>
     m = Conn_track \<and> a = XDP_PASS \<and> (\<exists>h. xdp_headers pkt = Some (Continue h) \<and>
       k \<in> {enc_ct_tuple (ct_key_of h), enc_ct_tuple (reverseTuple (ct_key_of h))})"
proof -
  obtain f where f: "xdp_headers pkt = Some f" using xdp_headers_total by blast
  show ?thesis
  proof (cases f)
    case (Return b)
    with f assms(2,3) show ?thesis by (simp add: xdp_white_prog_def)
  next
    case (Continue h)
    with f have h: "xdp_headers pkt = Some (Continue h)" by simp
    from bpf_kernel_contract.xdp_runE[OF assms(1,2) h] obtain now now2 where
      "flow_effect (contents s) (contents s') h now now2 (clock s') a" by metis
    then have "maps_le (contents s') (contents s) \<or> a = XDP_PASS \<and>
        (\<exists>key \<in> {ct_key_of h, reverseTuple (ct_key_of h)}. \<exists>c. one_conn (contents s) (contents s') key c)"
      unfolding flow_effect_def by blast
    with assms(3) h show ?thesis unfolding maps_le_def one_conn_def by fastforce
  qed
qed

theorem xdp_frame_witness:
  "\<exists>s'. xdp_white_prog ref_kernel udp_packet tracked_state = Some (XDP_PASS, s') \<and>
     (\<forall>k. ref_contents s' Spp k = None)"
proof -
  obtain s' where r: "xdp_white_prog ref_kernel udp_packet tracked_state = Some (XDP_PASS, s')"
    using tracked_run by blast
  have "ref_contents s' Spp k = None" for k
    using xdp_frame[OF rk.bpf_kernel_contract_axioms r, of Spp k]
    by (cases "ref_contents s' Spp k") (auto simp: sample_contents)
  with r show ?thesis by blast
qed

end
