(* ===== verification/Header_Facts.thy ===== *)
theory Header_Facts
  imports Xdp_Correct
begin

text \<open>
  What \<open>xdp_headers\<close> guarantees of the header fields it hands to the later stages.
\<close>

text \<open>The connection key carries the protocol of TCP and UDP flows, and nothing for the others.\<close>

definition headers_wf :: "headers \<Rightarrow> bool" where
  "headers_wf h \<longleftrightarrow> 5 \<le> h_ihl h \<and>
     (if h_protocol h = IPPROTO_TCP \<or> h_protocol h = IPPROTO_UDP
      then h_nexthdr h = h_protocol h
      else h_nexthdr h = 0 \<and> h_sport h = 0 \<and> h_dport h = 0)"

lemma flow_seq_Continue_iff:
  "flow_seq m f = Some (Continue y) \<longleftrightarrow> (\<exists>x. m = Some (Continue x) \<and> f x = Some (Continue y))"
  by (auto simp: flow_seq_def split: option.splits flow.splits)

lemma parse_ports_Continue:
  assumes "parse_ports pkt iph protocol = Some (Continue (nexthdr, sport, dport))"
  shows "if protocol = IPPROTO_TCP \<or> protocol = IPPROTO_UDP then nexthdr = protocol
         else nexthdr = 0 \<and> sport = 0 \<and> dport = 0"
  using assms by (auto simp: parse_ports_def Let_def load_Some split: if_splits)

lemma xdp_headers_wf:
  assumes "xdp_headers pkt = Some (Continue h)"
  shows "headers_wf h"
  using assms parse_ports_Continue unfolding xdp_headers_def Let_def
  by (auto simp: headers_wf_def flow_seq_Continue_iff bind_eq_Some_conv not_less
      split: if_splits prod.splits)

end
