(* ===== verification/Xdp_Header_Properties.thy ===== *)
theory Xdp_Header_Properties
  imports Xdp_Properties Header_Facts
begin

text \<open>
  Properties of the header checks, stated over the bytes of the packet: the EtherType filter, the
  exemptions for SSH, DHCP and DNS, and where the ports of a flow are read.
\<close>

subsection \<open>Bytes and loads\<close>

definition pair16 :: "byte \<Rightarrow> byte \<Rightarrow> 16 word" where
  "pair16 a b = le_word [a, b]"

lemma load_pair:
  assumes "i + 1 < length bs"
  shows "load 2 bs i = Some (pair16 (bs ! i) (bs ! (i + 1)))"
proof -
  have "take 2 (drop i bs) = [bs ! i, bs ! (i + 1)]"
    using assms by (intro nth_equalityI) (auto simp: less_2_cases_iff nth_Cons split: nat.splits)
  then show ?thesis using assms by (simp add: load_def pair16_def del: le_word.simps)
qed

lemma pair16_eq: "pair16 a b = w \<longleftrightarrow> le_bytes 2 w = [a, b]"
proof
  assume "pair16 a b = w"
  moreover have "le_bytes (length [a, b]) (le_word [a, b] :: 16 word) = [a, b]"
    by (rule le_bytes_le_word) simp
  ultimately show "le_bytes 2 w = [a, b]" by (simp add: pair16_def numeral_2_eq_2 del: le_word.simps)
next
  assume "le_bytes 2 w = [a, b]"
  then show "pair16 a b = w" unfolding pair16_def by (metis le_word_bytes(3))
qed

text \<open>A 16-bit member in network byte order, compared with a constant.\<close>

lemma be16_eq: "bswap16 (pair16 a b) = w \<longleftrightarrow> le_bytes 2 w = [b, a]"
  unfolding bswap16_eq_iff pair16_eq le_bytes_bswap16 by auto

definition ethertype_is :: "packet \<Rightarrow> byte \<Rightarrow> byte \<Rightarrow> bool" where
  "ethertype_is pkt hi lo \<longleftrightarrow> 14 \<le> length pkt \<and> pkt ! 12 = hi \<and> pkt ! 13 = lo"

text \<open>An IPv4 frame of a protocol, with the length of its IP header in bytes.\<close>

definition ipv4_frame :: "packet \<Rightarrow> byte \<Rightarrow> nat \<Rightarrow> bool" where
  "ipv4_frame pkt protocol hlen \<longleftrightarrow> ethertype_is pkt 8 0 \<and> 34 \<le> length pkt \<and>
     5 \<le> take_bit 4 (pkt ! 14) \<and> hlen = unat (take_bit 4 (pkt ! 14)) * 4 \<and> pkt ! 23 = protocol"

lemma parse_eth_bytes:
  "14 \<le> length pkt \<Longrightarrow> parse_eth pkt = Some (
     if pkt ! 12 = 8 \<and> pkt ! 13 = 6 then Return XDP_PASS
     else if pkt ! 12 = 8 \<and> pkt ! 13 = 0 then Continue ()
     else if pkt ! 12 = 0x86 \<and> pkt ! 13 = 0xDD then Return XDP_PASS
     else Return XDP_DROP)"
  by (simp add: parse_eth_def load_pair be16_eq eth_const_defs le_bytes_eval)

lemma xdp_headers_ipv4:
  assumes "ipv4_frame pkt p hlen"
  shows "xdp_headers pkt =
     flow_seq (parse_ports pkt 14 p) (\<lambda>(nexthdr, sport, dport).
     flow_seq (ssh_check pkt 14 (take_bit 4 (pkt ! 14)) p) (\<lambda>_.
     flow_seq (Some (dhcp_dns_check p sport dport)) (\<lambda>_.
     Some (Continue \<lparr>h_ihl = take_bit 4 (pkt ! 14), h_protocol = p,
       h_saddr = le_word (take 4 (drop 26 pkt)), h_daddr = le_word (take 4 (drop 30 pkt)),
       h_tot_len = pair16 (pkt ! 16) (pkt ! 17), h_nexthdr = nexthdr, h_sport = sport,
       h_dport = dport\<rparr>))))"
proof -
  have "\<not> take_bit 4 (pkt ! 14) < 5" using assms by (auto simp: ipv4_frame_def)
  moreover have "(load 4 pkt 26 :: 32 word option) = Some (le_word (take 4 (drop 26 pkt)))"
    "(load 4 pkt 30 :: 32 word option) = Some (le_word (take 4 (drop 30 pkt)))"
    using assms by (simp_all add: ipv4_frame_def load_Some)
  ultimately show ?thesis
    using assms
    by (simp add: ipv4_frame_def ethertype_is_def xdp_headers_def Let_def parse_eth_bytes load_byte
        load_pair)
qed

lemma parse_ports_udp:
  assumes "42 \<le> length pkt"
  shows "parse_ports pkt 14 17 =
    Some (Continue (17, pair16 (pkt ! 34) (pkt ! 35), pair16 (pkt ! 36) (pkt ! 37)))"
  using assms by (simp add: parse_ports_def proto_const_defs Let_def load_pair)

lemma parse_ports_tcp:
  assumes "54 \<le> length pkt"
  shows "parse_ports pkt 14 6 =
    Some (Continue (6, pair16 (pkt ! 34) (pkt ! 35), pair16 (pkt ! 36) (pkt ! 37)))"
  using assms by (simp add: parse_ports_def proto_const_defs Let_def load_pair)

lemma constant_htons_bswap16: "constant_htons x = bswap16 x"
proof -
  have m: "(0xFF00 :: 32 word) = push_bit 8 (mask 8)" "(0x00FF :: 32 word) = mask 8"
    by (simp_all add: mask_eq_exp_minus_1 push_bit_eq_mult)
  show ?thesis unfolding constant_htons_def bswap16_def m
    by (rule bit_word_eqI) (auto simp: bit_simps dest: bit_imp_le_length)
qed

lemma ssh_check_tcp:
  assumes "14 + unat ihl * 4 + 20 \<le> length pkt"
  shows "ssh_check pkt 14 ihl 6 = Some (if pkt ! (16 + unat ihl * 4) = 0 \<and>
     pkt ! (17 + unat ihl * 4) = 22 then Return XDP_PASS else Continue ())"
proof -
  have l: "(load 2 pkt (16 + unat ihl * 4) :: 16 word option) =
      Some (pair16 (pkt ! (16 + unat ihl * 4)) (pkt ! (17 + unat ihl * 4)))"
    using load_pair[of "16 + unat ihl * 4" pkt] assms by (simp add: add.commute)
  have e: "14 + unat ihl * 4 + 2 = 16 + unat ihl * 4" by simp
  have "bswap16 (pair16 a b) = 22 \<longleftrightarrow> a = 0 \<and> b = 22" for a b
    by (auto simp: be16_eq le_bytes_eval)
  with assms show ?thesis
    by (simp add: ssh_check_def proto_const_defs Let_def constant_htons_bswap16 l)
qed

lemma xdp_headers_return:
  "xdp_headers pkt = Some (Return a) \<Longrightarrow> xdp_white_prog K pkt s = Some (a, s)"
  by (simp add: xdp_white_prog_def)

lemma xdp_headers_short: "length pkt < 14 \<Longrightarrow> xdp_headers pkt = Some (Return XDP_DROP)"
  by (simp add: xdp_headers_def parse_eth_def)

lemma xdp_headers_eth:
  "14 \<le> length pkt \<Longrightarrow> parse_eth pkt = Some (Return a) \<Longrightarrow> xdp_headers pkt = Some (Return a)"
  by (simp add: xdp_headers_def)

subsection \<open>Properties\<close>

text \<open>The EtherType decides first: frames shorter than an Ethernet header are dropped, ARP and IPv6
  frames pass unfiltered, every other EtherType than IPv4 is dropped, and an IPv4 frame shorter than
  its fixed header or with a header length below five words is dropped; no helper is called and no
  map is read.\<close>

lemma xdp_ethertype:
  "(length pkt < 14 \<longrightarrow> xdp_white_prog K pkt s = Some (XDP_DROP, s)) \<and>
   (ethertype_is pkt 8 6 \<longrightarrow> xdp_white_prog K pkt s = Some (XDP_PASS, s)) \<and>
   (ethertype_is pkt 0x86 0xDD \<longrightarrow> xdp_white_prog K pkt s = Some (XDP_PASS, s)) \<and>
   (14 \<le> length pkt \<and> (pkt ! 12, pkt ! 13) \<notin> {(8, 6), (8, 0), (0x86, 0xDD)} \<longrightarrow>
      xdp_white_prog K pkt s = Some (XDP_DROP, s)) \<and>
   (ethertype_is pkt 8 0 \<and> (length pkt < 34 \<or> take_bit 4 (pkt ! 14) < 5) \<longrightarrow>
      xdp_white_prog K pkt s = Some (XDP_DROP, s))"
proof (intro conjI impI)
  assume "ethertype_is pkt 8 0 \<and> (length pkt < 34 \<or> take_bit 4 (pkt ! 14) < 5)"
  then have "xdp_headers pkt = Some (Return XDP_DROP)"
    by (auto simp: ethertype_is_def xdp_headers_def Let_def parse_eth_bytes load_byte)
  then show "xdp_white_prog K pkt s = Some (XDP_DROP, s)" by (rule xdp_headers_return)
qed (auto simp: ethertype_is_def parse_eth_bytes intro!: xdp_headers_return
    intro: xdp_headers_short xdp_headers_eth)

lemma ssh_exempt:
  assumes "ipv4_frame pkt 6 hlen" "54 \<le> length pkt" "14 + hlen + 20 \<le> length pkt"
    and "pkt ! (16 + hlen) = 0" "pkt ! (17 + hlen) = 22"
  shows "xdp_white_prog K pkt s = Some (XDP_PASS, s)"
proof (rule xdp_headers_return)
  have "hlen = unat (take_bit 4 (pkt ! 14)) * 4" using assms(1) by (simp add: ipv4_frame_def)
  with assms(3-5) show "xdp_headers pkt = Some (Return XDP_PASS)"
    by (simp add: xdp_headers_ipv4[OF assms(1)] parse_ports_tcp[OF assms(2)] ssh_check_tcp)
qed

lemma dhcp_dns_exempt:
  assumes "ipv4_frame pkt 17 hlen" "42 \<le> length pkt"
    and "(pkt ! 36, pkt ! 37) \<in> {(0, 67), (0, 68)} \<or> (pkt ! 34, pkt ! 35) = (0, 53)"
  shows "xdp_white_prog K pkt s = Some (XDP_PASS, s)"
proof (rule xdp_headers_return)
  have "pair16 0 67 = bswap16 DHCP_PORT_R" "pair16 0 68 = bswap16 DHCP_PORT_O"
    "pair16 0 53 = bswap16 DNS_PORT"
    by code_simp+
  with assms(3) have "dhcp_dns_check 17 (pair16 (pkt ! 34) (pkt ! 35)) (pair16 (pkt ! 36) (pkt ! 37)) =
      Return XDP_PASS"
    by (auto simp: dhcp_dns_check_def proto_const_defs)
  then show "xdp_headers pkt = Some (Return XDP_PASS)"
    by (simp add: xdp_headers_ipv4[OF assms(1)] parse_ports_udp[OF assms(2)] ssh_check_def
        proto_const_defs)
qed

definition dns_answer :: packet where
  "dns_answer = eth_header 8 0 @ ip_header 0x45 17 @ [0, 53, 0x1F, 0x90, 0, 8, 0, 0]"

text \<open>SSH, DHCP and DNS are never filtered: a TCP packet whose destination port, read where the
  header length puts the TCP header, is 22, and a UDP packet with the bytes of destination port 67
  or 68, or of source port 53, right behind the fixed IP header, pass in every state, and nothing is
  looked up, tracked or logged.\<close>

lemma xdp_exempt_ports:
  assumes "(ipv4_frame pkt 6 hlen \<and> 54 \<le> length pkt \<and> 14 + hlen + 20 \<le> length pkt \<and>
      pkt ! (16 + hlen) = 0 \<and> pkt ! (17 + hlen) = 22) \<or>
    (ipv4_frame pkt 17 hlen \<and> 42 \<le> length pkt \<and>
      ((pkt ! 36, pkt ! 37) \<in> {(0, 67), (0, 68)} \<or> (pkt ! 34, pkt ! 35) = (0, 53)))"
  shows "xdp_white_prog K pkt s = Some (XDP_PASS, s)"
  using assms by (elim disjE[of "_ \<and> _ \<and> _ \<and> _ \<and> _"] conjE) (blast intro: ssh_exempt dhcp_dns_exempt)+









lemma policy_port_ranges:
  assumes "\<And>m k. m \<noteq> Port_list \<Longrightarrow> maps m k = maps' m k"
    and "\<And>ip. maps Port_list (enc_port_list_key \<lparr>lk_src_ip = ip, lk_min_port = 0, lk_max_port = 65535\<rparr>) =
      maps' Port_list (enc_port_list_key \<lparr>lk_src_ip = ip, lk_min_port = 0, lk_max_port = 65535\<rparr>)"
  shows "policy pkt maps now now1 now2 = policy pkt maps' now now1 now2"
proof -
  have conn: "conn_entry maps = conn_entry maps'"
    using assms(1) by (simp add: conn_entry_def fun_eq_iff)
  have acl: "acl_entry maps m t k = acl_entry maps' m t k" if "m \<noteq> Port_list" for m t k
    using assms(1)[OF that] by (simp add: acl_entry_def)
  have "icmp_policy pkt maps h now1 = icmp_policy pkt maps' h now1" for h
    by (simp add: icmp_policy_def acl Let_def)
  moreover have "conn_policy maps h now2 = conn_policy maps' h now2" for h
    unfolding conn_policy_def conn_policy1_def conn ..
  moreover have "acl_entries maps h = acl_entries maps' h" for h
    using assms(2) by (simp add: acl_entries_def acl pl_key_def port_const_defs)
      (simp add: acl_entry_def)
  ultimately have "flow_policy pkt maps h now now1 now2 = flow_policy pkt maps' h now now1 now2" for h
    unfolding flow_policy_def by (simp cong: flow.case_cong)
  then show ?thesis by (simp add: policy_def split: option.splits flow.splits)
qed

text \<open>A live entry for the ports 8000 to 9000 of 10.0.0.1.\<close>

definition range_state :: ref_state where
  "range_state = with_entry Port_list
     (enc_port_list_key \<lparr>lk_src_ip = 0x0100000A, lk_min_port = 8000, lk_max_port = 9000\<rparr>)
     (enc_whitelist_value \<lparr>av_allowed = 1, av_expire_time = 5000\<rparr>) empty_state"

text \<open>Only one port-list entry per source counts: the filter looks up the range 0 to 65535 and no
  other, so its verdict is the policy's on any maps that differ from its own in other ranges only,
  for instance on the maps without them.\<close>

lemma xdp_port_ranges_unused:
  assumes "bpf_kernel_contract K contents clock events"
    and "xdp_white_prog K pkt s = Some (a, s')"
    and "\<And>m k. m \<noteq> Port_list \<Longrightarrow> contents s m k = maps m k"
    and "\<And>ip. contents s Port_list
        (enc_port_list_key \<lparr>lk_src_ip = ip, lk_min_port = 0, lk_max_port = 65535\<rparr>) =
      maps Port_list (enc_port_list_key \<lparr>lk_src_ip = ip, lk_min_port = 0, lk_max_port = 65535\<rparr>)"
  shows "\<exists>now now1 now2. clock s \<le> now \<and> now \<le> now1 \<and> now1 \<le> now2 \<and>
     a = policy pkt maps now now1 now2"
proof -
  have "policy pkt (contents s) now now1 now2 = policy pkt maps now now1 now2" for now now1 now2
    using assms(3,4) by (rule policy_port_ranges)
  then show ?thesis
    using bpf_kernel_contract.xdp_correct[OF assms(1), of pkt s] assms(2) by auto
qed

text \<open>Echo requests have their own allow-list: without an entry for the address pair a request is
  dropped, an entry that expired before it arrived is deleted and the request dropped, and a live
  one lets it pass; requests are neither tracked nor logged, and the other lists are not read.\<close>

lemma xdp_echo_request:
  assumes "bpf_kernel_contract K contents clock events"
    and "xdp_headers pkt = Some (Continue h)" and "h_protocol h = IPPROTO_ICMP"
    and "14 + unat (h_ihl h) * 4 + 8 \<le> length pkt"
    and "pkt ! (14 + unat (h_ihl h) * 4) = 8" and "pkt ! (15 + unat (h_ihl h) * 4) = 0"
    and "acl_entry (contents s) Icmpwhitelist struct_icmpwhitelist_value
        (enc_ip_pair_key (sd_key h)) = e"
    and "\<not> undecided (clock s) e \<or> e = None"
  shows "\<exists>a s'. xdp_white_prog K pkt s = Some (a, s') \<and> events s' = events s \<and>
     (e = None \<longrightarrow> a = XDP_DROP \<and> contents s' = contents s) \<and>
     (\<forall>v. e = Some v \<longrightarrow> av_expire_time v < clock s \<longrightarrow> a = XDP_DROP \<and> contents s' =
        (contents s)(Icmpwhitelist := (contents s Icmpwhitelist)(enc_ip_pair_key (sd_key h) := None))) \<and>
     (\<forall>v. e = Some v \<longrightarrow> grants (clock s') v \<longrightarrow> a = XDP_PASS \<and> contents s' = contents s)"
  by (rule bpf_kernel_contract.xdp_echo[OF assms])

text \<open>The connection key does not tell the protocols without ports apart: \<^verbatim>\<open>nexthdr\<close> stays 0 unless
  the packet is TCP or UDP, so a live connection of one such protocol lets the packets of every
  other one between the same addresses pass.\<close>

lemma xdp_protocols_share_connection:
  assumes "bpf_kernel_roomy K contents clock events"
    and "xdp_headers pkt = Some (Continue h)"
    and "h_protocol h \<notin> {IPPROTO_TCP, IPPROTO_UDP, IPPROTO_ICMP}"
    and "h_protocol h' \<notin> {IPPROTO_TCP, IPPROTO_UDP}" and "headers_wf h'"
    and "h_saddr h' = h_saddr h" and "h_daddr h' = h_daddr h"
    and "conn_entry (contents s) (ct_key_of h') = Some c"
  shows "\<exists>a s'. xdp_white_prog K pkt s = Some (a, s') \<and>
     (\<not> conn_expired (clock s') c \<longrightarrow> a = XDP_PASS)"
proof -
  have "headers_wf h" using assms(2) by (rule xdp_headers_wf)
  then have "ct_key_of h = ct_key_of h'"
    using assms(3-7) by (auto simp: headers_wf_def ct_key_of_def split: if_splits)
  with assms(8) have c: "conn_entry (contents s) (ct_key_of h) = Some c" by simp
  have "\<forall>t. icmp_policy pkt (contents s) h t = Continue ()"
    using assms(3) by (simp add: icmp_policy_def)
  from bpf_kernel_roomy.xdp_tracked[OF assms(1,2) this c] show ?thesis by blast
qed

text \<open>A GRE packet, and the flow of an ESP packet between the same hosts.\<close>

definition gre_packet :: packet where
  "gre_packet = eth_header 8 0 @ ip_header 0x45 47"

definition gre_flow :: headers where
  "gre_flow = udp_flow\<lparr>h_protocol := 47, h_nexthdr := 0, h_sport := 0, h_dport := 0\<rparr>"

definition esp_flow :: headers where
  "esp_flow = gre_flow\<lparr>h_protocol := 50\<rparr>"

definition esp_state :: ref_state where
  "esp_state = with_entry Conn_track (enc_ct_tuple (ct_key_of esp_flow)) (enc_conn_value sample_conn)
     empty_state"

lemma esp_state_facts:
  "ref_contents esp_state = (\<lambda>_ _. None)(Conn_track := (\<lambda>_. None)
     (enc_ct_tuple (ct_key_of esp_flow) \<mapsto> enc_conn_value sample_conn))"
  "rs_clock esp_state = 1000" "rs_tick esp_state = 1" "rs_events esp_state = []"
  by (simp_all add: esp_state_def)

lemma gre_packet_headers: "xdp_headers gre_packet = Some (Continue gre_flow)"
  by code_simp

lemma gre_run:
  "\<exists>a s'. xdp_white_prog ref_kernel gre_packet esp_state = Some (a, s') \<and> rs_clock s' = 1003"
proof -
  have "ct_key_of gre_flow = ct_key_of esp_flow" by (simp add: esp_flow_def ct_key_of_def)
  moreover have "h_protocol gre_flow = 47" by (simp add: gre_flow_def)
  ultimately show ?thesis
    by (simp add: run_ref gre_packet_headers IPPROTO_ICMP_def esp_state_facts check_conn_expiry_def
        sample_conn_def)
qed

subsection \<open>Lifetime of a tracked connection\<close>










end
