(* ===== verification/Tc_Egress.thy ===== *)
theory Tc_Egress
  imports Xdp_Correct
begin

text \<open>
  The egress hook \<^verbatim>\<open>tc_egress_prog\<close> of \<^verbatim>\<open>nhp/ebpf/xdp/tc_egress.c\<close>: it never blocks a packet, and for
  every outgoing IPv4 TCP, UDP or ICMP packet it opens the ingress allow-list \<^verbatim>\<open>spp\<close> for the
  answer, for 180 seconds. The file declares \<^verbatim>\<open>struct whitelist_key\<close>, \<^verbatim>\<open>struct whitelist_value\<close> and
  \<^verbatim>\<open>spp\<close> again; the map is pinned by name, so both programs must agree on it.
\<close>

definition TC_ACT_OK :: int where "TC_ACT_OK = 0"
definition KEY_EXPIRE_TIME_SECONDS :: "64 word" where "KEY_EXPIRE_TIME_SECONDS = 180 * 1000000000"

definition tc_struct_whitelist_key :: ctype where
  "tc_struct_whitelist_key = Struct True [
     Field ''src_ip'' typedef___be32, Field ''dst_ip'' typedef___be32,
     Field ''dst_port'' typedef___be16, Field ''protocol'' typedef___u8]"

definition tc_struct_whitelist_value :: ctype where
  "tc_struct_whitelist_value = Struct False [
     Field ''allowed'' typedef___u8, Field ''expire_time'' typedef___u64]"

definition tc_spp_map :: map_decl where
  "tc_spp_map = \<lparr>md_type = ''BPF_MAP_TYPE_LRU_HASH'', md_key = Some tc_struct_whitelist_key,
     md_value = Some tc_struct_whitelist_value, md_max_entries = 1000000, md_pinned = True\<rparr>"

lemma tc_spp_map_eq: "tc_spp_map = spp_map"
  by (simp add: tc_spp_map_def spp_map_def tc_struct_whitelist_key_def struct_whitelist_key_def
      tc_struct_whitelist_value_def struct_whitelist_value_def MAX_ENTRIES_def)

text \<open>
  The early \<^verbatim>\<open>return TC_ACT_OK\<close>s are \<open>Some None\<close>; the fields the rest of the function uses are
  \<open>Some (Some _)\<close>; \<^const>\<open>None\<close> is a load outside the packet.
\<close>

record egress_headers =
  e_src_ip :: "32 word"
  e_dst_ip :: "32 word"
  e_protocol :: "8 word"
  e_sport :: "16 word"
  e_dport :: "16 word"

definition tc_ports :: "packet \<Rightarrow> nat \<Rightarrow> 8 word \<Rightarrow> 8 word \<Rightarrow> (16 word \<times> 16 word) option option" where
  "tc_ports pkt iph ihl protocol =
     (if protocol = IPPROTO_TCP then
        (let tcp = iph + unat ihl * 4 in
         if tcp + sizeof struct_tcphdr > length pkt then Some None
         else do {
           source \<leftarrow> read_field struct_tcphdr ''source'' pkt tcp;
           dest \<leftarrow> read_field struct_tcphdr ''dest'' pkt tcp;
           Some (Some (source, dest))
         })
      else if protocol = IPPROTO_UDP then
        (let udp = iph + unat ihl * 4 in
         if udp + sizeof struct_udphdr > length pkt then Some None
         else do {
           source \<leftarrow> read_field struct_udphdr ''source'' pkt udp;
           dest \<leftarrow> read_field struct_udphdr ''dest'' pkt udp;
           Some (Some (source, dest))
         })
      else if protocol = IPPROTO_ICMP then Some (Some (0, 0))
      else Some None)"

definition tc_headers :: "packet \<Rightarrow> egress_headers option option" where
  "tc_headers pkt =
     (if 0 + sizeof struct_ethhdr > length pkt then Some None
      else do {
        h_proto \<leftarrow> read_field struct_ethhdr ''h_proto'' pkt 0;
        if bswap16 h_proto \<noteq> ETH_P_IP then Some None
        else (let iph = sizeof struct_ethhdr in
          if iph + sizeof struct_iphdr > length pkt then Some None
          else do {
            ihl \<leftarrow> read_bits struct_iphdr ''ihl'' pkt iph;
            version \<leftarrow> read_bits struct_iphdr ''version'' pkt iph;
            if ihl < 5 \<or> version \<noteq> 4 then Some None
            else do {
              src_ip \<leftarrow> read_field struct_iphdr ''saddr'' pkt iph;
              dst_ip \<leftarrow> read_field struct_iphdr ''daddr'' pkt iph;
              protocol \<leftarrow> read_field struct_iphdr ''protocol'' pkt iph;
              ports \<leftarrow> tc_ports pkt iph ihl protocol;
              Some (map_option (\<lambda>(sport, dport). \<lparr>e_src_ip = src_ip, e_dst_ip = dst_ip,
                e_protocol = protocol, e_sport = sport, e_dport = dport\<rparr>) ports)
            }
          })
      })"

definition tc_spp_key :: "egress_headers \<Rightarrow> whitelist_key" where
  "tc_spp_key e = \<lparr>wk_src_ip = e_dst_ip e, wk_dst_ip = e_src_ip e, wk_dst_port = e_sport e,
     wk_protocol = e_protocol e\<rparr>"

definition tc_egress_prog :: "'s bpf_kernel \<Rightarrow> packet \<Rightarrow> 's \<Rightarrow> (int \<times> 's) option" where
  "tc_egress_prog K pkt s = (case tc_headers pkt of
      None \<Rightarrow> None
    | Some None \<Rightarrow> Some (TC_ACT_OK, s)
    | Some (Some e) \<Rightarrow>
        (let (t, s1) = bpf_ktime_get_ns K s;
             spp_value = \<lparr>av_allowed = 1, av_expire_time = t + KEY_EXPIRE_TIME_SECONDS\<rparr>
         in Some (TC_ACT_OK, snd (bpf_map_update_elem K Spp (enc_whitelist_key (tc_spp_key e))
              (enc_whitelist_value spp_value) BPF_ANY s1))))"

subsection \<open>The hook never blocks and adds one entry\<close>

lemma tc_ports_total: "\<exists>p. tc_ports pkt iph ihl protocol = Some p"
  by (simp add: tc_ports_def load_Some Let_def)

lemma bind_total: "\<exists>p. m = Some p \<Longrightarrow> (\<And>x. \<exists>r. f x = Some r) \<Longrightarrow> \<exists>r. Option.bind m f = Some r"
  by auto

lemma tc_headers_total: "\<exists>e. tc_headers pkt = Some e"
  unfolding tc_headers_def Let_def
  by (auto simp: load_Some intro!: bind_total[OF tc_ports_total])

context bpf_kernel_contract
begin

text \<open>Every entry after the hook was there before or is the answer's grant of 180 seconds.\<close>

lemma tc_egress_effect:
  "\<exists>s'. tc_egress_prog K pkt s = Some (TC_ACT_OK, s') \<and> clock s \<le> clock s' \<and> events s' = events s \<and>
     (\<forall>m k w. contents s' m k = Some w \<longrightarrow> contents s m k = Some w \<or>
        (\<exists>e t. tc_headers pkt = Some (Some e) \<and> m = Spp \<and> k = enc_whitelist_key (tc_spp_key e) \<and>
           clock s \<le> t \<and> t \<le> clock s' \<and>
           w = enc_whitelist_value \<lparr>av_allowed = 1, av_expire_time = t + KEY_EXPIRE_TIME_SECONDS\<rparr>)) \<and>
     (tc_headers pkt = Some None \<longrightarrow> s' = s)"
proof -
  obtain e where e: "tc_headers pkt = Some e" using tc_headers_total by blast
  show ?thesis
  proof (cases e)
    case None
    then show ?thesis using e by (simp add: tc_egress_prog_def)
  next
    case (Some eh)
    obtain t s1 where t: "bpf_ktime_get_ns K s = (t, s1)" "clock s \<le> t" "clock s1 = t"
      "contents s1 = contents s" "events s1 = events s" by (rule ktime_obtain)
    show ?thesis
      using e Some t by (auto simp: tc_egress_prog_def update_frame dest!: update_entry_cases)
  qed
qed

end

context bpf_kernel_roomy
begin

text \<open>In a kernel with room the answer's grant is stored, and nothing else changes.\<close>

lemma tc_egress_opens:
  assumes "tc_headers pkt = Some (Some e)"
  shows "\<exists>s' t. tc_egress_prog K pkt s = Some (TC_ACT_OK, s') \<and> clock s \<le> t \<and> t = clock s' \<and>
     contents s' = (contents s)(Spp := (contents s Spp)(enc_whitelist_key (tc_spp_key e) :=
       Some (enc_whitelist_value \<lparr>av_allowed = 1, av_expire_time = t + KEY_EXPIRE_TIME_SECONDS\<rparr>)))"
proof -
  obtain t s1 where t: "bpf_ktime_get_ns K s = (t, s1)" "clock s \<le> t" "clock s1 = t"
    "contents s1 = contents s" "events s1 = events s" by (rule ktime_obtain)
  then show ?thesis
    by (simp add: tc_egress_prog_def assms update_any_contents update_frame)
qed

end

end
