(* ===== verification/Gateway.thy ===== *)
theory Gateway
  imports Tc_Egress Xdp_Outcomes Header_Facts
begin

text \<open>
  The gateway as a state machine: ingress packets, egress packets, rules written by user space
  and whatever else the kernel does (time passes, LRU entries are evicted) in any order. A run
  is a list of labels. The invariants say what every reachable state looks like and where each
  map entry came from.
\<close>

datatype label =
    Ingress packet xdp_action
  | Egress packet "64 word" "64 word"
  | Rule bpf_map "byte list" "byte list"
  | Kernel

text \<open>User space writes allow-lists only; \<^verbatim>\<open>conn_track\<close> belongs to the filter. The label of an egress
  packet carries the clock before and after the hook ran.\<close>

inductive gw_step ::
  "'s bpf_kernel \<Rightarrow> ('s \<Rightarrow> maps) \<Rightarrow> ('s \<Rightarrow> 64 word) \<Rightarrow> 's \<Rightarrow> label \<Rightarrow> 's \<Rightarrow> bool"
  for K contents clock where
  ingress: "xdp_white_prog K pkt s = Some (a, s') \<Longrightarrow> gw_step K contents clock s (Ingress pkt a) s'"
| egress: "tc_egress_prog K pkt s = Some (r, s') \<Longrightarrow> 
    gw_step K contents clock s (Egress pkt (clock s) (clock s')) s'"
| rule: "m \<noteq> Conn_track \<Longrightarrow> bpf_map_update_elem K m k v BPF_ANY s = (r, s') \<Longrightarrow>
    gw_step K contents clock s (Rule m k v) s'"
| kernel: "maps_le (contents s') (contents s) \<Longrightarrow> clock s \<le> clock s' \<Longrightarrow>
    gw_step K contents clock s Kernel s'"

inductive gw_run ::
  "'s bpf_kernel \<Rightarrow> ('s \<Rightarrow> maps) \<Rightarrow> ('s \<Rightarrow> 64 word) \<Rightarrow> label list \<Rightarrow> 's \<Rightarrow> bool"
  for K contents clock where
  start: "(\<And>m k. contents s m k = None) \<Longrightarrow> gw_run K contents clock [] s"
| step: "gw_run K contents clock ls s \<Longrightarrow> gw_step K contents clock s l s' \<Longrightarrow>
    gw_run K contents clock (ls @ [l]) s'"

inductive_cases gw_ingressE: "gw_step K contents clock s (Ingress pkt a) s'"
inductive_cases gw_egressE: "gw_step K contents clock s (Egress pkt lo hi) s'"
inductive_cases gw_ruleE: "gw_step K contents clock s (Rule m k v) s'"
inductive_cases gw_kernelE: "gw_step K contents clock s Kernel s'"

inductive_simps gw_ingress_iff: "gw_step K contents clock s (Ingress pkt a) s'"
inductive_simps gw_rule_iff: "gw_step K contents clock s (Rule m k v) s'"

subsection \<open>Where an entry comes from\<close>

text \<open>An allow-list entry written in a run: by user space, or by the egress hook, whose entry ends
  180 seconds after a clock reading between the start and the end of the hook.\<close>

definition written :: "label list \<Rightarrow> bpf_map \<Rightarrow> byte list \<Rightarrow> byte list \<Rightarrow> bool" where
  "written ls m k w \<longleftrightarrow> Rule m k w \<in> set ls \<or>
     (\<exists>pkt lo hi e t. Egress pkt lo hi \<in> set ls \<and> lo \<le> t \<and> t \<le> hi \<and>
        tc_headers pkt = Some (Some e) \<and> m = Spp \<and> k = enc_whitelist_key (tc_spp_key e) \<and>
        w = enc_whitelist_value \<lparr>av_allowed = 1, av_expire_time = t + KEY_EXPIRE_TIME_SECONDS\<rparr>)"

text \<open>The keys under which the filter looks a flow up.\<close>

definition acl_keys :: "headers \<Rightarrow> (bpf_map \<times> byte list) set" where
  "acl_keys h = {(Spp, enc_whitelist_key (spp_key h)), (Sdwhitelist, enc_ip_pair_key (sd_key h)),
     (Src_port, enc_src_port_list_key (sp_key h)), (Port_list, enc_port_list_key (pl_key h)),
     (Protocol_port, enc_protocol_port_key (pp_key h))}"

text \<open>
  A flow was authorised in a run: a value that allows was written under one of its keys, read
  through the value structure of its map.
\<close>

definition value_type :: "bpf_map \<Rightarrow> ctype" where
  "value_type m = (case md_value (map_decl_of m) of Some t \<Rightarrow> t | None \<Rightarrow> Struct True [])"

definition authorised :: "label list \<Rightarrow> headers \<Rightarrow> bool" where
  "authorised ls h \<longleftrightarrow> (\<exists>(m, k) \<in> acl_keys h. \<exists>w v. written ls m k w \<and>
     dec_acl_value (value_type m) w = Some v \<and> av_allowed v = 1)"

lemma value_types [simp]:
  "value_type Spp = struct_whitelist_value" "value_type Sdwhitelist = struct_sdwhitelist_value"
  "value_type Src_port = struct_src_port_list_value" "value_type Port_list = struct_port_list_value"
  "value_type Protocol_port = struct_protocol_port_value"
  by (simp_all add: value_type_def map_decl_defs)

definition gw_inv :: "label list \<Rightarrow> maps \<Rightarrow> bool" where
  "gw_inv ls maps \<longleftrightarrow>
     (\<forall>m k w. m \<noteq> Conn_track \<longrightarrow> maps m k = Some w \<longrightarrow> written ls m k w) \<and>
     (\<forall>k w. maps Conn_track k = Some w \<longrightarrow>
        (\<exists>h c. k = enc_ct_tuple (ct_key_of h) \<and> w = enc_conn_value c \<and> headers_wf h \<and>
           cv_state c = CT_ESTABLISHED \<and> cv_flags c = CT_FLAG_NONE \<and> authorised ls h))"

lemma written_mono: "written ls m k w \<Longrightarrow> written (ls @ [l]) m k w"
  unfolding written_def set_append by blast

lemma written_egress:
  assumes "tc_headers pkt = Some (Some e)" "lo \<le> t" "t \<le> hi"
  shows "written (ls @ [Egress pkt lo hi]) Spp (enc_whitelist_key (tc_spp_key e))
     (enc_whitelist_value \<lparr>av_allowed = 1, av_expire_time = t + KEY_EXPIRE_TIME_SECONDS\<rparr>)"
  unfolding written_def set_append using assms by (intro disjI2 exI conjI) simp_all

lemma authorised_mono: "authorised ls h \<Longrightarrow> authorised (ls @ [l]) h"
  unfolding authorised_def using written_mono by blast

lemma gw_inv_mono: "gw_inv ls maps \<Longrightarrow> maps_le maps' maps \<Longrightarrow> gw_inv (ls @ [l]) maps'"
  unfolding gw_inv_def maps_le_def using written_mono authorised_mono by blast

text \<open>Writing an allow-list keeps the invariant.\<close>

lemma gw_inv_extend:
  assumes inv: "gw_inv ls maps"
    and new: "\<And>m k w. maps' m k = Some w \<Longrightarrow>
      maps m k = Some w \<or> m \<noteq> Conn_track \<and> written (ls @ [l]) m k w"
  shows "gw_inv (ls @ [l]) maps'"
proof -
  have "written (ls @ [l]) m k w" if "m \<noteq> Conn_track" "maps' m k = Some w" for m k w
    using new[OF that(2)] inv that(1) written_mono unfolding gw_inv_def by blast
  moreover have "maps Conn_track k = Some w" if "maps' Conn_track k = Some w" for k w
    using new[OF that] by blast
  ultimately show ?thesis
    using inv authorised_mono unfolding gw_inv_def by blast
qed

lemma first_match_pass:
  "first_match now es = XDP_PASS \<Longrightarrow> \<exists>v. Some v \<in> set es \<and> grants now v \<and> av_allowed v = 1"
  by (induction now es rule: first_match.induct) (auto simp: grants_def split: if_splits)

lemma acl_slots_keys:
  "(m, k, e) \<in> set (acl_slots maps h) \<Longrightarrow>
   (m, k) \<in> acl_keys h \<and> m \<noteq> Conn_track \<and> e = acl_entry maps m (value_type m) k"
  by (auto simp: acl_slots_def acl_keys_def)

lemma acl_entries_keys:
  assumes "Some v \<in> set (acl_entries maps h)"
  shows "\<exists>m k w. (m, k) \<in> acl_keys h \<and> m \<noteq> Conn_track \<and> maps m k = Some w \<and>
     dec_acl_value (value_type m) w = Some v"
proof -
  obtain m k where mk: "(m, k, Some v) \<in> set (acl_slots maps h)"
    using assms unfolding acl_entries_slots by force
  then have "acl_entry maps m (value_type m) k = Some v" using acl_slots_keys[OF mk] by simp
  then obtain w where "maps m k = Some w" "dec_acl_value (value_type m) w = Some v"
    by (auto simp: acl_entry_def bind_eq_Some_conv)
  with acl_slots_keys[OF mk] show ?thesis by blast
qed

lemma acl_entries_authorised:
  assumes "gw_inv ls maps" "Some v \<in> set (acl_entries maps h)" "av_allowed v = 1"
  shows "authorised ls h"
  using acl_entries_keys[OF assms(2)] assms(1,3) unfolding gw_inv_def authorised_def by blast

lemma reverse_key_flags: "ct_flags (reverseTuple (ct_key_of h)) = CT_DIR_EGRESS"
  by (simp add: reverseTuple_def ct_key_of_def ct_const_defs)

lemma ct_key_flags: "ct_flags (ct_key_of h) = CT_DIR_INGRESS"
  by (simp add: ct_key_of_def)

lemma reverse_not_forward: "reverseTuple (ct_key_of h) \<noteq> ct_key_of h'"
  using reverse_key_flags[of h] ct_key_flags[of h'] by (auto simp: ct_const_defs)

text \<open>No state of the invariant holds a connection under a reversed key.\<close>

lemma no_reverse_entry:
  assumes "gw_inv ls maps"
  shows "conn_entry maps (reverseTuple (ct_key_of h)) = None"
  using assms reverse_not_forward unfolding gw_inv_def conn_entry_def
  by (cases "maps Conn_track (enc_ct_tuple (reverseTuple (ct_key_of h)))") fastforce+

lemma conn_entry_inv:
  assumes "gw_inv ls maps" "conn_entry maps (ct_key_of h) = Some c"
  shows "\<exists>h0. ct_key_of h0 = ct_key_of h \<and> authorised ls h0 \<and> headers_wf h0 \<and>
     cv_state c = CT_ESTABLISHED \<and> cv_flags c = CT_FLAG_NONE"
proof -
  from assms(2) obtain w where w: "maps Conn_track (enc_ct_tuple (ct_key_of h)) = Some w"
    "dec_conn_value w = Some c" by (auto simp: conn_entry_def bind_eq_Some_conv)
  with assms(1) show ?thesis unfolding gw_inv_def by fastforce
qed

text \<open>A TCP or UDP flow is determined by its connection key, so it was authorised itself.\<close>

lemma ct_key_acl_keys:
  assumes "headers_wf h" "headers_wf h0" "ct_key_of h0 = ct_key_of h"
    "h_protocol h = IPPROTO_TCP \<or> h_protocol h = IPPROTO_UDP"
  shows "acl_keys h0 = acl_keys h"
proof -
  have "h_saddr h0 = h_saddr h" "h_daddr h0 = h_daddr h" "h_sport h0 = h_sport h"
    "h_dport h0 = h_dport h" "h_nexthdr h0 = h_nexthdr h"
    using assms(3) by (simp_all add: ct_key_of_def)
  moreover have "h_protocol h0 = h_protocol h"
    using assms(1,2,4) calculation(5)
    by (auto simp: headers_wf_def proto_const_defs split: if_splits)
  ultimately show ?thesis
    by (simp add: acl_keys_def spp_key_def sd_key_def sp_key_def pl_key_def pp_key_def)
qed

text \<open>Tracking an authorised flow keeps the invariant.\<close>

lemma gw_inv_one_conn:
  assumes inv: "gw_inv ls maps" and one: "one_conn maps maps' (ct_key_of h) c"
    and c: "cv_state c = CT_ESTABLISHED" "cv_flags c = CT_FLAG_NONE"
    and auth: "authorised ls h" "headers_wf h"
  shows "gw_inv (ls @ [l]) maps'"
  unfolding gw_inv_def
proof (intro conjI allI impI)
  fix m k w assume "m \<noteq> Conn_track" "maps' m k = Some w"
  then have "maps m k = Some w" using one unfolding one_conn_def by blast
  with inv \<open>m \<noteq> Conn_track\<close> show "written (ls @ [l]) m k w"
    unfolding gw_inv_def by (blast intro: written_mono)
next
  fix k w assume "maps' Conn_track k = Some w"
  then consider "maps Conn_track k = Some w" | "k = enc_ct_tuple (ct_key_of h)" "w = enc_conn_value c"
    using one unfolding one_conn_def by blast
  then show "\<exists>h c. k = enc_ct_tuple (ct_key_of h) \<and> w = enc_conn_value c \<and> headers_wf h \<and>
      cv_state c = CT_ESTABLISHED \<and> cv_flags c = CT_FLAG_NONE \<and> authorised (ls @ [l]) h"
  proof cases
    case 1
    with inv show ?thesis unfolding gw_inv_def by (blast intro: authorised_mono)
  next
    case 2
    with c auth show ?thesis by (blast intro: authorised_mono)
  qed
qed

text \<open>A packet of flow \<open>h\<close> keeps the invariant, whatever it does to the maps.\<close>

lemma flow_effect_inv:
  assumes inv: "gw_inv ls maps" and eff: "flow_effect maps maps' h now now2 tend a"
    and wf: "headers_wf h"
  shows "gw_inv (ls @ [l]) maps'"
proof -
  from eff consider
      "maps_le maps' maps"
    | key c c' where "key \<in> {ct_key_of h, reverseTuple (ct_key_of h)}" "conn_entry maps key = Some c"
        "refreshed c c'" "one_conn maps maps' key c'"
    | v ts lts where "Some v \<in> set (acl_entries maps h)" "av_allowed v = 1"
        "one_conn maps maps' (ct_key_of h) (new_conn ts lts (av_expire_time v - now))"
    unfolding flow_effect_def grants_def by blast
  then show ?thesis
  proof cases
    case 1
    with inv show ?thesis by (rule gw_inv_mono)
  next
    case (2 key c c')
    then have key: "key = ct_key_of h" using no_reverse_entry[OF inv] by auto
    then obtain h0 where h0: "ct_key_of h0 = ct_key_of h" "authorised ls h0" "headers_wf h0"
      "cv_state c = CT_ESTABLISHED" "cv_flags c = CT_FLAG_NONE"
      using conn_entry_inv[OF inv] 2(2) by blast
    have "one_conn maps maps' (ct_key_of h0) c'" using 2(4) key h0(1) by simp
    with inv 2(3) h0 show ?thesis by (intro gw_inv_one_conn[of ls maps maps' h0 c']) (auto simp: refreshed_def)
  next
    case (3 v ts lts)
    then have "authorised ls h" using acl_entries_authorised inv by blast
    with 3(3) inv wf show ?thesis by (intro gw_inv_one_conn) (auto simp: new_conn_def)
  qed
qed

context bpf_kernel_contract
begin

lemma xdp_keeps_inv:
  assumes "gw_inv ls (contents s)" "xdp_white_prog K pkt s = Some (a, s')"
  shows "gw_inv (ls @ [l]) (contents s')"
proof -
  obtain f where f: "xdp_headers pkt = Some f" using xdp_headers_total by blast
  show ?thesis
  proof (cases f)
    case (Return b)
    then have "s' = s" using assms(2) f by (simp add: xdp_white_prog_def)
    with gw_inv_mono[OF assms(1) maps_le_refl] show ?thesis by simp
  next
    case (Continue h)
    with f have h: "xdp_headers pkt = Some (Continue h)" by simp
    from xdp_runE[OF assms(2) h] obtain now now2 where
      "flow_effect (contents s) (contents s') h now now2 (clock s') a" by metis
    with assms(1) xdp_headers_wf[OF h] show ?thesis by (intro flow_effect_inv)
  qed
qed

lemma gw_run_inv: "gw_run K contents clock ls s \<Longrightarrow> gw_inv ls (contents s)"
proof (induction rule: gw_run.induct)
  case (start s)
  then show ?case by (simp add: gw_inv_def)
next
  case (step ls s l s')
  from step.hyps(2) step.IH show ?case
  proof (cases rule: gw_step.cases)
    case (ingress pkt a)
    with step.IH show ?thesis by (auto intro: xdp_keeps_inv)
  next
    case (egress pkt r)
    obtain s'' where e: "tc_egress_prog K pkt s = Some (TC_ACT_OK, s'')"
      "\<And>m k w. contents s'' m k = Some w \<Longrightarrow> contents s m k = Some w \<or>
        (\<exists>e t. tc_headers pkt = Some (Some e) \<and> m = Spp \<and> k = enc_whitelist_key (tc_spp_key e) \<and>
           clock s \<le> t \<and> t \<le> clock s'' \<and>
           w = enc_whitelist_value \<lparr>av_allowed = 1, av_expire_time = t + KEY_EXPIRE_TIME_SECONDS\<rparr>)"
      using tc_egress_effect[of pkt s] by blast
    have s': "s' = s''" and l: "l = Egress pkt (clock s) (clock s')" using egress e(1) by simp_all
    show ?thesis unfolding l
    proof (rule gw_inv_extend[OF step.IH])
      fix m k w assume "contents s' m k = Some w"
      from e(2)[OF this[unfolded s']] show "contents s m k = Some w \<or>
          m \<noteq> Conn_track \<and> written (ls @ [Egress pkt (clock s) (clock s')]) m k w"
        unfolding s' by (elim disjE exE conjE) (simp_all add: written_egress)
    qed
  next
    case (rule m k v r)
    have l: "l = Rule m k v" using rule by simp
    show ?thesis unfolding l
    proof (rule gw_inv_extend[OF step.IH])
      fix m' k' w assume "contents s' m' k' = Some w"
      then have "m' = m \<and> k' = k \<and> w = v \<or> contents s m' k' = Some w"
        using update_entry_cases[of m k v BPF_ANY s m' k' w] rule(3) by simp
      then show "contents s m' k' = Some w \<or>
          m' \<noteq> Conn_track \<and> written (ls @ [Rule m k v]) m' k' w"
        using rule(2) by (auto simp: written_def)
    qed
  next
    case kernel
    with step.IH show ?thesis by (auto intro: gw_inv_mono)
  qed
qed

text \<open>A TCP or UDP packet that passes beyond the header checks belongs to an authorised flow.\<close>

lemma gw_run_mediates:
  assumes run: "gw_run K contents clock ls s" and pass: "xdp_white_prog K pkt s = Some (XDP_PASS, s')"
    and h: "xdp_headers pkt = Some (Continue h)"
    and proto: "h_protocol h = IPPROTO_TCP \<or> h_protocol h = IPPROTO_UDP"
  shows "authorised ls h"
proof -
  note inv = gw_run_inv[OF run]
  have wf: "headers_wf h" using h by (rule xdp_headers_wf)
  from xdp_runE[OF pass h] obtain now now1 now2 where
    p: "flow_policy pkt (contents s) h now now1 now2 = XDP_PASS" by metis
  have icmp: "icmp_policy pkt (contents s) h now1 = Continue ()"
    using proto by (auto simp: icmp_policy_def proto_const_defs)
  show ?thesis
  proof (cases "conn_entry (contents s) (ct_key_of h)")
    case None
    then have "first_match now (acl_entries (contents s) h) = XDP_PASS"
      using p icmp no_reverse_entry[OF inv]
      by (simp add: flow_policy_def conn_policy_def conn_policy1_def)
    then obtain v where "Some v \<in> set (acl_entries (contents s) h)" "av_allowed v = 1"
      using first_match_pass by blast
    with inv show ?thesis by (rule acl_entries_authorised)
  next
    case (Some c)
    obtain h0 where h0: "ct_key_of h0 = ct_key_of h" "authorised ls h0" "headers_wf h0"
      using conn_entry_inv[OF inv Some] by blast
    have "acl_keys h0 = acl_keys h" by (rule ct_key_acl_keys[OF wf h0(3,1) proto])
    with h0(2) show ?thesis by (simp add: authorised_def)
  qed
qed

end

end
