(* ===== verification/Tc_Properties.thy ===== *)
theory Tc_Properties
  imports Tc_Egress Xdp_Properties
begin

text \<open>
  The properties of the egress hook, alone and together with the ingress filter that reads the
  entries it writes.
\<close>

text \<open>C34: The egress hook never blocks: on every packet it returns \<^verbatim>\<open>TC_ACT_OK\<close>, logs nothing and
  leaves every map entry that is not evicted as it was, but for one \<^verbatim>\<open>spp\<close> entry that lets the answer
  of the packet in until 180 seconds after the packet.\<close>

theorem tc_egress_never_blocks:
  assumes "bpf_kernel_contract K contents clock events"
  shows "\<exists>s'. tc_egress_prog K pkt s = Some (TC_ACT_OK, s') \<and> clock s \<le> clock s' \<and>
     events s' = events s \<and>
     (\<forall>m k w. contents s' m k = Some w \<longrightarrow> contents s m k = Some w \<or>
        (\<exists>e t. tc_headers pkt = Some (Some e) \<and> m = Spp \<and> k = enc_whitelist_key (tc_spp_key e) \<and>
           clock s \<le> t \<and> t \<le> clock s' \<and>
           w = enc_whitelist_value \<lparr>av_allowed = 1, av_expire_time = t + KEY_EXPIRE_TIME_SECONDS\<rparr>)) \<and>
     (tc_headers pkt = Some None \<longrightarrow> s' = s)"
  by (rule bpf_kernel_contract.tc_egress_effect[OF assms])

theorem tc_egress_never_blocks_witness:
  "tc_egress_prog ref_kernel (eth_header 8 6) empty_state = Some (TC_ACT_OK, empty_state)"
proof -
  have "tc_headers (eth_header 8 6) = Some None" by code_simp
  then show ?thesis
    using tc_egress_never_blocks[OF rk.bpf_kernel_contract_axioms, of "eth_header 8 6" empty_state] by auto
qed

lemma unat_expire:
  assumes "unat t + 180000000000 < 2 ^ 64"
  shows "unat (t + KEY_EXPIRE_TIME_SECONDS) = unat t + 180000000000"
  using assms by (simp add: KEY_EXPIRE_TIME_SECONDS_def unat_word_ariths)

text \<open>The key the filter looks an answer up under is the key the egress hook opened.\<close>

lemma reply_key:
  assumes "h_saddr h = e_dst_ip e" "h_daddr h = e_src_ip e" "h_dport h = e_sport e"
    "h_protocol h = e_protocol e"
  shows "spp_key h = tc_spp_key e"
  using assms by (simp add: spp_key_def tc_spp_key_def)

text \<open>C31: Egress opens ingress: after a TCP or UDP packet went out, an answer from its destination to
  its source port, from whatever port it comes, passes the ingress filter when the maps are as the
  egress hook left them, the answer is tracked in neither direction and the filter is done within 180
  seconds. An answer of a tracked connection is decided by that connection instead. The two programs agree on the key although each builds it from
  its own headers.\<close>

theorem egress_reply_passes:
  assumes "bpf_kernel_roomy K contents clock events"
    and "tc_headers out_pkt = Some (Some e)"
    and "tc_egress_prog K out_pkt s = Some (r, s1)"
    and "contents s2 = contents s1"
    and "xdp_headers pkt = Some (Continue h)"
    and "h_protocol h \<noteq> IPPROTO_ICMP"
    and "h_saddr h = e_dst_ip e" and "h_daddr h = e_src_ip e" and "h_dport h = e_sport e"
    and "h_protocol h = e_protocol e"
    and "conn_entry (contents s2) (ct_key_of h) = None"
    and "conn_entry (contents s2) (reverseTuple (ct_key_of h)) = None"
    and "xdp_white_prog K pkt s2 = Some (a, s3)"
    and "unat (clock s3) \<le> unat (clock s1) + 180000000000"
    and "unat (clock s1) + 180000000000 < 2 ^ 64"
  shows "r = TC_ACT_OK \<and> a = XDP_PASS"
proof -
  note con = bpf_kernel_roomy.axioms(1)[OF assms(1)]
  let ?v = "\<lparr>av_allowed = 1, av_expire_time = clock s1 + KEY_EXPIRE_TIME_SECONDS\<rparr>"
  obtain s' where e: "tc_egress_prog K out_pkt s = Some (TC_ACT_OK, s')"
    "contents s' = (contents s)(Spp := (contents s Spp)(enc_whitelist_key (tc_spp_key e) :=
       Some (enc_whitelist_value \<lparr>av_allowed = 1, av_expire_time = clock s' + KEY_EXPIRE_TIME_SECONDS\<rparr>)))"
    using bpf_kernel_roomy.tc_egress_opens[OF assms(1,2), of s] by blast
  then have s1: "r = TC_ACT_OK" "s' = s1" using assms(3) by simp_all
  have live: "grants (clock s3) ?v"
    using assms(14) unat_expire[OF assms(15)] by (simp add: grants_def word_le_nat_alt)
  have "acl_entry (contents s2) Spp struct_whitelist_value (enc_whitelist_key (spp_key h)) = Some ?v"
    using e(2) s1(2) assms(4,7-10) by (simp add: acl_entry_def reply_key)
  then obtain rest where slots: "acl_slots (contents s2) h =
      [] @ (Spp, enc_whitelist_key (spp_key h), Some ?v) # rest"
    by (simp add: acl_slots_def)
  have "a = XDP_PASS"
    by (rule bpf_kernel_contract.xdp_first_slot_passes[OF con assms(13,5,6,11,12) slots _ live]) simp
  with s1(1) show ?thesis by simp
qed

text \<open>10.0.0.2 sends from port 8080 to 10.0.0.1, which answers with \<open>udp_packet\<close>.\<close>

definition out_packet :: packet where
  "out_packet = eth_header 8 0 @
     [0x45, 0, 0, 28, 0, 0, 0, 0, 64, 17, 0, 0, 10, 0, 0, 2, 10, 0, 0, 1] @
     [0x1F, 0x90, 0x30, 0x39, 0, 8, 0, 0]"

definition out_flow :: egress_headers where
  "out_flow = \<lparr>e_src_ip = 0x0200000A, e_dst_ip = 0x0100000A, e_protocol = 17, e_sport = 0x901F,
     e_dport = 0x3930\<rparr>"

lemma out_packet_headers: "tc_headers out_packet = Some (Some out_flow)"
  by code_simp

definition opened_state :: ref_state where
  "opened_state = (with_entry Spp (enc_whitelist_key (tc_spp_key out_flow))
     (enc_whitelist_value \<lparr>av_allowed = 1, av_expire_time = 180000001001\<rparr>) empty_state)\<lparr>rs_clock := 1001\<rparr>"

lemma opened_facts:
  "ref_contents opened_state = (\<lambda>_ _. None)(Spp := (\<lambda>_. None)(enc_whitelist_key (tc_spp_key out_flow) \<mapsto>
     enc_whitelist_value \<lparr>av_allowed = 1, av_expire_time = 180000001001\<rparr>))"
  "rs_clock opened_state = 1001" "rs_tick opened_state = 1" "rs_events opened_state = []"
  by (simp_all add: opened_state_def)

lemma out_run: "tc_egress_prog ref_kernel out_packet empty_state = Some (TC_ACT_OK, opened_state)"
  by (simp add: tc_egress_prog_def out_packet_headers ref_kernel_steps ref_ktime_def ref_update_def
      BPF_ANY_def BPF_EXIST_def KEY_EXPIRE_TIME_SECONDS_def opened_state_def with_entry_def
      empty_state_def)

lemma udp_answers_out: "spp_key udp_flow = tc_spp_key out_flow"
  by (simp add: spp_key_def tc_spp_key_def udp_flow_def out_flow_def)

lemma answer_run:
  "\<exists>a s'. xdp_white_prog ref_kernel udp_packet opened_state = Some (a, s') \<and> rs_clock s' = 1005"
  by (simp add: run_ref udp_packet_headers udp_flow_simps IPPROTO_ICMP_def opened_facts
      udp_answers_out)

theorem egress_reply_passes_witness:
  "\<exists>s'. xdp_white_prog ref_kernel udp_packet opened_state = Some (XDP_PASS, s')"
proof -
  obtain a s' where r: "xdp_white_prog ref_kernel udp_packet opened_state = Some (a, s')"
    and c: "rs_clock s' = 1005" using answer_run by blast
  have "TC_ACT_OK = TC_ACT_OK \<and> a = XDP_PASS"
    by (rule egress_reply_passes[OF rkr.bpf_kernel_roomy_axioms out_packet_headers out_run refl
          udp_packet_headers _ _ _ _ _ _ _ r])
      (simp_all add: opened_facts c udp_flow_def out_flow_def IPPROTO_ICMP_def)
  with r show ?thesis by simp
qed

end
