(* ===== verification/Gateway_Properties.thy ===== *)
theory Gateway_Properties
  imports Gateway Tc_Properties
begin

text \<open>
  Properties of whole histories of the gateway: what every reachable state looks like, and which
  packets can pass after a history of rules, egress packets and ingress packets.
\<close>

text \<open>A short history: user space grants the flow of \<open>udp_packet\<close>.\<close>

definition grant_rule :: label where
  "grant_rule = Rule Spp (enc_whitelist_key (spp_key udp_flow))
     (enc_whitelist_value \<lparr>av_allowed = 1, av_expire_time = 5000\<rparr>)"

lemma grant_history: "gw_run ref_kernel ref_contents rs_clock [grant_rule] granted_state"
proof -
  have "gw_run ref_kernel ref_contents rs_clock [] empty_state"
    by (rule gw_run.start) simp
  moreover have "gw_step ref_kernel ref_contents rs_clock empty_state grant_rule granted_state"
    unfolding grant_rule_def
    by (rule gw_step.rule[where r = 0])
      (simp_all add: ref_kernel_steps ref_update_def BPF_ANY_def BPF_EXIST_def granted_state_def with_entry_def)
  ultimately have "gw_run ref_kernel ref_contents rs_clock ([] @ [grant_rule]) granted_state"
    by (rule gw_run.step)
  then show ?thesis by simp
qed

text \<open>C27: In every state the gateway reaches, whatever the order of rules, packets and evictions,
  each allow-list entry is one that user space or the egress hook wrote, and each tracked connection
  is an established ingress flow that some allowing entry authorised.\<close>

theorem gateway_invariant:
  assumes "bpf_kernel_contract K contents clock events" and "gw_run K contents clock ls s"
  shows "(\<forall>m k w. m \<noteq> Conn_track \<longrightarrow> contents s m k = Some w \<longrightarrow> written ls m k w) \<and>
     (\<forall>k w. contents s Conn_track k = Some w \<longrightarrow>
        (\<exists>h c. k = enc_ct_tuple (ct_key_of h) \<and> w = enc_conn_value c \<and> headers_wf h \<and>
           cv_state c = CT_ESTABLISHED \<and> cv_flags c = CT_FLAG_NONE \<and> authorised ls h))"
  using bpf_kernel_contract.gw_run_inv[OF assms] unfolding gw_inv_def .

theorem gateway_invariant_witness:
  "written [grant_rule] Spp (enc_whitelist_key (spp_key udp_flow))
     (enc_whitelist_value \<lparr>av_allowed = 1, av_expire_time = 5000\<rparr>)"
  using gateway_invariant[OF rk.bpf_kernel_contract_axioms grant_history]
  by (simp add: granted_contents)

text \<open>C2: Nothing is let in that was not let in before: when a TCP or UDP packet beyond the header
  checks passes after some history, that history holds an allowing entry written, by user space or
  for the answer to an outgoing packet, under one of the five keys of the packet's own flow.\<close>

theorem gateway_mediates:
  assumes "bpf_kernel_contract K contents clock events" and "gw_run K contents clock ls s"
    and "xdp_white_prog K pkt s = Some (XDP_PASS, s')" and "xdp_headers pkt = Some (Continue h)"
    and "h_protocol h = IPPROTO_TCP \<or> h_protocol h = IPPROTO_UDP"
  shows "authorised ls h"
  by (rule bpf_kernel_contract.gw_run_mediates[OF assms])

theorem gateway_mediates_witness: "authorised [grant_rule] udp_flow"
proof -
  obtain s' where "xdp_white_prog ref_kernel udp_packet granted_state = Some (XDP_PASS, s')"
    using granted_run by blast
  from gateway_mediates[OF rk.bpf_kernel_contract_axioms grant_history this udp_packet_headers]
  show ?thesis by (simp add: udp_flow_simps IPPROTO_UDP_def)
qed

text \<open>The second connection lookup never finds anything: entries are only ever created with the
  ingress direction, the reversed key carries the egress direction, so no state the gateway reaches
  holds an entry under a reversed key and the receive counter is never incremented.\<close>

lemma reverse_lookup_dead:
  assumes "bpf_kernel_contract K contents clock events" and "gw_run K contents clock ls s"
  shows "conn_entry (contents s) (reverseTuple (ct_key_of h)) = None \<and>
     ct_lookup K bump_rx (reverseTuple (ct_key_of h)) s =
       Some (Continue (), snd (bpf_map_lookup_elem K Conn_track
         (enc_ct_tuple (reverseTuple (ct_key_of h))) s))"
proof -
  have none: "conn_entry (contents s) (reverseTuple (ct_key_of h)) = None"
    by (rule no_reverse_entry[OF bpf_kernel_contract.gw_run_inv[OF assms]])
  let ?k = "enc_ct_tuple (reverseTuple (ct_key_of h))"
  have "contents s Conn_track ?k = None"
    using bpf_kernel_contract.conn_value_decodes[OF assms(1), of s ?k] none
    by (cases "contents s Conn_track ?k") (auto simp: conn_entry_def)
  then have "fst (bpf_map_lookup_elem K Conn_track ?k s) = None"
    using bpf_kernel_contract.lookup_result[OF assms(1)] by simp
  then show ?thesis
    using none by (auto simp: ct_lookup_def split: prod.splits)
qed

end
