(* ===== verification/Access_Expiry.thy ===== *)
theory Access_Expiry
  imports Gateway_Properties
begin

text \<open>
  The end of access over whole histories. Time passes between the clock reading at which the filter
  decides on a grant and the one it stamps the new connection with, and the connection lives as
  long as the grant had left at the first one; \<open>gw_run_within\<close> bounds that delay by \<open>delta\<close>.
\<close>

inductive gw_run_within ::
  "'s bpf_kernel \<Rightarrow> ('s \<Rightarrow> maps) \<Rightarrow> ('s \<Rightarrow> 64 word) \<Rightarrow> nat \<Rightarrow> label list \<Rightarrow> 's \<Rightarrow> bool"
  for K contents clock delta where
  start: "(\<And>m k. contents s m k = None) \<Longrightarrow> gw_run_within K contents clock delta [] s"
| step: "gw_run_within K contents clock delta ls s \<Longrightarrow> gw_step K contents clock s l s' \<Longrightarrow>
    (\<And>pkt a. l = Ingress pkt a \<Longrightarrow> unat (clock s') \<le> unat (clock s) + delta) \<Longrightarrow>
    gw_run_within K contents clock delta (ls @ [l]) s'"

lemma within_run: "gw_run_within K contents clock delta ls s \<Longrightarrow> gw_run K contents clock ls s"
  by (induction rule: gw_run_within.induct) (auto intro: gw_run.intros)

text \<open>A value that allows until \<open>e\<close> was written under one of the keys of the flow.\<close>

definition granted_until :: "label list \<Rightarrow> headers \<Rightarrow> nat \<Rightarrow> bool" where
  "granted_until ls h e \<longleftrightarrow> (\<exists>(m, k) \<in> acl_keys h. \<exists>w v. written ls m k w \<and>
     dec_acl_value (value_type m) w = Some v \<and> av_allowed v = 1 \<and> unat (av_expire_time v) = e)"

lemma granted_until_mono: "granted_until ls h e \<Longrightarrow> granted_until (ls @ [l]) h e"
  unfolding granted_until_def using written_mono by blast

definition conn_end :: "conn_value \<Rightarrow> 64 word" where
  "conn_end c = cv_timestamp c + cv_ttl_ns c"

text \<open>Every tracked connection ends at most \<open>delta\<close> after a grant of its flow.\<close>

definition conns_bounded :: "nat \<Rightarrow> label list \<Rightarrow> maps \<Rightarrow> bool" where
  "conns_bounded delta ls maps \<longleftrightarrow> (\<forall>h c. conn_entry maps (ct_key_of h) = Some c \<longrightarrow>
     (\<exists>h0 e. ct_key_of h0 = ct_key_of h \<and> headers_wf h0 \<and> granted_until ls h0 e \<and>
        (e + delta < 2 ^ 64 \<longrightarrow> unat (conn_end c) \<le> e + delta)))"

lemma conns_bounded_extend:
  assumes "conns_bounded delta ls maps"
    and "\<And>h c. conn_entry maps' (ct_key_of h) = Some c \<Longrightarrow> conn_entry maps (ct_key_of h) = Some c \<or>
      (\<exists>h0 e. ct_key_of h0 = ct_key_of h \<and> headers_wf h0 \<and> granted_until (ls @ [l]) h0 e \<and>
        (e + delta < 2 ^ 64 \<longrightarrow> unat (conn_end c) \<le> e + delta))"
  shows "conns_bounded delta (ls @ [l]) maps'"
  unfolding conns_bounded_def
proof (intro allI impI)
  fix h c assume "conn_entry maps' (ct_key_of h) = Some c"
  then show "\<exists>h0 e. ct_key_of h0 = ct_key_of h \<and> headers_wf h0 \<and> granted_until (ls @ [l]) h0 e \<and>
      (e + delta < 2 ^ 64 \<longrightarrow> unat (conn_end c) \<le> e + delta)"
    using assms(2) assms(1)[unfolded conns_bounded_def] granted_until_mono by blast
qed

lemma conns_bounded_le:
  assumes "conns_bounded delta ls maps"
    and "\<And>k w. maps' Conn_track k = Some w \<Longrightarrow> maps Conn_track k = Some w"
  shows "conns_bounded delta (ls @ [l]) maps'"
  by (rule conns_bounded_extend[OF assms(1)]) (use assms(2) in \<open>auto simp: conn_entry_def bind_eq_Some_conv\<close>)

lemma conns_bounded_maps_le:
  assumes "conns_bounded delta ls maps" and "maps_le maps' maps"
  shows "conns_bounded delta (ls @ [l]) maps'"
proof (rule conns_bounded_le[OF assms(1)])
  show "maps' Conn_track k = Some w \<Longrightarrow> maps Conn_track k = Some w" for k w
    using assms(2) unfolding maps_le_def by blast
qed

lemma one_conn_entry:
  assumes "one_conn maps maps' key c" "conn_entry maps' key' = Some c'"
  shows "conn_entry maps key' = Some c' \<or> key' = key \<and> c' = c"
proof -
  from assms(2) obtain w where w: "maps' Conn_track (enc_ct_tuple key') = Some w" "dec_conn_value w = Some c'"
    by (auto simp: conn_entry_def bind_eq_Some_conv)
  from assms(1) w(1) have "maps Conn_track (enc_ct_tuple key') = Some w \<or>
      enc_ct_tuple key' = enc_ct_tuple key \<and> w = enc_conn_value c"
    unfolding one_conn_def by blast
  with w show ?thesis by (auto simp: conn_entry_def)
qed

lemma new_conn_ends:
  assumes "grants now v" "now \<le> ts" "unat ts \<le> unat now + delta"
    and "unat (av_expire_time v) + delta < 2 ^ 64"
  shows "unat (conn_end (new_conn ts lts (av_expire_time v - now))) \<le> unat (av_expire_time v) + delta"
proof -
  have eq: "conn_end (new_conn ts lts (av_expire_time v - now)) = av_expire_time v + (ts - now)"
    by (simp add: conn_end_def new_conn_def)
  have "unat (ts - now) \<le> delta" using assms(2,3) by (simp add: unat_sub)
  moreover have "unat (av_expire_time v + (ts - now)) \<le> unat (av_expire_time v) + unat (ts - now)"
    by (simp add: unat_word_ariths)
  ultimately show ?thesis unfolding eq by linarith
qed

subsection \<open>The invariant\<close>

text \<open>One packet: a refreshed connection keeps its end, a new one ends with its grant.\<close>

lemma flow_effect_bounded:
  assumes inv: "gw_inv ls maps" and b: "conns_bounded delta ls maps"
    and eff: "flow_effect maps maps' h now now2 tend a" and wf: "headers_wf h"
    and t: "now \<le> now2" "unat tend \<le> unat now + delta"
  shows "conns_bounded delta (ls @ [l]) maps'"
proof -
  from eff consider
      "maps_le maps' maps"
    | key c c' where "key \<in> {ct_key_of h, reverseTuple (ct_key_of h)}" "conn_entry maps key = Some c"
        "refreshed c c'" "one_conn maps maps' key c'"
    | v ts lts where "Some v \<in> set (acl_entries maps h)" "grants now v" "now2 \<le> ts" "ts \<le> lts" "lts \<le> tend"
        "one_conn maps maps' (ct_key_of h) (new_conn ts lts (av_expire_time v - now))"
    unfolding flow_effect_def by blast
  then show ?thesis
  proof cases
    case 1
    with b show ?thesis by (rule conns_bounded_maps_le)
  next
    case (2 key c c')
    then have key: "key = ct_key_of h" using no_reverse_entry[OF inv] by auto
    have end': "conn_end c' = conn_end c" using 2(3) by (simp add: refreshed_def conn_end_def)
    show ?thesis
    proof (rule conns_bounded_extend[OF b])
      fix h' c'' assume "conn_entry maps' (ct_key_of h') = Some c''"
      from one_conn_entry[OF 2(4) this] consider "conn_entry maps (ct_key_of h') = Some c''"
        | "ct_key_of h' = ct_key_of h" "c'' = c'" using key by blast
      then show "conn_entry maps (ct_key_of h') = Some c'' \<or> (\<exists>h0 e. ct_key_of h0 = ct_key_of h' \<and>
          headers_wf h0 \<and> granted_until (ls @ [l]) h0 e \<and>
          (e + delta < 2 ^ 64 \<longrightarrow> unat (conn_end c'') \<le> e + delta))"
      proof cases
        case 1
        then show ?thesis by blast
      next
        case new: 2
        obtain h0 e where "ct_key_of h0 = ct_key_of h" "headers_wf h0" "granted_until ls h0 e"
          "e + delta < 2 ^ 64 \<longrightarrow> unat (conn_end c) \<le> e + delta"
          using b 2(2) key unfolding conns_bounded_def by blast
        with new end' show ?thesis by (intro disjI2 exI[of _ h0] exI[of _ e]) (simp add: granted_until_mono)
      qed
    qed
  next
    case (3 v ts lts)
    obtain m k w where mk: "(m, k) \<in> acl_keys h" "m \<noteq> Conn_track" "maps m k = Some w"
      "dec_acl_value (value_type m) w = Some v" using acl_entries_keys[OF 3(1)] by blast
    have "written ls m k w" using inv mk(2,3) unfolding gw_inv_def by blast
    then have g: "granted_until ls h (unat (av_expire_time v))"
      unfolding granted_until_def using mk 3(2) by (auto simp: grants_def)
    have le: "now \<le> ts" "ts \<le> tend" using 3(3-5) t(1) by auto
    then have ts: "unat ts \<le> unat now + delta" using t(2) by (simp add: word_le_nat_alt)
    show ?thesis
    proof (rule conns_bounded_extend[OF b])
      fix h' c'' assume "conn_entry maps' (ct_key_of h') = Some c''"
      from one_conn_entry[OF 3(6) this] consider "conn_entry maps (ct_key_of h') = Some c''"
        | "ct_key_of h' = ct_key_of h" "c'' = new_conn ts lts (av_expire_time v - now)" by blast
      then show "conn_entry maps (ct_key_of h') = Some c'' \<or> (\<exists>h0 e. ct_key_of h0 = ct_key_of h' \<and>
          headers_wf h0 \<and> granted_until (ls @ [l]) h0 e \<and>
          (e + delta < 2 ^ 64 \<longrightarrow> unat (conn_end c'') \<le> e + delta))"
      proof cases
        case new: 2
        with g wf new_conn_ends[OF 3(2) le(1) ts, of lts] granted_until_mono show ?thesis
          by (intro disjI2 exI[of _ h] exI[of _ "unat (av_expire_time v)"]) simp
      qed blast
    qed
  qed
qed

context bpf_kernel_contract
begin

lemma xdp_keeps_bounded:
  assumes "gw_inv ls (contents s)" "conns_bounded delta ls (contents s)"
    and "xdp_white_prog K pkt s = Some (a, s')" "unat (clock s') \<le> unat (clock s) + delta"
  shows "conns_bounded delta (ls @ [l]) (contents s')"
proof -
  obtain f where f: "xdp_headers pkt = Some f" using xdp_headers_total by blast
  show ?thesis
  proof (cases f)
    case (Return b)
    then have "s' = s" using assms(3) f by (simp add: xdp_white_prog_def)
    with assms(2) show ?thesis by (auto intro: conns_bounded_le)
  next
    case (Continue h)
    with f have h: "xdp_headers pkt = Some (Continue h)" by simp
    obtain now now1 now2 where t: "clock s \<le> now" "now \<le> now1" "now1 \<le> now2"
      and eff: "flow_effect (contents s) (contents s') h now now2 (clock s') a"
      by (rule xdp_runE[OF assms(3) h])
    have "unat (clock s') \<le> unat now + delta" using assms(4) t(1) by (simp add: word_le_nat_alt)
    with t show ?thesis
      by (intro flow_effect_bounded[OF assms(1,2) eff xdp_headers_wf[OF h]]) auto
  qed
qed

lemma within_bounded:
  "gw_run_within K contents clock delta ls s \<Longrightarrow> conns_bounded delta ls (contents s)"
proof (induction rule: gw_run_within.induct)
  case (start s)
  then show ?case by (simp add: conns_bounded_def conn_entry_def)
next
  case (step ls s l s')
  from step.hyps(2) show ?case
  proof (cases rule: gw_step.cases)
    case (ingress pkt a)
    with step show ?thesis
      by (intro xdp_keeps_bounded[OF gw_run_inv[OF within_run[OF step.hyps(1)]] step.IH]) auto
  next
    case (egress pkt r)
    obtain s'' where e: "tc_egress_prog K pkt s = Some (TC_ACT_OK, s'')"
      "\<And>m k w. contents s'' m k = Some w \<Longrightarrow> contents s m k = Some w \<or> m = Spp"
      using tc_egress_effect[of pkt s] by blast
    have s': "s' = s''" using egress e(1) by simp
    show ?thesis
      by (rule conns_bounded_le[OF step.IH]) (use e(2)[of Conn_track] s' in auto)
  next
    case (rule m k v r)
    then have "contents s' Conn_track = contents s Conn_track"
      using update_other_maps[of Conn_track m k v BPF_ANY s] by simp
    with step.IH show ?thesis by (intro conns_bounded_le) auto
  next
    case kernel
    with step.IH show ?thesis by (intro conns_bounded_maps_le)
  qed
qed

lemma access_end:
  assumes run: "gw_run_within K contents clock delta ls s"
    and pass: "xdp_white_prog K pkt s = Some (XDP_PASS, s')"
    and h: "xdp_headers pkt = Some (Continue h)"
    and proto: "h_protocol h = IPPROTO_TCP \<or> h_protocol h = IPPROTO_UDP"
    and small: "\<And>e. granted_until ls h e \<Longrightarrow> e + delta < 2 ^ 64"
  shows "\<exists>e. granted_until ls h e \<and> unat (clock s) \<le> e + delta"
proof -
  note inv = gw_run_inv[OF within_run[OF run]]
  obtain now now1 now2 where t: "clock s \<le> now" "now \<le> now1" "now1 \<le> now2"
    and p: "flow_policy pkt (contents s) h now now1 now2 = XDP_PASS"
    using xdp_runE[OF pass h] by metis
  have icmp: "icmp_policy pkt (contents s) h now1 = Continue ()"
    using proto by (auto simp: icmp_policy_def proto_const_defs)
  show ?thesis
  proof (cases "conn_entry (contents s) (ct_key_of h)")
    case None
    then have "first_match now (acl_entries (contents s) h) = XDP_PASS"
      using p icmp no_reverse_entry[OF inv]
      by (simp add: flow_policy_def conn_policy_def conn_policy1_def)
    then obtain v where v: "Some v \<in> set (acl_entries (contents s) h)" "grants now v"
      using first_match_pass by blast
    obtain m k w where mk: "(m, k) \<in> acl_keys h" "m \<noteq> Conn_track" "contents s m k = Some w"
      "dec_acl_value (value_type m) w = Some v" using acl_entries_keys[OF v(1)] by blast
    have "written ls m k w" using inv mk(2,3) unfolding gw_inv_def by blast
    then have "granted_until ls h (unat (av_expire_time v))"
      unfolding granted_until_def using mk v(2) by (auto simp: grants_def)
    moreover have "unat (clock s) \<le> unat (av_expire_time v)"
      using t(1) v(2) by (auto simp: grants_def word_le_nat_alt)
    ultimately show ?thesis by (intro exI[of _ "unat (av_expire_time v)"]) simp
  next
    case (Some c)
    have "\<not> conn_expired now2 c"
      using p icmp Some by (auto simp: flow_policy_def conn_policy_def conn_policy1_def split: if_splits)
    then have "unat (clock s) \<le> unat (conn_end c)"
      using t by (simp add: conn_expired_def conn_end_def word_le_nat_alt not_less)
    moreover obtain h0 e where h0: "ct_key_of h0 = ct_key_of h" "headers_wf h0" "granted_until ls h0 e"
      "e + delta < 2 ^ 64 \<longrightarrow> unat (conn_end c) \<le> e + delta"
      using within_bounded[OF run] Some unfolding conns_bounded_def by blast
    moreover have "granted_until ls h e"
      using h0(3) ct_key_acl_keys[OF xdp_headers_wf[OF h] h0(2,1) proto] by (simp add: granted_until_def)
    ultimately show ?thesis using small by (intro exI[of _ e]) auto
  qed
qed

end

text \<open>C11: Access ends. Take a run from empty maps in which no run of the filter takes longer than
  \<open>delta\<close>, and a TCP or UDP flow whose grants all end by \<open>T\<close>: the values written under its keys by
  rules, and the entries of its outgoing packets, which end 180 seconds after a time between the start
  and the end of the egress hook. Once the clock is past \<open>T + delta\<close>, which must fit into 64 bits, its
  packets are dropped, whatever packets and tracked connections the history holds: a connection does
  not outlive the grant it was opened with by more than \<open>delta\<close>.\<close>

theorem access_ends:
  assumes "bpf_kernel_contract K contents clock events"
    and "gw_run_within K contents clock delta ls s"
    and "xdp_headers pkt = Some (Continue h)"
    and "h_protocol h = IPPROTO_TCP \<or> h_protocol h = IPPROTO_UDP"
    and "\<And>e. granted_until ls h e \<Longrightarrow> e \<le> T" and "T + delta < 2 ^ 64"
    and "T + delta < unat (clock s)"
  shows "\<exists>s'. xdp_white_prog K pkt s = Some (XDP_DROP, s')"
proof -
  obtain a s' where r: "xdp_white_prog K pkt s = Some (a, s')" "a \<in> {XDP_DROP, XDP_PASS}"
    using bpf_kernel_contract.xdp_correct[OF assms(1), of pkt s] policy_verdict by blast
  have "a \<noteq> XDP_PASS"
  proof
    assume "a = XDP_PASS"
    then obtain e where "granted_until ls h e" "unat (clock s) \<le> e + delta"
      using bpf_kernel_contract.access_end[OF assms(1,2) _ assms(3,4)] r(1) assms(5,6)
      by (metis add_le_mono1 le_less_trans)
    with assms(5)[of e] assms(7) show False by simp
  qed
  with r show ?thesis by blast
qed

text \<open>
  A history with a connection: 10.0.0.2 sends \<open>out_packet\<close>, the answer \<open>udp_packet\<close> passes and is
  tracked, and the clock moves on to 200 seconds.
\<close>

definition busy_history :: "label list" where
  "busy_history = [Egress out_packet 1000 1001, Ingress udp_packet XDP_PASS, Kernel]"

lemma answer_tracked:
  "\<exists>s'. xdp_white_prog ref_kernel udp_packet opened_state = Some (XDP_PASS, s') \<and> rs_clock s' = 1005 \<and>
     conn_entry (ref_contents s') (ct_key_of udp_flow) \<noteq> None"
proof -
  obtain a s' where r: "xdp_white_prog ref_kernel udp_packet opened_state = Some (a, s')"
    and c: "rs_clock s' = 1005" using answer_run by blast
  have slots: "acl_slots (ref_contents opened_state) udp_flow = [] @ (Spp, enc_whitelist_key (spp_key udp_flow),
      Some \<lparr>av_allowed = 1, av_expire_time = 180000001001\<rparr>) # tl (acl_slots (ref_contents opened_state) udp_flow)"
    by (simp add: acl_slots_def opened_facts udp_answers_out acl_entry_def)
  have none: "conn_entry (ref_contents opened_state) k = None" for k
    by (simp add: opened_facts)
  have pre: "\<forall>sl \<in> set []. undecided (rs_clock s') (snd (snd (sl :: slot)))" by simp
  have live: "grants (rs_clock s') \<lparr>av_allowed = 1, av_expire_time = 180000001001\<rparr>"
    by (simp add: c grants_def)
  have icmp: "\<forall>t. icmp_policy udp_packet (ref_contents opened_state) udp_flow t = Continue ()"
    by (simp add: icmp_policy_def udp_flow_simps IPPROTO_ICMP_def)
  show ?thesis
    using rkr.xdp_grant_tracks[OF udp_packet_headers icmp none none slots r pre live] r c
    by (auto simp: conn_entry_def)
qed

lemma busy_run:
  "\<exists>s. gw_run_within ref_kernel ref_contents rs_clock 1000 busy_history s \<and>
     rs_clock s = 200000000000 \<and> conn_entry (ref_contents s) (ct_key_of udp_flow) \<noteq> None"
proof -
  obtain s' where s': "xdp_white_prog ref_kernel udp_packet opened_state = Some (XDP_PASS, s')"
    "rs_clock s' = 1005" "conn_entry (ref_contents s') (ct_key_of udp_flow) \<noteq> None"
    using answer_tracked by blast
  let ?late = "s'\<lparr>rs_clock := 200000000000\<rparr>"
  have "gw_run_within ref_kernel ref_contents rs_clock 1000 [] empty_state"
    by (rule gw_run_within.start) simp
  moreover have "gw_step ref_kernel ref_contents rs_clock empty_state (Egress out_packet 1000 1001) opened_state"
    using gw_step.egress[OF out_run, of ref_contents rs_clock] by (simp add: opened_facts)
  ultimately have "gw_run_within ref_kernel ref_contents rs_clock 1000 ([] @ [Egress out_packet 1000 1001])
      opened_state"
    by (rule gw_run_within.step) simp
  then have "gw_run_within ref_kernel ref_contents rs_clock 1000
      (([] @ [Egress out_packet 1000 1001]) @ [Ingress udp_packet XDP_PASS]) s'"
    by (rule gw_run_within.step[OF _ gw_step.ingress[OF s'(1)]]) (simp add: s'(2) opened_facts)
  moreover have "gw_step ref_kernel ref_contents rs_clock s' Kernel ?late"
    by (rule gw_step.kernel) (simp_all add: s'(2))
  ultimately have "gw_run_within ref_kernel ref_contents rs_clock 1000
      ((([] @ [Egress out_packet 1000 1001]) @ [Ingress udp_packet XDP_PASS]) @ [Kernel]) ?late"
    by (rule gw_run_within.step) simp
  with s'(3) show ?thesis by (intro exI[of _ ?late]) (simp add: busy_history_def)
qed

lemma busy_grants:
  assumes "granted_until busy_history udp_flow e"
  shows "e \<le> 180000001001"
proof -
  from assms obtain t :: "64 word" where t: "t \<le> 1001" and e: "e = unat (t + KEY_EXPIRE_TIME_SECONDS)"
    by (auto simp: granted_until_def written_def busy_history_def acl_keys_def)
  from t have "unat t \<le> 1001" by (simp add: word_le_nat_alt)
  then show ?thesis using e unat_expire[of t] by simp
qed

theorem access_ends_witness:
  "\<exists>s s'. gw_run ref_kernel ref_contents rs_clock busy_history s \<and>
     conn_entry (ref_contents s) (ct_key_of udp_flow) \<noteq> None \<and>
     xdp_white_prog ref_kernel udp_packet s = Some (XDP_DROP, s')"
proof -
  obtain s where s: "gw_run_within ref_kernel ref_contents rs_clock 1000 busy_history s"
    "rs_clock s = 200000000000" "conn_entry (ref_contents s) (ct_key_of udp_flow) \<noteq> None"
    using busy_run by blast
  have "\<exists>s'. xdp_white_prog ref_kernel udp_packet s = Some (XDP_DROP, s')"
  proof (rule access_ends[OF rk.bpf_kernel_contract_axioms s(1) udp_packet_headers])
    show "h_protocol udp_flow = IPPROTO_TCP \<or> h_protocol udp_flow = IPPROTO_UDP"
      by (simp add: udp_flow_simps IPPROTO_UDP_def)
    show "granted_until busy_history udp_flow e \<Longrightarrow> e \<le> 180000001001" for e
      by (rule busy_grants)
  qed (simp_all add: s(2))
  with s within_run[OF s(1)] show ?thesis by blast
qed

end
