(* ===== verification/Xdp_Concurrent.thy ===== *)
theory Xdp_Concurrent
  imports Gateway
begin

text \<open>
  The filter runs on several CPUs at once while the access controller writes the maps: between two
  helper calls of one run every map may change. Nothing is assumed of the kernel here, so its
  helpers may let any other activity happen first. \<open>recording K\<close> is the kernel \<open>K\<close> that also
  notes what the lookups and the clock returned; a run is judged by what it saw itself. (A value
  is read when it is looked up: the program reads it through a pointer shortly after.)
\<close>

datatype observation = Looked bpf_map "byte list" "byte list option" | Clocked "64 word"

definition recording :: "'s bpf_kernel \<Rightarrow> ('s \<times> observation list) bpf_kernel" where
  "recording K = \<lparr>
     bpf_map_lookup_elem = (\<lambda>m k (s, tr).
       let (r, s') = bpf_map_lookup_elem K m k s in (r, (s', tr @ [Looked m k r]))),
     bpf_map_update_elem = (\<lambda>m k v fl (s, tr).
       let (r, s') = bpf_map_update_elem K m k v fl s in (r, (s', tr))),
     bpf_map_delete_elem = (\<lambda>m k (s, tr).
       let (r, s') = bpf_map_delete_elem K m k s in (r, (s', tr))),
     bpf_ktime_get_ns = (\<lambda>(s, tr). let (t, s') = bpf_ktime_get_ns K s in (t, (s', tr @ [Clocked t]))),
     bpf_perf_event_output = (\<lambda>m fl ev (s, tr).
       let (r, s') = bpf_perf_event_output K m fl ev s in (r, (s', tr)))\<rparr>"

lemma recording_steps:
  "bpf_map_lookup_elem K m k s = (r1, s1) \<Longrightarrow>
     bpf_map_lookup_elem (recording K) m k (s, tr) = (r1, (s1, tr @ [Looked m k r1]))"
  "bpf_map_update_elem K m k v fl s = (r2, s2) \<Longrightarrow>
     bpf_map_update_elem (recording K) m k v fl (s, tr) = (r2, (s2, tr))"
  "bpf_map_delete_elem K m k s = (r3, s3) \<Longrightarrow>
     bpf_map_delete_elem (recording K) m k (s, tr) = (r3, (s3, tr))"
  "bpf_ktime_get_ns K s = (t, s4) \<Longrightarrow>
     bpf_ktime_get_ns (recording K) (s, tr) = (t, (s4, tr @ [Clocked t]))"
  "bpf_perf_event_output K m fl ev s = (r5, s5) \<Longrightarrow>
     bpf_perf_event_output (recording K) m fl ev (s, tr) = (r5, (s5, tr))"
  by (simp_all add: recording_def)

text \<open>A run saw a live entry of the flow: one of its lookups returned it, one of its clock readings
  lies in its lifetime.\<close>

definition saw_entry :: "bpf_map \<Rightarrow> ctype \<Rightarrow> byte list \<Rightarrow> acl_value \<Rightarrow> observation list \<Rightarrow> bool" where
  "saw_entry m t key v tr \<longleftrightarrow> (\<exists>w. Looked m key (Some w) \<in> set tr \<and> dec_acl_value t w = Some v)"

definition saw_live :: "headers \<Rightarrow> observation list \<Rightarrow> bool" where
  "saw_live h tr \<longleftrightarrow>
     (\<exists>(m, key) \<in> insert (Icmpwhitelist, enc_ip_pair_key (sd_key h)) (acl_keys h). \<exists>v t.
        saw_entry m (value_type m) key v tr \<and> Clocked t \<in> set tr \<and> grants t v) \<or>
     (\<exists>key \<in> {ct_key_of h, reverseTuple (ct_key_of h)}. \<exists>w c t.
        Looked Conn_track (enc_ct_tuple key) (Some w) \<in> set tr \<and> dec_conn_value w = Some c \<and>
        Clocked t \<in> set tr \<and> \<not> conn_expired t c)"

lemma saw_entry_mono: "saw_entry m t key v tr \<Longrightarrow> set tr \<subseteq> set tr' \<Longrightarrow> saw_entry m t key v tr'"
  unfolding saw_entry_def by blast

subsection \<open>A run and its recording\<close>

text \<open>The recorded run does the same, extends the trace, and its result and trace satisfy \<open>Q\<close>.\<close>

definition follows :: "('a \<times> 's) option \<Rightarrow> observation list \<Rightarrow> ('a \<times> 's \<times> observation list) option \<Rightarrow>
    ('a \<Rightarrow> observation list \<Rightarrow> bool) \<Rightarrow> bool" where
  "follows r tr r' Q \<longleftrightarrow> (case r of
      None \<Rightarrow> r' = None
    | Some (x, s) \<Rightarrow> \<exists>tr'. r' = Some (x, (s, tr')) \<and> set tr \<subseteq> set tr' \<and> Q x tr')"

lemma follows_None [simp]: "follows None tr r' Q \<longleftrightarrow> r' = None"
  by (simp add: follows_def)

lemma follows_Some:
  "r' = Some (x, (s, tr')) \<Longrightarrow> set tr \<subseteq> set tr' \<Longrightarrow> Q x tr' \<Longrightarrow> follows (Some (x, s)) tr r' Q"
  by (simp add: follows_def)

lemma follows_flow:
  assumes "follows r tr r' Q"
    and "\<And>x s tr'. set tr \<subseteq> set tr' \<Longrightarrow> Q (Continue x) tr' \<Longrightarrow> follows (f x s) tr' (f' x (s, tr')) Q'"
    and "\<And>a tr'. set tr \<subseteq> set tr' \<Longrightarrow> Q (Return a) tr' \<Longrightarrow> Q' (Return a) tr'"
  shows "follows (flow_bind r f) tr (flow_bind r' f') Q'"
proof (cases r)
  case None
  with assms(1) show ?thesis by simp
next
  case (Some p)
  obtain x s where p: "p = (x, s)" by (cases p)
  obtain tr' where t: "r' = Some (x, (s, tr'))" "set tr \<subseteq> set tr'" "Q x tr'"
    using assms(1) Some p by (auto simp: follows_def)
  show ?thesis
  proof (cases x)
    case (Return a)
    with Some p t assms(3) show ?thesis by (auto simp: follows_def)
  next
    case (Continue y)
    with Some p t assms(2)[of tr' y s] show ?thesis
      by (auto simp: follows_def split: option.splits)
  qed
qed

lemma follows_bind:
  assumes "follows r tr r' Q"
    and "\<And>x s tr'. set tr \<subseteq> set tr' \<Longrightarrow> Q x tr' \<Longrightarrow> follows (f x s) tr' (f' x (s, tr')) Q'"
  shows "follows (Option.bind r (\<lambda>(x, s). f x s)) tr (Option.bind r' (\<lambda>(x, s). f' x s)) Q'"
proof (cases r)
  case None
  with assms(1) show ?thesis by simp
next
  case (Some p)
  obtain x s where p: "p = (x, s)" by (cases p)
  obtain tr' where t: "r' = Some (x, (s, tr'))" "set tr \<subseteq> set tr'" "Q x tr'"
    using assms(1) Some p by (auto simp: follows_def)
  with Some p assms(2)[of tr' x s] show ?thesis
    by (auto simp: follows_def split: option.splits)
qed

text \<open>What a stage promises: it passes only an echo reply, or after it saw a live entry.\<close>

definition echo_reply :: "packet \<Rightarrow> headers \<Rightarrow> bool" where
  "echo_reply pkt h \<longleftrightarrow> h_protocol h = IPPROTO_ICMP \<and> pkt ! (14 + unat (h_ihl h) * 4) = 0"

definition passes_live :: "packet \<Rightarrow> headers \<Rightarrow> 'a flow \<Rightarrow> observation list \<Rightarrow> bool" where
  "passes_live pkt h x tr \<longleftrightarrow> (x = Return XDP_PASS \<longrightarrow> echo_reply pkt h \<or> saw_live h tr)"

lemma passes_live_simps [simp]:
  "passes_live pkt h (Continue x) tr" "passes_live pkt h (Return XDP_DROP) tr"
  "passes_live pkt h (Return XDP_PASS) tr \<longleftrightarrow> echo_reply pkt h \<or> saw_live h tr"
  by (simp_all add: passes_live_def)

lemma acl_lookup_follows:
  "follows (acl_lookup K m t key s) tr (acl_lookup (recording K) m t key (s, tr))
     (\<lambda>e tr'. \<forall>v. e = Some v \<longrightarrow> saw_entry m t key v tr')"
proof -
  obtain r s' where l: "bpf_map_lookup_elem K m key s = (r, s')" by fastforce
  show ?thesis
    by (cases r; cases "dec_acl_value t (the r)")
      (auto simp: acl_lookup_def l recording_steps(1)[OF l] follows_def saw_entry_def)
qed

lemma submit_event_recording:
  "\<exists>r s' tr'. submit_event K a h s = (r, s') \<and> submit_event (recording K) a h (s, tr) = (r, (s', tr')) \<and>
     set tr \<subseteq> set tr'"
proof -
  obtain t s1 where t: "bpf_ktime_get_ns K s = (t, s1)" by fastforce
  obtain r s2 where p: "bpf_perf_event_output K Events BPF_F_CURRENT_CPU (enc_event t a (h_saddr h)
      (h_daddr h) (h_sport h) (h_dport h) (h_protocol h) (h_tot_len h)) s1 = (r, s2)" by fastforce
  show ?thesis
    by (auto simp: submit_event_def t recording_steps(4)[OF t] p recording_steps(5)[OF p])
qed

text \<open>Stages that see a live entry before they pass.\<close>

lemma saw_live_acl:
  "(m, key) \<in> insert (Icmpwhitelist, enc_ip_pair_key (sd_key h)) (acl_keys h) \<Longrightarrow>
   saw_entry m (value_type m) key v tr \<Longrightarrow> Clocked t \<in> set tr \<Longrightarrow> grants t v \<Longrightarrow> saw_live h tr"
  unfolding saw_live_def by blast

lemma value_type_icmp [simp]: "value_type Icmpwhitelist = struct_icmpwhitelist_value"
  by (simp add: value_type_def map_decl_defs)

lemma ct_lookup_follows:
  assumes key: "key \<in> {ct_key_of h, reverseTuple (ct_key_of h)}"
  shows "follows (ct_lookup K bump key s) tr (ct_lookup (recording K) bump key (s, tr)) (passes_live pkt h)"
proof -
  obtain r s1 where l: "bpf_map_lookup_elem K Conn_track (enc_ct_tuple key) s = (r, s1)" by fastforce
  show ?thesis
  proof (cases r)
    case None
    then show ?thesis
      by (auto simp: ct_lookup_def l recording_steps(1)[OF l] follows_def)
  next
    case (Some w)
    obtain now s2 where t: "bpf_ktime_get_ns K s1 = (now, s2)" by fastforce
    obtain d s3 where d: "bpf_map_delete_elem K Conn_track (enc_ct_tuple key) s2 = (d, s3)" by fastforce
    obtain now' s4 where t': "bpf_ktime_get_ns K s2 = (now', s4)" by fastforce
    obtain u s5 where u: "bpf_map_update_elem K Conn_track (enc_ct_tuple key)
        (enc_conn_value ((bump (the (dec_conn_value w)))\<lparr>cv_last_timestamp := now'\<rparr>)) BPF_EXIST s4 = (u, s5)"
      by fastforce
    have live: "saw_live h (tr @ [Looked Conn_track (enc_ct_tuple key) (Some w), Clocked now, Clocked now'])"
      if "dec_conn_value w = Some c" "\<not> cv_timestamp c + cv_ttl_ns c < now" for c
      unfolding saw_live_def using that key by (intro disjI2 bexI[of _ key]) (auto simp: conn_expired_def)
    show ?thesis
    proof (cases "dec_conn_value w")
      case None
      then show ?thesis by (simp add: ct_lookup_def l recording_steps(1)[OF l] Some)
    next
      case (Some c)
      with live[OF this] show ?thesis using \<open>r = Some w\<close> d u
        by (auto simp: ct_lookup_def l recording_steps(1)[OF l] check_conn_expiry_def t recording_steps(4)[OF t]
            recording_steps(3)[OF d] t' recording_steps(4)[OF t'] recording_steps(2)[OF u[simplified Some option.sel]]
            follows_def)
    qed
  qed
qed

lemma conntrack_follows:
  "follows (xdp_conntrack K h s) tr (xdp_conntrack (recording K) h (s, tr)) (passes_live pkt h)"
  unfolding xdp_conntrack_def
  by (rule follows_flow[OF ct_lookup_follows[where h = h and pkt = pkt]])
    (auto intro: ct_lookup_follows simp: passes_live_def)

lemma icmp_follows:
  "follows (xdp_icmp K pkt h s) tr (xdp_icmp (recording K) pkt h (s, tr)) (passes_live pkt h)"
proof (cases "h_protocol h = IPPROTO_ICMP \<and> 14 + unat (h_ihl h) * 4 + 8 \<le> length pkt")
  case False
  then show ?thesis by (auto simp: xdp_icmp_def Let_def follows_def)
next
  case True
  let ?i = "14 + unat (h_ihl h) * 4"
  have b: "(load 1 pkt ?i :: 8 word option) = Some (pkt ! ?i)"
    "(load 1 pkt (?i + 1) :: 8 word option) = Some (pkt ! (?i + 1))"
    using True by (simp_all add: load_byte)
  show ?thesis
  proof (cases "pkt ! ?i = 8 \<and> pkt ! (?i + 1) = 0")
    case False
    with True b show ?thesis
      by (auto simp: xdp_icmp_def Let_def ICMP_ECHO_def ICMP_ECHOREPLY_def follows_def echo_reply_def)
  next
    case echo: True
    have unfold: "xdp_icmp K' pkt h s' = Option.bind
        (acl_lookup K' Icmpwhitelist struct_icmpwhitelist_value (enc_ip_pair_key (sd_key h)) s')
        (\<lambda>(iw, s1). case iw of None \<Rightarrow> Some (Return XDP_DROP, s1)
          | Some v \<Rightarrow> (let (now, s2) = bpf_ktime_get_ns K' s1 in
              if av_expire_time v < now then
                Some (Return XDP_DROP, snd (bpf_map_delete_elem K' Icmpwhitelist (enc_ip_pair_key (sd_key h)) s2))
              else if av_allowed v = 1 then Some (Return XDP_PASS, s2) else Some (Continue (), s2)))"
      for K' :: "'b bpf_kernel" and s'
      using True echo b by (simp add: xdp_icmp_def Let_def ICMP_ECHO_def ICMP_ECHOREPLY_def
          sd_key_def[symmetric])
    show ?thesis unfolding unfold
    proof (rule follows_bind[OF acl_lookup_follows])
      fix iw s1 tr1
      assume sub: "set tr \<subseteq> set tr1" and saw: "\<forall>v. iw = Some v \<longrightarrow>
        saw_entry Icmpwhitelist struct_icmpwhitelist_value (enc_ip_pair_key (sd_key h)) v tr1"
      obtain now s2 where t: "bpf_ktime_get_ns K s1 = (now, s2)" by fastforce
      obtain d s3 where d: "bpf_map_delete_elem K Icmpwhitelist (enc_ip_pair_key (sd_key h)) s2 = (d, s3)"
        by fastforce
      have "saw_live h (tr1 @ [Clocked now])" if "iw = Some v" "\<not> av_expire_time v < now" "av_allowed v = 1" for v
        using that saw by (intro saw_live_acl[where m = Icmpwhitelist and t = now and v = v])
          (auto simp: grants_def elim: saw_entry_mono)
      with sub show "follows (case iw of None \<Rightarrow> Some (Return XDP_DROP, s1)
          | Some v \<Rightarrow> (let (now, s2) = bpf_ktime_get_ns K s1 in
              if av_expire_time v < now then
                Some (Return XDP_DROP, snd (bpf_map_delete_elem K Icmpwhitelist (enc_ip_pair_key (sd_key h)) s2))
              else if av_allowed v = 1 then Some (Return XDP_PASS, s2) else Some (Continue (), s2))) tr1
        (case iw of None \<Rightarrow> Some (Return XDP_DROP, (s1, tr1))
          | Some v \<Rightarrow> (let (now, s2) = bpf_ktime_get_ns (recording K) (s1, tr1) in
              if av_expire_time v < now then
                Some (Return XDP_DROP, snd (bpf_map_delete_elem (recording K) Icmpwhitelist
                  (enc_ip_pair_key (sd_key h)) s2))
              else if av_allowed v = 1 then Some (Return XDP_PASS, s2) else Some (Continue (), s2)))
        (passes_live pkt h)"
        by (cases iw) (auto simp: t recording_steps(4)[OF t] d recording_steps(3)[OF d] follows_def)
    qed
  qed
qed

lemma accept_flow_recording:
  "\<exists>tr'. accept_flow (recording K) h e now (s, tr) = (accept_flow K h e now s, tr') \<and> set tr \<subseteq> set tr'"
proof -
  obtain r s1 tr1 where e: "submit_event K 1 h s = (r, s1)"
    "submit_event (recording K) 1 h (s, tr) = (r, (s1, tr1))" "set tr \<subseteq> set tr1"
    using submit_event_recording[of K 1 h s tr] by (elim exE conjE)
  obtain ts s2 where t: "bpf_ktime_get_ns K s1 = (ts, s2)" by fastforce
  obtain lts s3 where t': "bpf_ktime_get_ns K s2 = (lts, s3)" by fastforce
  show ?thesis
    using e(3)
    by (cases "bpf_map_update_elem K Conn_track (enc_ct_tuple (ct_key_of h))
        (enc_conn_value (new_conn ts lts (e - now))) BPF_ANY s3")
      (auto simp: accept_flow_def new_conn_def e(1,2) t recording_steps(4)[OF t] t' recording_steps(4)[OF t']
        recording_steps(2))
qed

text \<open>The value of a lookup, if any, was seen.\<close>

definition seen :: "bpf_map \<Rightarrow> ctype \<Rightarrow> byte list \<Rightarrow> acl_value option \<Rightarrow> observation list \<Rightarrow> bool" where
  "seen m t key val tr \<longleftrightarrow> (\<forall>v. val = Some v \<longrightarrow> saw_entry m t key v tr)"

lemma seen_mono: "seen m t key val tr \<Longrightarrow> set tr \<subseteq> set tr' \<Longrightarrow> seen m t key val tr'"
  unfolding seen_def by (blast intro: saw_entry_mono)

lemma acl_lookup_seen:
  "follows (acl_lookup K m t key s) tr (acl_lookup (recording K) m t key (s, tr)) (seen m t key)"
  unfolding seen_def by (rule acl_lookup_follows)

lemma acl_block_follows:
  assumes "(m, key) \<in> acl_keys h" and "seen m t key val tr" and "t = value_type m"
    and "Clocked now \<in> set tr"
  shows "follows (Some (acl_block K h now m key val s)) tr
     (Some (acl_block (recording K) h now m key val (s, tr))) (passes_live pkt h)"
proof (cases val)
  case None
  then show ?thesis by (simp add: acl_block_def follows_def)
next
  case (Some v)
  obtain d s1 where d: "bpf_map_delete_elem K m key s = (d, s1)" by fastforce
  obtain tr' where a: "accept_flow (recording K) h (av_expire_time v) now (s, tr) =
      (accept_flow K h (av_expire_time v) now s, tr')" "set tr \<subseteq> set tr'"
    using accept_flow_recording[of K h "av_expire_time v" now s tr] by (elim exE conjE)
  have saw: "saw_entry m (value_type m) key v tr" using assms(2,3) Some by (simp add: seen_def)
  consider "av_expire_time v < now" | "\<not> av_expire_time v < now" "av_allowed v \<noteq> 1"
    | "\<not> av_expire_time v < now" "av_allowed v = 1" by blast
  then show ?thesis
  proof cases
    case 1
    then show ?thesis by (simp add: Some acl_block_def d recording_steps(3)[OF d] follows_def)
  next
    case 2
    then show ?thesis by (simp add: Some acl_block_def follows_def)
  next
    case 3
    have "saw_live h tr'"
    proof (rule saw_live_acl)
      show "(m, key) \<in> insert (Icmpwhitelist, enc_ip_pair_key (sd_key h)) (acl_keys h)" using assms(1) by simp
      show "saw_entry m (value_type m) key v tr'" using saw a(2) by (rule saw_entry_mono)
      show "Clocked now \<in> set tr'" using assms(4) a(2) by blast
      show "grants now v" using 3 by (simp add: grants_def)
    qed
    then show ?thesis using 3 a by (simp add: Some acl_block_def follows_def)
  qed
qed

lemma allowlists_follow:
  assumes now: "Clocked now \<in> set tr"
  shows "follows (xdp_allowlists K h now s) tr (xdp_allowlists (recording K) h now (s, tr)) (passes_live pkt h)"
proof -
  have blocks: "follows (flow_bind (Some (acl_block K h now Spp (enc_whitelist_key (spp_key h)) v1 s)) (\<lambda>_ s.
       flow_bind (Some (acl_block K h now Sdwhitelist (enc_ip_pair_key (sd_key h)) v2 s)) (\<lambda>_ s.
       flow_bind (Some (acl_block K h now Src_port (enc_src_port_list_key (sp_key h)) v3 s)) (\<lambda>_ s.
       flow_bind (Some (acl_block K h now Port_list (enc_port_list_key (pl_key h)) v4 s)) (\<lambda>_ s.
       Some (acl_block K h now Protocol_port (enc_protocol_port_key (pp_key h)) v5 s)))))) tr
     (flow_bind (Some (acl_block (recording K) h now Spp (enc_whitelist_key (spp_key h)) v1 (s, tr))) (\<lambda>_ s.
       flow_bind (Some (acl_block (recording K) h now Sdwhitelist (enc_ip_pair_key (sd_key h)) v2 s)) (\<lambda>_ s.
       flow_bind (Some (acl_block (recording K) h now Src_port (enc_src_port_list_key (sp_key h)) v3 s)) (\<lambda>_ s.
       flow_bind (Some (acl_block (recording K) h now Port_list (enc_port_list_key (pl_key h)) v4 s)) (\<lambda>_ s.
       Some (acl_block (recording K) h now Protocol_port (enc_protocol_port_key (pp_key h)) v5 s))))))
     (passes_live pkt h)"
    if "Clocked now \<in> set tr"
      "seen Spp struct_whitelist_value (enc_whitelist_key (spp_key h)) v1 tr"
      "seen Sdwhitelist struct_sdwhitelist_value (enc_ip_pair_key (sd_key h)) v2 tr"
      "seen Src_port struct_src_port_list_value (enc_src_port_list_key (sp_key h)) v3 tr"
      "seen Port_list struct_port_list_value (enc_port_list_key (pl_key h)) v4 tr"
      "seen Protocol_port struct_protocol_port_value (enc_protocol_port_key (pp_key h)) v5 tr"
    for v1 v2 v3 v4 v5 s tr
    by (intro follows_flow[OF acl_block_follows[where pkt = pkt]] acl_block_follows[where pkt = pkt];
        insert that; (simp add: acl_keys_def passes_live_def; fail)?;
        blast intro: seen_mono subset_trans)
  show ?thesis
    unfolding xdp_allowlists_def acl_block_defs
    by (rule follows_bind[OF acl_lookup_seen])+
      (rule blocks; use now in \<open>blast intro: seen_mono subset_trans\<close>)
qed

lemma stages_follow:
  "follows (xdp_stages K pkt h s) tr (xdp_stages (recording K) pkt h (s, tr)) (passes_live pkt h)"
proof -
  obtain now s1 where t: "bpf_ktime_get_ns K s = (now, s1)" by fastforce
  have start: "set tr \<subseteq> set (tr @ [Clocked now])" by auto
  have deny: "follows (Some (Return XDP_DROP, snd (submit_event K 0 h s4)) :: (unit flow \<times> 'a) option) tr4
      (Some (Return XDP_DROP, snd (submit_event (recording K) 0 h (s4, tr4)))) (passes_live pkt h)" for s4 tr4
    using submit_event_recording[of K 0 h s4 tr4] by (auto simp: follows_def)
  have "follows (xdp_stages K pkt h s) (tr @ [Clocked now]) (xdp_stages (recording K) pkt h (s, tr))
      (passes_live pkt h)"
    unfolding xdp_stages_def
    by (simp only: t recording_steps(4)[OF t] Let_def prod.case)
      (intro follows_flow[OF icmp_follows] follows_flow[OF conntrack_follows]
        follows_flow[OF allowlists_follow] deny; auto simp: passes_live_def)
  with start show ?thesis
    by (auto simp: follows_def split: option.splits)
qed

lemma prog_follows:
  assumes "xdp_headers pkt = Some (Continue h)"
  shows "follows (xdp_white_prog K pkt s) tr (xdp_white_prog (recording K) pkt (s, tr))
     (\<lambda>a tr'. a = XDP_PASS \<longrightarrow> echo_reply pkt h \<or> saw_live h tr')"
  using stages_follow[of K pkt h s tr] assms
  by (auto simp: xdp_white_prog_def follows_def passes_live_def split: option.splits flow.splits)

end
