(* ===== verification/Concurrency_Properties.thy ===== *)
theory Concurrency_Properties
  imports Xdp_Concurrent Gateway_Properties
begin

text \<open>
  The filter under concurrency: what holds however the maps change between two of its helper
  calls, and what is lost when user space renews a grant at the wrong moment.
\<close>

text \<open>C4: Mediation without any assumption on the kernel: whatever other CPUs and user space do to the
  maps between the helper calls of a run, a packet beyond the header checks passes only as an echo
  reply, or after the run itself looked up an entry of the packet's own flow and read the clock at
  an instant that entry grants.\<close>

theorem concurrent_mediation:
  assumes "xdp_white_prog K pkt s = Some (XDP_PASS, s')" and "xdp_headers pkt = Some (Continue h)"
  shows "\<exists>tr. xdp_white_prog (recording K) pkt (s, []) = Some (XDP_PASS, (s', tr)) \<and>
     (echo_reply pkt h \<or> saw_live h tr)"
  using prog_follows[OF assms(2), of K s "[]"] assms(1) by (auto simp: follows_def)

theorem concurrent_mediation_witness:
  "\<exists>s' tr. xdp_white_prog (recording ref_kernel) udp_packet (granted_state, []) =
     Some (XDP_PASS, (s', tr)) \<and> saw_live udp_flow tr"
proof -
  obtain s' where "xdp_white_prog ref_kernel udp_packet granted_state = Some (XDP_PASS, s')"
    using granted_run by blast
  from concurrent_mediation[OF this udp_packet_headers] show ?thesis
    by (auto simp: echo_reply_def udp_flow_simps IPPROTO_ICMP_def)
qed

text \<open>
  A kernel where user space renews the full-flow grant of \<open>h\<close> while the filter is between its first
  and its last allow-list lookup.
\<close>

definition renewing :: "'s bpf_kernel \<Rightarrow> headers \<Rightarrow> acl_value \<Rightarrow> 's bpf_kernel" where
  "renewing K h fresh = K\<lparr>bpf_map_lookup_elem := (\<lambda>m k s.
     bpf_map_lookup_elem K m k (if m = Protocol_port then snd (bpf_map_update_elem K Spp
       (enc_whitelist_key (spp_key h)) (enc_whitelist_value fresh) BPF_ANY s) else s))\<rparr>"

lemma renewing_steps [simp]:
  "m \<noteq> Protocol_port \<Longrightarrow> bpf_map_lookup_elem (renewing K h fresh) m = bpf_map_lookup_elem K m"
  "bpf_map_lookup_elem (renewing K h fresh) Protocol_port k s = bpf_map_lookup_elem K Protocol_port k
     (snd (bpf_map_update_elem K Spp (enc_whitelist_key (spp_key h)) (enc_whitelist_value fresh) BPF_ANY s))"
  "bpf_map_update_elem (renewing K h fresh) = bpf_map_update_elem K"
  "bpf_map_delete_elem (renewing K h fresh) = bpf_map_delete_elem K"
  "bpf_ktime_get_ns (renewing K h fresh) = bpf_ktime_get_ns K"
  by (simp_all add: renewing_def fun_eq_iff)

lemma renewing_lookup:
  "m \<noteq> Protocol_port \<Longrightarrow> acl_lookup (renewing K h fresh) m t key s = acl_lookup K m t key s"
  "acl_lookup (renewing K h fresh) Protocol_port t key s = acl_lookup K Protocol_port t key
     (snd (bpf_map_update_elem K Spp (enc_whitelist_key (spp_key h)) (enc_whitelist_value fresh) BPF_ANY s))"
  by (simp_all add: acl_lookup_def)

lemma renewing_expiry: "check_conn_expiry (renewing K h fresh) = check_conn_expiry K"
  by (simp add: check_conn_expiry_def fun_eq_iff)

lemma renewing_ct_lookup: "ct_lookup (renewing K h fresh) bump key s = ct_lookup K bump key s"
  unfolding ct_lookup_def renewing_expiry renewing_steps(3-5) by simp

lemma renewing_conntrack: "xdp_conntrack (renewing K h fresh) h s = xdp_conntrack K h s"
  by (simp add: xdp_conntrack_def renewing_ct_lookup)

text \<open>C39: A renewal can be lost: when the full-flow grant has expired and user space renews it after the
  filter looked it up, the filter still drops the packet, and deletes the renewed entry with the
  old one: the key is gone although user space has just stored a fresh grant.\<close>

theorem renewal_lost:
  assumes "bpf_kernel_contract K contents clock events"
    and "xdp_headers pkt = Some (Continue h)" and "h_protocol h \<noteq> IPPROTO_ICMP"
    and "conn_entry (contents s) (ct_key_of h) = None"
    and "conn_entry (contents s) (reverseTuple (ct_key_of h)) = None"
    and "acl_entry (contents s) Spp struct_whitelist_value (enc_whitelist_key (spp_key h)) = Some v"
    and "av_expire_time v < clock s"
  shows "\<exists>s'. xdp_white_prog (renewing K h fresh) pkt s = Some (XDP_DROP, s') \<and>
     contents s' Spp (enc_whitelist_key (spp_key h)) = None"
proof -
  note con = assms(1)
  obtain now s1 where t: "bpf_ktime_get_ns K s = (now, s1)" "clock s \<le> now" "contents s1 = contents s"
    by (rule bpf_kernel_contract.ktime_obtain[OF con])
  obtain s2 where c: "xdp_conntrack K h s1 = Some (Continue (), s2)" "contents s2 = contents s"
    using bpf_kernel_contract.conntrack_stage[OF con, of h s1] assms(4,5) t(3)
    by (auto simp: conn_policy_def conn_policy1_def)
  have exp: "av_expire_time v < now" using assms(7) t(2) by (rule less_le_trans)
  have entry: "acl_entry (contents s2) Spp struct_whitelist_value (enc_whitelist_key (spp_key h)) = Some v"
    using assms(6) c(2) by simp
  show ?thesis
    using exp bpf_kernel_contract.delete_contents[OF con]
    by (simp add: xdp_white_prog_def assms(2) xdp_stages_def t(1) xdp_icmp_def assms(3) renewing_conntrack c(1)
        xdp_allowlists_def renewing_lookup acl_lookup_maps[OF con] entry acl_block_defs acl_block_def)
qed

theorem renewal_lost_witness:
  "\<exists>s'. xdp_white_prog (renewing ref_kernel udp_flow \<lparr>av_allowed = 1, av_expire_time = 9000\<rparr>) udp_packet
       expired_state = Some (XDP_DROP, s') \<and> ref_contents s' Spp (enc_whitelist_key (spp_key udp_flow)) = None"
  by (rule renewal_lost[OF rk.bpf_kernel_contract_axioms udp_packet_headers,
        where v = "\<lparr>av_allowed = 1, av_expire_time = 999\<rparr>"])
    (simp_all add: sample_contents acl_entry_def udp_flow_simps IPPROTO_ICMP_def)

end
