(* ===== verification/Ac_Rules.thy ===== *)
theory Ac_Rules
  imports Xdp_Outcomes "HOL-Library.Char_ord"
begin

text \<open>
  The writer of the allow-lists, \<^verbatim>\<open>nhp/utils/ebpf/ebpf.go\<close>: the access controller calls
  \<open>EbpfRuleAdd\<close>, which parses the rule, builds the key bytes and the value of the map it is for,
  and updates the pinned map. What it calls outside the repository is a parameter: opening and
  updating pinned maps (\<^verbatim>\<open>cilium/ebpf\<close>), the boot-time clock (\<^verbatim>\<open>x/sys/unix\<close>) and the parser of IP
  addresses. An \<^verbatim>\<open>error\<close> is \<open>Some\<close> of a reason, \<^verbatim>\<open>nil\<close> is \<^const>\<open>None\<close>. Values are marshalled field
  by field in the machine's byte order, as \<^verbatim>\<open>encoding/binary\<close> does.
\<close>

datatype go_error =
    ErrSyscall | ErrMap | ErrInvalidIP | ErrOnlyIPv4 | ErrRange | ErrSyntax
  | ErrUnsupportedProtocol string | ErrUnsupportedMapType int

record 's ac_env =
  LoadPinnedMap :: "string \<Rightarrow> 's \<Rightarrow> go_error + bpf_map"
  Map_Update :: "bpf_map \<Rightarrow> byte list \<Rightarrow> byte list \<Rightarrow> 's \<Rightarrow> go_error option \<times> 's"
  ClockGettime_BOOTTIME :: "'s \<Rightarrow> (64 word \<times> 64 word) option \<times> 's"
  ParseIP :: "string \<Rightarrow> byte list option"
  To4 :: "byte list \<Rightarrow> byte list option"

subsection \<open>Keys and values\<close>

record whitelistKey =
  wl_SrcIP :: "32 word"
  wl_DstIP :: "32 word"
  wl_DstPort :: "16 word"
  wl_Protocol :: "8 word"

record srcDestKey =
  sd_SrcIP :: "32 word"
  sd_DstIP :: "32 word"

record portListKey =
  pl_SrcIP :: "32 word"
  pl_DstPortStart :: "16 word"
  pl_DstPortEnd :: "16 word"

record srcIPdstPortKey =
  sp_SrcIP :: "32 word"
  sp_DstPort :: "16 word"

record procoPortKey =
  pp_DstPort :: "16 word"
  pp_Protocol :: "8 word"

record go_value =
  Allowed :: "8 word"
  ExpireTime :: "64 word"

text \<open>\<^verbatim>\<open>binary.LittleEndian.PutUint16\<close> and \<open>PutUint32\<close>, and \<^verbatim>\<open>binary.BigEndian.PutUint16\<close>.\<close>

definition LittleEndian_PutUint32 :: "32 word \<Rightarrow> byte list" where
  "LittleEndian_PutUint32 w = le_bytes 4 w"

definition LittleEndian_PutUint16 :: "16 word \<Rightarrow> byte list" where
  "LittleEndian_PutUint16 w = le_bytes 2 w"

definition BigEndian_PutUint16 :: "16 word \<Rightarrow> byte list" where
  "BigEndian_PutUint16 w = rev (le_bytes 2 w)"

lemmas put_defs = LittleEndian_PutUint32_def LittleEndian_PutUint16_def BigEndian_PutUint16_def

definition ToWlKey :: "whitelistKey \<Rightarrow> byte list" where
  "ToWlKey r = LittleEndian_PutUint32 (wl_SrcIP r) @ LittleEndian_PutUint32 (wl_DstIP r) @
     BigEndian_PutUint16 (wl_DstPort r) @ [wl_Protocol r]"

definition ToSdKey :: "srcDestKey \<Rightarrow> byte list" where
  "ToSdKey r = LittleEndian_PutUint32 (sd_SrcIP r) @ LittleEndian_PutUint32 (sd_DstIP r)"

definition ToPpKey :: "procoPortKey \<Rightarrow> byte list" where
  "ToPpKey r = LittleEndian_PutUint16 (pp_DstPort r) @ [pp_Protocol r]"

definition ToPlKey :: "portListKey \<Rightarrow> byte list" where
  "ToPlKey r = LittleEndian_PutUint32 (pl_SrcIP r) @ LittleEndian_PutUint16 (pl_DstPortStart r) @
     LittleEndian_PutUint16 (pl_DstPortEnd r)"

definition ToSpKey :: "srcIPdstPortKey \<Rightarrow> byte list" where
  "ToSpKey r = LittleEndian_PutUint32 (sp_SrcIP r) @ LittleEndian_PutUint16 (sp_DstPort r)"

lemmas to_key_defs = ToWlKey_def ToSdKey_def ToPpKey_def ToPlKey_def ToSpKey_def

text \<open>\<^verbatim>\<open>whitelistValue\<close> declares the seven padding bytes of the C structure, \<^verbatim>\<open>procoPortValue\<close> has none.\<close>

definition marshal_whitelistValue :: "go_value \<Rightarrow> byte list" where
  "marshal_whitelistValue v = [Allowed v] @ replicate 7 0 @ le_bytes 8 (ExpireTime v)"

definition marshal_procoPortValue :: "go_value \<Rightarrow> byte list" where
  "marshal_procoPortValue v = [Allowed v] @ le_bytes 8 (ExpireTime v)"

definition getBootTimeNanos :: "'s ac_env \<Rightarrow> 's \<Rightarrow> (64 word \<times> go_error option) \<times> 's" where
  "getBootTimeNanos E s = (case ClockGettime_BOOTTIME E s of
      (None, s') \<Rightarrow> ((0, Some ErrSyscall), s')
    | (Some (sec, nsec), s') \<Rightarrow> ((sec * 1000000000 + nsec, None), s'))"

text \<open>
  The five \<^verbatim>\<open>To..Value\<close> methods have the same body; a failing clock is ignored and counts as 0.
\<close>

definition ToValue :: "'s ac_env \<Rightarrow> 64 word \<Rightarrow> 's \<Rightarrow> go_value \<times> 's" where
  "ToValue E ttlSec s = (let ((now, _), s') = getBootTimeNanos E s
     in (\<lparr>Allowed = 1, ExpireTime = now + ttlSec * 1000000000\<rparr>, s'))"

subsection \<open>Updating a map\<close>

definition AddWhitelistRule where
  "AddWhitelistRule E whitelistMap rule ttlSec s =
     (let keyBytes = ToWlKey rule; (val, s1) = ToValue E ttlSec s
      in Map_Update E whitelistMap keyBytes (marshal_whitelistValue val) s1)"

definition AddSdWhitelistRule where
  "AddSdWhitelistRule E whitelistMap rule ttlSec s =
     (let keyBytes = ToSdKey rule; (val, s1) = ToValue E ttlSec s
      in Map_Update E whitelistMap keyBytes (marshal_whitelistValue val) s1)"

definition AddSdPortlistRule where
  "AddSdPortlistRule E whitelistMap rule ttlSec s =
     (let keyBytes = ToPlKey rule; (val, s1) = ToValue E ttlSec s
      in Map_Update E whitelistMap keyBytes (marshal_whitelistValue val) s1)"

definition AddPpWhitelistRule where
  "AddPpWhitelistRule E whitelistMap rule ttlSec s =
     (let keyBytes = ToPpKey rule; (val, s1) = ToValue E ttlSec s
      in Map_Update E whitelistMap keyBytes (marshal_procoPortValue val) s1)"

definition AddSrcipDestPortRule where
  "AddSrcipDestPortRule E whitelistMap rule ttlSec s =
     (let keyBytes = ToSpKey rule; (val, s1) = ToValue E ttlSec s
      in Map_Update E whitelistMap keyBytes (marshal_whitelistValue val) s1)"

lemmas add_rule_defs = AddWhitelistRule_def AddSdWhitelistRule_def AddSdPortlistRule_def
  AddPpWhitelistRule_def AddSrcipDestPortRule_def

subsection \<open>Parsing\<close>

definition parseIP :: "'s ac_env \<Rightarrow> string \<Rightarrow> go_error + 32 word" where
  "parseIP E ipStr = (case ParseIP E ipStr of
      None \<Rightarrow> Inl ErrInvalidIP
    | Some ip \<Rightarrow> (case To4 E ip of
         None \<Rightarrow> Inl ErrOnlyIPv4
       | Some ip4 \<Rightarrow> Inr (le_word (take 4 ip4))))"

definition safeIntToUint16 :: "int \<Rightarrow> go_error + 16 word" where
  "safeIntToUint16 i = (if i < 0 \<or> i > 65535 then Inl ErrRange else Inr (word_of_int i))"

text \<open>\<^verbatim>\<open>strconv.ParseUint(s, 10, 16)\<close>.\<close>

definition ParseUint16 :: "string \<Rightarrow> go_error + nat" where
  "ParseUint16 s =
     (if s = [] \<or> \<not> list_all is_digit s then Inl ErrSyntax
      else if parse_decimal s > 65535 then Inl ErrRange
      else Inr (parse_decimal s))"

definition parsePort :: "string \<Rightarrow> go_error + 16 word" where
  "parsePort portStr = (case ParseUint16 portStr of
      Inl err \<Rightarrow> Inl err
    | Inr port \<Rightarrow> Inr (le_word [word_of_nat (port div 256), word_of_nat (port mod 256)]))"

subsection \<open>Adding a rule to a pinned map\<close>

definition AddEbpfRuleForSrcDstPortProto ::
  "'s ac_env \<Rightarrow> string \<Rightarrow> string \<Rightarrow> 8 word \<Rightarrow> 16 word \<Rightarrow> 64 word \<Rightarrow> 's \<Rightarrow> go_error option \<times> 's" where
  "AddEbpfRuleForSrcDstPortProto E srcIPStr dstIPStr protocol dstPort ttlSec s =
     (case LoadPinnedMap E ''/sys/fs/bpf/spp'' s of
        Inl err \<Rightarrow> (Some err, s)
      | Inr whitelistMap \<Rightarrow> (case parseIP E srcIPStr of
          Inl err \<Rightarrow> (Some err, s)
        | Inr srcIP \<Rightarrow> (case parseIP E dstIPStr of
            Inl err \<Rightarrow> (Some err, s)
          | Inr dstIP \<Rightarrow> AddWhitelistRule E whitelistMap \<lparr>wl_SrcIP = srcIP, wl_DstIP = dstIP,
              wl_DstPort = dstPort, wl_Protocol = protocol\<rparr> ttlSec s)))"

definition AddEbpfRuleForSrcDst ::
  "'s ac_env \<Rightarrow> string \<Rightarrow> string \<Rightarrow> 64 word \<Rightarrow> 's \<Rightarrow> go_error option \<times> 's" where
  "AddEbpfRuleForSrcDst E srcIPStr dstIPStr ttlSec s =
     (case LoadPinnedMap E ''/sys/fs/bpf/sdwhitelist'' s of
        Inl err \<Rightarrow> (Some err, s)
      | Inr whitelistMap \<Rightarrow> (case parseIP E srcIPStr of
          Inl err \<Rightarrow> (Some err, s)
        | Inr srcIP \<Rightarrow> (case parseIP E dstIPStr of
            Inl err \<Rightarrow> (Some err, s)
          | Inr dstIP \<Rightarrow> AddSdWhitelistRule E whitelistMap \<lparr>sd_SrcIP = srcIP, sd_DstIP = dstIP\<rparr>
              ttlSec s)))"

definition AddEbpfRuleForSrcDestPort ::
  "'s ac_env \<Rightarrow> string \<Rightarrow> int \<Rightarrow> 64 word \<Rightarrow> 's \<Rightarrow> go_error option \<times> 's" where
  "AddEbpfRuleForSrcDestPort E srcIPStr dstPort ttlSec s =
     (case LoadPinnedMap E ''/sys/fs/bpf/src_port'' s of
        Inl err \<Rightarrow> (Some err, s)
      | Inr whitelistMap \<Rightarrow> (case parseIP E srcIPStr of
          Inl err \<Rightarrow> (Some err, s)
        | Inr srcIP \<Rightarrow> (case safeIntToUint16 dstPort of
            Inl err \<Rightarrow> (Some err, s)
          | Inr dstPortu \<Rightarrow> AddSrcipDestPortRule E whitelistMap
              \<lparr>sp_SrcIP = srcIP, sp_DstPort = dstPortu\<rparr> ttlSec s)))"

definition AddEbpfIcmpRuleForSrcDst ::
  "'s ac_env \<Rightarrow> string \<Rightarrow> string \<Rightarrow> 64 word \<Rightarrow> 's \<Rightarrow> go_error option \<times> 's" where
  "AddEbpfIcmpRuleForSrcDst E srcIPStr dstIPStr ttlSec s =
     (case LoadPinnedMap E ''/sys/fs/bpf/icmpwhitelist'' s of
        Inl err \<Rightarrow> (Some err, s)
      | Inr whitelistMap \<Rightarrow> (case parseIP E srcIPStr of
          Inl err \<Rightarrow> (Some err, s)
        | Inr srcIP \<Rightarrow> (case parseIP E dstIPStr of
            Inl err \<Rightarrow> (Some err, s)
          | Inr dstIP \<Rightarrow> AddSdWhitelistRule E whitelistMap \<lparr>sd_SrcIP = srcIP, sd_DstIP = dstIP\<rparr>
              ttlSec s)))"

definition AddEbpfRuleForSrcDestPortList ::
  "'s ac_env \<Rightarrow> string \<Rightarrow> int \<Rightarrow> int \<Rightarrow> 64 word \<Rightarrow> 's \<Rightarrow> go_error option \<times> 's" where
  "AddEbpfRuleForSrcDestPortList E srcIPStr dstPortStart dstPortEnd ttlSec s =
     (case LoadPinnedMap E ''/sys/fs/bpf/port_list'' s of
        Inl err \<Rightarrow> (Some err, s)
      | Inr portListMap \<Rightarrow> (case parseIP E srcIPStr of
          Inl err \<Rightarrow> (Some err, s)
        | Inr srcIP \<Rightarrow> (case safeIntToUint16 dstPortStart of
            Inl err \<Rightarrow> (Some err, s)
          | Inr portStart \<Rightarrow> (case safeIntToUint16 dstPortEnd of
              Inl err \<Rightarrow> (Some err, s)
            | Inr portEnd \<Rightarrow> AddSdPortlistRule E portListMap \<lparr>pl_SrcIP = srcIP,
                pl_DstPortStart = portStart, pl_DstPortEnd = portEnd\<rparr> ttlSec s))))"

definition AddEbpfRuleForProtocolPort ::
  "'s ac_env \<Rightarrow> 8 word \<Rightarrow> 16 word \<Rightarrow> 64 word \<Rightarrow> 's \<Rightarrow> go_error option \<times> 's" where
  "AddEbpfRuleForProtocolPort E protocol dstPort ttlSec s =
     (case parsePort (sprintf_d (unat dstPort)) of
        Inl err \<Rightarrow> (Some err, s)
      | Inr dstPortt \<Rightarrow> (case LoadPinnedMap E ''/sys/fs/bpf/protocol_port'' s of
          Inl err \<Rightarrow> (Some err, s)
        | Inr portListMap \<Rightarrow> AddPpWhitelistRule E portListMap
            \<lparr>pp_DstPort = dstPortt, pp_Protocol = protocol\<rparr> ttlSec s))"

lemmas add_ebpf_defs = AddEbpfRuleForSrcDstPortProto_def AddEbpfRuleForSrcDst_def
  AddEbpfRuleForSrcDestPort_def AddEbpfIcmpRuleForSrcDst_def AddEbpfRuleForSrcDestPortList_def
  AddEbpfRuleForProtocolPort_def

subsection \<open>The entry point\<close>

record EbpfRuleParams =
  SrcIP :: string
  DstIP :: string
  DstPort :: int
  DstPortStart :: int
  DstPortEnd :: int
  Protocol :: string

definition protocol_number :: "string \<Rightarrow> (8 word) option" where
  "protocol_number p =
     (if length p > 0 then
        (if p = ''tcp'' then Some 6
         else if p = ''udp'' then Some 17
         else if p = ''icmp'' then Some 1
         else None)
      else Some 0)"

definition EbpfRuleAdd ::
  "'s ac_env \<Rightarrow> int \<Rightarrow> EbpfRuleParams \<Rightarrow> int \<Rightarrow> 's \<Rightarrow> go_error option \<times> 's" where
  "EbpfRuleAdd E mapType params TtlSec s =
     (let TtlSec64 = word_of_int TtlSec in
      case protocol_number (Protocol params) of
        None \<Rightarrow> (Some (ErrUnsupportedProtocol (Protocol params)), s)
      | Some protocol \<Rightarrow>
          if mapType = 1 then
            AddEbpfRuleForSrcDstPortProto E (SrcIP params) (DstIP params) protocol
              (word_of_int (DstPort params)) TtlSec64 s
          else if mapType = 2 then
            AddEbpfRuleForSrcDst E (SrcIP params) (DstIP params) TtlSec64 s
          else if mapType = 3 then
            AddEbpfIcmpRuleForSrcDst E (SrcIP params) (DstIP params) TtlSec64 s
          else if mapType = 4 then
            AddEbpfRuleForSrcDestPort E (SrcIP params) (DstPort params) TtlSec64 s
          else if mapType = 5 then
            AddEbpfRuleForSrcDestPortList E (SrcIP params) (DstPortStart params)
              (DstPortEnd params) TtlSec64 s
          else if mapType = 6 then
            AddEbpfRuleForProtocolPort E protocol (word_of_int (DstPort params)) TtlSec64 s
          else (Some (ErrUnsupportedMapType mapType), s))"

subsection \<open>Decimal ports round-trip\<close>

lemma ParseUint16_sprintf: "n \<le> 65535 \<Longrightarrow> ParseUint16 (sprintf_d n) = Inr n"
  by (simp add: ParseUint16_def sprintf_d_digits parse_sprintf)

end
