(* ===== verification/Ac_Contract.thy ===== *)
theory Ac_Contract
  imports Ac_Rules Samples
begin

text \<open>
  What the writer of the rules relies on: the pinned maps open under their names, an update either
  stores the entry or leaves the maps alone, and succeeds for keys and values of the declared size,
  and the boot-time clock is not behind the filter's. The contract is met by an environment over the
  reference kernel.
\<close>

locale ac_contract = bpf_kernel_roomy K contents clock events
  for K :: "'s bpf_kernel" and contents clock events +
  fixes E :: "'s ac_env"
  assumes pinned: "m \<noteq> Events \<Longrightarrow> LoadPinnedMap E (''/sys/fs/bpf/'' @ map_name m) s = Inr m"
    and stored: "fst (Map_Update E m k v s) = None \<Longrightarrow>
      contents (snd (Map_Update E m k v s)) = (contents s)(m := (contents s m)(k := Some v))"
    and not_stored: "fst (Map_Update E m k v s) \<noteq> None \<Longrightarrow>
      contents (snd (Map_Update E m k v s)) = contents s"
    and accepts: "length k = key_size m \<Longrightarrow> length v = value_size m \<Longrightarrow>
      fst (Map_Update E m k v s) = None"
    and map_clock: "clock (snd (Map_Update E m k v s)) = clock s"
    and boottime_frame: "contents (snd (ClockGettime_BOOTTIME E s)) = contents s"
    and boottime: "\<exists>sec nsec. fst (ClockGettime_BOOTTIME E s) = Some (sec, nsec) \<and>
      clock s \<le> sec * 1000000000 + nsec \<and>
      clock (snd (ClockGettime_BOOTTIME E s)) \<le> sec * 1000000000 + nsec"
    and boottime_mono: "clock s \<le> clock (snd (ClockGettime_BOOTTIME E s))"
    and ParseIP_bytes: "ParseIP E ip' = Some b' \<Longrightarrow> b' \<noteq> []"
    and To4_length: "To4 E ip = Some b \<Longrightarrow> length b = 4"
begin

lemma pinned_paths:
  "LoadPinnedMap E ''/sys/fs/bpf/spp'' s = Inr Spp"
  "LoadPinnedMap E ''/sys/fs/bpf/sdwhitelist'' s = Inr Sdwhitelist"
  "LoadPinnedMap E ''/sys/fs/bpf/src_port'' s = Inr Src_port"
  "LoadPinnedMap E ''/sys/fs/bpf/icmpwhitelist'' s = Inr Icmpwhitelist"
  "LoadPinnedMap E ''/sys/fs/bpf/port_list'' s = Inr Port_list"
  "LoadPinnedMap E ''/sys/fs/bpf/protocol_port'' s = Inr Protocol_port"
  using pinned[of Spp s] pinned[of Sdwhitelist s] pinned[of Src_port s] pinned[of Icmpwhitelist s]
    pinned[of Port_list s] pinned[of Protocol_port s] by simp_all

lemma ToValue_stage:
  "\<exists>now s'. ToValue E ttl s = (\<lparr>Allowed = 1, ExpireTime = now + ttl * 1000000000\<rparr>, s') \<and>
     fst (getBootTimeNanos E s) = (now, None) \<and>
     contents s' = contents s \<and> clock s \<le> now \<and> clock s' \<le> now \<and> clock s \<le> clock s'"
proof -
  obtain sec nsec s' where b: "ClockGettime_BOOTTIME E s = (Some (sec, nsec), s')"
    "clock s \<le> sec * 1000000000 + nsec" "clock s' \<le> sec * 1000000000 + nsec"
    using boottime[of s] by (cases "ClockGettime_BOOTTIME E s") auto
  have "contents s' = contents s" "clock s \<le> clock s'"
    using boottime_frame[of s] boottime_mono[of s] b(1) by simp_all
  with b show ?thesis by (simp add: ToValue_def getBootTimeNanos_def)
qed

text \<open>One update: the entry is stored, or an error is reported and nothing is.\<close>

definition one_entry :: "'s \<Rightarrow> bpf_map \<Rightarrow> byte list \<Rightarrow> byte list \<Rightarrow> go_error option \<times> 's \<Rightarrow> bool" where
  "one_entry s m k v r \<longleftrightarrow> fst r = None \<and>
     contents (snd r) = (contents s)(m := (contents s m)(k := Some v))"

lemma update_one_entry:
  assumes "length k = key_size m" "length v = value_size m" "contents s1 = contents s"
  shows "one_entry s m k v (Map_Update E m k v s1)"
  using accepts[OF assms(1,2)] stored[OF accepts[OF assms(1,2)]] assms(3) by (simp add: one_entry_def)

lemma add_rule_stage:
  assumes "length key = key_size m" "\<And>v. length (marshal v) = value_size m"
  shows "\<exists>now. fst (getBootTimeNanos E s) = (now, None) \<and> clock s \<le> now \<and> one_entry s m key
     (marshal \<lparr>Allowed = 1, ExpireTime = now + ttl * 1000000000\<rparr>)
     (let (val, s1) = ToValue E ttl s in Map_Update E m key (marshal val) s1) \<and>
     clock (snd (let (val, s1) = ToValue E ttl s in Map_Update E m key (marshal val) s1)) \<le> now \<and>
     clock s \<le> clock (snd (let (val, s1) = ToValue E ttl s in Map_Update E m key (marshal val) s1))"
proof -
  obtain now s' where t: "ToValue E ttl s = (\<lparr>Allowed = 1, ExpireTime = now + ttl * 1000000000\<rparr>, s')"
    "fst (getBootTimeNanos E s) = (now, None)"
    "contents s' = contents s" "clock s \<le> now" "clock s' \<le> now" "clock s \<le> clock s'"
    using ToValue_stage by blast
  show ?thesis
    using t update_one_entry[OF assms t(3)] by (intro exI[of _ now]) (simp add: map_clock)
qed

end

subsection \<open>An environment over the reference kernel\<close>

definition ref_update_env :: "bpf_map \<Rightarrow> byte list \<Rightarrow> byte list \<Rightarrow> ref_state \<Rightarrow> go_error option \<times> ref_state" where
  "ref_update_env m k v s = (let (r, s') = ref_update m k v BPF_ANY s
     in (if r = 0 then None else Some ErrMap, s'))"

definition ref_ParseIP :: "string \<Rightarrow> byte list option" where
  "ref_ParseIP s = (if s = ''10.0.0.1'' then Some [10, 0, 0, 1]
     else if s = ''10.0.0.2'' then Some [10, 0, 0, 2] else None)"

definition ref_load_pinned :: "string \<Rightarrow> ref_state \<Rightarrow> go_error + bpf_map" where
  "ref_load_pinned path s =
     (case find (\<lambda>m. path = ''/sys/fs/bpf/'' @ map_name m)
        [Spp, Src_port, Icmpwhitelist, Sdwhitelist, Port_list, Protocol_port, Conn_track] of
        None \<Rightarrow> Inl ErrMap | Some m \<Rightarrow> Inr m)"

definition ref_env :: "ref_state ac_env" where
  "ref_env = \<lparr>LoadPinnedMap = ref_load_pinned, Map_Update = ref_update_env,
     ClockGettime_BOOTTIME = (\<lambda>s. (Some (0, rs_clock s), s)), ParseIP = ref_ParseIP,
     To4 = (\<lambda>ip. if length ip = 4 then Some ip else None)\<rparr>"

interpretation ref_ac: ac_contract ref_kernel ref_contents rs_clock rs_events ref_env
proof unfold_locales
  fix m s assume "m \<noteq> Events"
  then show "LoadPinnedMap ref_env (''/sys/fs/bpf/'' @ map_name m) s = Inr m"
    by (cases m) (simp_all add: ref_env_def ref_load_pinned_def)
qed (auto simp: ref_env_def ref_ParseIP_def ref_update_env_def ref_update_def ref_contents_def BPF_ANY_def
    BPF_EXIST_def fun_eq_iff split: if_splits option.splits)

end
