(* ===== verification/Ac_Properties.thy ===== *)
theory Ac_Properties
  imports Ac_Contract
begin

text \<open>
  The writer and the reader of the allow-lists together: which packets the filter matches with a
  rule the access controller wrote.
\<close>

lemma put_bytes: "[b] = le_bytes (Suc 0) (b :: byte)"
  by (simp add: le_bytes_eval)

lemma BigEndian_bswap: "BigEndian_PutUint16 w = le_bytes 2 (bswap16 w)"
  by (simp add: BigEndian_PutUint16_def le_bytes_bswap16)

lemma writer_key_encodings:
  "ToWlKey r = enc_whitelist_key \<lparr>wk_src_ip = wl_SrcIP r, wk_dst_ip = wl_DstIP r,
     wk_dst_port = bswap16 (wl_DstPort r), wk_protocol = wl_Protocol r\<rparr>"
  "ToSdKey d = enc_ip_pair_key \<lparr>ik_src_ip = sd_SrcIP d, ik_dst_ip = sd_DstIP d\<rparr>"
  "ToPpKey p = enc_protocol_port_key \<lparr>pk_dst_port = pp_DstPort p, pk_protocol = pp_Protocol p\<rparr>"
  "ToPlKey l = enc_port_list_key \<lparr>lk_src_ip = pl_SrcIP l, lk_min_port = pl_DstPortStart l,
     lk_max_port = pl_DstPortEnd l\<rparr>"
  "ToSpKey q = enc_src_port_list_key \<lparr>sk_src_ip = sp_SrcIP q, sk_dst_port = sp_DstPort q\<rparr>"
  by (simp_all add: to_key_defs BigEndian_bswap put_bytes LittleEndian_PutUint32_def
      LittleEndian_PutUint16_def enc_key_defs)

lemma marshal_encodings:
  "marshal_whitelistValue v = enc_whitelist_value \<lparr>av_allowed = Allowed v, av_expire_time = ExpireTime v\<rparr>"
  "marshal_procoPortValue v =
     enc_protocol_port_value \<lparr>av_allowed = Allowed v, av_expire_time = ExpireTime v\<rparr>"
  by (simp_all add: marshal_whitelistValue_def marshal_procoPortValue_def enc_whitelist_value_def
      enc_protocol_port_value_def put_bytes)

lemma parsePort_sprintf: "parsePort (sprintf_d (unat p)) = Inr (bswap16 p)"
proof -
  have "unat p < 2 ^ LENGTH(16)" by (rule unsigned_less)
  then have "unat p \<le> 65535" by simp
  moreover have "unat p div 256 = drop_bit 8 (unat p)" "unat p mod 256 = take_bit 8 (unat p)"
    by (simp_all add: drop_bit_eq_div take_bit_eq_mod)
  then have "word_of_nat (unat p div 256) = (ucast (drop_bit 8 p) :: byte)"
    "word_of_nat (unat p mod 256) = (ucast p :: byte)"
    by (auto intro!: bit_word_eqI simp: bit_simps)
  moreover have "le_bytes 2 (bswap16 p) = [ucast (drop_bit 8 p), ucast p]"
    unfolding le_bytes_bswap16 by (simp add: le_bytes_eval)
  then have "le_word [ucast (drop_bit 8 p), ucast p] = bswap16 p" by (metis le_word_bytes(3))
  ultimately show ?thesis
    by (simp add: parsePort_def ParseUint16_sprintf del: le_word.simps)
qed

text \<open>C35: Rules for a protocol and port, for an address pair and for a full flow name the packets they
  mean: the key the writer builds is the key under which the filter looks a packet up exactly when
  the addresses, the protocol and the destination port, as a number, are those of the rule.\<close>

theorem rule_keys_match:
  "(ToWlKey r = enc_whitelist_key (spp_key h) \<longleftrightarrow>
      wl_SrcIP r = h_saddr h \<and> wl_DstIP r = h_daddr h \<and> wl_DstPort r = bswap16 (h_dport h) \<and>
      wl_Protocol r = h_protocol h) \<and>
   (ToSdKey d = enc_ip_pair_key (sd_key h) \<longleftrightarrow> sd_SrcIP d = h_saddr h \<and> sd_DstIP d = h_daddr h) \<and>
   (\<exists>q. parsePort (sprintf_d (unat port)) = Inr q \<and>
      (ToPpKey \<lparr>pp_DstPort = q, pp_Protocol = proto\<rparr> = enc_protocol_port_key (pp_key h) \<longleftrightarrow>
       port = bswap16 (h_dport h) \<and> proto = h_protocol h))"
proof (intro conjI exI[of _ "bswap16 port"])
  show "parsePort (sprintf_d (unat port)) = Inr (bswap16 port)" by (rule parsePort_sprintf)
qed (auto simp: writer_key_encodings spp_key_def sd_key_def pp_key_def bswap16_eq_iff)

text \<open>A source-and-port rule opens another port: the writer stores the port in host byte order and the
  filter looks it up in network byte order, so the entry for port \<open>p\<close> admits the packets whose
  destination port is \<open>p\<close> with its two bytes swapped.\<close>

lemma src_port_rule_swapped:
  "ToSpKey \<lparr>sp_SrcIP = ip, sp_DstPort = p\<rparr> = enc_src_port_list_key (sp_key h) \<longleftrightarrow>
     ip = h_saddr h \<and> bswap16 (h_dport h) = bswap16 p"
  by (auto simp: writer_key_encodings sp_key_def)

text \<open>A port-range rule admits nothing: the key of the range from \<open>a\<close> to \<open>b\<close> is the one the filter
  looks up only for \<open>a = 0\<close> and \<open>b = 65535\<close>, and the access controller writes 1 to 65535 for all
  ports.\<close>

lemma port_list_rule_key:
  "(ToPlKey \<lparr>pl_SrcIP = ip, pl_DstPortStart = a, pl_DstPortEnd = b\<rparr> = enc_port_list_key (pl_key h) \<longleftrightarrow>
     ip = h_saddr h \<and> a = 0 \<and> b = 65535) \<and>
   ToPlKey \<lparr>pl_SrcIP = ip, pl_DstPortStart = 1, pl_DstPortEnd = 65535\<rparr> \<noteq> enc_port_list_key (pl_key h)"
  by (auto simp: writer_key_encodings pl_key_def port_const_defs)

subsection \<open>Adding a rule\<close>

text \<open>Every rule that is accepted writes one entry into one allow-list; a refused one writes nothing.\<close>

definition rule_stored :: "'s ac_env \<Rightarrow> ('s \<Rightarrow> maps) \<Rightarrow> ('s \<Rightarrow> 64 word) \<Rightarrow> 's \<Rightarrow> bpf_map \<Rightarrow> byte list \<Rightarrow> 64 word \<Rightarrow>
    go_error option \<times> 's \<Rightarrow> bool" where
  "rule_stored E contents clock s m k ttl r \<longleftrightarrow>
     (\<exists>now. fst (getBootTimeNanos E s) = (now, None) \<and>
        clock s \<le> now \<and> clock (snd r) \<le> now \<and> clock s \<le> clock (snd r) \<and> fst r = None \<and>
        contents (snd r) = (contents s)(m := (contents s m)(k := Some
          ((if m = Protocol_port then enc_protocol_port_value else enc_whitelist_value)
            \<lparr>av_allowed = 1, av_expire_time = now + ttl * 1000000000\<rparr>))))"

text \<open>The rules that are accepted, and the map each map type writes.\<close>

definition rule_valid :: "'s ac_env \<Rightarrow> int \<Rightarrow> EbpfRuleParams \<Rightarrow> bool" where
  "rule_valid E mapType p \<longleftrightarrow> protocol_number (Protocol p) \<noteq> None \<and> mapType \<in> {1..6} \<and>
     (mapType \<in> {1..5} \<longrightarrow> (\<exists>ip. parseIP E (SrcIP p) = Inr ip)) \<and>
     (mapType \<in> {1..3} \<longrightarrow> (\<exists>ip. parseIP E (DstIP p) = Inr ip)) \<and>
     (mapType = 4 \<longrightarrow> DstPort p \<in> {0..65535}) \<and>
     (mapType = 5 \<longrightarrow> DstPortStart p \<in> {0..65535} \<and> DstPortEnd p \<in> {0..65535})"

definition rule_map :: "int \<Rightarrow> bpf_map" where
  "rule_map mapType = (if mapType = 1 then Spp else if mapType = 2 then Sdwhitelist
     else if mapType = 3 then Icmpwhitelist else if mapType = 4 then Src_port
     else if mapType = 5 then Port_list else Protocol_port)"

lemma map_types: "mapType \<in> {1..6} \<longleftrightarrow> mapType \<in> {1, 2, 3, 4, 5, 6 :: int}"
  by auto

context ac_contract
begin

lemmas add_rule = add_rule_stage[where marshal = marshal_whitelistValue]
  add_rule_stage[where marshal = marshal_procoPortValue]

lemma marshal_sizes: "length (marshal_whitelistValue v) = 16" "length (marshal_procoPortValue v) = 9"
  by (simp_all add: marshal_encodings)

lemma to_key_sizes: "length (ToWlKey r) = 11" "length (ToSdKey d) = 8" "length (ToPpKey p) = 3"
  "length (ToPlKey l) = 8" "length (ToSpKey q) = 6"
  by (simp_all add: writer_key_encodings)

lemma add_rules_stored:
  "rule_stored E contents clock s Spp (ToWlKey r) ttl (AddWhitelistRule E Spp r ttl s)"
  "rule_stored E contents clock s Sdwhitelist (ToSdKey d) ttl (AddSdWhitelistRule E Sdwhitelist d ttl s)"
  "rule_stored E contents clock s Icmpwhitelist (ToSdKey d) ttl (AddSdWhitelistRule E Icmpwhitelist d ttl s)"
  "rule_stored E contents clock s Port_list (ToPlKey l) ttl (AddSdPortlistRule E Port_list l ttl s)"
  "rule_stored E contents clock s Protocol_port (ToPpKey p) ttl (AddPpWhitelistRule E Protocol_port p ttl s)"
  "rule_stored E contents clock s Src_port (ToSpKey q) ttl (AddSrcipDestPortRule E Src_port q ttl s)"
  using add_rule(1)[of "ToWlKey r" Spp s ttl] add_rule(1)[of "ToSdKey d" Sdwhitelist s ttl]
    add_rule(1)[of "ToSdKey d" Icmpwhitelist s ttl] add_rule(1)[of "ToPlKey l" Port_list s ttl]
    add_rule(2)[of "ToPpKey p" Protocol_port s ttl] add_rule(1)[of "ToSpKey q" Src_port s ttl]
  by (auto simp: rule_stored_def add_rule_defs one_entry_def to_key_sizes marshal_sizes
      marshal_encodings Let_def)

lemma safeIntToUint16_cases:
  "safeIntToUint16 i = (if i \<in> {0..65535} then Inr (word_of_int i) else Inl ErrRange)"
  by (auto simp: safeIntToUint16_def)

lemma rule_accepted:
  assumes "rule_valid E mapType p"
  shows "\<exists>key. rule_stored E contents clock s (rule_map mapType) key (word_of_int ttl)
    (EbpfRuleAdd E mapType p ttl s)"
proof -
  obtain pr where pr: "protocol_number (Protocol p) = Some pr" using assms by (auto simp: rule_valid_def)
  have "mapType \<in> {1, 2, 3, 4, 5, 6}" using assms map_types unfolding rule_valid_def by blast
  then show ?thesis
    using assms pr add_rules_stored
    by (elim insertE emptyE; fastforce simp: rule_valid_def EbpfRuleAdd_def add_ebpf_defs
        pinned_paths rule_map_def safeIntToUint16_cases parsePort_sprintf)
qed

lemma rule_refused:
  assumes "\<not> rule_valid E mapType p"
  shows "\<exists>err. EbpfRuleAdd E mapType p ttl s = (Some err, s)"
proof (cases "protocol_number (Protocol p)")
  case None
  then show ?thesis by (simp add: EbpfRuleAdd_def)
next
  case (Some pr)
  show ?thesis
  proof (cases "mapType \<in> {1, 2, 3, 4, 5, 6}")
    case False
    then show ?thesis using Some by (simp add: EbpfRuleAdd_def)
  next
    case True
    then show ?thesis
      using assms Some
      by (elim insertE emptyE; cases "parseIP E (SrcIP p)"; cases "parseIP E (DstIP p)";
          auto simp: rule_valid_def EbpfRuleAdd_def add_ebpf_defs pinned_paths safeIntToUint16_cases)
  qed
qed

end

text \<open>A rule that is well formed is stored as one live entry of the map its type names, for at least
  its time to live, and nothing else changes; any other rule (unknown protocol or map type, an
  address that is not IPv4, a port out of range) is refused with an error and changes nothing.\<close>

lemma ebpf_rule_add:
  assumes "ac_contract K contents clock events E"
  shows "if rule_valid E mapType p
     then \<exists>key. rule_stored E contents clock s (rule_map mapType) key (word_of_int ttl)
        (EbpfRuleAdd E mapType p ttl s)
     else \<exists>err. EbpfRuleAdd E mapType p ttl s = (Some err, s)"
  using ac_contract.rule_accepted[OF assms] ac_contract.rule_refused[OF assms] by simp

definition sample_rule :: EbpfRuleParams where
  "sample_rule = \<lparr>SrcIP = ''10.0.0.1'', DstIP = ''10.0.0.2'', DstPort = 8080, DstPortStart = 0,
     DstPortEnd = 0, Protocol = ''udp''\<rparr>"

lemma unat_ttl:
  assumes "0 \<le> ttl" "unat now + nat ttl * 1000000000 < 2 ^ 64"
  shows "unat (now + word_of_int ttl * 1000000000 :: 64 word) = unat now + nat ttl * 1000000000"
proof -
  have small: "unat (word_of_nat n :: 64 word) = n" if "n < 2 ^ 64" for n
    using that by (simp add: unsigned_of_nat take_bit_nat_eq_self)
  have "word_of_int ttl * 1000000000 = (word_of_nat (nat ttl * 1000000000) :: 64 word)"
    using assms(1) by simp
  then have "unat (word_of_int ttl * 1000000000 :: 64 word) = nat ttl * 1000000000"
    using small[of "nat ttl * 1000000000"] assms(2) by simp
  then show ?thesis using assms(2) by (simp add: unat_word_ariths)
qed

text \<open>C12: Knocking opens the door: after a full-flow rule was added, a packet of that flow, which is not ICMP,
  (same addresses, protocol and destination port number) that arrives while the maps are as the rule
  left them and the flow is tracked in neither direction passes the filter until the time to live,
  counted from the clock reading of the writer and within 64 bits, has gone by. A tracked connection
  decides before the rule does. The key bytes the Go code writes are those the C code looks up, and
  so are the value bytes.\<close>

theorem knock_opens_flow:
  assumes "ac_contract K contents clock events E"
    and "EbpfRuleAdd E 1 p ttl s = (err, s1)"
    and "protocol_number (Protocol p) = Some (h_protocol h)"
    and "parseIP E (SrcIP p) = Inr (h_saddr h)" and "parseIP E (DstIP p) = Inr (h_daddr h)"
    and "word_of_int (DstPort p) = bswap16 (h_dport h)"
    and "contents s2 = contents s1"
    and "xdp_headers pkt = Some (Continue h)" and "h_protocol h \<noteq> IPPROTO_ICMP"
    and "conn_entry (contents s2) (ct_key_of h) = None"
    and "conn_entry (contents s2) (reverseTuple (ct_key_of h)) = None"
    and "xdp_white_prog K pkt s2 = Some (a, s3)"
    and "0 \<le> ttl" and "fst (getBootTimeNanos E s) = (now, None)"
    and "unat now + nat ttl * 1000000000 < 2 ^ 64"
    and "unat (clock s3) \<le> unat now + nat ttl * 1000000000"
  shows "err = None \<and> a = XDP_PASS"
proof -
  note con = bpf_kernel_roomy.axioms(1)[OF ac_contract.axioms(1)[OF assms(1)]]
  let ?r = "\<lparr>wl_SrcIP = h_saddr h, wl_DstIP = h_daddr h, wl_DstPort = bswap16 (h_dport h),
      wl_Protocol = h_protocol h\<rparr>"
  have add: "EbpfRuleAdd E 1 p ttl s = AddWhitelistRule E Spp ?r (word_of_int ttl) s"
    using assms(3-6) by (simp add: EbpfRuleAdd_def AddEbpfRuleForSrcDstPortProto_def
        ac_contract.pinned_paths[OF assms(1)])
  have key: "ToWlKey ?r = enc_whitelist_key (spp_key h)"
    by (simp add: writer_key_encodings spp_key_def)
  from ac_contract.add_rules_stored(1)[OF assms(1), of s ?r "word_of_int ttl"]
  have st: "err = None"
    "contents s1 = (contents s)(Spp := (contents s Spp)(enc_whitelist_key (spp_key h) := Some
       (enc_whitelist_value \<lparr>av_allowed = 1, av_expire_time = now + word_of_int ttl * 1000000000\<rparr>)))"
    unfolding rule_stored_def add[symmetric] assms(2) key using assms(14) by auto
  let ?v = "\<lparr>av_allowed = 1, av_expire_time = now + word_of_int ttl * 1000000000\<rparr>"
  have "acl_entry (contents s2) Spp struct_whitelist_value (enc_whitelist_key (spp_key h)) = Some ?v"
    unfolding assms(7) st(2) by (simp add: acl_entry_def)
  then obtain rest where slots: "acl_slots (contents s2) h =
      [] @ (Spp, enc_whitelist_key (spp_key h), Some ?v) # rest"
    by (simp add: acl_slots_def)
  have "a = XDP_PASS"
  proof (rule bpf_kernel_contract.xdp_first_slot_passes[OF con assms(12,8,9,10,11) slots])
    show "grants (clock s3) ?v"
      using assms(16) unat_ttl[OF assms(13,15)] by (simp add: grants_def word_le_nat_alt)
  qed simp
  with st(1) show ?thesis by blast
qed

text \<open>10.0.0.1 knocks and sends \<open>udp_packet\<close> to port 8080 of 10.0.0.2.\<close>

definition knocked_state :: ref_state where
  "knocked_state = with_entry Spp (enc_whitelist_key (spp_key udp_flow))
    (enc_whitelist_value \<lparr>av_allowed = 1, av_expire_time = 60000001000\<rparr>) empty_state"

lemma knocked_facts:
  "ref_contents knocked_state = (\<lambda>_ _. None)(Spp := (\<lambda>_. None)(enc_whitelist_key (spp_key udp_flow) \<mapsto>
     enc_whitelist_value \<lparr>av_allowed = 1, av_expire_time = 60000001000\<rparr>))"
  "rs_clock knocked_state = 1000" "rs_tick knocked_state = 1" "rs_events knocked_state = []"
  by (simp_all add: knocked_state_def)

lemma sample_ips:
  "parseIP ref_env ''10.0.0.1'' = Inr 0x0100000A" "parseIP ref_env ''10.0.0.2'' = Inr 0x0200000A"
  by code_simp+

lemma knock_run: "EbpfRuleAdd ref_env 1 sample_rule 60 empty_state = (None, knocked_state)"
proof -
  have key: "ToWlKey \<lparr>wl_SrcIP = 0x0100000A, wl_DstIP = 0x0200000A, wl_DstPort = 8080,
      wl_Protocol = 17\<rparr> = enc_whitelist_key (spp_key udp_flow)"
    by code_simp
  show ?thesis
    by (simp add: EbpfRuleAdd_def sample_rule_def protocol_number_def AddEbpfRuleForSrcDstPortProto_def
        ref_ac.pinned_paths sample_ips AddWhitelistRule_def key ToValue_def getBootTimeNanos_def Let_def
        marshal_encodings)
      (simp add: ref_env_def ref_update_env_def ref_update_def BPF_ANY_def BPF_EXIST_def with_entry_def
        knocked_state_def)
qed

lemma ref_boot: "fst (getBootTimeNanos ref_env st) = (rs_clock st, None)"
  by (simp add: getBootTimeNanos_def ref_env_def)

lemma knocked_packet_run:
  "\<exists>a s'. xdp_white_prog ref_kernel udp_packet knocked_state = Some (a, s') \<and> rs_clock s' = 1004"
  by (simp add: run_ref udp_packet_headers udp_flow_simps IPPROTO_ICMP_def knocked_facts)

theorem knock_opens_flow_witness:
  "\<exists>s'. xdp_white_prog ref_kernel udp_packet knocked_state = Some (XDP_PASS, s')"
proof -
  obtain a s' where r: "xdp_white_prog ref_kernel udp_packet knocked_state = Some (a, s')"
    and c: "rs_clock s' = 1004" using knocked_packet_run by blast
  have port: "word_of_int (DstPort sample_rule) = bswap16 (h_dport udp_flow)"
    by code_simp
  have "None = (None :: go_error option) \<and> a = XDP_PASS"
    by (rule knock_opens_flow[OF ref_ac.ac_contract_axioms knock_run _ _ _ port refl udp_packet_headers
          _ _ _ r, where now = 1000])
      (simp_all add: knocked_facts c udp_flow_def sample_rule_def protocol_number_def sample_ips
        IPPROTO_ICMP_def ref_boot)
  with r show ?thesis by simp
qed

end
