(* ===== verification/Event_Log.thy ===== *)
theory Event_Log
  imports Ac_Rules
begin

text \<open>
  The reader of the event records, the perf-buffer loop of
  \<^verbatim>\<open>endpoints/ac/ebpf/ebpfegine.go\<close>: it slices the raw sample at fixed offsets and formats a log
  line. Slicing past the end panics, which is \<^const>\<open>None\<close>. The text of the wall-clock time of an
  event, \<^verbatim>\<open>bootTime.Add(..).Format(..)\<close>, is the parameter \<open>eventTime\<close>; the reading of the perf
  buffer and the loggers are outside.
\<close>

definition slice :: "byte list \<Rightarrow> nat \<Rightarrow> nat \<Rightarrow> byte list option" where
  "slice bs i j = (if i \<le> j \<and> j \<le> length bs then Some (take (j - i) (drop i bs)) else None)"

definition index :: "byte list \<Rightarrow> nat \<Rightarrow> byte option" where
  "index bs i = (if i < length bs then Some (bs ! i) else None)"

definition LittleEndian_Uint64 :: "byte list \<Rightarrow> 64 word" where
  "LittleEndian_Uint64 bs = le_word bs"

definition BigEndian_Uint32 :: "byte list \<Rightarrow> 32 word" where
  "BigEndian_Uint32 bs = le_word (rev bs)"

definition BigEndian_Uint16 :: "byte list \<Rightarrow> 16 word" where
  "BigEndian_Uint16 bs = le_word (rev bs)"

datatype logger = DenyLogger | AcLogger

definition action_string :: "8 word \<Rightarrow> string" where
  "action_string action =
     (if action = 0 then ''DENY'' else if action = 1 then ''ACCEPT'' else ''UNKNOWN'')"

definition protoToString :: "8 word \<Rightarrow> string" where
  "protoToString proto =
     (if proto = 6 then ''TCP'' else if proto = 17 then ''UDP'' else if proto = 1 then ''ICMP''
      else if proto = 2 then ''IGMP'' else if proto = 41 then ''IPv6'' else if proto = 47 then ''GRE''
      else if proto = 50 then ''ESP'' else if proto = 51 then ''AH''
      else if proto = 88 then ''EIGRP'' else if proto = 89 then ''OSPF'' else if proto = 112 then ''VRRP''
      else ''PROTO-'' @ sprintf_d (unat proto))"

definition uint32ToIPv4 :: "32 word \<Rightarrow> string" where
  "uint32ToIPv4 ip =
     sprintf_d (unat (drop_bit 24 ip AND 0xff)) @ ''.'' @ sprintf_d (unat (drop_bit 16 ip AND 0xff)) @
     ''.'' @ sprintf_d (unat (drop_bit 8 ip AND 0xff)) @ ''.'' @ sprintf_d (unat (ip AND 0xff))"

definition read_event :: "(64 word \<Rightarrow> string) \<Rightarrow> string \<Rightarrow> byte list \<Rightarrow> (logger \<times> string) option" where
  "read_event eventTime acId raw = do {
     action \<leftarrow> index raw 8;
     timestamp \<leftarrow> slice raw 0 8;
     srcIP \<leftarrow> slice raw 9 13;
     dstIP \<leftarrow> slice raw 13 17;
     srcPort \<leftarrow> slice raw 17 19;
     dstPort \<leftarrow> slice raw 19 21;
     protocol \<leftarrow> index raw 21;
     payloadLen \<leftarrow> slice raw 22 24;
     let logMsg = eventTime (LittleEndian_Uint64 timestamp) @ '' '' @ acId @ '' [NHP-'' @ action_string action @
       ''] SRC='' @ uint32ToIPv4 (BigEndian_Uint32 srcIP) @ '' DST='' @ uint32ToIPv4 (BigEndian_Uint32 dstIP) @
       '' LEN='' @ sprintf_d (unat (BigEndian_Uint16 payloadLen)) @ '' PROTO='' @ protoToString protocol @
       '' SPT='' @ sprintf_d (unat (BigEndian_Uint16 srcPort)) @
       '' DPT='' @ sprintf_d (unat (BigEndian_Uint16 dstPort));
     Some (if action = 0 then DenyLogger else AcLogger, logMsg)
   }"

subsection \<open>What the reader makes of a record\<close>

lemma le_word_rev_le_bytes: "le_word (rev (le_bytes 2 w)) = bswap16 w"
  by (metis le_bytes_bswap16 le_word_bytes(3))

lemma event_of_length: "length (event_of ts a h) = 24"
  by (simp add: event_of_def enc_event_def)

lemma byte_bytes: "le_bytes (Suc 0) (b :: byte) = [b]"
  by (simp add: le_bytes_eval)

text \<open>The bytes of a dotted quad, most significant first.\<close>

lemma quad_byte:
  assumes "length bs = 4" "i < 4"
  shows "drop_bit (8 * i) (le_word bs :: 32 word) AND 0xff = ucast (bs ! i)"
proof -
  have m: "(0xff :: 32 word) = mask 8" by (simp add: mask_eq_exp_minus_1)
  show ?thesis unfolding m
  proof (rule bit_word_eqI)
    fix n assume "n < LENGTH(32)"
    show "bit (drop_bit (8 * i) (le_word bs :: 32 word) AND mask 8) n = bit (ucast (bs ! i) :: 32 word) n"
    proof (cases "n < 8")
      case True
      then have "(8 * i + n) div 8 = i" "(8 * i + n) mod 8 = n" "8 * i + n < 32" using assms(2) by simp_all
      with True assms show ?thesis by (simp add: bit_simps bit_le_word)
    next
      case False
      then show ?thesis by (auto simp: bit_simps dest: bit_imp_le_length)
    qed
  qed
qed

lemma unat_byte32: "unat (ucast b :: 32 word) = unat (b :: byte)"
proof -
  have "unat b < 2 ^ LENGTH(8)" by (rule unsigned_less)
  then show ?thesis by (simp add: unsigned_ucast_eq take_bit_nat_eq_self)
qed

text \<open>An address as the wire has it: its four bytes in order.\<close>

definition dotted :: "byte list \<Rightarrow> string" where
  "dotted bs = sprintf_d (unat (bs ! 0)) @ ''.'' @ sprintf_d (unat (bs ! 1)) @ ''.'' @
     sprintf_d (unat (bs ! 2)) @ ''.'' @ sprintf_d (unat (bs ! 3))"

lemma uint32ToIPv4_bytes:
  "length bs = 4 \<Longrightarrow> uint32ToIPv4 (BigEndian_Uint32 bs) = dotted bs"
  using quad_byte[of "rev bs" 3] quad_byte[of "rev bs" 2] quad_byte[of "rev bs" 1]
    quad_byte[of "rev bs" 0]
  by (simp add: uint32ToIPv4_def BigEndian_Uint32_def unat_byte32 dotted_def rev_nth del: le_word.simps)

lemma read_event_of:
  "read_event eventTime acId (event_of ts action h @ pad) = Some
     (if action = 0 then DenyLogger else AcLogger,
      eventTime ts @ '' '' @ acId @ '' [NHP-'' @ action_string action @
      ''] SRC='' @ dotted (le_bytes 4 (h_saddr h)) @ '' DST='' @ dotted (le_bytes 4 (h_daddr h)) @
      '' LEN='' @ sprintf_d (unat (bswap16 (h_tot_len h))) @ '' PROTO='' @ protoToString (h_protocol h) @
      '' SPT='' @ sprintf_d (unat (bswap16 (h_sport h))) @ '' DPT='' @ sprintf_d (unat (bswap16 (h_dport h))))"
  by (simp add: read_event_def event_of_def enc_event_def slice_def index_def nth_append byte_bytes
      uint32ToIPv4_bytes LittleEndian_Uint64_def BigEndian_Uint16_def le_word_bytes le_word_rev_le_bytes)

text \<open>The log tells the truth: from a record the filter submitted, with whatever padding the perf
  buffer appends, the reader never panics and writes one line with the action, the addresses in
  wire order, the ports and the length as numbers and the protocol of the packet, to the deny log
  exactly for action 0.\<close>

lemma event_log_roundtrip:
  "read_event eventTime acId (event_of ts action h @ pad) = Some
     (if action = 0 then DenyLogger else AcLogger,
      eventTime ts @ '' '' @ acId @ '' [NHP-'' @ action_string action @
      ''] SRC='' @ dotted (le_bytes 4 (h_saddr h)) @ '' DST='' @ dotted (le_bytes 4 (h_daddr h)) @
      '' LEN='' @ sprintf_d (unat (bswap16 (h_tot_len h))) @ '' PROTO='' @ protoToString (h_protocol h) @
      '' SPT='' @ sprintf_d (unat (bswap16 (h_sport h))) @ '' DPT='' @ sprintf_d (unat (bswap16 (h_dport h))))"
  by (rule read_event_of)

end
