(* ===== verification/Ac_Handler.thy ===== *)
theory Ac_Handler
  imports Ac_Properties Event_Log
begin

text \<open>
  The access controller's handler \<^verbatim>\<open>HandleAccessControl\<close> of \<^verbatim>\<open>endpoints/ac/msghandler.go\<close> in its eBPF
  filter mode: for every source and destination address it adds the rules that let the knocking
  client in, and in the mode with range also temporary rules for the 128 addresses around the
  source. Modelled are the pass modes that open at once; the mode that opens a listening port first
  (\<^verbatim>\<open>PASS_PRE_ACCESS_IP\<close>) and the iptables mode, which runs the \<^verbatim>\<open>ipset\<close> program, are not. The text of
  an IP address (\<^verbatim>\<open>net.IP.String\<close>) is a parameter, as its parser is. A result \<^const>\<open>None\<close> is a handler
  that does not return.
\<close>

record NetAddress =
  na_Ip :: string
  na_Port :: int
  na_Protocol :: string

record ACOpsResultMsg =
  art_ErrCode :: string
  art_ErrMsg :: string
  art_OpenTime :: "32 word"

datatype handler_error = ErrACEmptyPassAddress | ErrEbpf go_error

datatype pass_mode = PASS_KNOCK_IP | PASS_KNOCKIP_WITH_RANGE

definition TempPortOpenTime :: int where "TempPortOpenTime = 30"

text \<open>Statements that may end the handler with an error, in sequence and over a list.\<close>

definition err_seq :: "go_error option \<times> 's \<Rightarrow> ('s \<Rightarrow> go_error option \<times> 's) \<Rightarrow> go_error option \<times> 's" where
  "err_seq r f = (case r of (Some e, s) \<Rightarrow> (Some e, s) | (None, s) \<Rightarrow> f s)"

lemma err_seq_simps [simp]: "err_seq (Some e, s) f = (Some e, s)" "err_seq (None, s) f = f s"
  by (simp_all add: err_seq_def)

primrec for_each :: "('a \<Rightarrow> 's \<Rightarrow> go_error option \<times> 's) \<Rightarrow> 'a list \<Rightarrow> 's \<Rightarrow> go_error option \<times> 's" where
  "for_each f [] s = (None, s)"
| "for_each f (x # xs) s = err_seq (f x s) (for_each f xs)"

definition is_any :: "string \<Rightarrow> bool" where
  "is_any protocol \<longleftrightarrow> protocol = [] \<or> protocol = ''any''"

definition rule_params :: "string \<Rightarrow> string \<Rightarrow> EbpfRuleParams" where
  "rule_params src dst = \<lparr>SrcIP = src, DstIP = dst, DstPort = 0, DstPortStart = 0, DstPortEnd = 0,
     Protocol = []\<rparr>"

subsection \<open>One source and one destination\<close>

text \<open>The blocks for TCP and for UDP, which differ in the protocol they are for.\<close>

definition knock_proto :: "'s ac_env \<Rightarrow> string \<Rightarrow> int \<Rightarrow> string \<Rightarrow> NetAddress \<Rightarrow> 's \<Rightarrow> go_error option \<times> 's" where
  "knock_proto E proto openTimeSec src dst s =
     (if is_any (na_Protocol dst) \<or> na_Protocol dst = proto then
        err_seq
          (if is_any (na_Protocol dst) then
             EbpfRuleAdd E 2 (rule_params src (na_Ip dst)) openTimeSec s else (None, s))
          (\<lambda>s. if na_Protocol dst = proto then
             EbpfRuleAdd E 1 ((rule_params src (na_Ip dst))\<lparr>DstPort := na_Port dst,
               Protocol := na_Protocol dst\<rparr>) openTimeSec s else (None, s))
      else (None, s))"

text \<open>The block for echo requests; its inner loop runs over all destinations again.\<close>

definition knock_icmp :: "'s ac_env \<Rightarrow> int \<Rightarrow> string \<Rightarrow> NetAddress list \<Rightarrow> NetAddress \<Rightarrow> 's \<Rightarrow>
    go_error option \<times> 's" where
  "knock_icmp E openTimeSec src dsts dst s =
     (if na_Port dst = 0 \<and> is_any (na_Protocol dst) then
        for_each (\<lambda>dstAddr. EbpfRuleAdd E 3 (rule_params src (na_Ip dstAddr)) openTimeSec) dsts s
      else (None, s))"

subsection \<open>The range around the source\<close>

text \<open>The mask of the 25 bit prefix of four bytes, and of the 121 bit prefix of sixteen.\<close>

definition prefix_mask :: "nat \<Rightarrow> byte list" where
  "prefix_mask n = replicate (n - 1) 255 @ [128]"

definition Mask :: "byte list \<Rightarrow> byte list" where
  "Mask ip = map2 (AND) ip (prefix_mask (length ip))"

definition Contains :: "byte list \<Rightarrow> byte list \<Rightarrow> bool" where
  "Contains net ip \<longleftrightarrow> length ip = length net \<and> Mask ip = net"

text \<open>\<^verbatim>\<open>net.ParseCIDR(srcAddr.Ip + "/25")\<close>, with 121 bits for an address with colons, and the second
  \<^verbatim>\<open>ParseCIDR\<close> of its text, which turns a mapped IPv4 network into its four bytes.\<close>

definition src_net :: "'s ac_env \<Rightarrow> string \<Rightarrow> byte list option" where
  "src_net E ip =
     Option.bind (ParseIP E ip) (\<lambda>b. case To4 E b of
        Some b4 \<Rightarrow> Some (Mask b4)
      | None \<Rightarrow> if CHR '':'' \<in> set ip then Some (Mask b) else None)"

fun increment_rev :: "byte list \<Rightarrow> byte list" where
  "increment_rev [] = []"
| "increment_rev (b # bs) = (if b + 1 > 0 then (b + 1) # bs else (b + 1) # increment_rev bs)"

definition incrementIP :: "byte list \<Rightarrow> byte list" where
  "incrementIP ip = rev (increment_rev (rev ip))"

text \<open>\<^verbatim>\<open>for srcIp := srcIp.Mask(ipnet.Mask); ipnet.Contains(srcIp); incrementIP(srcIp)\<close>\<close>

partial_function (option) for_range :: "(byte list \<Rightarrow> 's \<Rightarrow> 's) \<Rightarrow> byte list \<Rightarrow> byte list \<Rightarrow> 's \<Rightarrow> 's option" where
  "for_range body net ip s =
     (if Contains net ip then for_range body net (incrementIP ip) (body ip s) else Some s)"

text \<open>The bodies of the three loops; an error is logged only.\<close>

definition range_port_rule where
  "range_port_rule E String tempOpenTimeSec dst ip s =
     snd (if na_Port dst \<noteq> 0 then
            EbpfRuleAdd E 4 ((rule_params (String ip) [])\<lparr>DstPort := na_Port dst\<rparr>) tempOpenTimeSec s
          else EbpfRuleAdd E 5 ((rule_params (String ip) [])\<lparr>DstPortStart := 1, DstPortEnd := 65535\<rparr>)
            tempOpenTimeSec s)"

definition range_icmp_rule where
  "range_icmp_rule E String openTimeSec dst ip s =
     snd (EbpfRuleAdd E 3 (rule_params (String ip) (na_Ip dst)) openTimeSec s)"

definition knock_range :: "'s ac_env \<Rightarrow> (byte list \<Rightarrow> string) \<Rightarrow> int \<Rightarrow> int \<Rightarrow> byte list \<Rightarrow> NetAddress \<Rightarrow> 's \<Rightarrow>
    's option" where
  "knock_range E String openTimeSec tempOpenTimeSec net dst s = do {
     s \<leftarrow> (if is_any (na_Protocol dst) \<or> na_Protocol dst = ''tcp'' then
             for_range (range_port_rule E String tempOpenTimeSec dst) net (Mask net) s else Some s);
     s \<leftarrow> (if is_any (na_Protocol dst) \<or> na_Protocol dst = ''udp'' then
             for_range (range_port_rule E String tempOpenTimeSec dst) net (Mask net) s else Some s);
     if na_Port dst = 0 \<and> is_any (na_Protocol dst) then
       for_range (range_icmp_rule E String openTimeSec dst) net (Mask net) s
     else Some s
   }"

subsection \<open>The handler\<close>

text \<open>The loop body for one source and one destination.\<close>

definition knock_pair :: "'s ac_env \<Rightarrow> (byte list \<Rightarrow> string) \<Rightarrow> pass_mode \<Rightarrow> int \<Rightarrow> int \<Rightarrow> NetAddress list \<Rightarrow>
    NetAddress \<Rightarrow> NetAddress \<Rightarrow> 's \<Rightarrow> (go_error option \<times> 's) option" where
  "knock_pair E String ipPassMode openTimeSec tempOpenTimeSec dsts src dst s =
     (case err_seq (knock_proto E ''tcp'' openTimeSec (na_Ip src) dst s) (\<lambda>s.
           err_seq (knock_proto E ''udp'' openTimeSec (na_Ip src) dst s) (\<lambda>s.
           knock_icmp E openTimeSec (na_Ip src) dsts dst s)) of
        (Some e, s) \<Rightarrow> Some (Some e, s)
      | (None, s) \<Rightarrow> (case src_net E (na_Ip src) of
          Some net \<Rightarrow> if ipPassMode = PASS_KNOCKIP_WITH_RANGE then
              map_option (\<lambda>s. (None, s)) (knock_range E String openTimeSec tempOpenTimeSec net dst s)
            else Some (None, s)
        | None \<Rightarrow> Some (None, s)))"

primrec opt_each :: "('a \<Rightarrow> 's \<Rightarrow> (go_error option \<times> 's) option) \<Rightarrow> 'a list \<Rightarrow> 's \<Rightarrow>
    (go_error option \<times> 's) option" where
  "opt_each f [] s = Some (None, s)"
| "opt_each f (x # xs) s = (case f x s of
      None \<Rightarrow> None
    | Some (Some e, s) \<Rightarrow> Some (Some e, s)
    | Some (None, s) \<Rightarrow> opt_each f xs s)"

text \<open>The default address replaces empty destinations.\<close>

definition fill_default :: "string \<Rightarrow> NetAddress list \<Rightarrow> NetAddress list" where
  "fill_default DefaultIp dsts =
     (if length DefaultIp > 0 then
        map (\<lambda>addr. if length (na_Ip addr) = 0 then addr\<lparr>na_Ip := DefaultIp\<rparr> else addr) dsts
      else dsts)"

definition HandleAccessControl :: "'s ac_env \<Rightarrow> (byte list \<Rightarrow> string) \<Rightarrow> string \<Rightarrow> pass_mode \<Rightarrow>
    NetAddress list \<Rightarrow> NetAddress list \<Rightarrow> int \<Rightarrow> ACOpsResultMsg \<Rightarrow> 's \<Rightarrow>
    ((ACOpsResultMsg \<times> handler_error option) \<times> 's) option" where
  "HandleAccessControl E String DefaultIp ipPassMode srcAddrs dstAddrs openTimeSec artMsg s =
     (let tempOpenTimeSec = (if openTimeSec = 1 then 1 else TempPortOpenTime) in
      if length srcAddrs = 0 \<or> length dstAddrs = 0 then
        Some ((artMsg\<lparr>art_ErrCode := ''53002'', art_ErrMsg := ''pass address is empty''\<rparr>,
          Some ErrACEmptyPassAddress), s)
      else
        (let dsts = fill_default DefaultIp dstAddrs in
         case opt_each (\<lambda>src. opt_each (\<lambda>dst.
             knock_pair E String ipPassMode openTimeSec tempOpenTimeSec dsts src dst) dsts) srcAddrs s of
           None \<Rightarrow> None
         | Some (Some e, s) \<Rightarrow> Some ((artMsg, Some (ErrEbpf e)), s)
         | Some (None, s) \<Rightarrow> Some ((artMsg\<lparr>art_ErrCode := ''0'',
             art_OpenTime := word_of_int openTimeSec\<rparr>, None), s)))"

subsection \<open>The range loop ends\<close>

lemma increment_last: "b + 1 > (0 :: byte) \<Longrightarrow> incrementIP (pre @ [b]) = pre @ [b + 1]"
  by (simp add: incrementIP_def)

lemma increment_wraps: "b + 1 = (0 :: byte) \<Longrightarrow> \<exists>pre'. length pre' = length pre \<and> incrementIP (pre @ [b]) = pre' @ [0]"
proof -
  have len: "length (increment_rev bs) = length bs" for bs
    by (induction bs rule: increment_rev.induct) auto
  assume "b + 1 = 0"
  then show ?thesis by (intro exI[of _ "rev (increment_rev (rev pre))"]) (simp add: incrementIP_def len)
qed

lemma map2_replicate_mask: "map2 (AND) pre (replicate (length pre) (255 :: byte)) = pre"
proof (induction pre)
  case Nil
  then show ?case by simp
next
  case (Cons b pre)
  have e: "(255 :: byte) = - 1" by simp
  have "b AND 255 = b" unfolding e by simp
  with Cons show ?case by simp
qed

lemma Mask_snoc: "Mask (pre @ [b]) = pre @ [b AND 128]"
  by (simp add: Mask_def prefix_mask_def map2_replicate_mask)

lemma for_range_steps:
  assumes "Mask (pre @ [b0]) = pre @ [b0]" and "\<And>j. j \<le> n \<Longrightarrow> (b + word_of_nat j) AND 128 = b0"
    and "b + word_of_nat n = 127 \<or> b + word_of_nat n = 255"
  shows "for_range body (pre @ [b0]) (pre @ [b]) s =
     Some (fold body (map (\<lambda>j. pre @ [b + word_of_nat j]) [0..<Suc n]) s)"
  using assms(2,3)
proof (induction n arbitrary: b s)
  case 0
  have b0: "b AND 128 = b0" using 0(1)[of 0] by simp
  have stop: "for_range body (pre @ [b0]) (incrementIP (pre @ [b])) s' = Some s'" for s'
  proof -
    have "\<not> Contains (pre @ [b0]) (incrementIP (pre @ [b]))"
    proof (cases "b = 255")
      case True
      then obtain pre' where "length pre' = length pre" "incrementIP (pre @ [b]) = pre' @ [0]"
        using increment_wraps[of b pre] by auto
      with True b0 show ?thesis by (auto simp: Contains_def Mask_snoc)
    next
      case False
      then have "b = 127" using 0(2) by simp
      with b0 increment_last[of b pre] show ?thesis by (auto simp: Contains_def Mask_snoc)
    qed
    then show ?thesis by (subst for_range.simps) simp
  qed
  have "Contains (pre @ [b0]) (pre @ [b])" using b0 by (simp add: Contains_def Mask_snoc)
  then show ?case by (subst for_range.simps) (simp add: stop)
next
  case (Suc n)
  have b0: "b AND 128 = b0" using Suc.prems(1)[of 0] by simp
  then have c: "Contains (pre @ [b0]) (pre @ [b])" by (simp add: Contains_def Mask_snoc)
  have next': "b + 1 > 0"
  proof (rule ccontr)
    assume "\<not> b + 1 > 0"
    then have "b + 1 = 0" using word_neq_0_conv by blast
    then have "b = 255" by (simp add: eq_neg_iff_add_eq_0[symmetric])
    moreover have "(b + 1) AND 128 = b0" using Suc.prems(1)[of 1] by simp
    ultimately show False using b0 by simp
  qed
  have "for_range body (pre @ [b0]) (pre @ [b + 1]) (body (pre @ [b]) s) =
      Some (fold body (map (\<lambda>j. pre @ [b + 1 + word_of_nat j]) [0..<Suc n]) (body (pre @ [b]) s))"
  proof (rule Suc.IH)
    fix j assume "j \<le> n"
    then show "b + 1 + word_of_nat j AND 128 = b0" using Suc.prems(1)[of "Suc j"] by (simp add: ac_simps)
  next
    show "b + 1 + word_of_nat n = 127 \<or> b + 1 + word_of_nat n = 255"
      using Suc.prems(2) by (simp add: ac_simps)
  qed
  moreover have "map (\<lambda>j. pre @ [b + word_of_nat j]) [0..<Suc (Suc n)] =
      (pre @ [b]) # map (\<lambda>j. pre @ [b + 1 + word_of_nat j]) [0..<Suc n]"
    by (simp add: upt_conv_Cons del: upt_Suc) (simp add: map_Suc_upt[symmetric] ac_simps del: upt_Suc)
  ultimately show ?case
    using c by (subst for_range.simps) (simp add: increment_last[OF next'] del: upt_Suc)
qed

text \<open>The 128 addresses around an address.\<close>

definition range_of :: "byte list \<Rightarrow> byte \<Rightarrow> byte list list" where
  "range_of pre b = map (\<lambda>j. pre @ [(b AND 128) + word_of_nat j]) [0..<128]"

lemma and_128: "b AND 128 = 0 \<or> b AND 128 = (128 :: byte)"
proof -
  have t: "bit (128 :: byte) n \<longleftrightarrow> n = 7" for n
    using bit_exp_iff[where 'a = byte, of 7 n] by auto
  show ?thesis
  proof (cases "bit b 7")
    case True
    then have "bit (b AND 128) n \<longleftrightarrow> bit (128 :: byte) n" for n
      unfolding bit_and_iff t by blast
    then have "b AND 128 = 128" by (intro bit_word_eqI)
    then show ?thesis ..
  next
    case False
    then have "bit (b AND 128) n \<longleftrightarrow> bit (0 :: byte) n" for n
      unfolding bit_and_iff t by auto
    then have "b AND 128 = 0" by (intro bit_word_eqI)
    then show ?thesis ..
  qed
qed

lemma low_bits: "j \<le> 127 \<Longrightarrow> word_of_nat j AND 128 = (0 :: byte)"
  "j \<le> 127 \<Longrightarrow> (128 + word_of_nat j) AND 128 = (128 :: byte)"
proof -
  have all: "list_all (\<lambda>j. word_of_nat j AND 128 = (0 :: byte) \<and> (128 + word_of_nat j) AND 128 = (128 :: byte)) [0..<128]"
    by code_simp
  show "j \<le> 127 \<Longrightarrow> word_of_nat j AND 128 = (0 :: byte)"
    "j \<le> 127 \<Longrightarrow> (128 + word_of_nat j) AND 128 = (128 :: byte)"
    using all by (simp_all add: list_all_iff del: upt_Suc)
qed

lemma for_range_result:
  "for_range body (Mask (pre @ [b])) (Mask (pre @ [b])) s = Some (fold body (range_of pre b) s)"
proof -
  have m: "Mask (pre @ [b AND 128]) = pre @ [b AND 128]" by (simp add: Mask_snoc and.assoc)
  have "for_range body (pre @ [b AND 128]) (pre @ [b AND 128]) s = Some (fold body
      (map (\<lambda>j. pre @ [(b AND 128) + word_of_nat j]) [0..<Suc 127]) s)"
    using and_128[of b] low_bits by (intro for_range_steps[OF m]) auto
  then show ?thesis by (simp add: Mask_snoc range_of_def del: upt_Suc)
qed

lemma unat_small_byte: "j < 128 \<Longrightarrow> unat (word_of_nat j :: byte) = j"
  by (simp add: unsigned_of_nat take_bit_nat_eq_self)

lemma range_of_distinct: "distinct (range_of pre b)"
proof -
  have "inj_on (\<lambda>j. pre @ [(b AND 128) + word_of_nat j]) {0..<128}"
  proof (rule inj_onI)
    fix j k :: nat
    assume j: "j \<in> {0..<128}" "k \<in> {0..<128}"
      and "pre @ [(b AND 128) + word_of_nat j] = pre @ [(b AND 128) + word_of_nat k]"
    then have "unat (word_of_nat j :: byte) = unat (word_of_nat k :: byte)" by simp
    then show "j = k" using j by (simp add: unat_small_byte)
  qed
  then show ?thesis by (simp add: range_of_def distinct_map del: upt_Suc)
qed

lemma and_split: "(x AND y) + (x AND NOT y) = (x :: byte)"
proof -
  have "(x AND y) AND (x AND NOT y) = 0" by (rule bit_word_eqI) (auto simp: bit_simps)
  then have "(x AND y) + (x AND NOT y) = (x AND y) OR (x AND NOT y)" by (rule disjunctive_add_eq_or)
  also have "\<dots> = x" by (rule bit_word_eqI) (auto simp: bit_simps)
  finally show ?thesis .
qed

lemma low_byte: "x AND 128 = b AND 128 \<Longrightarrow> \<exists>j < 128. x = (b AND 128) + (word_of_nat j :: byte)"
proof (intro exI conjI)
  assume x: "x AND 128 = b AND 128"
  have n: "(127 :: byte) = NOT 128" by simp
  have split: "x = (x AND 128) + (x AND 127)" unfolding n by (simp only: and_split)
  show "x = (b AND 128) + word_of_nat (unat (x AND 127))"
    using split x by simp
  have "x AND 127 \<le> 127" by (rule word_and_le1)
  then show "unat (x AND 127) < 128" by (simp add: word_le_nat_alt)
qed

lemma range_of_Contains: "ip \<in> set (range_of pre b) \<longleftrightarrow> Contains (Mask (pre @ [b])) ip"
proof
  assume "ip \<in> set (range_of pre b)"
  then obtain j where j: "j < 128" "ip = pre @ [(b AND 128) + word_of_nat j]"
    by (auto simp: range_of_def simp del: upt_Suc)
  then show "Contains (Mask (pre @ [b])) ip"
    using and_128[of b] low_bits[of j] by (auto simp: Contains_def Mask_snoc)
next
  assume c: "Contains (Mask (pre @ [b])) ip"
  then have "ip \<noteq> []" by (auto simp: Contains_def Mask_snoc)
  then obtain q x where ip: "ip = q @ [x]" by (metis append_butlast_last_id)
  with c have "q = pre" "x AND 128 = b AND 128" by (auto simp: Contains_def Mask_snoc)
  then show "ip \<in> set (range_of pre b)"
    using low_byte[of x b] ip by (auto simp: range_of_def simp del: upt_Suc)
qed

end
