(* ===== verification/Ac_Handler_Properties.thy ===== *)
theory Ac_Handler_Properties
  imports Ac_Handler
begin

text \<open>
  Properties of the access-control handler: its loops end, a successful knock leaves a live entry
  for every pair of addresses, and what it does with empty requests and unknown protocols.
\<close>

subsection \<open>Loops\<close>

text \<open>C33: The range loop ends after the 128 addresses that share the 25 (for sixteen bytes 121) leading
  bits with the source, each visited once and in order, also at the end of the address space where
  the counter wraps around.\<close>

theorem range_loop_ends:
  "for_range body (Mask (pre @ [b])) (Mask (pre @ [b])) s = Some (fold body (range_of pre b) s) \<and>
   length (range_of pre b) = 128 \<and> distinct (range_of pre b) \<and>
   (\<forall>ip. ip \<in> set (range_of pre b) \<longleftrightarrow> Contains (Mask (pre @ [b])) ip)"
proof (intro conjI)
  show "distinct (range_of pre b)" by (rule range_of_distinct)
  show "\<forall>ip. ip \<in> set (range_of pre b) \<longleftrightarrow> Contains (Mask (pre @ [b])) ip" using range_of_Contains by blast
qed (simp_all add: for_range_result range_of_def del: upt_Suc)

subsection \<open>What a knock leaves behind\<close>

text \<open>A live entry of the knock: allowing, and ending the open time after a clock reading since \<open>t0\<close>.\<close>

definition live_since :: "64 word \<Rightarrow> int \<Rightarrow> maps \<Rightarrow> bpf_map \<Rightarrow> byte list \<Rightarrow> bool" where
  "live_since t0 openTimeSec maps m k \<longleftrightarrow> (\<exists>now. t0 \<le> now \<and> maps m k = Some (enc_whitelist_value
     \<lparr>av_allowed = 1, av_expire_time = now + word_of_int openTimeSec * 1000000000\<rparr>))"

text \<open>The maps the knock writes with its open time; live entries of them stay live.\<close>

definition knock_maps :: "bpf_map set" where
  "knock_maps = {Spp, Sdwhitelist, Icmpwhitelist}"

definition keeps_live :: "64 word \<Rightarrow> int \<Rightarrow> maps \<Rightarrow> maps \<Rightarrow> bool" where
  "keeps_live t0 openTimeSec a b \<longleftrightarrow> (\<forall>m \<in> knock_maps. \<forall>k.
     live_since t0 openTimeSec a m k \<longrightarrow> live_since t0 openTimeSec b m k)"

lemma keeps_live_refl [simp]: "keeps_live t0 n a a"
  by (simp add: keeps_live_def)

lemma keeps_live_trans: "keeps_live t0 n a b \<Longrightarrow> keeps_live t0 n b c \<Longrightarrow> keeps_live t0 n a c"
  by (simp add: keeps_live_def)

text \<open>What one destination gets: the keys that must hold a live entry.\<close>

definition pair_keys :: "32 word \<Rightarrow> 32 word \<Rightarrow> NetAddress \<Rightarrow> (bpf_map \<times> byte list) set" where
  "pair_keys sip dip dst =
     (if is_any (na_Protocol dst) then {(Sdwhitelist, enc_ip_pair_key \<lparr>ik_src_ip = sip, ik_dst_ip = dip\<rparr>)} else {}) \<union>
     (\<Union>(name, number) \<in> {(''tcp'', 6), (''udp'', 17)}. if na_Protocol dst = name
        then {(Spp, enc_whitelist_key \<lparr>wk_src_ip = sip, wk_dst_ip = dip,
          wk_dst_port = bswap16 (word_of_int (na_Port dst)), wk_protocol = number\<rparr>)} else {})"

context ac_contract
begin

text \<open>A statement of the handler that succeeds and leaves the entries \<open>G\<close> live.\<close>

definition opens :: "64 word \<Rightarrow> int \<Rightarrow> 's \<Rightarrow> go_error option \<times> 's \<Rightarrow> (bpf_map \<times> byte list) set \<Rightarrow> bool" where
  "opens t0 n s r G \<longleftrightarrow> (\<exists>s'. r = (None, s') \<and> t0 \<le> clock s' \<and> keeps_live t0 n (contents s) (contents s') \<and>
     (\<forall>(m, k) \<in> G. m \<in> knock_maps \<and> live_since t0 n (contents s') m k))"

lemma opens_none: "t0 \<le> clock s \<Longrightarrow> opens t0 n s (None, s) {}"
  by (simp add: opens_def)

lemma opens_subset: "opens t0 n s r G \<Longrightarrow> G' \<subseteq> G \<Longrightarrow> opens t0 n s r G'"
  unfolding opens_def by blast

lemma opens_seq:
  assumes "opens t0 n s r G" and "\<And>s'. t0 \<le> clock s' \<Longrightarrow> opens t0 n s' (f s') G'"
  shows "opens t0 n s (err_seq r f) (G \<union> G')"
proof -
  obtain s1 where r: "r = (None, s1)" "t0 \<le> clock s1" "keeps_live t0 n (contents s) (contents s1)"
    "\<forall>(m, k) \<in> G. m \<in> knock_maps \<and> live_since t0 n (contents s1) m k" using assms(1) by (auto simp: opens_def)
  obtain s2 where f: "f s1 = (None, s2)" "t0 \<le> clock s2" "keeps_live t0 n (contents s1) (contents s2)"
    "\<forall>(m, k) \<in> G'. m \<in> knock_maps \<and> live_since t0 n (contents s2) m k"
    using assms(2)[OF r(2)] by (auto simp: opens_def)
  have "\<forall>(m, k) \<in> G \<union> G'. m \<in> knock_maps \<and> live_since t0 n (contents s2) m k"
    using r(4) f(3,4) unfolding keeps_live_def by fastforce
  with r f keeps_live_trans[OF r(3) f(3)] show ?thesis by (simp add: opens_def)
qed

lemma opens_each:
  assumes "\<And>x s. x \<in> set xs \<Longrightarrow> t0 \<le> clock s \<Longrightarrow> opens t0 n s (f x s) (G x)" and "t0 \<le> clock s"
  shows "opens t0 n s (for_each f xs s) (\<Union>x \<in> set xs. G x)"
  using assms
proof (induction xs arbitrary: s)
  case Nil
  then show ?case by (simp add: opens_none)
next
  case (Cons x xs)
  show ?case using Cons by (auto intro!: opens_seq)
qed

lemma stored_opens:
  assumes "rule_stored E contents clock s m k (word_of_int n) r" "m \<in> knock_maps" "t0 \<le> clock s"
  shows "opens t0 n s r {(m, k)}"
proof -
  obtain now where r: "clock s \<le> now" "clock s \<le> clock (snd r)" "fst r = None"
    "contents (snd r) = (contents s)(m := (contents s m)(k := Some (enc_whitelist_value
        \<lparr>av_allowed = 1, av_expire_time = now + word_of_int n * 1000000000\<rparr>)))"
    using assms(1,2) by (auto simp: rule_stored_def knock_maps_def)
  have "live_since t0 n (contents (snd r)) m k"
    unfolding live_since_def using r(1,4) assms(3) by (intro exI[of _ now]) auto
  moreover have "keeps_live t0 n (contents s) (contents (snd r))"
    unfolding keeps_live_def
  proof (intro ballI allI impI)
    fix m' k' assume "live_since t0 n (contents s) m' k'"
    with calculation show "live_since t0 n (contents (snd r)) m' k'"
      by (cases "m' = m \<and> k' = k") (auto simp: live_since_def r(4))
  qed
  ultimately show ?thesis
    using r(2,3) assms(2,3) by (cases r) (auto simp: opens_def)
qed

text \<open>The temporary rules of the range leave the entries of the knock live.\<close>

lemma other_rule_keeps:
  assumes "mapType = 3 \<and> n' = n \<or> mapType = 4 \<or> mapType = 5" and "t0 \<le> clock s"
  shows "t0 \<le> clock (snd (EbpfRuleAdd E mapType p n' s)) \<and>
     keeps_live t0 n (contents s) (contents (snd (EbpfRuleAdd E mapType p n' s)))"
proof (cases "rule_valid E mapType p")
  case False
  then show ?thesis using rule_refused[of mapType p n' s] assms(2) by auto
next
  case True
  obtain k where k: "rule_stored E contents clock s (rule_map mapType) k (word_of_int n') (EbpfRuleAdd E mapType p n' s)"
    using rule_accepted[OF True] by blast
  consider "mapType = 3" "n' = n" | "mapType = 4 \<or> mapType = 5" using assms(1) by blast
  then show ?thesis
  proof cases
    case 1
    then have "rule_map mapType \<in> knock_maps" by (simp add: rule_map_def knock_maps_def)
    from stored_opens[OF k[unfolded 1(2)] this assms(2)] 1(2) show ?thesis by (auto simp: opens_def)
  next
    case 2
    then have "rule_map mapType \<notin> knock_maps" by (auto simp: rule_map_def knock_maps_def)
    with k have "\<forall>m \<in> knock_maps. contents (snd (EbpfRuleAdd E mapType p n' s)) m = contents s m"
      "clock s \<le> clock (snd (EbpfRuleAdd E mapType p n' s))"
      by (auto simp: rule_stored_def)
    with assms(2) show ?thesis by (auto simp: keeps_live_def live_since_def)
  qed
qed

lemma fold_keeps:
  assumes "\<And>x s. t0 \<le> clock s \<Longrightarrow> t0 \<le> clock (f x s) \<and> keeps_live t0 n (contents s) (contents (f x s))"
    and "t0 \<le> clock s"
  shows "t0 \<le> clock (fold f xs s) \<and> keeps_live t0 n (contents s) (contents (fold f xs s))"
  using assms(2)
proof (induction xs arbitrary: s)
  case Nil
  then show ?case by simp
next
  case (Cons x xs)
  then show ?case using assms(1)[of s x] keeps_live_trans by fastforce
qed

lemma range_keeps:
  assumes "t0 \<le> clock s" and "net = Mask b" and "b \<noteq> []"
  shows "\<exists>s'. knock_range E String n n' net dst s = Some s' \<and> t0 \<le> clock s' \<and>
     keeps_live t0 n (contents s) (contents s')"
proof -
  obtain pre c where b: "b = pre @ [c]" using assms(3) by (metis append_butlast_last_id)
  have net: "Mask net = net" "net = Mask (pre @ [c])" unfolding assms(2) b by (simp_all add: Mask_snoc and.assoc)
  have loop: "\<exists>s'. for_range body net (Mask net) s = Some s' \<and> t0 \<le> clock s' \<and>
      keeps_live t0 n (contents s) (contents s')"
    if "\<And>x s. t0 \<le> clock s \<Longrightarrow> t0 \<le> clock (body x s) \<and> keeps_live t0 n (contents s) (contents (body x s))"
      "t0 \<le> clock s" for body s
    using fold_keeps[of t0 body n s "range_of pre c", OF that] unfolding net(1) unfolding net(2) for_range_result
    by blast
  have opt: "\<exists>s'. (if P then for_range body net (Mask net) s else Some s) = Some s' \<and> t0 \<le> clock s' \<and>
      keeps_live t0 n (contents s) (contents s')"
    if "\<And>x s. t0 \<le> clock s \<Longrightarrow> t0 \<le> clock (body x s) \<and> keeps_live t0 n (contents s) (contents (body x s))"
      "t0 \<le> clock s" for P body s
    using loop[of body s, OF that] that(2) by simp
  have port: "t0 \<le> clock (range_port_rule E String n' dst x s) \<and>
      keeps_live t0 n (contents s) (contents (range_port_rule E String n' dst x s))" if "t0 \<le> clock s" for x s
    using other_rule_keeps[of _ n' n t0 s, OF _ that] by (simp add: range_port_rule_def)
  have icmp: "t0 \<le> clock (range_icmp_rule E String n dst x s) \<and>
      keeps_live t0 n (contents s) (contents (range_icmp_rule E String n dst x s))" if "t0 \<le> clock s" for x s
    using other_rule_keeps[of 3 n n t0 s, OF _ that] by (simp add: range_icmp_rule_def)
  obtain s1 where s1: "(if is_any (na_Protocol dst) \<or> na_Protocol dst = ''tcp'' then
      for_range (range_port_rule E String n' dst) net (Mask net) s else Some s) = Some s1"
    "t0 \<le> clock s1" "keeps_live t0 n (contents s) (contents s1)" using opt[of "range_port_rule E String n' dst", OF port assms(1)] by blast
  obtain s2 where s2: "(if is_any (na_Protocol dst) \<or> na_Protocol dst = ''udp'' then
      for_range (range_port_rule E String n' dst) net (Mask net) s1 else Some s1) = Some s2"
    "t0 \<le> clock s2" "keeps_live t0 n (contents s1) (contents s2)" using opt[of "range_port_rule E String n' dst", OF port s1(2)] by blast
  obtain s3 where s3: "(if na_Port dst = 0 \<and> is_any (na_Protocol dst) then
      for_range (range_icmp_rule E String n dst) net (Mask net) s2 else Some s2) = Some s3"
    "t0 \<le> clock s3" "keeps_live t0 n (contents s2) (contents s3)" using opt[of "range_icmp_rule E String n dst", OF icmp s2(2)] by blast
  have "knock_range E String n n' net dst s = Some s3"
    unfolding knock_range_def s1(1) bind.bind_lunit s2(1) s3(1) ..
  with s3(2) s1(3) s2(3) s3(3) show ?thesis by (blast intro: keeps_live_trans)
qed

lemma proto_opens:
  assumes "t0 \<le> clock s" and "parseIP E src = Inr sip" and "parseIP E (na_Ip dst) = Inr dip"
    and "(proto, number) \<in> {(''tcp'', 6), (''udp'', 17)}"
  shows "opens t0 n s (knock_proto E proto n src dst s)
     ((if is_any (na_Protocol dst) then {(Sdwhitelist, enc_ip_pair_key \<lparr>ik_src_ip = sip, ik_dst_ip = dip\<rparr>)} else {}) \<union>
      (if na_Protocol dst = proto then {(Spp, enc_whitelist_key \<lparr>wk_src_ip = sip, wk_dst_ip = dip,
          wk_dst_port = bswap16 (word_of_int (na_Port dst)), wk_protocol = number\<rparr>)} else {}))"
proof -
  have num: "protocol_number proto = Some number" "\<not> is_any proto" "protocol_number [] = Some 0"
    using assms(4) by (auto simp: protocol_number_def is_any_def)
  have pair: "opens t0 n s' (EbpfRuleAdd E 2 (rule_params src (na_Ip dst)) n s')
      {(Sdwhitelist, enc_ip_pair_key \<lparr>ik_src_ip = sip, ik_dst_ip = dip\<rparr>)}" if "t0 \<le> clock s'" for s'
  proof (rule stored_opens[OF _ _ that])
    show "rule_stored E contents clock s' Sdwhitelist (enc_ip_pair_key \<lparr>ik_src_ip = sip, ik_dst_ip = dip\<rparr>)
        (word_of_int n) (EbpfRuleAdd E 2 (rule_params src (na_Ip dst)) n s')"
      using add_rules_stored(2)[of s' "\<lparr>sd_SrcIP = sip, sd_DstIP = dip\<rparr>" "word_of_int n"] assms(2,3) num(3)
      by (simp add: EbpfRuleAdd_def rule_params_def AddEbpfRuleForSrcDst_def pinned_paths writer_key_encodings)
  qed (simp add: knock_maps_def)
  have full: "opens t0 n s' (EbpfRuleAdd E 1 ((rule_params src (na_Ip dst))\<lparr>DstPort := na_Port dst,
      Protocol := na_Protocol dst\<rparr>) n s') {(Spp, enc_whitelist_key \<lparr>wk_src_ip = sip, wk_dst_ip = dip,
          wk_dst_port = bswap16 (word_of_int (na_Port dst)), wk_protocol = number\<rparr>)}"
    if "t0 \<le> clock s'" "na_Protocol dst = proto" for s'
  proof (rule stored_opens[OF _ _ that(1)])
    show "rule_stored E contents clock s' Spp (enc_whitelist_key \<lparr>wk_src_ip = sip, wk_dst_ip = dip,
        wk_dst_port = bswap16 (word_of_int (na_Port dst)), wk_protocol = number\<rparr>) (word_of_int n)
        (EbpfRuleAdd E 1 ((rule_params src (na_Ip dst))\<lparr>DstPort := na_Port dst, Protocol := na_Protocol dst\<rparr>) n s')"
      using add_rules_stored(1)[of s' "\<lparr>wl_SrcIP = sip, wl_DstIP = dip, wl_DstPort = word_of_int (na_Port dst),
          wl_Protocol = number\<rparr>" "word_of_int n"] assms(2,3) num(1) that(2)
      by (simp add: EbpfRuleAdd_def rule_params_def AddEbpfRuleForSrcDstPortProto_def pinned_paths
          writer_key_encodings)
  qed (simp add: knock_maps_def)
  show ?thesis
  proof (cases "is_any (na_Protocol dst) \<or> na_Protocol dst = proto")
    case True
    show ?thesis
      unfolding knock_proto_def if_P[OF True]
      by (rule opens_seq) (use pair full assms(1) num(2) opens_none in auto)
  next
    case False
    then show ?thesis using opens_none[OF assms(1)] by (simp add: knock_proto_def)
  qed
qed

lemma icmp_opens:
  assumes "t0 \<le> clock s" and "parseIP E src = Inr sip" and "\<forall>d \<in> set dsts. \<exists>dip. parseIP E (na_Ip d) = Inr dip"
  shows "opens t0 n s (knock_icmp E n src dsts dst s) {}"
proof -
  have one: "opens t0 n s' (EbpfRuleAdd E 3 (rule_params src (na_Ip d)) n s') {}"
    if mem: "d \<in> set dsts" and t: "t0 \<le> clock s'" for d s'
  proof -
    obtain dip where d: "parseIP E (na_Ip d) = Inr dip"
      using bspec[OF assms(3) mem] by (elim exE)
    have "rule_stored E contents clock s' Icmpwhitelist (ToSdKey \<lparr>sd_SrcIP = sip, sd_DstIP = dip\<rparr>)
        (word_of_int n) (EbpfRuleAdd E 3 (rule_params src (na_Ip d)) n s')"
      using add_rules_stored(3)[of s' "\<lparr>sd_SrcIP = sip, sd_DstIP = dip\<rparr>" "word_of_int n"] assms(2) d
      by (simp add: EbpfRuleAdd_def rule_params_def AddEbpfIcmpRuleForSrcDst_def pinned_paths protocol_number_def)
    from stored_opens[OF this _ t] show ?thesis by (auto intro: opens_subset simp: knock_maps_def)
  qed
  show ?thesis
    using opens_each[of dsts t0 n "\<lambda>d. EbpfRuleAdd E 3 (rule_params src (na_Ip d)) n" "\<lambda>_. {}" s, OF one assms(1)]
      opens_none[OF assms(1)]
    by (auto simp: knock_icmp_def)
qed

lemma src_net_Mask:
  assumes "src_net E ip = Some net"
  obtains b where "net = Mask b" and "b \<noteq> []"
proof -
  obtain b where b: "ParseIP E ip = Some b" using assms by (auto simp: src_net_def bind_eq_Some_conv)
  show ?thesis
  proof (cases "To4 E b")
    case None
    with assms b have "net = Mask b" by (simp add: src_net_def split: if_splits)
    then show ?thesis using that ParseIP_bytes[OF b] by blast
  next
    case (Some b4)
    with assms b have "net = Mask b4" by (simp add: src_net_def)
    moreover have "b4 \<noteq> []" using To4_length[OF Some] by auto
    ultimately show ?thesis using that by blast
  qed
qed

lemma pair_opens:
  assumes "t0 \<le> clock s" and "parseIP E (na_Ip src) = Inr sip" and "parseIP E (na_Ip dst) = Inr dip"
    and "\<forall>d \<in> set dsts. \<exists>dip. parseIP E (na_Ip d) = Inr dip"
  shows "\<exists>s'. knock_pair E String mode n n' dsts src dst s = Some (None, s') \<and>
     opens t0 n s (None, s') (pair_keys sip dip dst)"
proof -
  note proto = proto_opens[OF _ assms(2,3)]
  have "opens t0 n s (err_seq (knock_proto E ''tcp'' n (na_Ip src) dst s) (\<lambda>s.
      err_seq (knock_proto E ''udp'' n (na_Ip src) dst s) (\<lambda>s. knock_icmp E n (na_Ip src) dsts dst s)))
      (pair_keys sip dip dst)"
    by (rule opens_subset[OF opens_seq[OF proto opens_seq[OF proto icmp_opens]]])
      (use assms in \<open>auto simp: pair_keys_def\<close>)
  then obtain s1 where s1: "err_seq (knock_proto E ''tcp'' n (na_Ip src) dst s) (\<lambda>s.
      err_seq (knock_proto E ''udp'' n (na_Ip src) dst s) (\<lambda>s. knock_icmp E n (na_Ip src) dsts dst s)) = (None, s1)"
    "t0 \<le> clock s1" "keeps_live t0 n (contents s) (contents s1)"
    "\<forall>(m, k) \<in> pair_keys sip dip dst. m \<in> knock_maps \<and> live_since t0 n (contents s1) m k"
    by (auto simp: opens_def)
  have done1: "opens t0 n s (None, s2) (pair_keys sip dip dst)"
    if "t0 \<le> clock s2" "keeps_live t0 n (contents s1) (contents s2)" for s2
    using s1 that keeps_live_trans[OF s1(3) that(2)] unfolding opens_def keeps_live_def by fastforce
  show ?thesis
  proof (cases "src_net E (na_Ip src)")
    case None
    then show ?thesis using done1[OF s1(2)] by (simp add: knock_pair_def s1(1))
  next
    case (Some net)
    obtain b where "net = Mask b" "b \<noteq> []"
      by (rule src_net_Mask[OF Some])
    then obtain s2 where "knock_range E String n n' net dst s1 = Some s2" "t0 \<le> clock s2"
      "keeps_live t0 n (contents s1) (contents s2)" using range_keeps[OF s1(2)] by blast
    with Some done1[OF s1(2)] done1 show ?thesis by (simp add: knock_pair_def s1(1))
  qed
qed

lemma opt_each_opens:
  assumes "\<And>x s. x \<in> set xs \<Longrightarrow> t0 \<le> clock s \<Longrightarrow> \<exists>s'. f x s = Some (None, s') \<and> opens t0 n s (None, s') (G x)"
    and "t0 \<le> clock s"
  shows "\<exists>s'. opt_each f xs s = Some (None, s') \<and> opens t0 n s (None, s') (\<Union>x \<in> set xs. G x)"
  using assms
proof (induction xs arbitrary: s)
  case Nil
  then show ?case by (simp add: opens_none)
next
  case (Cons x xs)
  obtain s1 where s1: "f x s = Some (None, s1)" "opens t0 n s (None, s1) (G x)"
    using Cons.prems(1)[of x s] Cons.prems(2) by auto
  have c1: "t0 \<le> clock s1" using s1(2) by (simp add: opens_def)
  obtain s2 where s2: "opt_each f xs s1 = Some (None, s2)" "opens t0 n s1 (None, s2) (\<Union>x \<in> set xs. G x)"
    using Cons.IH[of s1] Cons.prems(1) c1 by auto
  have "opens t0 n s (err_seq (None, s1) (\<lambda>_. (None, s2))) (G x \<union> (\<Union>x \<in> set xs. G x))"
  proof -
    have "keeps_live t0 n (contents s) (contents s2)" "t0 \<le> clock s2"
      using s1(2) s2(2) keeps_live_trans by (auto simp: opens_def)
    moreover have "\<forall>(m, k) \<in> G x \<union> (\<Union>x \<in> set xs. G x). m \<in> knock_maps \<and> live_since t0 n (contents s2) m k"
      using s1(2) s2(2) unfolding opens_def keeps_live_def by fastforce
    ultimately show ?thesis by (simp add: opens_def)
  qed
  then show ?case by (simp add: s1(1) s2(1))
qed

lemma handler_opens:
  assumes "srcs \<noteq> []" "dsts \<noteq> []" "\<forall>a \<in> set srcs. \<exists>ip. parseIP E (na_Ip a) = Inr ip"
    "\<forall>a \<in> set (fill_default DefaultIp dsts). \<exists>ip. parseIP E (na_Ip a) = Inr ip"
  shows "\<exists>s'. HandleAccessControl E String DefaultIp mode srcs dsts n art s =
       Some ((art\<lparr>art_ErrCode := ''0'', art_OpenTime := word_of_int n\<rparr>, None), s') \<and>
     (\<forall>src \<in> set srcs. \<forall>dst \<in> set (fill_default DefaultIp dsts). \<forall>sip dip.
        parseIP E (na_Ip src) = Inr sip \<longrightarrow> parseIP E (na_Ip dst) = Inr dip \<longrightarrow>
        (\<forall>(m, k) \<in> pair_keys sip dip dst. live_since (clock s) n (contents s') m k))"
proof -
  let ?D = "fill_default DefaultIp dsts"
  let ?n' = "if n = 1 then 1 else TempPortOpenTime"
  define ip where "ip a = (case parseIP E (na_Ip a) of Inr w \<Rightarrow> w | Inl _ \<Rightarrow> 0)" for a :: NetAddress
  have ip: "parseIP E (na_Ip a) = Inr (ip a)" if "\<exists>w. parseIP E (na_Ip a) = Inr w" for a :: NetAddress
    using that by (elim exE) (simp add: ip_def)
  have inner: "\<exists>s2. opt_each (\<lambda>dst. knock_pair E String mode n ?n' ?D src dst) ?D s1 = Some (None, s2) \<and>
      opens (clock s) n s1 (None, s2) (\<Union>dst \<in> set ?D. pair_keys (ip src) (ip dst) dst)"
    if "src \<in> set srcs" "clock s \<le> clock s1" for src s1
    by (rule opt_each_opens[OF pair_opens[OF _ _ _ assms(4)] that(2)])
      (use ip[OF bspec[OF assms(3) that(1)]] ip[OF bspec[OF assms(4)]] in simp_all)
  have "\<exists>s'. opt_each (\<lambda>src. opt_each (\<lambda>dst. knock_pair E String mode n ?n' ?D src dst) ?D) srcs s =
      Some (None, s') \<and> opens (clock s) n s (None, s') (\<Union>src \<in> set srcs. \<Union>dst \<in> set ?D. pair_keys (ip src) (ip dst) dst)"
    by (rule opt_each_opens[OF inner]) simp_all
  then obtain s' where s': "opt_each (\<lambda>src. opt_each (\<lambda>dst. knock_pair E String mode n ?n' ?D src dst) ?D) srcs s =
      Some (None, s')" "opens (clock s) n s (None, s') (\<Union>src \<in> set srcs. \<Union>dst \<in> set ?D. pair_keys (ip src) (ip dst) dst)"
    by (elim exE conjE)
  have run: "HandleAccessControl E String DefaultIp mode srcs dsts n art s =
       Some ((art\<lparr>art_ErrCode := ''0'', art_OpenTime := word_of_int n\<rparr>, None), s')"
    using assms(1,2) s'(1) by (simp add: HandleAccessControl_def Let_def)
  have "live_since (clock s) n (contents s') m k"
    if "src \<in> set srcs" "dst \<in> set ?D" "parseIP E (na_Ip src) = Inr sip" "parseIP E (na_Ip dst) = Inr dip"
      "(m, k) \<in> pair_keys sip dip dst" for src dst sip dip m k
  proof -
    have "ip src = sip" "ip dst = dip" using that(3,4) by (simp_all add: ip_def)
    with that s'(2) show ?thesis by (fastforce simp: opens_def)
  qed
  with run show ?thesis by blast
qed

end

text \<open>C13: A knock opens what it names: with at least one source and one destination, all of them IPv4,
  the handler reports code 0 and leaves, for every pair, a live entry for the whole open time: the
  address pair for any protocol, the full flow for TCP or UDP. Later rules of the same knock, the
  temporary range included, do not remove or shorten it.\<close>

theorem knock_leaves_grants:
  assumes "ac_contract K contents clock events E" and "srcs \<noteq> []" and "dsts \<noteq> []"
    and "\<forall>a \<in> set srcs. \<exists>ip. parseIP E (na_Ip a) = Inr ip"
    and "\<forall>a \<in> set (fill_default DefaultIp dsts). \<exists>ip. parseIP E (na_Ip a) = Inr ip"
  shows "\<exists>s'. HandleAccessControl E String DefaultIp mode srcs dsts n art s =
       Some ((art\<lparr>art_ErrCode := ''0'', art_OpenTime := word_of_int n\<rparr>, None), s') \<and>
     (\<forall>src \<in> set srcs. \<forall>dst \<in> set (fill_default DefaultIp dsts). \<forall>sip dip.
        parseIP E (na_Ip src) = Inr sip \<longrightarrow> parseIP E (na_Ip dst) = Inr dip \<longrightarrow>
        (\<forall>(m, k) \<in> pair_keys sip dip dst. live_since (clock s) n (contents s') m k))"
  by (rule ac_contract.handler_opens[OF assms])

definition sample_src :: NetAddress where
  "sample_src = \<lparr>na_Ip = ''10.0.0.1'', na_Port = 0, na_Protocol = []\<rparr>"

definition sample_dst :: NetAddress where
  "sample_dst = \<lparr>na_Ip = ''10.0.0.2'', na_Port = 8080, na_Protocol = ''udp''\<rparr>"

definition empty_art :: ACOpsResultMsg where
  "empty_art = \<lparr>art_ErrCode = [], art_ErrMsg = [], art_OpenTime = 0\<rparr>"

theorem knock_leaves_grants_witness:
  "\<exists>s'. HandleAccessControl ref_env (\<lambda>_. []) [] PASS_KNOCKIP_WITH_RANGE [sample_src] [sample_dst] 60 empty_art
       empty_state = Some ((empty_art\<lparr>art_ErrCode := ''0'', art_OpenTime := 60\<rparr>, None), s') \<and>
     live_since 1000 60 (ref_contents s') Spp (enc_whitelist_key \<lparr>wk_src_ip = 0x0100000A,
       wk_dst_ip = 0x0200000A, wk_dst_port = bswap16 8080, wk_protocol = 17\<rparr>)"
proof -
  have k: "(Spp, enc_whitelist_key \<lparr>wk_src_ip = 0x0100000A, wk_dst_ip = 0x0200000A,
      wk_dst_port = bswap16 8080, wk_protocol = 17\<rparr>) \<in> pair_keys 0x0100000A 0x0200000A sample_dst"
    by (simp add: pair_keys_def sample_dst_def)
  have ips: "parseIP ref_env (na_Ip sample_src) = Inr 0x0100000A" "parseIP ref_env (na_Ip sample_dst) = Inr 0x0200000A"
    by (simp_all add: sample_src_def sample_dst_def sample_ips)
  have h1: "\<forall>a \<in> set [sample_src]. \<exists>ip. parseIP ref_env (na_Ip a) = Inr ip"
    using ips(1) by simp
  have h2: "\<forall>a \<in> set (fill_default [] [sample_dst]). \<exists>ip. parseIP ref_env (na_Ip a) = Inr ip"
    using ips(2) by (simp add: fill_default_def)
  have "\<exists>s'. HandleAccessControl ref_env (\<lambda>_. []) [] PASS_KNOCKIP_WITH_RANGE [sample_src] [sample_dst] 60 empty_art
       empty_state = Some ((empty_art\<lparr>art_ErrCode := ''0'', art_OpenTime := word_of_int 60\<rparr>, None), s') \<and>
    (\<forall>src \<in> set [sample_src]. \<forall>dst \<in> set (fill_default [] [sample_dst]). \<forall>sip dip.
        parseIP ref_env (na_Ip src) = Inr sip \<longrightarrow> parseIP ref_env (na_Ip dst) = Inr dip \<longrightarrow>
        (\<forall>(m, k) \<in> pair_keys sip dip dst. live_since (rs_clock empty_state) 60 (ref_contents s') m k))"
    by (rule knock_leaves_grants[OF ref_ac.ac_contract_axioms _ _ h1 h2]) (rule list.distinct)+
  then obtain s' where s': "HandleAccessControl ref_env (\<lambda>_. []) [] PASS_KNOCKIP_WITH_RANGE [sample_src] [sample_dst] 60
       empty_art empty_state = Some ((empty_art\<lparr>art_ErrCode := ''0'', art_OpenTime := word_of_int 60\<rparr>, None), s')"
    "\<forall>src \<in> set [sample_src]. \<forall>dst \<in> set (fill_default [] [sample_dst]). \<forall>sip dip.
        parseIP ref_env (na_Ip src) = Inr sip \<longrightarrow> parseIP ref_env (na_Ip dst) = Inr dip \<longrightarrow>
        (\<forall>(m, k) \<in> pair_keys sip dip dst. live_since (rs_clock empty_state) 60 (ref_contents s') m k)"
    by (elim exE conjE)
  have m: "sample_src \<in> set [sample_src]" "sample_dst \<in> set (fill_default [] [sample_dst])"
    by (simp_all add: fill_default_def)
  have "live_since (rs_clock empty_state) 60 (ref_contents s') Spp (enc_whitelist_key \<lparr>wk_src_ip = 0x0100000A,
       wk_dst_ip = 0x0200000A, wk_dst_port = bswap16 8080, wk_protocol = 17\<rparr>)"
    using bspec[OF s'(2)[THEN bspec, OF m(1), THEN bspec, OF m(2), THEN spec, THEN spec, THEN mp, OF ips(1),
        THEN mp, OF ips(2)] k] unfolding prod.case .
  then have "live_since 1000 60 (ref_contents s') Spp (enc_whitelist_key \<lparr>wk_src_ip = 0x0100000A,
       wk_dst_ip = 0x0200000A, wk_dst_port = bswap16 8080, wk_protocol = 17\<rparr>)"
    by (simp add: empty_state_def)
  with s'(1) show ?thesis unfolding of_int_numeral by (intro exI conjI)
qed

subsection \<open>Refusals\<close>

lemma opt_each_idle: "(\<And>x s. x \<in> set xs \<Longrightarrow> f x s = Some (None, s)) \<Longrightarrow> opt_each f xs s = Some (None, s)"
  by (induction xs) auto

text \<open>What a knock cannot open: without a source or a destination the handler refuses with code
  53002 and writes nothing; but destinations whose protocol is none of TCP, UDP and any (for
  instance \<^verbatim>\<open>icmp\<close>) are skipped in silence: in the mode without range the handler reports code 0 and
  the full open time although it opened nothing.\<close>

lemma knock_without_effect:
  "(srcs = [] \<or> dsts = [] \<longrightarrow> HandleAccessControl E String DefaultIp mode srcs dsts n art s =
      Some ((art\<lparr>art_ErrCode := ''53002'', art_ErrMsg := ''pass address is empty''\<rparr>,
        Some ErrACEmptyPassAddress), s)) \<and>
   (srcs \<noteq> [] \<and> dsts \<noteq> [] \<and>
      (\<forall>d \<in> set dsts. \<not> is_any (na_Protocol d) \<and> na_Protocol d \<noteq> ''tcp'' \<and> na_Protocol d \<noteq> ''udp'') \<longrightarrow>
    HandleAccessControl E String DefaultIp PASS_KNOCK_IP srcs dsts n art s =
      Some ((art\<lparr>art_ErrCode := ''0'', art_OpenTime := word_of_int n\<rparr>, None), s))"
proof (intro conjI impI)
  assume "srcs = [] \<or> dsts = []"
  then show "HandleAccessControl E String DefaultIp mode srcs dsts n art s =
      Some ((art\<lparr>art_ErrCode := ''53002'', art_ErrMsg := ''pass address is empty''\<rparr>,
        Some ErrACEmptyPassAddress), s)"
    by (auto simp: HandleAccessControl_def)
next
  assume a: "srcs \<noteq> [] \<and> dsts \<noteq> [] \<and>
      (\<forall>d \<in> set dsts. \<not> is_any (na_Protocol d) \<and> na_Protocol d \<noteq> ''tcp'' \<and> na_Protocol d \<noteq> ''udp'')"
  let ?D = "fill_default DefaultIp dsts"
  have idle: "knock_pair E String PASS_KNOCK_IP n n' ?D src d s = Some (None, s)" if "d \<in> set ?D" for d src s n'
  proof -
    have "\<not> is_any (na_Protocol d)" "na_Protocol d \<noteq> ''tcp''" "na_Protocol d \<noteq> ''udp''"
      using a that by (auto simp: fill_default_def split: if_splits)
    then show ?thesis by (simp add: knock_pair_def knock_proto_def knock_icmp_def split: option.split)
  qed
  show "HandleAccessControl E String DefaultIp PASS_KNOCK_IP srcs dsts n art s =
      Some ((art\<lparr>art_ErrCode := ''0'', art_OpenTime := word_of_int n\<rparr>, None), s)"
    using a by (simp add: HandleAccessControl_def Let_def opt_each_idle idle)
qed

end
