(* ===== verification/Audit_Log.thy ===== *)
theory Audit_Log
  imports Event_Log Samples
begin

text \<open>
  From the filter to the log files: which records one run of the filter hands to the perf buffer,
  and what the reader of the access controller makes of them.
\<close>

text \<open>
  The records of one run that ended with verdict \<open>a\<close>: none, or one of the packet's flow whose
  action says whether the packet passed.
\<close>

definition verdict_action :: "xdp_action \<Rightarrow> 8 word" where
  "verdict_action a = (if a = XDP_PASS then 1 else 0)"

definition logs_verdict :: "headers \<Rightarrow> xdp_action \<Rightarrow> byte list list \<Rightarrow> byte list list \<Rightarrow>
    64 word \<Rightarrow> 64 word \<Rightarrow> bool" where
  "logs_verdict h a evs evs' t0 t1 \<longleftrightarrow> evs' = evs \<or>
     (\<exists>ts. t0 \<le> ts \<and> ts \<le> t1 \<and> evs' = evs @ [event_of ts (verdict_action a) h])"

lemma logs_verdict_same [simp]: "logs_verdict h a evs evs t0 t1"
  by (simp add: logs_verdict_def)

lemma logs_verdict_mono:
  "logs_verdict h a evs evs' t0 t1 \<Longrightarrow> t0' \<le> t0 \<Longrightarrow> t1 \<le> t1' \<Longrightarrow> logs_verdict h a evs evs' t0' t1'"
  unfolding logs_verdict_def by (blast intro: order_trans)

context bpf_kernel_contract
begin

lemma submit_event_verdict:
  "logs_verdict h a (events s) (events (snd (submit_event K (verdict_action a) h s)))
     (clock s) (clock (snd (submit_event K (verdict_action a) h s)))"
  using submit_event_logs[of s "verdict_action a" h]
  by (auto simp: logs_verdict_def event_of_def)

lemma accept_flow_events:
  "events (accept_flow K h e now s) = events (snd (submit_event K 1 h s))"
  "clock (snd (submit_event K 1 h s)) \<le> clock (accept_flow K h e now s)"
proof -
  let ?s1 = "snd (submit_event K 1 h s)"
  obtain ts s2 where t2: "bpf_ktime_get_ns K ?s1 = (ts, s2)" "clock ?s1 \<le> ts" "clock s2 = ts"
    "contents s2 = contents ?s1" "events s2 = events ?s1" by (rule ktime_obtain)
  obtain lts s3 where t3: "bpf_ktime_get_ns K s2 = (lts, s3)" "clock s2 \<le> lts" "clock s3 = lts"
    "contents s3 = contents s2" "events s3 = events s2" by (rule ktime_obtain)
  show "events (accept_flow K h e now s) = events ?s1" "clock ?s1 \<le> clock (accept_flow K h e now s)"
    using t2 t3 by (simp_all add: accept_flow_def update_frame)
qed

lemma block_logs:
  assumes "acl_block K h now m key val s = (r, s')"
  shows "case r of Continue _ \<Rightarrow> s' = s
    | Return a \<Rightarrow> logs_verdict h a (events s) (events s') (clock s) (clock s')"
proof -
  have "logs_verdict h XDP_PASS (events s) (events (accept_flow K h e now s)) (clock s)
      (clock (accept_flow K h e now s))" for e
    using submit_event_verdict[where h = h and a = XDP_PASS and s = s] accept_flow_events[where h = h and e = e and now = now and s = s]
    by (auto simp: verdict_action_def elim: logs_verdict_mono)
  with assms show ?thesis
    by (auto simp: acl_block_def delete_frame split: option.splits if_splits)
qed

lemma chain_logs:
  "acl_chain K h now sls s = (r, s') \<Longrightarrow> (case r of Continue _ \<Rightarrow> s' = s
    | Return a \<Rightarrow> logs_verdict h a (events s) (events s') (clock s) (clock s'))"
proof (induction sls)
  case Nil
  then show ?case by auto
next
  case (Cons sl sls)
  obtain m key val where sl: "sl = (m, key, val)" by (cases sl)
  obtain r1 s1 where b: "acl_block K h now m key val s = (r1, s1)" by fastforce
  from block_logs[OF b] Cons show ?case
    by (cases r1) (auto simp: sl b)
qed

lemma stages_log:
  assumes "xdp_stages K pkt h s = Some (Return a, s')"
  shows "logs_verdict h a (events s) (events s') (clock s) (clock s')"
proof -
  obtain now s1 where t: "bpf_ktime_get_ns K s = (now, s1)" "clock s \<le> now" "clock s1 = now"
    "contents s1 = contents s" "events s1 = events s" by (rule ktime_obtain)
  obtain r2 s2 where i: "xdp_icmp K pkt h s1 = Some (r2, s2)" "clock s1 \<le> clock s2" "events s2 = events s1"
    using icmp_stage[of pkt h s1] by (meson order_trans)
  obtain r3 s3 where c: "xdp_conntrack K h s2 = Some (r3, s3)" "clock s2 \<le> clock s3" "events s3 = events s2"
    using conntrack_stage[of h s2] by (meson order_trans)
  obtain s5 where l: "clock s5 = clock s3" "events s5 = events s3"
    "xdp_allowlists K h now s3 = Some (acl_chain K h now (acl_slots (contents s3) h) s5)"
    using allowlists_chain[of s3 h now] by blast
  obtain r4 s4 where ch: "acl_chain K h now (acl_slots (contents s3) h) s5 = (r4, s4)" by fastforce
  have start: "clock s \<le> clock s5" "events s5 = events s" using t i(2,3) c(2,3) l by auto
  show ?thesis
  proof (cases "\<exists>b. r2 = Return b \<or> r3 = Return b")
    case True
    then have "events s' = events s"
      using assms t i c by (cases r2; cases r3) (auto simp: xdp_stages_def)
    then show ?thesis by simp
  next
    case False
    then have run: "xdp_stages K pkt h s = (case r4 of Return b \<Rightarrow> Some (Return b, s4)
        | Continue _ \<Rightarrow> Some (Return XDP_DROP, snd (submit_event K 0 h s4)))"
      by (cases r2; cases r3; cases r4) (auto simp: xdp_stages_def t(1) i(1) c(1) l(3) ch)
    show ?thesis
    proof (cases r4)
      case (Return b)
      with run assms chain_logs[OF ch] start show ?thesis by (auto elim: logs_verdict_mono)
    next
      case (Continue u)
      with run assms chain_logs[OF ch] start submit_event_verdict[where h = h and a = XDP_DROP and s = s5] show ?thesis
        by (auto simp: verdict_action_def elim: logs_verdict_mono)
    qed
  qed
qed

lemma prog_log:
  assumes "xdp_white_prog K pkt s = Some (a, s')"
  shows "case xdp_headers pkt of Some (Continue h) \<Rightarrow> logs_verdict h a (events s) (events s') (clock s) (clock s')
    | _ \<Rightarrow> events s' = events s"
  using assms stages_log
  by (auto simp: xdp_white_prog_def split: option.splits flow.splits)

end

text \<open>How a line of the log for a packet of flow \<open>h\<close> starts.\<close>

definition line_start :: "(64 word \<Rightarrow> string) \<Rightarrow> string \<Rightarrow> 64 word \<Rightarrow> string \<Rightarrow> headers \<Rightarrow> string" where
  "line_start eventTime acId ts what h = eventTime ts @ '' '' @ acId @ '' [NHP-'' @ what @
     ''] SRC='' @ dotted (le_bytes 4 (h_saddr h)) @ '' DST='' @ dotted (le_bytes 4 (h_daddr h))"

text \<open>C28: The log is truthful end to end: one run of the filter hands over at most one record, only for
  a packet its headers do not settle, and the access controller writes the record to the accept
  log as ACCEPT when the packet passed and to the deny log as DENY when it was dropped, with the
  packet's addresses.\<close>

theorem audit_log_truthful:
  assumes "bpf_kernel_contract K contents clock events"
    and "xdp_white_prog K pkt s = Some (a, s')"
  shows "events s' = events s \<or>
     (\<exists>h ts rec. xdp_headers pkt = Some (Continue h) \<and> events s' = events s @ [rec] \<and>
        clock s \<le> ts \<and> ts \<le> clock s' \<and>
        (\<forall>pad. \<exists>rest. read_event eventTime acId (rec @ pad) = Some
           (if a = XDP_PASS then AcLogger else DenyLogger,
            line_start eventTime acId ts (if a = XDP_PASS then ''ACCEPT'' else ''DENY'') h @ rest)))"
proof (cases "events s' = events s")
  case False
  with bpf_kernel_contract.prog_log[OF assms] obtain h ts where h: "xdp_headers pkt = Some (Continue h)"
    "clock s \<le> ts" "ts \<le> clock s'" "events s' = events s @ [event_of ts (verdict_action a) h]"
    by (auto simp: logs_verdict_def split: option.splits flow.splits)
  show ?thesis
    by (rule disjI2, rule exI[of _ h], rule exI[of _ ts], rule exI[of _ "event_of ts (verdict_action a) h"])
      (auto simp: h read_event_of action_string_def verdict_action_def line_start_def)
qed simp

lemma empty_run_events:
  "\<exists>s'. xdp_white_prog ref_kernel udp_packet empty_state = Some (XDP_DROP, s') \<and> rs_events s' \<noteq> []"
  by (simp add: run_ref udp_packet_headers udp_flow_simps IPPROTO_ICMP_def)

theorem audit_log_truthful_witness:
  "\<exists>s' rec line. xdp_white_prog ref_kernel udp_packet empty_state = Some (XDP_DROP, s') \<and>
     rs_events s' = [rec] \<and> read_event (\<lambda>_. []) [] rec = Some (DenyLogger, line)"
proof -
  obtain s' where r: "xdp_white_prog ref_kernel udp_packet empty_state = Some (XDP_DROP, s')"
    and ev: "rs_events s' \<noteq> []"
    using empty_run_events by blast
  have ne: "rs_events s' \<noteq> rs_events empty_state" and e: "rs_events empty_state = []"
    using ev by (simp_all add: empty_state_def)
  show ?thesis
    using audit_log_truthful[OF rk.bpf_kernel_contract_axioms r, where eventTime = "\<lambda>_. []" and acId = "[]"]
  proof (elim disjE exE conjE)
    assume "rs_events s' = rs_events empty_state"
    with ne show ?thesis by (rule notE)
  next
    fix h ts rec
    assume rec: "rs_events s' = rs_events empty_state @ [rec]"
      and line: "\<forall>pad. \<exists>rest. read_event (\<lambda>_. []) [] (rec @ pad) = Some
        (if XDP_DROP = XDP_PASS then AcLogger else DenyLogger, line_start (\<lambda>_. []) [] ts
          (if XDP_DROP = XDP_PASS then ''ACCEPT'' else ''DENY'') h @ rest)"
    from spec[OF line, of "[]"] have "\<exists>x. read_event (\<lambda>_. []) [] rec = Some (DenyLogger, x)"
      by (simp only: append_Nil2 xdp_action.distinct if_False) (erule exE, rule exI)
    with r rec e show ?thesis by (elim exE) (intro exI conjI, assumption, simp, assumption)
  qed
qed

end
