(* ===== verification/Device_Def.thy ===== *)
theory Device_Def
  imports CTypes
begin

text \<open>
  The C header of the device SDK, \<^verbatim>\<open>nhp/core/main/nhpdevicedef.h\<close>: its enumerations, with the values
  C gives to the enumerators without one, and its structures, whose layout the Go side relies on
  when it casts pointers.
\<close>

definition NHP_COOKIE_SIZE :: nat where "NHP_COOKIE_SIZE = 32"
definition NHP_PUBLIC_KEY_SIZE :: nat where "NHP_PUBLIC_KEY_SIZE = 64"

definition enum_NhpDeviceType :: c_enum where
  "enum_NhpDeviceType = enum_values 0 [
     (''NHP_AGENT'', Some 1), (''NHP_SERVER'', None), (''NHP_AC'', None)]"

definition enum_NhpCipherScheme :: c_enum where
  "enum_NhpCipherScheme = enum_values 0 [
     (''NHP_CIPHER_SCHEME_CURVE'', None), (''NHP_CIPHER_SCHEME_GMSM'', None)]"

definition enum_NhpMsgType :: c_enum where
  "enum_NhpMsgType = enum_values 0 [
     (''NHP_KPL'', Some 0), (''NHP_KNK'', None), (''NHP_ACK'', None), (''NHP_AOP'', None),
     (''NHP_ART'', None), (''NHP_LST'', None), (''NHP_LRT'', None), (''NHP_COK'', None),
     (''NHP_RKN'', None), (''NHP_RLY'', None), (''NHP_AOL'', None), (''NHP_AAK'', None),
     (''NHP_OTP'', None), (''NHP_REG'', None), (''NHP_RAK'', None), (''NHP_ACC'', None),
     (''NHP_EXT'', None)]"

definition typedef_NhpResult :: ctype where
  "typedef_NhpResult = Struct False [
     Field ''handle'' (Scalar CULong), Field ''errCode'' (Scalar CInt),
     Field ''errMsg'' (Ptr ''char'')]"

definition typedef_NhpEncryptParams :: ctype where
  "typedef_NhpEncryptParams = Struct False [
     Field ''cipherScheme'' (Scalar CUChar), Field ''compress'' (Scalar CUChar),
     Field ''reserved0'' (Scalar CUChar), Field ''reserved1'' (Scalar CUChar),
     Field ''assignTransactionId'' (Scalar CULongLong),
     Field ''cookie'' (Arr (Scalar CUChar) NHP_COOKIE_SIZE)]"

definition typedef_NhpEncryptResult :: ctype where
  "typedef_NhpEncryptResult = Struct False [
     Field ''errCode'' (Scalar CInt), Field ''packetLen'' (Scalar CInt),
     Field ''transactionId'' (Scalar CULongLong), Field ''errMsg'' (Ptr ''char''),
     Field ''packet'' (Ptr ''unsigned char'')]"

definition typedef_NhpPubicKey :: ctype where
  "typedef_NhpPubicKey = Struct False [
     Field ''data'' (Arr (Scalar CUChar) NHP_PUBLIC_KEY_SIZE)]"

definition typedef_NhpCookieStore :: ctype where
  "typedef_NhpCookieStore = Struct False [
     Field ''currCookie'' (Arr (Scalar CUChar) NHP_COOKIE_SIZE),
     Field ''prevCookie'' (Arr (Scalar CUChar) NHP_COOKIE_SIZE),
     Field ''lastCookieTime'' (Scalar CLongLong)]"

definition typedef_NhpConnContext :: ctype where
  "typedef_NhpConnContext = Struct False [
     Field ''peerPbk'' (Ptr ''NhpPubicKey''),
     Field ''cookieStore'' (Ptr ''NhpCookieStore''),
     Field ''lastPeerSendTime'' (Ptr ''long long'')]"

definition typedef_NhpDecryptResult :: ctype where
  "typedef_NhpDecryptResult = Struct False [
     Field ''errCode'' (Scalar CInt), Field ''msgType'' (Scalar CInt),
     Field ''msgIdLen'' (Scalar CInt), Field ''dataLen'' (Scalar CInt),
     Field ''msgTransactionId'' (Scalar CULongLong), Field ''errMsg'' (Ptr ''char''),
     Field ''msgId'' (Ptr ''unsigned char''), Field ''data'' (Ptr ''unsigned char'')]"

definition enum_NhpError :: c_enum where
  "enum_NhpError = enum_values 0 [
     (''ERR_NHP_SUCCESS'', Some 0), (''ERR_NHP_DEVICE_NOT_INITIALIZED'', Some 30000),
     (''ERR_NHP_DEVICE_ALREADY_CREATED'', None), (''ERR_NHP_CIPHER_NOT_SUPPORTED'', None),
     (''ERR_NHP_OPERATION_NOT_APPLICABLE'', None),
     (''ERR_NHP_CREATE_DEVICE_FAILED'', None), (''ERR_NHP_CLOSE_DEVICE_FAILED'', None),
     (''ERR_NHP_SDK_RUNTIME_PANIC'', None), (''ERR_NHP_WRONG_CIPHER_SCHEME'', Some 31000),
     (''ERR_NHP_EMPTY_PEER_PUBLIC_KEY'', None),
     (''ERR_NHP_EPHERMAL_ECDH_PEER_FAILED'', None),
     (''ERR_NHP_DEVICE_ECDH_PEER_FAILED'', None), (''ERR_NHP_IDENTITY_TOO_LONG'', None),
     (''ERR_NHP_DATA_COMPRESSION_FAILED'', None),
     (''ERR_NHP_PACKET_SIZE_EXCEEDS_BUFFER'', None),
     (''ERR_NHP_CLOSE_CONNECTION'', Some 32001), (''ERR_NHP_INCORRECT_PACKET_SIZE'', None),
     (''ERR_NHP_MESSAGE_TYPE_NOT_MATCH_DEVICE'', None),
     (''ERR_NHP_SERVER_OVERLOAD'', None), (''ERR_NHP_HMAC_CHECK_FAILED'', None),
     (''ERR_NHP_SERVER_HMAC_CHECK_FAILED'', None),
     (''ERR_NHP_DEVICE_ECDH_EPHERMAL_FAILED'', None),
     (''ERR_NHP_PEER_IDENTITY_VERIFICATION_FAILED'', None),
     (''ERR_NHP_AEAD_DECRYPTION_FAILED'', None),
     (''ERR_NHP_DATA_DECOMPRESSION_FAILED'', None),
     (''ERR_NHP_DEVICE_ECDH_OBTAINED_PEER_FAILED'', None),
     (''ERR_NHP_SERVER_REJECT_WITH_COOKIE'', None),
     (''ERR_NHP_REPLAY_PACKET_RECEIVED'', None), (''ERR_NHP_FLOOD_PACKET_RECEIVED'', None),
     (''ERR_NHP_STALE_PACKET_RECEIVED'', None)]"
subsection \<open>The declarations on the Go side\<close>

text \<open>\<^verbatim>\<open>core.CookieStore\<close> and the array types the SDK casts C pointers to.\<close>

definition go_CookieSize :: nat where "go_CookieSize = 32"
definition go_PublicKeySizeEx :: nat where "go_PublicKeySizeEx = 64"

definition go_CookieStore :: ctype where
  "go_CookieStore = Struct False [
     Field ''CurrCookie'' (Arr (Scalar CUChar) go_CookieSize),
     Field ''PrevCookie'' (Arr (Scalar CUChar) go_CookieSize),
     Field ''LastCookieTime'' (Scalar CLongLong)]"

text \<open>The header types of \<^verbatim>\<open>core/packet.go\<close> and the device types of \<^verbatim>\<open>core/device.go\<close>, both by \<^verbatim>\<open>iota\<close>.\<close>

definition go_header_types :: c_enum where
  "go_header_types = enum_values 0 [
     (''NHP_KPL'', Some 0), (''NHP_KNK'', None), (''NHP_ACK'', None), (''NHP_AOP'', None),
     (''NHP_ART'', None), (''NHP_LST'', None), (''NHP_LRT'', None), (''NHP_COK'', None),
     (''NHP_RKN'', None), (''NHP_RLY'', None), (''NHP_AOL'', None), (''NHP_AAK'', None),
     (''NHP_OTP'', None), (''NHP_REG'', None), (''NHP_RAK'', None), (''NHP_ACC'', None),
     (''NHP_EXT'', None), (''NHP_DRG'', None), (''NHP_DAK'', None), (''NHP_DAR'', None),
     (''NHP_DAG'', None), (''NHP_DSA'', None), (''NHP_DAV'', None), (''NHP_DWR'', None),
     (''NHP_DWA'', None), (''NHP_DOL'', None), (''NHP_DBA'', None), (''DHP_KNK'', None)]"

definition go_device_types :: c_enum where
  "go_device_types = enum_values 0 [
     (''NHP_NO_DEVICE'', Some 0), (''NHP_AGENT'', None), (''NHP_SERVER'', None), (''NHP_AC'', None),
     (''NHP_RELAY'', None), (''NHP_DB'', None), (''DHP_AGENT'', None)]"

text \<open>The cipher schemes of \<^verbatim>\<open>common/packet.go\<close>.\<close>

definition go_cipher_schemes :: c_enum where
  "go_cipher_schemes = enum_values 0 [(''CIPHER_SCHEME_GMSM'', None), (''CIPHER_SCHEME_CURVE'', None)]"

lemma header_type_values:
  "map snd enum_NhpMsgType = [0..16]" "map snd go_header_types = [0..27]"
  "map snd enum_NhpDeviceType = [1, 2, 3]"
  by code_simp+

text \<open>The C header and the Go packages agree on message types and device types, every error code is
  unambiguous, and the cookie store and public key that Go reads through a cast pointer have the size
  and the member offsets of the Go types. On the cipher schemes they disagree: each side gives
  a scheme the number of the other.\<close>

lemma c_header_agrees:
  "list_all (\<lambda>(nm, v). enum_value go_header_types nm = Some v) enum_NhpMsgType \<and>
   list_all (\<lambda>(nm, v). enum_value go_device_types nm = Some v) enum_NhpDeviceType \<and>
   enum_wf enum_NhpError \<and> distinct (map snd enum_NhpError) \<and>
   sizeof typedef_NhpCookieStore = sizeof go_CookieStore \<and>
   member typedef_NhpCookieStore ''prevCookie'' = member go_CookieStore ''PrevCookie'' \<and>
   member typedef_NhpCookieStore ''lastCookieTime'' = member go_CookieStore ''LastCookieTime'' \<and>
   sizeof typedef_NhpPubicKey = go_PublicKeySizeEx \<and>
   enum_value enum_NhpCipherScheme ''NHP_CIPHER_SCHEME_CURVE'' = enum_value go_cipher_schemes ''CIPHER_SCHEME_GMSM'' \<and>
   enum_value enum_NhpCipherScheme ''NHP_CIPHER_SCHEME_GMSM'' = enum_value go_cipher_schemes ''CIPHER_SCHEME_CURVE''"
  by code_simp

end
