(* ===== verification/Nhp_Packet.thy ===== *)
theory Nhp_Packet
  imports Device_Def
begin

text \<open>
  The packet format of the NHP protocol: message and device types and who may send what
  (\<^verbatim>\<open>nhp/core/packet.go\<close>), and the header shared by both cipher schemes
  (\<^verbatim>\<open>nhp/core/scheme/curve/header.go\<close>, \<^verbatim>\<open>gmsm/header.go\<close>), which differ in the size of a public key and in
  the flags they set. A header is a view of the first bytes of a buffer: a getter reads a slice, a
  setter overwrites one. Random numbers are arguments. A Go function with an error result returns
  \<open>Ok\<close> or \<open>Err\<close>; \<open>Panic\<close> is a run-time panic.
\<close>

subsection \<open>Results\<close>

text \<open>\<open>CoreError\<close> is a \<^verbatim>\<open>*core.Error\<close>, named by its constant of the C header; \<open>OtherError\<close> is any other \<^verbatim>\<open>error\<close>.\<close>

datatype nhp_error = CoreError string | OtherError string

datatype 'a res = Ok 'a | Err nhp_error | Panic

text \<open>
  \<^verbatim>\<open>SetPrivateKey\<close> of both curves slices the key as \<^verbatim>\<open>prk[:PrivateKeySize]\<close>, which panics unless the slice has
  room for so many bytes. What \<^verbatim>\<open>base64.StdEncoding.DecodeString\<close> returns has room for three bytes per four
  characters of the text.
\<close>

definition PrivateKeySize :: nat where "PrivateKeySize = 32"

definition DecodedLen :: "string \<Rightarrow> nat" where "DecodedLen s = length s div 4 * 3"

definition SetPrivateKey_panics :: "string \<Rightarrow> bool" where
  "SetPrivateKey_panics privateKeyBase64 \<longleftrightarrow> DecodedLen privateKeyBase64 < PrivateKeySize"

lemma SetPrivateKey_panics_length: "SetPrivateKey_panics s \<longleftrightarrow> length s < 44"
proof -
  have "n div 4 * 3 < 32 \<longleftrightarrow> n < 44" for n :: nat by presburger
  then show ?thesis by (simp add: SetPrivateKey_panics_def DecodedLen_def PrivateKeySize_def)
qed

fun res_bind :: "'a res \<Rightarrow> ('a \<Rightarrow> 'b res) \<Rightarrow> 'b res" where
  "res_bind (Ok a) f = f a"
| "res_bind (Err e) f = Err e"
| "res_bind Panic f = Panic"

definition res_of :: "'a option \<Rightarrow> 'a res" where
  "res_of x = (case x of Some a \<Rightarrow> Ok a | None \<Rightarrow> Panic)"

lemma res_of_simps [simp]: "res_of (Some a) = Ok a" "res_of None = Panic"
  by (simp_all add: res_of_def)

lemma res_bind_Ok_iff: "res_bind x f = Ok b \<longleftrightarrow> (\<exists>a. x = Ok a \<and> f a = Ok b)"
  by (cases x) auto

lemma res_of_Ok_iff [simp]: "res_of x = Ok a \<longleftrightarrow> x = Some a"
  by (cases x) auto

subsection \<open>Slices and byte order\<close>

definition slice_of :: "byte list \<Rightarrow> nat \<Rightarrow> nat \<Rightarrow> byte list" where
  "slice_of bs i j = take (j - i) (drop i bs)"

text \<open>\<^verbatim>\<open>bs[i:j]\<close> of a slice without spare capacity.\<close>

definition go_slice :: "byte list \<Rightarrow> nat \<Rightarrow> nat \<Rightarrow> byte list option" where
  "go_slice bs i j = (if i \<le> j \<and> j \<le> length bs then Some (slice_of bs i j) else None)"

text \<open>Overwriting bytes from an offset on.\<close>

definition put_at :: "nat \<Rightarrow> byte list \<Rightarrow> byte list \<Rightarrow> byte list" where
  "put_at i new bs = take i bs @ new @ drop (i + length new) bs"

definition be_word :: "byte list \<Rightarrow> 'a::len word" where
  "be_word bs = le_word (rev bs)"

definition be_bytes :: "nat \<Rightarrow> 'a::len word \<Rightarrow> byte list" where
  "be_bytes n w = rev (le_bytes n w)"

lemma length_be_bytes [simp]: "length (be_bytes n w) = n"
  by (simp add: be_bytes_def)

lemma be_word_be_bytes [simp]: "LENGTH('a::len) \<le> 8 * n \<Longrightarrow> be_word (be_bytes n w) = (w :: 'a word)"
  by (simp add: be_word_def be_bytes_def le_word_le_bytes)

lemma length_put_at [simp]: "i + length new \<le> length bs \<Longrightarrow> length (put_at i new bs) = length bs"
  by (simp add: put_at_def)

lemma length_slice_of: "j \<le> length bs \<Longrightarrow> length (slice_of bs i j) = j - i"
  by (simp add: slice_of_def)

text \<open>Reading back what was written, and reading next to it.\<close>

lemma slice_put_same: "i + length new \<le> length bs \<Longrightarrow> j = i + length new \<Longrightarrow> slice_of (put_at i new bs) i j = new"
  by (simp add: slice_of_def put_at_def)

lemma slice_put_before: "b \<le> i \<Longrightarrow> i \<le> length bs \<Longrightarrow> slice_of (put_at i new bs) a b = slice_of bs a b"
  by (cases "a \<le> b") (simp_all add: slice_of_def put_at_def drop_take[symmetric] min_def)

lemma slice_put_after:
  "i + length new \<le> a \<Longrightarrow> i \<le> length bs \<Longrightarrow> slice_of (put_at i new bs) a b = slice_of bs a b"
  by (simp add: slice_of_def put_at_def min_def)

lemma slice_take: "b \<le> n \<Longrightarrow> slice_of (take n bs) a b = slice_of bs a b"
  by (cases "a \<le> b") (simp_all add: slice_of_def drop_take[symmetric] min_def)

lemma slice_all: "slice_of bs 0 n = take n bs"
  by (simp add: slice_of_def)

subsection \<open>Message and device types\<close>

definition NHP_KPL :: int where "NHP_KPL = 0"
definition NHP_KNK :: int where "NHP_KNK = 1"
definition NHP_ACK :: int where "NHP_ACK = 2"
definition NHP_AOP :: int where "NHP_AOP = 3"
definition NHP_ART :: int where "NHP_ART = 4"
definition NHP_LST :: int where "NHP_LST = 5"
definition NHP_LRT :: int where "NHP_LRT = 6"
definition NHP_COK :: int where "NHP_COK = 7"
definition NHP_RKN :: int where "NHP_RKN = 8"
definition NHP_RLY :: int where "NHP_RLY = 9"
definition NHP_AOL :: int where "NHP_AOL = 10"
definition NHP_AAK :: int where "NHP_AAK = 11"
definition NHP_OTP :: int where "NHP_OTP = 12"
definition NHP_REG :: int where "NHP_REG = 13"
definition NHP_RAK :: int where "NHP_RAK = 14"
definition NHP_ACC :: int where "NHP_ACC = 15"
definition NHP_EXT :: int where "NHP_EXT = 16"
definition NHP_DRG :: int where "NHP_DRG = 17"
definition NHP_DAK :: int where "NHP_DAK = 18"
definition NHP_DAR :: int where "NHP_DAR = 19"
definition NHP_DAG :: int where "NHP_DAG = 20"
definition NHP_DSA :: int where "NHP_DSA = 21"
definition NHP_DAV :: int where "NHP_DAV = 22"
definition NHP_DWR :: int where "NHP_DWR = 23"
definition NHP_DWA :: int where "NHP_DWA = 24"
definition NHP_DOL :: int where "NHP_DOL = 25"
definition NHP_DBA :: int where "NHP_DBA = 26"
definition DHP_KNK :: int where "DHP_KNK = 27"

lemmas header_type_defs = NHP_KPL_def NHP_KNK_def NHP_ACK_def NHP_AOP_def NHP_ART_def NHP_LST_def NHP_LRT_def NHP_COK_def
  NHP_RKN_def NHP_RLY_def NHP_AOL_def NHP_AAK_def NHP_OTP_def NHP_REG_def NHP_RAK_def NHP_ACC_def
  NHP_EXT_def NHP_DRG_def NHP_DAK_def NHP_DAR_def NHP_DAG_def NHP_DSA_def NHP_DAV_def NHP_DWR_def
  NHP_DWA_def NHP_DOL_def NHP_DBA_def DHP_KNK_def

definition NHP_NO_DEVICE :: int where "NHP_NO_DEVICE = 0"
definition NHP_AGENT :: int where "NHP_AGENT = 1"
definition NHP_SERVER :: int where "NHP_SERVER = 2"
definition NHP_AC :: int where "NHP_AC = 3"
definition NHP_RELAY :: int where "NHP_RELAY = 4"
definition NHP_DB :: int where "NHP_DB = 5"
definition DHP_AGENT :: int where "DHP_AGENT = 6"

lemmas device_type_defs = NHP_NO_DEVICE_def NHP_AGENT_def NHP_SERVER_def NHP_AC_def NHP_RELAY_def NHP_DB_def
  DHP_AGENT_def

definition HeaderTypeToDeviceType :: "int \<Rightarrow> int" where
  "HeaderTypeToDeviceType t =
     (if t \<in> {NHP_KNK, NHP_LST, NHP_RKN, NHP_OTP, NHP_REG, NHP_ACC, NHP_EXT} then NHP_AGENT
      else if t \<in> {NHP_ACK, NHP_AOP, NHP_LRT, NHP_COK, NHP_AAK, NHP_RAK, NHP_DAK, NHP_DAG, NHP_DBA, NHP_DWR, NHP_DSA}
        then NHP_SERVER
      else if t \<in> {NHP_AOL, NHP_ART} then NHP_AC
      else if t = NHP_RLY then NHP_RELAY
      else if t \<in> {NHP_DRG, NHP_DOL, NHP_DWA} then NHP_DB
      else if t \<in> {NHP_DAR, NHP_DAV, DHP_KNK} then DHP_AGENT
      else NHP_NO_DEVICE)"

definition CheckRecvHeaderType :: "int \<Rightarrow> int \<Rightarrow> bool" where
  "CheckRecvHeaderType deviceType t =
     (if deviceType = NHP_AGENT then t \<in> {NHP_ACK, NHP_LRT, NHP_COK, NHP_RAK, NHP_DAG, NHP_DSA}
      else if deviceType = NHP_SERVER then
        t \<in> {NHP_REG, NHP_KNK, DHP_KNK, NHP_LST, NHP_RKN, NHP_EXT, NHP_ART, NHP_RLY, NHP_AOL, NHP_OTP, NHP_DRG, NHP_DAR,
          NHP_DAV, NHP_DOL, NHP_DWA}
      else if deviceType = NHP_AC then t \<in> {NHP_AOP, NHP_LRT, NHP_AAK}
      else if deviceType = NHP_RELAY then
        t \<in> {NHP_REG, NHP_KNK, NHP_ACK, NHP_LST, NHP_LRT, NHP_COK, NHP_RKN, NHP_EXT}
      else if deviceType = NHP_DB then t \<in> {NHP_DRG, NHP_DAG, NHP_DAK, NHP_DBA, NHP_DWR}
      else False)"

subsection \<open>The header\<close>

definition CIPHER_SCHEME_GMSM :: int where "CIPHER_SCHEME_GMSM = 0"
definition CIPHER_SCHEME_CURVE :: int where "CIPHER_SCHEME_CURVE = 1"

lemmas scheme_defs = CIPHER_SCHEME_GMSM_def CIPHER_SCHEME_CURVE_def

definition NHP_FLAG_EXTENDEDLENGTH :: "16 word" where "NHP_FLAG_EXTENDEDLENGTH = 1"
definition NHP_FLAG_COMPRESS :: "16 word" where "NHP_FLAG_COMPRESS = 2"
definition NHP_FLAG_CL_PKC :: "16 word" where "NHP_FLAG_CL_PKC = 4"
definition NHP_FLAG_SCHEME_GMSM :: "16 word" where "NHP_FLAG_SCHEME_GMSM = 0"

lemmas flag_defs = NHP_FLAG_EXTENDEDLENGTH_def NHP_FLAG_COMPRESS_def NHP_FLAG_CL_PKC_def NHP_FLAG_SCHEME_GMSM_def

definition HeaderCommonSize :: nat where "HeaderCommonSize = 24"
definition HashSize :: nat where "HashSize = 32"
definition GCMTagSize :: nat where "GCMTagSize = 16"
definition TimestampSize :: nat where "TimestampSize = 8"
definition MaximumIdentitySize :: nat where "MaximumIdentitySize = 64"
definition PacketBufferSize :: nat where "PacketBufferSize = 4096"

lemmas header_size_defs = HeaderCommonSize_def HashSize_def GCMTagSize_def TimestampSize_def MaximumIdentitySize_def

definition pk_size :: "int \<Rightarrow> nat" where
  "pk_size scheme = (if scheme = CIPHER_SCHEME_CURVE then 32 else 64)"

text \<open>Offsets of the members of \<^verbatim>\<open>HeaderCurve\<close> and \<^verbatim>\<open>HeaderGmsm\<close>, and their size.\<close>

definition eph_at :: nat where "eph_at = HeaderCommonSize"
definition static_at :: "int \<Rightarrow> nat" where
  "static_at scheme = eph_at + pk_size scheme + (MaximumIdentitySize + GCMTagSize)"
definition timestamp_at :: "int \<Rightarrow> nat" where
  "timestamp_at scheme = static_at scheme + (pk_size scheme + GCMTagSize)"
definition hmac_at :: "int \<Rightarrow> nat" where
  "hmac_at scheme = timestamp_at scheme + (TimestampSize + GCMTagSize)"
definition header_Size :: "int \<Rightarrow> nat" where
  "header_Size scheme = HeaderCommonSize + pk_size scheme + MaximumIdentitySize + GCMTagSize + pk_size scheme +
     GCMTagSize + TimestampSize + GCMTagSize + HashSize"

lemma header_Size_hmac: "header_Size scheme = hmac_at scheme + HashSize"
  by (simp add: header_Size_def hmac_at_def timestamp_at_def static_at_def eph_at_def)

lemmas at_defs = eph_at_def static_at_def timestamp_at_def hmac_at_def header_Size_def header_size_defs pk_size_def

text \<open>Type and size are masked with a random preamble.\<close>

definition TypeAndPayloadSize :: "byte list \<Rightarrow> int \<times> int" where
  "TypeAndPayloadSize buf =
     (let preamble = be_word (slice_of buf 0 4) :: 32 word;
          tns = preamble XOR be_word (slice_of buf 4 8)
      in (uint (drop_bit 16 (tns AND 0xFFFF0000)), uint (tns AND 0x0000FFFF)))"

definition SetTypeAndPayloadSize :: "32 word \<Rightarrow> int \<Rightarrow> int \<Rightarrow> byte list \<Rightarrow> byte list" where
  "SetTypeAndPayloadSize preamble t s buf =
     (let t32 = word_of_int (push_bit 16 (t AND 0x0000FFFF)) :: 32 word;
          s32 = word_of_int (s AND 0x0000FFFF);
          tns = preamble XOR (s32 OR t32)
      in put_at 4 (be_bytes 4 tns) (put_at 0 (be_bytes 4 preamble) buf))"

definition SetVersion :: "int \<Rightarrow> int \<Rightarrow> byte list \<Rightarrow> byte list" where
  "SetVersion major minor buf = put_at 8 [word_of_int major, word_of_int minor] buf"

definition header_Flag :: "byte list \<Rightarrow> 16 word" where
  "header_Flag buf = be_word (slice_of buf 10 12)"

definition SetFlag :: "int \<Rightarrow> 16 word \<Rightarrow> byte list \<Rightarrow> byte list" where
  "SetFlag scheme flag buf =
     (let flag = (if scheme = CIPHER_SCHEME_CURVE
                  then (flag AND NOT NHP_FLAG_EXTENDEDLENGTH) AND 0x0FFF
                  else ((flag OR NHP_FLAG_EXTENDEDLENGTH) AND 0x0FFF) OR push_bit 12 NHP_FLAG_SCHEME_GMSM)
      in put_at 10 (be_bytes 2 flag) buf)"

definition SetCounter :: "64 word \<Rightarrow> byte list \<Rightarrow> byte list" where
  "SetCounter counter buf = put_at 16 (be_bytes 8 counter) buf"

definition Counter :: "byte list \<Rightarrow> 64 word" where
  "Counter buf = be_word (slice_of buf 16 24)"

definition NonceBytes :: "byte list \<Rightarrow> byte list" where
  "NonceBytes buf = replicate 4 0 @ slice_of buf 16 24"

definition EphermeralBytes :: "int \<Rightarrow> byte list \<Rightarrow> byte list" where
  "EphermeralBytes scheme buf = slice_of buf eph_at (eph_at + pk_size scheme)"

definition StaticBytes :: "int \<Rightarrow> byte list \<Rightarrow> byte list" where
  "StaticBytes scheme buf = slice_of buf (static_at scheme) (timestamp_at scheme)"

definition TimestampBytes :: "int \<Rightarrow> byte list \<Rightarrow> byte list" where
  "TimestampBytes scheme buf = slice_of buf (timestamp_at scheme) (hmac_at scheme)"

definition HMACBytes :: "int \<Rightarrow> byte list \<Rightarrow> byte list" where
  "HMACBytes scheme buf = slice_of buf (hmac_at scheme) (header_Size scheme)"

subsection \<open>Packets\<close>

text \<open>The header a received packet is read as, by its flags.\<close>

definition Packet_Header :: "byte list \<Rightarrow> int res" where
  "Packet_Header content = res_of (map_option (\<lambda>fl.
     if (be_word fl :: 16 word) AND NHP_FLAG_EXTENDEDLENGTH = 0 then CIPHER_SCHEME_CURVE else CIPHER_SCHEME_GMSM)
     (go_slice content 10 12))"

definition HeaderTypeAndSize :: "byte list \<Rightarrow> (int \<times> int) res" where
  "HeaderTypeAndSize content = res_of (map_option (\<lambda>_. TypeAndPayloadSize content) (go_slice content 4 8))"

definition RecvPrecheck :: "int \<Rightarrow> byte list \<Rightarrow> (int \<times> int) res" where
  "RecvPrecheck deviceType content = res_bind (Packet_Header content) (\<lambda>scheme.
     res_bind (HeaderTypeAndSize content) (\<lambda>(t, s).
       if t = NHP_KPL then
         (if s = 0 then Ok (t, s) else Err (OtherError ''keepalive packet size is incorrect''))
       else if \<not> CheckRecvHeaderType deviceType t then Err (OtherError ''packet header type does not match device'')
       else if int (length content) \<noteq> int (header_Size scheme) + s then
         Err (OtherError ''packet total size is incorrect'')
       else Ok (t, s)))"

subsection \<open>Round trips of the header fields\<close>

lemma mask_words: "(0x0000FFFF :: 32 word) = mask 16" "(0xFFFF0000 :: 32 word) = push_bit 16 (mask 16)"
  by (simp_all add: mask_eq_exp_minus_1)

lemma mask_int: "0 \<le> n \<Longrightarrow> n < 2 ^ 16 \<Longrightarrow> n AND 0x0000FFFF = (n :: int)"
  using take_bit_int_eq_self[of n 16] by (simp add: take_bit_eq_mask mask_eq_exp_minus_1)

lemma tns_split:
  fixes t s :: int
  assumes "0 \<le> t" "t < 2 ^ 16" "0 \<le> s" "s < 2 ^ 16"
  shows "uint (drop_bit 16 ((word_of_int s OR word_of_int (push_bit 16 t) :: 32 word) AND push_bit 16 (mask 16))) = t"
    and "uint ((word_of_int s OR word_of_int (push_bit 16 t) :: 32 word) AND mask 16) = s"
proof -
  have small: "\<not> bit k n" if "0 \<le> k" "k < 2 ^ 16" "16 \<le> n" for k :: int and n
    using that take_bit_int_eq_self[of k 16] by (metis bit_take_bit_iff not_le)
  have bits: "bit t n \<Longrightarrow> n < 16" "bit s n \<Longrightarrow> n < 16" for n
    using small[OF assms(1,2)] small[OF assms(3,4)] by (meson not_le)+
  have "drop_bit 16 ((word_of_int s OR word_of_int (push_bit 16 t) :: 32 word) AND push_bit 16 (mask 16)) = word_of_int t"
    by (rule bit_word_eqI) (auto simp: bit_simps dest: bits)
  moreover have "uint (word_of_int t :: 32 word) = t"
    using assms(1,2) by (simp add: uint_word_of_int)
  ultimately show "uint (drop_bit 16 ((word_of_int s OR word_of_int (push_bit 16 t) :: 32 word) AND push_bit 16 (mask 16))) = t"
    by simp
  have "(word_of_int s OR word_of_int (push_bit 16 t) :: 32 word) AND mask 16 = word_of_int s"
    by (rule bit_word_eqI) (auto simp: bit_simps dest: bits)
  moreover have "uint (word_of_int s :: 32 word) = s"
    using assms(3,4) by (simp add: uint_word_of_int)
  ultimately show "uint ((word_of_int s OR word_of_int (push_bit 16 t) :: 32 word) AND mask 16) = s" by simp
qed

lemma TypeAndPayloadSize_Set:
  assumes "8 \<le> length buf" "0 \<le> t" "t < 2 ^ 16" "0 \<le> s" "s < 2 ^ 16"
  shows "TypeAndPayloadSize (SetTypeAndPayloadSize preamble t s buf) = (t, s)"
proof -
  have "slice_of (SetTypeAndPayloadSize preamble t s buf) 0 4 = be_bytes 4 preamble"
    using assms(1) by (simp add: SetTypeAndPayloadSize_def Let_def slice_put_before slice_put_same)
  moreover have "slice_of (SetTypeAndPayloadSize preamble t s buf) 4 8 =
      be_bytes 4 (preamble XOR (word_of_int s OR word_of_int (push_bit 16 t)))"
    using assms by (simp add: SetTypeAndPayloadSize_def Let_def slice_put_same mask_int)
  ultimately show ?thesis
    using tns_split[OF assms(2-5)]
    by (simp add: TypeAndPayloadSize_def Let_def mask_words xor.assoc[symmetric] del: push_bit_of_int)
qed

end
