(* ===== verification/Device_Sdk.thy ===== *)
theory Device_Sdk
  imports Nhp_Packet
begin

text \<open>
  The device registry of the SDK, \<^verbatim>\<open>nhp/core/main/nhpdevice.go\<close>: the maps \<^verbatim>\<open>devices\<close> (by key) and
  \<^verbatim>\<open>handles\<close> (by address), their initialisation, closing and the look-up every exported operation
  starts with. A device is its address, 0 is \<^verbatim>\<open>nil\<close>; the result structure and the error codes are
  those of the C header. Decoding base64 and \<^verbatim>\<open>core.NewDevice\<close>, which validates the key and
  allocates, are parameters; that a short key makes \<^verbatim>\<open>core.NewDevice\<close> panic is part of the model. \<^const>\<open>None\<close> is
  the end of the process. \<^verbatim>\<open>devices\<close> is a list of pairs in the order the iteration visits them.
\<close>

type_synonym address = "64 word"

record sdk_state =
  devices :: "(string \<times> address) list"
  handles :: "address \<Rightarrow> address option"
  overload_mode :: "address \<Rightarrow> bool"

record sdk_result =
  handle :: address
  errCode :: int
  errMsg :: "string option"

definition zero_result :: sdk_result where
  "zero_result = \<lparr>handle = 0, errCode = 0, errMsg = None\<rparr>"

definition error_code :: "string \<Rightarrow> int" where
  "error_code nm = (case enum_value enum_NhpError nm of Some v \<Rightarrow> v | None \<Rightarrow> -1)"

lemma error_codes [simp]:
  "error_code ''ERR_NHP_DEVICE_NOT_INITIALIZED'' = 30000"
  "error_code ''ERR_NHP_DEVICE_ALREADY_CREATED'' = 30001"
  "error_code ''ERR_NHP_CREATE_DEVICE_FAILED'' = 30004"
  by code_simp+

definition nhp_device_init ::
  "(string \<Rightarrow> byte list option) \<Rightarrow> (int \<Rightarrow> byte list \<Rightarrow> address) \<Rightarrow> int \<Rightarrow> string \<Rightarrow> sdk_state \<Rightarrow>
   (sdk_result \<times> sdk_state) option" where
  "nhp_device_init DecodeString NewDevice deviceType privateKeyBase64 st =
     (if map_of (devices st) privateKeyBase64 \<noteq> None then
        Some (zero_result\<lparr>errCode := error_code ''ERR_NHP_DEVICE_ALREADY_CREATED'',
           errMsg := Some ''nhp device already created with the given key''\<rparr>, st)
      else (case DecodeString privateKeyBase64 of
          None \<Rightarrow> Some (zero_result\<lparr>errCode := error_code ''ERR_NHP_CREATE_DEVICE_FAILED'',
             errMsg := Some ''key invalid''\<rparr>, st)
        | Some privateKey \<Rightarrow>
            if SetPrivateKey_panics privateKeyBase64 then None
            else
            (let device = NewDevice deviceType privateKey
             in Some (zero_result\<lparr>handle := device\<rparr>,
                 st\<lparr>devices := (privateKeyBase64, device) # devices st,
                    handles := (handles st)(device \<mapsto> device)\<rparr>))))"

fun delete_device :: "address \<Rightarrow> (string \<times> address) list \<Rightarrow> (string \<times> address) list" where
  "delete_device device [] = []"
| "delete_device device ((k, v) # ds) =
     (if v = device then ds else (k, v) # delete_device device ds)"

definition nhp_device_close :: "address \<Rightarrow> sdk_state \<Rightarrow> sdk_state" where
  "nhp_device_close hdl st = (case handles st hdl of
      None \<Rightarrow> st
    | Some device \<Rightarrow> st\<lparr>handles := (handles st)(hdl := None),
        devices := delete_device device (devices st)\<rparr>)"

text \<open>
  \<^verbatim>\<open>nhp_device_set_overload\<close>; a method call on a nil device panics, which is \<^const>\<open>None\<close>. The look-up
  at its start is the one of \<^verbatim>\<open>nhp_device_encrypt_data\<close> and \<^verbatim>\<open>nhp_device_decrypt_packet\<close>.
\<close>

definition nhp_device_set_overload :: "address \<Rightarrow> bool \<Rightarrow> sdk_state \<Rightarrow> (sdk_result \<times> sdk_state) option" where
  "nhp_device_set_overload hdl overload st = (case handles st hdl of
      None \<Rightarrow> Some (zero_result\<lparr>errCode := error_code ''ERR_NHP_DEVICE_NOT_INITIALIZED'',
         errMsg := Some ''nhp device not initialized''\<rparr>, st)
    | Some device \<Rightarrow>
        if device = 0 then None
        else Some (zero_result, st\<lparr>overload_mode := (overload_mode st)(device := overload)\<rparr>))"

subsection \<open>The registry invariant\<close>

text \<open>Keys and devices are in one-to-one correspondence, and the handle of a device is its address.\<close>

definition live_devices :: "sdk_state \<Rightarrow> address set" where
  "live_devices st = snd ` set (devices st)"

definition sdk_inv :: "sdk_state \<Rightarrow> bool" where
  "sdk_inv st \<longleftrightarrow> distinct (map fst (devices st)) \<and> distinct (map snd (devices st)) \<and>
     0 \<notin> live_devices st \<and>
     handles st = (\<lambda>h. if h \<in> live_devices st then Some h else None)"

lemma delete_device_absent: "d \<notin> snd ` set ds \<Longrightarrow> delete_device d ds = ds"
  by (induction d ds rule: delete_device.induct) auto

lemma delete_device_filter:
  "distinct (map snd ds) \<Longrightarrow> delete_device d ds = filter (\<lambda>(k, v). v \<noteq> d) ds"
proof (induction d ds rule: delete_device.induct)
  case (1 d)
  then show ?case by simp
next
  case (2 d k v ds)
  have "filter (\<lambda>(k, v). v \<noteq> d) ds = ds" if "d \<notin> snd ` set ds"
    using that by (force simp: filter_id_conv)
  with 2 show ?case by auto
qed

lemma distinct_filter_maps:
  "distinct (map f ds) \<Longrightarrow> distinct (map f (filter P ds))"
  by (rule distinct_map_filter)

lemma live_filter: "snd ` set (filter (\<lambda>(k, v). v \<noteq> d) ds) = snd ` set ds - {d}"
  by (auto simp: image_iff)

text \<open>\<open>NewDevice\<close> allocates: the address it returns is not nil and not in use.\<close>

lemma init_inv:
  assumes inv: "sdk_inv st" and fresh: "\<And>k. newdev t k \<noteq> 0 \<and> handles st (newdev t k) = None"
    and init: "nhp_device_init dec newdev t key st = Some (r, st')"
  shows "sdk_inv st'"
proof (cases "map_of (devices st) key \<noteq> None \<or> dec key = None")
  case True
  with inv init show ?thesis by (auto simp: nhp_device_init_def split: option.splits if_splits)
next
  case False
  then obtain prk where prk: "dec key = Some prk" and key: "key \<notin> fst ` set (devices st)"
    by (auto simp: map_of_eq_None_iff)
  let ?p = "newdev t prk"
  have "?p \<noteq> 0" "?p \<notin> live_devices st"
    using fresh[of prk] inv by (auto simp: sdk_inv_def split: if_splits)
  moreover have "st' = st\<lparr>devices := (key, ?p) # devices st, handles := (handles st)(?p \<mapsto> ?p)\<rparr>"
    using init False prk by (auto simp: nhp_device_init_def Let_def split: if_splits)
  ultimately show ?thesis
    using inv key by (simp add: sdk_inv_def live_devices_def fun_eq_iff)
qed

lemma close_inv: "sdk_inv st \<Longrightarrow> sdk_inv (nhp_device_close h st)"
  by (auto simp: nhp_device_close_def sdk_inv_def live_devices_def delete_device_filter
      distinct_filter_maps live_filter fun_eq_iff split: option.splits if_splits)

lemma set_overload_frame:
  assumes "nhp_device_set_overload h b st = Some (r, st')"
  shows "devices st' = devices st \<and> handles st' = handles st"
  using assms by (auto simp: nhp_device_set_overload_def split: option.splits if_splits)

lemma set_overload_inv:
  "sdk_inv st \<Longrightarrow> nhp_device_set_overload h b st = Some (r, st') \<Longrightarrow> sdk_inv st'"
  using set_overload_frame[of h b st r st'] by (simp add: sdk_inv_def live_devices_def)

subsection \<open>Properties\<close>

text \<open>The registry stays consistent: when \<^verbatim>\<open>core.NewDevice\<close> returns a fresh device, initialising,
  closing and setting the overload mode keep keys and devices in one-to-one correspondence, every
  handle the address of a live device and every live device reachable by its handle; and with that
  no operation dereferences nil.\<close>

lemma sdk_registry_invariant:
  assumes "sdk_inv st"
    and "\<And>k. newdev t k \<noteq> 0 \<and> handles st (newdev t k) = None"
  shows "(\<forall>r st'. nhp_device_init dec newdev t key st = Some (r, st') \<longrightarrow> sdk_inv st') \<and> sdk_inv (nhp_device_close h st) \<and>
     (\<exists>r st'. nhp_device_set_overload h b st = Some (r, st') \<and> sdk_inv st')"
proof (intro conjI)
  have "handles st h \<noteq> Some 0" using assms(1) by (auto simp: sdk_inv_def split: if_splits)
  then have "\<exists>r st'. nhp_device_set_overload h b st = Some (r, st')"
    by (auto simp: nhp_device_set_overload_def split: option.splits)
  then show "\<exists>r st'. nhp_device_set_overload h b st = Some (r, st') \<and> sdk_inv st'"
    using set_overload_inv[OF assms(1)] by blast
qed (use assms in \<open>blast intro: init_inv close_inv\<close>)+

definition empty_sdk :: sdk_state where
  "empty_sdk = \<lparr>devices = [], handles = (\<lambda>_. None), overload_mode = (\<lambda>_. False)\<rparr>"

definition sample_newdev :: "int \<Rightarrow> byte list \<Rightarrow> address" where
  "sample_newdev t prk = 0x1000"

text \<open>A device lives from its initialisation to its close: a new key yields error code 0 and a
  handle the operations accept, the same key again is refused with code 30001 and no change, and
  after the close the handle is refused with code 30000 and the key may be used again.\<close>

lemma sdk_lifecycle:
  assumes "sdk_inv st" and "map_of (devices st) key = None" and "dec key = Some prk"
    and "\<And>k. newdev t k \<noteq> 0 \<and> handles st (newdev t k) = None"
    and "nhp_device_init dec newdev t key st = Some (r, st1)"
  shows "errCode r = 0 \<and> handles st1 (handle r) = Some (handle r) \<and>
     (\<exists>st2. nhp_device_set_overload (handle r) b st1 = Some (zero_result, st2)) \<and>
     (\<exists>m. nhp_device_init dec newdev t' key st1 =
        Some (zero_result\<lparr>errCode := 30001, errMsg := Some m\<rparr>, st1)) \<and>
     (\<exists>m. nhp_device_set_overload (handle r) b (nhp_device_close (handle r) st1) =
        Some (zero_result\<lparr>errCode := 30000, errMsg := Some m\<rparr>, nhp_device_close (handle r) st1)) \<and>
     devices (nhp_device_close (handle r) st1) = devices st"
proof -
  have r: "r = zero_result\<lparr>handle := newdev t prk\<rparr>"
    "st1 = st\<lparr>devices := (key, newdev t prk) # devices st,
       handles := (handles st)(newdev t prk \<mapsto> newdev t prk)\<rparr>"
    using assms(2,3,5) by (auto simp: nhp_device_init_def Let_def split: if_splits)
  show ?thesis
    using assms(4)[of prk]
    by (simp add: r nhp_device_set_overload_def nhp_device_init_def nhp_device_close_def zero_result_def)
qed

text \<open>A bad private key is never reported as an error. A text of fewer than 44 characters that decodes ends
  the process of the C caller: the slice of 32 bytes is out of range. A longer one that \<^verbatim>\<open>core.NewDevice\<close>
  refuses with nil is answered with error code 0 and handle 0, and the next operation on that handle
  ends the process.\<close>

lemma sdk_init_bad_key:
  assumes "map_of (devices st) key = None" and "dec key = Some prk" and "length key < 44 \<or> newdev t prk = 0"
  shows "length key < 44 \<and> nhp_device_init dec newdev t key st = None \<or>
     (\<exists>r st1. nhp_device_init dec newdev t key st = Some (r, st1) \<and> errCode r = 0 \<and> handle r = 0 \<and>
        nhp_device_set_overload (handle r) b st1 = None)"
  using assms by (auto simp: nhp_device_init_def nhp_device_set_overload_def zero_result_def Let_def SetPrivateKey_panics_length)

end
