(* ===== verification/Nhp_Noise.thy ===== *)
theory Nhp_Noise
  imports Nhp_Packet
begin

text \<open>
  The cryptographic vocabulary of the protocol (\<^verbatim>\<open>nhp/core/crypto.go\<close>, \<^verbatim>\<open>kdf.go\<close>): cipher suites and
  the key derivation over HMAC. The primitives come from Go's standard library and from third-party
  packages and are fields of a record; \<open>nhp_primitives\<close> states what the protocol relies on for messages
  to arrive: digests of 32 bytes, authenticated encryption that opens what it sealed and adds 16
  bytes, key agreement; \<open>nhp_crypto\<close> adds that what was compressed can be decompressed. A running hash is the list of bytes
  written so far.
\<close>

datatype HashTypeEnum = HASH_BLAKE2S | HASH_SM3 | HASH_SHA256
datatype EccTypeEnum = ECC_CURVE25519 | ECC_SM2 | ECC_UMI
datatype GcmTypeEnum = GCM_AES256 | GCM_SM4 | GCM_CHACHA20POLY1305

record CipherSuite =
  Scheme :: int
  HashType :: HashTypeEnum
  EccType :: EccTypeEnum
  GcmType :: GcmTypeEnum

definition NewCipherSuite :: "int \<Rightarrow> CipherSuite" where
  "NewCipherSuite scheme =
     (if scheme = CIPHER_SCHEME_CURVE
      then \<lparr>Scheme = CIPHER_SCHEME_CURVE, HashType = HASH_BLAKE2S, EccType = ECC_CURVE25519, GcmType = GCM_AES256\<rparr>
      else \<lparr>Scheme = CIPHER_SCHEME_GMSM, HashType = HASH_SM3, EccType = ECC_SM2, GcmType = GCM_SM4\<rparr>)"

text \<open>
  The primitives: digest, HMAC, sealing and opening under key, nonce and additional data, the public
  key of a private one, the point multiplication behind a shared secret (\<^const>\<open>None\<close> for an invalid
  point), and zlib: writing, whether \<^verbatim>\<open>zlib.NewReader\<close> accepts the first bytes, and reading to the end.
\<close>

record crypto =
  Digest :: "HashTypeEnum \<Rightarrow> byte list \<Rightarrow> byte list"
  Hmac :: "HashTypeEnum \<Rightarrow> byte list \<Rightarrow> byte list \<Rightarrow> byte list"
  Seal :: "GcmTypeEnum \<Rightarrow> byte list \<Rightarrow> byte list \<Rightarrow> byte list \<Rightarrow> byte list \<Rightarrow> byte list"
  Open :: "GcmTypeEnum \<Rightarrow> byte list \<Rightarrow> byte list \<Rightarrow> byte list \<Rightarrow> byte list \<Rightarrow> byte list option"
  Public :: "EccTypeEnum \<Rightarrow> byte list \<Rightarrow> byte list"
  Multiply :: "EccTypeEnum \<Rightarrow> byte list \<Rightarrow> byte list \<Rightarrow> byte list option"
  Zlib_Write :: "byte list \<Rightarrow> byte list"
  Zlib_NewReader :: "byte list \<Rightarrow> bool"
  Zlib_Copy :: "byte list \<Rightarrow> byte list option"

text \<open>\<^verbatim>\<open>AeadFromKey\<close>: SM4 uses the first 16 bytes of the key.\<close>

definition aead_key :: "GcmTypeEnum \<Rightarrow> byte list \<Rightarrow> byte list" where
  "aead_key t key = (if t = GCM_SM4 then take 16 key else key)"

definition aead_Seal :: "crypto \<Rightarrow> GcmTypeEnum \<Rightarrow> byte list \<Rightarrow> byte list \<Rightarrow> byte list \<Rightarrow> byte list \<Rightarrow> byte list" where
  "aead_Seal C t key = Seal C t (aead_key t key)"

definition aead_Open :: "crypto \<Rightarrow> GcmTypeEnum \<Rightarrow> byte list \<Rightarrow> byte list \<Rightarrow> byte list \<Rightarrow> byte list \<Rightarrow> byte list option" where
  "aead_Open C t key = Open C t (aead_key t key)"

text \<open>\<^verbatim>\<open>SharedSecret\<close> of both schemes checks the length of the public key first.\<close>

definition SharedSecret :: "crypto \<Rightarrow> int \<Rightarrow> byte list \<Rightarrow> byte list \<Rightarrow> byte list option" where
  "SharedSecret C scheme prk pbk =
     (if length pbk \<noteq> pk_size scheme then None else Multiply C (EccType (NewCipherSuite scheme)) prk pbk)"

subsection \<open>Key derivation\<close>

definition HMAC1 :: "crypto \<Rightarrow> HashTypeEnum \<Rightarrow> byte list \<Rightarrow> byte list \<Rightarrow> byte list" where
  "HMAC1 C h key in0 = Hmac C h key in0"

definition HMAC2 :: "crypto \<Rightarrow> HashTypeEnum \<Rightarrow> byte list \<Rightarrow> byte list \<Rightarrow> byte list \<Rightarrow> byte list" where
  "HMAC2 C h key in0 in1 = Hmac C h key (in0 @ in1)"

definition KeyGen1 :: "crypto \<Rightarrow> HashTypeEnum \<Rightarrow> byte list \<Rightarrow> byte list \<Rightarrow> byte list" where
  "KeyGen1 C h key input = HMAC1 C h (HMAC1 C h key input) [1]"

definition KeyGen2 :: "crypto \<Rightarrow> HashTypeEnum \<Rightarrow> byte list \<Rightarrow> byte list \<Rightarrow> byte list \<times> byte list" where
  "KeyGen2 C h key input =
     (let prk = HMAC1 C h key input; dst0 = HMAC1 C h prk [1]; dst1 = HMAC2 C h prk dst0 [2] in (dst0, dst1))"

definition MixKey :: "crypto \<Rightarrow> HashTypeEnum \<Rightarrow> byte list \<Rightarrow> byte list \<Rightarrow> byte list" where
  "MixKey C h key input = KeyGen1 C h key input"

text \<open>\<^verbatim>\<open>InitialHashString\<close> and \<^verbatim>\<open>InitialChainKeyString\<close> as bytes.\<close>

definition bytes_of :: "string \<Rightarrow> byte list" where
  "bytes_of s = map (\<lambda>c. word_of_nat (of_char c)) s"

definition InitialChainKeyString :: "byte list" where
  "InitialChainKeyString = bytes_of ''NHP keygen v.20230421@clouddeep.cn''"

definition InitialHashString :: "byte list" where
  "InitialHashString = bytes_of ''NHP hashgen v.20230421@deepcloudsdp.com''"

definition ChainKey0 :: "crypto \<Rightarrow> CipherSuite \<Rightarrow> byte list" where
  "ChainKey0 C ciphers =
     MixKey C (HashType ciphers) (Digest C (HashType ciphers) InitialHashString) InitialChainKeyString"

subsection \<open>What the protocol relies on\<close>

locale nhp_primitives =
  fixes C :: crypto
  assumes digest_length: "length (Digest C h x) = HashSize"
    and hmac_length: "length (Hmac C h key x) = HashSize"
    and open_seal: "Open C t key nonce (Seal C t key nonce plain ad) ad = Some plain"
    and seal_length: "length (Seal C t key nonce plain ad) = length plain + GCMTagSize"
    and public_length: "length (Public C (EccType (NewCipherSuite scheme)) prk) = pk_size scheme"
    and agreement: "Multiply C e a (Public C e b) = Multiply C e b (Public C e a)"
begin

lemma aead_open_seal [simp]: "aead_Open C t key nonce (aead_Seal C t key nonce plain ad) ad = Some plain"
  by (simp add: aead_Open_def aead_Seal_def open_seal)

lemma aead_seal_length [simp]: "length (aead_Seal C t key nonce plain ad) = length plain + GCMTagSize"
  by (simp add: aead_Seal_def seal_length)

lemma KeyGen2_length: "KeyGen2 C h key input = (a, b) \<Longrightarrow> length a = HashSize"
  by (auto simp: KeyGen2_def HMAC1_def Let_def hmac_length)

lemma shared_agreement:
  "SharedSecret C scheme a (Public C (EccType (NewCipherSuite scheme)) b) =
   SharedSecret C scheme b (Public C (EccType (NewCipherSuite scheme)) a)"
  by (simp add: SharedSecret_def public_length agreement)

end

locale nhp_crypto = nhp_primitives +
  assumes zlib_reader: "Zlib_NewReader C (Zlib_Write C x)"
    and zlib_copy: "Zlib_Copy C (Zlib_Write C x) = Some x"

subsection \<open>A reference instance\<close>

text \<open>
  Checksums for digests and tags, conjunction of bits for the multiplication of points, no
  confidentiality: enough to run the protocol on.
\<close>

definition pad_to :: "nat \<Rightarrow> byte list \<Rightarrow> byte list" where
  "pad_to n bs = take n (bs @ replicate n 0)"

lemma length_pad_to [simp]: "length (pad_to n bs) = n"
  by (simp add: pad_to_def)

definition ref_digest :: "byte list \<Rightarrow> byte list" where
  "ref_digest bs = pad_to HashSize [fold (\<lambda>b a. 31 * a + b) bs 7]"

definition ref_tag :: "byte list \<Rightarrow> byte list \<Rightarrow> byte list \<Rightarrow> byte list \<Rightarrow> byte list" where
  "ref_tag key nonce plain ad = pad_to GCMTagSize (ref_digest (key @ nonce @ ad @ plain))"

definition ref_open :: "byte list \<Rightarrow> byte list \<Rightarrow> byte list \<Rightarrow> byte list \<Rightarrow> byte list option" where
  "ref_open key nonce ct ad =
     (let n = length ct - GCMTagSize; plain = take n ct
      in if GCMTagSize \<le> length ct \<and> drop n ct = ref_tag key nonce plain ad then Some plain else None)"

definition ref_crypto :: crypto where
  "ref_crypto = \<lparr>Digest = (\<lambda>_. ref_digest), Hmac = (\<lambda>_ key x. ref_digest (key @ x)),
     Seal = (\<lambda>_ key nonce plain ad. plain @ ref_tag key nonce plain ad),
     Open = (\<lambda>_. ref_open),
     Public = (\<lambda>e prk. pad_to (if e = ECC_CURVE25519 then 32 else 64) prk),
     Multiply = (\<lambda>e a p. Some (map2 (AND) (pad_to 32 a) (pad_to 32 p))),
     Zlib_Write = (\<lambda>x. 0x78 # x), Zlib_NewReader = (\<lambda>x. x \<noteq> [] \<and> hd x = 0x78),
     Zlib_Copy = (\<lambda>x. Some (tl x))\<rparr>"

lemma map2_and_commute: "map2 (AND) xs ys = map2 (AND) ys (xs :: byte list)"
proof (induction xs arbitrary: ys)
  case Nil
  then show ?case by simp
next
  case (Cons x xs)
  then show ?case by (cases ys) (simp_all add: and.commute)
qed

lemma pad_to_pad_to: "n \<le> m \<Longrightarrow> pad_to n (pad_to m bs) = pad_to n bs"
  by (simp add: pad_to_def min_def)

interpretation rc: nhp_crypto ref_crypto
proof unfold_locales
  fix e a b
  have "pad_to 32 (pad_to (if e = ECC_CURVE25519 then 32 else 64) k) = pad_to 32 k" for k
    by (simp add: pad_to_pad_to)
  then show "Multiply ref_crypto e a (Public ref_crypto e b) = Multiply ref_crypto e b (Public ref_crypto e a)"
    by (simp add: ref_crypto_def map2_and_commute[of "pad_to 32 a"])
qed (simp_all add: ref_crypto_def ref_digest_def ref_open_def ref_tag_def NewCipherSuite_def pk_size_def)

end
