(* ===== verification/Nhp_Initiator.thy ===== *)
theory Nhp_Initiator
  imports Nhp_Noise
begin

text \<open>
  The sending side, \<^verbatim>\<open>nhp/core/initiator.go\<close>: a message becomes a packet in three steps, creation,
  key agreement with the peer and encryption of the body, each a definition over the record of
  \<^verbatim>\<open>MsgAssemblerData\<close>. The buffer is a list of bytes the header functions overwrite. What the host
  supplies (the ephemeral private key, the preamble, the time in nanoseconds and the packet buffer,
  which a pool may hand out with old content) is the record \<open>machine\<close>. \<^verbatim>\<open>ConnData\<close> enters only with its
  current cookie, \<^const>\<open>None\<close> when there is no connection.
\<close>

record machine =
  mc_ephermeral :: "byte list"
  mc_preamble :: "32 word"
  mc_now :: "64 word"
  mc_buf :: "byte list"

record MsgData =
  md_CipherScheme :: int
  md_TransactionId :: "64 word"
  md_HeaderType :: int
  md_Compress :: bool
  md_ClPkc :: bool
  md_ExternalCookie :: "byte list option"
  md_ConnCookie :: "byte list option"
  md_Message :: "byte list"
  md_PeerPk :: "byte list option"

record MsgAssemblerData =
  BasePacket_Buf :: "byte list"
  BasePacket_Content :: "byte list"
  mad_deviceEcdh :: "byte list"
  mad_ephermeralEcdh :: "byte list"
  mad_hmacHash :: "byte list"
  mad_chainHash :: "byte list"
  mad_chainKey :: "byte list"
  mad_bodyKey :: "byte list"
  mad_LocalInitTime :: "64 word"
  mad_TransactionId :: "64 word"
  mad_CipherScheme :: int
  mad_HeaderType :: int
  mad_HeaderFlag :: "16 word"
  mad_BodyCompress :: bool
  mad_ClPkc :: bool
  mad_ExternalCookie :: "byte list option"
  mad_ConnCookie :: "byte list option"
  mad_RemotePubKey :: "byte list option"
  mad_bodyMessage :: "byte list"

text \<open>Go's \<^verbatim>\<open>append\<close> onto an empty slice of the buffer: in place when the capacity suffices.\<close>

definition append_into :: "nat \<Rightarrow> nat \<Rightarrow> byte list \<Rightarrow> byte list \<Rightarrow> byte list" where
  "append_into i cap new buf = (if length new \<le> cap then put_at i new buf else buf)"

subsection \<open>Creation\<close>

definition new_mad :: "crypto \<Rightarrow> byte list \<Rightarrow> byte list \<Rightarrow> MsgData \<Rightarrow> MsgAssemblerData" where
  "new_mad C prk buf md =
     \<lparr>BasePacket_Buf = SetCounter (md_TransactionId md) (SetVersion 1 0 buf), BasePacket_Content = buf,
      mad_deviceEcdh = prk, mad_ephermeralEcdh = [], mad_hmacHash = [], mad_chainHash = InitialHashString,
      mad_chainKey = ChainKey0 C (NewCipherSuite (md_CipherScheme md)), mad_bodyKey = [],
      mad_LocalInitTime = 0, mad_TransactionId = md_TransactionId md, mad_CipherScheme = md_CipherScheme md,
      mad_HeaderType = md_HeaderType md, mad_HeaderFlag = 0, mad_BodyCompress = md_Compress md,
      mad_ClPkc = md_ClPkc md, mad_ExternalCookie = md_ExternalCookie md, mad_ConnCookie = md_ConnCookie md,
      mad_RemotePubKey = md_PeerPk md, mad_bodyMessage = md_Message md\<rparr>"

text \<open>What follows for a new and for a derived record alike.\<close>

definition start_mad :: "crypto \<Rightarrow> machine \<Rightarrow> MsgAssemblerData \<Rightarrow> MsgAssemblerData" where
  "start_mad C mc mad = mad\<lparr>mad_LocalInitTime := mc_now mc, mad_hmacHash := InitialHashString,
     mad_ephermeralEcdh := mc_ephermeral mc,
     BasePacket_Buf := put_at eph_at (take (pk_size (mad_CipherScheme mad))
       (Public C (EccType (NewCipherSuite (mad_CipherScheme mad))) (mc_ephermeral mc))) (BasePacket_Buf mad)\<rparr>"

definition createMsgAssemblerData :: "crypto \<Rightarrow> byte list \<Rightarrow> machine \<Rightarrow> MsgData \<Rightarrow> MsgAssemblerData" where
  "createMsgAssemblerData C prk mc md = start_mad C mc (new_mad C prk (mc_buf mc) md)"

definition createKeepalivePacket :: "byte list \<Rightarrow> machine \<Rightarrow> MsgData \<Rightarrow> byte list" where
  "createKeepalivePacket buf mc md = take (header_Size CIPHER_SCHEME_CURVE)
     (SetTypeAndPayloadSize (mc_preamble mc) NHP_KPL 0
       (SetCounter (md_TransactionId md) (SetVersion 1 0 buf)))"

subsection \<open>Key agreement with the peer\<close>

text \<open>The sender's public key, sealed under the ephemeral secret: the sealed bytes, chain hash 2 and chain key 2.\<close>

definition seal_static :: "crypto \<Rightarrow> MsgAssemblerData \<Rightarrow> byte list \<Rightarrow> byte list \<Rightarrow> byte list \<times> byte list \<times> byte list" where
  "seal_static C mad pk ess =
     (let ciphers = NewCipherSuite (mad_CipherScheme mad); h = HashType ciphers;
          eph = Public C (EccType ciphers) (mad_ephermeralEcdh mad);
          chainHash1 = mad_chainHash mad @ pk @ eph;
          (chainKey2, key2) = KeyGen2 C h (MixKey C h (mad_chainKey mad) eph) ess;
          static = aead_Seal C (GcmType ciphers) key2 (NonceBytes (BasePacket_Buf mad))
            (Public C (EccType ciphers) (mad_deviceEcdh mad)) (Digest C h chainHash1)
      in (static, chainHash1 @ static, chainKey2))"

text \<open>The time, sealed under the static secret: the sealed bytes, chain hash 3, chain key 4 and the body key.\<close>

definition seal_timestamp :: "crypto \<Rightarrow> MsgAssemblerData \<Rightarrow> byte list \<Rightarrow> byte list \<Rightarrow> byte list \<Rightarrow>
    byte list \<times> byte list \<times> byte list \<times> byte list" where
  "seal_timestamp C mad ss chainHash2 chainKey2 =
     (let ciphers = NewCipherSuite (mad_CipherScheme mad); h = HashType ciphers;
          (chainKey3, key3) = KeyGen2 C h chainKey2 ss;
          ts = aead_Seal C (GcmType ciphers) key3 (NonceBytes (BasePacket_Buf mad)) (be_bytes 8 (mad_LocalInitTime mad))
            (Digest C h chainHash2);
          (chainKey4, key4) = KeyGen2 C h chainKey3 ts
      in (ts, chainHash2 @ ts, chainKey4, key4))"

definition setPeerPublicKey :: "crypto \<Rightarrow> MsgAssemblerData \<Rightarrow> MsgAssemblerData res" where
  "setPeerPublicKey C mad =
     (case mad_RemotePubKey mad of
        None \<Rightarrow> Err (CoreError ''ERR_NHP_EMPTY_PEER_PUBLIC_KEY'')
      | Some pk \<Rightarrow>
         let scheme = mad_CipherScheme mad
         in if (scheme \<noteq> CIPHER_SCHEME_CURVE \<and> scheme \<noteq> CIPHER_SCHEME_GMSM) \<or> length pk \<noteq> pk_size scheme
            then Err (CoreError ''ERR_NHP_DEVICE_ECDH_PEER_FAILED'')
            else (case SharedSecret C scheme (mad_ephermeralEcdh mad) pk of
                None \<Rightarrow> Err (CoreError ''ERR_NHP_EPHERMAL_ECDH_PEER_FAILED'')
              | Some ess \<Rightarrow>
                 let (static, chainHash2, chainKey2) = seal_static C mad pk ess;
                     buf2 = append_into (static_at scheme) (pk_size scheme + GCMTagSize) static (BasePacket_Buf mad)
                 in case SharedSecret C scheme (mad_deviceEcdh mad) pk of
                      None \<Rightarrow> Err (CoreError ''ERR_NHP_DEVICE_ECDH_PEER_FAILED'')
                    | Some ss \<Rightarrow>
                       let (ts, chainHash3, chainKey4, key4) = seal_timestamp C (mad\<lparr>BasePacket_Buf := buf2\<rparr>) ss chainHash2 chainKey2
                       in Ok (mad\<lparr>mad_hmacHash := mad_hmacHash mad @ pk,
                            BasePacket_Buf := append_into (timestamp_at scheme) (TimestampSize + GCMTagSize) ts buf2,
                            mad_chainHash := chainHash3, mad_chainKey := chainKey4, mad_bodyKey := key4\<rparr>)))"

subsection \<open>Body and header check sum\<close>

definition addHMAC :: "crypto \<Rightarrow> bool \<Rightarrow> MsgAssemblerData \<Rightarrow> MsgAssemblerData res" where
  "addHMAC C sumCookie mad =
     (let scheme = mad_CipherScheme mad;
          written = mad_hmacHash mad @ take (header_Size scheme - HashSize) (BasePacket_Buf mad);
          with_cookie = (if \<not> sumCookie then Ok written
            else case mad_ExternalCookie mad of Some cookie \<Rightarrow> Ok (written @ cookie)
            | None \<Rightarrow> (case mad_ConnCookie mad of Some cookie \<Rightarrow> Ok (written @ cookie) | None \<Rightarrow> Panic))
      in res_bind with_cookie (\<lambda>w. Ok (mad\<lparr>mad_hmacHash := [], BasePacket_Buf := append_into (hmac_at scheme) HashSize
           (Digest C (HashType (NewCipherSuite scheme)) w) (BasePacket_Buf mad)\<rparr>)))"

definition wipe_mad :: "MsgAssemblerData \<Rightarrow> MsgAssemblerData" where
  "wipe_mad mad = mad\<lparr>mad_chainHash := [], mad_chainKey := replicate (length (mad_chainKey mad)) 0\<rparr>"

definition encryptBody :: "crypto \<Rightarrow> machine \<Rightarrow> MsgAssemblerData \<Rightarrow> MsgAssemblerData res" where
  "encryptBody C mc mad =
     (let scheme = mad_CipherScheme mad; ciphers = NewCipherSuite scheme; size = header_Size scheme in
      if mad_bodyMessage mad = [] then
        res_bind (addHMAC C (mad_HeaderType mad = NHP_RKN) (mad\<lparr>BasePacket_Buf :=
            SetTypeAndPayloadSize (mc_preamble mc) (mad_HeaderType mad) 0 (BasePacket_Buf mad)\<rparr>))
          (\<lambda>mad. Ok (wipe_mad (mad\<lparr>BasePacket_Content := take size (BasePacket_Buf mad)\<rparr>)))
      else
        (let body = (if mad_BodyCompress mad then Zlib_Write C (mad_bodyMessage mad) else mad_bodyMessage mad);
             BodySize = length body + GCMTagSize;
             flag1 = (if mad_BodyCompress mad then mad_HeaderFlag mad OR NHP_FLAG_COMPRESS else mad_HeaderFlag mad);
             flag = (if mad_ClPkc mad then flag1 OR NHP_FLAG_CL_PKC else flag1)
         in if BodySize > PacketBufferSize - size then Err (CoreError ''ERR_NHP_PACKET_SIZE_EXCEEDS_BUFFER'')
            else res_bind (addHMAC C (mad_HeaderType mad = NHP_RKN) (mad\<lparr>mad_HeaderFlag := flag, BasePacket_Buf :=
                SetTypeAndPayloadSize (mc_preamble mc) (mad_HeaderType mad) (int BodySize)
                  (SetFlag scheme flag (BasePacket_Buf mad))\<rparr>))
              (\<lambda>mad. let buf = append_into size (PacketBufferSize - size)
                    (aead_Seal C (GcmType ciphers) (mad_bodyKey mad) (NonceBytes (BasePacket_Buf mad)) body
                      (Digest C (HashType ciphers) (mad_chainHash mad))) (BasePacket_Buf mad)
                  in Ok (wipe_mad (mad\<lparr>BasePacket_Buf := buf, BasePacket_Content := take (size + BodySize) buf\<rparr>)))))"

text \<open>\<^verbatim>\<open>MsgToPacket\<close>: a transaction id of 0 is replaced by the device's next counter; a panic is recovered.
  The result is the transaction id and the content of the packet.\<close>

definition recovered :: "'a res \<Rightarrow> 'a res" where
  "recovered r = (case r of Panic \<Rightarrow> Err (CoreError ''ERR_NHP_SDK_RUNTIME_PANIC'') | _ \<Rightarrow> r)"

definition MsgToPacket :: "crypto \<Rightarrow> byte list \<Rightarrow> machine \<Rightarrow> MsgData \<Rightarrow> 64 word \<Rightarrow> (64 word \<times> byte list) res \<times> 64 word" where
  "MsgToPacket C prk mc md counterIndex =
     (let counter = (if md_TransactionId md = 0 then counterIndex + 1 else counterIndex);
          md = (if md_TransactionId md = 0 then md\<lparr>md_TransactionId := counter\<rparr> else md)
      in (recovered
            (if md_HeaderType md = NHP_KPL then Ok (md_TransactionId md, createKeepalivePacket (mc_buf mc) mc md)
             else res_bind (setPeerPublicKey C (createMsgAssemblerData C prk mc md)) (\<lambda>mad.
                  res_bind (encryptBody C mc mad) (\<lambda>mad. Ok (mad_TransactionId mad, BasePacket_Content mad)))),
          counter))"

end
