(* ===== verification/Nhp_Responder.thy ===== *)
theory Nhp_Responder
  imports Nhp_Initiator
begin

text \<open>
  The receiving side, \<^verbatim>\<open>nhp/core/responder.go\<close>, with the state it consults: the device
  (\<^verbatim>\<open>device.go\<close>) with its options and its pool of peers (\<^verbatim>\<open>peer.go\<close>), and the connection
  (\<^verbatim>\<open>udpconn.go\<close>), \<^const>\<open>None\<close> when the packet comes without one. A packet is checked
  (\<open>createPacketParserData\<close>), its sender authenticated (\<open>validatePeer\<close>, in stages) and its body
  opened (\<open>decryptBody\<close>). Times are nanoseconds as 64-bit words compared signed, as \<^verbatim>\<open>int64\<close> is.
\<close>

record CookieStore =
  CurrCookie :: "byte list"
  PrevCookie :: "byte list"
  LastCookieTime :: "64 word"

record ConnectionData =
  RemoteAddr :: string
  LastRemoteSendTime :: "64 word"
  RecvThreatCount :: "32 word"
  ConnCookieStore :: CookieStore
  conn_closed :: bool
  BlockSignal :: bool

record UdpPeer =
  ExpireTimeSec :: "64 word"
  lastRecvTime :: "64 word"
  recvAddr :: string

record DeviceOptions =
  DisableAgentPeerValidation :: bool
  DisableServerPeerValidation :: bool
  DisableACPeerValidation :: bool
  DisableRelayPeerValidation :: bool
  DisableDePeerValidation :: bool

text \<open>A message \<^verbatim>\<open>NHP_COK\<close> queued for sending: transaction, cookie, receiver and cipher scheme.\<close>

record ServerCookieMsg =
  cok_TransactionId :: "64 word"
  cok_Cookie :: "byte list"
  cok_PeerPk :: "byte list"
  cok_CipherScheme :: int

record Device =
  deviceType :: int
  dev_option :: DeviceOptions
  staticEcdh :: "byte list"
  Overload :: bool
  peerMap :: "byte list \<Rightarrow> UdpPeer option"
  msgToPacketQueue :: "ServerCookieMsg list"

definition defaultDeviceOptions :: "int \<Rightarrow> DeviceOptions" where
  "defaultDeviceOptions t = \<lparr>DisableAgentPeerValidation = (t = NHP_AC), DisableServerPeerValidation = False,
     DisableACPeerValidation = False, DisableRelayPeerValidation = False, DisableDePeerValidation = False\<rparr>"

record PacketParserData =
  ppd_Content :: "byte list"
  ppd_CipherScheme :: int
  ppd_HeaderType :: int
  ppd_BodySize :: int
  ppd_HeaderFlag :: "16 word"
  ppd_BodyCompress :: bool
  ppd_Overload :: bool
  ppd_LocalInitTime :: "64 word"
  ppd_SenderTrxId :: "64 word"
  ppd_chainHash :: "byte list"
  ppd_chainKey :: "byte list"
  ppd_bodyKey :: "byte list"
  ppd_RemotePubKey :: "byte list"
  ppd_BodyMessage :: "byte list"

definition empty_ppd :: PacketParserData where
  "empty_ppd = \<lparr>ppd_Content = [], ppd_CipherScheme = 0, ppd_HeaderType = 0, ppd_BodySize = 0, ppd_HeaderFlag = 0,
     ppd_BodyCompress = False, ppd_Overload = False, ppd_LocalInitTime = 0, ppd_SenderTrxId = 0, ppd_chainHash = [],
     ppd_chainKey = [], ppd_bodyKey = [], ppd_RemotePubKey = [], ppd_BodyMessage = []\<rparr>"

text \<open>Clock readings during the processing of one packet: on receipt, in milliseconds for the expiry
  of the peer, and when a cookie is made.\<close>

record clocks =
  InitTime :: "64 word"
  now_milli :: "64 word"
  cookie_now :: "64 word"

definition Millisecond :: "64 word" where "Millisecond = 1000000"
definition Second :: "64 word" where "Second = 1000000000"

lemmas time_unit_defs = Millisecond_def Second_def

subsection \<open>The check of the header\<close>

definition IsAllowedAtOverload :: "int \<Rightarrow> bool" where
  "IsAllowedAtOverload t \<longleftrightarrow> t \<in> {NHP_KNK, DHP_KNK, NHP_RKN, NHP_EXT, NHP_AOL, NHP_ART}"

definition device_public :: "crypto \<Rightarrow> int \<Rightarrow> Device \<Rightarrow> byte list" where
  "device_public C scheme dev = Public C (EccType (NewCipherSuite scheme)) (staticEcdh dev)"

text \<open>The cookie a packet must prove: near a change the previous one still counts.\<close>

definition expected_cookie :: "64 word \<Rightarrow> CookieStore \<Rightarrow> byte list" where
  "expected_cookie initTime cs =
     (if initTime <s LastCookieTime cs + 20 * Millisecond then PrevCookie cs else CurrCookie cs)"

definition checkHMAC :: "crypto \<Rightarrow> Device \<Rightarrow> ConnectionData option \<Rightarrow> 64 word \<Rightarrow> int \<Rightarrow> bool \<Rightarrow> byte list \<Rightarrow> bool res" where
  "checkHMAC C dev conn initTime scheme sumCookie content =
     (let written = InitialHashString @ device_public C scheme dev @ take (header_Size scheme - HashSize) content;
          matches = (\<lambda>w. Digest C (HashType (NewCipherSuite scheme)) w = HMACBytes scheme content)
      in if sumCookie then
           (case conn of None \<Rightarrow> Panic
            | Some c \<Rightarrow> Ok (matches (written @ expected_cookie initTime (ConnCookieStore c))))
         else Ok (matches written))"

text \<open>\<^verbatim>\<open>derivePacketParserData\<close>: an answer is read with the cipher scheme and the chain key of the request.\<close>

definition derivePacketParserData :: "MsgAssemblerData \<Rightarrow> byte list \<Rightarrow> 64 word \<Rightarrow> PacketParserData" where
  "derivePacketParserData mad content initTime = empty_ppd\<lparr>ppd_Content := content,
     ppd_CipherScheme := mad_CipherScheme mad, ppd_HeaderFlag := header_Flag content, ppd_LocalInitTime := initTime,
     ppd_chainHash := InitialHashString, ppd_chainKey := mad_chainKey mad\<rparr>"

definition new_ppd :: "crypto \<Rightarrow> int \<Rightarrow> byte list \<Rightarrow> 64 word \<Rightarrow> PacketParserData" where
  "new_ppd C scheme content initTime = empty_ppd\<lparr>ppd_Content := content, ppd_CipherScheme := scheme,
     ppd_HeaderFlag := header_Flag content, ppd_LocalInitTime := initTime, ppd_chainHash := InitialHashString,
     ppd_chainKey := ChainKey0 C (NewCipherSuite scheme)\<rparr>"

definition check_header :: "crypto \<Rightarrow> Device \<Rightarrow> ConnectionData option \<Rightarrow> PacketParserData \<Rightarrow> PacketParserData res" where
  "check_header C dev conn ppd =
     (let content = ppd_Content ppd; (t, s) = TypeAndPayloadSize content;
          overload = (deviceType dev = NHP_SERVER \<and> Overload dev);
          failed = (if deviceType dev = NHP_SERVER then CoreError ''ERR_NHP_SERVER_HMAC_CHECK_FAILED''
                    else CoreError ''ERR_NHP_HMAC_CHECK_FAILED'')
      in if overload \<and> \<not> IsAllowedAtOverload t then Err (CoreError ''ERR_NHP_SERVER_OVERLOAD'')
         else res_bind (checkHMAC C dev conn (ppd_LocalInitTime ppd) (ppd_CipherScheme ppd) (overload \<and> t = NHP_RKN) content)
           (\<lambda>ok. if \<not> ok then Err failed
             else Ok (ppd\<lparr>ppd_HeaderType := t, ppd_BodySize := s, ppd_Overload := overload,
               ppd_SenderTrxId := Counter content,
               ppd_BodyCompress := (ppd_HeaderFlag ppd AND NHP_FLAG_COMPRESS \<noteq> 0), ppd_BodyMessage := []\<rparr>)))"

definition createPacketParserData :: "crypto \<Rightarrow> Device \<Rightarrow> ConnectionData option \<Rightarrow> MsgAssemblerData option \<Rightarrow> 64 word \<Rightarrow>
    byte list \<Rightarrow> PacketParserData res" where
  "createPacketParserData C dev conn prev initTime content = res_bind (Packet_Header content) (\<lambda>scheme.
     check_header C dev conn (case prev of
         Some mad \<Rightarrow> derivePacketParserData mad content initTime
       | None \<Rightarrow> new_ppd C scheme content initTime))"

subsection \<open>Who sent it\<close>

text \<open>The sender's public key; chain hash and chain key evolve.\<close>

definition open_static :: "crypto \<Rightarrow> Device \<Rightarrow> PacketParserData \<Rightarrow> (byte list \<times> byte list \<times> byte list) res" where
  "open_static C dev ppd =
     (let scheme = ppd_CipherScheme ppd; ciphers = NewCipherSuite scheme; h = HashType ciphers;
          content = ppd_Content ppd; eph = EphermeralBytes scheme content;
          chainHash1 = ppd_chainHash ppd @ device_public C scheme dev @ eph;
          chainKey1 = MixKey C h (ppd_chainKey ppd) eph
      in case SharedSecret C scheme (staticEcdh dev) eph of
           None \<Rightarrow> Err (CoreError ''ERR_NHP_DEVICE_ECDH_EPHERMAL_FAILED'')
         | Some ess \<Rightarrow>
            let (chainKey2, key2) = KeyGen2 C h chainKey1 ess
            in case aead_Open C (GcmType ciphers) key2 (NonceBytes content) (StaticBytes scheme content)
                (Digest C h chainHash1) of
                 None \<Rightarrow> Err (OtherError ''cipher: message authentication failed'')
               | Some peerPk \<Rightarrow> Ok (peerPk, chainHash1 @ StaticBytes scheme content, chainKey2))"

definition toValidate :: "DeviceOptions \<Rightarrow> int \<Rightarrow> bool" where
  "toValidate option peerDeviceType =
     (if peerDeviceType = NHP_AGENT \<or> peerDeviceType = DHP_AGENT then \<not> DisableAgentPeerValidation option
      else if peerDeviceType = NHP_SERVER then \<not> DisableServerPeerValidation option
      else if peerDeviceType = NHP_AC then \<not> DisableACPeerValidation option
      else if peerDeviceType = NHP_RELAY then \<not> DisableRelayPeerValidation option
      else if peerDeviceType = NHP_DB then \<not> DisableDePeerValidation option
      else False)"

definition IsExpired :: "64 word \<Rightarrow> UdpPeer \<Rightarrow> bool" where
  "IsExpired nowMilli p \<longleftrightarrow> 0 <s ExpireTimeSec p \<and> ExpireTimeSec p * 1000 <s nowMilli"

definition CheckRecvAddress :: "64 word \<Rightarrow> string \<Rightarrow> UdpPeer \<Rightarrow> bool" where
  "CheckRecvAddress currTime currAddr p \<longleftrightarrow>
     lastRecvTime p + 5 * Second <s currTime \<or> recvAddr p = currAddr"

definition accept_peer :: "clocks \<Rightarrow> ConnectionData option \<Rightarrow> PacketParserData \<Rightarrow> byte list \<Rightarrow> Device \<Rightarrow> unit res \<times> Device" where
  "accept_peer tm conn ppd peerPk dev =
     (if toValidate (dev_option dev) (HeaderTypeToDeviceType (ppd_HeaderType ppd)) then
        (case peerMap dev peerPk of
           None \<Rightarrow> (Err (OtherError ''peer not found in peer pool''), dev)
         | Some peer \<Rightarrow>
            if IsExpired (now_milli tm) peer then (Err (OtherError ''peer expired''), dev)
            else (case conn of None \<Rightarrow> (Panic, dev)
              | Some c \<Rightarrow>
                 if \<not> CheckRecvAddress (ppd_LocalInitTime ppd) (RemoteAddr c) peer then
                   (Err (OtherError ''peer does not match its previous address''), dev)
                 else (Ok (), dev\<lparr>peerMap := (peerMap dev)(peerPk \<mapsto>
                   peer\<lparr>lastRecvTime := ppd_LocalInitTime ppd, recvAddr := RemoteAddr c\<rparr>)\<rparr>)))
      else (Ok (), dev))"

text \<open>The time the sender states.\<close>

definition open_timestamp :: "crypto \<Rightarrow> Device \<Rightarrow> PacketParserData \<Rightarrow> byte list \<Rightarrow> byte list \<Rightarrow> byte list \<Rightarrow>
    (64 word \<times> byte list) res" where
  "open_timestamp C dev ppd peerPk chainHash2 chainKey2 =
     (let scheme = ppd_CipherScheme ppd; ciphers = NewCipherSuite scheme; h = HashType ciphers; content = ppd_Content ppd
      in case SharedSecret C scheme (staticEcdh dev) peerPk of
           None \<Rightarrow> Err (CoreError ''ERR_NHP_DEVICE_ECDH_OBTAINED_PEER_FAILED'')
         | Some ss \<Rightarrow>
            let (chainKey3, key3) = KeyGen2 C h chainKey2 ss
            in case aead_Open C (GcmType ciphers) key3 (NonceBytes content) (TimestampBytes scheme content)
                (Digest C h chainHash2) of
                 None \<Rightarrow> Err (OtherError ''cipher: message authentication failed'')
               | Some tsBytes \<Rightarrow> Ok (be_word tsBytes, chainKey3))"

subsection \<open>Replay, flood and stale packets\<close>

definition shouldCheckRecvAttack :: "int \<Rightarrow> int \<Rightarrow> int \<Rightarrow> bool" where
  "shouldCheckRecvAttack devType peerType msgType \<longleftrightarrow>
     \<not> (devType = NHP_SERVER \<and> peerType = NHP_AC \<and> msgType = NHP_ART \<or>
        devType = NHP_AC \<and> peerType = NHP_SERVER \<and> msgType = NHP_AOP)"

definition ThreatCountBeforeBlock :: "32 word" where "ThreatCountBeforeBlock = 1"

definition add_threat :: "ConnectionData \<Rightarrow> ConnectionData" where
  "add_threat c =
     (let threat = RecvThreatCount c + 1
      in if ThreatCountBeforeBlock <s threat \<and> \<not> conn_closed c
         then c\<lparr>RecvThreatCount := ThreatCountBeforeBlock, BlockSignal := True\<rparr>
         else c\<lparr>RecvThreatCount := threat\<rparr>)"

definition check_send_time :: "int \<Rightarrow> int \<Rightarrow> 64 word \<Rightarrow> 64 word \<Rightarrow> ConnectionData \<Rightarrow> unit res \<times> ConnectionData" where
  "check_send_time devType msgType initTime remoteSendTime c =
     (let checked = shouldCheckRecvAttack devType (HeaderTypeToDeviceType msgType) msgType in
      if checked \<and> remoteSendTime <s LastRemoteSendTime c then
        (Err (OtherError ''received replay packet''), add_threat c)
      else if checked \<and> remoteSendTime <s LastRemoteSendTime c + 20 * Millisecond then
        (Err (OtherError ''received flood packet''), add_threat c)
      else if remoteSendTime <s initTime - 600 * Second then
        (Err (OtherError ''received stale packet''), add_threat c)
      else (Ok (), c\<lparr>LastRemoteSendTime := remoteSendTime, RecvThreatCount := 0\<rparr>))"

subsection \<open>Cookies\<close>

definition generateCookie :: "crypto \<Rightarrow> int \<Rightarrow> byte list \<Rightarrow> 64 word \<Rightarrow> CookieStore \<Rightarrow> CookieStore" where
  "generateCookie C scheme content currTime cs =
     (if 120 * Second <s currTime - LastCookieTime cs then
        \<lparr>CurrCookie = KeyGen1 C (HashType (NewCipherSuite scheme)) (EphermeralBytes scheme content) (be_bytes 8 currTime),
         PrevCookie = CurrCookie cs, LastCookieTime = currTime\<rparr>
      else cs)"

text \<open>\<^verbatim>\<open>SendMsgToPacket\<close> discards a message its queue has no room for.\<close>

definition SendQueueSize :: nat where "SendQueueSize = 10240"

definition SendMsgToPacket :: "ServerCookieMsg \<Rightarrow> Device \<Rightarrow> Device" where
  "SendMsgToPacket md dev = (if length (msgToPacketQueue dev) < SendQueueSize
     then dev\<lparr>msgToPacketQueue := msgToPacketQueue dev @ [md]\<rparr> else dev)"

definition sendCookie :: "PacketParserData \<Rightarrow> ConnectionData \<Rightarrow> Device \<Rightarrow> Device" where
  "sendCookie ppd c dev = SendMsgToPacket \<lparr>cok_TransactionId = ppd_SenderTrxId ppd,
     cok_Cookie = CurrCookie (ConnCookieStore c), cok_PeerPk = ppd_RemotePubKey ppd, cok_CipherScheme = ppd_CipherScheme ppd\<rparr> dev"

subsection \<open>Validation of the sender\<close>

definition finish_validation :: "crypto \<Rightarrow> clocks \<Rightarrow> PacketParserData \<Rightarrow> Device \<Rightarrow> ConnectionData \<Rightarrow>
    PacketParserData res \<times> Device \<times> ConnectionData" where
  "finish_validation C tm ppd dev c =
     (if deviceType dev = NHP_SERVER \<and> ppd_Overload ppd \<and> (ppd_HeaderType ppd = NHP_KNK \<or> ppd_HeaderType ppd = DHP_KNK)
      then (let c' = c\<lparr>ConnCookieStore := generateCookie C (ppd_CipherScheme ppd) (ppd_Content ppd) (cookie_now tm)
                  (ConnCookieStore c)\<rparr>
            in (Err (CoreError ''ERR_NHP_SERVER_REJECT_WITH_COOKIE''), sendCookie ppd c' dev, c'))
      else
        (let ciphers = NewCipherSuite (ppd_CipherScheme ppd); ts = TimestampBytes (ppd_CipherScheme ppd) (ppd_Content ppd);
             (chainKey4, key4) = KeyGen2 C (HashType ciphers) (ppd_chainKey ppd) ts
         in (Ok (ppd\<lparr>ppd_chainHash := ppd_chainHash ppd @ ts, ppd_chainKey := chainKey4, ppd_bodyKey := key4\<rparr>), dev, c)))"

definition validatePeer :: "crypto \<Rightarrow> clocks \<Rightarrow> PacketParserData \<Rightarrow> Device \<Rightarrow> ConnectionData option \<Rightarrow>
    PacketParserData res \<times> Device \<times> ConnectionData option" where
  "validatePeer C tm ppd dev conn =
     (case open_static C dev ppd of
        Panic \<Rightarrow> (Panic, dev, conn) | Err e \<Rightarrow> (Err e, dev, conn)
      | Ok (peerPk, chainHash2, chainKey2) \<Rightarrow>
     (case accept_peer tm conn ppd peerPk dev of
        (Panic, dev) \<Rightarrow> (Panic, dev, conn) | (Err e, dev) \<Rightarrow> (Err e, dev, conn)
      | (Ok _, dev) \<Rightarrow>
     (case open_timestamp C dev ppd peerPk chainHash2 chainKey2 of
        Panic \<Rightarrow> (Panic, dev, conn) | Err e \<Rightarrow> (Err e, dev, conn)
      | Ok (remoteSendTime, chainKey3) \<Rightarrow>
     (case conn of None \<Rightarrow> (Panic, dev, None)
      | Some c \<Rightarrow>
     (case check_send_time (deviceType dev) (ppd_HeaderType ppd) (ppd_LocalInitTime ppd) remoteSendTime c of
        (Panic, c) \<Rightarrow> (Panic, dev, Some c) | (Err e, c) \<Rightarrow> (Err e, dev, Some c)
      | (Ok _, c) \<Rightarrow>
         (case finish_validation C tm (ppd\<lparr>ppd_RemotePubKey := peerPk, ppd_chainHash := chainHash2,
            ppd_chainKey := chainKey3\<rparr>) dev c of (r, dev, c) \<Rightarrow> (r, dev, Some c)))))))"

subsection \<open>The body\<close>

definition wipe_ppd :: "PacketParserData \<Rightarrow> PacketParserData" where
  "wipe_ppd ppd = ppd\<lparr>ppd_chainHash := [], ppd_chainKey := replicate (length (ppd_chainKey ppd)) 0\<rparr>"

definition decryptBody :: "crypto \<Rightarrow> PacketParserData \<Rightarrow> PacketParserData res" where
  "decryptBody C ppd =
     (let scheme = ppd_CipherScheme ppd; ciphers = NewCipherSuite scheme; size = header_Size scheme;
          content = ppd_Content ppd
      in if length content = size then Ok (wipe_ppd ppd)
         else (case aead_Open C (GcmType ciphers) (ppd_bodyKey ppd) (NonceBytes content) (drop size content)
             (Digest C (HashType ciphers) (ppd_chainHash ppd)) of
             None \<Rightarrow> Err (CoreError ''ERR_NHP_AEAD_DECRYPTION_FAILED'')
           | Some body \<Rightarrow>
              if ppd_BodyCompress ppd then
                (if \<not> Zlib_NewReader C body then Panic
                 else (case Zlib_Copy C body of
                     None \<Rightarrow> Err (CoreError ''ERR_NHP_DATA_DECOMPRESSION_FAILED'')
                   | Some message \<Rightarrow> Ok (wipe_ppd (ppd\<lparr>ppd_BodyMessage := message\<rparr>))))
              else Ok (wipe_ppd (ppd\<lparr>ppd_BodyMessage := body\<rparr>))))"

subsection \<open>The whole\<close>

text \<open>What \<^verbatim>\<open>packetToMsgRoutine\<close> and \<^verbatim>\<open>PacketToMsg\<close> do with a packet; in the routine, a goroutine, nothing
  recovers a panic.\<close>

definition parse_packet :: "crypto \<Rightarrow> clocks \<Rightarrow> MsgAssemblerData option \<Rightarrow> byte list \<Rightarrow> Device \<Rightarrow>
    ConnectionData option \<Rightarrow> PacketParserData res \<times> Device \<times> ConnectionData option" where
  "parse_packet C tm prev content dev conn =
     (case createPacketParserData C dev conn prev (InitTime tm) content of
        Panic \<Rightarrow> (Panic, dev, conn) | Err e \<Rightarrow> (Err e, dev, conn)
      | Ok ppd \<Rightarrow> (case validatePeer C tm ppd dev conn of
          (r, dev, conn) \<Rightarrow> (res_bind r (decryptBody C), dev, conn)))"

definition PacketToMsg :: "crypto \<Rightarrow> clocks \<Rightarrow> byte list \<Rightarrow> Device \<Rightarrow> ConnectionData option \<Rightarrow>
    PacketParserData res \<times> Device \<times> ConnectionData option" where
  "PacketToMsg C tm content dev conn =
     (case RecvPrecheck (deviceType dev) content of
        Panic \<Rightarrow> (recovered Panic, dev, conn) | Err e \<Rightarrow> (Err e, dev, conn)
      | Ok (t, s) \<Rightarrow>
         if t = NHP_KPL then (Ok (empty_ppd\<lparr>ppd_HeaderType := NHP_KPL\<rparr>), dev, conn)
         else (case parse_packet C tm None content dev conn of (r, dev, conn) \<Rightarrow> (recovered r, dev, conn)))"

subsection \<open>The reply\<close>

text \<open>\<^verbatim>\<open>deriveMsgAssemblerData\<close>: the answer to a parsed packet continues with its counter and chain key.\<close>

definition deriveMsgAssemblerData :: "Device \<Rightarrow> PacketParserData \<Rightarrow> byte list \<Rightarrow> int \<Rightarrow> bool \<Rightarrow> byte list \<Rightarrow>
    byte list option \<Rightarrow> MsgAssemblerData" where
  "deriveMsgAssemblerData dev ppd buf t compress message connCookie =
     \<lparr>BasePacket_Buf = SetCounter (ppd_SenderTrxId ppd) buf, BasePacket_Content = buf,
      mad_deviceEcdh = staticEcdh dev, mad_ephermeralEcdh = [], mad_hmacHash = [], mad_chainHash = InitialHashString,
      mad_chainKey = ppd_chainKey ppd, mad_bodyKey = [], mad_LocalInitTime = 0, mad_TransactionId = 0,
      mad_CipherScheme = ppd_CipherScheme ppd, mad_HeaderType = t, mad_HeaderFlag = 0, mad_BodyCompress = compress,
      mad_ClPkc = False, mad_ExternalCookie = None, mad_ConnCookie = connCookie,
      mad_RemotePubKey = Some (ppd_RemotePubKey ppd), mad_bodyMessage = message\<rparr>"

end
