(* ===== verification/Nhp_Noise_Correct.thy ===== *)
theory Nhp_Noise_Correct
  imports Nhp_Responder
begin

text \<open>
  What the two sides of the protocol agree on. The bytes of a finished packet are read back field by
  field, and the keys the receiver derives from them are the sender's, so that every sealed field
  opens.
\<close>

subsection \<open>The fields of a finished packet\<close>

lemma length_setters [simp]:
  "24 \<le> length buf \<Longrightarrow> length (SetVersion a b buf) = length buf"
  "24 \<le> length buf \<Longrightarrow> length (SetCounter n buf) = length buf"
  "24 \<le> length buf \<Longrightarrow> length (SetFlag scheme fl buf) = length buf"
  "24 \<le> length buf \<Longrightarrow> length (SetTypeAndPayloadSize pre t s buf) = length buf"
  by (simp_all add: SetVersion_def SetCounter_def SetFlag_def SetTypeAndPayloadSize_def Let_def)

lemma take_put_before: "n \<le> i \<Longrightarrow> i \<le> length bs \<Longrightarrow> take n (put_at i new bs) = take n bs"
  by (simp add: put_at_def min_def)

lemma drop_take_put: "i + length new \<le> length bs \<Longrightarrow> n = i + length new \<Longrightarrow> drop i (take n (put_at i new bs)) = new"
  by (simp add: put_at_def)

text \<open>A setter leaves every slice it does not touch.\<close>

lemma slice_setters:
  assumes "24 \<le> length buf"
  shows "b \<le> 8 \<or> 10 \<le> a \<Longrightarrow> slice_of (SetVersion x y buf) a b = slice_of buf a b"
    "b \<le> 16 \<or> 24 \<le> a \<Longrightarrow> slice_of (SetCounter n buf) a b = slice_of buf a b"
    "b \<le> 10 \<or> 12 \<le> a \<Longrightarrow> slice_of (SetFlag scheme fl buf) a b = slice_of buf a b"
    "8 \<le> a \<Longrightarrow> slice_of (SetTypeAndPayloadSize pre t s buf) a b = slice_of buf a b"
proof -
  assume "8 \<le> a"
  then have "slice_of (put_at 4 x (put_at 0 y buf)) a b = slice_of buf a b" if "length x = 4" "length y = 4" for x y
    using assms that by (simp add: slice_put_after)
  then show "slice_of (SetTypeAndPayloadSize pre t s buf) a b = slice_of buf a b"
    by (simp add: SetTypeAndPayloadSize_def Let_def)
qed (use assms in \<open>auto simp: SetVersion_def SetCounter_def SetFlag_def Let_def
      intro: slice_put_before slice_put_after\<close>)

lemma slice_counter: "24 \<le> length buf \<Longrightarrow> slice_of (SetCounter n buf) 16 24 = be_bytes 8 n"
  by (simp add: SetCounter_def slice_put_same)

lemma slice_append_into:
  "i + cap \<le> length buf \<Longrightarrow> b \<le> i \<or> i + length new \<le> a \<Longrightarrow> slice_of (append_into i cap new buf) a b = slice_of buf a b"
  by (auto simp: append_into_def intro: slice_put_before slice_put_after)

lemma slice_appended:
  "i + cap \<le> length buf \<Longrightarrow> length new \<le> cap \<Longrightarrow> j = i + length new \<Longrightarrow> slice_of (append_into i cap new buf) i j = new"
  by (simp add: append_into_def slice_put_same)

lemma length_append_into [simp]: "i + cap \<le> length buf \<Longrightarrow> length (append_into i cap new buf) = length buf"
  by (simp add: append_into_def)

lemmas packet_simps = slice_setters slice_counter slice_append_into slice_appended slice_put_before slice_put_after
  slice_put_same

definition sender_flags :: "16 word set" where
  "sender_flags = {0, NHP_FLAG_COMPRESS, NHP_FLAG_CL_PKC, NHP_FLAG_COMPRESS OR NHP_FLAG_CL_PKC}"

lemma SetFlag_bits:
  assumes "24 \<le> length buf" "fl \<in> sender_flags"
  shows "be_word (slice_of (SetFlag scheme fl buf) 10 12) =
     (if scheme = CIPHER_SCHEME_CURVE then fl else fl OR NHP_FLAG_EXTENDEDLENGTH)"
proof -
  have "slice_of (SetFlag scheme fl buf) 10 12 = be_bytes 2 (if scheme = CIPHER_SCHEME_CURVE
                  then (fl AND NOT NHP_FLAG_EXTENDEDLENGTH) AND 0x0FFF
                  else ((fl OR NHP_FLAG_EXTENDEDLENGTH) AND 0x0FFF) OR push_bit 12 NHP_FLAG_SCHEME_GMSM)"
    using assms(1) by (simp add: SetFlag_def Let_def slice_put_same)
  moreover have "(fl AND NOT NHP_FLAG_EXTENDEDLENGTH) AND 0x0FFF = fl"
    "((fl OR NHP_FLAG_EXTENDEDLENGTH) AND 0x0FFF) OR push_bit 12 NHP_FLAG_SCHEME_GMSM = fl OR NHP_FLAG_EXTENDEDLENGTH"
    using assms(2) by (auto simp: sender_flags_def flag_defs)
  ultimately show ?thesis by simp
qed

lemma flag_tests:
  assumes "fl \<in> sender_flags"
  shows "fl AND NHP_FLAG_EXTENDEDLENGTH = 0" "(fl OR NHP_FLAG_EXTENDEDLENGTH) AND NHP_FLAG_EXTENDEDLENGTH \<noteq> 0"
    "(fl OR NHP_FLAG_EXTENDEDLENGTH) AND NHP_FLAG_COMPRESS = fl AND NHP_FLAG_COMPRESS"
  using assms by (auto simp: sender_flags_def flag_defs)

subsection \<open>The finished packet\<close>

lemma header_offsets:
  "static_at scheme = 104 + pk_size scheme" "timestamp_at scheme = 120 + 2 * pk_size scheme"
  "hmac_at scheme = 144 + 2 * pk_size scheme" "header_Size scheme = 176 + 2 * pk_size scheme" "eph_at = 24"
  by (simp_all add: at_defs)

lemma pk_size_le: "pk_size scheme \<le> 64" "32 \<le> pk_size scheme"
  by (simp_all add: pk_size_def)

text \<open>
  The bytes the sender writes: counter, ephemeral key, sealed key and time, flags, type and
  size, check sum, body. \<open>handshake_bytes\<close> are those before the flags.
\<close>

definition handshake_bytes :: "int \<Rightarrow> 64 word \<Rightarrow> byte list \<Rightarrow> byte list \<Rightarrow> byte list \<Rightarrow> byte list \<Rightarrow> byte list" where
  "handshake_bytes scheme trx eph static ts buf =
     append_into (timestamp_at scheme) (TimestampSize + GCMTagSize) ts
      (append_into (static_at scheme) (pk_size scheme + GCMTagSize) static
       (put_at eph_at eph (SetCounter trx buf)))"

definition marked_bytes :: "int \<Rightarrow> 16 word \<Rightarrow> 32 word \<Rightarrow> int \<Rightarrow> int \<Rightarrow> byte list \<Rightarrow> byte list" where
  "marked_bytes scheme flag pre t s buf = SetTypeAndPayloadSize pre t s (SetFlag scheme flag buf)"

definition packet_bytes :: "int \<Rightarrow> byte list \<Rightarrow> byte list \<Rightarrow> byte list \<Rightarrow> byte list" where
  "packet_bytes scheme mac body buf = take (header_Size scheme + length body)
     (append_into (header_Size scheme) (PacketBufferSize - header_Size scheme) body
       (append_into (hmac_at scheme) HashSize mac buf))"

lemma length_handshake_bytes [simp]:
  "length buf = PacketBufferSize \<Longrightarrow> length eph = pk_size scheme \<Longrightarrow>
   length (handshake_bytes scheme trx eph static ts buf) = PacketBufferSize"
  using pk_size_le[of scheme]
  by (simp add: handshake_bytes_def header_offsets header_size_defs PacketBufferSize_def)

lemma handshake_slices:
  assumes "length buf = PacketBufferSize" "length eph = pk_size scheme" "length static = pk_size scheme + GCMTagSize"
    "length ts = TimestampSize + GCMTagSize"
  shows "EphermeralBytes scheme (handshake_bytes scheme trx eph static ts buf) = eph"
    "StaticBytes scheme (handshake_bytes scheme trx eph static ts buf) = static"
    "TimestampBytes scheme (handshake_bytes scheme trx eph static ts buf) = ts"
    "slice_of (handshake_bytes scheme trx eph static ts buf) 16 24 = be_bytes 8 trx"
  using assms pk_size_le[of scheme]
  by (simp_all add: handshake_bytes_def EphermeralBytes_def StaticBytes_def TimestampBytes_def header_offsets
      header_size_defs PacketBufferSize_def packet_simps)

lemma length_marked_bytes [simp]: "24 \<le> length buf \<Longrightarrow> length (marked_bytes scheme fl pre t s buf) = length buf"
  by (simp add: marked_bytes_def)

lemma marked_slices:
  assumes "24 \<le> length buf" "12 \<le> a"
  shows "slice_of (marked_bytes scheme fl pre t s buf) a b = slice_of buf a b"
  using assms by (simp add: marked_bytes_def slice_setters)

lemma marked_fields:
  assumes "24 \<le> length buf" "fl \<in> sender_flags" "0 \<le> t" "t < 2 ^ 16" "0 \<le> s" "s < 2 ^ 16"
  shows "TypeAndPayloadSize (marked_bytes scheme fl pre t s buf) = (t, s)"
    "be_word (slice_of (marked_bytes scheme fl pre t s buf) 10 12) =
      (if scheme = CIPHER_SCHEME_CURVE then fl else fl OR NHP_FLAG_EXTENDEDLENGTH)"
  using assms by (simp_all add: marked_bytes_def TypeAndPayloadSize_Set slice_setters SetFlag_bits)

lemma packet_slices:
  assumes "length buf = PacketBufferSize" "length mac = HashSize" "length body \<le> PacketBufferSize - header_Size scheme"
  shows "length (packet_bytes scheme mac body buf) = header_Size scheme + length body"
    "drop (header_Size scheme) (packet_bytes scheme mac body buf) = body"
    "HMACBytes scheme (packet_bytes scheme mac body buf) = mac"
    "b \<le> hmac_at scheme \<Longrightarrow> slice_of (packet_bytes scheme mac body buf) a b = slice_of buf a b"
proof -
  let ?B = "append_into (hmac_at scheme) HashSize mac buf"
  have len: "length ?B = PacketBufferSize"
    using assms(1) pk_size_le[of scheme] by (simp add: header_offsets header_size_defs PacketBufferSize_def)
  have B: "packet_bytes scheme mac body buf = take (header_Size scheme + length body) (put_at (header_Size scheme) body ?B)"
    using assms(3) by (simp add: packet_bytes_def append_into_def)
  have fits: "header_Size scheme + length body \<le> length ?B"
    using assms(3) len pk_size_le[of scheme] by (simp add: header_offsets PacketBufferSize_def)
  show "length (packet_bytes scheme mac body buf) = header_Size scheme + length body"
    "drop (header_Size scheme) (packet_bytes scheme mac body buf) = body"
    using fits by (simp_all add: B drop_take_put)
  have before: "slice_of (packet_bytes scheme mac body buf) a b = slice_of ?B a b" if "b \<le> header_Size scheme" for a b
    using that fits by (simp add: B slice_take slice_put_before)
  show "HMACBytes scheme (packet_bytes scheme mac body buf) = mac"
    using assms(1,2) pk_size_le[of scheme]
    by (simp add: HMACBytes_def before slice_appended header_offsets header_size_defs PacketBufferSize_def)
  show "b \<le> hmac_at scheme \<Longrightarrow> slice_of (packet_bytes scheme mac body buf) a b = slice_of buf a b"
    using assms(1) pk_size_le[of scheme]
    by (simp add: before slice_append_into header_offsets header_size_defs PacketBufferSize_def)
qed

subsection \<open>The sender\<close>

text \<open>A record about to be sealed: addressed, with room in its buffer, to a key the secrets exist for.\<close>

definition ready :: "crypto \<Rightarrow> MsgAssemblerData \<Rightarrow> 64 word \<Rightarrow> byte list \<Rightarrow> byte list \<Rightarrow> byte list \<Rightarrow> byte list \<Rightarrow> byte list \<Rightarrow> bool" where
  "ready C mad trx buf eph pk ess ss \<longleftrightarrow>
     (let scheme = mad_CipherScheme mad
      in (scheme = CIPHER_SCHEME_CURVE \<or> scheme = CIPHER_SCHEME_GMSM) \<and> length buf = PacketBufferSize \<and>
         mad_RemotePubKey mad = Some pk \<and> length pk = pk_size scheme \<and>
         eph = Public C (EccType (NewCipherSuite scheme)) (mad_ephermeralEcdh mad) \<and>
         BasePacket_Buf mad = put_at eph_at eph (SetCounter trx buf) \<and>
         mad_hmacHash mad = InitialHashString \<and> mad_HeaderFlag mad = 0 \<and>
         SharedSecret C scheme (mad_ephermeralEcdh mad) pk = Some ess \<and>
         SharedSecret C scheme (mad_deviceEcdh mad) pk = Some ss)"

definition nonce_of :: "64 word \<Rightarrow> byte list" where
  "nonce_of trx = replicate 4 0 @ be_bytes 8 trx"

definition body_flag :: "MsgAssemblerData \<Rightarrow> 16 word" where
  "body_flag mad = (let flag1 = (if mad_BodyCompress mad then mad_HeaderFlag mad OR NHP_FLAG_COMPRESS else mad_HeaderFlag mad)
     in if mad_ClPkc mad then flag1 OR NHP_FLAG_CL_PKC else flag1)"

definition packed_body :: "crypto \<Rightarrow> MsgAssemblerData \<Rightarrow> byte list" where
  "packed_body C mad = (if mad_BodyCompress mad then Zlib_Write C (mad_bodyMessage mad) else mad_bodyMessage mad)"

lemma body_flag_cases: "mad_HeaderFlag mad = 0 \<Longrightarrow> body_flag mad \<in> sender_flags"
  "mad_HeaderFlag mad = 0 \<Longrightarrow> body_flag mad AND NHP_FLAG_COMPRESS \<noteq> 0 \<longleftrightarrow> mad_BodyCompress mad"
  by (simp_all add: body_flag_def sender_flags_def Let_def flag_defs)

text \<open>What the receiver asks of its state: the sender is acceptable, and its time too.\<close>

text \<open>The cookie in the sender's check sum, the one in the receiver's, and the types a device takes at all.\<close>

definition sent_cookie :: "MsgAssemblerData \<Rightarrow> byte list" where
  "sent_cookie mad = (if mad_HeaderType mad \<noteq> NHP_RKN then []
     else case mad_ExternalCookie mad of Some cookie \<Rightarrow> cookie
       | None \<Rightarrow> (case mad_ConnCookie mad of Some cookie \<Rightarrow> cookie | None \<Rightarrow> []))"

definition has_cookie :: "MsgAssemblerData \<Rightarrow> bool" where
  "has_cookie mad \<longleftrightarrow> mad_HeaderType mad = NHP_RKN \<longrightarrow> mad_ExternalCookie mad \<noteq> None \<or> mad_ConnCookie mad \<noteq> None"

definition asked_cookie :: "Device \<Rightarrow> ConnectionData \<Rightarrow> int \<Rightarrow> 64 word \<Rightarrow> byte list" where
  "asked_cookie dev c t initTime = (if deviceType dev = NHP_SERVER \<and> Overload dev \<and> t = NHP_RKN
     then expected_cookie initTime (ConnCookieStore c) else [])"

definition takes_type :: "Device \<Rightarrow> int \<Rightarrow> bool" where
  "takes_type dev t \<longleftrightarrow> deviceType dev = NHP_SERVER \<and> Overload dev \<longrightarrow> IsAllowedAtOverload t"

definition wants_cookie :: "Device \<Rightarrow> int \<Rightarrow> bool" where
  "wants_cookie dev t \<longleftrightarrow> deviceType dev = NHP_SERVER \<and> Overload dev \<and> (t = NHP_KNK \<or> t = DHP_KNK)"

definition admits :: "Device \<Rightarrow> ConnectionData \<Rightarrow> 64 word \<Rightarrow> MsgAssemblerData \<Rightarrow> bool" where
  "admits dev c initTime mad \<longleftrightarrow> has_cookie mad \<and> sent_cookie mad = asked_cookie dev c (mad_HeaderType mad) initTime \<and>
     takes_type dev (mad_HeaderType mad)"

lemma calm_admits:
  assumes "\<not> Overload dev" and "mad_HeaderType mad \<noteq> NHP_RKN"
  shows "admits dev c initTime mad" "\<not> wants_cookie dev (mad_HeaderType mad)"
  using assms by (simp_all add: takes_type_def wants_cookie_def asked_cookie_def admits_def has_cookie_def sent_cookie_def)

definition acceptable :: "clocks \<Rightarrow> Device \<Rightarrow> ConnectionData \<Rightarrow> int \<Rightarrow> byte list \<Rightarrow> 64 word \<Rightarrow> bool" where
  "acceptable tm dev c t peerPk sent \<longleftrightarrow>
     (toValidate (dev_option dev) (HeaderTypeToDeviceType t) \<longrightarrow> (\<exists>peer. peerMap dev peerPk = Some peer \<and>
        \<not> IsExpired (now_milli tm) peer \<and> CheckRecvAddress (InitTime tm) (RemoteAddr c) peer)) \<and>
     fst (check_send_time (deviceType dev) t (InitTime tm) sent c) = Ok ()"

text \<open>A validated packet whose body opens to what the sender packed.\<close>

definition delivered :: "crypto \<Rightarrow> MsgAssemblerData \<Rightarrow> int \<Rightarrow> 64 word \<Rightarrow> byte list \<Rightarrow> PacketParserData \<Rightarrow> bool" where
  "delivered C mad t trx content ppd \<longleftrightarrow>
     (let scheme = mad_CipherScheme mad; ciphers = NewCipherSuite scheme
      in ppd_CipherScheme ppd = scheme \<and> ppd_Content ppd = content \<and> ppd_BodyCompress ppd = mad_BodyCompress mad \<and>
         ppd_HeaderType ppd = t \<and> ppd_SenderTrxId ppd = trx \<and>
         ppd_RemotePubKey ppd = Public C (EccType ciphers) (mad_deviceEcdh mad) \<and>
         aead_Open C (GcmType ciphers) (ppd_bodyKey ppd) (NonceBytes content) (drop (header_Size scheme) content)
           (Digest C (HashType ciphers) (ppd_chainHash ppd)) = Some (packed_body C mad))"

text \<open>A packet whose sender and time of sending open, with the keys of every stage.\<close>

definition opened :: "crypto \<Rightarrow> MsgAssemblerData \<Rightarrow> Device \<Rightarrow> clocks \<Rightarrow> int \<Rightarrow> 64 word \<Rightarrow> byte list \<Rightarrow> PacketParserData \<Rightarrow>
    byte list \<Rightarrow> byte list \<Rightarrow> byte list \<Rightarrow> byte list \<Rightarrow> byte list \<Rightarrow> bool" where
  "opened C mad dev tm t trx content ppd ch2 ck2 ck3 ck4 key4 \<longleftrightarrow>
     (let scheme = mad_CipherScheme mad; ciphers = NewCipherSuite scheme; peerPk = Public C (EccType ciphers) (mad_deviceEcdh mad);
          ts = TimestampBytes scheme content
      in ppd_CipherScheme ppd = scheme \<and> ppd_Content ppd = content \<and> ppd_HeaderType ppd = t \<and> ppd_SenderTrxId ppd = trx \<and>
         ppd_LocalInitTime ppd = InitTime tm \<and> ppd_BodyCompress ppd = mad_BodyCompress mad \<and>
         ppd_Overload ppd = (deviceType dev = NHP_SERVER \<and> Overload dev) \<and>
         open_static C dev ppd = Ok (peerPk, ch2, ck2) \<and>
         open_timestamp C dev ppd peerPk ch2 ck2 = Ok (mad_LocalInitTime mad, ck3) \<and>
         KeyGen2 C (HashType ciphers) ck3 ts = (ck4, key4) \<and> NonceBytes content = nonce_of trx \<and>
         drop (header_Size scheme) content = aead_Seal C (GcmType ciphers) key4 (nonce_of trx) (packed_body C mad)
           (Digest C (HashType ciphers) (ch2 @ ts)))"

context nhp_primitives
begin

lemma public_pk [simp]: "length (Public C (EccType (NewCipherSuite scheme)) k) = pk_size scheme"
  by (rule public_length)

lemma sealed_lengths:
  "seal_static C mad pk ess = (static, ch2, ck2) \<Longrightarrow> length static = pk_size (mad_CipherScheme mad) + GCMTagSize"
  "seal_timestamp C mad ss ch2 ck2 = (ts, ch3, ck4, key4) \<Longrightarrow> length ts = TimestampSize + GCMTagSize"
  by (auto simp: seal_static_def seal_timestamp_def Let_def TimestampSize_def split: prod.splits)

lemma seal_timestamp_buf:
  "NonceBytes buf = NonceBytes (BasePacket_Buf mad) \<Longrightarrow>
   seal_timestamp C (mad\<lparr>BasePacket_Buf := buf\<rparr>) ss ch2 ck2 = seal_timestamp C mad ss ch2 ck2"
  by (simp add: seal_timestamp_def)

lemma ready_nonce:
  assumes "ready C mad trx buf eph pk ess ss"
  shows "NonceBytes (BasePacket_Buf mad) = nonce_of trx"
    "NonceBytes (append_into (static_at (mad_CipherScheme mad)) (pk_size (mad_CipherScheme mad) + GCMTagSize) static
       (BasePacket_Buf mad)) = nonce_of trx"
  using assms pk_size_le[of "mad_CipherScheme mad"]
  by (simp_all add: ready_def Let_def NonceBytes_def nonce_of_def header_offsets header_size_defs PacketBufferSize_def packet_simps)

lemma setPeerPublicKey_ready:
  assumes "ready C mad trx buf eph pk ess ss" and "seal_static C mad pk ess = (static, ch2, ck2)"
    and "seal_timestamp C mad ss ch2 ck2 = (ts, ch3, ck4, key4)"
  shows "setPeerPublicKey C mad = Ok (mad\<lparr>mad_hmacHash := InitialHashString @ pk,
     BasePacket_Buf := handshake_bytes (mad_CipherScheme mad) trx eph static ts buf,
     mad_chainHash := ch3, mad_chainKey := ck4, mad_bodyKey := key4\<rparr>)"
proof -
  have "seal_timestamp C (mad\<lparr>BasePacket_Buf := append_into (static_at (mad_CipherScheme mad))
      (pk_size (mad_CipherScheme mad) + GCMTagSize) static (BasePacket_Buf mad)\<rparr>) ss ch2 ck2 = (ts, ch3, ck4, key4)"
    using seal_timestamp_buf ready_nonce[OF assms(1)] assms(3) by simp
  then show ?thesis
    using assms(1,2) by (auto simp: setPeerPublicKey_def ready_def Let_def handshake_bytes_def)
qed

lemma encryptBody_ready:
  assumes "mad_bodyMessage mad \<noteq> []" and "has_cookie mad"
    and "length (packed_body C mad) + GCMTagSize \<le> PacketBufferSize - header_Size scheme"
    and "mad_CipherScheme mad = scheme" and "BasePacket_Buf mad = H" and "length H = PacketBufferSize"
    and "slice_of H 16 24 = be_bytes 8 trx"
    and "M = marked_bytes scheme (body_flag mad) (mc_preamble mc) (mad_HeaderType mad)
       (int (length (packed_body C mad) + GCMTagSize)) H"
  shows "\<exists>mad'. encryptBody C mc mad = Ok mad' \<and> mad_TransactionId mad' = mad_TransactionId mad \<and>
     mad_chainKey mad' = replicate (length (mad_chainKey mad)) 0 \<and> mad_CipherScheme mad' = scheme \<and>
     BasePacket_Content mad' = packet_bytes scheme
       (Digest C (HashType (NewCipherSuite scheme)) (mad_hmacHash mad @ take (hmac_at scheme) M @ sent_cookie mad))
       (aead_Seal C (GcmType (NewCipherSuite scheme)) (mad_bodyKey mad) (nonce_of trx) (packed_body C mad)
          (Digest C (HashType (NewCipherSuite scheme)) (mad_chainHash mad))) M"
proof -
  let ?mac = "Digest C (HashType (NewCipherSuite scheme)) (mad_hmacHash mad @ take (hmac_at scheme) M @ sent_cookie mad)"
  have nonce: "NonceBytes (append_into (hmac_at scheme) HashSize ?mac M) = nonce_of trx"
    using assms(6,7) pk_size_le[of scheme]
    by (simp add: NonceBytes_def nonce_of_def slice_append_into marked_slices assms(8) header_offsets header_size_defs
        PacketBufferSize_def)
  have size: "header_Size scheme - HashSize = hmac_at scheme" by (simp add: header_Size_hmac)
  have flag: "(let flag1 = (if mad_BodyCompress mad then mad_HeaderFlag mad OR NHP_FLAG_COMPRESS else mad_HeaderFlag mad)
     in if mad_ClPkc mad then flag1 OR NHP_FLAG_CL_PKC else flag1) = body_flag mad" by (simp add: body_flag_def)
  have hmac: "addHMAC C (mad_HeaderType mad = NHP_RKN) (mad\<lparr>mad_HeaderFlag := fl, BasePacket_Buf := M\<rparr>) =
      Ok (mad\<lparr>BasePacket_Buf := append_into (hmac_at scheme) HashSize ?mac M, mad_HeaderFlag := fl, mad_hmacHash := []\<rparr>)" for fl
    using assms(2,4) by (cases "mad_HeaderType mad = NHP_RKN")
      (auto simp: addHMAC_def Let_def size has_cookie_def sent_cookie_def split: option.splits)
  show ?thesis
    using assms(1-5) nonce
    by (simp add: encryptBody_def hmac wipe_mad_def packed_body_def[symmetric] flag[unfolded Let_def] Let_def
        size marked_bytes_def[symmetric] assms(8)[symmetric] packet_bytes_def del: of_nat_add)
qed

subsection \<open>The receiver mirrors the sender\<close>

lemma open_static_mirror:
  assumes "seal_static C mad pk ess = (static, ch2, ck2)"
    and "mad_CipherScheme mad = ppd_CipherScheme ppd" and "pk = device_public C (ppd_CipherScheme ppd) dev"
    and "mad_chainHash mad = ppd_chainHash ppd" and "mad_chainKey mad = ppd_chainKey ppd"
    and "EphermeralBytes (ppd_CipherScheme ppd) (ppd_Content ppd) =
      Public C (EccType (NewCipherSuite (ppd_CipherScheme ppd))) (mad_ephermeralEcdh mad)"
    and "StaticBytes (ppd_CipherScheme ppd) (ppd_Content ppd) = static"
    and "NonceBytes (ppd_Content ppd) = NonceBytes (BasePacket_Buf mad)"
    and "SharedSecret C (ppd_CipherScheme ppd) (mad_ephermeralEcdh mad) pk = Some ess"
  shows "open_static C dev ppd =
     Ok (Public C (EccType (NewCipherSuite (ppd_CipherScheme ppd))) (mad_deviceEcdh mad), ch2, ck2)"
proof -
  have "SharedSecret C (ppd_CipherScheme ppd) (staticEcdh dev)
      (Public C (EccType (NewCipherSuite (ppd_CipherScheme ppd))) (mad_ephermeralEcdh mad)) = Some ess"
    using assms(3,9) shared_agreement by (simp add: device_public_def)
  moreover obtain key2 where "KeyGen2 C (HashType (NewCipherSuite (ppd_CipherScheme ppd)))
      (MixKey C (HashType (NewCipherSuite (ppd_CipherScheme ppd))) (ppd_chainKey ppd)
        (EphermeralBytes (ppd_CipherScheme ppd) (ppd_Content ppd))) ess = (ck2, key2)"
    and static: "static = aead_Seal C (GcmType (NewCipherSuite (ppd_CipherScheme ppd))) key2 (NonceBytes (ppd_Content ppd))
      (Public C (EccType (NewCipherSuite (ppd_CipherScheme ppd))) (mad_deviceEcdh mad))
      (Digest C (HashType (NewCipherSuite (ppd_CipherScheme ppd)))
        (ppd_chainHash ppd @ pk @ EphermeralBytes (ppd_CipherScheme ppd) (ppd_Content ppd)))"
    and "ch2 = (ppd_chainHash ppd @ pk @ EphermeralBytes (ppd_CipherScheme ppd) (ppd_Content ppd)) @ static"
    using assms(1,2,4,5,6,8) by (auto simp: seal_static_def Let_def split: prod.splits)
  ultimately show ?thesis
    by (simp add: open_static_def Let_def assms(6)[symmetric] assms(3)[symmetric] assms(7))
qed

lemma open_timestamp_mirror:
  assumes "seal_timestamp C mad ss ch2 ck2 = (ts, ch3, ck4, key4)"
    and "mad_CipherScheme mad = ppd_CipherScheme ppd" and "pk = device_public C (ppd_CipherScheme ppd) dev"
    and "TimestampBytes (ppd_CipherScheme ppd) (ppd_Content ppd) = ts"
    and "NonceBytes (ppd_Content ppd) = NonceBytes (BasePacket_Buf mad)"
    and "SharedSecret C (ppd_CipherScheme ppd) (mad_deviceEcdh mad) pk = Some ss"
    and "peerPk = Public C (EccType (NewCipherSuite (ppd_CipherScheme ppd))) (mad_deviceEcdh mad)"
  shows "\<exists>ck3. open_timestamp C dev ppd peerPk ch2 ck2 = Ok (mad_LocalInitTime mad, ck3) \<and>
     KeyGen2 C (HashType (NewCipherSuite (ppd_CipherScheme ppd))) ck3 ts = (ck4, key4) \<and> ch3 = ch2 @ ts"
proof -
  have "SharedSecret C (ppd_CipherScheme ppd) (staticEcdh dev) peerPk = Some ss"
    using assms(3,6,7) shared_agreement by (simp add: device_public_def)
  moreover obtain ck3 key3 where "KeyGen2 C (HashType (NewCipherSuite (ppd_CipherScheme ppd))) ck2 ss = (ck3, key3)"
    and ts: "ts = aead_Seal C (GcmType (NewCipherSuite (ppd_CipherScheme ppd))) key3 (NonceBytes (ppd_Content ppd))
      (be_bytes 8 (mad_LocalInitTime mad)) (Digest C (HashType (NewCipherSuite (ppd_CipherScheme ppd))) ch2)"
    and "KeyGen2 C (HashType (NewCipherSuite (ppd_CipherScheme ppd))) ck3 ts = (ck4, key4)" "ch3 = ch2 @ ts"
    using assms(1,2,5) by (auto simp: seal_timestamp_def Let_def split: prod.splits)
  ultimately show ?thesis
    by (simp add: open_timestamp_def Let_def assms(4))
qed

lemma validatePeer_mirror:
  assumes "open_static C dev ppd = Ok (peerPk, ch2, ck2)"
    and "open_timestamp C dev ppd peerPk ch2 ck2 = Ok (sent, ck3)"
    and "KeyGen2 C (HashType (NewCipherSuite (ppd_CipherScheme ppd))) ck3
       (TimestampBytes (ppd_CipherScheme ppd) (ppd_Content ppd)) = (ck4, key4)"
    and "acceptable tm dev c (ppd_HeaderType ppd) peerPk sent" and "ppd_LocalInitTime ppd = InitTime tm"
    and "deviceType dev = NHP_SERVER \<and> ppd_Overload ppd \<longrightarrow> ppd_HeaderType ppd \<noteq> NHP_KNK \<and> ppd_HeaderType ppd \<noteq> DHP_KNK"
  shows "\<exists>dev'. validatePeer C tm ppd dev (Some c) =
     (Ok (ppd\<lparr>ppd_RemotePubKey := peerPk,
        ppd_chainHash := ch2 @ TimestampBytes (ppd_CipherScheme ppd) (ppd_Content ppd),
        ppd_chainKey := ck4, ppd_bodyKey := key4\<rparr>), dev', Some (c\<lparr>LastRemoteSendTime := sent, RecvThreatCount := 0\<rparr>))"
proof -
  obtain dev' where dev': "accept_peer tm (Some c) ppd peerPk dev = (Ok (), dev')" "deviceType dev' = deviceType dev"
    "staticEcdh dev' = staticEcdh dev"
  proof (cases "toValidate (dev_option dev) (HeaderTypeToDeviceType (ppd_HeaderType ppd))")
    case True
    then obtain peer where "peerMap dev peerPk = Some peer" "\<not> IsExpired (now_milli tm) peer"
      "CheckRecvAddress (ppd_LocalInitTime ppd) (RemoteAddr c) peer"
      using assms(4,5) by (auto simp: acceptable_def)
    with True show ?thesis
      by (intro that[of "dev\<lparr>peerMap := (peerMap dev)(peerPk \<mapsto>
        peer\<lparr>lastRecvTime := ppd_LocalInitTime ppd, recvAddr := RemoteAddr c\<rparr>)\<rparr>"]) (simp_all add: accept_peer_def)
  next
    case False
    then show ?thesis by (intro that[of dev]) (simp_all add: accept_peer_def)
  qed
  have time: "check_send_time (deviceType dev) (ppd_HeaderType ppd) (ppd_LocalInitTime ppd) sent c =
      (Ok (), c\<lparr>LastRemoteSendTime := sent, RecvThreatCount := 0\<rparr>)"
    using assms(4,5) by (simp add: acceptable_def check_send_time_def Let_def split: if_splits)
  have "open_timestamp C dev' ppd peerPk ch2 ck2 = Ok (sent, ck3)"
    using assms(2) dev'(3) by (simp add: open_timestamp_def)
  then show ?thesis
    using assms(1,3,6) dev'(1,2) time by (auto simp: validatePeer_def finish_validation_def Let_def)
qed

text \<open>The header check of a packet that was finished for this device.\<close>

lemma check_header_mirror:
  assumes "content = packet_bytes scheme (Digest C (HashType (NewCipherSuite scheme))
       (InitialHashString @ device_public C scheme dev @ take (hmac_at scheme) M @
          asked_cookie dev c t (ppd_LocalInitTime ppd))) body M"
    and "length M = PacketBufferSize" and "length body \<le> PacketBufferSize - header_Size scheme"
    and "TypeAndPayloadSize M = (t, s)" and "slice_of M 16 24 = be_bytes 8 trx"
    and "ppd_Content ppd = content" and "ppd_CipherScheme ppd = scheme" and "takes_type dev t"
  shows "check_header C dev (Some c) ppd = Ok (ppd\<lparr>ppd_HeaderType := t, ppd_BodySize := s,
     ppd_Overload := (deviceType dev = NHP_SERVER \<and> Overload dev),
     ppd_SenderTrxId := trx, ppd_BodyCompress := (ppd_HeaderFlag ppd AND NHP_FLAG_COMPRESS \<noteq> 0), ppd_BodyMessage := []\<rparr>)"
proof -
  have len: "length (Digest C (HashType (NewCipherSuite scheme))
      (InitialHashString @ device_public C scheme dev @ take (hmac_at scheme) M @
         asked_cookie dev c t (ppd_LocalInitTime ppd))) = HashSize"
    by (rule digest_length)
  note sl = packet_slices[OF assms(2) len assms(3), folded assms(1)]
  have "slice_of content a b = slice_of M a b" if "b \<le> 24" for a b
    using sl(4)[of b a] that pk_size_le[of scheme] by (simp add: header_offsets)
  then have ts: "TypeAndPayloadSize content = (t, s)" "Counter content = trx"
    using assms(4,5) by (simp_all add: TypeAndPayloadSize_def Counter_def)
  have "take (header_Size scheme - HashSize) content = take (hmac_at scheme) M"
    using sl(4)[of "hmac_at scheme" 0] by (simp add: slice_all header_Size_hmac)
  then have "checkHMAC C dev (Some c) (ppd_LocalInitTime ppd) scheme
      ((deviceType dev = NHP_SERVER \<and> Overload dev) \<and> t = NHP_RKN) content = Ok True"
    using sl(3) by (auto simp: checkHMAC_def asked_cookie_def)
  then show ?thesis
    using assms(6-8) ts by (auto simp: check_header_def Let_def takes_type_def)
qed

text \<open>The sender's result in closed form.\<close>

lemma send_ready:
  assumes r: "ready C mad trx buf eph pk ess ss" and scheme: "scheme = mad_CipherScheme mad"
    and msg: "mad_bodyMessage mad \<noteq> []" and "has_cookie mad"
    and fits: "length (packed_body C mad) + GCMTagSize \<le> PacketBufferSize - header_Size scheme"
    and st: "seal_static C mad pk ess = (static, ch2, ck2)" and ts: "seal_timestamp C mad ss ch2 ck2 = (ts, ch3, ck4, key4)"
    and M: "M = marked_bytes scheme (body_flag mad) (mc_preamble mc) (mad_HeaderType mad)
       (int (length (packed_body C mad) + GCMTagSize)) (handshake_bytes scheme trx eph static ts buf)"
  obtains mad' where "res_bind (setPeerPublicKey C mad) (encryptBody C mc) = Ok mad'"
    "mad_TransactionId mad' = mad_TransactionId mad" "mad_CipherScheme mad' = scheme"
    "mad_chainKey mad' = replicate (length ck4) 0"
    "BasePacket_Content mad' = packet_bytes scheme
       (Digest C (HashType (NewCipherSuite scheme)) (InitialHashString @ pk @ take (hmac_at scheme) M @ sent_cookie mad))
       (aead_Seal C (GcmType (NewCipherSuite scheme)) key4 (nonce_of trx) (packed_body C mad)
          (Digest C (HashType (NewCipherSuite scheme)) ch3)) M"
proof -
  let ?mad = "mad\<lparr>mad_hmacHash := InitialHashString @ pk, BasePacket_Buf := handshake_bytes scheme trx eph static ts buf,
     mad_chainHash := ch3, mad_chainKey := ck4, mad_bodyKey := key4\<rparr>"
  have eph: "length buf = PacketBufferSize" "length eph = pk_size scheme" using r scheme by (simp_all add: ready_def Let_def)
  have set: "setPeerPublicKey C mad = Ok ?mad" using setPeerPublicKey_ready[OF r st ts] scheme by simp
  have lens: "length static = pk_size scheme + GCMTagSize" "length ts = TimestampSize + GCMTagSize"
    using sealed_lengths(1)[OF st] sealed_lengths(2)[OF ts] scheme by simp_all
  have same: "packed_body C ?mad = packed_body C mad" "body_flag ?mad = body_flag mad"
    "sent_cookie ?mad = sent_cookie mad" "has_cookie ?mad = has_cookie mad"
    by (simp_all add: packed_body_def body_flag_def sent_cookie_def has_cookie_def cong: option.case_cong)
  have "\<exists>mad'. encryptBody C mc ?mad = Ok mad' \<and> mad_TransactionId mad' = mad_TransactionId ?mad \<and>
     mad_chainKey mad' = replicate (length (mad_chainKey ?mad)) 0 \<and> mad_CipherScheme mad' = scheme \<and>
     BasePacket_Content mad' = packet_bytes scheme
       (Digest C (HashType (NewCipherSuite scheme)) (mad_hmacHash ?mad @ take (hmac_at scheme) M @ sent_cookie ?mad))
       (aead_Seal C (GcmType (NewCipherSuite scheme)) (mad_bodyKey ?mad) (nonce_of trx) (packed_body C ?mad)
          (Digest C (HashType (NewCipherSuite scheme)) (mad_chainHash ?mad))) M"
  proof (rule encryptBody_ready)
    show "slice_of (handshake_bytes scheme trx eph static ts buf) 16 24 = be_bytes 8 trx"
      by (rule handshake_slices(4)[OF eph lens])
  qed (use assms(2-5) M same eph in simp_all)
  then obtain mad' where "encryptBody C mc ?mad = Ok mad'" "mad_TransactionId mad' = mad_TransactionId mad"
    "mad_chainKey mad' = replicate (length ck4) 0" "mad_CipherScheme mad' = scheme"
    "BasePacket_Content mad' = packet_bytes scheme
       (Digest C (HashType (NewCipherSuite scheme)) (InitialHashString @ pk @ take (hmac_at scheme) M @ sent_cookie mad))
       (aead_Seal C (GcmType (NewCipherSuite scheme)) key4 (nonce_of trx) (packed_body C mad)
          (Digest C (HashType (NewCipherSuite scheme)) ch3)) M"
    unfolding same by (elim exE conjE) simp
  with set show ?thesis by (intro that[of mad']) simp_all
qed

text \<open>The fields of a finished packet.\<close>

lemma packet_fields:
  assumes "length buf = PacketBufferSize" "length eph = pk_size scheme" "length static = pk_size scheme + GCMTagSize"
    "length ts = TimestampSize + GCMTagSize" "fl \<in> sender_flags" "0 \<le> t" "t < 2 ^ 16"
    "length body \<le> PacketBufferSize - header_Size scheme" "length mac = HashSize"
    "scheme = CIPHER_SCHEME_CURVE \<or> scheme = CIPHER_SCHEME_GMSM"
    and M: "M = marked_bytes scheme fl pre t (int (length body)) (handshake_bytes scheme trx eph static ts buf)"
    and content: "content = packet_bytes scheme mac body M"
  shows "EphermeralBytes scheme content = eph" "StaticBytes scheme content = static" "TimestampBytes scheme content = ts"
    "NonceBytes content = nonce_of trx" "TypeAndPayloadSize content = (t, int (length body))"
    "Packet_Header content = Ok scheme" "header_Flag content AND NHP_FLAG_COMPRESS = fl AND NHP_FLAG_COMPRESS"
    "TypeAndPayloadSize M = (t, int (length body))" "slice_of M 16 24 = be_bytes 8 trx" "length M = PacketBufferSize"
proof -
  let ?H = "handshake_bytes scheme trx eph static ts buf"
  have H: "length ?H = PacketBufferSize" using assms(1,2) by simp
  have H24: "24 \<le> length ?H" using H by (simp add: PacketBufferSize_def)
  then show lenM: "length M = PacketBufferSize" using H M by simp
  have "slice_of content a b = slice_of M a b" if "b \<le> hmac_at scheme" for a b
    using packet_slices(4)[OF lenM assms(9,8) that] content by simp
  moreover have "slice_of M a b = slice_of ?H a b" if "12 \<le> a" for a b
    using marked_slices[OF H24 that] M by simp
  ultimately have cM: "b \<le> hmac_at scheme \<Longrightarrow> slice_of content a b = slice_of M a b"
    and MH: "12 \<le> a \<Longrightarrow> slice_of M a b = slice_of ?H a b" for a b by blast+
  have le: "24 \<le> hmac_at scheme" "hmac_at scheme = 144 + 2 * pk_size scheme" by (simp_all add: header_offsets)
  note hs = handshake_slices[OF assms(1-4), of trx]
  show "EphermeralBytes scheme content = eph" "StaticBytes scheme content = static" "TimestampBytes scheme content = ts"
    using hs(1-3) by (simp_all add: EphermeralBytes_def StaticBytes_def TimestampBytes_def cM MH header_offsets)
  show M16: "slice_of M 16 24 = be_bytes 8 trx" using hs(4) by (simp add: MH)
  then show "NonceBytes content = nonce_of trx" using le(1) by (simp add: NonceBytes_def nonce_of_def cM)
  have small: "int (length body) < 2 ^ 16" using assms(8) by (simp add: PacketBufferSize_def)
  have MF: "TypeAndPayloadSize M = (t, int (length body))"
    "be_word (slice_of M 10 12) = (if scheme = CIPHER_SCHEME_CURVE then fl else fl OR NHP_FLAG_EXTENDEDLENGTH)"
    using marked_fields[OF H24 assms(5-7) _ small] M by simp_all
  then show "TypeAndPayloadSize M = (t, int (length body))" by simp
  then show "TypeAndPayloadSize content = (t, int (length body))"
    using le(1) by (simp add: TypeAndPayloadSize_def cM)
  have flag: "be_word (slice_of content 10 12) = (if scheme = CIPHER_SCHEME_CURVE then fl else fl OR NHP_FLAG_EXTENDEDLENGTH)"
    using MF(2) le(1) by (simp add: cM)
  then show "header_Flag content AND NHP_FLAG_COMPRESS = fl AND NHP_FLAG_COMPRESS"
    using flag_tests(3)[OF assms(5)] by (simp add: header_Flag_def)
  have "12 \<le> length content"
    using packet_slices(1)[OF lenM assms(9,8)] content by (simp add: header_offsets)
  then show "Packet_Header content = Ok scheme"
    using flag flag_tests(1,2)[OF assms(5)] assms(10)
    by (auto simp: Packet_Header_def go_slice_def scheme_defs split: if_splits)
qed

text \<open>What was sealed for a device passes its header check, and sender and time of sending open there.
  \<open>base\<close> is the record the receiver starts from.\<close>

lemma sealed_opens:
  assumes r: "ready C mad trx buf eph pk ess ss" and scheme: "scheme = mad_CipherScheme mad"
    and pk: "pk = device_public C scheme dev"
    and msg: "mad_bodyMessage mad \<noteq> []" and t: "mad_HeaderType mad = t" "0 \<le> t" "t < 2 ^ 16"
    and adm: "admits dev c (InitTime tm) mad"
    and fits: "length (packed_body C mad) + GCMTagSize \<le> PacketBufferSize - header_Size scheme"
    and base: "\<And>content. base content = empty_ppd\<lparr>ppd_Content := content, ppd_CipherScheme := scheme,
       ppd_HeaderFlag := header_Flag content, ppd_LocalInitTime := InitTime tm, ppd_chainHash := mad_chainHash mad,
       ppd_chainKey := mad_chainKey mad\<rparr>"
  shows "\<exists>mad' content ppd0 ch2 ck2 ck3 ck4 key4. res_bind (setPeerPublicKey C mad) (encryptBody C mc) = Ok mad' \<and>
     BasePacket_Content mad' = content \<and> mad_TransactionId mad' = mad_TransactionId mad \<and>
     length content = header_Size scheme + (length (packed_body C mad) + GCMTagSize) \<and>
     TypeAndPayloadSize content = (t, int (length (packed_body C mad) + GCMTagSize)) \<and> Packet_Header content = Ok scheme \<and>
     check_header C dev (Some c) (base content) = Ok ppd0 \<and> opened C mad dev tm t trx content ppd0 ch2 ck2 ck3 ck4 key4"
proof -
  obtain static ch2 ck2 where st: "seal_static C mad pk ess = (static, ch2, ck2)" by (cases "seal_static C mad pk ess") auto
  obtain ts ch3 ck4 key4 where tst: "seal_timestamp C mad ss ch2 ck2 = (ts, ch3, ck4, key4)"
    by (cases "seal_timestamp C mad ss ch2 ck2") auto
  have cookie: "has_cookie mad" "sent_cookie mad = asked_cookie dev c t (InitTime tm)" and calm: "takes_type dev t"
    using adm t(1) by (simp_all add: admits_def)
  have r': "scheme = CIPHER_SCHEME_CURVE \<or> scheme = CIPHER_SCHEME_GMSM" "length buf = PacketBufferSize"
    "eph = Public C (EccType (NewCipherSuite scheme)) (mad_ephermeralEcdh mad)" "mad_hmacHash mad = InitialHashString"
    "mad_HeaderFlag mad = 0" "SharedSecret C scheme (mad_ephermeralEcdh mad) pk = Some ess"
    "SharedSecret C scheme (mad_deviceEcdh mad) pk = Some ss"
    using r scheme by (auto simp: ready_def Let_def)
  define M where "M = marked_bytes scheme (body_flag mad) (mc_preamble mc) (mad_HeaderType mad)
     (int (length (packed_body C mad) + GCMTagSize)) (handshake_bytes scheme trx eph static ts buf)"
  define mac where "mac = Digest C (HashType (NewCipherSuite scheme))
     (InitialHashString @ pk @ take (hmac_at scheme) M @ sent_cookie mad)"
  define body where "body = aead_Seal C (GcmType (NewCipherSuite scheme)) key4 (nonce_of trx) (packed_body C mad)
     (Digest C (HashType (NewCipherSuite scheme)) ch3)"
  define content where "content = packet_bytes scheme mac body M"
  obtain mad' where mad': "res_bind (setPeerPublicKey C mad) (encryptBody C mc) = Ok mad'"
    "mad_TransactionId mad' = mad_TransactionId mad" "BasePacket_Content mad' = content"
    using send_ready[OF r scheme msg cookie(1) fits st tst M_def] unfolding content_def mac_def body_def by metis
  have lens: "length eph = pk_size scheme" "length static = pk_size scheme + GCMTagSize" "length ts = TimestampSize + GCMTagSize"
    "length mac = HashSize" "length body = length (packed_body C mad) + GCMTagSize"
    using sealed_lengths(1)[OF st] sealed_lengths(2)[OF tst] scheme r'(3) by (simp_all add: mac_def digest_length body_def)
  have M: "M = marked_bytes scheme (body_flag mad) (mc_preamble mc) t (int (length body))
      (handshake_bytes scheme trx eph static ts buf)" unfolding M_def lens(5) t(1) ..
  have bodyfits: "length body \<le> PacketBufferSize - header_Size scheme" using fits lens(5) by simp
  note f = packet_fields[OF r'(2) lens(1-3) body_flag_cases(1)[OF r'(5)] t(2,3) bodyfits lens(4) r'(1) M content_def]
  define ppd0 where "ppd0 = (base content)\<lparr>ppd_HeaderType := t, ppd_BodySize := int (length body),
     ppd_Overload := (deviceType dev = NHP_SERVER \<and> Overload dev),
     ppd_SenderTrxId := trx, ppd_BodyCompress := (header_Flag content AND NHP_FLAG_COMPRESS \<noteq> 0), ppd_BodyMessage := []\<rparr>"
  have init: "ppd_LocalInitTime (base content) = InitTime tm" by (simp add: base)
  have check: "check_header C dev (Some c) (base content) = Ok ppd0"
    using check_header_mirror[OF content_def[unfolded mac_def pk cookie(2)[folded init]] f(10) bodyfits f(8,9)] calm
    by (simp add: base ppd0_def)
  have p0: "ppd_CipherScheme ppd0 = scheme" "ppd_Content ppd0 = content" "ppd_chainHash ppd0 = mad_chainHash mad"
    "ppd_chainKey ppd0 = mad_chainKey mad" "ppd_HeaderType ppd0 = t" "ppd_LocalInitTime ppd0 = InitTime tm"
    "ppd_Overload ppd0 = (deviceType dev = NHP_SERVER \<and> Overload dev)" "ppd_SenderTrxId ppd0 = trx"
    "ppd_BodyCompress ppd0 = mad_BodyCompress mad"
    using f(7) body_flag_cases(2)[OF r'(5)] by (simp_all add: ppd0_def base)
  have nonce: "NonceBytes content = NonceBytes (BasePacket_Buf mad)" using f(4) ready_nonce(1)[OF r] by simp
  have os: "open_static C dev ppd0 = Ok (Public C (EccType (NewCipherSuite scheme)) (mad_deviceEcdh mad), ch2, ck2)"
    using open_static_mirror[OF st, of ppd0 dev] p0 scheme pk f(1,2) nonce r'(3,6) by simp
  obtain ck3 where ot: "open_timestamp C dev ppd0 (Public C (EccType (NewCipherSuite scheme)) (mad_deviceEcdh mad)) ch2 ck2 =
      Ok (mad_LocalInitTime mad, ck3)"
    "KeyGen2 C (HashType (NewCipherSuite scheme)) ck3 ts = (ck4, key4)" "ch3 = ch2 @ ts"
    using open_timestamp_mirror[OF tst, of ppd0 pk dev "Public C (EccType (NewCipherSuite scheme)) (mad_deviceEcdh mad)"]
      p0 scheme pk f(3) nonce r'(7) by auto
  note pb = packet_slices[OF f(10) lens(4) bodyfits, folded content_def]
  have "opened C mad dev tm t trx content ppd0 ch2 ck2 ck3 ck4 key4"
    using p0 os ot pb(2) f(3,4) scheme[symmetric] by (simp add: opened_def body_def Let_def)
  note result = mad'(1,3,2) pb(1)[unfolded lens(5)] f(5)[unfolded lens(5)] f(6) check this
  show ?thesis
    by (rule exI[of _ mad'], rule exI[of _ content], rule exI[of _ ppd0], rule exI[of _ ch2], rule exI[of _ ck2],
        rule exI[of _ ck3], rule exI[of _ ck4], rule exI[of _ key4]) (intro conjI result)
qed

text \<open>Delivery: the opened packet is validated and its body opens, unless the device wants a cookie first.\<close>

lemma opened_delivered:
  assumes o: "opened C mad dev tm t trx content ppd0 ch2 ck2 ck3 ck4 key4" and "\<not> wants_cookie dev t"
    and ok: "acceptable tm dev c t (Public C (EccType (NewCipherSuite (mad_CipherScheme mad))) (mad_deviceEcdh mad))
      (mad_LocalInitTime mad)"
  shows "\<exists>ppd1 dev'. validatePeer C tm ppd0 dev (Some c) =
       (Ok ppd1, dev', Some (c\<lparr>LastRemoteSendTime := mad_LocalInitTime mad, RecvThreatCount := 0\<rparr>)) \<and>
     delivered C mad t trx content ppd1"
proof -
  let ?pk = "Public C (EccType (NewCipherSuite (mad_CipherScheme mad))) (mad_deviceEcdh mad)"
  let ?ts = "TimestampBytes (mad_CipherScheme mad) content"
  note p = o[unfolded opened_def Let_def]
  obtain dev' where v: "validatePeer C tm ppd0 dev (Some c) =
     (Ok (ppd0\<lparr>ppd_RemotePubKey := ?pk, ppd_chainHash := ch2 @ ?ts, ppd_chainKey := ck4, ppd_bodyKey := key4\<rparr>), dev',
      Some (c\<lparr>LastRemoteSendTime := mad_LocalInitTime mad, RecvThreatCount := 0\<rparr>))"
    using validatePeer_mirror[of dev ppd0 ?pk ch2 ck2 "mad_LocalInitTime mad" ck3 ck4 key4 tm c] p ok assms(2)
    by (auto simp: wants_cookie_def)
  have "delivered C mad t trx content (ppd0\<lparr>ppd_RemotePubKey := ?pk, ppd_chainHash := ch2 @ ?ts, ppd_chainKey := ck4,
      ppd_bodyKey := key4\<rparr>)"
    using p by (simp add: delivered_def Let_def)
  with v show ?thesis by blast
qed

lemma delivery:
  assumes r: "ready C mad trx buf eph pk ess ss" and scheme: "scheme = mad_CipherScheme mad"
    and pk: "pk = device_public C scheme dev"
    and msg: "mad_bodyMessage mad \<noteq> []" and t: "mad_HeaderType mad = t" "0 \<le> t" "t < 2 ^ 16"
    and adm: "admits dev c (InitTime tm) mad" "\<not> wants_cookie dev t"
    and fits: "length (packed_body C mad) + GCMTagSize \<le> PacketBufferSize - header_Size scheme"
    and base: "\<And>content. base content = empty_ppd\<lparr>ppd_Content := content, ppd_CipherScheme := scheme,
       ppd_HeaderFlag := header_Flag content, ppd_LocalInitTime := InitTime tm, ppd_chainHash := mad_chainHash mad,
       ppd_chainKey := mad_chainKey mad\<rparr>"
    and ok: "acceptable tm dev c t (Public C (EccType (NewCipherSuite scheme)) (mad_deviceEcdh mad)) (mad_LocalInitTime mad)"
  shows "\<exists>mad' content ppd0 ppd1 dev'. res_bind (setPeerPublicKey C mad) (encryptBody C mc) = Ok mad' \<and>
     BasePacket_Content mad' = content \<and> mad_TransactionId mad' = mad_TransactionId mad \<and>
     length content = header_Size scheme + (length (packed_body C mad) + GCMTagSize) \<and>
     TypeAndPayloadSize content = (t, int (length (packed_body C mad) + GCMTagSize)) \<and> Packet_Header content = Ok scheme \<and>
     check_header C dev (Some c) (base content) = Ok ppd0 \<and>
     validatePeer C tm ppd0 dev (Some c) =
       (Ok ppd1, dev', Some (c\<lparr>LastRemoteSendTime := mad_LocalInitTime mad, RecvThreatCount := 0\<rparr>)) \<and>
     delivered C mad t trx content ppd1"
proof -
  obtain mad' content ppd0 ch2 ck2 ck3 ck4 key4 where s: "res_bind (setPeerPublicKey C mad) (encryptBody C mc) = Ok mad'"
     "BasePacket_Content mad' = content" "mad_TransactionId mad' = mad_TransactionId mad"
     "length content = header_Size scheme + (length (packed_body C mad) + GCMTagSize)"
     "TypeAndPayloadSize content = (t, int (length (packed_body C mad) + GCMTagSize))" "Packet_Header content = Ok scheme"
     "check_header C dev (Some c) (base content) = Ok ppd0" "opened C mad dev tm t trx content ppd0 ch2 ck2 ck3 ck4 key4"
    using sealed_opens[OF r scheme pk msg t adm(1) fits base, of mc] by (elim exE conjE)
  obtain ppd1 dev' where "validatePeer C tm ppd0 dev (Some c) =
       (Ok ppd1, dev', Some (c\<lparr>LastRemoteSendTime := mad_LocalInitTime mad, RecvThreatCount := 0\<rparr>))"
     "delivered C mad t trx content ppd1"
    using opened_delivered[OF s(8) adm(2) ok[unfolded scheme]] by (elim exE conjE)
  with s show ?thesis
    by (intro exI[of _ mad'] exI[of _ content] exI[of _ ppd0] exI[of _ ppd1] exI[of _ dev'] conjI)
qed

end

context nhp_crypto
begin

lemma delivered_body:
  assumes "delivered C mad t trx content ppd" "length content \<noteq> header_Size (mad_CipherScheme mad)"
  shows "decryptBody C ppd = Ok (wipe_ppd (ppd\<lparr>ppd_BodyMessage := mad_bodyMessage mad\<rparr>))"
  using assms by (auto simp: delivered_def decryptBody_def Let_def packed_body_def zlib_reader zlib_copy)

end

lemma delivered_bad_body:
  assumes "delivered C mad t trx content ppd" "length content \<noteq> header_Size (mad_CipherScheme mad)"
    and "mad_BodyCompress mad" and "\<not> Zlib_NewReader C (packed_body C mad)"
  shows "decryptBody C ppd = Panic"
  using assms by (auto simp: delivered_def decryptBody_def Let_def)

end
