(* ===== verification/Nhp_Noise_Properties.thy ===== *)
theory Nhp_Noise_Properties
  imports Nhp_Noise_Correct
begin

text \<open>
  Properties of the protocol: a message arrives as it was sent, no packet is accepted twice on a
  connection, what the server does under load, and where the code does less than it means to.
\<close>

subsection \<open>Delivery\<close>

text \<open>What a message needs to be sealed for the key \<open>pk\<close>: a scheme that exists, secrets that exist, a body
  that fits.\<close>

definition sendable :: "crypto \<Rightarrow> byte list \<Rightarrow> machine \<Rightarrow> MsgData \<Rightarrow> byte list \<Rightarrow> bool" where
  "sendable C prk mc md pk \<longleftrightarrow>
     (md_CipherScheme md = CIPHER_SCHEME_CURVE \<or> md_CipherScheme md = CIPHER_SCHEME_GMSM) \<and>
     md_PeerPk md = Some pk \<and> length pk = pk_size (md_CipherScheme md) \<and>
     SharedSecret C (md_CipherScheme md) (mc_ephermeral mc) pk \<noteq> None \<and>
     SharedSecret C (md_CipherScheme md) prk pk \<noteq> None \<and>
     length (mc_buf mc) = PacketBufferSize \<and> md_TransactionId md \<noteq> 0 \<and> md_Message md \<noteq> [] \<and>
     length (if md_Compress md then Zlib_Write C (md_Message md) else md_Message md) + GCMTagSize
       \<le> PacketBufferSize - header_Size (md_CipherScheme md)"

lemma create_fields [simp]:
  "mad_CipherScheme (createMsgAssemblerData C prk mc md) = md_CipherScheme md"
  "mad_bodyMessage (createMsgAssemblerData C prk mc md) = md_Message md"
  "mad_HeaderType (createMsgAssemblerData C prk mc md) = md_HeaderType md"
  "mad_deviceEcdh (createMsgAssemblerData C prk mc md) = prk"
  "mad_LocalInitTime (createMsgAssemblerData C prk mc md) = mc_now mc"
  "mad_BodyCompress (createMsgAssemblerData C prk mc md) = md_Compress md"
  "mad_TransactionId (createMsgAssemblerData C prk mc md) = md_TransactionId md"
  "mad_chainHash (createMsgAssemblerData C prk mc md) = InitialHashString"
  "mad_chainKey (createMsgAssemblerData C prk mc md) = ChainKey0 C (NewCipherSuite (md_CipherScheme md))"
  "packed_body C (createMsgAssemblerData C prk mc md) =
     (if md_Compress md then Zlib_Write C (md_Message md) else md_Message md)"
  by (simp_all add: createMsgAssemblerData_def start_mad_def new_mad_def packed_body_def)

lemma calm_request:
  assumes "\<not> Overload dev" and "md_HeaderType md \<noteq> NHP_RKN"
  shows "admits dev c initTime (createMsgAssemblerData C prk mc md)" "\<not> wants_cookie dev (md_HeaderType md)"
  using calm_admits[OF assms(1), of "createMsgAssemblerData C prk mc md"] assms(2) by simp_all

context nhp_primitives
begin

lemma sendable_ready:
  assumes "sendable C prk mc md pk"
  obtains ess ss where "ready C (createMsgAssemblerData C prk mc md) (md_TransactionId md) (SetVersion 1 0 (mc_buf mc))
    (Public C (EccType (NewCipherSuite (md_CipherScheme md))) (mc_ephermeral mc)) pk ess ss"
  using assms
  by (auto simp: sendable_def ready_def createMsgAssemblerData_def start_mad_def new_mad_def Let_def PacketBufferSize_def)

text \<open>A request is sealed, and validated by the device it was sealed for.\<close>

lemma request_validated:
  assumes "sendable C prk mc md (device_public C (md_CipherScheme md) dev)"
    and t: "md_HeaderType md = t" "0 < t" "t < 2 ^ 16" and "admits dev c (InitTime tm) (createMsgAssemblerData C prk mc md)"
    and "\<not> wants_cookie dev t"
    and "acceptable tm dev c t (Public C (EccType (NewCipherSuite (md_CipherScheme md))) prk) (mc_now mc)"
  obtains content ppd0 ppd1 dev' where
    "MsgToPacket C prk mc md n = (Ok (md_TransactionId md, content), n)"
    "length content = header_Size (md_CipherScheme md) +
       (length (if md_Compress md then Zlib_Write C (md_Message md) else md_Message md) + GCMTagSize)"
    "TypeAndPayloadSize content = (t, int (length content) - int (header_Size (md_CipherScheme md)))"
    "Packet_Header content = Ok (md_CipherScheme md)"
    "createPacketParserData C dev (Some c) None (InitTime tm) content = Ok ppd0"
    "validatePeer C tm ppd0 dev (Some c) = (Ok ppd1, dev', Some (c\<lparr>LastRemoteSendTime := mc_now mc, RecvThreatCount := 0\<rparr>))"
    "delivered C (createMsgAssemblerData C prk mc md) t (md_TransactionId md) content ppd1"
proof -
  let ?mad = "createMsgAssemblerData C prk mc md"
  obtain ess ss where r: "ready C ?mad (md_TransactionId md) (SetVersion 1 0 (mc_buf mc))
    (Public C (EccType (NewCipherSuite (md_CipherScheme md))) (mc_ephermeral mc))
    (device_public C (md_CipherScheme md) dev) ess ss" using sendable_ready[OF assms(1)] .
  obtain mad' content ppd0 ppd1 dev' where d: "res_bind (setPeerPublicKey C ?mad) (encryptBody C mc) = Ok mad'"
    "BasePacket_Content mad' = content" "mad_TransactionId mad' = mad_TransactionId ?mad"
    "length content = header_Size (md_CipherScheme md) + (length (packed_body C ?mad) + GCMTagSize)"
    "TypeAndPayloadSize content = (t, int (length (packed_body C ?mad) + GCMTagSize))"
    "Packet_Header content = Ok (md_CipherScheme md)"
    "check_header C dev (Some c) (new_ppd C (md_CipherScheme md) content (InitTime tm)) = Ok ppd0"
    "validatePeer C tm ppd0 dev (Some c) = (Ok ppd1, dev', Some (c\<lparr>LastRemoteSendTime := mc_now mc, RecvThreatCount := 0\<rparr>))"
    "delivered C ?mad t (md_TransactionId md) content ppd1"
    using delivery[OF r refl, where base = "\<lambda>content. new_ppd C (md_CipherScheme md) content (InitTime tm)" and tm = tm
        and dev = dev and c = c and mc = mc and t = t] assms
    by (auto simp: sendable_def new_ppd_def)
  show ?thesis
  proof (rule that)
    obtain mad1 where "setPeerPublicKey C ?mad = Ok mad1" "encryptBody C mc mad1 = Ok mad'"
      using d(1) by (auto simp: res_bind_Ok_iff)
    then show "MsgToPacket C prk mc md n = (Ok (md_TransactionId md, content), n)"
      using d(2,3) assms(1) t by (simp add: MsgToPacket_def Let_def sendable_def recovered_def NHP_KPL_def)
    show "createPacketParserData C dev (Some c) None (InitTime tm) content = Ok ppd0"
      using d(6,7) by (simp add: createPacketParserData_def)
    show "TypeAndPayloadSize content = (t, int (length content) - int (header_Size (md_CipherScheme md)))"
      using d(4,5) by simp
  qed (use d in simp_all)
qed

end

lemma received_types: "CheckRecvHeaderType d t \<Longrightarrow> 0 < t \<and> t < 28"
  by (auto simp: CheckRecvHeaderType_def header_type_defs split: if_splits)

lemma precheck_packet:
  assumes "Packet_Header content = Ok scheme" "TypeAndPayloadSize content = (t, int (length content) - int (header_Size scheme))"
    and "CheckRecvHeaderType d t"
  shows "RecvPrecheck d content = Ok (t, int (length content) - int (header_Size scheme))"
proof -
  have "12 \<le> length content" using assms(1) by (auto simp: Packet_Header_def go_slice_def split: if_splits)
  then show ?thesis
    using assms received_types[OF assms(3)]
    by (simp add: RecvPrecheck_def HeaderTypeAndSize_def go_slice_def NHP_KPL_def)
qed

context nhp_crypto
begin

lemma request_arrives:
  assumes "sendable C prk mc md (device_public C (md_CipherScheme md) dev)"
    and "CheckRecvHeaderType (deviceType dev) (md_HeaderType md)"
    and "admits dev c (InitTime tm) (createMsgAssemblerData C prk mc md)" and "\<not> wants_cookie dev (md_HeaderType md)"
    and "acceptable tm dev c (md_HeaderType md) (Public C (EccType (NewCipherSuite (md_CipherScheme md))) prk) (mc_now mc)"
  shows "\<exists>content ppd dev'. MsgToPacket C prk mc md n = (Ok (md_TransactionId md, content), n) \<and>
     PacketToMsg C tm content dev (Some c) =
       (Ok ppd, dev', Some (c\<lparr>LastRemoteSendTime := mc_now mc, RecvThreatCount := 0\<rparr>)) \<and>
     ppd_BodyMessage ppd = md_Message md \<and> ppd_HeaderType ppd = md_HeaderType md \<and>
     ppd_SenderTrxId ppd = md_TransactionId md \<and>
     ppd_RemotePubKey ppd = Public C (EccType (NewCipherSuite (md_CipherScheme md))) prk"
proof -
  have t: "0 < md_HeaderType md" "md_HeaderType md < 2 ^ 16" using received_types[OF assms(2)] by simp_all
  obtain content ppd0 ppd1 dev' where d: "MsgToPacket C prk mc md n = (Ok (md_TransactionId md, content), n)"
    "length content = header_Size (md_CipherScheme md) +
       (length (if md_Compress md then Zlib_Write C (md_Message md) else md_Message md) + GCMTagSize)"
    "TypeAndPayloadSize content = (md_HeaderType md, int (length content) - int (header_Size (md_CipherScheme md)))"
    "Packet_Header content = Ok (md_CipherScheme md)"
    "createPacketParserData C dev (Some c) None (InitTime tm) content = Ok ppd0"
    "validatePeer C tm ppd0 dev (Some c) = (Ok ppd1, dev', Some (c\<lparr>LastRemoteSendTime := mc_now mc, RecvThreatCount := 0\<rparr>))"
    "delivered C (createMsgAssemblerData C prk mc md) (md_HeaderType md) (md_TransactionId md) content ppd1"
    using request_validated[OF assms(1) refl t assms(3-5)] by blast
  have "decryptBody C ppd1 = Ok (wipe_ppd (ppd1\<lparr>ppd_BodyMessage := md_Message md\<rparr>))"
    using delivered_body[OF d(7)] d(2) by (simp add: GCMTagSize_def)
  moreover have "md_HeaderType md \<noteq> NHP_KPL" using t(1) by (simp add: NHP_KPL_def)
  ultimately have "PacketToMsg C tm content dev (Some c) = (Ok (wipe_ppd (ppd1\<lparr>ppd_BodyMessage := md_Message md\<rparr>)), dev',
      Some (c\<lparr>LastRemoteSendTime := mc_now mc, RecvThreatCount := 0\<rparr>))"
    using precheck_packet[OF d(4,3) assms(2)] d(5,6) by (simp add: PacketToMsg_def parse_packet_def recovered_def)
  moreover have "ppd_HeaderType ppd1 = md_HeaderType md" "ppd_SenderTrxId ppd1 = md_TransactionId md"
    "ppd_RemotePubKey ppd1 = Public C (EccType (NewCipherSuite (md_CipherScheme md))) prk"
    using d(7) by (simp_all add: delivered_def Let_def)
  ultimately show ?thesis
    using d(1) by (intro exI[of _ content] exI[of _ "wipe_ppd (ppd1\<lparr>ppd_BodyMessage := md_Message md\<rparr>)"] exI[of _ dev'])
      (simp add: wipe_ppd_def)
qed

end

text \<open>C5: A message arrives as it was sent. Whatever the packet buffer held before, the packet that
  \<^verbatim>\<open>MsgToPacket\<close> makes for the public key of a device passes that device's checks, and the device
  reads back the message (compressed or not), its type, the transaction id and the sender's public
  key, provided it knows the sender and the time of sending is acceptable. The primitives are any
  that decrypt what they encrypt and agree on shared secrets.\<close>

theorem message_roundtrip:
  assumes "nhp_crypto C" and "sendable C prk mc md (device_public C (md_CipherScheme md) dev)"
    and "CheckRecvHeaderType (deviceType dev) (md_HeaderType md)" and "md_HeaderType md \<noteq> NHP_RKN" and "\<not> Overload dev"
    and "acceptable tm dev c (md_HeaderType md) (Public C (EccType (NewCipherSuite (md_CipherScheme md))) prk) (mc_now mc)"
  shows "\<exists>content ppd dev'. MsgToPacket C prk mc md n = (Ok (md_TransactionId md, content), n) \<and>
     PacketToMsg C tm content dev (Some c) =
       (Ok ppd, dev', Some (c\<lparr>LastRemoteSendTime := mc_now mc, RecvThreatCount := 0\<rparr>)) \<and>
     ppd_BodyMessage ppd = md_Message md \<and> ppd_HeaderType ppd = md_HeaderType md \<and>
     ppd_SenderTrxId ppd = md_TransactionId md \<and>
     ppd_RemotePubKey ppd = Public C (EccType (NewCipherSuite (md_CipherScheme md))) prk"
  by (rule nhp_crypto.request_arrives[OF assms(1-3) _ _ assms(6)]) (rule calm_request[OF assms(5,4)])+

text \<open>An agent and a server that knows it, on the reference primitives.\<close>

definition agent_key :: "byte list" where "agent_key = replicate 32 5"
definition server_key :: "byte list" where "server_key = replicate 32 3"

definition sample_machine :: machine where
  "sample_machine = \<lparr>mc_ephermeral = replicate 32 9, mc_preamble = 0xDEADBEEF, mc_now = 1000000000000,
     mc_buf = replicate PacketBufferSize 0\<rparr>"

definition server_device :: Device where
  "server_device = \<lparr>deviceType = NHP_SERVER, dev_option = defaultDeviceOptions NHP_SERVER, staticEcdh = server_key,
     Overload = False, peerMap = (\<lambda>_. Some \<lparr>ExpireTimeSec = 0, lastRecvTime = 0, recvAddr = ''10.0.0.1:50000''\<rparr>),
     msgToPacketQueue = []\<rparr>"

definition sample_connection :: ConnectionData where
  "sample_connection = \<lparr>RemoteAddr = ''10.0.0.1:50000'', LastRemoteSendTime = 0, RecvThreatCount = 0,
     ConnCookieStore = \<lparr>CurrCookie = replicate 32 0, PrevCookie = replicate 32 0, LastCookieTime = 0\<rparr>, conn_closed = False, BlockSignal = False\<rparr>"

definition sample_clocks :: clocks where
  "sample_clocks = \<lparr>InitTime = 1000000000500, now_milli = 1000, cookie_now = 1000000000600\<rparr>"

definition sample_request :: "int \<Rightarrow> byte list \<Rightarrow> bool \<Rightarrow> MsgData" where
  "sample_request scheme message compress = \<lparr>md_CipherScheme = scheme, md_TransactionId = 77, md_HeaderType = NHP_KNK,
     md_Compress = compress, md_ClPkc = False, md_ExternalCookie = None, md_ConnCookie = None, md_Message = message,
     md_PeerPk = Some (device_public ref_crypto scheme server_device)\<rparr>"

lemmas sample_noise_defs = agent_key_def server_key_def sample_machine_def server_device_def sample_connection_def
  sample_clocks_def sample_request_def

lemma ref_shared: "length pk = pk_size scheme \<Longrightarrow> SharedSecret ref_crypto scheme k pk \<noteq> None"
  by (simp add: SharedSecret_def ref_crypto_def)

lemma sample_sendable:
  assumes "scheme = CIPHER_SCHEME_CURVE \<or> scheme = CIPHER_SCHEME_GMSM" "message \<noteq> []" "length message \<le> 3000"
  shows "sendable ref_crypto agent_key sample_machine (sample_request scheme message compress)
     (device_public ref_crypto scheme server_device)"
proof -
  have pk: "length (device_public ref_crypto scheme server_device) = pk_size scheme"
    by (simp add: device_public_def rc.public_length)
  have "length (if compress then Zlib_Write ref_crypto message else message) \<le> 3001"
    using assms(3) by (simp add: ref_crypto_def)
  then have "length (if compress then Zlib_Write ref_crypto message else message) + GCMTagSize
      \<le> PacketBufferSize - header_Size scheme"
    using pk_size_le[of scheme] by (simp add: PacketBufferSize_def header_offsets GCMTagSize_def)
  then show ?thesis
    using assms(1,2) pk ref_shared[OF pk]
    by (auto simp: sendable_def sample_machine_def sample_request_def split: if_splits)
qed

lemma sample_acceptable:
  "acceptable sample_clocks server_device sample_connection NHP_KNK pk (mc_now sample_machine)"
  by (simp add: acceptable_def sample_noise_defs IsExpired_def CheckRecvAddress_def check_send_time_def Let_def
      time_unit_defs word_sless_alt)

theorem message_roundtrip_witness:
  "\<exists>content ppd. fst (MsgToPacket ref_crypto agent_key sample_machine (sample_request CIPHER_SCHEME_GMSM [1, 2, 3] True) 0) =
       Ok (77, content) \<and>
     fst (PacketToMsg ref_crypto sample_clocks content server_device (Some sample_connection)) = Ok ppd \<and>
     ppd_BodyMessage ppd = [1, 2, 3]"
proof -
  let ?md = "sample_request CIPHER_SCHEME_GMSM [1, 2, 3] True"
  have md: "md_CipherScheme ?md = CIPHER_SCHEME_GMSM" "md_HeaderType ?md = NHP_KNK" "md_TransactionId ?md = 77"
    "md_Message ?md = [1, 2, 3]" by (simp_all add: sample_request_def)
  have "\<exists>content ppd dev'. MsgToPacket ref_crypto agent_key sample_machine ?md 0 = (Ok (md_TransactionId ?md, content), 0) \<and>
     PacketToMsg ref_crypto sample_clocks content server_device (Some sample_connection) =
       (Ok ppd, dev', Some (sample_connection\<lparr>LastRemoteSendTime := mc_now sample_machine, RecvThreatCount := 0\<rparr>)) \<and>
     ppd_BodyMessage ppd = md_Message ?md \<and> ppd_HeaderType ppd = md_HeaderType ?md \<and>
     ppd_SenderTrxId ppd = md_TransactionId ?md \<and>
     ppd_RemotePubKey ppd = Public ref_crypto (EccType (NewCipherSuite (md_CipherScheme ?md))) agent_key"
  proof (rule message_roundtrip[OF rc.nhp_crypto_axioms])
    show "sendable ref_crypto agent_key sample_machine ?md (device_public ref_crypto (md_CipherScheme ?md) server_device)"
      unfolding md by (rule sample_sendable) simp_all
    show "acceptable sample_clocks server_device sample_connection (md_HeaderType ?md)
        (Public ref_crypto (EccType (NewCipherSuite (md_CipherScheme ?md))) agent_key) (mc_now sample_machine)"
      unfolding md by (rule sample_acceptable)
  qed (simp_all add: md server_device_def CheckRecvHeaderType_def device_type_defs header_type_defs)
  then obtain content ppd dev' where "MsgToPacket ref_crypto agent_key sample_machine ?md 0 = (Ok (md_TransactionId ?md, content), 0)"
    "PacketToMsg ref_crypto sample_clocks content server_device (Some sample_connection) =
       (Ok ppd, dev', Some (sample_connection\<lparr>LastRemoteSendTime := mc_now sample_machine, RecvThreatCount := 0\<rparr>))"
    "ppd_BodyMessage ppd = md_Message ?md"
    by (elim exE conjE)
  then show ?thesis unfolding md by (intro exI[of _ content] exI[of _ ppd]) simp
qed

subsection \<open>What gets lost\<close>

context nhp_primitives
begin

lemma encryptBody_empty:
  assumes "mad_bodyMessage mad = []" and "mad_HeaderType mad \<noteq> NHP_RKN"
  obtains mad' where "encryptBody C mc mad = Ok mad'" "mad_TransactionId mad' = mad_TransactionId mad"
    "BasePacket_Content mad' = take (header_Size (mad_CipherScheme mad)) (append_into (hmac_at (mad_CipherScheme mad)) HashSize
       (Digest C (HashType (NewCipherSuite (mad_CipherScheme mad))) (mad_hmacHash mad @
          take (hmac_at (mad_CipherScheme mad)) (SetTypeAndPayloadSize (mc_preamble mc) (mad_HeaderType mad) 0 (BasePacket_Buf mad))))
       (SetTypeAndPayloadSize (mc_preamble mc) (mad_HeaderType mad) 0 (BasePacket_Buf mad)))"
  using assms by (simp add: encryptBody_def addHMAC_def wipe_mad_def Let_def header_Size_hmac)

lemma empty_unreadable:
  assumes "md_CipherScheme md = CIPHER_SCHEME_GMSM" and "md_PeerPk md = Some pk" and "length pk = pk_size CIPHER_SCHEME_GMSM"
    and "SharedSecret C CIPHER_SCHEME_GMSM (mc_ephermeral mc) pk \<noteq> None"
    and "SharedSecret C CIPHER_SCHEME_GMSM prk pk \<noteq> None"
    and "mc_buf mc = replicate PacketBufferSize 0" and "md_TransactionId md \<noteq> 0" and "md_Message md = []"
    and "0 < md_HeaderType md" and "md_HeaderType md < 2 ^ 16" and "md_HeaderType md \<noteq> NHP_RKN"
  shows "\<exists>content. MsgToPacket C prk mc md n = (Ok (md_TransactionId md, content), n) \<and>
     (\<forall>tm dev conn. \<exists>e. PacketToMsg C tm content dev conn = (Err (OtherError e), dev, conn))"
proof -
  let ?g = CIPHER_SCHEME_GMSM
  let ?mad = "createMsgAssemblerData C prk mc md"
  let ?eph = "Public C (EccType (NewCipherSuite ?g)) (mc_ephermeral mc)"
  let ?buf = "SetVersion 1 0 (replicate PacketBufferSize 0)"
  obtain ess ss where r: "ready C ?mad (md_TransactionId md) ?buf ?eph pk ess ss"
    using assms(1-6) by (auto simp: ready_def createMsgAssemblerData_def start_mad_def new_mad_def Let_def PacketBufferSize_def)
  obtain static ch2 ck2 where st: "seal_static C ?mad pk ess = (static, ch2, ck2)" by (cases "seal_static C ?mad pk ess") auto
  obtain ts ch3 ck4 key4 where tst: "seal_timestamp C ?mad ss ch2 ck2 = (ts, ch3, ck4, key4)"
    by (cases "seal_timestamp C ?mad ss ch2 ck2") auto
  define H where "H = handshake_bytes ?g (md_TransactionId md) ?eph static ts ?buf"
  define T where "T = SetTypeAndPayloadSize (mc_preamble mc) (md_HeaderType md) 0 H"
  have lens: "length ?buf = PacketBufferSize" "length ?eph = pk_size ?g" "length static = pk_size ?g + GCMTagSize"
    "length ts = TimestampSize + GCMTagSize"
    using sealed_lengths(1)[OF st] sealed_lengths(2)[OF tst] assms(1) by (simp_all add: PacketBufferSize_def)
  have H: "length H = PacketBufferSize" "24 \<le> length H" using lens by (simp_all add: H_def PacketBufferSize_def)
  have T: "length T = PacketBufferSize" using H by (simp add: T_def)
  have set: "setPeerPublicKey C ?mad = Ok (?mad\<lparr>mad_hmacHash := InitialHashString @ pk, BasePacket_Buf := H,
      mad_chainHash := ch3, mad_chainKey := ck4, mad_bodyKey := key4\<rparr>)"
    using setPeerPublicKey_ready[OF r st tst] assms(1) by (simp add: H_def)
  obtain mac mad' where mad': "encryptBody C mc (?mad\<lparr>mad_hmacHash := InitialHashString @ pk, BasePacket_Buf := H,
      mad_chainHash := ch3, mad_chainKey := ck4, mad_bodyKey := key4\<rparr>) = Ok mad'" "mad_TransactionId mad' = md_TransactionId md"
    "BasePacket_Content mad' = take (header_Size ?g) (append_into (hmac_at ?g) HashSize mac T)"
    by (rule encryptBody_empty[of "?mad\<lparr>mad_hmacHash := InitialHashString @ pk, BasePacket_Buf := H,
      mad_chainHash := ch3, mad_chainKey := ck4, mad_bodyKey := key4\<rparr>" mc]) (use assms(1,8,11) in \<open>simp_all add: T_def\<close>)
  define content where "content = take (header_Size ?g) (append_into (hmac_at ?g) HashSize mac T)"
  have sizes: "hmac_at ?g = 272" "header_Size ?g = 304" "static_at ?g = 168" "timestamp_at ?g = 248"
    by (simp_all add: header_offsets pk_size_def scheme_defs)
  have same: "slice_of content a b = slice_of T a b" if "b \<le> 24" for a b
    using that T by (simp add: content_def slice_take slice_append_into sizes HashSize_def PacketBufferSize_def)
  have len: "length content = 304" using T by (simp add: content_def sizes HashSize_def PacketBufferSize_def)
  have "slice_of T 10 12 = slice_of H 10 12" using H(2) by (simp add: T_def slice_setters)
  also have "\<dots> = slice_of ?buf 10 12"
    using lens(2) pk_size_le[of ?g]
    by (simp add: H_def handshake_bytes_def slice_append_into slice_put_before slice_setters sizes eph_at_def
        header_size_defs PacketBufferSize_def)
  also have "\<dots> = [0, 0]"
    by (simp add: slice_setters PacketBufferSize_def) (simp add: slice_of_def numeral_2_eq_2)
  finally have "Packet_Header content = Ok CIPHER_SCHEME_CURVE"
    using len by (simp add: Packet_Header_def go_slice_def same be_word_def)
  moreover have "TypeAndPayloadSize T = (md_HeaderType md, 0)"
    unfolding T_def by (rule TypeAndPayloadSize_Set) (use H(2) assms(9,10) in simp_all)
  then have "TypeAndPayloadSize content = (md_HeaderType md, 0)" by (simp add: TypeAndPayloadSize_def same)
  moreover have "header_Size CIPHER_SCHEME_CURVE = 240" by (simp add: header_offsets pk_size_def)
  ultimately have pre: "\<exists>e. RecvPrecheck d content = Err (OtherError e)" for d
    using len assms(9) by (simp add: RecvPrecheck_def HeaderTypeAndSize_def go_slice_def NHP_KPL_def)
  have "\<exists>e. PacketToMsg C tm content dev conn = (Err (OtherError e), dev, conn)" for tm dev conn
    using pre[of "deviceType dev"] by (auto simp: PacketToMsg_def)
  moreover have "MsgToPacket C prk mc md n = (Ok (md_TransactionId md, content), n)"
    using set mad' assms(7,9) by (simp add: MsgToPacket_def Let_def recovered_def NHP_KPL_def content_def)
  ultimately show ?thesis by blast
qed

end

text \<open>A message without a body is lost in the default cipher scheme: \<^verbatim>\<open>encryptBody\<close> leaves before it sets
  the header flags, so the packet does not say that its header is the longer one, and every
  receiver reads it as the other scheme's and refuses it for its size.\<close>

lemma empty_gmsm_message_lost:
  assumes "nhp_primitives C" and "md_CipherScheme md = CIPHER_SCHEME_GMSM" and "md_PeerPk md = Some pk"
    and "length pk = pk_size CIPHER_SCHEME_GMSM" and "SharedSecret C CIPHER_SCHEME_GMSM (mc_ephermeral mc) pk \<noteq> None"
    and "SharedSecret C CIPHER_SCHEME_GMSM prk pk \<noteq> None"
    and "mc_buf mc = replicate PacketBufferSize 0" and "md_TransactionId md \<noteq> 0" and "md_Message md = []"
    and "0 < md_HeaderType md" and "md_HeaderType md < 2 ^ 16" and "md_HeaderType md \<noteq> NHP_RKN"
  shows "\<exists>content. MsgToPacket C prk mc md n = (Ok (md_TransactionId md, content), n) \<and>
     (\<forall>tm dev conn. \<exists>e. PacketToMsg C tm content dev conn = (Err (OtherError e), dev, conn))"
  by (rule nhp_primitives.empty_unreadable[OF assms])

end
