(* ===== verification/Device_Sdk_Crypt.thy ===== *)
theory Device_Sdk_Crypt
  imports Device_Sdk Nhp_Noise_Properties
begin

text \<open>
  Encryption and decryption of the device SDK, \<^verbatim>\<open>nhp/core/main/nhpdevice.go\<close>, over the registry and
  the protocol: \<open>nhp_device_encrypt_data\<close> and \<open>nhp_device_decrypt_packet\<close> convert their C arguments,
  run \<open>MsgToPacket\<close> or \<open>PacketToMsg\<close> without a connection and convert the outcome; the two SM4
  functions are a cipher of their own. A panic no one recovers ends the process of the C caller: the
  whole result is \<^const>\<open>None\<close> then. The memory behind the addresses of the devices is a record.
\<close>

record sdk_memory =
  device_at :: "address \<Rightarrow> Device"
  counterIndex_at :: "address \<Rightarrow> 64 word"

text \<open>\<^verbatim>\<open>core.NewDevice\<close> as the SDK calls it, without options; a device starts without peers.\<close>

definition NewDevice :: "int \<Rightarrow> byte list \<Rightarrow> Device" where
  "NewDevice t prk = \<lparr>deviceType = t, dev_option = defaultDeviceOptions t, staticEcdh = prk, Overload = False,
     peerMap = Map.empty, msgToPacketQueue = []\<rparr>"

record NhpEncryptParams =
  cipherScheme :: byte
  compress :: byte
  assignTransactionId :: "64 word"
  cookie :: "byte list"

record NhpEncryptResult =
  enc_errCode :: int
  enc_transactionId :: "64 word"
  enc_errMsg :: "string option"
  enc_packet :: "byte list"

record NhpDecryptResult =
  dec_errCode :: int
  dec_msgType :: int
  dec_msgTransactionId :: "64 word"
  dec_msgId :: "byte list"
  dec_errMsg :: "string option"
  dec_data :: "byte list"

definition zero_encrypt :: NhpEncryptResult where
  "zero_encrypt = \<lparr>enc_errCode = 0, enc_transactionId = 0, enc_errMsg = None, enc_packet = []\<rparr>"

definition zero_decrypt :: NhpDecryptResult where
  "zero_decrypt = \<lparr>dec_errCode = 0, dec_msgType = 0, dec_msgTransactionId = 0, dec_msgId = [], dec_errMsg = None, dec_data = []\<rparr>"

text \<open>
  The texts of \<^verbatim>\<open>core/errors.go\<close>; some errors carry the text \<open>extra\<close> of their cause. An error that is
  not a \<^verbatim>\<open>*core.Error\<close> fails the type assertion \<^verbatim>\<open>err.(*core.Error)\<close> and panics.
\<close>

definition error_messages :: "(string \<times> string) list" where
  "error_messages = [
     (''ERR_NHP_SDK_RUNTIME_PANIC'', ''runtime panic encountered''),
     (''ERR_NHP_EMPTY_PEER_PUBLIC_KEY'', ''remote peer public key is not set''),
     (''ERR_NHP_EPHERMAL_ECDH_PEER_FAILED'', ''ephermal ECDH failed with peer''),
     (''ERR_NHP_DEVICE_ECDH_PEER_FAILED'', ''device ECDH failed with peer''),
     (''ERR_NHP_PACKET_SIZE_EXCEEDS_BUFFER'', ''packet size longer than send buffer''),
     (''ERR_NHP_SERVER_OVERLOAD'', ''the packet is dropped due to server overload''),
     (''ERR_NHP_HMAC_CHECK_FAILED'', ''HMAC validation failed''),
     (''ERR_NHP_SERVER_HMAC_CHECK_FAILED'', ''server HMAC validation failed''),
     (''ERR_NHP_DEVICE_ECDH_EPHERMAL_FAILED'', ''device ECDH failed with ephermal''),
     (''ERR_NHP_AEAD_DECRYPTION_FAILED'', ''aead decryption failed''),
     (''ERR_NHP_DATA_DECOMPRESSION_FAILED'', ''data decompression failed''),
     (''ERR_NHP_DEVICE_ECDH_OBTAINED_PEER_FAILED'', ''device ECDH failed with obtained peer''),
     (''ERR_NHP_SERVER_REJECT_WITH_COOKIE'', ''server overload, stop processing packet and return cookie'')]"

definition Error_text :: "string \<Rightarrow> string \<Rightarrow> string" where
  "Error_text extra nm = (case map_of error_messages nm of None \<Rightarrow> ''''
     | Some msg \<Rightarrow>
        if nm \<in> {''ERR_NHP_SDK_RUNTIME_PANIC'', ''ERR_NHP_AEAD_DECRYPTION_FAILED'', ''ERR_NHP_DATA_DECOMPRESSION_FAILED''}
        then msg @ '': '' @ extra else msg)"

text \<open>What the C caller gets for the value, the recovered panic or the error of a Go call.\<close>

definition to_c :: "('a \<Rightarrow> 'b) \<Rightarrow> (int \<Rightarrow> string \<Rightarrow> 'b) \<Rightarrow> string \<Rightarrow> 'a res \<Rightarrow> 'b option" where
  "to_c value failed extra r = (case r of
      Ok x \<Rightarrow> Some (value x)
    | Err (CoreError nm) \<Rightarrow> Some (failed (error_code nm) (Error_text extra nm))
    | Err (OtherError _) \<Rightarrow> None
    | Panic \<Rightarrow> None)"

text \<open>
  On a nil device the first access panics inside \<^verbatim>\<open>MsgToPacket\<close>, which recovers; a keepalive with a
  given transaction id needs no device.
\<close>

definition nil_MsgToPacket :: "machine \<Rightarrow> MsgData \<Rightarrow> (64 word \<times> byte list) res" where
  "nil_MsgToPacket mc md = recovered
     (if md_TransactionId md \<noteq> 0 \<and> md_HeaderType md = NHP_KPL
      then Ok (md_TransactionId md, createKeepalivePacket (mc_buf mc) mc md) else Panic)"

definition sdk_message :: "int \<Rightarrow> byte list \<Rightarrow> byte list \<Rightarrow> NhpEncryptParams \<Rightarrow> MsgData" where
  "sdk_message msgType peerPbk data params =
     \<lparr>md_CipherScheme = uint (cipherScheme params), md_TransactionId = assignTransactionId params,
      md_HeaderType = msgType, md_Compress = (compress params \<noteq> 0), md_ClPkc = False,
      md_ExternalCookie = Some (cookie params), md_ConnCookie = None, md_Message = data, md_PeerPk = Some peerPbk\<rparr>"

definition nhp_device_encrypt_data ::
  "crypto \<Rightarrow> machine \<Rightarrow> string \<Rightarrow> address \<Rightarrow> int \<Rightarrow> byte list \<Rightarrow> byte list \<Rightarrow> NhpEncryptParams \<Rightarrow> sdk_state \<Rightarrow>
   sdk_memory \<Rightarrow> (NhpEncryptResult \<times> sdk_memory) option" where
  "nhp_device_encrypt_data C mc extra hdl msgType peerPbk data params st mem =
     (case handles st hdl of
        None \<Rightarrow> Some (zero_encrypt\<lparr>enc_errCode := error_code ''ERR_NHP_DEVICE_NOT_INITIALIZED'',
           enc_errMsg := Some ''nhp device not initialized''\<rparr>, mem)
      | Some device \<Rightarrow>
         let md = sdk_message msgType peerPbk data params;
             mc = mc\<lparr>mc_buf := replicate PacketBufferSize 0\<rparr>;
             (r, counter) = (if device = 0 then (nil_MsgToPacket mc md, counterIndex_at mem device)
                else MsgToPacket C (staticEcdh (device_at mem device)) mc md (counterIndex_at mem device))
         in map_option (\<lambda>result. (result, mem\<lparr>counterIndex_at := (counterIndex_at mem)(device := counter)\<rparr>))
              (to_c (\<lambda>(trx, content). zero_encrypt\<lparr>enc_transactionId := trx, enc_packet := content\<rparr>)
                 (\<lambda>code text. zero_encrypt\<lparr>enc_errCode := code, enc_errMsg := Some text\<rparr>) extra r))"

text \<open>
  \<^verbatim>\<open>PacketToMsg\<close> on a nil device: whether a packet is a keepalive is decided without the device, the
  next step reads its type and panics. The packet data carries no connection: the context of the C
  caller goes to fields that are not read.
\<close>

definition nil_PacketToMsg :: "byte list \<Rightarrow> PacketParserData res" where
  "nil_PacketToMsg content = recovered (res_bind (Packet_Header content) (\<lambda>_.
     res_bind (HeaderTypeAndSize content) (\<lambda>(t, s).
       if t = NHP_KPL then
         (if s = 0 then Ok (empty_ppd\<lparr>ppd_HeaderType := NHP_KPL\<rparr>)
          else Err (OtherError ''keepalive packet size is incorrect''))
       else Panic)))"

definition nhp_device_decrypt_packet ::
  "crypto \<Rightarrow> clocks \<Rightarrow> string \<Rightarrow> address \<Rightarrow> byte list \<Rightarrow> sdk_state \<Rightarrow> sdk_memory \<Rightarrow>
   (NhpDecryptResult \<times> sdk_memory) option" where
  "nhp_device_decrypt_packet C tm extra hdl packet st mem =
     (case handles st hdl of
        None \<Rightarrow> Some (zero_decrypt\<lparr>dec_errCode := error_code ''ERR_NHP_DEVICE_NOT_INITIALIZED'',
           dec_errMsg := Some ''nhp device not initialized''\<rparr>, mem)
      | Some device \<Rightarrow>
         let (r, dev) = (if device = 0 then (nil_PacketToMsg packet, device_at mem device)
                else (case PacketToMsg C tm packet (device_at mem device) None of (r, dev, _) \<Rightarrow> (r, dev)))
         in map_option (\<lambda>result. (result, mem\<lparr>device_at := (device_at mem)(device := dev)\<rparr>))
              (to_c (\<lambda>ppd. if ppd_HeaderType ppd \<noteq> NHP_KPL
                     then zero_decrypt\<lparr>dec_msgType := ppd_HeaderType ppd, dec_msgTransactionId := ppd_SenderTrxId ppd,
                       dec_data := ppd_BodyMessage ppd\<rparr>
                     else zero_decrypt\<lparr>dec_msgType := ppd_HeaderType ppd\<rparr>)
                 (\<lambda>code text. zero_decrypt\<lparr>dec_errCode := code, dec_errMsg := Some text\<rparr>) extra r))"

subsection \<open>SM4\<close>

text \<open>The key is copied into 32 bytes, of which SM4 uses the first half; GCM panics on a nonce that is
  not 12 bytes.\<close>

definition aeadKey :: "byte list \<Rightarrow> byte list" where
  "aeadKey key = take 32 (key @ replicate 32 0)"

definition nhp_sm4_aead_encrypt ::
  "crypto \<Rightarrow> byte list \<Rightarrow> byte list \<Rightarrow> byte list \<Rightarrow> byte list \<Rightarrow> NhpEncryptResult option" where
  "nhp_sm4_aead_encrypt C key nonce plain additionalData =
     (if length nonce \<noteq> 12 then None
      else Some (zero_encrypt\<lparr>enc_packet := aead_Seal C GCM_SM4 (aeadKey key) nonce plain additionalData\<rparr>))"

definition nhp_sm4_aead_decrypt ::
  "crypto \<Rightarrow> byte list \<Rightarrow> byte list \<Rightarrow> byte list \<Rightarrow> byte list \<Rightarrow> NhpDecryptResult option" where
  "nhp_sm4_aead_decrypt C key nonce cipher additionalData =
     (if length nonce \<noteq> 12 then None
      else Some (case aead_Open C GCM_SM4 (aeadKey key) nonce cipher additionalData of
          None \<Rightarrow> zero_decrypt\<lparr>dec_errCode := 1,
            dec_errMsg := Some ''GCM decryption failed: cipher: message authentication failed''\<rparr>
        | Some plain \<Rightarrow> zero_decrypt\<lparr>dec_data := plain\<rparr>))"

subsection \<open>Outcomes\<close>

lemma protocol_error_codes [simp]:
  "error_code ''ERR_NHP_SDK_RUNTIME_PANIC'' = 30006"
  "error_code ''ERR_NHP_EMPTY_PEER_PUBLIC_KEY'' = 31001"
  "error_code ''ERR_NHP_EPHERMAL_ECDH_PEER_FAILED'' = 31002"
  "error_code ''ERR_NHP_DEVICE_ECDH_PEER_FAILED'' = 31003"
  "error_code ''ERR_NHP_PACKET_SIZE_EXCEEDS_BUFFER'' = 31006"
  "error_code ''ERR_NHP_SERVER_OVERLOAD'' = 32004"
  "error_code ''ERR_NHP_HMAC_CHECK_FAILED'' = 32005"
  "error_code ''ERR_NHP_SERVER_HMAC_CHECK_FAILED'' = 32006"
  "error_code ''ERR_NHP_DEVICE_ECDH_EPHERMAL_FAILED'' = 32007"
  by code_simp+

lemma more_error_codes [simp]:
  "error_code ''ERR_NHP_AEAD_DECRYPTION_FAILED'' \<noteq> 0"
  "error_code ''ERR_NHP_DATA_DECOMPRESSION_FAILED'' \<noteq> 0"
  "error_code ''ERR_NHP_DEVICE_ECDH_OBTAINED_PEER_FAILED'' \<noteq> 0"
  "error_code ''ERR_NHP_SERVER_REJECT_WITH_COOKIE'' \<noteq> 0"
  by code_simp+

lemma to_c_simps [simp]:
  "to_c value failed extra (Ok x) = Some (value x)"
  "to_c value failed extra (Err (CoreError nm)) = Some (failed (error_code nm) (Error_text extra nm))"
  "to_c value failed extra (Err (OtherError nm)) = None"
  "to_c value failed extra Panic = None"
  by (simp_all add: to_c_def)

lemma recovered_simps [simp]:
  "recovered (Ok x) = Ok x" "recovered (Err e) = Err e"
  "recovered Panic = Err (CoreError ''ERR_NHP_SDK_RUNTIME_PANIC'')"
  by (simp_all add: recovered_def)

text \<open>The errors of the sending side.\<close>

definition send_errors :: "string set" where
  "send_errors = {''ERR_NHP_SDK_RUNTIME_PANIC'', ''ERR_NHP_EMPTY_PEER_PUBLIC_KEY'', ''ERR_NHP_EPHERMAL_ECDH_PEER_FAILED'',
     ''ERR_NHP_DEVICE_ECDH_PEER_FAILED'', ''ERR_NHP_PACKET_SIZE_EXCEEDS_BUFFER''}"

lemma setPeerPublicKey_error: "setPeerPublicKey C mad = Err e \<Longrightarrow> \<exists>nm \<in> send_errors. e = CoreError nm"
  by (auto simp: setPeerPublicKey_def send_errors_def Let_def split: option.splits if_splits prod.splits)

lemma addHMAC_no_error: "addHMAC C b mad \<noteq> Err e"
  by (auto simp: addHMAC_def Let_def split: option.splits)

lemma res_bind_Err_iff: "res_bind r f = Err e \<longleftrightarrow> r = Err e \<or> (\<exists>a. r = Ok a \<and> f a = Err e)"
  by (cases r) auto

lemma encryptBody_error: "encryptBody C mc mad = Err e \<Longrightarrow> \<exists>nm \<in> send_errors. e = CoreError nm"
  by (auto simp: encryptBody_def send_errors_def Let_def res_bind_Err_iff addHMAC_no_error split: if_splits)

lemma recovered_not_Panic: "recovered r \<noteq> Panic"
  by (cases r) simp_all

lemma MsgToPacket_outcome:
  assumes "MsgToPacket C prk mc md n = (r, n')"
  shows "(\<exists>x. r = Ok x) \<or> (\<exists>nm \<in> send_errors. r = Err (CoreError nm))"
proof -
  define md' where "md' = (if md_TransactionId md = 0 then md\<lparr>md_TransactionId := n + 1\<rparr> else md)"
  define q where "q = (if md_HeaderType md' = NHP_KPL then Ok (md_TransactionId md', createKeepalivePacket (mc_buf mc) mc md')
     else res_bind (setPeerPublicKey C (createMsgAssemblerData C prk mc md')) (\<lambda>mad.
       res_bind (encryptBody C mc mad) (\<lambda>mad. Ok (mad_TransactionId mad, BasePacket_Content mad))))"
  have r: "r = recovered q"
    using assms by (auto simp: MsgToPacket_def md'_def q_def Let_def split: if_splits)
  have "\<exists>nm \<in> send_errors. e = CoreError nm" if "q = Err e" for e
  proof (cases "setPeerPublicKey C (createMsgAssemblerData C prk mc md')")
    case (Ok mad)
    with that show ?thesis
      by (cases "encryptBody C mc mad") (auto simp: q_def dest: encryptBody_error split: if_splits)
  qed (use that in \<open>auto simp: q_def dest: setPeerPublicKey_error split: if_splits\<close>)
  then show ?thesis by (cases q) (auto simp: r send_errors_def)
qed

lemma send_error_codes: "nm \<in> send_errors \<Longrightarrow> error_code nm \<in> {30006, 31001, 31002, 31003, 31006}"
  by (auto simp: send_errors_def)

text \<open>Encryption never ends the process of the caller: on every handle, for every message, key and
  parameter block \<^verbatim>\<open>nhp_device_encrypt_data\<close> returns a result, and its error code is 0, 30000 for an
  unknown handle, or one of the five codes of the sending side; without an error there is no text, and
  the memory of the devices is untouched but for the transaction counter.\<close>

lemma sdk_encrypt_returns:
  "\<exists>r mem'. nhp_device_encrypt_data C mc extra hdl msgType peerPbk data params st mem = Some (r, mem') \<and>
     enc_errCode r \<in> {0, 30000, 30006, 31001, 31002, 31003, 31006} \<and> (enc_errCode r = 0 \<longleftrightarrow> enc_errMsg r = None) \<and>
     device_at mem' = device_at mem"
proof (cases "handles st hdl")
  case None
  then show ?thesis by (simp add: nhp_device_encrypt_data_def zero_encrypt_def)
next
  case (Some a)
  define md where "md = sdk_message msgType peerPbk data params"
  define m where "m = mc\<lparr>mc_buf := replicate PacketBufferSize 0\<rparr>"
  obtain q n where q: "(if a = 0 then (nil_MsgToPacket m md, counterIndex_at mem a)
      else MsgToPacket C (staticEcdh (device_at mem a)) m md (counterIndex_at mem a)) = (q, n)"
    by fastforce
  have "(\<exists>x. q = Ok x) \<or> (\<exists>nm \<in> send_errors. q = Err (CoreError nm))"
    using q MsgToPacket_outcome[of C _ m md _ q n]
    by (auto simp: nil_MsgToPacket_def send_errors_def split: if_splits)
  then consider x where "q = Ok x" | nm where "q = Err (CoreError nm)" "error_code nm \<in> {30006, 31001, 31002, 31003, 31006}"
    using send_error_codes by blast
  then show ?thesis
    using q
    by cases (auto simp: nhp_device_encrypt_data_def Some md_def[symmetric] m_def[symmetric] zero_encrypt_def
        simp del: if_split split: prod.splits)
qed

end
