(* ===== verification/Device_Sdk_Properties.thy ===== *)
theory Device_Sdk_Properties
  imports Device_Sdk_Crypt
begin

text \<open>
  What the encryption and decryption of the device SDK do for a C caller: packets it encrypts arrive,
  the scheme numbers of the C header select the wrong scheme, and decryption never delivers a message.
\<close>

subsection \<open>Encryption\<close>

lemma MsgToPacket_new_transaction:
  assumes "md_TransactionId md = 0" and "n + 1 \<noteq> 0"
  shows "MsgToPacket C prk mc md n = MsgToPacket C prk mc (md\<lparr>md_TransactionId := n + 1\<rparr>) (n + 1)"
  using assms by (simp add: MsgToPacket_def Let_def)

text \<open>C14: A packet encrypted by the SDK arrives: with a handle of a live device, the public key of the
  receiver, an acceptable scheme number and a body that fits, \<^verbatim>\<open>nhp_device_encrypt_data\<close> reports code 0 and
  the given transaction id, or the next one for 0, and the receiving device reads back exactly the
  data, the message type, the transaction id and the public key of the sender.\<close>

theorem sdk_encrypt_delivers:
  assumes "nhp_crypto C" and "handles st hdl = Some a" and "a \<noteq> 0"
    and trx: "trx = (if assignTransactionId params = 0 then counterIndex_at mem a + 1 else assignTransactionId params)"
    and md: "md = (sdk_message msgType peerPbk data params)\<lparr>md_TransactionId := trx\<rparr>"
    and sendable: "sendable C (staticEcdh (device_at mem a)) (mc\<lparr>mc_buf := replicate PacketBufferSize 0\<rparr>) md
      (device_public C (md_CipherScheme md) dev)"
    and "CheckRecvHeaderType (deviceType dev) msgType" and "msgType \<noteq> NHP_RKN" and "\<not> Overload dev"
    and "acceptable tm dev c msgType (device_public C (md_CipherScheme md) (device_at mem a)) (mc_now mc)"
  shows "\<exists>r mem' ppd dev' c'. nhp_device_encrypt_data C mc extra hdl msgType peerPbk data params st mem = Some (r, mem') \<and>
     enc_errCode r = 0 \<and> enc_transactionId r = trx \<and>
     PacketToMsg C tm (enc_packet r) dev (Some c) = (Ok ppd, dev', c') \<and> ppd_BodyMessage ppd = data \<and>
     ppd_HeaderType ppd = msgType \<and> ppd_SenderTrxId ppd = trx \<and>
     ppd_RemotePubKey ppd = device_public C (md_CipherScheme md) (device_at mem a)"
proof -
  let ?m = "mc\<lparr>mc_buf := replicate PacketBufferSize 0\<rparr>"
  let ?n = "counterIndex_at mem a" and ?sdk = "sdk_message msgType peerPbk data params"
  define n' where "n' = (if assignTransactionId params = 0 then ?n + 1 else ?n)"
  have f: "md_HeaderType md = msgType" "md_Message md = data" "md_TransactionId md = trx" by (simp_all add: md sdk_message_def)
  have "trx \<noteq> 0" using sendable f(3) by (simp add: sendable_def)
  then have same: "MsgToPacket C (staticEcdh (device_at mem a)) ?m ?sdk ?n = MsgToPacket C (staticEcdh (device_at mem a)) ?m md n'"
    using MsgToPacket_new_transaction[of ?sdk ?n]
    by (auto simp: md trx n'_def sdk_message_def split: if_splits)
  obtain content ppd dev' where d:
    "MsgToPacket C (staticEcdh (device_at mem a)) ?m md n' = (Ok (md_TransactionId md, content), n')"
    "PacketToMsg C tm content dev (Some c) =
       (Ok ppd, dev', Some (c\<lparr>LastRemoteSendTime := mc_now ?m, RecvThreatCount := 0\<rparr>))"
    "ppd_BodyMessage ppd = md_Message md" "ppd_HeaderType ppd = md_HeaderType md"
    "ppd_SenderTrxId ppd = md_TransactionId md"
    "ppd_RemotePubKey ppd = Public C (EccType (NewCipherSuite (md_CipherScheme md))) (staticEcdh (device_at mem a))"
    using nhp_crypto.request_arrives[OF assms(1) sendable, where tm = tm and c = c and n = n'] assms(7-10) f(1) calm_request by (auto simp: device_public_def)
  have "nhp_device_encrypt_data C mc extra hdl msgType peerPbk data params st mem =
     Some (zero_encrypt\<lparr>enc_transactionId := trx, enc_packet := content\<rparr>,
       mem\<lparr>counterIndex_at := (counterIndex_at mem)(a := n')\<rparr>)"
    using assms(2,3) d(1) f(3) same by (simp add: nhp_device_encrypt_data_def)
  then show ?thesis
    using d(2-6) f by (simp add: zero_encrypt_def device_public_def)
qed

subsection \<open>The numbers of the cipher schemes\<close>

text \<open>The C header numbers the cipher schemes the other way round than the Go side: a caller that
  passes \<^verbatim>\<open>NHP_CIPHER_SCHEME_CURVE\<close> with a Curve25519 key of 32 bytes, or \<^verbatim>\<open>NHP_CIPHER_SCHEME_GMSM\<close> with an SM2
  key of 64 bytes, has every message but a keepalive refused with code 31003, on every live handle.\<close>

lemma sdk_scheme_swapped:
  assumes "handles st hdl = Some a" and "a \<noteq> 0" and "msgType \<noteq> NHP_KPL"
    and "nm = ''NHP_CIPHER_SCHEME_CURVE'' \<and> length peerPbk = 32 \<or> nm = ''NHP_CIPHER_SCHEME_GMSM'' \<and> length peerPbk = 64"
    and "enum_value enum_NhpCipherScheme nm = Some (uint (cipherScheme params))"
  shows "\<exists>r mem'. nhp_device_encrypt_data C mc extra hdl msgType peerPbk data params st mem = Some (r, mem') \<and>
     enc_errCode r = 31003 \<and> enc_packet r = []"
proof -
  have "enum_value enum_NhpCipherScheme ''NHP_CIPHER_SCHEME_CURVE'' = Some 0"
    "enum_value enum_NhpCipherScheme ''NHP_CIPHER_SCHEME_GMSM'' = Some 1"
    by code_simp+
  with assms(4,5) have "uint (cipherScheme params) = 0 \<and> length peerPbk = 32 \<or>
      uint (cipherScheme params) = 1 \<and> length peerPbk = 64" by auto
  then have "length peerPbk \<noteq> pk_size (uint (cipherScheme params))"
    by (auto simp: pk_size_def scheme_defs)
  then show ?thesis
    using assms(1-3)
    by (simp add: nhp_device_encrypt_data_def MsgToPacket_def sdk_message_def setPeerPublicKey_def createMsgAssemblerData_def
        start_mad_def new_mad_def zero_encrypt_def Let_def)
qed

subsection \<open>Decryption\<close>

text \<open>A device of the SDK: as \<^verbatim>\<open>NewDevice\<close> made it, but for the overload mode.\<close>

definition sdk_device :: "Device \<Rightarrow> bool" where
  "sdk_device dev \<longleftrightarrow> dev = (NewDevice (deviceType dev) (staticEcdh dev))\<lparr>Overload := Overload dev\<rparr>"

definition receive_errors :: "string set" where
  "receive_errors = {''ERR_NHP_SERVER_OVERLOAD'', ''ERR_NHP_HMAC_CHECK_FAILED'', ''ERR_NHP_SERVER_HMAC_CHECK_FAILED'',
     ''ERR_NHP_DEVICE_ECDH_EPHERMAL_FAILED'', ''ERR_NHP_DEVICE_ECDH_OBTAINED_PEER_FAILED''}"

lemma receive_error_codes: "nm \<in> receive_errors \<Longrightarrow> error_code nm \<noteq> 0"
  by (auto simp: receive_errors_def)

lemma checkHMAC_no_error: "checkHMAC C dev conn t scheme b content \<noteq> Err e"
  by (auto simp: checkHMAC_def Let_def split: option.splits)

lemma Packet_Header_no_error: "Packet_Header content \<noteq> Err e"
  by (simp add: Packet_Header_def res_of_def split: option.splits)

lemma check_header_error: "check_header C dev conn ppd = Err e \<Longrightarrow> \<exists>nm \<in> receive_errors. e = CoreError nm"
  by (auto simp: check_header_def receive_errors_def Let_def res_bind_Err_iff checkHMAC_no_error split: prod.splits if_splits)

lemma create_error:
  "createPacketParserData C dev conn prev t content = Err e \<Longrightarrow> \<exists>nm \<in> receive_errors. e = CoreError nm"
  by (auto simp: createPacketParserData_def res_bind_Err_iff Packet_Header_no_error dest: check_header_error)

text \<open>Without a connection and without peers no sender is validated.\<close>

lemma validatePeer_unconnected:
  assumes "peerMap dev = Map.empty"
  shows "\<exists>r. validatePeer C tm ppd dev None = (r, dev, None) \<and> (r = Panic \<or> (\<exists>t. r = Err (OtherError t)) \<or>
     (\<exists>nm \<in> receive_errors. r = Err (CoreError nm)))"
proof -
  have "snd (accept_peer tm None ppd pk dev) = dev \<and>
      (fst (accept_peer tm None ppd pk dev) = Ok () \<or> (\<exists>t. fst (accept_peer tm None ppd pk dev) = Err (OtherError t)))" for pk
    by (simp add: accept_peer_def assms)
  then have peer: "\<exists>t. accept_peer tm None ppd pk dev = (Ok (), dev) \<or> accept_peer tm None ppd pk dev = (Err (OtherError t), dev)" for pk
    by (metis prod.collapse)
  have static: "open_static C dev ppd = Ok x \<or> (\<exists>t. open_static C dev ppd = Err (OtherError t)) \<or>
      (\<exists>nm \<in> receive_errors. open_static C dev ppd = Err (CoreError nm))"
    if "\<And>y. open_static C dev ppd = Ok y \<Longrightarrow> x = y" for x
    using that by (auto simp: open_static_def receive_errors_def Let_def split: option.splits prod.splits)
  have time: "open_timestamp C dev ppd pk ch ck = Panic \<Longrightarrow> False"
    "open_timestamp C dev ppd pk ch ck = Err e \<Longrightarrow> (\<exists>t. e = OtherError t) \<or> (\<exists>nm \<in> receive_errors. e = CoreError nm)" for pk ch ck e
    by (auto simp: open_timestamp_def receive_errors_def Let_def split: option.splits prod.splits)
  show ?thesis
  proof (cases "open_static C dev ppd")
    case (Ok x)
    obtain pk ch ck where x: "x = (pk, ch, ck)" by (cases x)
    show ?thesis
      using peer[of pk] time[of pk ch ck]
      by (cases "open_timestamp C dev ppd pk ch ck") (auto simp: validatePeer_def Ok x)
  next
    case (Err e)
    with static[of undefined] show ?thesis by (auto simp: validatePeer_def)
  next
    case Panic
    then show ?thesis by (simp add: validatePeer_def)
  qed
qed

lemma PacketToMsg_unconnected:
  assumes "peerMap dev = Map.empty"
  shows "\<exists>r. PacketToMsg C tm content dev None = (r, dev, None) \<and>
     (r = Ok (empty_ppd\<lparr>ppd_HeaderType := NHP_KPL\<rparr>) \<or> r = Err (CoreError ''ERR_NHP_SDK_RUNTIME_PANIC'') \<or>
      (\<exists>t. r = Err (OtherError t)) \<or> (\<exists>nm \<in> receive_errors. r = Err (CoreError nm)))"
proof -
  have precheck: "(\<exists>t. e = OtherError t)" if "RecvPrecheck (deviceType dev) content = Err e" for e
    using that by (auto simp: RecvPrecheck_def Packet_Header_def HeaderTypeAndSize_def res_bind_Err_iff res_of_def
        split: option.splits if_splits)
  have parse: "\<exists>r. parse_packet C tm None content dev None = (r, dev, None) \<and> (r = Panic \<or> (\<exists>t. r = Err (OtherError t)) \<or>
     (\<exists>nm \<in> receive_errors. r = Err (CoreError nm)))"
  proof (cases "createPacketParserData C dev None None (InitTime tm) content")
    case (Ok ppd)
    obtain r where "validatePeer C tm ppd dev None = (r, dev, None)"
      "r = Panic \<or> (\<exists>t. r = Err (OtherError t)) \<or> (\<exists>nm \<in> receive_errors. r = Err (CoreError nm))"
      using validatePeer_unconnected[OF assms] by blast
    then show ?thesis by (auto simp: parse_packet_def Ok)
  next
    case (Err e)
    then show ?thesis using create_error[of C dev None None "InitTime tm" content]
      by (auto simp: parse_packet_def)
  qed (simp add: parse_packet_def)
  show ?thesis
  proof (cases "RecvPrecheck (deviceType dev) content")
    case (Ok x)
    then show ?thesis using parse by (cases x) (auto simp: PacketToMsg_def)
  next
    case (Err e)
    with precheck show ?thesis by (auto simp: PacketToMsg_def)
  qed (simp add: PacketToMsg_def)
qed

text \<open>C37: Decryption never delivers a message: whatever packet a C caller passes with the handle of a device
  the SDK created, \<^verbatim>\<open>nhp_device_decrypt_packet\<close> ends the process, or reports an error code, or the packet is a
  keepalive and carries nothing; no peer is known and no connection is passed. A packet of at least
  12 bytes that is no keepalive and whose type the device does not receive always ends the process,
  because the error of the check is not of the type the assertion demands.\<close>

theorem sdk_decrypt_never_delivers:
  assumes "handles st hdl = Some a" and "a \<noteq> 0" and "sdk_device (device_at mem a)"
  shows "(case nhp_device_decrypt_packet C tm extra hdl packet st mem of
      None \<Rightarrow> True
    | Some (r, mem') \<Rightarrow> mem' = mem \<and> dec_data r = [] \<and>
        (dec_errCode r \<noteq> 0 \<or> dec_msgType r = NHP_KPL \<and> dec_msgTransactionId r = 0)) \<and>
    (12 \<le> length packet \<and> fst (TypeAndPayloadSize packet) \<noteq> NHP_KPL \<and>
      \<not> CheckRecvHeaderType (deviceType (device_at mem a)) (fst (TypeAndPayloadSize packet)) \<longrightarrow>
      nhp_device_decrypt_packet C tm extra hdl packet st mem = None)"
proof (intro conjI impI)
  have empty: "peerMap (device_at mem a) = Map.empty"
    using arg_cong[OF assms(3)[unfolded sdk_device_def], of peerMap] by (simp add: NewDevice_def)
  obtain r where p: "PacketToMsg C tm packet (device_at mem a) None = (r, device_at mem a, None)"
    and r: "r = Ok (empty_ppd\<lparr>ppd_HeaderType := NHP_KPL\<rparr>) \<or> r = Err (CoreError ''ERR_NHP_SDK_RUNTIME_PANIC'') \<or>
      (\<exists>t. r = Err (OtherError t)) \<or> (\<exists>nm \<in> receive_errors. r = Err (CoreError nm))"
    using PacketToMsg_unconnected[OF empty] by blast
  have d: "nhp_device_decrypt_packet C tm extra hdl packet st mem =
     map_option (\<lambda>result. (result, mem)) (to_c (\<lambda>ppd. if ppd_HeaderType ppd \<noteq> NHP_KPL
         then zero_decrypt\<lparr>dec_msgType := ppd_HeaderType ppd, dec_msgTransactionId := ppd_SenderTrxId ppd,
           dec_data := ppd_BodyMessage ppd\<rparr>
         else zero_decrypt\<lparr>dec_msgType := ppd_HeaderType ppd\<rparr>)
       (\<lambda>code text. zero_decrypt\<lparr>dec_errCode := code, dec_errMsg := Some text\<rparr>) extra r)"
    using assms(1,2) p by (simp add: nhp_device_decrypt_packet_def)
  show "case nhp_device_decrypt_packet C tm extra hdl packet st mem of
      None \<Rightarrow> True
    | Some (r, mem') \<Rightarrow> mem' = mem \<and> dec_data r = [] \<and>
        (dec_errCode r \<noteq> 0 \<or> dec_msgType r = NHP_KPL \<and> dec_msgTransactionId r = 0)"
    using r receive_error_codes by (auto simp: d zero_decrypt_def)
  assume bad: "12 \<le> length packet \<and> fst (TypeAndPayloadSize packet) \<noteq> NHP_KPL \<and>
      \<not> CheckRecvHeaderType (deviceType (device_at mem a)) (fst (TypeAndPayloadSize packet))"
  then have "\<exists>e. RecvPrecheck (deviceType (device_at mem a)) packet = Err (OtherError e)"
    by (auto simp: RecvPrecheck_def Packet_Header_def HeaderTypeAndSize_def go_slice_def split: prod.splits)
  then have "\<exists>e. r = Err (OtherError e)" using p by (auto simp: PacketToMsg_def)
  then show "nhp_device_decrypt_packet C tm extra hdl packet st mem = None" by (auto simp: d)
qed

subsection \<open>SM4\<close>

text \<open>SM4 decryption undoes SM4 encryption: with a nonce of 12 bytes and two keys that agree in their
  first 16 bytes, shorter keys padded with zeros, what \<^verbatim>\<open>nhp_sm4_aead_encrypt\<close> makes of a text,
  16 bytes longer, \<^verbatim>\<open>nhp_sm4_aead_decrypt\<close> turns back into it under the same additional data.\<close>

lemma sm4_roundtrip:
  assumes "nhp_primitives C" and "length nonce = 12" and "take 16 (aeadKey key) = take 16 (aeadKey key')"
  shows "\<exists>r. nhp_sm4_aead_encrypt C key nonce plain ad = Some r \<and> enc_errCode r = 0 \<and>
     length (enc_packet r) = length plain + 16 \<and>
     nhp_sm4_aead_decrypt C key' nonce (enc_packet r) ad = Some (zero_decrypt\<lparr>dec_data := plain\<rparr>)"
  using assms nhp_primitives.open_seal[OF assms(1)] nhp_primitives.seal_length[OF assms(1)]
  by (simp add: nhp_sm4_aead_encrypt_def nhp_sm4_aead_decrypt_def zero_encrypt_def aead_Seal_def aead_Open_def aead_key_def
      GCMTagSize_def)

subsection \<open>Witnesses\<close>

definition sample_sdk :: sdk_state where
  "sample_sdk = \<lparr>devices = [(''a2V5'', 0x1000)], handles = [0x1000 \<mapsto> 0x1000], overload_mode = (\<lambda>_. False)\<rparr>"

definition sample_memory :: sdk_memory where
  "sample_memory = \<lparr>device_at = (\<lambda>_. NewDevice NHP_AGENT agent_key), counterIndex_at = (\<lambda>_. 41)\<rparr>"

definition sample_params :: "byte \<Rightarrow> NhpEncryptParams" where
  "sample_params scheme = \<lparr>cipherScheme = scheme, compress = 0, assignTransactionId = 0, cookie = replicate 32 0\<rparr>"

text \<open>An agent is sent a message only servers receive.\<close>

definition knock_header :: "byte list" where
  "knock_header = SetTypeAndPayloadSize 0 NHP_KNK 0 (replicate 240 0)"

lemma knock_header: "length knock_header = 240" "fst (TypeAndPayloadSize knock_header) = NHP_KNK"
proof -
  show "length knock_header = 240" by (simp add: knock_header_def SetTypeAndPayloadSize_def Let_def)
  show "fst (TypeAndPayloadSize knock_header) = NHP_KNK"
    unfolding knock_header_def by (subst TypeAndPayloadSize_Set) (simp_all add: NHP_KNK_def)
qed

theorem sdk_decrypt_never_delivers_witness:
  "nhp_device_decrypt_packet ref_crypto sample_clocks [] 0x1000 knock_header sample_sdk sample_memory = None"
proof -
  have "sdk_device (device_at sample_memory 0x1000)"
    by (simp add: sdk_device_def sample_memory_def NewDevice_def)
  then show ?thesis
    using sdk_decrypt_never_delivers[of sample_sdk "0x1000" "0x1000" sample_memory ref_crypto sample_clocks "[]" knock_header]
      knock_header
    by (simp add: sample_sdk_def sample_memory_def NewDevice_def CheckRecvHeaderType_def device_type_defs header_type_defs)
qed

theorem sdk_encrypt_delivers_witness:
  "\<exists>r mem' ppd. nhp_device_encrypt_data ref_crypto sample_machine [] 0x1000 NHP_KNK
       (device_public ref_crypto CIPHER_SCHEME_CURVE server_device) [1, 2, 3] (sample_params 1) sample_sdk sample_memory =
         Some (r, mem') \<and> enc_transactionId r = 42 \<and>
     fst (PacketToMsg ref_crypto sample_clocks (enc_packet r) server_device (Some sample_connection)) = Ok ppd \<and>
     ppd_BodyMessage ppd = [1, 2, 3]"
proof -
  let ?pk = "device_public ref_crypto CIPHER_SCHEME_CURVE server_device"
  let ?md = "(sdk_message NHP_KNK ?pk [1, 2, 3] (sample_params 1))\<lparr>md_TransactionId := 42\<rparr>"
  have scheme: "md_CipherScheme ?md = CIPHER_SCHEME_CURVE"
    by (simp add: sdk_message_def sample_params_def scheme_defs)
  have pk: "length ?pk = pk_size CIPHER_SCHEME_CURVE" by (simp add: device_public_def rc.public_length)
  have sendable: "sendable ref_crypto agent_key (sample_machine\<lparr>mc_buf := replicate PacketBufferSize 0\<rparr>) ?md ?pk"
    using pk ref_shared[OF pk]
    by (simp add: sendable_def scheme) (simp add: sdk_message_def sample_params_def PacketBufferSize_def header_offsets GCMTagSize_def pk_size_def)
  have key: "staticEcdh (device_at sample_memory 0x1000) = agent_key" by (simp add: sample_memory_def NewDevice_def)
  have "\<exists>r mem' ppd dev' c'. nhp_device_encrypt_data ref_crypto sample_machine [] 0x1000 NHP_KNK ?pk [1, 2, 3] (sample_params 1)
       sample_sdk sample_memory = Some (r, mem') \<and> enc_errCode r = 0 \<and> enc_transactionId r = 42 \<and>
     PacketToMsg ref_crypto sample_clocks (enc_packet r) server_device (Some sample_connection) = (Ok ppd, dev', c') \<and>
     ppd_BodyMessage ppd = [1, 2, 3] \<and> ppd_HeaderType ppd = NHP_KNK \<and> ppd_SenderTrxId ppd = 42 \<and>
     ppd_RemotePubKey ppd = device_public ref_crypto (md_CipherScheme ?md) (device_at sample_memory 0x1000)"
  proof (rule sdk_encrypt_delivers[OF rc.nhp_crypto_axioms _ _ _ refl])
    show "sendable ref_crypto (staticEcdh (device_at sample_memory 0x1000)) (sample_machine\<lparr>mc_buf := replicate PacketBufferSize 0\<rparr>)
        ?md (device_public ref_crypto (md_CipherScheme ?md) server_device)"
      unfolding key scheme by (rule sendable)
    show "acceptable sample_clocks server_device sample_connection NHP_KNK
        (device_public ref_crypto (md_CipherScheme ?md) (device_at sample_memory 0x1000)) (mc_now sample_machine)"
      by (rule sample_acceptable)
  qed (simp_all add: sample_sdk_def sample_memory_def sample_params_def server_device_def CheckRecvHeaderType_def
      device_type_defs header_type_defs)
  then obtain r mem' ppd dev' c' where e:
    "nhp_device_encrypt_data ref_crypto sample_machine [] 0x1000 NHP_KNK ?pk [1, 2, 3] (sample_params 1)
       sample_sdk sample_memory = Some (r, mem')" "enc_transactionId r = 42"
    "PacketToMsg ref_crypto sample_clocks (enc_packet r) server_device (Some sample_connection) = (Ok ppd, dev', c')"
    "ppd_BodyMessage ppd = [1, 2, 3]"
    by (elim exE conjE)
  then show ?thesis by auto
qed

end
