(* ===== verification/Nhp_Transactions.thy ===== *)
theory Nhp_Transactions
  imports Nhp_Responder
begin

text \<open>
  The requests of an agent and their answers: \<^verbatim>\<open>LocalTransaction\<close> of \<^verbatim>\<open>nhp/core/transaction.go\<close> between the
  goroutines that use it. The connection routine (\<^verbatim>\<open>endpoints/agent/udpagent.go\<close>) takes packets off the
  wire and hands an answer to the transaction of its counter; the transaction, a goroutine of its
  own, waits for an answer, an external message, the end of connection or device, or a timeout, then
  closes its channels, leaves the map and reports an error if it has one; \<^verbatim>\<open>packetToMsgRoutine\<close> parses
  what was queued; \<^verbatim>\<open>recvMessageRoutine\<close> takes messages that answer no request and hands a cookie to the
  transaction it names (\<^verbatim>\<open>endpoints/agent/msghandler.go\<close>). One step is what a goroutine does between two points
  where another may run. Reading the body of a cookie message (JSON, base64) is the parameter \<open>J\<close>.
\<close>

definition IsTransactionRequest :: "int \<Rightarrow> int \<Rightarrow> bool" where
  "IsTransactionRequest devType t =
     (if devType = NHP_AGENT then t \<in> {NHP_REG, NHP_LST, NHP_KNK, DHP_KNK, NHP_RKN, NHP_EXT, NHP_DAR, NHP_DAV}
      else if devType = NHP_SERVER then
        t \<in> {NHP_REG, NHP_LST, NHP_KNK, DHP_KNK, NHP_RKN, NHP_EXT, NHP_AOL, NHP_AOP, NHP_DAK, NHP_DAG, NHP_DSA, NHP_DAR,
          NHP_DAV, NHP_DRG, NHP_DOL, NHP_DWR}
      else if devType = NHP_AC then t \<in> {NHP_AOL, NHP_AOP}
      else if devType = NHP_DB then t \<in> {NHP_DRG, NHP_DOL, NHP_DWR}
      else False)"

definition IsTransactionResponse :: "int \<Rightarrow> int \<Rightarrow> bool" where
  "IsTransactionResponse devType t =
     (if devType = NHP_AGENT then t \<in> {NHP_RAK, NHP_LRT, NHP_ACK, NHP_DAG, NHP_DSA}
      else if devType = NHP_SERVER then t \<in> {NHP_RAK, NHP_LRT, NHP_ACK, NHP_AAK, NHP_ART, NHP_DAK, NHP_DWA}
      else if devType = NHP_AC then t \<in> {NHP_AAK, NHP_ART}
      else if devType = NHP_DB then t \<in> {NHP_DAK, NHP_DBA}
      else False)"

datatype trx_error = ErrTransactionFailedByClosedConnection | ErrTransactionFailedByClosedDevice
  | ErrTransactionFailedByTimeout

text \<open>What arrives on the response channel of a request.\<close>

datatype trx_result = Answer PacketParserData | Failed nhp_error | Aborted trx_error | External PacketParserData

text \<open>Where \<^verbatim>\<open>Run\<close> is: in its \<^verbatim>\<open>select\<close>, past it (with the error to report), channels closed, out of the map, done.\<close>

datatype trx_phase = Waiting | Leaving "trx_error option" | ChannelsClosed "trx_error option"
  | Deleted "trx_error option" | Finished

record LocalTransaction =
  lt_transactionId :: "64 word"
  lt_mad :: MsgAssemblerData
  lt_ResponseMsgCh :: bool
  lt_phase :: trx_phase

text \<open>The connection routine reads the next packet, or is blocked in sending one to a transaction.\<close>

datatype routine = Ready | Sending nat "byte list"

text \<open>So does \<^verbatim>\<open>recvMessageRoutine\<close>: it listens, or is blocked in sending a cookie message to a transaction.\<close>

datatype receiver = Listening | Handing nat PacketParserData

record agent_state =
  ag_device :: Device
  ag_conn :: "ConnectionData option"
  ag_transactions :: "LocalTransaction list"
  localTransactionMap :: "64 word \<Rightarrow> nat option"
  ag_routine :: routine
  ag_receiver :: receiver
  packetToMsgQueue :: "(byte list \<times> nat option) list"
  ResponseMsgCh :: "(nat \<times> trx_result) list"
  DecryptedMsgQueue :: "PacketParserData list"
  ag_crashed :: bool

definition RecvQueueSize :: nat where "RecvQueueSize = 10240"

definition AddLocalTransaction :: "LocalTransaction \<Rightarrow> agent_state \<Rightarrow> agent_state" where
  "AddLocalTransaction t st = st\<lparr>ag_transactions := ag_transactions st @ [t],
     localTransactionMap := (localTransactionMap st)(lt_transactionId t \<mapsto> length (ag_transactions st))\<rparr>"

definition FindLocalTransaction :: "64 word \<Rightarrow> agent_state \<Rightarrow> nat option" where
  "FindLocalTransaction i st = localTransactionMap st i"

definition RecvPacketToMsg :: "byte list \<times> nat option \<Rightarrow> agent_state \<Rightarrow> agent_state" where
  "RecvPacketToMsg pd st = (if length (packetToMsgQueue st) < RecvQueueSize
     then st\<lparr>packetToMsgQueue := packetToMsgQueue st @ [pd]\<rparr> else st)"

definition connectionRoutine :: "byte list \<Rightarrow> agent_state \<Rightarrow> agent_state" where
  "connectionRoutine content st =
     (let t = fst (TypeAndPayloadSize content) in
      if t = NHP_KPL then st
      else (case (if IsTransactionResponse (deviceType (ag_device st)) t then FindLocalTransaction (Counter content) st
                  else None) of
          Some r \<Rightarrow> st\<lparr>ag_routine := Sending r content\<rparr>
        | None \<Rightarrow> RecvPacketToMsg (content, None) st))"

definition set_phase :: "nat \<Rightarrow> trx_phase \<Rightarrow> agent_state \<Rightarrow> agent_state" where
  "set_phase r p st = st\<lparr>ag_transactions := (ag_transactions st)[r := (ag_transactions st ! r)\<lparr>lt_phase := p\<rparr>]\<rparr>"

definition respond :: "nat \<Rightarrow> trx_result \<Rightarrow> agent_state \<Rightarrow> agent_state" where
  "respond r x st = (if lt_ResponseMsgCh (ag_transactions st ! r) then st\<lparr>ResponseMsgCh := ResponseMsgCh st @ [(r, x)]\<rparr> else st)"

text \<open>What \<^verbatim>\<open>packetToMsgRoutine\<close> does with the outcome: to the request it answers, or to the queue of messages,
  which drops what it has no room for.\<close>

definition enqueue_message :: "PacketParserData \<Rightarrow> agent_state \<Rightarrow> agent_state" where
  "enqueue_message ppd st = (if length (DecryptedMsgQueue st) < RecvQueueSize
     then st\<lparr>DecryptedMsgQueue := DecryptedMsgQueue st @ [ppd]\<rparr> else st)"

definition deliver :: "nat option \<Rightarrow> PacketParserData res \<Rightarrow> agent_state \<Rightarrow> agent_state" where
  "deliver prev res st = (case res of
      Panic \<Rightarrow> st\<lparr>ag_crashed := True\<rparr>
    | Err e \<Rightarrow> (case prev of Some r \<Rightarrow> respond r (Failed e) st | None \<Rightarrow> st)
    | Ok ppd \<Rightarrow> (case prev of
          Some r \<Rightarrow> if lt_ResponseMsgCh (ag_transactions st ! r) then respond r (Answer ppd) st else enqueue_message ppd st
        | None \<Rightarrow> enqueue_message ppd st))"

text \<open>\<^verbatim>\<open>copy\<close> into an array, the handling of a cookie and of any other message.\<close>

definition copy_into :: "byte list \<Rightarrow> byte list \<Rightarrow> byte list" where
  "copy_into dst src = take (length dst) src @ drop (length src) dst"

definition HandleCookieMessage :: "(byte list \<Rightarrow> (64 word \<times> byte list) option) \<Rightarrow> PacketParserData \<Rightarrow> agent_state \<Rightarrow> agent_state" where
  "HandleCookieMessage J ppd st = (case J (ppd_BodyMessage ppd) of
      None \<Rightarrow> st
    | Some (transactionId, cokBytes) \<Rightarrow> (case ag_conn st of
          None \<Rightarrow> st\<lparr>ag_crashed := True\<rparr>
        | Some c \<Rightarrow>
           (let st = st\<lparr>ag_conn := Some (c\<lparr>ConnCookieStore := (ConnCookieStore c)\<lparr>CurrCookie :=
                  copy_into (CurrCookie (ConnCookieStore c)) cokBytes\<rparr>\<rparr>)\<rparr>
            in case FindLocalTransaction transactionId st of
                 None \<Rightarrow> st
               | Some r \<Rightarrow> st\<lparr>ag_receiver := Handing r ppd\<rparr>)))"

definition recvMessageRoutine :: "(byte list \<Rightarrow> (64 word \<times> byte list) option) \<Rightarrow> PacketParserData \<Rightarrow> agent_state \<Rightarrow> agent_state" where
  "recvMessageRoutine J ppd st = (if ppd_HeaderType ppd = NHP_COK then HandleCookieMessage J ppd st else st)"

definition phase_of :: "agent_state \<Rightarrow> nat \<Rightarrow> trx_phase option" where
  "phase_of st r = (if r < length (ag_transactions st) then Some (lt_phase (ag_transactions st ! r)) else None)"

definition closed_channels :: "trx_phase option \<Rightarrow> bool" where
  "closed_channels p \<longleftrightarrow> (\<exists>e. p = Some (ChannelsClosed e) \<or> p = Some (Deleted e)) \<or> p = Some Finished"

text \<open>The steps, each of one goroutine. A request is a message the device sealed, with the cookie of the
  connection at hand; its transaction has the counter of the packet.\<close>

datatype agent_action = Request machine MsgData bool | Recv "byte list" | HandOver nat | TakeExternal nat
  | Abort nat trx_error | CloseChannels nat | DeleteTransaction nat | Report nat | SendOnClosed nat | ExternalOnClosed nat | Parse clocks | Receive

inductive agent_step :: "crypto \<Rightarrow> (byte list \<Rightarrow> (64 word \<times> byte list) option) \<Rightarrow> agent_action \<Rightarrow> agent_state \<Rightarrow> agent_state \<Rightarrow> bool" for C J where
  request: "\<not> ag_crashed st \<Longrightarrow> md_ConnCookie md = map_option (CurrCookie \<circ> ConnCookieStore) (ag_conn st) \<Longrightarrow>
    res_bind (setPeerPublicKey C (createMsgAssemblerData C (staticEcdh (ag_device st)) mc md)) (encryptBody C mc) = Ok mad \<Longrightarrow>
    IsTransactionRequest (deviceType (ag_device st)) (md_HeaderType md) \<Longrightarrow>
    agent_step C J (Request mc md ch) st (AddLocalTransaction \<lparr>lt_transactionId = Counter (BasePacket_Buf mad), lt_mad = mad,
      lt_ResponseMsgCh = ch, lt_phase = Waiting\<rparr> st)"
| recv: "\<not> ag_crashed st \<Longrightarrow> ag_routine st = Ready \<Longrightarrow> RecvPrecheck (deviceType (ag_device st)) content = Ok x \<Longrightarrow>
    agent_step C J (Recv content) st (connectionRoutine content st)"
| hand_over: "\<not> ag_crashed st \<Longrightarrow> ag_routine st = Sending r content \<Longrightarrow> phase_of st r = Some Waiting \<Longrightarrow>
    agent_step C J (HandOver r) st (RecvPacketToMsg (content, Some r) (set_phase r (Leaving None) (st\<lparr>ag_routine := Ready\<rparr>)))"
| take_external: "\<not> ag_crashed st \<Longrightarrow> ag_receiver st = Handing r ppd \<Longrightarrow> phase_of st r = Some Waiting \<Longrightarrow>
    agent_step C J (TakeExternal r) st (respond r (External ppd) (set_phase r (Leaving None) (st\<lparr>ag_receiver := Listening\<rparr>)))"
| abort: "\<not> ag_crashed st \<Longrightarrow> phase_of st r = Some Waiting \<Longrightarrow> agent_step C J (Abort r e) st (set_phase r (Leaving (Some e)) st)"
| close_channels: "\<not> ag_crashed st \<Longrightarrow> phase_of st r = Some (Leaving e) \<Longrightarrow>
    agent_step C J (CloseChannels r) st (set_phase r (ChannelsClosed e) st)"
| delete: "\<not> ag_crashed st \<Longrightarrow> phase_of st r = Some (ChannelsClosed e) \<Longrightarrow>
    agent_step C J (DeleteTransaction r) st (set_phase r (Deleted e) (st\<lparr>localTransactionMap :=
      (localTransactionMap st)(lt_transactionId (ag_transactions st ! r) := None)\<rparr>))"
| report: "\<not> ag_crashed st \<Longrightarrow> phase_of st r = Some (Deleted e) \<Longrightarrow>
    agent_step C J (Report r) st (set_phase r Finished (case e of Some x \<Rightarrow> respond r (Aborted x) st | None \<Rightarrow> st))"
| send_on_closed: "\<not> ag_crashed st \<Longrightarrow> ag_routine st = Sending r content \<Longrightarrow>
    closed_channels (phase_of st r) \<Longrightarrow> agent_step C J (SendOnClosed r) st (st\<lparr>ag_crashed := True\<rparr>)"
| external_on_closed: "\<not> ag_crashed st \<Longrightarrow> ag_receiver st = Handing r ppd \<Longrightarrow> closed_channels (phase_of st r) \<Longrightarrow>
    agent_step C J (ExternalOnClosed r) st (st\<lparr>ag_crashed := True\<rparr>)"
| parse: "\<not> ag_crashed st \<Longrightarrow> packetToMsgQueue st = (content, prev) # q \<Longrightarrow>
    parse_packet C tm (map_option (\<lambda>r. lt_mad (ag_transactions st ! r)) prev) content (ag_device st) (ag_conn st) = (res, dev, conn) \<Longrightarrow>
    agent_step C J (Parse tm) st (deliver prev res (st\<lparr>packetToMsgQueue := q, ag_device := dev, ag_conn := conn\<rparr>))"
| receive: "\<not> ag_crashed st \<Longrightarrow> ag_receiver st = Listening \<Longrightarrow> DecryptedMsgQueue st = ppd # q \<Longrightarrow>
    agent_step C J Receive st (recvMessageRoutine J ppd (st\<lparr>DecryptedMsgQueue := q\<rparr>))"

inductive agent_run :: "crypto \<Rightarrow> (byte list \<Rightarrow> (64 word \<times> byte list) option) \<Rightarrow> agent_action list \<Rightarrow> agent_state \<Rightarrow> agent_state \<Rightarrow> bool" for C J where
  halt: "agent_run C J [] st st"
| more: "agent_step C J a st st' \<Longrightarrow> agent_run C J as st' st'' \<Longrightarrow> agent_run C J (a # as) st st''"

definition agent_start :: "Device \<Rightarrow> ConnectionData option \<Rightarrow> agent_state" where
  "agent_start dev conn = \<lparr>ag_device = dev, ag_conn = conn, ag_transactions = [], localTransactionMap = Map.empty,
     ag_routine = Ready, ag_receiver = Listening, packetToMsgQueue = [], ResponseMsgCh = [], DecryptedMsgQueue = [], ag_crashed = False\<rparr>"

definition agent_reachable :: "crypto \<Rightarrow> (byte list \<Rightarrow> (64 word \<times> byte list) option) \<Rightarrow> Device \<Rightarrow> ConnectionData option \<Rightarrow> agent_state \<Rightarrow> bool" where
  "agent_reachable C J dev conn st \<longleftrightarrow> (\<exists>as. agent_run C J as (agent_start dev conn) st)"

end
