(* ===== verification/Nhp_Attacks.thy ===== *)
theory Nhp_Attacks
  imports Nhp_Noise_Properties
begin

text \<open>
  The protocol against a sender who does not play by the rules, and under load: replayed packets,
  bodies that are not what their flags say, and a server that sheds work.
\<close>

subsection \<open>Bodies that do not decompress\<close>

text \<open>The receiver does not compress: nothing it does depends on how the sender did.\<close>

lemma receiver_ignores_compressor:
  "parse_packet (C\<lparr>Zlib_Write := f\<rparr>) = parse_packet C"
proof -
  let ?C = "C\<lparr>Zlib_Write := f\<rparr>"
  have prims: "Digest ?C = Digest C" "Hmac ?C = Hmac C" "Open ?C = Open C" "Public ?C = Public C" "Multiply ?C = Multiply C"
    "Zlib_NewReader ?C = Zlib_NewReader C" "Zlib_Copy ?C = Zlib_Copy C"
    by simp_all
  have kdf: "HMAC1 ?C = HMAC1 C" "HMAC2 ?C = HMAC2 C"
    unfolding fun_eq_iff HMAC1_def HMAC2_def prims by simp_all
  then have keys: "KeyGen1 ?C = KeyGen1 C" "KeyGen2 ?C = KeyGen2 C"
    unfolding fun_eq_iff KeyGen1_def KeyGen2_def kdf by simp_all
  then have mix: "MixKey ?C = MixKey C" unfolding fun_eq_iff MixKey_def keys by simp
  have chain: "ChainKey0 ?C = ChainKey0 C" "aead_Open ?C = aead_Open C" "SharedSecret ?C = SharedSecret C"
    "device_public ?C = device_public C"
    unfolding fun_eq_iff ChainKey0_def aead_Open_def SharedSecret_def device_public_def prims mix by simp_all
  note h = prims keys mix chain
  have stages: "checkHMAC ?C = checkHMAC C" "open_static ?C = open_static C" "open_timestamp ?C = open_timestamp C"
    "generateCookie ?C = generateCookie C" "decryptBody ?C = decryptBody C" "new_ppd ?C = new_ppd C"
    unfolding fun_eq_iff checkHMAC_def open_static_def open_timestamp_def generateCookie_def decryptBody_def new_ppd_def h
    by simp_all
  have checks: "check_header ?C = check_header C" "finish_validation ?C = finish_validation C"
    unfolding fun_eq_iff check_header_def finish_validation_def stages h by simp_all
  have steps: "createPacketParserData ?C = createPacketParserData C" "validatePeer ?C = validatePeer C"
    unfolding fun_eq_iff createPacketParserData_def validatePeer_def checks stages by simp_all
  show ?thesis unfolding fun_eq_iff parse_packet_def steps stages by simp
qed

lemma primitives_compressor: "nhp_primitives C \<Longrightarrow> nhp_primitives (C\<lparr>Zlib_Write := f\<rparr>)"
  by (simp add: nhp_primitives_def)

context nhp_primitives
begin

lemma bad_body_panics:
  assumes "sendable C prk mc md (device_public C (md_CipherScheme md) dev)"
    and "0 < md_HeaderType md" "md_HeaderType md < 2 ^ 16" "md_HeaderType md \<noteq> NHP_RKN" and "\<not> Overload dev"
    and "acceptable tm dev c (md_HeaderType md) (Public C (EccType (NewCipherSuite (md_CipherScheme md))) prk) (mc_now mc)"
    and "md_Compress md" and "\<not> Zlib_NewReader C (Zlib_Write C (md_Message md))"
  shows "\<exists>content. MsgToPacket C prk mc md n = (Ok (md_TransactionId md, content), n) \<and>
     fst (parse_packet C tm None content dev (Some c)) = Panic"
proof -
  obtain content ppd0 ppd1 dev' where d: "MsgToPacket C prk mc md n = (Ok (md_TransactionId md, content), n)"
    "length content = header_Size (md_CipherScheme md) +
       (length (if md_Compress md then Zlib_Write C (md_Message md) else md_Message md) + GCMTagSize)"
    "TypeAndPayloadSize content = (md_HeaderType md, int (length content) - int (header_Size (md_CipherScheme md)))"
    "Packet_Header content = Ok (md_CipherScheme md)"
    "createPacketParserData C dev (Some c) None (InitTime tm) content = Ok ppd0"
    "validatePeer C tm ppd0 dev (Some c) = (Ok ppd1, dev', Some (c\<lparr>LastRemoteSendTime := mc_now mc, RecvThreatCount := 0\<rparr>))"
    "delivered C (createMsgAssemblerData C prk mc md) (md_HeaderType md) (md_TransactionId md) content ppd1"
    by (rule request_validated[OF assms(1) refl assms(2,3) calm_request[OF assms(5,4)] assms(6)])
  have "decryptBody C ppd1 = Panic"
  proof (rule delivered_bad_body[OF d(7)])
    show "length content \<noteq> header_Size (mad_CipherScheme (createMsgAssemblerData C prk mc md))"
      using d(2) by (simp add: GCMTagSize_def)
    show "mad_BodyCompress (createMsgAssemblerData C prk mc md)"
      "\<not> Zlib_NewReader C (packed_body C (createMsgAssemblerData C prk mc md))"
      using assms(7,8) by simp_all
  qed
  then have "fst (parse_packet C tm None content dev (Some c)) = Panic"
    using d(5,6) by (simp add: parse_packet_def)
  with d(1) show ?thesis by (intro exI[of _ content] conjI)
qed

end

text \<open>A peer can stop a daemon. A sender the receiver knows marks its body as compressed and sends bytes
  that are not: \<^verbatim>\<open>zlib.NewReader\<close> fails, its error is ignored, and the code goes on with a nil reader. In
  \<^verbatim>\<open>packetToMsgRoutine\<close> nothing recovers the panic. The sender's primitives are those of the receiver
  but for the function it passes off as compression.\<close>

lemma compressed_garbage_panics:
  assumes "nhp_primitives C" and "sendable (C\<lparr>Zlib_Write := forge\<rparr>) prk mc md (device_public C (md_CipherScheme md) dev)"
    and "0 < md_HeaderType md" and "md_HeaderType md < 2 ^ 16" and "md_HeaderType md \<noteq> NHP_RKN" and "\<not> Overload dev"
    and "acceptable tm dev c (md_HeaderType md) (Public C (EccType (NewCipherSuite (md_CipherScheme md))) prk) (mc_now mc)"
    and "md_Compress md" and "\<not> Zlib_NewReader C (forge (md_Message md))"
  shows "\<exists>content. MsgToPacket (C\<lparr>Zlib_Write := forge\<rparr>) prk mc md n = (Ok (md_TransactionId md, content), n) \<and>
     fst (parse_packet C tm None content dev (Some c)) = Panic"
proof -
  have pk: "device_public (C\<lparr>Zlib_Write := forge\<rparr>) = device_public C"
    by (simp add: fun_eq_iff device_public_def)
  show ?thesis
    using nhp_primitives.bad_body_panics[OF primitives_compressor[OF assms(1), of forge], where prk = prk and mc = mc
        and md = md and dev = dev and tm = tm and c = c and n = n] assms(2-9)
    unfolding receiver_ignores_compressor pk by simp
qed

subsection \<open>Replayed packets\<close>

text \<open>The time a packet states to a device, and whether its type is checked for replays.\<close>

definition stated_time :: "crypto \<Rightarrow> Device \<Rightarrow> byte list \<Rightarrow> 64 word option" where
  "stated_time C dev content =
     (case Packet_Header content of
        Ok scheme \<Rightarrow>
         (case open_static C dev (new_ppd C scheme content 0) of
            Ok (peerPk, chainHash2, chainKey2) \<Rightarrow>
             (case open_timestamp C dev (new_ppd C scheme content 0) peerPk chainHash2 chainKey2 of
                Ok (sent, chainKey3) \<Rightarrow> Some sent | _ \<Rightarrow> None)
          | _ \<Rightarrow> None)
      | _ \<Rightarrow> None)"

definition checked_type :: "Device \<Rightarrow> byte list \<Rightarrow> bool" where
  "checked_type dev content \<longleftrightarrow> (let t = fst (TypeAndPayloadSize content)
     in shouldCheckRecvAttack (deviceType dev) (HeaderTypeToDeviceType t) t)"

text \<open>Packets received one after the other, each by \<open>packetToMsgRoutine\<close>.\<close>

primrec receive :: "crypto \<Rightarrow> (clocks \<times> byte list) list \<Rightarrow> Device \<Rightarrow> ConnectionData option \<Rightarrow>
    Device \<times> ConnectionData option" where
  "receive C [] dev conn = (dev, conn)"
| "receive C (p # ps) dev conn = (case parse_packet C (fst p) None (snd p) dev conn of
     (r, dev, conn) \<Rightarrow> receive C ps dev conn)"

lemma check_header_Ok:
  assumes "check_header C dev conn ppd = Ok ppd0"
  shows "ppd_CipherScheme ppd0 = ppd_CipherScheme ppd" "ppd_Content ppd0 = ppd_Content ppd"
    "ppd_chainHash ppd0 = ppd_chainHash ppd" "ppd_chainKey ppd0 = ppd_chainKey ppd"
    "ppd_HeaderType ppd0 = fst (TypeAndPayloadSize (ppd_Content ppd))" "ppd_LocalInitTime ppd0 = ppd_LocalInitTime ppd"
    "ppd_Overload ppd0 = (deviceType dev = NHP_SERVER \<and> Overload dev)"
  using assms by (auto simp: check_header_def Let_def res_bind_Ok_iff split: prod.splits if_splits)

lemma accept_peer_frame:
  "accept_peer tm conn ppd pk dev = (r, dev') \<Longrightarrow> deviceType dev' = deviceType dev \<and> staticEcdh dev' = staticEcdh dev \<and>
     Overload dev' = Overload dev"
  by (auto simp: accept_peer_def split: if_splits option.splits)

lemma open_device:
  "staticEcdh dev' = staticEcdh dev \<Longrightarrow> open_static C dev' = open_static C dev"
  "staticEcdh dev' = staticEcdh dev \<Longrightarrow> open_timestamp C dev' = open_timestamp C dev"
  by (simp_all add: fun_eq_iff open_static_def open_timestamp_def device_public_def)

text \<open>One packet: what it may do to the connection, and what acceptance means.\<close>

definition spaced :: "64 word \<Rightarrow> 64 word \<Rightarrow> bool" where
  "spaced before sent \<longleftrightarrow> \<not> sent <s before \<and> \<not> sent <s before + 20 * Millisecond"

lemma check_send_time_step:
  assumes "check_send_time d t init sent c = (r, c')"
  shows "(r = Ok () \<and> LastRemoteSendTime c' = sent \<and>
      (shouldCheckRecvAttack d (HeaderTypeToDeviceType t) t \<longrightarrow> spaced (LastRemoteSendTime c) sent)) \<or>
    (\<exists>e. r = Err e) \<and> LastRemoteSendTime c' = LastRemoteSendTime c"
  using assms by (auto simp: check_send_time_def add_threat_def spaced_def Let_def split: if_splits)

lemma finish_validation_step:
  "finish_validation C tm ppd dev c = (r, dev', c') \<Longrightarrow> LastRemoteSendTime c' = LastRemoteSendTime c \<and>
     deviceType dev' = deviceType dev \<and> staticEcdh dev' = staticEcdh dev \<and> Overload dev' = Overload dev"
  by (auto simp: finish_validation_def sendCookie_def SendMsgToPacket_def Let_def split: if_splits prod.splits)

lemma validatePeer_step:
  assumes "validatePeer C tm ppd dev (Some c) = (r, dev', conn')"
  obtains c' where "conn' = Some c'" "deviceType dev' = deviceType dev" "staticEcdh dev' = staticEcdh dev"
    "Overload dev' = Overload dev"
    "LastRemoteSendTime c' = LastRemoteSendTime c \<and> (\<forall>x. r \<noteq> Ok x) \<or>
     (\<exists>pk ch ck sent ck3. open_static C dev ppd = Ok (pk, ch, ck) \<and> open_timestamp C dev ppd pk ch ck = Ok (sent, ck3) \<and>
        LastRemoteSendTime c' = sent \<and>
        (shouldCheckRecvAttack (deviceType dev) (HeaderTypeToDeviceType (ppd_HeaderType ppd)) (ppd_HeaderType ppd) \<longrightarrow>
           spaced (LastRemoteSendTime c) sent))"
proof (cases "open_static C dev ppd")
  case (Ok x)
  obtain pk ch ck where x: "x = (pk, ch, ck)" by (cases x)
  obtain ra dev1 where a: "accept_peer tm (Some c) ppd pk dev = (ra, dev1)" by (cases "accept_peer tm (Some c) ppd pk dev")
  note fr = accept_peer_frame[OF a]
  have ot: "open_timestamp C dev1 = open_timestamp C dev" using fr by (intro open_device) simp
  show ?thesis
  proof (cases ra)
    case (Ok u)
    show ?thesis
    proof (cases "open_timestamp C dev ppd pk ch ck")
      case (Ok y)
      obtain sent ck3 where y: "y = (sent, ck3)" by (cases y)
      obtain rt c1 where t: "check_send_time (deviceType dev) (ppd_HeaderType ppd) (ppd_LocalInitTime ppd) sent c = (rt, c1)"
        by (cases "check_send_time (deviceType dev) (ppd_HeaderType ppd) (ppd_LocalInitTime ppd) sent c")
      note ct = check_send_time_step[OF t]
      show ?thesis
      proof (cases rt)
        case (Ok v)
        obtain rf dev2 c2 where f: "finish_validation C tm (ppd\<lparr>ppd_RemotePubKey := pk, ppd_chainHash := ch,
            ppd_chainKey := ck3\<rparr>) dev1 c1 = (rf, dev2, c2)" by (metis prod_cases3)
        note ff = finish_validation_step[OF f]
        have "(r, dev', conn') = (rf, dev2, Some c2)"
          using assms \<open>open_static C dev ppd = Ok x\<close> x a \<open>ra = Ok u\<close> ot \<open>open_timestamp C dev ppd pk ch ck = Ok y\<close> y t Ok f fr
          by (simp add: validatePeer_def)
        then show ?thesis
          using that[of c2] ff fr ct \<open>open_static C dev ppd = Ok x\<close> x \<open>open_timestamp C dev ppd pk ch ck = Ok y\<close> y Ok by simp
      next
        case (Err e)
        then have "(r, dev', conn') = (Err e, dev1, Some c1)"
          using assms \<open>open_static C dev ppd = Ok x\<close> x a \<open>ra = Ok u\<close> ot \<open>open_timestamp C dev ppd pk ch ck = Ok y\<close> y t fr
          by (simp add: validatePeer_def)
        then show ?thesis using that[of c1] fr ct Err by simp
      next
        case Panic
        then show ?thesis using ct by simp
      qed
    qed (use assms \<open>open_static C dev ppd = Ok x\<close> x a \<open>ra = Ok u\<close> ot fr that[of c] in \<open>auto simp: validatePeer_def\<close>)
  qed (use assms \<open>open_static C dev ppd = Ok x\<close> x a fr that[of c] in \<open>auto simp: validatePeer_def\<close>)
qed (use assms that[of c] in \<open>auto simp: validatePeer_def\<close>)

lemma parse_packet_step:
  assumes "parse_packet C tm None content dev (Some c) = (r, dev', conn')"
  obtains c' where "conn' = Some c'" "deviceType dev' = deviceType dev" "staticEcdh dev' = staticEcdh dev"
    "Overload dev' = Overload dev"
    "LastRemoteSendTime c' = LastRemoteSendTime c \<and> (\<forall>x. r \<noteq> Ok x) \<or>
     stated_time C dev content = Some (LastRemoteSendTime c') \<and>
        (checked_type dev content \<longrightarrow> spaced (LastRemoteSendTime c) (LastRemoteSendTime c'))"
proof (cases "createPacketParserData C dev (Some c) None (InitTime tm) content")
  case (Ok ppd)
  obtain scheme where sc: "Packet_Header content = Ok scheme"
    "check_header C dev (Some c) (new_ppd C scheme content (InitTime tm)) = Ok ppd"
    using Ok by (auto simp: createPacketParserData_def res_bind_Ok_iff)
  note ch = check_header_Ok[OF sc(2)]
  have st: "open_static C dev ppd = open_static C dev (new_ppd C scheme content 0)"
    "open_timestamp C dev ppd = open_timestamp C dev (new_ppd C scheme content 0)"
    using ch by (simp_all add: fun_eq_iff open_static_def open_timestamp_def new_ppd_def)
  obtain rv dev1 conn1 where v: "validatePeer C tm ppd dev (Some c) = (rv, dev1, conn1)" by (metis prod_cases3)
  have eq: "r = res_bind rv (decryptBody C)" "dev' = dev1" "conn' = conn1"
    using assms Ok v by (simp_all add: parse_packet_def)
  obtain c' where c': "conn1 = Some c'" "deviceType dev1 = deviceType dev" "staticEcdh dev1 = staticEcdh dev"
    "Overload dev1 = Overload dev"
    "LastRemoteSendTime c' = LastRemoteSendTime c \<and> (\<forall>x. rv \<noteq> Ok x) \<or>
     (\<exists>pk ch ck sent ck3. open_static C dev ppd = Ok (pk, ch, ck) \<and> open_timestamp C dev ppd pk ch ck = Ok (sent, ck3) \<and>
        LastRemoteSendTime c' = sent \<and>
        (shouldCheckRecvAttack (deviceType dev) (HeaderTypeToDeviceType (ppd_HeaderType ppd)) (ppd_HeaderType ppd) \<longrightarrow>
           spaced (LastRemoteSendTime c) sent))"
    by (rule validatePeer_step[OF v])
  have "checked_type dev content \<longleftrightarrow>
      shouldCheckRecvAttack (deviceType dev) (HeaderTypeToDeviceType (ppd_HeaderType ppd)) (ppd_HeaderType ppd)"
    using ch(5) by (simp add: checked_type_def Let_def new_ppd_def)
  then show ?thesis
    using that[of c'] c' eq st sc(1) by (auto simp: stated_time_def res_bind_Ok_iff)
next
  case (Err e)
  then have "(r, dev', conn') = (Err e, dev, Some c)" using assms by (simp add: parse_packet_def)
  then show ?thesis using that[of c] by simp
next
  case Panic
  then have "(r, dev', conn') = (Panic, dev, Some c)" using assms by (simp add: parse_packet_def)
  then show ?thesis using that[of c] by simp
qed

lemma stated_time_device:
  assumes "staticEcdh dev' = staticEcdh dev"
  shows "stated_time C dev' content = stated_time C dev content"
  unfolding stated_time_def open_device(1)[OF assms] open_device(2)[OF assms] ..

lemma checked_type_device: "deviceType dev' = deviceType dev \<Longrightarrow> checked_type dev' content = checked_type dev content"
  by (simp add: checked_type_def)

lemma receive_monotone:
  assumes "\<forall>p \<in> set ps. checked_type dev (snd p)"
  shows "\<exists>dev' c'. receive C ps dev (Some c) = (dev', Some c') \<and> deviceType dev' = deviceType dev \<and>
     staticEcdh dev' = staticEcdh dev \<and> \<not> LastRemoteSendTime c' <s LastRemoteSendTime c"
  using assms
proof (induction ps arbitrary: dev c)
  case Nil
  then show ?case by simp
next
  case (Cons p ps)
  obtain r dev1 conn1 where p: "parse_packet C (fst p) None (snd p) dev (Some c) = (r, dev1, conn1)" by (metis prod_cases3)
  obtain c1 where c1: "conn1 = Some c1" "deviceType dev1 = deviceType dev" "staticEcdh dev1 = staticEcdh dev"
    "LastRemoteSendTime c1 = LastRemoteSendTime c \<and> (\<forall>x. r \<noteq> Ok x) \<or>
     stated_time C dev (snd p) = Some (LastRemoteSendTime c1) \<and>
        (checked_type dev (snd p) \<longrightarrow> spaced (LastRemoteSendTime c) (LastRemoteSendTime c1))"
    by (rule parse_packet_step[OF p])
  then have mono: "\<not> LastRemoteSendTime c1 <s LastRemoteSendTime c"
    using Cons.prems by (auto simp: spaced_def)
  have "\<forall>q \<in> set ps. checked_type dev1 (snd q)" using Cons.prems checked_type_device[OF c1(2)] by simp
  from Cons.IH[OF this, of c1] obtain dev' c' where ih: "receive C ps dev1 (Some c1) = (dev', Some c')"
    "deviceType dev' = deviceType dev1" "staticEcdh dev' = staticEcdh dev1" "\<not> LastRemoteSendTime c' <s LastRemoteSendTime c1"
    by blast
  have "\<not> LastRemoteSendTime c' <s LastRemoteSendTime c" using mono ih(4) by (simp add: word_sless_alt)
  then show ?case using p c1 ih by simp
qed

lemma spacing_grows: "sint t + 20000000 < 2 ^ 63 \<Longrightarrow> t <s t + (20000000 :: 64 word)"
proof -
  assume a: "sint t + 20000000 < 2 ^ 63"
  have "sint (t + 20000000) = signed_take_bit 63 (sint t + 20000000)" by (simp add: sint_word_ariths)
  also have "\<dots> = sint t + 20000000"
    using a sint_greater_eq[of t] by (intro signed_take_bit_int_eq_self) simp_all
  finally show ?thesis by (simp add: word_sless_alt)
qed

text \<open>C7: No packet is accepted twice on a connection: after a device has accepted a packet, and whatever
  packets it receives then over the same connection, it refuses that packet, provided their types are
  all among those it checks. (The time the packet states must be 20 milliseconds away from the end of
  the 64-bit range.)\<close>

theorem no_replay:
  assumes "parse_packet C tm None content dev (Some c) = (Ok ppd, dev1, Some c1)"
    and "checked_type dev content" and "\<forall>p \<in> set later. checked_type dev (snd p)"
    and "sint (LastRemoteSendTime c1) + 20000000 < 2 ^ 63"
    and "receive C later dev1 (Some c1) = (dev2, conn2)"
  shows "fst (parse_packet C tm' None content dev2 conn2) \<noteq> Ok ppd'"
proof
  assume again: "fst (parse_packet C tm' None content dev2 conn2) = Ok ppd'"
  obtain c1' where c1: "Some c1 = Some c1'" "deviceType dev1 = deviceType dev" "staticEcdh dev1 = staticEcdh dev"
    "LastRemoteSendTime c1' = LastRemoteSendTime c \<and> (\<forall>x. Ok ppd \<noteq> Ok x) \<or>
     stated_time C dev content = Some (LastRemoteSendTime c1') \<and>
        (checked_type dev content \<longrightarrow> spaced (LastRemoteSendTime c) (LastRemoteSendTime c1'))"
    by (rule parse_packet_step[OF assms(1)])
  then have stated: "stated_time C dev content = Some (LastRemoteSendTime c1)" by auto
  obtain c2 where c2: "conn2 = Some c2" "deviceType dev2 = deviceType dev1" "staticEcdh dev2 = staticEcdh dev1"
    "\<not> LastRemoteSendTime c2 <s LastRemoteSendTime c1"
    using receive_monotone[of later dev1 C c1] assms(3,5) checked_type_device[OF c1(2)] by auto
  obtain dev3 conn3 where p: "parse_packet C tm' None content dev2 (Some c2) = (Ok ppd', dev3, conn3)"
    using again c2(1) by (metis prod_cases3 fst_conv)
  obtain c3 where c3: "conn3 = Some c3" "deviceType dev3 = deviceType dev2"
    "LastRemoteSendTime c3 = LastRemoteSendTime c2 \<and> (\<forall>x. Ok ppd' \<noteq> Ok x) \<or>
     stated_time C dev2 content = Some (LastRemoteSendTime c3) \<and>
        (checked_type dev2 content \<longrightarrow> spaced (LastRemoteSendTime c2) (LastRemoteSendTime c3))"
    by (rule parse_packet_step[OF p])
  have same: "staticEcdh dev2 = staticEcdh dev" "deviceType dev2 = deviceType dev" using c1 c2 by simp_all
  have "LastRemoteSendTime c3 = LastRemoteSendTime c1" "spaced (LastRemoteSendTime c2) (LastRemoteSendTime c3)"
    using c3(3) stated stated_time_device[OF same(1)] checked_type_device[OF same(2)] assms(2) by auto
  then have "sint (LastRemoteSendTime c2) = sint (LastRemoteSendTime c1)"
    using c2(4) by (simp add: spaced_def word_sless_alt)
  then have "LastRemoteSendTime c2 = LastRemoteSendTime c1" by (rule signed_word_eqI)
  then have "\<not> LastRemoteSendTime c1 <s LastRemoteSendTime c1 + 20 * Millisecond"
    using \<open>spaced (LastRemoteSendTime c2) (LastRemoteSendTime c3)\<close> \<open>LastRemoteSendTime c3 = LastRemoteSendTime c1\<close>
    by (simp add: spaced_def)
  moreover have "LastRemoteSendTime c1 <s LastRemoteSendTime c1 + 20 * Millisecond"
    using spacing_grows[OF assms(4)] by (simp add: Millisecond_def)
  ultimately show False by simp
qed

text \<open>The sample message, accepted once.\<close>

lemma sample_accepted:
  obtains content ppd dev1 where
    "MsgToPacket ref_crypto agent_key sample_machine (sample_request CIPHER_SCHEME_CURVE [1, 2, 3] False) 0 = (Ok (77, content), 0)"
    "parse_packet ref_crypto sample_clocks None content server_device (Some sample_connection) =
       (Ok ppd, dev1, Some (sample_connection\<lparr>LastRemoteSendTime := 1000000000000, RecvThreatCount := 0\<rparr>))"
    "fst (TypeAndPayloadSize content) = NHP_KNK" "Packet_Header content = Ok CIPHER_SCHEME_CURVE"
    "ppd_SenderTrxId ppd = 77" "ppd_CipherScheme ppd = CIPHER_SCHEME_CURVE"
    "ppd_RemotePubKey ppd = Public ref_crypto ECC_CURVE25519 agent_key"
proof -
  let ?md = "sample_request CIPHER_SCHEME_CURVE [1, 2, 3] False"
  have md: "md_CipherScheme ?md = CIPHER_SCHEME_CURVE" "md_HeaderType ?md = NHP_KNK" "md_TransactionId ?md = 77"
    "md_Message ?md = [1, 2, 3]" by (simp_all add: sample_request_def)
  obtain content ppd0 ppd1 dev' where d:
    "MsgToPacket ref_crypto agent_key sample_machine ?md 0 = (Ok (md_TransactionId ?md, content), 0)"
    "length content = header_Size (md_CipherScheme ?md) +
       (length (if md_Compress ?md then Zlib_Write ref_crypto (md_Message ?md) else md_Message ?md) + GCMTagSize)"
    "TypeAndPayloadSize content = (md_HeaderType ?md, int (length content) - int (header_Size (md_CipherScheme ?md)))"
    "Packet_Header content = Ok (md_CipherScheme ?md)"
    "createPacketParserData ref_crypto server_device (Some sample_connection) None (InitTime sample_clocks) content = Ok ppd0"
    "validatePeer ref_crypto sample_clocks ppd0 server_device (Some sample_connection) =
       (Ok ppd1, dev', Some (sample_connection\<lparr>LastRemoteSendTime := mc_now sample_machine, RecvThreatCount := 0\<rparr>))"
    "delivered ref_crypto (createMsgAssemblerData ref_crypto agent_key sample_machine ?md) (md_HeaderType ?md)
       (md_TransactionId ?md) content ppd1"
  proof (rule rc.request_validated[OF _ refl, where prk = agent_key and mc = sample_machine and md = ?md
        and dev = server_device and tm = sample_clocks and c = sample_connection and n = 0])
    have "\<not> Overload server_device" "md_HeaderType ?md \<noteq> NHP_RKN" by (simp_all add: md server_device_def header_type_defs)
    from calm_request[OF this] show "admits server_device sample_connection (InitTime sample_clocks)
        (createMsgAssemblerData ref_crypto agent_key sample_machine ?md)" "\<not> wants_cookie server_device (md_HeaderType ?md)" .
    show "sendable ref_crypto agent_key sample_machine ?md (device_public ref_crypto (md_CipherScheme ?md) server_device)"
      unfolding md by (rule sample_sendable) simp_all
    show "acceptable sample_clocks server_device sample_connection (md_HeaderType ?md)
        (Public ref_crypto (EccType (NewCipherSuite (md_CipherScheme ?md))) agent_key) (mc_now sample_machine)"
      unfolding md by (rule sample_acceptable)
  qed (simp_all add: md server_device_def header_type_defs)
  have b: "decryptBody ref_crypto ppd1 = Ok (wipe_ppd (ppd1\<lparr>ppd_BodyMessage := [1, 2, 3]\<rparr>))"
    using rc.delivered_body[OF d(7)] d(2) by (simp add: GCMTagSize_def md)
  have out: "ppd_SenderTrxId ppd1 = 77" "ppd_CipherScheme ppd1 = CIPHER_SCHEME_CURVE"
    "ppd_RemotePubKey ppd1 = Public ref_crypto ECC_CURVE25519 agent_key"
    using d(7) by (simp_all add: delivered_def md Let_def NewCipherSuite_def)
  show ?thesis
    using d(1,3,4) md by (intro that[of content "wipe_ppd (ppd1\<lparr>ppd_BodyMessage := [1, 2, 3]\<rparr>)" dev'])
      (use d(5,6) b out in \<open>simp_all add: parse_packet_def sample_machine_def wipe_ppd_def\<close>)
qed

lemma checked_knock: "fst (TypeAndPayloadSize content) = NHP_KNK \<Longrightarrow> checked_type dev content"
  by (simp add: checked_type_def shouldCheckRecvAttack_def header_type_defs)

theorem no_replay_witness:
  "\<exists>content ppd dev1 c1. parse_packet ref_crypto sample_clocks None content server_device (Some sample_connection) = (Ok ppd, dev1, Some c1) \<and>
     (\<forall>tm' ppd'. fst (parse_packet ref_crypto tm' None content dev1 (Some c1)) \<noteq> Ok ppd')"
proof -
  obtain content ppd dev1 where s: "parse_packet ref_crypto sample_clocks None content server_device (Some sample_connection) =
       (Ok ppd, dev1, Some (sample_connection\<lparr>LastRemoteSendTime := 1000000000000, RecvThreatCount := 0\<rparr>))"
    "fst (TypeAndPayloadSize content) = NHP_KNK"
    using sample_accepted by metis
  have "fst (parse_packet ref_crypto tm' None content dev1
      (Some (sample_connection\<lparr>LastRemoteSendTime := 1000000000000, RecvThreatCount := 0\<rparr>))) \<noteq> Ok ppd'" for tm' ppd'
    by (rule no_replay[OF s(1) checked_knock[OF s(2)], where later = "[]"]) simp_all
  with s(1) show ?thesis by blast
qed

text \<open>The types that are not checked reopen the door: an acknowledgement of an access controller moves the
  last send time of the connection wherever its own time is, up to ten minutes back, and after it a
  message whose time was used before is accepted again.\<close>

lemma unchecked_type_rewinds:
  assumes "check_send_time NHP_SERVER NHP_AOL init1 sent c = (Ok (), c1)"
    and "\<not> earlier <s init2 - 600 * Second" and "\<not> sent <s init3 - 600 * Second" and "spaced earlier sent"
  shows "\<exists>c2 c3. check_send_time NHP_SERVER NHP_ART init2 earlier c1 = (Ok (), c2) \<and>
     check_send_time NHP_SERVER NHP_AOL init3 sent c2 = (Ok (), c3)"
proof -
  have types: "\<not> shouldCheckRecvAttack NHP_SERVER (HeaderTypeToDeviceType NHP_ART) NHP_ART"
    by (simp add: shouldCheckRecvAttack_def HeaderTypeToDeviceType_def header_type_defs device_type_defs)
  have "check_send_time NHP_SERVER NHP_ART init2 earlier c1 = (Ok (), c1\<lparr>LastRemoteSendTime := earlier, RecvThreatCount := 0\<rparr>)"
    using types assms(2) by (simp add: check_send_time_def)
  then show ?thesis
    using assms(3,4) by (simp add: check_send_time_def spaced_def Let_def)
qed

subsection \<open>Under load\<close>

lemma knock_not_validated:
  assumes "deviceType dev = NHP_SERVER" and "ppd_Overload ppd" and "ppd_HeaderType ppd = NHP_KNK \<or> ppd_HeaderType ppd = DHP_KNK"
  shows "validatePeer C tm ppd dev (Some c) \<noteq> (Ok ppd', dev', conn')"
proof
  assume "validatePeer C tm ppd dev (Some c) = (Ok ppd', dev', conn')"
  then show False
    using assms by (auto simp: validatePeer_def finish_validation_def Let_def dest: accept_peer_frame
        split: res.splits prod.splits)
qed

text \<open>C36: An overloaded server sheds work: types other than knocks, exits and the access controller's are refused
  before anything is decrypted; a plain knock is never accepted, whoever sends it, and a repeated
  knock only with a check sum over the cookie the server expects from this connection.\<close>

theorem overload_sheds:
  assumes "deviceType dev = NHP_SERVER" and "Overload dev" and "Packet_Header content = Ok scheme"
    and "t = fst (TypeAndPayloadSize content)"
  shows "(\<not> IsAllowedAtOverload t \<longrightarrow>
       parse_packet C tm None content dev conn = (Err (CoreError ''ERR_NHP_SERVER_OVERLOAD''), dev, conn)) \<and>
     (fst (parse_packet C tm None content dev (Some c)) = Ok ppd \<longrightarrow> t \<in> {NHP_RKN, NHP_EXT, NHP_AOL, NHP_ART} \<and>
       (t = NHP_RKN \<longrightarrow> HMACBytes scheme content = Digest C (HashType (NewCipherSuite scheme))
          (InitialHashString @ device_public C scheme dev @ take (header_Size scheme - HashSize) content @
             expected_cookie (InitTime tm) (ConnCookieStore c))))"
proof (intro conjI impI)
  assume "\<not> IsAllowedAtOverload t"
  then show "parse_packet C tm None content dev conn = (Err (CoreError ''ERR_NHP_SERVER_OVERLOAD''), dev, conn)"
    using assms by (simp add: parse_packet_def createPacketParserData_def check_header_def new_ppd_def Let_def case_prod_beta)
next
  assume ok: "fst (parse_packet C tm None content dev (Some c)) = Ok ppd"
  obtain ppd0 where p0: "check_header C dev (Some c) (new_ppd C scheme content (InitTime tm)) = Ok ppd0"
    "createPacketParserData C dev (Some c) None (InitTime tm) content = Ok ppd0"
    using ok assms(3) by (cases "check_header C dev (Some c) (new_ppd C scheme content (InitTime tm))")
      (auto simp: parse_packet_def createPacketParserData_def)
  have new: "ppd_Content (new_ppd C scheme content (InitTime tm)) = content"
    "ppd_CipherScheme (new_ppd C scheme content (InitTime tm)) = scheme"
    "ppd_LocalInitTime (new_ppd C scheme content (InitTime tm)) = InitTime tm" by (simp_all add: new_ppd_def)
  have h: "IsAllowedAtOverload t" "t = NHP_RKN \<longrightarrow> HMACBytes scheme content = Digest C (HashType (NewCipherSuite scheme))
          (InitialHashString @ device_public C scheme dev @ take (header_Size scheme - HashSize) content @
             expected_cookie (InitTime tm) (ConnCookieStore c))"
    using p0(1) assms(1,2,4)
    by (auto simp: check_header_def new checkHMAC_def res_bind_Ok_iff Let_def split: prod.splits if_splits)
  have t0: "ppd_HeaderType ppd0 = t" "ppd_Overload ppd0" using check_header_Ok[OF p0(1)] new assms by simp_all
  obtain rv dev1 conn1 where v: "validatePeer C tm ppd0 dev (Some c) = (rv, dev1, conn1)" by (metis prod_cases3)
  then obtain ppd1 where "rv = Ok ppd1" using ok p0(2) by (cases rv) (auto simp: parse_packet_def)
  with v have "t \<noteq> NHP_KNK \<and> t \<noteq> DHP_KNK"
    using t0 assms(1) knock_not_validated[of dev ppd0 C tm c ppd1 dev1 conn1] by auto
  then show "t \<in> {NHP_RKN, NHP_EXT, NHP_AOL, NHP_ART}" using h(1) by (auto simp: IsAllowedAtOverload_def)
  show "t = NHP_RKN \<Longrightarrow> HMACBytes scheme content = Digest C (HashType (NewCipherSuite scheme))
          (InitialHashString @ device_public C scheme dev @ take (header_Size scheme - HashSize) content @
             expected_cookie (InitTime tm) (ConnCookieStore c))" using h(2) by blast
qed

text \<open>A listing request, unmasked, at a busy server.\<close>

definition listing_packet :: "byte list" where
  "listing_packet = [0, 0, 0, 0, 0, 5, 0, 0] @ replicate 232 0"

theorem overload_sheds_witness:
  "parse_packet ref_crypto sample_clocks None listing_packet (server_device\<lparr>Overload := True\<rparr>) (Some sample_connection) =
     (Err (CoreError ''ERR_NHP_SERVER_OVERLOAD''), server_device\<lparr>Overload := True\<rparr>, Some sample_connection)"
proof -
  have "Packet_Header listing_packet = Ok CIPHER_SCHEME_CURVE"
    by (simp add: Packet_Header_def go_slice_def slice_of_def listing_packet_def be_word_def numeral_2_eq_2)
  moreover have t: "fst (TypeAndPayloadSize listing_packet) = 5" by code_simp
  moreover have "\<not> IsAllowedAtOverload 5" by (simp add: IsAllowedAtOverload_def header_type_defs)
  ultimately show ?thesis
    using overload_sheds[of "server_device\<lparr>Overload := True\<rparr>" listing_packet CIPHER_SCHEME_CURVE 5 ref_crypto sample_clocks
        "Some sample_connection"] by (simp add: server_device_def)
qed

end
