(* ===== verification/Nhp_Reply.thy ===== *)
theory Nhp_Reply
  imports Nhp_Attacks
begin

text \<open>
  Answers. The receiver of a request derives its answer from the parsed packet and the sender reads it
  with the record of its request. Both sides wipe the chain key when they are done with the request,
  before the answer takes it over.
\<close>

lemma wiped_ppd:
  assumes "decryptBody C ppd = Ok ppd'"
  shows "ppd_chainKey ppd' = replicate (length (ppd_chainKey ppd)) 0"
  using assms by (auto simp: decryptBody_def wipe_ppd_def Let_def split: option.splits if_splits)

lemma wiped_mad:
  assumes "encryptBody C mc mad = Ok mad'"
  shows "mad_chainKey mad' = replicate (length (mad_chainKey mad)) 0"
proof -
  have h: "mad_chainKey m' = mad_chainKey m" if "addHMAC C b m = Ok m'" for b m m'
    using that by (auto simp: addHMAC_def Let_def res_bind_Ok_iff)
  show ?thesis
    using assms by (auto simp: encryptBody_def wipe_mad_def Let_def res_bind_Ok_iff dest!: h split: if_splits)
qed

context nhp_primitives
begin

lemma validated_chain_key:
  assumes "validatePeer C tm ppd dev conn = (Ok ppd', dev', conn')"
  shows "length (ppd_chainKey ppd') = HashSize"
  using assms
  by (auto simp: validatePeer_def finish_validation_def Let_def split: res.splits prod.splits option.splits if_splits
      dest: KeyGen2_length)

lemma parsed_chain_key:
  assumes "fst (parse_packet C tm prev content dev conn) = Ok ppd"
  shows "ppd_chainKey ppd = replicate HashSize 0"
proof -
  obtain ppd0 where "createPacketParserData C dev conn prev (InitTime tm) content = Ok ppd0"
    using assms by (cases "createPacketParserData C dev conn prev (InitTime tm) content") (auto simp: parse_packet_def)
  moreover obtain r dev1 conn1 where v: "validatePeer C tm ppd0 dev conn = (r, dev1, conn1)" by (metis prod_cases3)
  ultimately have "res_bind r (decryptBody C) = Ok ppd" using assms by (simp add: parse_packet_def)
  then obtain ppd1 where "r = Ok ppd1" "decryptBody C ppd1 = Ok ppd" by (auto simp: res_bind_Ok_iff)
  then show ?thesis using wiped_ppd validated_chain_key v by metis
qed

lemma sent_chain_key:
  assumes "setPeerPublicKey C mad = Ok mad1" and "encryptBody C mc mad1 = Ok mad2"
  shows "mad_chainKey mad2 = replicate HashSize 0"
proof -
  have "length (mad_chainKey mad1) = HashSize"
    using assms(1) by (auto simp: setPeerPublicKey_def seal_static_def seal_timestamp_def Let_def
        split: option.splits prod.splits if_splits dest: KeyGen2_length)
  with wiped_mad[OF assms(2)] show ?thesis by simp
qed

end

text \<open>An answer is not bound to its request. Code and comments mean the answer to continue with the chain
  key the handshake of the request ended with; but both sides have overwritten it with zeros by
  then, so the answer starts from a constant: answers to any two requests with the same cipher
  scheme, sender key and transaction id are interchangeable, and the sender reads them with the
  same constant.\<close>

lemma reply_not_chained:
  assumes "nhp_primitives C" and "fst (parse_packet C tm prev content dev conn) = Ok ppd"
    and "fst (parse_packet C tm' prev' content' dev' conn') = Ok ppd'"
    and "ppd_CipherScheme ppd' = ppd_CipherScheme ppd" and "ppd_RemotePubKey ppd' = ppd_RemotePubKey ppd"
    and "ppd_SenderTrxId ppd' = ppd_SenderTrxId ppd"
  shows "deriveMsgAssemblerData d ppd' buf t compress message cookie = deriveMsgAssemblerData d ppd buf t compress message cookie \<and>
     mad_chainKey (deriveMsgAssemblerData d ppd buf t compress message cookie) = replicate 32 0 \<and>
     (setPeerPublicKey C mad = Ok mad1 \<and> encryptBody C mc mad1 = Ok mad2 \<longrightarrow>
        ppd_chainKey (derivePacketParserData mad2 answer time) = replicate 32 0)"
  using nhp_primitives.parsed_chain_key[OF assms(1,2)] nhp_primitives.parsed_chain_key[OF assms(1,3)]
    nhp_primitives.sent_chain_key[OF assms(1), of mad mad1 mc mad2] assms(4-6)
  by (auto simp: deriveMsgAssemblerData_def derivePacketParserData_def HashSize_def)

subsection \<open>The answer arrives\<close>

lemma sent_scheme:
  assumes "setPeerPublicKey C mad = Ok mad1" and "encryptBody C mc mad1 = Ok mad2"
  shows "mad_CipherScheme mad2 = mad_CipherScheme mad"
proof -
  have h: "mad_CipherScheme m' = mad_CipherScheme m" if "addHMAC C b m = Ok m'" for b m m'
    using that by (auto simp: addHMAC_def Let_def res_bind_Ok_iff)
  have "mad_CipherScheme mad1 = mad_CipherScheme mad"
    using assms(1) by (auto simp: setPeerPublicKey_def Let_def split: option.splits prod.splits if_splits)
  moreover have "mad_CipherScheme mad2 = mad_CipherScheme mad1"
    using assms(2) by (auto simp: encryptBody_def wipe_mad_def Let_def res_bind_Ok_iff dest!: h split: if_splits)
  ultimately show ?thesis by simp
qed

lemma parsed_scheme:
  assumes "fst (parse_packet C tm None content dev conn) = Ok ppd"
  shows "ppd_CipherScheme ppd = CIPHER_SCHEME_CURVE \<or> ppd_CipherScheme ppd = CIPHER_SCHEME_GMSM"
proof -
  obtain ppd0 where c: "createPacketParserData C dev conn None (InitTime tm) content = Ok ppd0"
    using assms by (cases "createPacketParserData C dev conn None (InitTime tm) content") (auto simp: parse_packet_def)
  obtain r dev1 conn1 where v: "validatePeer C tm ppd0 dev conn = (r, dev1, conn1)" by (metis prod_cases3)
  with c assms obtain ppd1 where d: "r = Ok ppd1" "decryptBody C ppd1 = Ok ppd" by (auto simp: parse_packet_def res_bind_Ok_iff)
  have "ppd_CipherScheme ppd = ppd_CipherScheme ppd1"
    using d(2) by (auto simp: decryptBody_def wipe_ppd_def Let_def split: option.splits if_splits)
  also have "\<dots> = ppd_CipherScheme ppd0"
    using v d(1) by (auto simp: validatePeer_def finish_validation_def Let_def split: res.splits prod.splits option.splits if_splits)
  also have "\<dots> = CIPHER_SCHEME_CURVE \<or> \<dots> = CIPHER_SCHEME_GMSM"
  proof -
    obtain scheme where "Packet_Header content = Ok scheme"
      "check_header C dev conn (new_ppd C scheme content (InitTime tm)) = Ok ppd0"
      using c by (auto simp: createPacketParserData_def res_bind_Ok_iff)
    moreover from this(1) have "scheme = CIPHER_SCHEME_CURVE \<or> scheme = CIPHER_SCHEME_GMSM"
      by (auto simp: Packet_Header_def split: if_splits)
    ultimately show ?thesis using check_header_Ok(1)[of C dev conn "new_ppd C scheme content (InitTime tm)" ppd0]
      by (auto simp: new_ppd_def)
  qed
  finally show ?thesis by simp
qed

context nhp_crypto
begin

lemma reply_arrives:
  assumes "fst (parse_packet C tm None content dev conn) = Ok ppd"
    and "setPeerPublicKey C mad = Ok mad1" and "encryptBody C mc mad1 = Ok req"
    and "mad_CipherScheme mad = ppd_CipherScheme ppd" and "ppd_RemotePubKey ppd = device_public C (ppd_CipherScheme ppd) agent"
    and "length (mc_buf mc2) = PacketBufferSize"
    and "SharedSecret C (ppd_CipherScheme ppd) (mc_ephermeral mc2) (ppd_RemotePubKey ppd) \<noteq> None"
    and "SharedSecret C (ppd_CipherScheme ppd) (staticEcdh dev) (ppd_RemotePubKey ppd) \<noteq> None"
    and "message \<noteq> []" and "length (if compress then Zlib_Write C message else message) + GCMTagSize
       \<le> PacketBufferSize - header_Size (ppd_CipherScheme ppd)"
    and "0 < t" and "t < 2 ^ 16" and "t \<noteq> NHP_RKN" and "\<not> Overload agent"
    and "acceptable tm2 agent c t (device_public C (ppd_CipherScheme ppd) dev) (mc_now mc2)"
  shows "\<exists>rep ppd2 agent'. res_bind (setPeerPublicKey C (start_mad C mc2 (deriveMsgAssemblerData dev ppd (mc_buf mc2) t compress message cookie)))
       (encryptBody C mc2) = Ok rep \<and>
     parse_packet C tm2 (Some req) (BasePacket_Content rep) agent (Some c) =
       (Ok ppd2, agent', Some (c\<lparr>LastRemoteSendTime := mc_now mc2, RecvThreatCount := 0\<rparr>)) \<and>
     ppd_BodyMessage ppd2 = message \<and> ppd_HeaderType ppd2 = t \<and> ppd_SenderTrxId ppd2 = ppd_SenderTrxId ppd \<and>
     ppd_RemotePubKey ppd2 = device_public C (ppd_CipherScheme ppd) dev \<and>
     Packet_Header (BasePacket_Content rep) = Ok (ppd_CipherScheme ppd) \<and> TypeAndPayloadSize (BasePacket_Content rep) =
       (t, int (length (BasePacket_Content rep)) - int (header_Size (ppd_CipherScheme ppd)))"
proof -
  let ?mad = "start_mad C mc2 (deriveMsgAssemblerData dev ppd (mc_buf mc2) t compress message cookie)"
  let ?scheme = "ppd_CipherScheme ppd"
  have f: "mad_CipherScheme ?mad = ?scheme" "mad_bodyMessage ?mad = message" "mad_HeaderType ?mad = t"
    "mad_deviceEcdh ?mad = staticEcdh dev" "mad_LocalInitTime ?mad = mc_now mc2" "mad_chainHash ?mad = InitialHashString"
    "mad_chainKey ?mad = replicate HashSize 0"
    "packed_body C ?mad = (if compress then Zlib_Write C message else message)"
    using parsed_chain_key[OF assms(1)] by (simp_all add: start_mad_def deriveMsgAssemblerData_def packed_body_def)
  obtain ess ss where s: "SharedSecret C ?scheme (mc_ephermeral mc2) (ppd_RemotePubKey ppd) = Some ess"
    "SharedSecret C ?scheme (staticEcdh dev) (ppd_RemotePubKey ppd) = Some ss" using assms(7,8) by blast
  have r: "ready C ?mad (ppd_SenderTrxId ppd) (mc_buf mc2) (Public C (EccType (NewCipherSuite ?scheme)) (mc_ephermeral mc2))
      (ppd_RemotePubKey ppd) ess ss"
    using parsed_scheme[OF assms(1)] assms(5,6) s
    by (simp add: ready_def start_mad_def deriveMsgAssemblerData_def Let_def device_public_def)
  have req: "mad_CipherScheme req = ?scheme" "mad_chainKey req = replicate HashSize 0"
    using sent_scheme[OF assms(2,3)] sent_chain_key[OF assms(2,3)] assms(4) by simp_all
  obtain rep content2 ppd0 ppd1 agent' where d: "res_bind (setPeerPublicKey C ?mad) (encryptBody C mc2) = Ok rep"
    "BasePacket_Content rep = content2" "mad_TransactionId rep = mad_TransactionId ?mad"
    "length content2 = header_Size ?scheme + (length (packed_body C ?mad) + GCMTagSize)"
    "TypeAndPayloadSize content2 = (t, int (length (packed_body C ?mad) + GCMTagSize))"
    "Packet_Header content2 = Ok ?scheme"
    "check_header C agent (Some c) (derivePacketParserData req content2 (InitTime tm2)) = Ok ppd0"
    "validatePeer C tm2 ppd0 agent (Some c) = (Ok ppd1, agent', Some (c\<lparr>LastRemoteSendTime := mad_LocalInitTime ?mad, RecvThreatCount := 0\<rparr>))"
    "delivered C ?mad t (ppd_SenderTrxId ppd) content2 ppd1"
    using delivery[OF r f(1)[symmetric], where base = "\<lambda>content. derivePacketParserData req content (InitTime tm2)" and tm = tm2
        and dev = agent and c = c and mc = mc2 and t = t] assms(5,9-15) f req calm_admits[OF assms(14), of ?mad]
    by (auto simp: derivePacketParserData_def device_public_def)
  have "decryptBody C ppd1 = Ok (wipe_ppd (ppd1\<lparr>ppd_BodyMessage := message\<rparr>))"
    using delivered_body[OF d(9)] d(4) f(1,2) by (simp add: GCMTagSize_def)
  moreover have "createPacketParserData C agent (Some c) (Some req) (InitTime tm2) content2 = Ok ppd0"
    using d(6,7) by (simp add: createPacketParserData_def)
  ultimately have "parse_packet C tm2 (Some req) content2 agent (Some c) =
      (Ok (wipe_ppd (ppd1\<lparr>ppd_BodyMessage := message\<rparr>)), agent', Some (c\<lparr>LastRemoteSendTime := mc_now mc2, RecvThreatCount := 0\<rparr>))"
    using d(8) f(5) by (simp add: parse_packet_def)
  moreover have "ppd_HeaderType ppd1 = t" "ppd_SenderTrxId ppd1 = ppd_SenderTrxId ppd"
    "ppd_RemotePubKey ppd1 = device_public C ?scheme dev"
    using d(9) f(1,4) by (simp_all add: delivered_def Let_def device_public_def)
  ultimately show ?thesis
    using d(1,2,4,5,6)
    by (intro exI[of _ rep] exI[of _ "wipe_ppd (ppd1\<lparr>ppd_BodyMessage := message\<rparr>)"] exI[of _ agent']) (simp add: wipe_ppd_def)
qed

end

text \<open>An agent that knows the server.\<close>

definition agent_device :: Device where
  "agent_device = \<lparr>deviceType = NHP_AGENT, dev_option = defaultDeviceOptions NHP_AGENT, staticEcdh = agent_key,
     Overload = False, peerMap = (\<lambda>_. Some \<lparr>ExpireTimeSec = 0, lastRecvTime = 0, recvAddr = ''10.0.0.1:50000''\<rparr>),
     msgToPacketQueue = []\<rparr>"

end
