(* ===== verification/Nhp_Transaction_Properties.thy ===== *)
theory Nhp_Transaction_Properties
  imports Nhp_Transactions Nhp_Reply
begin

text \<open>
  What the transactions of an agent guarantee: every request gets at most one result, an answer belongs
  to its request, and a request that is answered completes; and what a packet nobody has authenticated
  can do to them.
\<close>

subsection \<open>What a parsed packet says\<close>

lemma parse_packet_device:
  assumes "parse_packet C tm prev content dev conn = (res, dev', conn')"
  shows "deviceType dev' = deviceType dev \<and> staticEcdh dev' = staticEcdh dev"
proof -
  have "deviceType d' = deviceType dev \<and> staticEcdh d' = staticEcdh dev"
    if "validatePeer C tm ppd dev conn = (r, d', c')" for ppd r d' c'
    using that
    by (auto simp: validatePeer_def split: res.splits prod.splits option.splits
        dest!: accept_peer_frame finish_validation_step)
  with assms show ?thesis by (auto simp: parse_packet_def split: res.splits prod.splits)
qed

lemma validatePeer_keeps:
  assumes "validatePeer C tm ppd dev conn = (Ok ppd', dev', conn')"
  shows "ppd_SenderTrxId ppd' = ppd_SenderTrxId ppd \<and> ppd_HeaderType ppd' = ppd_HeaderType ppd"
proof -
  have "ppd_SenderTrxId q = ppd_SenderTrxId p \<and> ppd_HeaderType q = ppd_HeaderType p"
    if "finish_validation C tm p d c = (Ok q, d', c')" for p q d d' c c'
    using that by (auto simp: finish_validation_def Let_def split: if_splits prod.splits)
  from this[of "ppd\<lparr>ppd_RemotePubKey := pk, ppd_chainHash := ch, ppd_chainKey := ck\<rparr>" for pk ch ck]
  show ?thesis
    using assms by (auto simp: validatePeer_def split: res.splits prod.splits option.splits)
qed

lemma check_header_reads: "check_header C dev conn ppd = Ok ppd0 \<Longrightarrow> ppd_SenderTrxId ppd0 = Counter (ppd_Content ppd) \<and>
     ppd_HeaderType ppd0 = fst (TypeAndPayloadSize (ppd_Content ppd))"
  by (auto simp: check_header_def Let_def res_bind_Ok_iff split: prod.splits if_splits)

lemma parsed_fields:
  assumes "parse_packet C tm prev content dev conn = (Ok ppd, dev', conn')"
  shows "ppd_SenderTrxId ppd = Counter content \<and> ppd_HeaderType ppd = fst (TypeAndPayloadSize content)"
proof -
  obtain ppd0 r where c: "createPacketParserData C dev conn prev (InitTime tm) content = Ok ppd0"
    and v: "validatePeer C tm ppd0 dev conn = (r, dev', conn')" "res_bind r (decryptBody C) = Ok ppd"
    using assms by (auto simp: parse_packet_def split: res.splits prod.splits)
  obtain ppd1 where v1: "r = Ok ppd1" "decryptBody C ppd1 = Ok ppd" using v(2) by (auto simp: res_bind_Ok_iff)
  have "ppd_SenderTrxId ppd0 = Counter content \<and> ppd_HeaderType ppd0 = fst (TypeAndPayloadSize content)"
    using c by (cases prev)
      (auto simp: createPacketParserData_def res_bind_Ok_iff derivePacketParserData_def new_ppd_def dest!: check_header_reads)
  moreover have "ppd_SenderTrxId ppd1 = ppd_SenderTrxId ppd0 \<and> ppd_HeaderType ppd1 = ppd_HeaderType ppd0"
    using validatePeer_keeps v(1) v1(1) by blast
  moreover have "ppd_SenderTrxId ppd = ppd_SenderTrxId ppd1 \<and> ppd_HeaderType ppd = ppd_HeaderType ppd1"
    using v1(2) by (auto simp: decryptBody_def wipe_ppd_def Let_def split: if_splits option.splits)
  ultimately show ?thesis by simp
qed

subsection \<open>Invariants\<close>

text \<open>What a request can still get on its channel: results so far, its packet in the queue, its own turn.\<close>

fun turn :: "trx_phase \<Rightarrow> nat" where
  "turn Waiting = 1"
| "turn (Leaving e) = (if e = None then 0 else 1)"
| "turn (ChannelsClosed e) = (if e = None then 0 else 1)"
| "turn (Deleted e) = (if e = None then 0 else 1)"
| "turn Finished = 0"

definition results_of :: "nat \<Rightarrow> agent_state \<Rightarrow> nat" where
  "results_of r st = length (filter (\<lambda>x. fst x = r) (ResponseMsgCh st))"

definition queued_for :: "nat \<Rightarrow> agent_state \<Rightarrow> nat" where
  "queued_for r st = length (filter (\<lambda>x. snd x = Some r) (packetToMsgQueue st))"

definition single_results :: "agent_state \<Rightarrow> bool" where
  "single_results st \<longleftrightarrow> (\<forall>r < length (ag_transactions st).
     results_of r st + queued_for r st + turn (lt_phase (ag_transactions st ! r)) \<le> 1)"

definition answer_packet :: "agent_state \<Rightarrow> byte list \<Rightarrow> nat \<Rightarrow> bool" where
  "answer_packet st content r \<longleftrightarrow> r < length (ag_transactions st) \<and>
     Counter content = lt_transactionId (ag_transactions st ! r) \<and>
     IsTransactionResponse (deviceType (ag_device st)) (fst (TypeAndPayloadSize content))"

text \<open>A message that was parsed with the record of the request, and carries its transaction id.\<close>

definition answers :: "crypto \<Rightarrow> agent_state \<Rightarrow> PacketParserData \<Rightarrow> nat \<Rightarrow> bool" where
  "answers C st ppd r \<longleftrightarrow> r < length (ag_transactions st) \<and>
     ppd_SenderTrxId ppd = lt_transactionId (ag_transactions st ! r) \<and>
     IsTransactionResponse (deviceType (ag_device st)) (ppd_HeaderType ppd) \<and>
     (\<exists>tm content dev conn. fst (parse_packet C tm (Some (lt_mad (ag_transactions st ! r))) content dev conn) = Ok ppd)"

definition agent_inv :: "crypto \<Rightarrow> int \<Rightarrow> agent_state \<Rightarrow> bool" where
  "agent_inv C devType st \<longleftrightarrow> deviceType (ag_device st) = devType \<and>
     (\<forall>i r. localTransactionMap st i = Some r \<longrightarrow> r < length (ag_transactions st) \<and> lt_transactionId (ag_transactions st ! r) = i) \<and>
     (\<forall>r content. ag_routine st = Sending r content \<longrightarrow> answer_packet st content r) \<and>
     (\<forall>r ppd. ag_receiver st = Handing r ppd \<longrightarrow> ppd_HeaderType ppd = NHP_COK) \<and>
     (\<forall>r content. (content, Some r) \<in> set (packetToMsgQueue st) \<longrightarrow> answer_packet st content r) \<and>
     (\<forall>r x. (r, x) \<in> set (ResponseMsgCh st) \<longrightarrow> r < length (ag_transactions st) \<and> (\<forall>ppd. x = Answer ppd \<longrightarrow> answers C st ppd r) \<and>
        (\<forall>ppd. x = External ppd \<longrightarrow> ppd_HeaderType ppd = NHP_COK)) \<and>
     single_results st"

text \<open>The invariant speaks of a transaction by its place, id and record only, which no step changes.\<close>

definition same_transactions :: "agent_state \<Rightarrow> agent_state \<Rightarrow> bool" where
  "same_transactions st st' \<longleftrightarrow> length (ag_transactions st) \<le> length (ag_transactions st') \<and>
     deviceType (ag_device st') = deviceType (ag_device st) \<and>
     (\<forall>r < length (ag_transactions st). lt_transactionId (ag_transactions st' ! r) = lt_transactionId (ag_transactions st ! r) \<and>
        lt_mad (ag_transactions st' ! r) = lt_mad (ag_transactions st ! r) \<and>
        lt_ResponseMsgCh (ag_transactions st' ! r) = lt_ResponseMsgCh (ag_transactions st ! r))"

lemma same_answer_packet: "same_transactions st st' \<Longrightarrow> answer_packet st content r \<Longrightarrow> answer_packet st' content r"
  by (auto simp: same_transactions_def answer_packet_def)

lemma same_answers: "same_transactions st st' \<Longrightarrow> answers C st ppd r \<Longrightarrow> answers C st' ppd r"
  by (auto simp: same_transactions_def answers_def)

lemma set_phase_fields [simp]:
  "ag_device (set_phase r p st) = ag_device st" "ag_conn (set_phase r p st) = ag_conn st"
  "localTransactionMap (set_phase r p st) = localTransactionMap st" "ag_routine (set_phase r p st) = ag_routine st"
  "ag_receiver (set_phase r p st) = ag_receiver st"
  "packetToMsgQueue (set_phase r p st) = packetToMsgQueue st" "ResponseMsgCh (set_phase r p st) = ResponseMsgCh st"
  "ag_crashed (set_phase r p st) = ag_crashed st" "length (ag_transactions (set_phase r p st)) = length (ag_transactions st)"
  by (simp_all add: set_phase_def)

lemma set_phase_at [simp]:
  "q < length (ag_transactions st) \<Longrightarrow> ag_transactions (set_phase r p st) ! q =
     (if q = r then (ag_transactions st ! r)\<lparr>lt_phase := p\<rparr> else ag_transactions st ! q)"
  by (auto simp: set_phase_def nth_list_update)

lemma respond_fields [simp]:
  "ag_device (respond r x st) = ag_device st" "ag_conn (respond r x st) = ag_conn st"
  "ag_transactions (respond r x st) = ag_transactions st"
  "localTransactionMap (respond r x st) = localTransactionMap st" "ag_routine (respond r x st) = ag_routine st"
  "ag_receiver (respond r x st) = ag_receiver st"
  "packetToMsgQueue (respond r x st) = packetToMsgQueue st" "ag_crashed (respond r x st) = ag_crashed st"
  by (simp_all add: respond_def)

lemma RecvPacketToMsg_fields [simp]:
  "ag_device (RecvPacketToMsg pd st) = ag_device st" "ag_conn (RecvPacketToMsg pd st) = ag_conn st"
  "ag_transactions (RecvPacketToMsg pd st) = ag_transactions st"
  "localTransactionMap (RecvPacketToMsg pd st) = localTransactionMap st" "ag_routine (RecvPacketToMsg pd st) = ag_routine st"
  "ag_receiver (RecvPacketToMsg pd st) = ag_receiver st"
  "ResponseMsgCh (RecvPacketToMsg pd st) = ResponseMsgCh st" "ag_crashed (RecvPacketToMsg pd st) = ag_crashed st"
  by (simp_all add: RecvPacketToMsg_def)

lemma set_RecvPacketToMsg: "pd \<in> set (packetToMsgQueue (RecvPacketToMsg p st)) \<Longrightarrow> pd = p \<or> pd \<in> set (packetToMsgQueue st)"
  by (auto simp: RecvPacketToMsg_def split: if_splits)

lemma queued_RecvPacketToMsg: "queued_for r (RecvPacketToMsg (content, q) st) \<le> queued_for r st + (if q = Some r then 1 else 0)"
  by (auto simp: RecvPacketToMsg_def queued_for_def)

lemma set_respond: "y \<in> set (ResponseMsgCh (respond r x st)) \<Longrightarrow> y = (r, x) \<or> y \<in> set (ResponseMsgCh st)"
  by (auto simp: respond_def split: if_splits)

lemma results_respond: "results_of q (respond r x st) \<le> results_of q st + (if q = r then 1 else 0)"
  by (auto simp: respond_def results_of_def)

subsection \<open>Every step keeps them\<close>

lemma phase_of_Some: "phase_of st r = Some p \<longleftrightarrow> r < length (ag_transactions st) \<and> lt_phase (ag_transactions st ! r) = p"
  by (simp add: phase_of_def)

lemma enqueue_fields [simp]:
  "ag_device (enqueue_message ppd st) = ag_device st" "ag_transactions (enqueue_message ppd st) = ag_transactions st"
  "localTransactionMap (enqueue_message ppd st) = localTransactionMap st" "ag_routine (enqueue_message ppd st) = ag_routine st"
  "ag_receiver (enqueue_message ppd st) = ag_receiver st"
  "packetToMsgQueue (enqueue_message ppd st) = packetToMsgQueue st" "ResponseMsgCh (enqueue_message ppd st) = ResponseMsgCh st"
  by (simp_all add: enqueue_message_def)

lemma deliver_fields [simp]:
  "ag_device (deliver prev res st) = ag_device st" "ag_transactions (deliver prev res st) = ag_transactions st"
  "localTransactionMap (deliver prev res st) = localTransactionMap st" "ag_routine (deliver prev res st) = ag_routine st"
  "ag_receiver (deliver prev res st) = ag_receiver st"
  "packetToMsgQueue (deliver prev res st) = packetToMsgQueue st"
  by (auto simp: deliver_def split: res.splits option.splits)

lemma set_deliver:
  "y \<in> set (ResponseMsgCh (deliver prev res st)) \<Longrightarrow> y \<in> set (ResponseMsgCh st) \<or>
     (\<exists>r. prev = Some r \<and> ((\<exists>e. y = (r, Failed e)) \<or> (\<exists>ppd. res = Ok ppd \<and> y = (r, Answer ppd))))"
  by (auto simp: deliver_def dest!: set_respond split: res.splits option.splits if_splits)

lemma results_deliver: "results_of q (deliver prev res st) \<le> results_of q st + (if prev = Some q then 1 else 0)"
  using results_respond[of q]
  by (auto simp: deliver_def results_of_def respond_def split: res.splits option.splits)

lemma connectionRoutine_cases:
  obtains (skip) "connectionRoutine content st = st"
  | (send) r where "connectionRoutine content st = st\<lparr>ag_routine := Sending r content\<rparr>"
      "localTransactionMap st (Counter content) = Some r"
      "IsTransactionResponse (deviceType (ag_device st)) (fst (TypeAndPayloadSize content))"
  | (queue) "connectionRoutine content st = RecvPacketToMsg (content, None) st"
proof -
  let ?t = "fst (TypeAndPayloadSize content)" and ?f = "FindLocalTransaction (Counter content) st"
  consider "?t = NHP_KPL" | r where "?t \<noteq> NHP_KPL" "IsTransactionResponse (deviceType (ag_device st)) ?t" "?f = Some r"
    | "?t \<noteq> NHP_KPL" "\<not> IsTransactionResponse (deviceType (ag_device st)) ?t \<or> ?f = None" by (cases ?f) auto
  then show ?thesis
    by cases (auto simp: connectionRoutine_def Let_def FindLocalTransaction_def intro: skip send queue)
qed

lemma connectionRoutine_fields [simp]:
  "ag_device (connectionRoutine content st) = ag_device st" "ag_transactions (connectionRoutine content st) = ag_transactions st"
  "localTransactionMap (connectionRoutine content st) = localTransactionMap st"
  "ResponseMsgCh (connectionRoutine content st) = ResponseMsgCh st"
  by (rule connectionRoutine_cases[of content st]; simp)+

lemma connectionRoutine_receiver [simp]: "ag_receiver (connectionRoutine content st) = ag_receiver st"
  by (rule connectionRoutine_cases[of content st]) simp_all

lemma recvMessageRoutine_fields [simp]:
  "ag_device (recvMessageRoutine J ppd st) = ag_device st" "ag_transactions (recvMessageRoutine J ppd st) = ag_transactions st"
  "localTransactionMap (recvMessageRoutine J ppd st) = localTransactionMap st"
  "ag_routine (recvMessageRoutine J ppd st) = ag_routine st"
  "packetToMsgQueue (recvMessageRoutine J ppd st) = packetToMsgQueue st"
  "ResponseMsgCh (recvMessageRoutine J ppd st) = ResponseMsgCh st"
  by (auto simp: recvMessageRoutine_def HandleCookieMessage_def Let_def split: option.splits prod.splits)

lemma recvMessageRoutine_receiver:
  "ag_receiver (recvMessageRoutine J ppd st) = Handing r p \<Longrightarrow>
     ag_receiver st = Handing r p \<or> p = ppd \<and> ppd_HeaderType ppd = NHP_COK"
  by (auto simp: recvMessageRoutine_def HandleCookieMessage_def Let_def split: option.splits prod.splits if_splits)

lemma step_same: "agent_step C J a st st' \<Longrightarrow> same_transactions st st'"
  by (induction rule: agent_step.induct)
    (auto simp: same_transactions_def AddLocalTransaction_def nth_append split: option.splits dest!: parse_packet_device)

lemma step_map:
  assumes "agent_step C J a st st'" and "\<forall>i r. localTransactionMap st i = Some r \<longrightarrow>
     r < length (ag_transactions st) \<and> lt_transactionId (ag_transactions st ! r) = i"
  shows "localTransactionMap st' i = Some r \<longrightarrow> r < length (ag_transactions st') \<and> lt_transactionId (ag_transactions st' ! r) = i"
  using assms
  by (induction rule: agent_step.induct)
    (auto simp: AddLocalTransaction_def nth_append less_Suc_eq split: option.splits if_splits)

lemma step_routine:
  assumes "agent_step C J a st st'" and inv: "agent_inv C d st" and "ag_routine st' = Sending r content"
  shows "answer_packet st' content r"
proof (rule same_answer_packet[OF step_same[OF assms(1)]])
  show "answer_packet st content r"
    using assms
  proof (induction rule: agent_step.induct)
    case (recv st c x)
    show ?case
      using recv by (cases rule: connectionRoutine_cases[of c st]) (auto simp: answer_packet_def agent_inv_def)
  qed (auto simp: agent_inv_def AddLocalTransaction_def split: option.splits)
qed

lemma step_receiver:
  assumes "agent_step C J a st st'" and "\<forall>r ppd. ag_receiver st = Handing r ppd \<longrightarrow> ppd_HeaderType ppd = NHP_COK"
  shows "ag_receiver st' = Handing r ppd \<longrightarrow> ppd_HeaderType ppd = NHP_COK"
  using assms
  by (induction rule: agent_step.induct)
    (auto simp: AddLocalTransaction_def split: option.splits dest!: recvMessageRoutine_receiver)

lemma step_queue:
  assumes "agent_step C J a st st'" and inv: "agent_inv C d st" and "(content, Some r) \<in> set (packetToMsgQueue st')"
  shows "answer_packet st' content r"
proof (rule same_answer_packet[OF step_same[OF assms(1)]])
  show "answer_packet st content r"
    using assms
  proof (induction rule: agent_step.induct)
    case (recv st c x)
    show ?case
      using recv by (cases rule: connectionRoutine_cases[of c st])
        (auto simp: agent_inv_def dest!: set_RecvPacketToMsg)
  next
    case (hand_over st q c)
    then show ?case by (auto simp: agent_inv_def dest!: set_RecvPacketToMsg)
  qed (auto simp: agent_inv_def AddLocalTransaction_def split: option.splits)
qed

lemma step_results:
  assumes step: "agent_step C J a st st'" and inv: "agent_inv C d st" and x: "(r, x) \<in> set (ResponseMsgCh st')"
  shows "r < length (ag_transactions st') \<and> (\<forall>ppd. x = Answer ppd \<longrightarrow> answers C st' ppd r) \<and>
     (\<forall>ppd. x = External ppd \<longrightarrow> ppd_HeaderType ppd = NHP_COK)"
proof -
  have old: ?thesis if "(r, x) \<in> set (ResponseMsgCh st)"
  proof -
    have "r < length (ag_transactions st)" "x = Answer ppd \<Longrightarrow> answers C st ppd r" "x = External ppd \<Longrightarrow> ppd_HeaderType ppd = NHP_COK"
      for ppd using inv that by (auto simp: agent_inv_def)
    then show ?thesis using step_same[OF step] same_answers[OF step_same[OF step]] by (auto simp: same_transactions_def)
  qed
  show ?thesis
    using step
  proof (cases rule: agent_step.cases)
    case (take_external q ppd)
    then show ?thesis using x old inv by (auto simp: phase_of_Some agent_inv_def dest!: set_respond)
  next
    case (report q e)
    then show ?thesis using x old by (auto simp: phase_of_Some dest!: set_respond split: option.splits)
  next
    case (parse content prev q tm res dev conn)
    let ?st = "st\<lparr>packetToMsgQueue := q, ag_device := dev, ag_conn := conn\<rparr>"
    from x consider "(r, x) \<in> set (ResponseMsgCh st)" | e where "prev = Some r" "x = Failed e"
      | ppd where "prev = Some r" "x = Answer ppd" "res = Ok ppd"
      unfolding parse by (auto dest!: set_deliver)
    then show ?thesis
    proof cases
      case 1
      then show ?thesis by (rule old)
    next
      case 2
      then show ?thesis using inv parse by (auto simp: agent_inv_def answer_packet_def)
    next
      case (3 ppd)
      then have "answer_packet st content r" using inv parse(4) by (auto simp: agent_inv_def)
      moreover have p: "parse_packet C tm (Some (lt_mad (ag_transactions st ! r))) content (ag_device st) (ag_conn st) =
          (Ok ppd, dev, conn)" using parse(5) 3 by simp
      ultimately have "answers C st ppd r"
        using parsed_fields[OF p] by (auto simp: answers_def answer_packet_def intro!: exI[of _ tm] exI[of _ content]
            exI[of _ "ag_device st"] exI[of _ "ag_conn st"])
      from same_answers[OF step_same[OF step] this] show ?thesis using 3(2) by (simp add: answers_def)
    qed
  qed (use x old in \<open>auto simp: AddLocalTransaction_def\<close>)
qed

definition total :: "nat \<Rightarrow> agent_state \<Rightarrow> nat" where
  "total r st = results_of r st + queued_for r st + turn (lt_phase (ag_transactions st ! r))"

lemma unknown_total:
  assumes "agent_inv C d st" and "\<not> r < length (ag_transactions st)"
  shows "results_of r st = 0" "queued_for r st = 0"
  using assms by (auto simp: results_of_def queued_for_def agent_inv_def answer_packet_def filter_empty_conv)

lemma counts_set_phase [simp]:
  "results_of r (set_phase q p st) = results_of r st" "queued_for r (set_phase q p st) = queued_for r st"
  by (simp_all add: results_of_def queued_for_def)

lemma counts_other [simp]:
  "queued_for r (respond q x st) = queued_for r st" "results_of r (RecvPacketToMsg pd st) = results_of r st"
  by (simp_all add: results_of_def queued_for_def)

lemma counts_update [simp]:
  "results_of r (st\<lparr>ag_routine := x\<rparr>) = results_of r st" "queued_for r (st\<lparr>ag_routine := x\<rparr>) = queued_for r st"
  "results_of r (st\<lparr>ag_receiver := y\<rparr>) = results_of r st" "queued_for r (st\<lparr>ag_receiver := y\<rparr>) = queued_for r st"
  "results_of r (st\<lparr>localTransactionMap := m\<rparr>) = results_of r st"
  "queued_for r (st\<lparr>localTransactionMap := m\<rparr>) = queued_for r st"
  "results_of r (st\<lparr>ag_crashed := c\<rparr>) = results_of r st" "queued_for r (st\<lparr>ag_crashed := c\<rparr>) = queued_for r st"
  by (simp_all add: results_of_def queued_for_def)

lemma step_total:
  assumes step: "agent_step C J a st st'" and inv: "agent_inv C d st" and r: "r < length (ag_transactions st')"
  shows "total r st' \<le> total r st \<or> total r st' \<le> 1"
  using step
proof (cases rule: agent_step.cases)
  case (request mc md mad ch)
  then show ?thesis
    using unknown_total[OF inv, of r] r
    by (auto simp: AddLocalTransaction_def total_def results_of_def queued_for_def nth_append less_Suc_eq)
next
  case (recv content x)
  show ?thesis
    using queued_RecvPacketToMsg[of r content None st] recv
    by (cases rule: connectionRoutine_cases[of content st]) (auto simp: total_def)
next
  case (hand_over q content)
  let ?st = "set_phase q (Leaving None) (st\<lparr>ag_routine := Ready\<rparr>)"
  have "queued_for r (RecvPacketToMsg (content, Some q) ?st) \<le> queued_for r st + (if q = r then 1 else 0)"
    using queued_RecvPacketToMsg[of r content "Some q" ?st] by auto
  then show ?thesis
    using hand_over r by (auto simp: total_def phase_of_Some split: if_splits)
next
  case (take_external q ppd)
  then show ?thesis
    using results_respond[of r q "External ppd" "set_phase q (Leaving None) (st\<lparr>ag_receiver := Listening\<rparr>)"] r
    by (auto simp: total_def phase_of_Some split: if_splits)
next
  case (abort q e)
  then show ?thesis using r by (auto simp: total_def phase_of_Some)
next
  case (close_channels q e)
  then show ?thesis using r by (auto simp: total_def phase_of_Some)
next
  case (delete q e)
  then show ?thesis using r by (auto simp: total_def phase_of_Some)
next
  case (report q e)
  then show ?thesis
    using results_respond[of r q "Aborted (the e)" st] r
    by (auto simp: total_def phase_of_Some split: option.splits if_splits)
next
  case (send_on_closed q content)
  then show ?thesis using r by (auto simp: total_def)
next
  case (external_on_closed q ppd)
  then show ?thesis using r by (auto simp: total_def)
next
  case (receive ppd q)
  then show ?thesis using r by (auto simp: total_def results_of_def queued_for_def)
next
  case (parse content prev q tm res dev conn)
  let ?st = "st\<lparr>packetToMsgQueue := q, ag_device := dev, ag_conn := conn\<rparr>"
  have "queued_for r (deliver prev res ?st) + (if prev = Some r then 1 else 0) = queued_for r st"
    using parse(4) by (auto simp: queued_for_def)
  moreover have "results_of r (deliver prev res ?st) \<le> results_of r st + (if prev = Some r then 1 else 0)"
    using results_deliver[of r prev res ?st] by (simp add: results_of_def)
  ultimately show ?thesis unfolding parse(2) by (auto simp: total_def)
qed

lemma agent_inv_step:
  assumes "agent_step C J a st st'" and "agent_inv C d st"
  shows "agent_inv C d st'"
proof -
  note same = step_same[OF assms(1)]
  have "single_results st'"
    unfolding single_results_def
  proof (intro allI impI)
    fix r assume r: "r < length (ag_transactions st')"
    show "results_of r st' + queued_for r st' + turn (lt_phase (ag_transactions st' ! r)) \<le> 1"
    proof (cases "r < length (ag_transactions st)")
      case True
      then have "total r st \<le> 1" using assms(2) by (auto simp: agent_inv_def single_results_def total_def)
      with step_total[OF assms r] show ?thesis by (auto simp: total_def)
    next
      case False
      show ?thesis
        using assms(1)
      proof (cases rule: agent_step.cases)
        case (request mc md mad ch)
        then show ?thesis
          using unknown_total[OF assms(2) False] r False
          by (auto simp: AddLocalTransaction_def results_of_def queued_for_def nth_append less_Suc_eq)
      qed (use r False in \<open>auto split: option.splits\<close>)
    qed
  qed
  moreover have "deviceType (ag_device st') = d" using same assms(2) by (auto simp: same_transactions_def agent_inv_def)
  moreover have "\<forall>i r. localTransactionMap st i = Some r \<longrightarrow> r < length (ag_transactions st) \<and> lt_transactionId (ag_transactions st ! r) = i"
    using assms(2) by (simp add: agent_inv_def)
  from step_map[OF assms(1) this]
  have "\<forall>i r. localTransactionMap st' i = Some r \<longrightarrow> r < length (ag_transactions st') \<and> lt_transactionId (ag_transactions st' ! r) = i"
    by blast
  moreover have "\<forall>r ppd. ag_receiver st = Handing r ppd \<longrightarrow> ppd_HeaderType ppd = NHP_COK"
    using assms(2) by (simp add: agent_inv_def)
  from step_receiver[OF assms(1) this] have "\<forall>r ppd. ag_receiver st' = Handing r ppd \<longrightarrow> ppd_HeaderType ppd = NHP_COK" by blast
  ultimately show ?thesis
    using step_routine[OF assms] step_queue[OF assms] step_results[OF assms] by (simp add: agent_inv_def)
qed

lemma agent_inv_run: "agent_run C J as st st' \<Longrightarrow> agent_inv C d st \<Longrightarrow> agent_inv C d st'"
  by (induction rule: agent_run.induct) (auto intro: agent_inv_step)

lemma agent_reachable_inv:
  assumes "agent_reachable C J dev conn st"
  shows "agent_inv C (deviceType dev) st"
proof -
  have "agent_inv C (deviceType dev) (agent_start dev conn)"
    by (simp add: agent_inv_def agent_start_def single_results_def)
  then show ?thesis using assms by (auto simp: agent_reachable_def intro: agent_inv_run)
qed

subsection \<open>Properties\<close>

text \<open>C8: Answers belong to their requests, and every request gets at most one result: in every reachable
  state, whatever packets arrived and however the goroutines interleaved, an answer on the channel of
  a request is of a response type, carries the transaction id of that request and was authenticated
  with the record of that request; no request has two results, and none has one while its transaction
  still waits.\<close>

theorem answers_match_requests:
  assumes "agent_reachable C J dev conn st"
  shows "((r, Answer ppd) \<in> set (ResponseMsgCh st) \<longrightarrow> r < length (ag_transactions st) \<and>
       ppd_SenderTrxId ppd = lt_transactionId (ag_transactions st ! r) \<and> IsTransactionResponse (deviceType dev) (ppd_HeaderType ppd) \<and>
       (\<exists>tm content dev' conn'. fst (parse_packet C tm (Some (lt_mad (ag_transactions st ! r))) content dev' conn') = Ok ppd)) \<and>
     length (filter (\<lambda>x. fst x = r) (ResponseMsgCh st)) \<le> 1 \<and>
     (phase_of st r = Some Waiting \<longrightarrow> r \<notin> fst ` set (ResponseMsgCh st))"
proof -
  note inv = agent_reachable_inv[OF assms]
  have one: "results_of r st + queued_for r st + turn (lt_phase (ag_transactions st ! r)) \<le> 1" if "r < length (ag_transactions st)"
    using inv that by (simp add: agent_inv_def single_results_def)
  have "results_of r st \<le> 1" using one unknown_total(1)[OF inv] by (cases "r < length (ag_transactions st)") auto
  moreover have "results_of r st = 0" if "phase_of st r = Some Waiting" using one that by (auto simp: phase_of_Some)
  then have "phase_of st r = Some Waiting \<longrightarrow> r \<notin> fst ` set (ResponseMsgCh st)"
    by (auto simp: results_of_def filter_empty_conv)
  ultimately show ?thesis
    using inv by (auto simp: agent_inv_def answers_def results_of_def)
qed

text \<open>C38: Two packets with the counter of a waiting request end the agent, without any key: the first ends the
  wait; if the second is looked up before the transaction has left the map, the connection routine
  sends it to a channel that is then closed, which panics. Neither packet has been decrypted.\<close>

theorem duplicate_answer_panics:
  assumes "\<not> ag_crashed st" and "ag_routine st = Ready" and "phase_of st r = Some Waiting"
    and "localTransactionMap st i = Some r" and "Counter first = i" and "Counter second = i"
    and "IsTransactionResponse (deviceType (ag_device st)) (fst (TypeAndPayloadSize first))"
    and "IsTransactionResponse (deviceType (ag_device st)) (fst (TypeAndPayloadSize second))"
    and "RecvPrecheck (deviceType (ag_device st)) first = Ok x" and "RecvPrecheck (deviceType (ag_device st)) second = Ok y"
  shows "\<exists>st'. agent_run C J [Recv first, HandOver r, Recv second, CloseChannels r, SendOnClosed r] st st' \<and> ag_crashed st' \<and>
     ag_device st' = ag_device st \<and> ag_conn st' = ag_conn st"
proof -
  have kpl: "t \<noteq> NHP_KPL" if "IsTransactionResponse d t" for d t
    using that by (auto simp: IsTransactionResponse_def header_type_defs split: if_splits)
  have routine: "connectionRoutine content s = s\<lparr>ag_routine := Sending r content\<rparr>"
    if "Counter content = i" "IsTransactionResponse (deviceType (ag_device s)) (fst (TypeAndPayloadSize content))"
      "localTransactionMap s i = Some r" for content s
    using that kpl[OF that(2)] by (simp add: connectionRoutine_def FindLocalTransaction_def Let_def)
  let ?s1 = "st\<lparr>ag_routine := Sending r first\<rparr>"
  let ?s2 = "RecvPacketToMsg (first, Some r) (set_phase r (Leaving None) (?s1\<lparr>ag_routine := Ready\<rparr>))"
  let ?s3 = "?s2\<lparr>ag_routine := Sending r second\<rparr>"
  let ?s4 = "set_phase r (ChannelsClosed None) ?s3"
  have len: "r < length (ag_transactions st)" using assms(3) by (simp add: phase_of_Some)
  have "agent_step C J (Recv first) st ?s1"
    using recv[of st first x C J] routine[of first st] assms by simp
  moreover have "agent_step C J (HandOver r) ?s1 ?s2"
    using assms(1,3) len by (intro hand_over) (simp_all add: phase_of_def)
  moreover have "agent_step C J (Recv second) ?s2 ?s3"
    using recv[of ?s2 second y C J] routine[of second ?s2] assms by simp
  moreover have "agent_step C J (CloseChannels r) ?s3 ?s4"
    using assms(1) len by (intro close_channels) (simp_all add: phase_of_def)
  moreover have "agent_step C J (SendOnClosed r) ?s4 (?s4\<lparr>ag_crashed := True\<rparr>)"
    using assms(1) len by (intro send_on_closed[where content = second]) (simp_all add: phase_of_def closed_channels_def)
  ultimately have "agent_run C J [Recv first, HandOver r, Recv second, CloseChannels r, SendOnClosed r] st (?s4\<lparr>ag_crashed := True\<rparr>)"
    by (blast intro: agent_run.intros)
  then show ?thesis by (intro exI[of _ "?s4\<lparr>ag_crashed := True\<rparr>"]) simp
qed

subsection \<open>From the request to the answer\<close>

lemma MsgToPacket_record:
  assumes "MsgToPacket C prk mc md n = (Ok (trx, content), n)" and "md_HeaderType md \<noteq> NHP_KPL" and "md_TransactionId md \<noteq> 0"
  obtains mad1 req where "setPeerPublicKey C (createMsgAssemblerData C prk mc md) = Ok mad1" "encryptBody C mc mad1 = Ok req"
    "BasePacket_Content req = content"
proof -
  let ?s = "res_bind (setPeerPublicKey C (createMsgAssemblerData C prk mc md)) (\<lambda>mad.
     res_bind (encryptBody C mc mad) (\<lambda>mad. Ok (mad_TransactionId mad, BasePacket_Content mad)))"
  have "recovered ?s = Ok (trx, content)" using assms by (simp add: MsgToPacket_def Let_def)
  then have "?s = Ok (trx, content)" by (cases ?s) (simp_all add: recovered_def)
  then show ?thesis using that by (auto simp: res_bind_Ok_iff)
qed

lemma sent_counter:
  assumes "encryptBody C mc mad = Ok req"
  shows "Counter (BasePacket_Buf req) = Counter (BasePacket_Content req)"
  using assms
  by (auto simp: encryptBody_def wipe_mad_def Let_def res_bind_Ok_iff Counter_def slice_take header_Size_def header_size_defs
      split: if_splits)

context nhp_crypto
begin

lemma request_parsed:
  assumes "sendable C prk mc md (device_public C (md_CipherScheme md) dev)"
    and "0 < md_HeaderType md" and "md_HeaderType md < 2 ^ 16"
    and "admits dev c (InitTime tm) (createMsgAssemblerData C prk mc md)" and "\<not> wants_cookie dev (md_HeaderType md)"
    and "acceptable tm dev c (md_HeaderType md) (Public C (EccType (NewCipherSuite (md_CipherScheme md))) prk) (mc_now mc)"
  obtains mad1 req ppd where
    "setPeerPublicKey C (createMsgAssemblerData C prk mc md) = Ok mad1" "encryptBody C mc mad1 = Ok req"
    "fst (parse_packet C tm None (BasePacket_Content req) dev (Some c)) = Ok ppd" "ppd_BodyMessage ppd = md_Message md"
    "ppd_SenderTrxId ppd = md_TransactionId md" "ppd_CipherScheme ppd = md_CipherScheme md"
    "ppd_RemotePubKey ppd = Public C (EccType (NewCipherSuite (md_CipherScheme md))) prk"
    "snd (snd (parse_packet C tm None (BasePacket_Content req) dev (Some c))) =
       Some (c\<lparr>LastRemoteSendTime := mc_now mc, RecvThreatCount := 0\<rparr>)" "ppd_HeaderType ppd = md_HeaderType md"
    "Packet_Header (BasePacket_Content req) = Ok (md_CipherScheme md)"
    "TypeAndPayloadSize (BasePacket_Content req) =
       (md_HeaderType md, int (length (BasePacket_Content req)) - int (header_Size (md_CipherScheme md)))"
proof -
  obtain content ppd0 ppd1 dev' where d: "MsgToPacket C prk mc md 0 = (Ok (md_TransactionId md, content), 0)"
    "length content = header_Size (md_CipherScheme md) +
       (length (if md_Compress md then Zlib_Write C (md_Message md) else md_Message md) + GCMTagSize)"
    "TypeAndPayloadSize content = (md_HeaderType md, int (length content) - int (header_Size (md_CipherScheme md)))"
    "Packet_Header content = Ok (md_CipherScheme md)"
    "createPacketParserData C dev (Some c) None (InitTime tm) content = Ok ppd0"
    "validatePeer C tm ppd0 dev (Some c) = (Ok ppd1, dev', Some (c\<lparr>LastRemoteSendTime := mc_now mc, RecvThreatCount := 0\<rparr>))"
    "delivered C (createMsgAssemblerData C prk mc md) (md_HeaderType md) (md_TransactionId md) content ppd1"
    by (rule request_validated[OF assms(1) refl assms(2-6)])
  have "md_HeaderType md \<noteq> NHP_KPL" "md_TransactionId md \<noteq> 0" using assms(1,2) by (auto simp: NHP_KPL_def sendable_def)
  then obtain mad1 req where m: "setPeerPublicKey C (createMsgAssemblerData C prk mc md) = Ok mad1" "encryptBody C mc mad1 = Ok req"
    "BasePacket_Content req = content" by (rule MsgToPacket_record[OF d(1)])
  have "decryptBody C ppd1 = Ok (wipe_ppd (ppd1\<lparr>ppd_BodyMessage := md_Message md\<rparr>))"
    using delivered_body[OF d(7)] d(2) by (simp add: GCMTagSize_def)
  then have "parse_packet C tm None content dev (Some c) = (Ok (wipe_ppd (ppd1\<lparr>ppd_BodyMessage := md_Message md\<rparr>)), dev',
      Some (c\<lparr>LastRemoteSendTime := mc_now mc, RecvThreatCount := 0\<rparr>))"
    using d(5,6) by (simp add: parse_packet_def)
  then show ?thesis
    using m d(3,4,7) by (intro that[OF m(1,2)]) (auto simp: delivered_def Let_def wipe_ppd_def)
qed

end

lemma response_not_KPL: "IsTransactionResponse d t \<Longrightarrow> t \<noteq> NHP_KPL"
  by (auto simp: IsTransactionResponse_def header_type_defs split: if_splits)

lemma answer_steps:
  assumes "\<not> ag_crashed st" and "ag_routine st = Ready" and "packetToMsgQueue st = []" and r: "r = length (ag_transactions st)"
    and "res_bind (setPeerPublicKey C (createMsgAssemblerData C (staticEcdh (ag_device st)) mc md)) (encryptBody C mc) = Ok req"
    and "IsTransactionRequest (deviceType (ag_device st)) (md_HeaderType md)"
    and "RecvPrecheck (deviceType (ag_device st)) content = Ok x" and "Counter content = Counter (BasePacket_Buf req)"
    and "IsTransactionResponse (deviceType (ag_device st)) (fst (TypeAndPayloadSize content))"
    and "parse_packet C tm (Some req) content (ag_device st) (ag_conn st) = (Ok ppd, dev', conn')"
    and "md_ConnCookie md = map_option (CurrCookie \<circ> ConnCookieStore) (ag_conn st)"
  shows "\<exists>st'. agent_run C J [Request mc md True, Recv content, HandOver r, Parse tm] st st' \<and>
     ResponseMsgCh st' = ResponseMsgCh st @ [(r, Answer ppd)] \<and> ag_conn st' = conn'"
proof -
  let ?t = "\<lparr>lt_transactionId = Counter (BasePacket_Buf req), lt_mad = req, lt_ResponseMsgCh = True, lt_phase = Waiting\<rparr>"
  let ?s1 = "AddLocalTransaction ?t st"
  let ?s2 = "?s1\<lparr>ag_routine := Sending r content\<rparr>"
  let ?s3 = "RecvPacketToMsg (content, Some r) (set_phase r (Leaving None) (?s2\<lparr>ag_routine := Ready\<rparr>))"
  let ?s4 = "deliver (Some r) (Ok ppd) (?s3\<lparr>packetToMsgQueue := [], ag_device := dev', ag_conn := conn'\<rparr>)"
  have s1: "ag_device ?s1 = ag_device st" "ag_conn ?s1 = ag_conn st" "ag_routine ?s1 = Ready" "\<not> ag_crashed ?s1"
    "packetToMsgQueue ?s1 = []" "ag_transactions ?s1 ! r = ?t" "r < length (ag_transactions ?s1)"
    "localTransactionMap ?s1 (Counter content) = Some r" "ResponseMsgCh ?s1 = ResponseMsgCh st"
    using assms(1-4,8) by (simp_all add: AddLocalTransaction_def)
  have "connectionRoutine content ?s1 = ?s2"
    using s1 assms(9) response_not_KPL[OF assms(9)] by (simp add: connectionRoutine_def FindLocalTransaction_def Let_def)
  then have 2: "agent_step C J (Recv content) ?s1 ?s2"
    using recv[of ?s1 content x C J] s1 assms(7) by simp
  have 3: "agent_step C J (HandOver r) ?s2 ?s3"
    using s1 by (intro hand_over) (simp_all add: phase_of_def)
  have s3: "packetToMsgQueue ?s3 = [(content, Some r)]" "ag_device ?s3 = ag_device st" "ag_conn ?s3 = ag_conn st"
    "lt_mad (ag_transactions ?s3 ! r) = req" "lt_ResponseMsgCh (ag_transactions ?s3 ! r)" "\<not> ag_crashed ?s3"
    "ResponseMsgCh ?s3 = ResponseMsgCh st"
    using s1 by (simp_all add: RecvPacketToMsg_def RecvQueueSize_def)
  have 4: "agent_step C J (Parse tm) ?s3 ?s4"
    using s3 assms(10) by (intro parse) simp_all
  have "agent_run C J [Request mc md True, Recv content, HandOver r, Parse tm] st ?s4"
    using request[OF assms(1,11,5,6), where ch = True and J = J] 2 3 4 by (blast intro: agent_run.intros)
  moreover have "ResponseMsgCh ?s4 = ResponseMsgCh st @ [(r, Answer ppd)]" "ag_conn ?s4 = conn'"
    using s3 by (simp_all add: deliver_def respond_def)
  ultimately show ?thesis by blast
qed

lemma response_bounds: "CheckRecvHeaderType d t \<Longrightarrow> 0 < t \<and> t < 2 ^ 16"
  using received_types[of d t] by auto

lemma request_completes:
  assumes "nhp_crypto C"
    and "sendable C (staticEcdh (ag_device st)) mc md (device_public C (md_CipherScheme md) dev)"
    and "IsTransactionRequest (deviceType (ag_device st)) (md_HeaderType md)"
    and "admits dev c (InitTime tm) (createMsgAssemblerData C (staticEcdh (ag_device st)) mc md)"
    and "\<not> wants_cookie dev (md_HeaderType md)"
    and "acceptable tm dev c (md_HeaderType md) (device_public C (md_CipherScheme md) (ag_device st)) (mc_now mc)"
    and "length (mc_buf mc2) = PacketBufferSize"
    and "SharedSecret C (md_CipherScheme md) (mc_ephermeral mc2) (device_public C (md_CipherScheme md) (ag_device st)) \<noteq> None"
    and "SharedSecret C (md_CipherScheme md) (staticEcdh dev) (device_public C (md_CipherScheme md) (ag_device st)) \<noteq> None"
    and "message \<noteq> []" and "length (if compress then Zlib_Write C message else message) + GCMTagSize
       \<le> PacketBufferSize - header_Size (md_CipherScheme md)"
    and "CheckRecvHeaderType (deviceType (ag_device st)) t" and "IsTransactionResponse (deviceType (ag_device st)) t"
    and "t \<noteq> NHP_RKN" and "\<not> Overload (ag_device st)" and "ag_conn st = Some c2"
    and "acceptable tm2 (ag_device st) c2 t (device_public C (md_CipherScheme md) dev) (mc_now mc2)"
    and "\<not> ag_crashed st" and "ag_routine st = Ready" and "packetToMsgQueue st = []" and "r = length (ag_transactions st)"
    and "md_ConnCookie md = Some (CurrCookie (ConnCookieStore c2))"
  shows "\<exists>req ppd rep ppd2 st'.
     res_bind (setPeerPublicKey C (createMsgAssemblerData C (staticEcdh (ag_device st)) mc md)) (encryptBody C mc) = Ok req \<and>
     fst (parse_packet C tm None (BasePacket_Content req) dev (Some c)) = Ok ppd \<and> ppd_BodyMessage ppd = md_Message md \<and>
     res_bind (setPeerPublicKey C (start_mad C mc2 (deriveMsgAssemblerData dev ppd (mc_buf mc2) t compress message cookie)))
       (encryptBody C mc2) = Ok rep \<and>
     agent_run C J [Request mc md True, Recv (BasePacket_Content rep), HandOver r, Parse tm2] st st' \<and>
     ResponseMsgCh st' = ResponseMsgCh st @ [(r, Answer ppd2)] \<and> ppd_BodyMessage ppd2 = message \<and> ppd_HeaderType ppd2 = t \<and>
     ppd_SenderTrxId ppd2 = md_TransactionId md \<and> ppd_RemotePubKey ppd2 = device_public C (md_CipherScheme md) dev"
proof -
  let ?agent = "ag_device st" and ?scheme = "md_CipherScheme md"
  have type: "0 < md_HeaderType md" "md_HeaderType md < 2 ^ 16"
    using assms(3) by (auto simp: IsTransactionRequest_def header_type_defs split: if_splits)
  obtain mad1 req ppd where q: "setPeerPublicKey C (createMsgAssemblerData C (staticEcdh ?agent) mc md) = Ok mad1"
    "encryptBody C mc mad1 = Ok req" "fst (parse_packet C tm None (BasePacket_Content req) dev (Some c)) = Ok ppd"
    "ppd_BodyMessage ppd = md_Message md" "ppd_SenderTrxId ppd = md_TransactionId md" "ppd_CipherScheme ppd = ?scheme"
    "ppd_RemotePubKey ppd = Public C (EccType (NewCipherSuite ?scheme)) (staticEcdh ?agent)"
    by (rule nhp_crypto.request_parsed[OF assms(1,2) type assms(4,5) assms(6)[unfolded device_public_def]])
  have scheme: "mad_CipherScheme (createMsgAssemblerData C (staticEcdh ?agent) mc md) = ppd_CipherScheme ppd"
    by (simp add: q(6) createMsgAssemblerData_def start_mad_def new_mad_def)
  have pk: "ppd_RemotePubKey ppd = device_public C (ppd_CipherScheme ppd) ?agent" by (simp add: q(6,7) device_public_def)
  have t: "0 < t" "t < 2 ^ 16" using response_bounds[OF assms(12)] by simp_all
  have "\<exists>rep ppd2 agent'. res_bind (setPeerPublicKey C (start_mad C mc2 (deriveMsgAssemblerData dev ppd (mc_buf mc2) t compress message cookie)))
       (encryptBody C mc2) = Ok rep \<and>
     parse_packet C tm2 (Some req) (BasePacket_Content rep) ?agent (Some c2) =
       (Ok ppd2, agent', Some (c2\<lparr>LastRemoteSendTime := mc_now mc2, RecvThreatCount := 0\<rparr>)) \<and>
     ppd_BodyMessage ppd2 = message \<and> ppd_HeaderType ppd2 = t \<and> ppd_SenderTrxId ppd2 = ppd_SenderTrxId ppd \<and>
     ppd_RemotePubKey ppd2 = device_public C (ppd_CipherScheme ppd) dev \<and>
     Packet_Header (BasePacket_Content rep) = Ok (ppd_CipherScheme ppd) \<and> TypeAndPayloadSize (BasePacket_Content rep) =
       (t, int (length (BasePacket_Content rep)) - int (header_Size (ppd_CipherScheme ppd)))"
    by (rule nhp_crypto.reply_arrives[OF assms(1) q(3,1,2) scheme pk assms(7) _ _ assms(10) _ t assms(14,15)])
      (use assms(8,9,11,17) q(6,7) in \<open>simp_all add: device_public_def\<close>)
  then obtain rep ppd2 agent' where a: "res_bind (setPeerPublicKey C (start_mad C mc2
       (deriveMsgAssemblerData dev ppd (mc_buf mc2) t compress message cookie))) (encryptBody C mc2) = Ok rep"
     "parse_packet C tm2 (Some req) (BasePacket_Content rep) ?agent (Some c2) =
       (Ok ppd2, agent', Some (c2\<lparr>LastRemoteSendTime := mc_now mc2, RecvThreatCount := 0\<rparr>))"
     "ppd_BodyMessage ppd2 = message" "ppd_HeaderType ppd2 = t" "ppd_SenderTrxId ppd2 = ppd_SenderTrxId ppd"
     "ppd_RemotePubKey ppd2 = device_public C (ppd_CipherScheme ppd) dev"
     "Packet_Header (BasePacket_Content rep) = Ok (ppd_CipherScheme ppd)" "TypeAndPayloadSize (BasePacket_Content rep) =
       (t, int (length (BasePacket_Content rep)) - int (header_Size (ppd_CipherScheme ppd)))"
    by (elim exE conjE)
  have "Counter (BasePacket_Content req) = md_TransactionId md"
  proof -
    obtain dev' conn' where "parse_packet C tm None (BasePacket_Content req) dev (Some c) = (Ok ppd, dev', conn')"
      using q(3) by (metis prod.collapse)
    from parsed_fields[OF this] show ?thesis using q(5) by simp
  qed
  then have counter: "Counter (BasePacket_Content rep) = Counter (BasePacket_Buf req)"
    using sent_counter[OF q(2)] parsed_fields[OF a(2)] a(5) q(5) by simp
  have sealed: "res_bind (setPeerPublicKey C (createMsgAssemblerData C (staticEcdh ?agent) mc md)) (encryptBody C mc) = Ok req"
    using q(1,2) by simp
  have "\<exists>st'. agent_run C J [Request mc md True, Recv (BasePacket_Content rep), HandOver r, Parse tm2] st st' \<and>
     ResponseMsgCh st' = ResponseMsgCh st @ [(r, Answer ppd2)] \<and>
     ag_conn st' = Some (c2\<lparr>LastRemoteSendTime := mc_now mc2, RecvThreatCount := 0\<rparr>)"
    by (rule answer_steps[OF assms(18-21) sealed assms(3) precheck_packet[OF a(7,8) assms(12)] counter _ a(2)[folded assms(16)]])
      (use a(8) assms(13,16,22) in simp_all)
  then obtain st' where st': "agent_run C J [Request mc md True, Recv (BasePacket_Content rep), HandOver r, Parse tm2] st st'"
     "ResponseMsgCh st' = ResponseMsgCh st @ [(r, Answer ppd2)]" by blast
  show ?thesis
    using sealed q(3,4) a(1) st' a(3-6) q(5,6)
    by (intro exI[of _ req] exI[of _ ppd] exI[of _ rep] exI[of _ ppd2] exI[of _ st']) simp
qed

text \<open>C6: A request is answered. An agent that seals a request for the key of a server, a server that knows it, parses
  it and seals an answer to what it parsed, and the agent that receives this answer: the server reads
  the message of the request, and the four steps of the agent put on the channel of exactly this
  request an answer with the message of the server, the type and the transaction id of the request,
  from the key of the server. Both messages may be compressed; the times of sending must be acceptable, and
  a server that is overloaded must find the cookie it expects (\<^verbatim>\<open>admits\<close>) and have no reason to ask for one.\<close>

theorem request_answered:
  assumes "nhp_crypto C"
    and "sendable C (staticEcdh (ag_device st)) mc md (device_public C (md_CipherScheme md) dev)"
    and "IsTransactionRequest (deviceType (ag_device st)) (md_HeaderType md)"
    and "admits dev c (InitTime tm) (createMsgAssemblerData C (staticEcdh (ag_device st)) mc md)"
    and "\<not> wants_cookie dev (md_HeaderType md)"
    and "acceptable tm dev c (md_HeaderType md) (device_public C (md_CipherScheme md) (ag_device st)) (mc_now mc)"
    and "length (mc_buf mc2) = PacketBufferSize"
    and "SharedSecret C (md_CipherScheme md) (mc_ephermeral mc2) (device_public C (md_CipherScheme md) (ag_device st)) \<noteq> None"
    and "SharedSecret C (md_CipherScheme md) (staticEcdh dev) (device_public C (md_CipherScheme md) (ag_device st)) \<noteq> None"
    and "message \<noteq> []" and "length (if compress then Zlib_Write C message else message) + GCMTagSize
       \<le> PacketBufferSize - header_Size (md_CipherScheme md)"
    and "CheckRecvHeaderType (deviceType (ag_device st)) t" and "IsTransactionResponse (deviceType (ag_device st)) t"
    and "t \<noteq> NHP_RKN" and "\<not> Overload (ag_device st)" and "ag_conn st = Some c2"
    and "acceptable tm2 (ag_device st) c2 t (device_public C (md_CipherScheme md) dev) (mc_now mc2)"
    and "\<not> ag_crashed st" and "ag_routine st = Ready" and "packetToMsgQueue st = []" and "r = length (ag_transactions st)"
    and "md_ConnCookie md = Some (CurrCookie (ConnCookieStore c2))"
  shows "\<exists>req ppd rep ppd2 st'.
     res_bind (setPeerPublicKey C (createMsgAssemblerData C (staticEcdh (ag_device st)) mc md)) (encryptBody C mc) = Ok req \<and>
     fst (parse_packet C tm None (BasePacket_Content req) dev (Some c)) = Ok ppd \<and> ppd_BodyMessage ppd = md_Message md \<and>
     res_bind (setPeerPublicKey C (start_mad C mc2 (deriveMsgAssemblerData dev ppd (mc_buf mc2) t compress message cookie)))
       (encryptBody C mc2) = Ok rep \<and>
     agent_run C J [Request mc md True, Recv (BasePacket_Content rep), HandOver r, Parse tm2] st st' \<and>
     ResponseMsgCh st' = ResponseMsgCh st @ [(r, Answer ppd2)] \<and> ppd_BodyMessage ppd2 = message \<and> ppd_HeaderType ppd2 = t \<and>
     ppd_SenderTrxId ppd2 = md_TransactionId md \<and> ppd_RemotePubKey ppd2 = device_public C (md_CipherScheme md) dev"
  by (rule request_completes[OF assms])

subsection \<open>Witnesses\<close>

text \<open>The agent of the samples knocks and is answered.\<close>

definition sample_agent :: agent_state where
  "sample_agent = agent_start agent_device (Some sample_connection)"

lemma sample_agent_fields:
  "ag_device sample_agent = agent_device" "ag_conn sample_agent = Some sample_connection" "\<not> ag_crashed sample_agent"
  "ag_routine sample_agent = Ready" "packetToMsgQueue sample_agent = []" "ag_transactions sample_agent = []"
  "ResponseMsgCh sample_agent = []"
  by (simp_all add: sample_agent_def agent_start_def)

lemma sample_reply_acceptable: "acceptable sample_clocks agent_device sample_connection NHP_ACK pk (mc_now sample_machine)"
  by (simp add: acceptable_def agent_device_def sample_noise_defs IsExpired_def CheckRecvAddress_def check_send_time_def
      Let_def time_unit_defs word_sless_alt)

definition sample_knock :: MsgData where
  "sample_knock = (sample_request CIPHER_SCHEME_CURVE [1, 2, 3] False)\<lparr>md_ConnCookie := Some (replicate 32 0)\<rparr>"

lemma sample_premises:
  defines "md \<equiv> sample_knock"
  shows "sendable ref_crypto (staticEcdh (ag_device sample_agent)) sample_machine md (device_public ref_crypto (md_CipherScheme md) server_device)"
    and "IsTransactionRequest (deviceType (ag_device sample_agent)) (md_HeaderType md)" 
    and "admits server_device sample_connection (InitTime sample_clocks)
       (createMsgAssemblerData ref_crypto (staticEcdh (ag_device sample_agent)) sample_machine md)"
    and "\<not> wants_cookie server_device (md_HeaderType md)"
    and "acceptable sample_clocks server_device sample_connection (md_HeaderType md)
      (device_public ref_crypto (md_CipherScheme md) (ag_device sample_agent)) (mc_now sample_machine)"
    and "length (mc_buf sample_machine) = PacketBufferSize"
    and "SharedSecret ref_crypto (md_CipherScheme md) (mc_ephermeral sample_machine)
      (device_public ref_crypto (md_CipherScheme md) (ag_device sample_agent)) \<noteq> None"
    and "SharedSecret ref_crypto (md_CipherScheme md) (staticEcdh server_device)
      (device_public ref_crypto (md_CipherScheme md) (ag_device sample_agent)) \<noteq> None"
    and "[4, 5 :: byte] \<noteq> []" and "length (if False then Zlib_Write ref_crypto [4, 5] else [4, 5]) + GCMTagSize
       \<le> PacketBufferSize - header_Size (md_CipherScheme md)"
    and "CheckRecvHeaderType (deviceType (ag_device sample_agent)) NHP_ACK"
    and "IsTransactionResponse (deviceType (ag_device sample_agent)) NHP_ACK"
    and "NHP_ACK \<noteq> NHP_RKN" and "\<not> Overload (ag_device sample_agent)" and "ag_conn sample_agent = Some sample_connection"
    and "acceptable sample_clocks (ag_device sample_agent) sample_connection NHP_ACK
      (device_public ref_crypto (md_CipherScheme md) server_device) (mc_now sample_machine)"
    and "\<not> ag_crashed sample_agent" and "ag_routine sample_agent = Ready" and "packetToMsgQueue sample_agent = []"
    and "0 = length (ag_transactions sample_agent)" and "md_ConnCookie md = Some (CurrCookie (ConnCookieStore sample_connection))"
proof -
  have md: "md_CipherScheme md = CIPHER_SCHEME_CURVE" "md_HeaderType md = NHP_KNK"
    by (simp_all add: md_def sample_knock_def sample_request_def)
  have len: "length (device_public ref_crypto CIPHER_SCHEME_CURVE dev) = pk_size CIPHER_SCHEME_CURVE" for dev
    by (simp add: device_public_def rc.public_length)
  have key: "staticEcdh agent_device = agent_key" by (simp add: agent_device_def)
  show "sendable ref_crypto (staticEcdh (ag_device sample_agent)) sample_machine md (device_public ref_crypto (md_CipherScheme md) server_device)"
    using sample_sendable[of CIPHER_SCHEME_CURVE "[1, 2, 3]" False]
    by (simp add: sample_agent_fields key md_def sample_knock_def sendable_def sample_request_def)
  have "\<not> Overload server_device" "md_HeaderType md \<noteq> NHP_RKN" by (simp_all add: md server_device_def header_type_defs)
  from calm_request[OF this] show "admits server_device sample_connection (InitTime sample_clocks)
       (createMsgAssemblerData ref_crypto (staticEcdh (ag_device sample_agent)) sample_machine md)"
    "\<not> wants_cookie server_device (md_HeaderType md)" .
  show "acceptable sample_clocks server_device sample_connection (md_HeaderType md)
      (device_public ref_crypto (md_CipherScheme md) (ag_device sample_agent)) (mc_now sample_machine)"
    unfolding md by (rule sample_acceptable)
  show "acceptable sample_clocks (ag_device sample_agent) sample_connection NHP_ACK
      (device_public ref_crypto (md_CipherScheme md) server_device) (mc_now sample_machine)"
    unfolding sample_agent_fields by (rule sample_reply_acceptable)
  show "SharedSecret ref_crypto (md_CipherScheme md) (mc_ephermeral sample_machine)
        (device_public ref_crypto (md_CipherScheme md) (ag_device sample_agent)) \<noteq> None"
    "SharedSecret ref_crypto (md_CipherScheme md) (staticEcdh server_device)
        (device_public ref_crypto (md_CipherScheme md) (ag_device sample_agent)) \<noteq> None"
    unfolding md by (rule ref_shared[OF len])+
qed (simp_all add: md_def sample_knock_def sample_request_def sample_connection_def sample_agent_fields IsTransactionRequest_def IsTransactionResponse_def
    CheckRecvHeaderType_def agent_device_def server_device_def device_type_defs header_type_defs sample_machine_def
    PacketBufferSize_def header_offsets GCMTagSize_def pk_size_def)

theorem request_answered_witness:
  "\<exists>(rep :: MsgAssemblerData) ppd2 st'.
     agent_run ref_crypto (\<lambda>_. None) [Request sample_machine sample_knock True,
       Recv (BasePacket_Content rep), HandOver 0, Parse sample_clocks] sample_agent st' \<and>
     ResponseMsgCh st' = [(0, Answer ppd2)] \<and> ppd_BodyMessage ppd2 = [4, 5]"
proof -
  note a = request_answered[OF rc.nhp_crypto_axioms sample_premises, where J = "\<lambda>_. None" and cookie = None]
  from a obtain rep :: MsgAssemblerData and ppd2 st' where
    "agent_run ref_crypto (\<lambda>_. None) [Request sample_machine sample_knock True,
       Recv (BasePacket_Content rep), HandOver 0, Parse sample_clocks] sample_agent st'"
    "ResponseMsgCh st' = ResponseMsgCh sample_agent @ [(0, Answer ppd2)]" "ppd_BodyMessage ppd2 = [4, 5]"
    by blast
  then show ?thesis unfolding sample_agent_fields append_Nil by blast
qed

theorem answers_match_requests_witness:
  "\<exists>st ppd. agent_reachable ref_crypto (\<lambda>_. None) agent_device (Some sample_connection) st \<and> (0, Answer ppd) \<in> set (ResponseMsgCh st) \<and>
     ppd_SenderTrxId ppd = lt_transactionId (ag_transactions st ! 0) \<and> length (filter (\<lambda>x. fst x = 0) (ResponseMsgCh st)) \<le> 1"
proof -
  note a = request_completes[OF rc.nhp_crypto_axioms sample_premises, where J = "\<lambda>_. None" and cookie = None]
  from a obtain rep :: MsgAssemblerData and ppd st where r:
    "agent_run ref_crypto (\<lambda>_. None) [Request sample_machine sample_knock True,
       Recv (BasePacket_Content rep), HandOver 0, Parse sample_clocks] sample_agent st"
    "ResponseMsgCh st = ResponseMsgCh sample_agent @ [(0, Answer ppd)]"
    by blast
  have reach: "agent_reachable ref_crypto (\<lambda>_. None) agent_device (Some sample_connection) st"
    using r(1) unfolding agent_reachable_def sample_agent_def by blast
  have "(0, Answer ppd) \<in> set (ResponseMsgCh st)" by (simp add: r(2))
  with answers_match_requests[OF reach, of 0 ppd] reach show ?thesis by blast
qed

text \<open>An acknowledgement without a body, made of zeros but for its type.\<close>

definition ack_header :: "byte list" where
  "ack_header = SetTypeAndPayloadSize 0 NHP_ACK 0 (replicate 240 0)"

definition waiting_agent :: agent_state where
  "waiting_agent = AddLocalTransaction \<lparr>lt_transactionId = 0,
     lt_mad = createMsgAssemblerData ref_crypto agent_key sample_machine sample_knock,
     lt_ResponseMsgCh = True, lt_phase = Waiting\<rparr> sample_agent"

lemma ack_header: "Counter ack_header = 0" "TypeAndPayloadSize ack_header = (NHP_ACK, 0)"
  "RecvPrecheck NHP_AGENT ack_header = Ok (NHP_ACK, 0)"
  by code_simp+

theorem duplicate_answer_panics_witness:
  "\<exists>st'. agent_run ref_crypto (\<lambda>_. None) [Recv ack_header, HandOver 0, Recv ack_header, CloseChannels 0, SendOnClosed 0] waiting_agent st' \<and>
     ag_crashed st'"
proof -
  have "\<exists>st'. agent_run ref_crypto (\<lambda>_. None) [Recv ack_header, HandOver 0, Recv ack_header, CloseChannels 0, SendOnClosed 0] waiting_agent st' \<and>
     ag_crashed st' \<and> ag_device st' = ag_device waiting_agent \<and> ag_conn st' = ag_conn waiting_agent"
    by (rule duplicate_answer_panics[OF _ _ _ _ ack_header(1,1), where x = "(NHP_ACK, 0)" and y = "(NHP_ACK, 0)"])
      (simp_all add: ack_header(3)[unfolded device_type_defs] waiting_agent_def AddLocalTransaction_def sample_agent_fields phase_of_def ack_header
        IsTransactionResponse_def agent_device_def device_type_defs header_type_defs)
  then show ?thesis by blast
qed

end
