(* ===== verification/Nhp_Overload.thy ===== *)
theory Nhp_Overload
  imports Nhp_Transaction_Properties
begin

text \<open>
  An overloaded server and an honest agent: the knock is refused and a cookie queued for the agent, the
  agent ends the knock with the cookie message and keeps the cookie, and the repeated knock, whose
  check sum covers the cookie, is accepted, unless it comes too soon after the cookie was made.
\<close>

subsection \<open>The knock is refused with a cookie\<close>

context nhp_primitives
begin

lemma opened_wants_cookie:
  assumes o: "opened C mad dev tm t trx content ppd0 ch2 ck2 ck3 ck4 key4" and "wants_cookie dev t"
    and ok: "acceptable tm dev c t pk (mad_LocalInitTime mad)"
    and pk: "pk = Public C (EccType (NewCipherSuite (mad_CipherScheme mad))) (mad_deviceEcdh mad)"
    and c1: "c1 = c\<lparr>LastRemoteSendTime := mad_LocalInitTime mad, RecvThreatCount := 0,
      ConnCookieStore := generateCookie C (mad_CipherScheme mad) content (cookie_now tm) (ConnCookieStore c)\<rparr>"
  shows "\<exists>dev1. validatePeer C tm ppd0 dev (Some c) =
       (Err (CoreError ''ERR_NHP_SERVER_REJECT_WITH_COOKIE''),
        SendMsgToPacket \<lparr>cok_TransactionId = trx, cok_Cookie = CurrCookie (ConnCookieStore c1), cok_PeerPk = pk,
          cok_CipherScheme = mad_CipherScheme mad\<rparr> dev1, Some c1) \<and>
     (\<exists>peers. dev1 = dev\<lparr>peerMap := peers\<rparr>)"
proof -
  note p = o[unfolded opened_def Let_def, folded pk]
  obtain dev1 peers where a: "accept_peer tm (Some c) ppd0 pk dev = (Ok (), dev1)" "dev1 = dev\<lparr>peerMap := peers\<rparr>"
  proof (cases "toValidate (dev_option dev) (HeaderTypeToDeviceType (ppd_HeaderType ppd0))")
    case True
    then obtain peer where "peerMap dev pk = Some peer" "\<not> IsExpired (now_milli tm) peer"
      "CheckRecvAddress (ppd_LocalInitTime ppd0) (RemoteAddr c) peer"
      using ok p by (auto simp: acceptable_def)
    with True show ?thesis
      by (intro that[of "dev\<lparr>peerMap := (peerMap dev)(pk \<mapsto>
        peer\<lparr>lastRecvTime := ppd_LocalInitTime ppd0, recvAddr := RemoteAddr c\<rparr>)\<rparr>"]) (simp_all add: accept_peer_def)
  next
    case False
    then show ?thesis by (intro that[of dev "peerMap dev"]) (simp_all add: accept_peer_def)
  qed
  have time: "check_send_time (deviceType dev) t (InitTime tm) (mad_LocalInitTime mad) c =
      (Ok (), c\<lparr>LastRemoteSendTime := mad_LocalInitTime mad, RecvThreatCount := 0\<rparr>)"
    using ok by (simp add: acceptable_def check_send_time_def Let_def split: if_splits)
  have "open_timestamp C dev1 ppd0 pk ch2 ck2 = Ok (mad_LocalInitTime mad, ck3)"
    using p open_device(2)[of dev1 dev C] a(2) by simp
  moreover have same: "deviceType dev1 = deviceType dev" using a(2) by simp
  moreover have "finish_validation C tm (ppd0\<lparr>ppd_RemotePubKey := pk, ppd_chainHash := ch2, ppd_chainKey := ck3\<rparr>) dev1
      (c\<lparr>LastRemoteSendTime := mad_LocalInitTime mad, RecvThreatCount := 0\<rparr>) =
    (Err (CoreError ''ERR_NHP_SERVER_REJECT_WITH_COOKIE''), SendMsgToPacket \<lparr>cok_TransactionId = trx,
       cok_Cookie = CurrCookie (ConnCookieStore c1), cok_PeerPk = pk, cok_CipherScheme = mad_CipherScheme mad\<rparr> dev1, c1)"
    using p a(2) assms(2) by (auto simp: finish_validation_def wants_cookie_def sendCookie_def Let_def c1)
  ultimately have "validatePeer C tm ppd0 dev (Some c) =
       (Err (CoreError ''ERR_NHP_SERVER_REJECT_WITH_COOKIE''),
        SendMsgToPacket \<lparr>cok_TransactionId = trx, cok_Cookie = CurrCookie (ConnCookieStore c1), cok_PeerPk = pk,
          cok_CipherScheme = mad_CipherScheme mad\<rparr> dev1, Some c1)"
    using p a(1) time same by (simp add: validatePeer_def)
  with a(2) show ?thesis by blast
qed

text \<open>A sealed request, checked by an overloaded server.\<close>

lemma request_opens:
  assumes "sendable C prk mc md (device_public C (md_CipherScheme md) dev)" and "0 < md_HeaderType md" and "md_HeaderType md < 2 ^ 16"
    and "admits dev c (InitTime tm) (createMsgAssemblerData C prk mc md)"
  obtains req ppd0 ch2 ck2 ck3 ck4 key4 where
    "res_bind (setPeerPublicKey C (createMsgAssemblerData C prk mc md)) (encryptBody C mc) = Ok req"
    "length (BasePacket_Content req) = header_Size (md_CipherScheme md) +
       (length (if md_Compress md then Zlib_Write C (md_Message md) else md_Message md) + GCMTagSize)"
    "TypeAndPayloadSize (BasePacket_Content req) =
       (md_HeaderType md, int (length (BasePacket_Content req)) - int (header_Size (md_CipherScheme md)))"
    "Packet_Header (BasePacket_Content req) = Ok (md_CipherScheme md)"
    "check_header C dev (Some c) (new_ppd C (md_CipherScheme md) (BasePacket_Content req) (InitTime tm)) = Ok ppd0"
    "opened C (createMsgAssemblerData C prk mc md) dev tm (md_HeaderType md) (md_TransactionId md) (BasePacket_Content req) ppd0
       ch2 ck2 ck3 ck4 key4"
proof -
  let ?mad = "createMsgAssemblerData C prk mc md"
  obtain ess ss where r: "ready C ?mad (md_TransactionId md) (SetVersion 1 0 (mc_buf mc))
    (Public C (EccType (NewCipherSuite (md_CipherScheme md))) (mc_ephermeral mc))
    (device_public C (md_CipherScheme md) dev) ess ss" using sendable_ready[OF assms(1)] .
  have s: "mad_bodyMessage ?mad \<noteq> []" "length (packed_body C ?mad) + GCMTagSize \<le> PacketBufferSize - header_Size (md_CipherScheme md)"
    using assms(1) by (simp_all add: sendable_def)
  have base: "new_ppd C (md_CipherScheme md) content (InitTime tm) = empty_ppd\<lparr>ppd_Content := content,
      ppd_CipherScheme := md_CipherScheme md, ppd_HeaderFlag := header_Flag content, ppd_LocalInitTime := InitTime tm,
      ppd_chainHash := mad_chainHash ?mad, ppd_chainKey := mad_chainKey ?mad\<rparr>" for content
    by (simp add: new_ppd_def)
  obtain req content ppd0 ch2 ck2 ck3 ck4 key4 where d: "res_bind (setPeerPublicKey C ?mad) (encryptBody C mc) = Ok req"
    "BasePacket_Content req = content" "mad_TransactionId req = mad_TransactionId ?mad"
    "length content = header_Size (md_CipherScheme md) + (length (packed_body C ?mad) + GCMTagSize)"
    "TypeAndPayloadSize content = (md_HeaderType md, int (length (packed_body C ?mad) + GCMTagSize))"
    "Packet_Header content = Ok (md_CipherScheme md)"
    "check_header C dev (Some c) (new_ppd C (md_CipherScheme md) content (InitTime tm)) = Ok ppd0"
    "opened C ?mad dev tm (md_HeaderType md) (md_TransactionId md) content ppd0 ch2 ck2 ck3 ck4 key4"
    using sealed_opens[OF r create_fields(1)[symmetric] refl s(1) create_fields(3) less_imp_le[OF assms(2)] assms(3,4) s(2) base, of mc]
    by (elim exE conjE)
  then show ?thesis
    by (intro that[of req ppd0 ch2 ck2 ck3 ck4 key4]) simp_all
qed

lemma knock_refused:
  assumes "sendable C prk mc md (device_public C scheme dev)" and "md_CipherScheme md = scheme"
    and knock: "md_HeaderType md = NHP_KNK \<or> md_HeaderType md = DHP_KNK"
    and dev: "deviceType dev = NHP_SERVER" "Overload dev" "length (msgToPacketQueue dev) < SendQueueSize"
    and "acceptable tm dev c (md_HeaderType md) pk (mc_now mc)" and pk: "pk = Public C (EccType (NewCipherSuite scheme)) prk"
  obtains req dev1 c1 where
    "res_bind (setPeerPublicKey C (createMsgAssemblerData C prk mc md)) (encryptBody C mc) = Ok req"
    "parse_packet C tm None (BasePacket_Content req) dev (Some c) =
       (Err (CoreError ''ERR_NHP_SERVER_REJECT_WITH_COOKIE''), dev1, Some c1)"
    "c1 = c\<lparr>LastRemoteSendTime := mc_now mc, RecvThreatCount := 0,
       ConnCookieStore := generateCookie C scheme (BasePacket_Content req) (cookie_now tm) (ConnCookieStore c)\<rparr>"
    "msgToPacketQueue dev1 = msgToPacketQueue dev @ [\<lparr>cok_TransactionId = md_TransactionId md,
       cok_Cookie = CurrCookie (ConnCookieStore c1), cok_PeerPk = pk, cok_CipherScheme = scheme\<rparr>]"
    "deviceType dev1 = deviceType dev" "staticEcdh dev1 = staticEcdh dev" "Overload dev1 = Overload dev"
proof -
  let ?mad = "createMsgAssemblerData C prk mc md"
  have t: "0 < md_HeaderType md" "md_HeaderType md < 2 ^ 16" "md_HeaderType md \<noteq> NHP_RKN"
    using knock by (auto simp: header_type_defs)
  have "admits dev c (InitTime tm) ?mad"
    using knock t(3) by (auto simp: admits_def has_cookie_def sent_cookie_def asked_cookie_def takes_type_def IsAllowedAtOverload_def)
  then obtain req ppd0 ch2 ck2 ck3 ck4 key4 where d: "res_bind (setPeerPublicKey C ?mad) (encryptBody C mc) = Ok req"
    "length (BasePacket_Content req) = header_Size (md_CipherScheme md) +
       (length (if md_Compress md then Zlib_Write C (md_Message md) else md_Message md) + GCMTagSize)"
    "TypeAndPayloadSize (BasePacket_Content req) =
       (md_HeaderType md, int (length (BasePacket_Content req)) - int (header_Size (md_CipherScheme md)))"
    "Packet_Header (BasePacket_Content req) = Ok (md_CipherScheme md)"
    "check_header C dev (Some c) (new_ppd C (md_CipherScheme md) (BasePacket_Content req) (InitTime tm)) = Ok ppd0"
    "opened C ?mad dev tm (md_HeaderType md) (md_TransactionId md) (BasePacket_Content req) ppd0 ch2 ck2 ck3 ck4 key4"
    using request_opens[of prk mc md dev c tm] assms(1,2) t by metis
  define c1 where "c1 = c\<lparr>LastRemoteSendTime := mad_LocalInitTime ?mad, RecvThreatCount := 0,
      ConnCookieStore := generateCookie C (mad_CipherScheme ?mad) (BasePacket_Content req) (cookie_now tm) (ConnCookieStore c)\<rparr>"
  have w: "wants_cookie dev (md_HeaderType md)" using knock dev(1,2) by (auto simp: wants_cookie_def)
  have ok: "acceptable tm dev c (md_HeaderType md) pk (mad_LocalInitTime ?mad)" using assms(7) by simp
  obtain dev2 peers where v: "validatePeer C tm ppd0 dev (Some c) = (Err (CoreError ''ERR_NHP_SERVER_REJECT_WITH_COOKIE''),
        SendMsgToPacket \<lparr>cok_TransactionId = md_TransactionId md, cok_Cookie = CurrCookie (ConnCookieStore c1), cok_PeerPk = pk,
          cok_CipherScheme = mad_CipherScheme ?mad\<rparr> dev2, Some c1)" "dev2 = dev\<lparr>peerMap := peers\<rparr>"
    using opened_wants_cookie[OF d(6) w ok _ c1_def] pk assms(2) by auto
  have "parse_packet C tm None (BasePacket_Content req) dev (Some c) = (Err (CoreError ''ERR_NHP_SERVER_REJECT_WITH_COOKIE''),
        SendMsgToPacket \<lparr>cok_TransactionId = md_TransactionId md, cok_Cookie = CurrCookie (ConnCookieStore c1), cok_PeerPk = pk,
          cok_CipherScheme = scheme\<rparr> dev2, Some c1)"
    using d(4,5) v(1) assms(2) by (simp add: parse_packet_def createPacketParserData_def)
  then show ?thesis
    using v(2) dev(3) assms(2)
    by (intro that[OF d(1), of "SendMsgToPacket \<lparr>cok_TransactionId = md_TransactionId md, cok_Cookie = CurrCookie (ConnCookieStore c1),
          cok_PeerPk = pk, cok_CipherScheme = scheme\<rparr> dev2" c1]) (simp_all add: SendMsgToPacket_def c1_def)
qed

end

subsection \<open>The agent keeps the cookie\<close>

text \<open>The message \<^verbatim>\<open>sendCookie\<close> queues, with the counter \<open>n\<close>; \<open>enc\<close> is the JSON text of transaction id and cookie.\<close>

definition cookie_message :: "(64 word \<Rightarrow> byte list \<Rightarrow> byte list) \<Rightarrow> 64 word \<Rightarrow> ServerCookieMsg \<Rightarrow> MsgData" where
  "cookie_message enc n cok = \<lparr>md_CipherScheme = cok_CipherScheme cok, md_TransactionId = n, md_HeaderType = NHP_COK,
     md_Compress = True, md_ClPkc = False, md_ExternalCookie = None, md_ConnCookie = Some (cok_Cookie cok),
     md_Message = enc (cok_TransactionId cok) (cok_Cookie cok), md_PeerPk = Some (cok_PeerPk cok)\<rparr>"

lemma cookie_steps:
  assumes "\<not> ag_crashed st" and "ag_routine st = Ready" and "ag_receiver st = Listening" and "packetToMsgQueue st = []"
    and "DecryptedMsgQueue st = []" and "deviceType (ag_device st) = NHP_AGENT"
    and "RecvPrecheck NHP_AGENT content = Ok x" and "fst (TypeAndPayloadSize content) = NHP_COK"
    and parsed: "parse_packet C tm None content (ag_device st) (ag_conn st) = (Ok ppd, dev', Some c')"
    and "ppd_HeaderType ppd = NHP_COK" and "J (ppd_BodyMessage ppd) = Some (i, cookie)"
    and "localTransactionMap st i = Some r" and "phase_of st r = Some Waiting" and "lt_ResponseMsgCh (ag_transactions st ! r)"
    and "length cookie = length (CurrCookie (ConnCookieStore c'))"
  shows "\<exists>st'. agent_run C J [Recv content, Parse tm, Receive, TakeExternal r] st st' \<and>
     ResponseMsgCh st' = ResponseMsgCh st @ [(r, External ppd)] \<and>
     ag_conn st' = Some (c'\<lparr>ConnCookieStore := (ConnCookieStore c')\<lparr>CurrCookie := cookie\<rparr>\<rparr>)"
proof -
  have t: "NHP_COK \<noteq> NHP_KPL" "\<not> IsTransactionResponse NHP_AGENT NHP_COK"
    by (simp_all add: IsTransactionResponse_def header_type_defs device_type_defs)
  let ?s1 = "st\<lparr>packetToMsgQueue := [(content, None)]\<rparr>"
  let ?s2 = "st\<lparr>ag_device := dev', ag_conn := Some c', DecryptedMsgQueue := [ppd]\<rparr>"
  let ?c = "c'\<lparr>ConnCookieStore := (ConnCookieStore c')\<lparr>CurrCookie := cookie\<rparr>\<rparr>"
  let ?s3 = "st\<lparr>ag_device := dev', ag_conn := Some ?c, ag_receiver := Handing r ppd\<rparr>"
  let ?s4 = "respond r (External ppd) (set_phase r (Leaving None) (?s3\<lparr>ag_receiver := Listening\<rparr>))"
  have "connectionRoutine content st = ?s1"
    using assms(4,6,8) t by (simp add: connectionRoutine_def RecvPacketToMsg_def RecvQueueSize_def)
  then have 1: "agent_step C J (Recv content) st ?s1" using recv[of st content x C J] assms(1,2,6,7) by simp
  have "deliver None (Ok ppd) (?s1\<lparr>packetToMsgQueue := [], ag_device := dev', ag_conn := Some c'\<rparr>) = ?s2"
    using assms(4,5) by (simp add: deliver_def enqueue_message_def RecvQueueSize_def)
  moreover have "agent_step C J (Parse tm) ?s1 (deliver None (Ok ppd) (?s1\<lparr>packetToMsgQueue := [], ag_device := dev', ag_conn := Some c'\<rparr>))"
    using assms(1) parsed by (intro parse) simp_all
  ultimately have 2: "agent_step C J (Parse tm) ?s1 ?s2" by simp
  have "recvMessageRoutine J ppd (?s2\<lparr>DecryptedMsgQueue := []\<rparr>) = ?s3"
    using assms(5,10-12,15) by (simp add: recvMessageRoutine_def HandleCookieMessage_def FindLocalTransaction_def copy_into_def Let_def)
  then have 3: "agent_step C J Receive ?s2 ?s3"
    using receive[of ?s2 ppd "[]" C J] assms(1,3) by simp
  have 4: "agent_step C J (TakeExternal r) ?s3 ?s4"
    using assms(1,13) by (intro take_external) (simp_all add: phase_of_Some)
  have "agent_run C J [Recv content, Parse tm, Receive, TakeExternal r] st ?s4"
    using 1 2 3 4 by (blast intro: agent_run.intros)
  moreover have "r < length (ag_transactions st)" using assms(13) by (simp add: phase_of_Some)
  then have "ResponseMsgCh ?s4 = ResponseMsgCh st @ [(r, External ppd)]" using assms(14) by (simp add: respond_def)
  ultimately show ?thesis by (intro exI[of _ ?s4]) simp
qed

context nhp_primitives
begin

lemma generated_length:
  "length (CurrCookie cs) = HashSize \<Longrightarrow> length (CurrCookie (generateCookie C scheme content now cs)) = HashSize"
  by (simp add: generateCookie_def KeyGen1_def HMAC1_def hmac_length)

end

text \<open>The sealed cookie message, and what the agent does with it.\<close>

lemma cookie_arrives:
  assumes "nhp_crypto C" and "cok_CipherScheme cok = scheme"
    and "sendable C prk mc2 (cookie_message enc n cok) (device_public C scheme (ag_device st))"
    and "acceptable tm2 (ag_device st) c2 NHP_COK (Public C (EccType (NewCipherSuite scheme)) prk) (mc_now mc2)"
    and "J (enc (cok_TransactionId cok) (cok_Cookie cok)) = Some (cok_TransactionId cok, cok_Cookie cok)"
    and "length (cok_Cookie cok) = length (CurrCookie (ConnCookieStore c2))"
    and "\<not> ag_crashed st" and "ag_routine st = Ready" and "ag_receiver st = Listening" and "packetToMsgQueue st = []"
    and "DecryptedMsgQueue st = []" and "deviceType (ag_device st) = NHP_AGENT" and "ag_conn st = Some c2"
    and "localTransactionMap st (cok_TransactionId cok) = Some r" and "phase_of st r = Some Waiting"
    and "lt_ResponseMsgCh (ag_transactions st ! r)"
  shows "\<exists>cm ppd st' c'.
     res_bind (setPeerPublicKey C (createMsgAssemblerData C prk mc2 (cookie_message enc n cok))) (encryptBody C mc2) = Ok cm \<and>
     agent_run C J [Recv (BasePacket_Content cm), Parse tm2, Receive, TakeExternal r] st st' \<and>
     ResponseMsgCh st' = ResponseMsgCh st @ [(r, External ppd)] \<and> ppd_HeaderType ppd = NHP_COK \<and>
     ag_conn st' = Some c' \<and> CurrCookie (ConnCookieStore c') = cok_Cookie cok"
proof -
  let ?agent = "ag_device st" and ?cm = "cookie_message enc n cok" and ?c = "c2\<lparr>LastRemoteSendTime := mc_now mc2, RecvThreatCount := 0\<rparr>"
  have cm: "md_CipherScheme ?cm = scheme" "md_HeaderType ?cm = NHP_COK" "md_Message ?cm = enc (cok_TransactionId cok) (cok_Cookie cok)"
    by (simp_all add: cookie_message_def assms(2))
  have t: "0 < md_HeaderType ?cm" "md_HeaderType ?cm < 2 ^ 16" by (simp_all add: cm header_type_defs)
  have adm: "admits ?agent c2 (InitTime tm2) (createMsgAssemblerData C prk mc2 ?cm)" "\<not> wants_cookie ?agent (md_HeaderType ?cm)"
    using assms(12) by (simp_all add: admits_def has_cookie_def sent_cookie_def asked_cookie_def takes_type_def wants_cookie_def cm
        header_type_defs device_type_defs)
  have send: "sendable C prk mc2 ?cm (device_public C (md_CipherScheme ?cm) ?agent)"
    "acceptable tm2 ?agent c2 (md_HeaderType ?cm) (Public C (EccType (NewCipherSuite (md_CipherScheme ?cm))) prk) (mc_now mc2)"
    using assms(3,4) cm(1,2) by simp_all
  obtain mad1 rep ppd where q: "setPeerPublicKey C (createMsgAssemblerData C prk mc2 ?cm) = Ok mad1"
    "encryptBody C mc2 mad1 = Ok rep" "fst (parse_packet C tm2 None (BasePacket_Content rep) ?agent (Some c2)) = Ok ppd"
    "ppd_BodyMessage ppd = md_Message ?cm" "ppd_SenderTrxId ppd = md_TransactionId ?cm" "ppd_CipherScheme ppd = md_CipherScheme ?cm"
    "ppd_RemotePubKey ppd = Public C (EccType (NewCipherSuite (md_CipherScheme ?cm))) prk"
    "snd (snd (parse_packet C tm2 None (BasePacket_Content rep) ?agent (Some c2))) = Some ?c" "ppd_HeaderType ppd = md_HeaderType ?cm"
    "Packet_Header (BasePacket_Content rep) = Ok (md_CipherScheme ?cm)"
    "TypeAndPayloadSize (BasePacket_Content rep) =
       (md_HeaderType ?cm, int (length (BasePacket_Content rep)) - int (header_Size (md_CipherScheme ?cm)))"
    by (rule nhp_crypto.request_parsed[OF assms(1) send(1) t adm send(2)])
  obtain dev' where parsed: "parse_packet C tm2 None (BasePacket_Content rep) ?agent (ag_conn st) = (Ok ppd, dev', Some ?c)"
    using q(3,8) assms(13) by (metis prod.collapse)
  have "CheckRecvHeaderType NHP_AGENT (md_HeaderType ?cm)" by (simp add: cm CheckRecvHeaderType_def)
  note pre = precheck_packet[OF q(10,11) this]
  have "\<exists>st'. agent_run C J [Recv (BasePacket_Content rep), Parse tm2, Receive, TakeExternal r] st st' \<and>
     ResponseMsgCh st' = ResponseMsgCh st @ [(r, External ppd)] \<and>
     ag_conn st' = Some (?c\<lparr>ConnCookieStore := (ConnCookieStore ?c)\<lparr>CurrCookie := cok_Cookie cok\<rparr>\<rparr>)"
    by (rule cookie_steps[OF assms(7-12) pre _ parsed _ _ assms(14-16)]) (use q(4,9,11) cm assms(5,6) in simp_all)
  then obtain st' where st': "agent_run C J [Recv (BasePacket_Content rep), Parse tm2, Receive, TakeExternal r] st st'"
     "ResponseMsgCh st' = ResponseMsgCh st @ [(r, External ppd)]"
     "ag_conn st' = Some (?c\<lparr>ConnCookieStore := (ConnCookieStore ?c)\<lparr>CurrCookie := cok_Cookie cok\<rparr>\<rparr>)"
    by (elim exE conjE)
  show ?thesis
    by (rule exI[of _ rep], rule exI[of _ ppd], rule exI[of _ st'], rule exI[of _ "?c\<lparr>ConnCookieStore := (ConnCookieStore ?c)\<lparr>CurrCookie := cok_Cookie cok\<rparr>\<rparr>"])
      (use q(1,2,9) cm(2) st' in simp)
qed

lemma knock_gets_cookie:
  assumes "nhp_crypto C" and dev: "deviceType dev = NHP_SERVER" "Overload dev" "length (msgToPacketQueue dev) < SendQueueSize"
    and "sendable C (staticEcdh (ag_device st)) mc md (device_public C scheme dev)" and "md_CipherScheme md = scheme"
    and "md_HeaderType md = NHP_KNK"
    and "acceptable tm dev c NHP_KNK (device_public C scheme (ag_device st)) (mc_now mc)"
    and "res_bind (setPeerPublicKey C (createMsgAssemblerData C (staticEcdh (ag_device st)) mc md)) (encryptBody C mc) = Ok req"
    and cookie: "cookie = CurrCookie (generateCookie C scheme (BasePacket_Content req) (cookie_now tm) (ConnCookieStore c))"
    and cok: "cok = \<lparr>cok_TransactionId = md_TransactionId md, cok_Cookie = cookie,
       cok_PeerPk = device_public C scheme (ag_device st), cok_CipherScheme = scheme\<rparr>"
    and "sendable C (staticEcdh dev) mc2 (cookie_message enc n cok) (device_public C scheme (ag_device st))"
    and "acceptable tm2 (ag_device st) c2 NHP_COK (device_public C scheme dev) (mc_now mc2)"
    and "J (enc (md_TransactionId md) cookie) = Some (md_TransactionId md, cookie)"
    and "length (CurrCookie (ConnCookieStore c)) = 32" and "length (CurrCookie (ConnCookieStore c2)) = 32"
    and agent: "\<not> ag_crashed st" "ag_routine st = Ready" "ag_receiver st = Listening" "packetToMsgQueue st = []"
      "DecryptedMsgQueue st = []" "deviceType (ag_device st) = NHP_AGENT" "ag_conn st = Some c2"
    and trx: "localTransactionMap st (md_TransactionId md) = Some r" "phase_of st r = Some Waiting"
      "lt_ResponseMsgCh (ag_transactions st ! r)"
  shows "\<exists>dev1 c1 cm ppd st' c'.
     parse_packet C tm None (BasePacket_Content req) dev (Some c) =
       (Err (CoreError ''ERR_NHP_SERVER_REJECT_WITH_COOKIE''), dev1, Some c1) \<and>
     CurrCookie (ConnCookieStore c1) = cookie \<and> msgToPacketQueue dev1 = msgToPacketQueue dev @ [cok] \<and>
     res_bind (setPeerPublicKey C (createMsgAssemblerData C (staticEcdh dev1) mc2 (cookie_message enc n cok))) (encryptBody C mc2) = Ok cm \<and>
     agent_run C J [Recv (BasePacket_Content cm), Parse tm2, Receive, TakeExternal r] st st' \<and>
     ResponseMsgCh st' = ResponseMsgCh st @ [(r, External ppd)] \<and> ppd_HeaderType ppd = NHP_COK \<and>
     ag_conn st' = Some c' \<and> CurrCookie (ConnCookieStore c') = cookie"
proof -
  let ?agent = "ag_device st"
  have p: "nhp_primitives C" using assms(1) by (simp add: nhp_crypto_def)
  have pk: "device_public C scheme ?agent = Public C (EccType (NewCipherSuite scheme)) (staticEcdh ?agent)"
    by (simp add: device_public_def)
  obtain req' dev1 c1 where k:
    "res_bind (setPeerPublicKey C (createMsgAssemblerData C (staticEcdh ?agent) mc md)) (encryptBody C mc) = Ok req'"
    "parse_packet C tm None (BasePacket_Content req') dev (Some c) =
       (Err (CoreError ''ERR_NHP_SERVER_REJECT_WITH_COOKIE''), dev1, Some c1)"
    "c1 = c\<lparr>LastRemoteSendTime := mc_now mc, RecvThreatCount := 0,
       ConnCookieStore := generateCookie C scheme (BasePacket_Content req') (cookie_now tm) (ConnCookieStore c)\<rparr>"
    "msgToPacketQueue dev1 = msgToPacketQueue dev @ [\<lparr>cok_TransactionId = md_TransactionId md,
       cok_Cookie = CurrCookie (ConnCookieStore c1), cok_PeerPk = device_public C scheme ?agent, cok_CipherScheme = scheme\<rparr>]"
    "deviceType dev1 = deviceType dev" "staticEcdh dev1 = staticEcdh dev" "Overload dev1 = Overload dev"
    by (rule nhp_primitives.knock_refused[OF p assms(5,6) disjI1[OF assms(7)] dev assms(8)[folded assms(7)] pk])
  have req: "req' = req" using k(1) assms(9) by simp
  have c1: "CurrCookie (ConnCookieStore c1) = cookie" using k(3) req cookie by simp
  have queue: "msgToPacketQueue dev1 = msgToPacketQueue dev @ [cok]" using k(4) c1 cok by simp
  have len: "length cookie = 32"
    using nhp_primitives.generated_length[OF p, of "ConnCookieStore c" scheme "BasePacket_Content req" "cookie_now tm"] cookie assms(15)
    by (simp add: HashSize_def)
  have fields: "cok_CipherScheme cok = scheme" "cok_TransactionId cok = md_TransactionId md" "cok_Cookie cok = cookie"
    using cok by simp_all
  obtain cm ppd st' c' where a:
    "res_bind (setPeerPublicKey C (createMsgAssemblerData C (staticEcdh dev) mc2 (cookie_message enc n cok))) (encryptBody C mc2) = Ok cm"
    "agent_run C J [Recv (BasePacket_Content cm), Parse tm2, Receive, TakeExternal r] st st'"
    "ResponseMsgCh st' = ResponseMsgCh st @ [(r, External ppd)]" "ppd_HeaderType ppd = NHP_COK" "ag_conn st' = Some c'"
    "CurrCookie (ConnCookieStore c') = cok_Cookie cok"
    using cookie_arrives[OF assms(1) fields(1) assms(12) _ _ _ agent _ trx(2,3)] assms(13,14,16) len fields trx(1)
    by (force simp: device_public_def)
  show ?thesis
    by (rule exI[of _ dev1], rule exI[of _ c1], rule exI[of _ cm], rule exI[of _ ppd], rule exI[of _ st'], rule exI[of _ c'])
      (use k(2)[unfolded req] c1 queue a fields(3) k(6) in simp)
qed

subsection \<open>The repeated knock\<close>

text \<open>What the check sum of a packet covers but for a cookie, and when the server still expects the previous cookie.\<close>

definition hmac_input :: "crypto \<Rightarrow> int \<Rightarrow> Device \<Rightarrow> byte list \<Rightarrow> byte list" where
  "hmac_input C scheme dev content =
     InitialHashString @ device_public C scheme dev @ take (header_Size scheme - HashSize) content"

definition cookie_too_new :: "64 word \<Rightarrow> CookieStore \<Rightarrow> bool" where
  "cookie_too_new initTime cs \<longleftrightarrow> initTime <s LastCookieTime cs + 20 * Millisecond"

lemma reknock_admitted:
  assumes "deviceType dev = NHP_SERVER" and "Overload dev" and "md_HeaderType md = NHP_RKN" and "md_ExternalCookie md = None"
    and "md_ConnCookie md = Some cookie" and "expected_cookie initTime (ConnCookieStore c) = cookie"
  shows "admits dev c initTime (createMsgAssemblerData C prk mc md)" "\<not> wants_cookie dev (md_HeaderType md)"
proof -
  have "mad_ExternalCookie (createMsgAssemblerData C prk mc md) = None"
    "mad_ConnCookie (createMsgAssemblerData C prk mc md) = Some cookie"
    using assms(4,5) by (simp_all add: createMsgAssemblerData_def start_mad_def new_mad_def)
  then show "admits dev c initTime (createMsgAssemblerData C prk mc md)" "\<not> wants_cookie dev (md_HeaderType md)"
    using assms by (simp_all add: admits_def has_cookie_def sent_cookie_def asked_cookie_def takes_type_def wants_cookie_def
        IsAllowedAtOverload_def header_type_defs)
qed

lemma reknock_hmac:
  assumes "check_header C dev (Some c) (new_ppd C scheme content initTime) = Ok ppd" and "deviceType dev = NHP_SERVER"
    and "Overload dev" and "fst (TypeAndPayloadSize content) = NHP_RKN" and "expected_cookie initTime (ConnCookieStore c) = cookie"
  shows "HMACBytes scheme content = Digest C (HashType (NewCipherSuite scheme)) (hmac_input C scheme dev content @ cookie)"
  using assms
  by (auto simp: check_header_def checkHMAC_def res_bind_Ok_iff new_ppd_def hmac_input_def Let_def split: prod.splits if_splits)

lemma reknock_refused:
  assumes "HMACBytes scheme content \<noteq> Digest C (HashType (NewCipherSuite scheme)) (hmac_input C scheme dev content @ cookie)"
    and "deviceType dev = NHP_SERVER" and "Overload dev" and "fst (TypeAndPayloadSize content) = NHP_RKN"
    and "expected_cookie (InitTime tm) (ConnCookieStore c) = cookie" and "Packet_Header content = Ok scheme"
  shows "parse_packet C tm None content dev (Some c) = (Err (CoreError ''ERR_NHP_SERVER_HMAC_CHECK_FAILED''), dev, Some c)"
proof -
  have "checkHMAC C dev (Some c) (InitTime tm) scheme True content = Ok False"
    using assms(1,5) by (auto simp: checkHMAC_def hmac_input_def)
  moreover have "ppd_Content (new_ppd C scheme content (InitTime tm)) = content"
    "ppd_CipherScheme (new_ppd C scheme content (InitTime tm)) = scheme"
    "ppd_LocalInitTime (new_ppd C scheme content (InitTime tm)) = InitTime tm" by (simp_all add: new_ppd_def)
  ultimately have "check_header C dev (Some c) (new_ppd C scheme content (InitTime tm)) =
      Err (CoreError ''ERR_NHP_SERVER_HMAC_CHECK_FAILED'')"
    using assms(2-4) by (simp add: check_header_def Let_def case_prod_beta IsAllowedAtOverload_def)
  then show ?thesis using assms(6) by (simp add: parse_packet_def createPacketParserData_def)
qed

lemma reknock_decided:
  assumes "nhp_crypto C" and "sendable C prk mc md (device_public C scheme dev)" and scheme: "md_CipherScheme md = scheme"
    and rkn: "md_HeaderType md = NHP_RKN" "md_ExternalCookie md = None" "md_ConnCookie md = Some cookie"
    and dev: "deviceType dev = NHP_SERVER" "Overload dev" and cookie: "CurrCookie (ConnCookieStore c) = cookie"
    and ok: "acceptable tm dev c NHP_RKN (Public C (EccType (NewCipherSuite scheme)) prk) (mc_now mc)"
  shows "\<exists>req. res_bind (setPeerPublicKey C (createMsgAssemblerData C prk mc md)) (encryptBody C mc) = Ok req \<and>
     (\<not> cookie_too_new (InitTime tm) (ConnCookieStore c) \<longrightarrow>
        (\<exists>ppd. fst (parse_packet C tm None (BasePacket_Content req) dev (Some c)) = Ok ppd \<and> ppd_BodyMessage ppd = md_Message md \<and>
           ppd_SenderTrxId ppd = md_TransactionId md \<and> ppd_HeaderType ppd = NHP_RKN \<and>
           ppd_RemotePubKey ppd = Public C (EccType (NewCipherSuite scheme)) prk)) \<and>
     (cookie_too_new (InitTime tm) (ConnCookieStore c) \<and>
        Digest C (HashType (NewCipherSuite scheme)) (hmac_input C scheme dev (BasePacket_Content req) @ PrevCookie (ConnCookieStore c)) \<noteq>
        Digest C (HashType (NewCipherSuite scheme)) (hmac_input C scheme dev (BasePacket_Content req) @ cookie) \<longrightarrow>
        parse_packet C tm None (BasePacket_Content req) dev (Some c) =
          (Err (CoreError ''ERR_NHP_SERVER_HMAC_CHECK_FAILED''), dev, Some c))"
proof -
  have p: "nhp_primitives C" using assms(1) by (simp add: nhp_crypto_def)
  have t: "0 < md_HeaderType md" "md_HeaderType md < 2 ^ 16" by (simp_all add: rkn header_type_defs)
  have send: "sendable C prk mc md (device_public C (md_CipherScheme md) dev)" using assms(2) scheme by simp
  have exp: "expected_cookie init (ConnCookieStore c) =
      (if cookie_too_new init (ConnCookieStore c) then PrevCookie (ConnCookieStore c) else cookie)" for init
    by (simp add: expected_cookie_def cookie_too_new_def cookie)
  let ?c = "c\<lparr>ConnCookieStore := (ConnCookieStore c)\<lparr>PrevCookie := cookie\<rparr>\<rparr>"
  have c': "expected_cookie (InitTime tm) (ConnCookieStore ?c) = cookie" by (simp add: expected_cookie_def cookie)
  obtain req ppd0 ch2 ck2 ck3 ck4 key4 where d:
    "res_bind (setPeerPublicKey C (createMsgAssemblerData C prk mc md)) (encryptBody C mc) = Ok req"
    "length (BasePacket_Content req) = header_Size (md_CipherScheme md) +
       (length (if md_Compress md then Zlib_Write C (md_Message md) else md_Message md) + GCMTagSize)"
    "TypeAndPayloadSize (BasePacket_Content req) =
       (md_HeaderType md, int (length (BasePacket_Content req)) - int (header_Size (md_CipherScheme md)))"
    "Packet_Header (BasePacket_Content req) = Ok (md_CipherScheme md)"
    "check_header C dev (Some ?c) (new_ppd C (md_CipherScheme md) (BasePacket_Content req) (InitTime tm)) = Ok ppd0"
    "opened C (createMsgAssemblerData C prk mc md) dev tm (md_HeaderType md) (md_TransactionId md) (BasePacket_Content req) ppd0
       ch2 ck2 ck3 ck4 key4"
    by (rule nhp_primitives.request_opens[OF p send t reknock_admitted(1)[OF dev rkn c']])
  have type: "fst (TypeAndPayloadSize (BasePacket_Content req)) = NHP_RKN" using d(3) rkn(1) by simp
  have hmac: "HMACBytes scheme (BasePacket_Content req) =
      Digest C (HashType (NewCipherSuite scheme)) (hmac_input C scheme dev (BasePacket_Content req) @ cookie)"
    by (rule reknock_hmac[OF d(5)[unfolded scheme] dev type c'])
  have late: "\<exists>ppd. fst (parse_packet C tm None (BasePacket_Content req) dev (Some c)) = Ok ppd \<and> ppd_BodyMessage ppd = md_Message md \<and>
           ppd_SenderTrxId ppd = md_TransactionId md \<and> ppd_HeaderType ppd = NHP_RKN \<and>
           ppd_RemotePubKey ppd = Public C (EccType (NewCipherSuite scheme)) prk"
    if n: "\<not> cookie_too_new (InitTime tm) (ConnCookieStore c)"
  proof -
    have "expected_cookie (InitTime tm) (ConnCookieStore c) = cookie" using n exp by simp
    note adm = reknock_admitted[OF dev rkn this]
    show ?thesis
    proof (rule nhp_crypto.request_parsed[OF assms(1) send t adm])
      show "acceptable tm dev c (md_HeaderType md) (Public C (EccType (NewCipherSuite (md_CipherScheme md))) prk) (mc_now mc)"
        using ok scheme rkn(1) by simp
    qed (use d(1) scheme rkn(1) in auto)
  qed
  have early: "parse_packet C tm None (BasePacket_Content req) dev (Some c) =
          (Err (CoreError ''ERR_NHP_SERVER_HMAC_CHECK_FAILED''), dev, Some c)"
    if "cookie_too_new (InitTime tm) (ConnCookieStore c)"
      "Digest C (HashType (NewCipherSuite scheme)) (hmac_input C scheme dev (BasePacket_Content req) @ PrevCookie (ConnCookieStore c)) \<noteq>
        Digest C (HashType (NewCipherSuite scheme)) (hmac_input C scheme dev (BasePacket_Content req) @ cookie)"
    by (rule reknock_refused[OF _ dev type _ d(4)[unfolded scheme]]) (use that hmac exp in auto)
  show ?thesis using d(1) late early by blast
qed

subsection \<open>Properties\<close>

text \<open>C9: An overloaded server challenges an honest knock, and the agent takes the challenge. The server
  refuses the knock with \<^verbatim>\<open>ERR_NHP_SERVER_REJECT_WITH_COOKIE\<close>, keeps a cookie for the connection and
  queues a message with it for the agent; this message, sealed by the server, reaches the agent in
  four steps: they put it on the channel of the transaction that waits for the answer to the knock,
  and the agent's connection then holds the same cookie as the server's. The JSON text of the message
  is any that is read back; the queues have room and the times are acceptable.\<close>

theorem overloaded_knock_gets_cookie:
  assumes "nhp_crypto C" and dev: "deviceType dev = NHP_SERVER" "Overload dev" "length (msgToPacketQueue dev) < SendQueueSize"
    and "sendable C (staticEcdh (ag_device st)) mc md (device_public C scheme dev)" and "md_CipherScheme md = scheme"
    and "md_HeaderType md = NHP_KNK"
    and "acceptable tm dev c NHP_KNK (device_public C scheme (ag_device st)) (mc_now mc)"
    and "res_bind (setPeerPublicKey C (createMsgAssemblerData C (staticEcdh (ag_device st)) mc md)) (encryptBody C mc) = Ok req"
    and cookie: "cookie = CurrCookie (generateCookie C scheme (BasePacket_Content req) (cookie_now tm) (ConnCookieStore c))"
    and cok: "cok = \<lparr>cok_TransactionId = md_TransactionId md, cok_Cookie = cookie,
       cok_PeerPk = device_public C scheme (ag_device st), cok_CipherScheme = scheme\<rparr>"
    and "sendable C (staticEcdh dev) mc2 (cookie_message enc n cok) (device_public C scheme (ag_device st))"
    and "acceptable tm2 (ag_device st) c2 NHP_COK (device_public C scheme dev) (mc_now mc2)"
    and "J (enc (md_TransactionId md) cookie) = Some (md_TransactionId md, cookie)"
    and "length (CurrCookie (ConnCookieStore c)) = 32" and "length (CurrCookie (ConnCookieStore c2)) = 32"
    and agent: "\<not> ag_crashed st" "ag_routine st = Ready" "ag_receiver st = Listening" "packetToMsgQueue st = []"
      "DecryptedMsgQueue st = []" "deviceType (ag_device st) = NHP_AGENT" "ag_conn st = Some c2"
    and trx: "localTransactionMap st (md_TransactionId md) = Some r" "phase_of st r = Some Waiting"
      "lt_ResponseMsgCh (ag_transactions st ! r)"
  shows "\<exists>dev1 c1 cm ppd st' c'.
     parse_packet C tm None (BasePacket_Content req) dev (Some c) =
       (Err (CoreError ''ERR_NHP_SERVER_REJECT_WITH_COOKIE''), dev1, Some c1) \<and>
     CurrCookie (ConnCookieStore c1) = cookie \<and> msgToPacketQueue dev1 = msgToPacketQueue dev @ [cok] \<and>
     res_bind (setPeerPublicKey C (createMsgAssemblerData C (staticEcdh dev1) mc2 (cookie_message enc n cok))) (encryptBody C mc2) = Ok cm \<and>
     agent_run C J [Recv (BasePacket_Content cm), Parse tm2, Receive, TakeExternal r] st st' \<and>
     ResponseMsgCh st' = ResponseMsgCh st @ [(r, External ppd)] \<and> ppd_HeaderType ppd = NHP_COK \<and>
     ag_conn st' = Some c' \<and> CurrCookie (ConnCookieStore c') = cookie"
  by (rule knock_gets_cookie[where J = J and enc = enc, OF assms])

text \<open>C10: The repeated knock, sealed with the cookie the server keeps for the connection, is decided by its
  time alone. An overloaded server reads its message, unless the packet came in less than 20 ms after
  the server made the cookie: then the server expects the cookie it had before, and where the digest
  tells the two cookies apart it refuses the knock with an HMAC error and keeps its state.\<close>

theorem reknock_accepted:
  assumes "nhp_crypto C" and "sendable C prk mc md (device_public C scheme dev)" and scheme: "md_CipherScheme md = scheme"
    and rkn: "md_HeaderType md = NHP_RKN" "md_ExternalCookie md = None" "md_ConnCookie md = Some cookie"
    and dev: "deviceType dev = NHP_SERVER" "Overload dev" and cookie: "CurrCookie (ConnCookieStore c) = cookie"
    and ok: "acceptable tm dev c NHP_RKN (Public C (EccType (NewCipherSuite scheme)) prk) (mc_now mc)"
  shows "\<exists>req. res_bind (setPeerPublicKey C (createMsgAssemblerData C prk mc md)) (encryptBody C mc) = Ok req \<and>
     (\<not> cookie_too_new (InitTime tm) (ConnCookieStore c) \<longrightarrow>
        (\<exists>ppd. fst (parse_packet C tm None (BasePacket_Content req) dev (Some c)) = Ok ppd \<and> ppd_BodyMessage ppd = md_Message md \<and>
           ppd_SenderTrxId ppd = md_TransactionId md \<and> ppd_HeaderType ppd = NHP_RKN \<and>
           ppd_RemotePubKey ppd = Public C (EccType (NewCipherSuite scheme)) prk)) \<and>
     (cookie_too_new (InitTime tm) (ConnCookieStore c) \<and>
        Digest C (HashType (NewCipherSuite scheme)) (hmac_input C scheme dev (BasePacket_Content req) @ PrevCookie (ConnCookieStore c)) \<noteq>
        Digest C (HashType (NewCipherSuite scheme)) (hmac_input C scheme dev (BasePacket_Content req) @ cookie) \<longrightarrow>
        parse_packet C tm None (BasePacket_Content req) dev (Some c) =
          (Err (CoreError ''ERR_NHP_SERVER_HMAC_CHECK_FAILED''), dev, Some c))"
  by (rule reknock_decided[OF assms])

subsection \<open>Witnesses\<close>

text \<open>An overloaded server, and an agent that waits for the answer to its knock. The JSON text is replaced by
  the eight bytes of the transaction id and the cookie.\<close>

definition busy_server :: Device where
  "busy_server = server_device\<lparr>Overload := True\<rparr>"

definition knocking_agent :: agent_state where
  "knocking_agent = AddLocalTransaction \<lparr>lt_transactionId = 77,
     lt_mad = createMsgAssemblerData ref_crypto agent_key sample_machine sample_knock,
     lt_ResponseMsgCh = True, lt_phase = Waiting\<rparr> sample_agent"

definition sample_enc :: "64 word \<Rightarrow> byte list \<Rightarrow> byte list" where
  "sample_enc i cookie = be_bytes 8 i @ cookie"

definition sample_dec :: "byte list \<Rightarrow> (64 word \<times> byte list) option" where
  "sample_dec m = Some (be_word (take 8 m), drop 8 m)"

lemma knocking_agent_fields: "ag_device knocking_agent = agent_device" "ag_conn knocking_agent = Some sample_connection"
  "\<not> ag_crashed knocking_agent" "ag_routine knocking_agent = Ready" "ag_receiver knocking_agent = Listening"
  "packetToMsgQueue knocking_agent = []" "DecryptedMsgQueue knocking_agent = []" "localTransactionMap knocking_agent 77 = Some 0"
  "phase_of knocking_agent 0 = Some Waiting" "lt_ResponseMsgCh (ag_transactions knocking_agent ! 0)" "ResponseMsgCh knocking_agent = []"
  by (simp_all add: knocking_agent_def AddLocalTransaction_def sample_agent_def agent_start_def phase_of_def)

lemma busy_acceptable:
  "t = NHP_KNK \<or> t = NHP_RKN \<Longrightarrow> acceptable sample_clocks busy_server (sample_connection\<lparr>ConnCookieStore := cs\<rparr>) t pk (mc_now sample_machine)"
  by (auto simp: acceptable_def busy_server_def sample_noise_defs IsExpired_def CheckRecvAddress_def check_send_time_def Let_def
      time_unit_defs word_sless_alt)

lemma cookie_acceptable: "acceptable sample_clocks agent_device sample_connection NHP_COK pk (mc_now sample_machine)"
  by (simp add: acceptable_def agent_device_def sample_noise_defs IsExpired_def CheckRecvAddress_def check_send_time_def
      Let_def time_unit_defs word_sless_alt)

lemma device_public_length: "length (device_public ref_crypto CIPHER_SCHEME_CURVE dev) = pk_size CIPHER_SCHEME_CURVE"
  by (simp add: device_public_def rc.public_length)

lemma cookie_sendable:
  assumes "length (cok_Cookie cok) = 32" and "cok_CipherScheme cok = CIPHER_SCHEME_CURVE" and "n \<noteq> 0"
    and "cok_PeerPk cok = device_public ref_crypto CIPHER_SCHEME_CURVE dev"
  shows "sendable ref_crypto prk sample_machine (cookie_message sample_enc n cok) (device_public ref_crypto CIPHER_SCHEME_CURVE dev)"
proof -
  have "length (Zlib_Write ref_crypto (sample_enc (cok_TransactionId cok) (cok_Cookie cok))) = 41"
    using assms(1) by (simp add: ref_crypto_def sample_enc_def)
  then show ?thesis
    using assms(2-4) device_public_length[of dev] ref_shared[OF device_public_length[of dev]] assms(1)
    by (auto simp: sendable_def cookie_message_def sample_enc_def sample_machine_def PacketBufferSize_def header_offsets
        GCMTagSize_def pk_size_def)
qed

theorem overloaded_knock_gets_cookie_witness:
  "\<exists>cookie (c1 :: ConnectionData) (dev1 :: Device) (cm :: MsgAssemblerData) st' ppd c'. length cookie = 32 \<and>
     CurrCookie (ConnCookieStore c1) = cookie \<and> length (msgToPacketQueue dev1) = 1 \<and>
     agent_run ref_crypto sample_dec [Recv (BasePacket_Content cm), Parse sample_clocks, Receive, TakeExternal 0] knocking_agent st' \<and>
     ResponseMsgCh st' = [(0, External ppd)] \<and> ag_conn st' = Some c' \<and> CurrCookie (ConnCookieStore c') = cookie"
proof -
  let ?S = "CIPHER_SCHEME_CURVE"
  have md: "md_CipherScheme sample_knock = ?S" "md_HeaderType sample_knock = NHP_KNK" "md_TransactionId sample_knock = 77"
    by (simp_all add: sample_knock_def sample_request_def)
  have key: "staticEcdh agent_device = agent_key" by (simp add: agent_device_def)
  have busy: "deviceType busy_server = NHP_SERVER" "Overload busy_server" "length (msgToPacketQueue busy_server) < SendQueueSize"
    "device_public ref_crypto ?S busy_server = device_public ref_crypto ?S server_device"
    by (simp_all add: busy_server_def server_device_def SendQueueSize_def device_public_def)
  have send: "sendable ref_crypto (staticEcdh (ag_device knocking_agent)) sample_machine sample_knock (device_public ref_crypto ?S busy_server)"
    using sample_premises(1) by (simp add: sample_agent_fields knocking_agent_fields busy md)
  obtain req where req: "res_bind (setPeerPublicKey ref_crypto (createMsgAssemblerData ref_crypto (staticEcdh (ag_device knocking_agent))
      sample_machine sample_knock)) (encryptBody ref_crypto sample_machine) = Ok req"
    using nhp_primitives.knock_refused[OF rc.nhp_primitives_axioms send md(1) disjI1[OF md(2)] busy(1-3)
        busy_acceptable[OF disjI1[OF refl], folded md(2)] refl] by metis
  define cookie where "cookie = CurrCookie (generateCookie ref_crypto ?S (BasePacket_Content req) (cookie_now sample_clocks)
    (ConnCookieStore sample_connection))"
  define cok where "cok = \<lparr>cok_TransactionId = md_TransactionId sample_knock, cok_Cookie = cookie,
    cok_PeerPk = device_public ref_crypto ?S (ag_device knocking_agent), cok_CipherScheme = ?S\<rparr>"
  have len: "length cookie = 32"
    using rc.generated_length[of "ConnCookieStore sample_connection"] by (simp add: cookie_def sample_connection_def HashSize_def)
  have "\<exists>dev1 c1 cm ppd st' c'.
     parse_packet ref_crypto sample_clocks None (BasePacket_Content req) busy_server (Some sample_connection) =
       (Err (CoreError ''ERR_NHP_SERVER_REJECT_WITH_COOKIE''), dev1, Some c1) \<and>
     CurrCookie (ConnCookieStore c1) = cookie \<and> msgToPacketQueue dev1 = msgToPacketQueue busy_server @ [cok] \<and>
     res_bind (setPeerPublicKey ref_crypto (createMsgAssemblerData ref_crypto (staticEcdh dev1) sample_machine
       (cookie_message sample_enc 1 cok))) (encryptBody ref_crypto sample_machine) = Ok cm \<and>
     agent_run ref_crypto sample_dec [Recv (BasePacket_Content cm), Parse sample_clocks, Receive, TakeExternal 0] knocking_agent st' \<and>
     ResponseMsgCh st' = ResponseMsgCh knocking_agent @ [(0, External ppd)] \<and> ppd_HeaderType ppd = NHP_COK \<and>
     ag_conn st' = Some c' \<and> CurrCookie (ConnCookieStore c') = cookie"
  proof (rule overloaded_knock_gets_cookie[OF rc.nhp_crypto_axioms busy(1-3) send md(1,2) _ req cookie_def cok_def])
    show "acceptable sample_clocks busy_server sample_connection NHP_KNK
        (device_public ref_crypto ?S (ag_device knocking_agent)) (mc_now sample_machine)"
      using busy_acceptable[of NHP_KNK "ConnCookieStore sample_connection"] by simp
    show "sendable ref_crypto (staticEcdh busy_server) sample_machine (cookie_message sample_enc 1 cok)
        (device_public ref_crypto ?S (ag_device knocking_agent))"
      by (rule cookie_sendable) (simp_all add: cok_def len)
    show "acceptable sample_clocks (ag_device knocking_agent) sample_connection NHP_COK
        (device_public ref_crypto ?S busy_server) (mc_now sample_machine)"
      unfolding knocking_agent_fields by (rule cookie_acceptable)
    show "sample_dec (sample_enc (md_TransactionId sample_knock) cookie) = Some (md_TransactionId sample_knock, cookie)"
      by (simp add: sample_dec_def sample_enc_def)
  qed (simp_all add: knocking_agent_fields md sample_connection_def agent_device_def)
  then obtain dev1 c1 and cm :: MsgAssemblerData and ppd st' c' where
    "parse_packet ref_crypto sample_clocks None (BasePacket_Content req) busy_server (Some sample_connection) =
       (Err (CoreError ''ERR_NHP_SERVER_REJECT_WITH_COOKIE''), dev1, Some c1)" and a: "CurrCookie (ConnCookieStore c1) = cookie"
    "msgToPacketQueue dev1 = msgToPacketQueue busy_server @ [cok]"
    "res_bind (setPeerPublicKey ref_crypto (createMsgAssemblerData ref_crypto (staticEcdh dev1) sample_machine
       (cookie_message sample_enc 1 cok))) (encryptBody ref_crypto sample_machine) = Ok cm"
    "agent_run ref_crypto sample_dec [Recv (BasePacket_Content cm), Parse sample_clocks, Receive, TakeExternal 0] knocking_agent st'"
    "ResponseMsgCh st' = ResponseMsgCh knocking_agent @ [(0, External ppd)]" "ppd_HeaderType ppd = NHP_COK" "ag_conn st' = Some c'"
    "CurrCookie (ConnCookieStore c') = cookie" by (elim exE conjE)
  have "length (msgToPacketQueue dev1) = 1" "ResponseMsgCh st' = [(0, External ppd)]"
    using a(2,5) by (simp_all add: knocking_agent_fields busy_server_def server_device_def)
  with a(1,4,7,8) len show ?thesis
    by - (rule exI[of _ cookie], rule exI[of _ c1], rule exI[of _ dev1], rule exI[of _ cm], rule exI[of _ st'], rule exI[of _ ppd],
      rule exI[of _ c'], intro conjI)
qed

text \<open>A connection whose cookie the server made at \<open>t\<close>, and the digests of the two cookies.\<close>

definition challenged :: "64 word \<Rightarrow> ConnectionData" where
  "challenged t = sample_connection\<lparr>ConnCookieStore :=
     \<lparr>CurrCookie = replicate 31 0 @ [1], PrevCookie = replicate 32 0, LastCookieTime = t\<rparr>\<rparr>"

lemma ref_digest_snoc: "ref_digest (x @ [a]) = ref_digest (x @ [b]) \<longleftrightarrow> a = b"
  by (simp add: ref_digest_def pad_to_def HashSize_def)

lemma cookies_differ:
  "Digest ref_crypto h (x @ replicate 32 0) \<noteq> Digest ref_crypto h (x @ replicate 31 0 @ [1])"
proof -
  have "replicate 32 (0 :: byte) = replicate 31 0 @ [0]" by (simp add: numeral_eq_Suc)
  then show ?thesis using ref_digest_snoc[of "x @ replicate 31 0" 0 1] by (simp add: ref_crypto_def)
qed

definition sample_reknock :: MsgData where
  "sample_reknock = sample_knock\<lparr>md_HeaderType := NHP_RKN, md_ConnCookie := Some (replicate 31 0 @ [1])\<rparr>"

lemma reknock_premises:
  "sendable ref_crypto agent_key sample_machine sample_reknock (device_public ref_crypto CIPHER_SCHEME_CURVE busy_server)"
  "md_CipherScheme sample_reknock = CIPHER_SCHEME_CURVE" "md_HeaderType sample_reknock = NHP_RKN" "md_ExternalCookie sample_reknock = None"
  "md_ConnCookie sample_reknock = Some (replicate 31 0 @ [1])" "deviceType busy_server = NHP_SERVER" "Overload busy_server"
  "CurrCookie (ConnCookieStore (challenged t)) = replicate 31 0 @ [1]"
  "acceptable sample_clocks busy_server (challenged t) NHP_RKN pk (mc_now sample_machine)"
proof -
  show "sendable ref_crypto agent_key sample_machine sample_reknock (device_public ref_crypto CIPHER_SCHEME_CURVE busy_server)"
    using sample_sendable[of CIPHER_SCHEME_CURVE "[1, 2, 3]" False]
    by (simp add: sendable_def sample_reknock_def sample_knock_def sample_request_def busy_server_def device_public_def)
  show "acceptable sample_clocks busy_server (challenged t) NHP_RKN pk (mc_now sample_machine)"
    unfolding challenged_def by (rule busy_acceptable) simp
qed (simp_all add: sample_reknock_def sample_knock_def sample_request_def busy_server_def server_device_def challenged_def)

theorem reknock_accepted_witness:
  "\<exists>(req :: MsgAssemblerData) ppd.
     fst (parse_packet ref_crypto sample_clocks None (BasePacket_Content req) busy_server (Some (challenged 0))) = Ok ppd \<and>
     ppd_BodyMessage ppd = [1, 2, 3] \<and>
     parse_packet ref_crypto sample_clocks None (BasePacket_Content req) busy_server (Some (challenged 999999999000)) =
       (Err (CoreError ''ERR_NHP_SERVER_HMAC_CHECK_FAILED''), busy_server, Some (challenged 999999999000))"
proof -
  note r = reknock_accepted[OF rc.nhp_crypto_axioms reknock_premises]
  have late: "\<not> cookie_too_new (InitTime sample_clocks) (ConnCookieStore (challenged 0))"
    and early: "cookie_too_new (InitTime sample_clocks) (ConnCookieStore (challenged 999999999000))"
    by (simp_all add: cookie_too_new_def challenged_def sample_clocks_def time_unit_defs word_sless_alt)
  have prev: "PrevCookie (ConnCookieStore (challenged t)) = replicate 32 0" for t by (simp add: challenged_def)
  have message: "md_Message sample_reknock = [1, 2, 3]" by (simp add: sample_reknock_def sample_knock_def sample_request_def)
  obtain req ppd where a: "res_bind (setPeerPublicKey ref_crypto (createMsgAssemblerData ref_crypto agent_key sample_machine sample_reknock))
      (encryptBody ref_crypto sample_machine) = Ok req"
    "fst (parse_packet ref_crypto sample_clocks None (BasePacket_Content req) busy_server (Some (challenged 0))) = Ok ppd"
    "ppd_BodyMessage ppd = [1, 2, 3]"
    using r[of 0] late unfolding message by blast
  obtain req' where b: "res_bind (setPeerPublicKey ref_crypto (createMsgAssemblerData ref_crypto agent_key sample_machine sample_reknock))
      (encryptBody ref_crypto sample_machine) = Ok req'"
    "parse_packet ref_crypto sample_clocks None (BasePacket_Content req') busy_server (Some (challenged 999999999000)) =
       (Err (CoreError ''ERR_NHP_SERVER_HMAC_CHECK_FAILED''), busy_server, Some (challenged 999999999000))"
    using r[of 999999999000] early cookies_differ unfolding prev by blast
  have "req' = req" using a(1) b(1) by simp
  then show ?thesis using a(2,3) b(2) by blast
qed

end
