(* ===== verification/Agent_Sdk.thy ===== *)
theory Agent_Sdk
  imports Nhp_Transactions "HOL-Library.AList"
begin

text \<open>
  The agent behind the agent SDK: the fields of \<^verbatim>\<open>UdpAgent\<close> (\<^verbatim>\<open>endpoints/agent/udpagent.go\<close>) the SDK reads and
  writes, how it starts, loads its configuration files (\<^verbatim>\<open>config.go\<close>), keeps servers and resources, and
  stops. A Go panic ends the process of the C caller, a send or receive nobody answers blocks it: an
  operation is a function of the agent and the process around it into \<open>outcome\<close>. Peers are pointers,
  shared by the map of servers, the map of the device and the knock targets: they are indices of the
  list \<open>peers\<close>. A Go map is an association list without an order of its own (see \<open>iterate\<close>).
\<close>

subsection \<open>Outcomes\<close>

datatype 'a outcome = Returns 'a | Crashes | Blocks

primrec out_bind :: "'a outcome \<Rightarrow> ('a \<Rightarrow> 'b outcome) \<Rightarrow> 'b outcome" where
  "out_bind (Returns a) f = f a"
| "out_bind Crashes f = Crashes"
| "out_bind Blocks f = Blocks"

lemma out_bind_Returns: "out_bind r f = Returns y \<longleftrightarrow> (\<exists>x. r = Returns x \<and> f x = Returns y)"
  by (cases r) simp_all

lemma out_bind_Crashes: "out_bind r f = Crashes \<longleftrightarrow> r = Crashes \<or> (\<exists>x. r = Returns x \<and> f x = Crashes)"
  by (cases r) simp_all

subsection \<open>Data\<close>

text \<open>A JSON object (\<^verbatim>\<open>map[string]any\<close>) is its text; an address is the bytes of an IP address and a port.\<close>

type_synonym json = string
type_synonym UDPAddr = "byte list \<times> int"

record KnockUser =
  UserId :: string
  OrganizationId :: string
  UserData :: "json option"

record KnockResource =
  AuthServiceId :: string
  ResourceId :: string
  ServerHostname :: string
  ServerIp :: string
  ServerPort :: int

definition sprintf_int :: "int \<Rightarrow> string" where
  "sprintf_int n = (if n < 0 then ''-'' @ sprintf_d (nat (- n)) else sprintf_d (nat n))"

definition resource_Id :: "KnockResource \<Rightarrow> string" where
  "resource_Id res = AuthServiceId res @ ''/'' @ ResourceId res"

definition ServerHost :: "KnockResource \<Rightarrow> string" where
  "ServerHost res =
     (let hostAddr = if ServerHostname res \<noteq> [] then ServerHostname res else ServerIp res
      in if ServerPort res = 0 then hostAddr else hostAddr @ '':'' @ sprintf_int (ServerPort res))"

text \<open>The fields of \<^verbatim>\<open>core.UdpPeer\<close> that name and find a server; \<open>Nhp_Responder\<close> has those that check one.\<close>

record ServerPeerData =
  PubKeyBase64 :: string
  Hostname :: string
  Ip :: string
  Port :: int
  PeerType :: int
  ExpireTime :: "64 word"
  lastNSLookupTime :: "64 word"
  resolvedIpArr :: "string list"
  primaryResolvedIp :: string

definition new_peer :: "string \<Rightarrow> string \<Rightarrow> string \<Rightarrow> int \<Rightarrow> int \<Rightarrow> 64 word \<Rightarrow> ServerPeerData" where
  "new_peer key ip hostname port t expire = \<lparr>PubKeyBase64 = key, Hostname = hostname, Ip = ip, Port = port, PeerType = t,
     ExpireTime = expire, lastNSLookupTime = 0, resolvedIpArr = [], primaryResolvedIp = ''''\<rparr>"

definition Host :: "ServerPeerData \<Rightarrow> string" where
  "Host p =
     (let hostAddr = if Hostname p \<noteq> [] then Hostname p else Ip p
      in if Port p = 0 then hostAddr else hostAddr @ '':'' @ sprintf_int (Port p))"

record KnockTarget =
  Resource :: KnockResource
  ServerPeer :: "nat option"
  LastKnockSuccessTime :: "64 word"

record Config =
  LogLevel :: int
  DefaultCipherScheme :: int
  PrivateKeyBase64 :: string
  ConfigUser :: KnockUser

text \<open>Of the device: its key, the counter of its packets and its map of peers.\<close>

record AgentDevice =
  privateKey :: "byte list"
  counterIndex :: "64 word"
  device_peers :: "(string \<times> nat) list"

text \<open>A channel that is only closed or signalled: not made, open, closed.\<close>

datatype channel = NilChannel | OpenChannel | ClosedChannel

record UdpAgent =
  config :: "Config option"
  knockUser :: KnockUser
  deviceId :: string
  checkResults :: "json option"
  device :: "AgentDevice option"
  peers :: "ServerPeerData list"
  serverPeerMap :: "(string \<times> nat) list option"
  knockTargetMap :: "(string \<times> KnockTarget) list option"
  stop :: channel
  knockTargetStop :: channel
  knockTargetMapUpdated :: channel
  update_pending :: bool
  base_watched :: bool
  knock_loops :: nat
  running :: bool

definition no_user :: KnockUser where
  "no_user = \<lparr>UserId = '''', OrganizationId = '''', UserData = None\<rparr>"

text \<open>\<^verbatim>\<open>&UdpAgent{}\<close>\<close>

definition zero_agent :: UdpAgent where
  "zero_agent = \<lparr>config = None, knockUser = no_user, deviceId = '''', checkResults = None, device = None, peers = [],
     serverPeerMap = None, knockTargetMap = None, stop = NilChannel, knockTargetStop = NilChannel,
     knockTargetMapUpdated = NilChannel, update_pending = False, base_watched = False, knock_loops = 0, running = False\<rparr>"

text \<open>What the agent hands out, and the world around it; a context is a process with the agent at work.\<close>

record 'w process =
  ExeDirPath :: string
  sendMsgCh :: "(UDPAddr \<times> MsgData) list"
  accessMsgs :: "(UDPAddr \<times> MsgData) list"
  world :: 'w

record 'w ctx = "'w process" +
  agent :: UdpAgent

subsection \<open>The world of the agent\<close>

record AgentKnockMsg =
  knk_UserId :: string
  knk_DeviceId :: string
  knk_OrganizationId :: string
  knk_AuthServiceId :: string
  knk_ResourceId :: string
  knk_CheckResults :: "json option"
  knk_UserData :: "json option"

record AgentAccessMsg =
  acc_UserId :: string
  acc_DeviceId :: string
  acc_OrganizationId :: string
  acc_ACToken :: string
  acc_UserData :: "json option"

record PreAccessInfo =
  AccessIp :: string
  AccessPort :: string
  ACPubKey :: string
  ACToken :: string

record ServerKnockAckMsg =
  ErrCode :: string
  ErrMsg :: string
  ResourceHost :: "(string \<times> string) list"
  OpenTime :: "32 word"
  AuthProviderToken :: string
  AgentAddr :: string
  ACTokens :: "(string \<times> string) list"
  PreAccessActions :: "(string \<times> PreAccessInfo option) list"
  RedirectUrl :: string

text \<open>
  Libraries, system and network: reading a file (\<^term>\<open>None\<close> is an error), what \<^verbatim>\<open>toml.Unmarshal\<close> leaves in the
  structure, whether it reports an error or not, \<^verbatim>\<open>DecodeString\<close> with the bytes it read and whether it
  saw no error, whether \<^verbatim>\<open>core.NewDevice\<close> accepts a key that is not too short, \<^verbatim>\<open>net.LookupHost\<close>, which returns one address at
  least or an error, \<^verbatim>\<open>net.ParseIP\<close>, \<^verbatim>\<open>encoding/json\<close>, clock and sleep, and the order in which a \<^verbatim>\<open>range\<close>
  visits the keys of a map. \<open>Exchange\<close> is the way of a message from \<^verbatim>\<open>sendMsgCh\<close> to its response channel
  (connections and transactions, \<open>Nhp_Transactions\<close>), \<open>SealAccess\<close> the way of an access message
  to its encrypted packet and to the ports of the access controller, and \<open>Finish\<close> the wait of \<^verbatim>\<open>Stop\<close> for the
  goroutines of the device (\<^verbatim>\<open>device.Stop\<close>) and of the agent (\<^verbatim>\<open>wg.Wait\<close>). While a call waits in one of them, the other
  goroutines run: \<^term>\<open>Crashes\<close> means that one of them panics, as forged answers can bring about
  (\<open>Nhp_Transaction_Properties\<close>), \<^term>\<open>Blocks\<close> that the wait never ends: nothing comes back when no socket can be
  opened or a queue is full, and \<open>Finish\<close> waits for knocks whose message nobody sends any more.
\<close>

record 'w agent_env =
  ReadFile :: "string list \<Rightarrow> 'w \<Rightarrow> byte list option \<times> 'w"
  toml_Config :: "byte list \<Rightarrow> Config"
  toml_Servers :: "byte list \<Rightarrow> ServerPeerData list"
  toml_Resources :: "byte list \<Rightarrow> KnockResource list"
  base64_Decode :: "string \<Rightarrow> byte list \<times> bool"
  NewDevice_accepts :: "byte list \<Rightarrow> bool"
  LookupHost :: "string \<Rightarrow> 'w \<Rightarrow> (string \<times> string list) option \<times> 'w"
  net_ParseIP :: "string \<Rightarrow> byte list option"
  json_Object :: "string \<Rightarrow> json option"
  json_Knock :: "AgentKnockMsg \<Rightarrow> byte list"
  json_Access :: "AgentAccessMsg \<Rightarrow> byte list"
  json_Ack :: "byte list \<Rightarrow> ServerKnockAckMsg \<times> string option"
  json_Reply :: "ServerKnockAckMsg \<Rightarrow> string"
  core_Error :: "nhp_error \<Rightarrow> string"
  Now :: "'w \<Rightarrow> 64 word \<times> 'w"
  Sleep :: "64 word \<Rightarrow> 'w \<Rightarrow> 'w"
  iterate :: "string list \<Rightarrow> 'w \<Rightarrow> string list \<times> 'w"
  Exchange :: "UDPAddr \<Rightarrow> MsgData \<Rightarrow> 'w \<Rightarrow> (trx_result \<times> 'w) outcome"
  SealAccess :: "UDPAddr \<Rightarrow> MsgData \<Rightarrow> 'w \<Rightarrow> 'w outcome"
  Finish :: "'w \<Rightarrow> 'w outcome"

subsection \<open>Channels\<close>

definition close_channel :: "channel \<Rightarrow> channel outcome" where
  "close_channel ch = (if ch = OpenChannel then Returns ClosedChannel else Crashes)"

text \<open>\<^verbatim>\<open>if len(knockTargetMapUpdated) == 0\<close> then a signal is put on the channel, which has room for one.\<close>

definition signal_update :: "'w ctx \<Rightarrow> 'w ctx outcome" where
  "signal_update c =
     (if update_pending (agent c) then Returns c
      else case knockTargetMapUpdated (agent c) of
          NilChannel \<Rightarrow> Blocks
        | OpenChannel \<Rightarrow> Returns (c\<lparr>agent := (agent c)\<lparr>update_pending := True\<rparr>\<rparr>)
        | ClosedChannel \<Rightarrow> Crashes)"

subsection \<open>Peers and servers\<close>

text \<open>\<^verbatim>\<open>ResolveHost\<close>: the name is looked up again at most every 300 seconds.\<close>

definition MinimalNSLookupInterval :: "64 word" where "MinimalNSLookupInterval = 300"

definition ResolveHost :: "'w agent_env \<Rightarrow> nat \<Rightarrow> 'w ctx \<Rightarrow> string \<times> 'w ctx" where
  "ResolveHost E r c =
     (let p = peers (agent c) ! r
      in if Hostname p = [] then (Ip p, c)
         else let (currTime, w) = Now E (world c);
                  (p', w') = (if MinimalNSLookupInterval * Second <s currTime - lastNSLookupTime p
                    then (case LookupHost E (Hostname p) w of
                        (None, w') \<Rightarrow> (p, w')
                      | (Some (addr, others), w') \<Rightarrow>
                          (p\<lparr>lastNSLookupTime := currTime, resolvedIpArr := addr # others, primaryResolvedIp := addr\<rparr>, w'))
                    else (p, w))
              in (if primaryResolvedIp p' \<noteq> [] then primaryResolvedIp p' else Ip p',
                  c\<lparr>world := w', agent := (agent c)\<lparr>peers := (peers (agent c))[r := p']\<rparr>\<rparr>))"

definition SendAddr :: "'w agent_env \<Rightarrow> nat \<Rightarrow> 'w ctx \<Rightarrow> UDPAddr option \<times> 'w ctx" where
  "SendAddr E r c =
     (let (resolvedIp, c') = ResolveHost E r c
      in (map_option (\<lambda>ip. (ip, Port (peers (agent c') ! r))) (net_ParseIP E resolvedIp), c'))"

definition PublicKey :: "'w agent_env \<Rightarrow> ServerPeerData \<Rightarrow> byte list" where
  "PublicKey E p = fst (base64_Decode E (PubKeyBase64 p))"

definition AddPeer :: "string \<Rightarrow> nat \<Rightarrow> AgentDevice \<Rightarrow> AgentDevice" where
  "AddPeer key r d = d\<lparr>device_peers := AList.update key r (device_peers d)\<rparr>"

definition RemovePeer :: "string \<Rightarrow> AgentDevice \<Rightarrow> AgentDevice" where
  "RemovePeer key d = d\<lparr>device_peers := AList.delete key (device_peers d)\<rparr>"

definition FindServerPeerFromResource :: "'w agent_env \<Rightarrow> KnockResource \<Rightarrow> 'w ctx \<Rightarrow> nat option \<times> 'w ctx" where
  "FindServerPeerFromResource E res c =
     (let m = (case serverPeerMap (agent c) of None \<Rightarrow> [] | Some m \<Rightarrow> m);
          (ks, w) = iterate E (map fst m) (world c)
      in (find (\<lambda>r. Host (peers (agent c) ! r) = ServerHost res) (List.map_filter (map_of m) ks), c\<lparr>world := w\<rparr>))"

text \<open>\<^verbatim>\<open>AddServer\<close>, with the peer the caller allocated.\<close>

definition AddServer :: "ServerPeerData \<Rightarrow> 'w ctx \<Rightarrow> 'w ctx outcome" where
  "AddServer server c =
     (let a = agent c; r = length (peers a); a1 = a\<lparr>peers := peers a @ [server]\<rparr>; key = PubKeyBase64 server
      in if PeerType server = NHP_SERVER
         then (case device a of None \<Rightarrow> Crashes
           | Some d \<Rightarrow> (case serverPeerMap a of None \<Rightarrow> Crashes
               | Some m \<Rightarrow> Returns (c\<lparr>agent := a1\<lparr>device := Some (AddPeer key r d), serverPeerMap := Some (AList.update key r m)\<rparr>\<rparr>)))
         else Returns (c\<lparr>agent := a1\<rparr>))"

definition RemoveServer :: "string \<Rightarrow> 'w ctx \<Rightarrow> 'w ctx" where
  "RemoveServer key c = c\<lparr>agent := (agent c)\<lparr>serverPeerMap := map_option (AList.delete key) (serverPeerMap (agent c))\<rparr>\<rparr>"

subsection \<open>Resources\<close>

definition new_target :: "KnockResource \<Rightarrow> nat \<Rightarrow> KnockTarget" where
  "new_target res r = \<lparr>Resource = res, ServerPeer = Some r, LastKnockSuccessTime = 0\<rparr>"

text \<open>\<^verbatim>\<open>AddResource\<close>, with whether it was added; a target that exists keeps its time.\<close>

definition AddResource :: "'w agent_env \<Rightarrow> KnockResource \<Rightarrow> 'w ctx \<Rightarrow> (bool \<times> 'w ctx) outcome" where
  "AddResource E res c =
     (case FindServerPeerFromResource E res c of
        (None, c1) \<Rightarrow> Returns (False, c1)
      | (Some r, c1) \<Rightarrow>
         (case knockTargetMap (agent c1) of
            None \<Rightarrow> Crashes
          | Some m \<Rightarrow>
             (case map_of m (resource_Id res) of
                Some target \<Rightarrow> Returns (True, c1\<lparr>agent := (agent c1)\<lparr>knockTargetMap :=
                  Some (AList.update (resource_Id res) (target\<lparr>Resource := res, ServerPeer := Some r\<rparr>) m)\<rparr>\<rparr>)
              | None \<Rightarrow> out_bind (signal_update (c1\<lparr>agent := (agent c1)\<lparr>knockTargetMap :=
                  Some (AList.update (resource_Id res) (new_target res r) m)\<rparr>\<rparr>)) (\<lambda>c2. Returns (True, c2)))))"

definition RemoveResource :: "string \<Rightarrow> string \<Rightarrow> 'w ctx \<Rightarrow> 'w ctx outcome" where
  "RemoveResource aspId resId c =
     (let res = \<lparr>AuthServiceId = aspId, ResourceId = resId, ServerHostname = '''', ServerIp = '''', ServerPort = 0\<rparr>;
          m = knockTargetMap (agent c); m' = map_option (AList.delete (resource_Id res)) m;
          size = (\<lambda>m. case m of None \<Rightarrow> 0 | Some m \<Rightarrow> length m);
          c1 = c\<lparr>agent := (agent c)\<lparr>knockTargetMap := m'\<rparr>\<rparr>
      in if size m \<noteq> size m' then signal_update c1 else Returns c1)"

subsection \<open>Configuration files\<close>

definition ReadConfig :: "'w agent_env \<Rightarrow> string \<Rightarrow> 'w ctx \<Rightarrow> byte list option \<times> 'w ctx" where
  "ReadConfig E file c =
     (let (content, w) = ReadFile E [ExeDirPath c, ''etc'', file] (world c) in (content, c\<lparr>world := w\<rparr>))"

definition content_bytes :: "byte list option \<Rightarrow> byte list" where
  "content_bytes content = (case content of None \<Rightarrow> [] | Some bs \<Rightarrow> bs)"

text \<open>
  Each returns whether it saw no error. An error of \<^verbatim>\<open>toml.Unmarshal\<close> is assigned to a variable of the \<^verbatim>\<open>if\<close>
  only and is not returned. Once there is a configuration, only log level and scheme of it change.
\<close>

definition updateBaseConfig :: "'w agent_env \<Rightarrow> 'w ctx \<Rightarrow> bool \<times> 'w ctx" where
  "updateBaseConfig E c =
     (let (content, c1) = ReadConfig E ''config.toml'' c; conf = toml_Config E (content_bytes content);
          a = (agent c1)\<lparr>knockUser := ConfigUser conf\<rparr>
      in (content \<noteq> None, c1\<lparr>agent := (case config a of
            None \<Rightarrow> a\<lparr>config := Some conf\<rparr>
          | Some old \<Rightarrow> a\<lparr>config := Some (old\<lparr>LogLevel := LogLevel conf, DefaultCipherScheme := DefaultCipherScheme conf\<rparr>)\<rparr>)\<rparr>))"

text \<open>Device, peers and new map after the server \<open>p\<close> of the file.\<close>

fun load_server :: "ServerPeerData \<Rightarrow> AgentDevice \<times> ServerPeerData list \<times> (string \<times> nat) list \<Rightarrow>
    AgentDevice \<times> ServerPeerData list \<times> (string \<times> nat) list" where
  "load_server p (d, ps, m) =
     (AddPeer (PubKeyBase64 p) (length ps) d, ps @ [p\<lparr>PeerType := NHP_SERVER\<rparr>], AList.update (PubKeyBase64 p) (length ps) m)"

definition updateServerPeers :: "'w agent_env \<Rightarrow> 'w ctx \<Rightarrow> (bool \<times> 'w ctx) outcome" where
  "updateServerPeers E c =
     (let (content, c1) = ReadConfig E ''server.toml'' c; a = agent c1;
          servers = toml_Servers E (content_bytes content);
          old = (case serverPeerMap a of None \<Rightarrow> [] | Some m \<Rightarrow> m)
      in case device a of
           None \<Rightarrow> (if servers = [] \<and> old = [] then Returns (content \<noteq> None, c1\<lparr>agent := a\<lparr>serverPeerMap := Some []\<rparr>\<rparr>) else Crashes)
         | Some d \<Rightarrow>
            (let (d1, ps, m) = fold load_server servers (d, peers a, []);
                 d2 = fold RemovePeer (filter (\<lambda>key. map_of m key = None) (map fst old)) d1
             in Returns (content \<noteq> None, c1\<lparr>agent := a\<lparr>device := Some d2, peers := ps, serverPeerMap := Some m\<rparr>\<rparr>)))"

fun load_targets :: "'w agent_env \<Rightarrow> KnockResource list \<Rightarrow> (string \<times> KnockTarget) list \<Rightarrow> 'w ctx \<Rightarrow>
    (string \<times> KnockTarget) list \<times> 'w ctx" where
  "load_targets E [] m c = (m, c)"
| "load_targets E (res # rest) m c =
     (case FindServerPeerFromResource E res c of
        (None, c1) \<Rightarrow> load_targets E rest m c1
      | (Some r, c1) \<Rightarrow> load_targets E rest (AList.update (resource_Id res) (new_target res r) m) c1)"

definition updateResources :: "'w agent_env \<Rightarrow> 'w ctx \<Rightarrow> (bool \<times> 'w ctx) outcome" where
  "updateResources E c =
     (let (content, c1) = ReadConfig E ''resource.toml'' c;
          (m, c2) = load_targets E (toml_Resources E (content_bytes content)) [] c1;
          c3 = c2\<lparr>agent := (agent c2)\<lparr>knockTargetMap := Some m\<rparr>\<rparr>
      in if knockTargetMap (agent c2) = None then Returns (content \<noteq> None, c3)
         else out_bind (signal_update c3) (\<lambda>c4. Returns (content \<noteq> None, c4)))"

subsection \<open>Start and stop\<close>

text \<open>
  \<^verbatim>\<open>Start\<close> with whether it saw no error; it returns early with what it has done so far. The logger, the file
  \<^verbatim>\<open>dhp.toml\<close>, whose errors it ignores, and the maps of the data objects are left out: nothing here reads them.
\<close>

definition Start :: "'w agent_env \<Rightarrow> string \<Rightarrow> 'w ctx \<Rightarrow> (bool \<times> 'w ctx) outcome" where
  "Start E dirPath c =
     (let (ok, c1) = updateBaseConfig E (c\<lparr>ExeDirPath := dirPath\<rparr>) in
      if \<not> ok then Returns (False, c1)
      else let c1 = c1\<lparr>agent := (agent c1)\<lparr>base_watched := True\<rparr>\<rparr>; key = (case config (agent c1) of None \<Rightarrow> '''' | Some conf \<Rightarrow> PrivateKeyBase64 conf);
          (prk, decoded) = base64_Decode E key in
      if \<not> decoded then Returns (False, c1)
      else if SetPrivateKey_panics key then Crashes
      else if \<not> NewDevice_accepts E prk then Returns (False, c1)
      else
        let c2 = c1\<lparr>agent := (agent c1)\<lparr>device := Some \<lparr>privateKey = prk, counterIndex = 0, device_peers = []\<rparr>\<rparr>\<rparr>
        in out_bind (updateServerPeers E c2) (\<lambda>(_, c3).
             let c4 = c3\<lparr>agent := (agent c3)\<lparr>stop := OpenChannel, knockTargetStop := OpenChannel,
                   knockTargetMapUpdated := OpenChannel\<rparr>\<rparr>
             in out_bind (updateResources E c4) (\<lambda>(_, c5).
                  Returns (True, c5\<lparr>agent := (agent c5)\<lparr>running := True\<rparr>, world := Sleep E (1000 * Millisecond) (world c5)\<rparr>))))"

text \<open>
  \<^verbatim>\<open>StartKnockLoop\<close> starts a goroutine, which knocks for every target until the loop is stopped; what it does
  from then on, next to the calls, is not part of the model, which only counts these goroutines.
\<close>

definition StartKnockLoop :: "'w ctx \<Rightarrow> nat \<times> 'w ctx" where
  "StartKnockLoop c = (case knockTargetMap (agent c) of None \<Rightarrow> 0 | Some m \<Rightarrow> length m,
     c\<lparr>agent := (agent c)\<lparr>knock_loops := Suc (knock_loops (agent c))\<rparr>\<rparr>)"

definition StopKnockLoop :: "'w ctx \<Rightarrow> 'w ctx outcome" where
  "StopKnockLoop c = out_bind (close_channel (knockTargetStop (agent c))) (\<lambda>ch.
     Returns (c\<lparr>agent := (agent c)\<lparr>knockTargetStop := ch\<rparr>\<rparr>))"

definition SetKnockUser :: "string \<Rightarrow> string \<Rightarrow> json option \<Rightarrow> 'w ctx \<Rightarrow> 'w ctx" where
  "SetKnockUser usrId orgId userData c =
     c\<lparr>agent := (agent c)\<lparr>knockUser := \<lparr>UserId = usrId, OrganizationId = orgId, UserData = userData\<rparr>\<rparr>\<rparr>"

definition SetDeviceId :: "string \<Rightarrow> 'w ctx \<Rightarrow> 'w ctx" where
  "SetDeviceId devId c = c\<lparr>agent := (agent c)\<lparr>deviceId := devId\<rparr>\<rparr>"

text \<open>
  \<^verbatim>\<open>Stop\<close>. \<open>Finish\<close> stands for \<^verbatim>\<open>device.Stop\<close> and \<^verbatim>\<open>wg.Wait\<close>; the file watchers, closed between the two, and
  \<^verbatim>\<open>sendMsgCh\<close>, closed after them, are left out.
\<close>

definition Stop :: "'w agent_env \<Rightarrow> 'w ctx \<Rightarrow> 'w ctx outcome" where
  "Stop E c =
     (let c1 = c\<lparr>agent := (agent c)\<lparr>running := False\<rparr>\<rparr> in
      out_bind (close_channel (knockTargetStop (agent c1))) (\<lambda>ch1.
      out_bind (close_channel (stop (agent c1))) (\<lambda>ch2.
      case device (agent c1) of
        None \<Rightarrow> Crashes
      | Some d \<Rightarrow> out_bind (Finish E (world c1)) (\<lambda>w.
          out_bind (close_channel (knockTargetMapUpdated (agent c1))) (\<lambda>ch3.
          Returns (c1\<lparr>world := w, agent := (agent c1)\<lparr>knockTargetStop := ch1, stop := ch2, knockTargetMapUpdated := ch3,
            knock_loops := 0\<rparr>\<rparr>))))))"

end
