(* ===== verification/Agent_Knock.thy ===== *)
theory Agent_Knock
  imports Agent_Sdk
begin

text \<open>
  Knocking: \<^verbatim>\<open>Knock\<close>, \<^verbatim>\<open>ExitKnockRequest\<close> and the pre-access messages of \<^verbatim>\<open>endpoints/agent/knock.go\<close>, with the
  errors of \<^verbatim>\<open>nhp/common/errors.go\<close> they report. The two requests share their text but for the type of
  the message and the code of a failed transaction (\<open>access_request\<close>).
\<close>

subsection \<open>Errors\<close>

text \<open>Name, code and English message.\<close>

definition common_errors :: "(string \<times> string \<times> string) list" where
  "common_errors = [
     (''ErrSuccess'', ''0'', ''''),
     (''ErrExit'', ''1'', ''must exit''),
     (''ErrJsonParseFailed'', ''50001'', ''json parse failed''),
     (''ErrTransactionIdNotFound'', ''50002'', ''transaction id not found''),
     (''ErrTransactionFailedByTimeout'', ''50003'', ''transaction failed due to time out''),
     (''ErrTransactionFailedByClosedConnection'', ''50004'', ''transaction failed by closed connection''),
     (''ErrTransactionFailedByClosedDevice'', ''50005'', ''transaction failed by closed device''),
     (''ErrTransactionRepliedWithWrongType'', ''50006'', ''transaction replied wrong type''),
     (''ErrPacketToMessageRoutineStopped'', ''50007'', ''packet to message routine stopped''),
     (''ErrInvalidIpAddress'', ''50008'', ''invalid ip address''),
     (''ErrPacketEncryptionFailed'', ''50009'', ''packet encryption failed''),
     (''ErrKnockUserNotSpecified'', ''51001'', ''knock user not specified''),
     (''ErrKnockServerNotFound'', ''51002'', ''failed to find knock server''),
     (''ErrKnockTerminatedByCookie'', ''51003'', ''knock terminated by cookie''),
     (''ErrNoAgentInstance'', ''51100'', ''agent instance does not exist''),
     (''ErrInvalidInput'', ''51101'', ''invalid input parameter''),
     (''ErrKnockApiRequestFailed'', ''52001'', ''knock api request failed''),
     (''ErrAuthServiceProviderNotFound'', ''52002'', ''failed to find auth service provider''),
     (''ErrACConnectionNotFound'', ''52003'', ''failed to find ac connection''),
     (''ErrResourceNotFound'', ''52004'', ''failed to find resource''),
     (''ErrServerACOpsFailed'', ''52005'', ''server ac operation failed''),
     (''ErrAuthHandlerNotFound'', ''52006'', ''failed to find auth handler''),
     (''ErrBackendAuthRequired'', ''52007'', ''server backend auth required''),
     (''ErrUrlPathInvalid'', ''52008'', ''client request url path is invalid''),
     (''ErrACOperationFailed'', ''53001'', ''ac operation failed''),
     (''ErrACEmptyPassAddress'', ''53002'', ''pass address is empty''),
     (''ErrACIPSetNotFound'', ''53003'', ''ipset not found''),
     (''ErrACIPSetOperationFailed'', ''53004'', ''ipset operation failed''),
     (''ErrACTempPortListenFailed'', ''53005'', ''temporary port listening failed''),
     (''ErrACResolveTempPortFailed'', ''53006'', ''resolve temporary port failed''),
     (''ErrHttpRequestFailed'', ''54001'', ''http request failed''),
     (''ErrHttpResponseFormatError'', ''54002'', ''http response format error''),
     (''ErrHttpReturnedWithError'', ''54003'', ''http returns with error''),
     (''ErrHttpResourceAddressNotFound'', ''54004'', ''http resource address not found''),
     (''ErrTEENotAuthorized'', ''55001'', ''TEE is  not authorized''),
     (''ErrDataPrivateKeyStore'', ''55002'', ''data private key store error''),
     (''ErrEvidenceAppraisalFailed'', ''55003'', ''remote attestation appraisal failed''),
     (''ErrEvidenceGetFailed'', ''55004'', ''failed to get evidence''),
     (''ErrDBOffline'', ''55005'', ''data broker offline'')]"

definition ErrorCode :: "string \<Rightarrow> string" where
  "ErrorCode name = (case map_of common_errors name of None \<Rightarrow> '''' | Some (code, _) \<Rightarrow> code)"

definition Error_EN :: "string \<Rightarrow> string" where
  "Error_EN name = (case map_of common_errors name of None \<Rightarrow> '''' | Some (_, msg) \<Rightarrow> msg)"

text \<open>
  An \<^verbatim>\<open>error\<close>: one of the table, by its name; a nil \<^verbatim>\<open>*common.Error\<close>, which is not a nil \<^verbatim>\<open>error\<close>; the error of a
  message that was not sealed or not opened; the error of a JSON text.
\<close>

datatype agent_error = CommonError string | NilCommonError | DeviceError nhp_error | JsonError string

definition ErrorCodeToError :: "string \<Rightarrow> agent_error" where
  "ErrorCodeToError code = (case find (\<lambda>(_, c, _). c = code) common_errors of
      None \<Rightarrow> NilCommonError | Some (name, _) \<Rightarrow> CommonError name)"

fun trx_name :: "trx_error \<Rightarrow> string" where
  "trx_name ErrTransactionFailedByClosedConnection = ''ErrTransactionFailedByClosedConnection''"
| "trx_name ErrTransactionFailedByClosedDevice = ''ErrTransactionFailedByClosedDevice''"
| "trx_name ErrTransactionFailedByTimeout = ''ErrTransactionFailedByTimeout''"

subsection \<open>Answers\<close>

definition empty_ack :: ServerKnockAckMsg where
  "empty_ack = \<lparr>ErrCode = '''', ErrMsg = '''', ResourceHost = [], OpenTime = 0, AuthProviderToken = '''', AgentAddr = '''',
     ACTokens = [], PreAccessActions = [], RedirectUrl = ''''\<rparr>"

definition failed_ack :: "string \<Rightarrow> ServerKnockAckMsg" where
  "failed_ack name = empty_ack\<lparr>ErrCode := ErrorCode name, ErrMsg := Error_EN name\<rparr>"

text \<open>What \<^verbatim>\<open>knockRequest\<close> makes of the message on the response channel; \<open>failure\<close> names the code of a failed transaction.\<close>

definition read_reply :: "'w agent_env \<Rightarrow> PacketParserData \<Rightarrow> ServerKnockAckMsg \<times> agent_error option" where
  "read_reply E serverPpd =
     (if ppd_HeaderType serverPpd = NHP_COK
      then (failed_ack ''ErrKnockTerminatedByCookie'', Some (CommonError ''ErrKnockTerminatedByCookie''))
      else if ppd_HeaderType serverPpd \<noteq> NHP_ACK
      then (failed_ack ''ErrTransactionRepliedWithWrongType'', Some (CommonError ''ErrTransactionRepliedWithWrongType''))
      else (case json_Ack E (ppd_BodyMessage serverPpd) of
          (ackMsg, Some err) \<Rightarrow> (ackMsg\<lparr>ErrCode := ErrorCode ''ErrJsonParseFailed'', ErrMsg := err\<rparr>, Some (JsonError err))
        | (ackMsg, None) \<Rightarrow>
            if ErrCode ackMsg \<noteq> ErrorCode ''ErrSuccess'' then (ackMsg, Some (ErrorCodeToError (ErrCode ackMsg)))
            else (ackMsg, None)))"

fun read_ack :: "'w agent_env \<Rightarrow> string \<Rightarrow> trx_result \<Rightarrow> ServerKnockAckMsg \<times> agent_error option" where
  "read_ack E failure (Failed e) =
     (empty_ack\<lparr>ErrCode := ErrorCode failure, ErrMsg := core_Error E e\<rparr>, Some (DeviceError e))"
| "read_ack E failure (Aborted e) =
     (empty_ack\<lparr>ErrCode := ErrorCode failure, ErrMsg := Error_EN (trx_name e)\<rparr>, Some (CommonError (trx_name e)))"
| "read_ack E failure (Answer serverPpd) = read_reply E serverPpd"
| "read_ack E failure (External serverPpd) = read_reply E serverPpd"

subsection \<open>Requests\<close>

definition knock_msg :: "UdpAgent \<Rightarrow> KnockResource \<Rightarrow> AgentKnockMsg" where
  "knock_msg a res = \<lparr>knk_UserId = UserId (knockUser a), knk_DeviceId = deviceId a, knk_OrganizationId = OrganizationId (knockUser a),
     knk_AuthServiceId = AuthServiceId res, knk_ResourceId = ResourceId res, knk_CheckResults = checkResults a,
     knk_UserData = UserData (knockUser a)\<rparr>"

definition knock_data :: "'w agent_env \<Rightarrow> UdpAgent \<Rightarrow> int \<Rightarrow> 64 word \<Rightarrow> KnockResource \<Rightarrow> ServerPeerData \<Rightarrow> MsgData" where
  "knock_data E a t n res p = \<lparr>md_CipherScheme = (case config a of None \<Rightarrow> 0 | Some conf \<Rightarrow> DefaultCipherScheme conf),
     md_TransactionId = n, md_HeaderType = t, md_Compress = True, md_ClPkc = False, md_ExternalCookie = None,
     md_ConnCookie = None, md_Message = json_Knock E (knock_msg a res), md_PeerPk = Some (PublicKey E p)\<rparr>"

definition NextCounterIndex :: "AgentDevice \<Rightarrow> 64 word \<times> AgentDevice" where
  "NextCounterIndex d = (let n = counterIndex d + 1 in (n, d\<lparr>counterIndex := n\<rparr>))"

type_synonym ack = "ServerKnockAckMsg option \<times> agent_error option"

definition access_request :: "'w agent_env \<Rightarrow> int \<Rightarrow> string \<Rightarrow> KnockTarget \<Rightarrow> 'w ctx \<Rightarrow> (ack \<times> 'w ctx) outcome" where
  "access_request E t failure target c =
     (case ServerPeer target of
        None \<Rightarrow> Returns ((None, Some (CommonError ''ErrKnockServerNotFound'')), c)
      | Some r \<Rightarrow>
     (case SendAddr E r c of
        (None, c1) \<Rightarrow> Returns ((None, Some (CommonError ''ErrKnockServerNotFound'')), c1)
      | (Some addr, c1) \<Rightarrow>
     (case device (agent c1) of
        None \<Rightarrow> Crashes
      | Some d \<Rightarrow>
        (let (n, d') = NextCounterIndex d; a = (agent c1)\<lparr>device := Some d'\<rparr>; c2 = c1\<lparr>agent := a\<rparr>;
             md = knock_data E a t n (Resource target) (peers a ! r)
         in if \<not> running a then Returns ((Some (failed_ack ''ErrPacketToMessageRoutineStopped''),
                Some (CommonError ''ErrPacketToMessageRoutineStopped'')), c2)
            else out_bind (Exchange E addr md (world c2)) (\<lambda>(result, w).
                let (ackMsg, err) = read_ack E failure result
                in Returns ((Some ackMsg, err), c2\<lparr>sendMsgCh := sendMsgCh c2 @ [(addr, md)], world := w\<rparr>))))))"

definition knockRequest :: "'w agent_env \<Rightarrow> KnockTarget \<Rightarrow> bool \<Rightarrow> 'w ctx \<Rightarrow> (ack \<times> 'w ctx) outcome" where
  "knockRequest E target useCookie c =
     access_request E (if useCookie then NHP_RKN else NHP_KNK) ''ErrPacketEncryptionFailed'' target c"

definition ExitKnockRequest :: "'w agent_env \<Rightarrow> KnockTarget \<Rightarrow> 'w ctx \<Rightarrow> (ack \<times> 'w ctx) outcome" where
  "ExitKnockRequest E target c = access_request E NHP_EXT ''ErrTransactionFailedByTimeout'' target c"

subsection \<open>Pre-access\<close>

text \<open>\<^verbatim>\<open>strconv.Atoi\<close> without its error: 0 for what is no number, the nearest \<^verbatim>\<open>int\<close> for one that is too large.\<close>

definition Atoi :: "string \<Rightarrow> int" where
  "Atoi s =
     (let negative = (s \<noteq> [] \<and> hd s = CHR ''-''); ds = (if s \<noteq> [] \<and> (hd s = CHR ''-'' \<or> hd s = CHR ''+'') then tl s else s);
          n = int (parse_decimal ds)
      in if ds = [] \<or> \<not> list_all is_digit ds then 0
         else if negative then max (- (2 ^ 63)) (- n) else min (2 ^ 63 - 1) n)"

definition access_data :: "'w agent_env \<Rightarrow> UdpAgent \<Rightarrow> 64 word \<Rightarrow> PreAccessInfo \<Rightarrow> MsgData" where
  "access_data E a n info = \<lparr>md_CipherScheme = (case config a of None \<Rightarrow> 0 | Some conf \<Rightarrow> DefaultCipherScheme conf),
     md_TransactionId = n, md_HeaderType = NHP_ACC, md_Compress = True, md_ClPkc = False, md_ExternalCookie = None,
     md_ConnCookie = None, md_Message = json_Access E \<lparr>acc_UserId = UserId (knockUser a), acc_DeviceId = deviceId a,
       acc_OrganizationId = OrganizationId (knockUser a), acc_ACToken = ACToken info, acc_UserData = UserData (knockUser a)\<rparr>,
     md_PeerPk = Some (fst (base64_Decode E (ACPubKey info)))\<rparr>"

text \<open>\<^verbatim>\<open>processPreAccessAction\<close>: the access controller becomes a peer of the device, without a type and for ever.\<close>

definition processPreAccessAction :: "'w agent_env \<Rightarrow> PreAccessInfo \<Rightarrow> 'w ctx \<Rightarrow> 'w ctx outcome" where
  "processPreAccessAction E info c =
     (case net_ParseIP E (AccessIp info) of
        None \<Rightarrow> Returns c
      | Some acIp \<Rightarrow>
        (let acPort = Atoi (AccessPort info) in
         if acPort \<le> 0 then Returns c
         else (case device (agent c) of
             None \<Rightarrow> Crashes
           | Some d \<Rightarrow>
             (let a = agent c; acPeer = new_peer (ACPubKey info) (AccessIp info) '''' acPort 0 0;
                  (n, d') = NextCounterIndex (AddPeer (ACPubKey info) (length (peers a)) d);
                  a1 = a\<lparr>device := Some d', peers := peers a @ [acPeer]\<rparr>; md = access_data E a1 n info
              in if \<not> running a1 then Returns (c\<lparr>agent := a1\<rparr>)
                 else out_bind (SealAccess E (acIp, acPort) md (world c)) (\<lambda>w.
                   Returns (c\<lparr>agent := a1, accessMsgs := accessMsgs c @ [((acIp, acPort), md)], world := w\<rparr>))))))"

text \<open>
  \<^verbatim>\<open>preAccessRequest\<close>; its goroutines run one after the other, in the order of the iteration. It waits for
  them, so a panic in one of them is a \<^term>\<open>Crashes\<close> of \<open>SealAccess\<close>.
\<close>

fun run_actions :: "'w agent_env \<Rightarrow> PreAccessInfo option list \<Rightarrow> 'w ctx \<Rightarrow> 'w ctx outcome" where
  "run_actions E [] c = Returns c"
| "run_actions E (None # rest) c = run_actions E rest c"
| "run_actions E (Some info # rest) c = out_bind (processPreAccessAction E info c) (run_actions E rest)"

definition preAccessRequest :: "'w agent_env \<Rightarrow> ServerKnockAckMsg \<Rightarrow> 'w ctx \<Rightarrow> 'w ctx outcome" where
  "preAccessRequest E ackMsg c =
     (if UserId (knockUser (agent c)) = [] then Returns c
      else let (ks, w) = iterate E (map fst (PreAccessActions ackMsg)) (world c)
           in run_actions E (List.map_filter (map_of (PreAccessActions ackMsg)) ks) (c\<lparr>world := w\<rparr>))"

subsection \<open>Knock\<close>

definition AgentLocalTransactionResponseTimeoutMs :: "64 word" where "AgentLocalTransactionResponseTimeoutMs = 5 * 1000"

definition errWaitTime :: "64 word" where
  "errWaitTime = (AgentLocalTransactionResponseTimeoutMs - 100) * Millisecond"

text \<open>Waiting for what is left of the time an error takes at least.\<close>

definition wait_error :: "'w agent_env \<Rightarrow> 64 word \<Rightarrow> 'w ctx \<Rightarrow> 'w ctx" where
  "wait_error E startTime c =
     (let (now, w) = Now E (world c); elapsedTime = now - startTime
      in if elapsedTime <s errWaitTime then c\<lparr>world := Sleep E (errWaitTime - elapsedTime) w\<rparr> else c\<lparr>world := w\<rparr>)"

text \<open>What \<^verbatim>\<open>Knock\<close> does with the result of its last request.\<close>

definition knock_done :: "'w agent_env \<Rightarrow> 64 word \<Rightarrow> KnockTarget \<Rightarrow> ack \<times> 'w ctx \<Rightarrow> ((ack \<times> KnockTarget) \<times> 'w ctx) outcome" where
  "knock_done E startTime target = (\<lambda>((ackMsg, err), c).
     case ackMsg of
        None \<Rightarrow> Crashes
      | Some msg \<Rightarrow>
          if ErrCode msg = ErrorCode ''ErrPacketEncryptionFailed'' then Returns (((ackMsg, err), target), c)
          else if err \<noteq> None then Returns (((ackMsg, err), target), wait_error E startTime c)
          else out_bind (if PreAccessActions msg \<noteq> [] then preAccessRequest E msg c else Returns c) (\<lambda>c1.
            let (now, w) = Now E (world c1)
            in Returns (((ackMsg, err), target\<lparr>LastKnockSuccessTime := now\<rparr>), c1\<lparr>world := w\<rparr>)))"

definition Knock :: "'w agent_env \<Rightarrow> KnockTarget \<Rightarrow> 'w ctx \<Rightarrow> ((ack \<times> KnockTarget) \<times> 'w ctx) outcome" where
  "Knock E target c =
     (let (startTime, w) = Now E (world c) in
      out_bind (knockRequest E target False (c\<lparr>world := w\<rparr>)) (\<lambda>((ackMsg, err), c1).
      out_bind (if err = Some (CommonError ''ErrKnockTerminatedByCookie'') then knockRequest E target True c1
                else Returns ((ackMsg, err), c1)) (knock_done E startTime target)))"

end
