(* ===== verification/Agent_Exports.thy ===== *)
theory Agent_Exports
  imports Agent_Knock
begin

text \<open>
  The functions the agent SDK exports to C (\<^verbatim>\<open>endpoints/agent/main/export.go\<close>), one definition each: at most
  one agent, \<open>gAgentInstance\<close>, lives in the process. A C string is \<^term>\<open>None\<close> where it is \<^verbatim>\<open>NULL\<close>. And the
  program that shows their use, \<^verbatim>\<open>examples/client_sdk/desktop/c/nhp-agent-demo.c\<close>.
\<close>

record 'w sdk = "'w process" +
  gAgentInstance :: "UdpAgent option"

type_synonym c_string = "string option"

definition deepCopyCString :: "c_string \<Rightarrow> string" where
  "deepCopyCString c_str = (case c_str of None \<Rightarrow> '''' | Some goStr \<Rightarrow> goStr)"

text \<open>The agent \<open>a\<close> of the process at work, and the process with an agent.\<close>

definition enter :: "UdpAgent \<Rightarrow> 'w sdk \<Rightarrow> 'w ctx" where
  "enter a s = \<lparr>ExeDirPath = ExeDirPath s, sendMsgCh = sendMsgCh s, accessMsgs = accessMsgs s, world = world s, agent = a\<rparr>"

definition leave :: "UdpAgent option \<Rightarrow> 'w ctx \<Rightarrow> 'w sdk" where
  "leave a c = \<lparr>ExeDirPath = ExeDirPath c, sendMsgCh = sendMsgCh c, accessMsgs = accessMsgs c, world = world c, gAgentInstance = a\<rparr>"

definition run_agent :: "UdpAgent \<Rightarrow> ('w ctx \<Rightarrow> ('a \<times> 'w ctx) outcome) \<Rightarrow> 'w sdk \<Rightarrow> ('a \<times> 'w sdk) outcome" where
  "run_agent a f s = out_bind (f (enter a s)) (\<lambda>(x, c). Returns (x, leave (Some (agent c)) c))"

definition run_unit :: "UdpAgent \<Rightarrow> ('w ctx \<Rightarrow> 'w ctx outcome) \<Rightarrow> 'a \<Rightarrow> 'w sdk \<Rightarrow> ('a \<times> 'w sdk) outcome" where
  "run_unit a f x s = out_bind (f (enter a s)) (\<lambda>c. Returns (x, leave (Some (agent c)) c))"

subsection \<open>Life of the agent\<close>

definition nhp_agent_init :: "'w agent_env \<Rightarrow> c_string \<Rightarrow> int \<Rightarrow> 'w sdk \<Rightarrow> (bool \<times> 'w sdk) outcome" where
  "nhp_agent_init E workingDir logLevel s = (case gAgentInstance s of
      Some a \<Rightarrow> Returns (True, s)
    | None \<Rightarrow> run_agent zero_agent (Start E (deepCopyCString workingDir)) s)"

definition nhp_agent_close :: "'w agent_env \<Rightarrow> 'w sdk \<Rightarrow> (unit \<times> 'w sdk) outcome" where
  "nhp_agent_close E s = (case gAgentInstance s of
      None \<Rightarrow> Returns ((), s)
    | Some a \<Rightarrow> out_bind (Stop E (enter a s)) (\<lambda>c. Returns ((), leave None c)))"

definition nhp_agent_knockloop_start :: "'w sdk \<Rightarrow> (int \<times> 'w sdk) outcome" where
  "nhp_agent_knockloop_start s = (case gAgentInstance s of
      None \<Rightarrow> Returns (- 1, s)
    | Some a \<Rightarrow> run_agent a (\<lambda>c. Returns (map_prod int id (StartKnockLoop c))) s)"

definition nhp_agent_knockloop_stop :: "'w sdk \<Rightarrow> (unit \<times> 'w sdk) outcome" where
  "nhp_agent_knockloop_stop s = (case gAgentInstance s of
      None \<Rightarrow> Returns ((), s)
    | Some a \<Rightarrow> run_unit a StopKnockLoop () s)"

subsection \<open>User, servers and resources\<close>

definition nhp_agent_set_knock_user ::
  "'w agent_env \<Rightarrow> c_string \<Rightarrow> c_string \<Rightarrow> c_string \<Rightarrow> c_string \<Rightarrow> 'w sdk \<Rightarrow> (bool \<times> 'w sdk) outcome" where
  "nhp_agent_set_knock_user E userId devId orgId userData s = (case gAgentInstance s of
      None \<Rightarrow> Returns (False, s)
    | Some a \<Rightarrow>
        (let jsonStr = deepCopyCString userData;
             set_user = (\<lambda>data. run_unit a (\<lambda>c. Returns (SetKnockUser (deepCopyCString userId) (deepCopyCString orgId) data
               (SetDeviceId (deepCopyCString devId) c))) True s)
         in if jsonStr = [] then set_user None
            else (case json_Object E jsonStr of None \<Rightarrow> Returns (False, s) | Some data \<Rightarrow> set_user (Some data))))"

definition nhp_agent_add_server :: "c_string \<Rightarrow> c_string \<Rightarrow> c_string \<Rightarrow> int \<Rightarrow> 64 word \<Rightarrow> 'w sdk \<Rightarrow> (bool \<times> 'w sdk) outcome" where
  "nhp_agent_add_server pubkey ip host port expire s = (case gAgentInstance s of
      None \<Rightarrow> Returns (False, s)
    | Some a \<Rightarrow>
        if pubkey = None \<or> (ip = None \<and> host = None) then Returns (False, s)
        else let serverPort = (if port = 0 then 62206 else port)
             in run_unit a (AddServer (new_peer (deepCopyCString pubkey) (deepCopyCString ip) (deepCopyCString host) serverPort
               NHP_SERVER expire)) True s)"

definition nhp_agent_remove_server :: "c_string \<Rightarrow> 'w sdk \<Rightarrow> (unit \<times> 'w sdk) outcome" where
  "nhp_agent_remove_server pubkey s = (case gAgentInstance s of
      None \<Rightarrow> Returns ((), s)
    | Some a \<Rightarrow>
        if pubkey = None then Returns ((), s)
        else run_unit a (\<lambda>c. Returns (RemoveServer (deepCopyCString pubkey) c)) () s)"

text \<open>The resource the arguments of four of the functions describe.\<close>

definition c_resource :: "c_string \<Rightarrow> c_string \<Rightarrow> c_string \<Rightarrow> c_string \<Rightarrow> int \<Rightarrow> KnockResource" where
  "c_resource aspId resId serverIp serverHostname serverPort =
     \<lparr>AuthServiceId = deepCopyCString aspId, ResourceId = deepCopyCString resId, ServerHostname = deepCopyCString serverHostname,
      ServerIp = deepCopyCString serverIp, ServerPort = serverPort\<rparr>"

definition nhp_agent_add_resource ::
  "'w agent_env \<Rightarrow> c_string \<Rightarrow> c_string \<Rightarrow> c_string \<Rightarrow> c_string \<Rightarrow> int \<Rightarrow> 'w sdk \<Rightarrow> (bool \<times> 'w sdk) outcome" where
  "nhp_agent_add_resource E aspId resId serverIp serverHostname serverPort s = (case gAgentInstance s of
      None \<Rightarrow> Returns (False, s)
    | Some a \<Rightarrow>
        if aspId = None \<or> resId = None \<or> (serverIp = None \<and> serverHostname = None) then Returns (False, s)
        else run_agent a (AddResource E (c_resource aspId resId serverIp serverHostname serverPort)) s)"

definition nhp_agent_remove_resource :: "c_string \<Rightarrow> c_string \<Rightarrow> 'w sdk \<Rightarrow> (unit \<times> 'w sdk) outcome" where
  "nhp_agent_remove_resource aspId resId s = (case gAgentInstance s of
      None \<Rightarrow> Returns ((), s)
    | Some a \<Rightarrow>
        if aspId = None \<or> resId = None then Returns ((), s)
        else run_unit a (RemoveResource (deepCopyCString aspId) (deepCopyCString resId)) () s)"

subsection \<open>Knocking\<close>

text \<open>The acknowledgement the caller gets: what \<open>Knock\<close> left, which may be nil, in JSON (\<open>null\<close> then).\<close>

definition reply_text :: "'w agent_env \<Rightarrow> ServerKnockAckMsg option \<Rightarrow> string" where
  "reply_text E ackMsg = (case ackMsg of None \<Rightarrow> ''null'' | Some msg \<Rightarrow> json_Reply E msg)"

definition nhp_agent_knock_resource ::
  "'w agent_env \<Rightarrow> c_string \<Rightarrow> c_string \<Rightarrow> c_string \<Rightarrow> c_string \<Rightarrow> int \<Rightarrow> 'w sdk \<Rightarrow> (string \<times> 'w sdk) outcome" where
  "nhp_agent_knock_resource E aspId resId serverIp serverHostname serverPort s =
     (let refused = (\<lambda>name. Returns (reply_text E (Some (failed_ack name)), s)) in
      case gAgentInstance s of
        None \<Rightarrow> refused ''ErrNoAgentInstance''
      | Some a \<Rightarrow>
          if aspId = None \<or> resId = None \<or> (serverIp = None \<and> serverHostname = None) then refused ''ErrInvalidInput''
          else let resource = c_resource aspId resId serverIp serverHostname serverPort
               in run_agent a (\<lambda>c. case FindServerPeerFromResource E resource c of
                      (None, c1) \<Rightarrow> Returns (reply_text E (Some (failed_ack ''ErrKnockServerNotFound'')), c1)
                    | (Some r, c1) \<Rightarrow> out_bind (Knock E (new_target resource r) c1)
                        (\<lambda>(((ackMsg, _), _), c2). Returns (reply_text E ackMsg, c2))) s)"

definition nhp_agent_exit_resource ::
  "'w agent_env \<Rightarrow> c_string \<Rightarrow> c_string \<Rightarrow> c_string \<Rightarrow> c_string \<Rightarrow> int \<Rightarrow> 'w sdk \<Rightarrow> (bool \<times> 'w sdk) outcome" where
  "nhp_agent_exit_resource E aspId resId serverIp serverHostname serverPort s = (case gAgentInstance s of
      None \<Rightarrow> Returns (False, s)
    | Some a \<Rightarrow>
        if aspId = None \<or> resId = None \<or> (serverIp = None \<and> serverHostname = None) then Returns (False, s)
        else let resource = c_resource aspId resId serverIp serverHostname serverPort
             in run_agent a (\<lambda>c. case FindServerPeerFromResource E resource c of
                    (None, c1) \<Rightarrow> Returns (False, c1)
                  | (Some r, c1) \<Rightarrow> out_bind (ExitKnockRequest E (new_target resource r) c1)
                      (\<lambda>((_, err), c2). Returns (err = None, c2))) s)"

subsection \<open>Keys\<close>

text \<open>
  \<^verbatim>\<open>nhp_generate_keys\<close>: \<open>NewECDH\<close> makes a pair of keys of a curve, private and public, in base64.
  \<^verbatim>\<open>nhp_privkey_to_pubkey\<close>: \<open>decode\<close> is \<^verbatim>\<open>DecodeString\<close>, \<open>pub\<close> the public key of a private one, if the curve accepts it.
\<close>

definition nhp_generate_keys :: "(EccTypeEnum \<Rightarrow> 'w \<Rightarrow> (string \<times> string) \<times> 'w) \<Rightarrow> int \<Rightarrow> 'w \<Rightarrow> string \<times> 'w" where
  "nhp_generate_keys NewECDH cipherType w =
     (let ((priv, pub), w') = NewECDH (if cipherType = 1 then ECC_SM2 else ECC_CURVE25519) w in (priv @ ''|'' @ pub, w'))"

definition nhp_privkey_to_pubkey ::
  "(string \<Rightarrow> byte list option) \<Rightarrow> (EccTypeEnum \<Rightarrow> byte list \<Rightarrow> string option) \<Rightarrow> int \<Rightarrow> c_string \<Rightarrow> c_string outcome" where
  "nhp_privkey_to_pubkey decode pub cipherType privateBase64 =
     (let privKey = deepCopyCString privateBase64 in
      case decode privKey of
        None \<Rightarrow> Returns None
      | Some privKeyBytes \<Rightarrow>
          if cipherType \<noteq> 0 \<and> cipherType \<noteq> 1 then Returns None
          else if SetPrivateKey_panics privKey then Crashes
          else Returns (pub (if cipherType = 1 then ECC_SM2 else ECC_CURVE25519) privKeyBytes))"

subsection \<open>The demo\<close>

text \<open>\<^verbatim>\<open>main\<close>, with its exit code and what it prints.\<close>

definition demo_main :: "'w agent_env \<Rightarrow> 'w sdk \<Rightarrow> ((int \<times> string) \<times> 'w sdk) outcome" where
  "demo_main E s =
     out_bind (nhp_agent_init E (Some ''.'') 3 s) (\<lambda>(_, s1).
     out_bind (nhp_agent_set_knock_user E (Some ''zengl'') None None None s1) (\<lambda>(_, s2).
     out_bind (nhp_agent_add_server (Some ''replace_with_actual_publickeybase64'') (Some ''192.168.1.66'') None 62206 1748908471 s2)
       (\<lambda>(_, s3).
     out_bind (nhp_agent_knock_resource E (Some ''example'') (Some ''demo'') (Some ''192.168.1.66'') None 62206 s3) (\<lambda>(ret, s4).
     out_bind (nhp_agent_exit_resource E (Some ''example'') (Some ''demo'') (Some ''192.168.1.66'') None 62206 s4) (\<lambda>(_, s5).
     out_bind (nhp_agent_close E s5) (\<lambda>(_, s6). Returns ((0, ''knock return: '' @ ret @ [CHR 0x0A]), s6)))))))"

end
