(* ===== verification/Agent_Invariant.thy ===== *)
theory Agent_Invariant
  imports Agent_Exports
begin

text \<open>
  The states the agent SDK can be in. Between two calls the process has no agent, one that a failed
  \<^verbatim>\<open>Start\<close> left half made, or a running one whose servers, peers and targets fit together.
\<close>

subsection \<open>Panics of other goroutines\<close>

text \<open>A world in which no other goroutine of the agent panics while a call waits for it.\<close>

locale calm_world =
  fixes E :: "'w agent_env"
  assumes exchange_calm: "Exchange E addr md w \<noteq> Crashes"
    and seal_calm: "SealAccess E addr md w' \<noteq> Crashes"
    and finish_calm: "Finish E w'' \<noteq> Crashes"

text \<open>An operation ends the process when \<open>P\<close>, and in a calm world only then.\<close>

definition ends_when :: "'w agent_env \<Rightarrow> 'a outcome \<Rightarrow> bool \<Rightarrow> bool" where
  "ends_when E r P \<longleftrightarrow> (P \<longrightarrow> r = Crashes) \<and> (calm_world E \<longrightarrow> r = Crashes \<longrightarrow> P)"

lemma ends_when_iff: "(r = Crashes \<longleftrightarrow> P) \<Longrightarrow> ends_when E r P"
  by (simp add: ends_when_def)

lemma ends_when_False [simp]: "ends_when E r False \<longleftrightarrow> (calm_world E \<longrightarrow> r \<noteq> Crashes)"
  by (auto simp: ends_when_def)

subsection \<open>Peers are never changed\<close>

text \<open>The fields the Go code calls immutable.\<close>

definition immutable :: "ServerPeerData \<Rightarrow> string \<times> string \<times> string \<times> int \<times> int \<times> 64 word" where
  "immutable p = (PubKeyBase64 p, Hostname p, Ip p, Port p, PeerType p, ExpireTime p)"

definition peers_kept :: "ServerPeerData list \<Rightarrow> ServerPeerData list \<Rightarrow> bool" where
  "peers_kept ps qs \<longleftrightarrow> length ps \<le> length qs \<and> (\<forall>r < length ps. immutable (qs ! r) = immutable (ps ! r))"

lemma peers_kept_refl [simp]: "peers_kept ps ps"
  by (simp add: peers_kept_def)

lemma peers_kept_trans: "peers_kept ps qs \<Longrightarrow> peers_kept qs rs \<Longrightarrow> peers_kept ps rs"
  by (auto simp: peers_kept_def)

lemma peers_kept_append [simp]: "peers_kept ps (ps @ qs)"
  by (simp add: peers_kept_def nth_append)

lemma peers_kept_update: "immutable p = immutable (ps ! r) \<Longrightarrow> peers_kept ps (ps[r := p])"
proof -
  assume p: "immutable p = immutable (ps ! r)"
  have "immutable (ps[r := p] ! i) = immutable (ps ! i)" if "i < length ps" for i
    using that p by (cases "i = r") auto
  then show ?thesis by (simp add: peers_kept_def)
qed

lemma immutable_fields:
  "immutable q = immutable p \<Longrightarrow> PubKeyBase64 q = PubKeyBase64 p \<and> PeerType q = PeerType p \<and> Port q = Port p \<and> Host q = Host p \<and>
     Hostname q = Hostname p \<and> Ip q = Ip p"
  by (simp add: immutable_def Host_def Let_def)

lemma peers_kept_nth:
  assumes "peers_kept ps qs" and "r < length ps"
  shows "r < length qs" "PubKeyBase64 (qs ! r) = PubKeyBase64 (ps ! r)" "PeerType (qs ! r) = PeerType (ps ! r)"
    "Host (qs ! r) = Host (ps ! r)" "Port (qs ! r) = Port (ps ! r)" "Hostname (qs ! r) = Hostname (ps ! r)" "Ip (qs ! r) = Ip (ps ! r)"
  using assms immutable_fields[of "qs ! r" "ps ! r"] by (auto simp: peers_kept_def)

subsection \<open>The invariant\<close>

definition device_ok :: "ServerPeerData list \<Rightarrow> (string \<times> nat) list \<Rightarrow> bool" where
  "device_ok ps dp \<longleftrightarrow> distinct (map fst dp) \<and> (\<forall>(k, r) \<in> set dp. r < length ps \<and> PubKeyBase64 (ps ! r) = k)"

definition servers_ok :: "ServerPeerData list \<Rightarrow> (string \<times> nat) list \<Rightarrow> (string \<times> nat) list \<Rightarrow> bool" where
  "servers_ok ps dp m \<longleftrightarrow> distinct (map fst m) \<and>
     (\<forall>(k, r) \<in> set m. r < length ps \<and> PubKeyBase64 (ps ! r) = k \<and> PeerType (ps ! r) = NHP_SERVER \<and> k \<in> fst ` set dp)"

definition targets_ok :: "ServerPeerData list \<Rightarrow> (string \<times> KnockTarget) list \<Rightarrow> bool" where
  "targets_ok ps t \<longleftrightarrow> distinct (map fst t) \<and>
     (\<forall>(k, target) \<in> set t. resource_Id (Resource target) = k \<and>
        (\<exists>r < length ps. ServerPeer target = Some r \<and> PeerType (ps ! r) = NHP_SERVER \<and> Host (ps ! r) = ServerHost (Resource target)))"

definition half_started :: "UdpAgent \<Rightarrow> bool" where
  "half_started a \<longleftrightarrow> device a = None \<and> serverPeerMap a = None \<and> knockTargetMap a = None \<and> stop a = NilChannel \<and>
     knockTargetStop a = NilChannel \<and> knockTargetMapUpdated a = NilChannel \<and> \<not> update_pending a \<and> \<not> running a"

definition started :: "UdpAgent \<Rightarrow> bool" where
  "started a \<longleftrightarrow> (\<exists>d m t. device a = Some d \<and> serverPeerMap a = Some m \<and> knockTargetMap a = Some t \<and> running a \<and>
     stop a = OpenChannel \<and> knockTargetStop a \<noteq> NilChannel \<and> knockTargetMapUpdated a = OpenChannel \<and>
     device_ok (peers a) (device_peers d) \<and> servers_ok (peers a) (device_peers d) m \<and> targets_ok (peers a) t)"

definition agent_ok :: "UdpAgent \<Rightarrow> bool" where
  "agent_ok a \<longleftrightarrow> half_started a \<or> started a"

definition sdk_ok :: "'w sdk \<Rightarrow> bool" where
  "sdk_ok s \<longleftrightarrow> (\<forall>a. gAgentInstance s = Some a \<longrightarrow> agent_ok a)"

lemma device_ok_kept: "device_ok ps dp \<Longrightarrow> peers_kept ps qs \<Longrightarrow> device_ok qs dp"
  using peers_kept_nth[of ps qs] by (auto simp: device_ok_def)

lemma servers_ok_kept:
  "servers_ok ps dp m \<Longrightarrow> peers_kept ps qs \<Longrightarrow> fst ` set dp \<subseteq> fst ` set dp' \<Longrightarrow> servers_ok qs dp' m"
  using peers_kept_nth[of ps qs] unfolding servers_ok_def by (auto dest!: bspec)

lemma targets_ok_kept: "targets_ok ps t \<Longrightarrow> peers_kept ps qs \<Longrightarrow> targets_ok qs t"
proof -
  assume t: "targets_ok ps t" and k: "peers_kept ps qs"
  show "targets_ok qs t"
    unfolding targets_ok_def
  proof (intro conjI ballI)
    show "distinct (map fst t)" using t by (simp add: targets_ok_def)
    fix x assume "x \<in> set t"
    then obtain r where "resource_Id (Resource (snd x)) = fst x" "r < length ps" "ServerPeer (snd x) = Some r"
      "PeerType (ps ! r) = NHP_SERVER" "Host (ps ! r) = ServerHost (Resource (snd x))"
      using t by (fastforce simp: targets_ok_def)
    then show "case x of (k, target) \<Rightarrow> resource_Id (Resource target) = k \<and>
        (\<exists>r < length qs. ServerPeer target = Some r \<and> PeerType (qs ! r) = NHP_SERVER \<and> Host (qs ! r) = ServerHost (Resource target))"
      using peers_kept_nth[OF k] by (cases x) auto
  qed
qed

text \<open>Association lists.\<close>

lemma update_keys_set: "fst ` set (AList.update k v m) = insert k (fst ` set m)"
  using AList.dom_update[of k v m] by simp

lemma update_member: "(k', v') \<in> set (AList.update k v m) \<Longrightarrow> (k' = k \<and> v' = v) \<or> (k', v') \<in> set m"
  by (induction m) (auto split: if_splits)

lemma delete_member: "(k', v') \<in> set (AList.delete k m) \<longleftrightarrow> (k', v') \<in> set m \<and> k' \<noteq> k"
  by (auto simp: AList.delete_eq)

lemma delete_keys_set: "fst ` set (AList.delete k m) = fst ` set m - {k}"
  by (auto simp: AList.delete_eq image_iff)

subsection \<open>Growth\<close>

text \<open>
  What knocking and loading do to an agent with a device: peers are added, never changed; the device
  gets more of them, its counter goes on; the rest stays.
\<close>

definition grows :: "UdpAgent \<Rightarrow> UdpAgent \<Rightarrow> bool" where
  "grows a a' \<longleftrightarrow> (\<exists>ps d d'. device a = Some d \<and> a' = a\<lparr>peers := ps, device := Some d'\<rparr> \<and> peers_kept (peers a) ps \<and>
     (device_ok (peers a) (device_peers d) \<longrightarrow> device_ok ps (device_peers d')) \<and>
     fst ` set (device_peers d) \<subseteq> fst ` set (device_peers d'))"

lemma growsI:
  assumes "device a = Some d" and "a' = a\<lparr>peers := ps, device := Some d'\<rparr>" and "peers_kept (peers a) ps"
    and "device_ok (peers a) (device_peers d) \<Longrightarrow> device_ok ps (device_peers d')"
    and "fst ` set (device_peers d) \<subseteq> fst ` set (device_peers d')"
  shows "grows a a'"
  using assms unfolding grows_def by blast

lemma grows_peers: "device a \<noteq> None \<Longrightarrow> peers_kept (peers a) ps \<Longrightarrow> grows a (a\<lparr>peers := ps\<rparr>)"
proof -
  assume "device a \<noteq> None" and k: "peers_kept (peers a) ps"
  then obtain d where d: "device a = Some d" by blast
  show ?thesis
    by (rule growsI[OF d _ k, where d' = d]) (use d k in \<open>auto intro: device_ok_kept\<close>)
qed

lemma grows_refl: "device a \<noteq> None \<Longrightarrow> grows a a"
  using grows_peers[of a "peers a"] by simp

lemma grows_trans: "grows a b \<Longrightarrow> grows b c \<Longrightarrow> grows a c"
  unfolding grows_def
proof (elim exE conjE)
  fix ps d d' qs e e'
  assume a: "device a = Some d" "b = a\<lparr>peers := ps, device := Some d'\<rparr>" "device b = Some e" "c = b\<lparr>peers := qs, device := Some e'\<rparr>"
    and k: "peers_kept (peers a) ps" "peers_kept (peers b) qs"
    and "device_ok (peers a) (device_peers d) \<longrightarrow> device_ok ps (device_peers d')" "fst ` set (device_peers d) \<subseteq> fst ` set (device_peers d')"
    and "device_ok (peers b) (device_peers e) \<longrightarrow> device_ok qs (device_peers e')" "fst ` set (device_peers e) \<subseteq> fst ` set (device_peers e')"
  moreover from this have "peers_kept (peers a) qs" "c = a\<lparr>peers := qs, device := Some e'\<rparr>" by (auto intro: peers_kept_trans)
  ultimately show "\<exists>ps d d'. device a = Some d \<and> c = a\<lparr>peers := ps, device := Some d'\<rparr> \<and> peers_kept (peers a) ps \<and>
     (device_ok (peers a) (device_peers d) \<longrightarrow> device_ok ps (device_peers d')) \<and> fst ` set (device_peers d) \<subseteq> fst ` set (device_peers d')"
    by (intro exI[of _ qs] exI[of _ d] exI[of _ e']) auto
qed

lemma grows_device: "grows a b \<Longrightarrow> device a \<noteq> None \<and> device b \<noteq> None"
  by (auto simp: grows_def)

lemma grows_same:
  assumes "grows a b"
  shows "serverPeerMap b = serverPeerMap a" "knockTargetMap b = knockTargetMap a" "running b = running a"
    "stop b = stop a" "knockTargetStop b = knockTargetStop a" "knockUser b = knockUser a" "config b = config a"
    "deviceId b = deviceId a" "peers_kept (peers a) (peers b)" "knockTargetMapUpdated b = knockTargetMapUpdated a"
    "update_pending b = update_pending a"
  using assms by (auto simp: grows_def)

lemma grows_started: "started a \<Longrightarrow> grows a b \<Longrightarrow> started b"
  unfolding started_def grows_def
  by (elim exE conjE) (auto intro: servers_ok_kept targets_ok_kept)

lemma grows_counter:
  "device a = Some d \<Longrightarrow> grows a (a\<lparr>device := Some (d\<lparr>counterIndex := n\<rparr>)\<rparr>)"
  by (rule growsI[where ps = "peers a" and d = d and d' = "d\<lparr>counterIndex := n\<rparr>"]) auto

lemma device_ok_add:
  assumes "device_ok ps dp" and "PubKeyBase64 p = key"
  shows "device_ok (ps @ [p]) (AList.update key (length ps) dp)"
proof -
  have "r < length (ps @ [p]) \<and> PubKeyBase64 ((ps @ [p]) ! r) = k" if "(k, r) \<in> set (AList.update key (length ps) dp)" for k r
    using update_member[OF that] assms by (auto simp: device_ok_def nth_append)
  then show ?thesis using assms(1) by (auto simp: device_ok_def AList.distinct_update)
qed

lemma grows_add:
  assumes "device a = Some d" and "PubKeyBase64 p = key"
  shows "grows a (a\<lparr>device := Some ((AddPeer key (length (peers a)) d)\<lparr>counterIndex := n\<rparr>), peers := peers a @ [p]\<rparr>)"
  by (rule growsI[OF assms(1), where ps = "peers a @ [p]" and d' = "(AddPeer key (length (peers a)) d)\<lparr>counterIndex := n\<rparr>"])
    (use device_ok_add[of "peers a" "device_peers d" p key] assms in \<open>auto simp: AddPeer_def update_keys_set\<close>)

subsection \<open>Addresses and searches\<close>

lemma ResolveHost_frame:
  assumes "ResolveHost E r c = (ip, c')"
  obtains ps w where "c' = c\<lparr>world := w, agent := (agent c)\<lparr>peers := ps\<rparr>\<rparr>" "peers_kept (peers (agent c)) ps"
proof -
  have "\<exists>ps w. c' = c\<lparr>world := w, agent := (agent c)\<lparr>peers := ps\<rparr>\<rparr> \<and> peers_kept (peers (agent c)) ps"
  proof (cases "Hostname (peers (agent c) ! r) = []")
    case True
    then have "c' = c\<lparr>world := world c, agent := (agent c)\<lparr>peers := peers (agent c)\<rparr>\<rparr>"
      using assms by (simp add: ResolveHost_def Let_def)
    then show ?thesis using peers_kept_refl by blast
  next
    case False
    then obtain p' w' where "c' = c\<lparr>world := w', agent := (agent c)\<lparr>peers := (peers (agent c))[r := p']\<rparr>\<rparr>"
      "immutable p' = immutable (peers (agent c) ! r)"
      using assms by (auto simp: ResolveHost_def Let_def immutable_def split: prod.splits option.splits if_splits)
    then show ?thesis using peers_kept_update by blast
  qed
  then show ?thesis using that by blast
qed

lemma SendAddr_frame:
  assumes "SendAddr E r c = (addr, c')"
  obtains ps w where "c' = c\<lparr>world := w, agent := (agent c)\<lparr>peers := ps\<rparr>\<rparr>" "peers_kept (peers (agent c)) ps"
  using assms by (auto simp: SendAddr_def split: prod.splits elim: ResolveHost_frame)

text \<open>
  The address a peer is reached at: its own one if it has no name; else one its name was looked up to, now
  or before, or its own one when there is none.
\<close>

definition looked_up :: "'w agent_env \<Rightarrow> ServerPeerData \<Rightarrow> string \<Rightarrow> bool" where
  "looked_up E p ip \<longleftrightarrow> (\<exists>w others w'. LookupHost E (Hostname p) w = (Some (ip, others), w'))"

definition resolves_to :: "'w agent_env \<Rightarrow> ServerPeerData \<Rightarrow> string \<Rightarrow> bool" where
  "resolves_to E p ip \<longleftrightarrow>
     (if Hostname p = [] then ip = Ip p
      else ip \<noteq> [] \<and> (looked_up E p ip \<or> ip = primaryResolvedIp p) \<or>
        ip = Ip p \<and> (primaryResolvedIp p = [] \<or> looked_up E p []))"

text \<open>The address a peer keeps was kept before or looked up.\<close>

definition resolved_from :: "'w agent_env \<Rightarrow> ServerPeerData \<Rightarrow> ServerPeerData \<Rightarrow> bool" where
  "resolved_from E p q \<longleftrightarrow> primaryResolvedIp q = primaryResolvedIp p \<or> looked_up E p (primaryResolvedIp q)"

lemma resolves_to_from:
  assumes "immutable q = immutable p" and "resolved_from E p q" and "resolves_to E q ip"
  shows "resolves_to E p ip"
proof -
  have "Hostname q = Hostname p" "Ip q = Ip p" using immutable_fields[OF assms(1)] by simp_all
  moreover from this have "looked_up E q = looked_up E p" by (simp add: looked_up_def fun_eq_iff)
  ultimately show ?thesis using assms(2,3) by (auto simp: resolves_to_def resolved_from_def split: if_splits)
qed

lemma ResolveHost_name:
  assumes "ResolveHost E r c = (ip, c')" and "r < length (peers (agent c))"
  shows "resolves_to E (peers (agent c) ! r) ip \<and> resolved_from E (peers (agent c) ! r) (peers (agent c') ! r)"
proof (cases "Hostname (peers (agent c) ! r) = []")
  case True
  then show ?thesis using assms(1) by (auto simp: ResolveHost_def Let_def resolves_to_def resolved_from_def)
next
  case False
  then show ?thesis
    using assms by (auto simp: ResolveHost_def Let_def resolves_to_def resolved_from_def looked_up_def
        split: prod.splits option.splits if_splits)
qed

lemma SendAddr_resolved:
  assumes "SendAddr E r c = (addr, c')" and "r < length (peers (agent c))"
  shows "resolved_from E (peers (agent c) ! r) (peers (agent c') ! r)"
  using assms ResolveHost_name[OF _ assms(2), of E] by (auto simp: SendAddr_def split: prod.splits)

lemma SendAddr_address:
  assumes "fst (SendAddr E r c) = Some addr" and "r < length (peers (agent c))"
  shows "snd addr = Port (peers (agent c) ! r)"
    and "\<exists>ip. resolves_to E (peers (agent c) ! r) ip \<and> net_ParseIP E ip = Some (fst addr)"
proof -
  obtain ip c' where rh: "ResolveHost E r c = (ip, c')" by fastforce
  obtain ps w where c': "c' = c\<lparr>world := w, agent := (agent c)\<lparr>peers := ps\<rparr>\<rparr>" "peers_kept (peers (agent c)) ps"
    by (rule ResolveHost_frame[OF rh])
  have addr: "map_option (\<lambda>ip. (ip, Port (ps ! r))) (net_ParseIP E ip) = Some addr"
    using assms(1) rh c'(1) by (simp add: SendAddr_def)
  then show "snd addr = Port (peers (agent c) ! r)" using peers_kept_nth(5)[OF c'(2) assms(2)] by auto
  show "\<exists>ip. resolves_to E (peers (agent c) ! r) ip \<and> net_ParseIP E ip = Some (fst addr)"
    using ResolveHost_name[OF rh assms(2)] addr by auto
qed

lemma SendAddr_static:
  "Hostname (peers (agent c) ! r) = [] \<Longrightarrow> fst (SendAddr E r c) = None \<longleftrightarrow> net_ParseIP E (Ip (peers (agent c) ! r)) = None"
  by (simp add: SendAddr_def ResolveHost_def Let_def)

lemma Find_frame: "FindServerPeerFromResource E res c = (x, c') \<Longrightarrow> agent c' = agent c \<and> sendMsgCh c' = sendMsgCh c \<and>
    accessMsgs c' = accessMsgs c \<and> ExeDirPath c' = ExeDirPath c"
  by (auto simp: FindServerPeerFromResource_def Let_def split: prod.splits)

text \<open>What is found is a server of the map, at the host of the resource.\<close>

lemma Find_server:
  assumes "FindServerPeerFromResource E res c = (Some r, c')"
  shows "\<exists>m k. serverPeerMap (agent c) = Some m \<and> map_of m k = Some r \<and> Host (peers (agent c) ! r) = ServerHost res"
proof -
  let ?m = "case serverPeerMap (agent c) of None \<Rightarrow> [] | Some m \<Rightarrow> m"
  obtain ks where "find (\<lambda>r. Host (peers (agent c) ! r) = ServerHost res)
      (List.map_filter (map_of ?m) ks) = Some r"
    using assms by (auto simp: FindServerPeerFromResource_def Let_def split: prod.splits)
  then have "Host (peers (agent c) ! r) = ServerHost res" "r \<in> set (List.map_filter (map_of ?m) ks)"
    by (auto simp: find_Some_iff in_set_conv_nth)
  then show ?thesis by (auto simp: List.map_filter_def split: option.splits)
qed

subsection \<open>Requests\<close>

definition unresolved :: "'w agent_env \<Rightarrow> nat \<Rightarrow> 'w ctx \<Rightarrow> bool" where
  "unresolved E r c \<longleftrightarrow> fst (SendAddr E r c) = None"

text \<open>What a request to the server \<open>r\<close> leaves: without an address nothing is sent, else exactly one message.\<close>

definition requested :: "'w agent_env \<Rightarrow> int \<Rightarrow> string \<Rightarrow> KnockResource \<Rightarrow> nat \<Rightarrow> 'w ctx \<Rightarrow> ack \<Rightarrow> 'w ctx \<Rightarrow> bool" where
  "requested E t failure res r c ack c' \<longleftrightarrow>
     grows (agent c) (agent c') \<and> ExeDirPath c' = ExeDirPath c \<and> accessMsgs c' = accessMsgs c \<and>
     resolved_from E (peers (agent c) ! r) (peers (agent c') ! r) \<and>
     (case fst ack of
        None \<Rightarrow> unresolved E r c \<and> snd ack = Some (CommonError ''ErrKnockServerNotFound'') \<and> sendMsgCh c' = sendMsgCh c
      | Some msg \<Rightarrow> \<not> unresolved E r c \<and> (\<exists>addr n result w w'. fst (SendAddr E r c) = Some addr \<and>
          sendMsgCh c' = sendMsgCh c @ [(addr, knock_data E (agent c) t n res (peers (agent c) ! r))] \<and>
          Exchange E addr (knock_data E (agent c) t n res (peers (agent c) ! r)) w = Returns (result, w') \<and>
          (msg, snd ack) = read_ack E failure result))"

lemma knock_data_same: "grows a b \<Longrightarrow> checkResults b = checkResults a \<Longrightarrow> knock_data E b = knock_data E a"
  using grows_same[of a b] by (simp add: fun_eq_iff knock_data_def knock_msg_def)

lemma knock_data_peer: "PubKeyBase64 q = PubKeyBase64 p \<Longrightarrow> knock_data E a t n res q = knock_data E a t n res p"
  by (simp add: knock_data_def PublicKey_def)

lemma access_request_spec:
  assumes dev: "device (agent c) \<noteq> None" and run: "running (agent c)" and "ServerPeer target = Some r"
    and r: "r < length (peers (agent c))"
  shows "calm_world E \<Longrightarrow> access_request E t failure target c \<noteq> Crashes"
    and "access_request E t failure target c = Returns (ack, c') \<Longrightarrow> requested E t failure (Resource target) r c ack c'"
proof -
  obtain addr c1 where sa: "SendAddr E r c = (addr, c1)" by fastforce
  obtain ps w where c1: "c1 = c\<lparr>world := w, agent := (agent c)\<lparr>peers := ps\<rparr>\<rparr>" and k: "peers_kept (peers (agent c)) ps"
    by (rule SendAddr_frame[OF sa])
  have g1: "grows (agent c) (agent c1)" using grows_peers[OF dev k] c1 by simp
  obtain d where d: "device (agent c1) = Some d" using dev c1 by auto
  have run1: "running (agent c1)" using run c1 by simp
  let ?a = "(agent c1)\<lparr>device := Some (d\<lparr>counterIndex := counterIndex d + 1\<rparr>)\<rparr>"
  have g2: "grows (agent c) ?a" by (rule grows_trans[OF g1 grows_counter[OF d]])
  have same: "knock_data E ?a = knock_data E (agent c)" by (rule knock_data_same[OF g2]) (simp add: c1)
  have res: "resolved_from E (peers (agent c) ! r) (peers (agent c1) ! r)" by (rule SendAddr_resolved[OF sa r])
  show "access_request E t failure target c \<noteq> Crashes" if "calm_world E"
    using assms(3) sa d run1 calm_world.exchange_calm[OF that]
    by (cases addr) (auto simp: access_request_def NextCounterIndex_def Let_def out_bind_Crashes split: option.splits prod.splits)
  assume a: "access_request E t failure target c = Returns (ack, c')"
  show "requested E t failure (Resource target) r c ack c'"
  proof (cases addr)
    case None
    then show ?thesis
      using a assms(3) sa g1 c1 res by (auto simp: access_request_def requested_def unresolved_def)
  next
    case (Some ad)
    let ?md = "knock_data E (agent c) t (counterIndex d + 1) (Resource target) (peers (agent c) ! r)"
    have peer: "knock_data E (agent c) t (counterIndex d + 1) (Resource target) (ps ! r) = ?md"
      by (rule knock_data_peer) (use peers_kept_nth[OF k r] in simp)
    obtain result w' where x: "Exchange E ad ?md w = Returns (result, w')"
      "ack = (Some (fst (read_ack E failure result)), snd (read_ack E failure result))"
      "c' = c1\<lparr>agent := ?a, sendMsgCh := sendMsgCh c1 @ [(ad, ?md)], world := w'\<rparr>"
      using a assms(3) sa d run1 Some same c1 peer
      by (auto simp: access_request_def NextCounterIndex_def Let_def out_bind_Returns case_prod_beta)
    then show ?thesis
      using g2 c1 sa Some res by (auto simp: requested_def unresolved_def intro!: exI[of _ "counterIndex d + 1"] exI[of _ result])
  qed
qed

subsection \<open>Pre-access\<close>

lemma processPreAccessAction_spec:
  assumes "device (agent c) \<noteq> None"
  shows "calm_world E \<Longrightarrow> processPreAccessAction E info c \<noteq> Crashes"
    and "processPreAccessAction E info c = Returns c' \<Longrightarrow>
      grows (agent c) (agent c') \<and> ExeDirPath c' = ExeDirPath c \<and> sendMsgCh c' = sendMsgCh c"
proof -
  obtain d where d: "device (agent c) = Some d" using assms by blast
  show "processPreAccessAction E info c \<noteq> Crashes" if "calm_world E"
    using d calm_world.seal_calm[OF that]
    by (auto simp: processPreAccessAction_def NextCounterIndex_def Let_def out_bind_Crashes split: option.splits)
  assume a: "processPreAccessAction E info c = Returns c'"
  let ?p = "new_peer (ACPubKey info) (AccessIp info) '''' (Atoi (AccessPort info)) 0 0"
  have "grows (agent c) ((agent c)\<lparr>device := Some ((AddPeer (ACPubKey info) (length (peers (agent c))) d)
      \<lparr>counterIndex := counterIndex d + 1\<rparr>), peers := peers (agent c) @ [?p]\<rparr>)"
    by (rule grows_add[OF d]) (simp add: new_peer_def)
  moreover have "counterIndex (AddPeer k r d) = counterIndex d" for k r by (simp add: AddPeer_def)
  ultimately show "grows (agent c) (agent c') \<and> ExeDirPath c' = ExeDirPath c \<and> sendMsgCh c' = sendMsgCh c"
    using a d grows_refl[OF assms]
    by (auto simp: processPreAccessAction_def NextCounterIndex_def Let_def out_bind_Returns split: option.splits if_splits)
qed

lemma run_actions_spec:
  assumes "device (agent c) \<noteq> None"
  shows "(calm_world E \<longrightarrow> run_actions E infos c \<noteq> Crashes) \<and> (\<forall>c'. run_actions E infos c = Returns c' \<longrightarrow>
    grows (agent c) (agent c') \<and> ExeDirPath c' = ExeDirPath c \<and> sendMsgCh c' = sendMsgCh c)"
  using assms
proof (induction E infos c rule: run_actions.induct)
  case (1 E c)
  then show ?case by (simp add: grows_refl)
next
  case (2 E rest c)
  show ?case unfolding run_actions.simps by (rule 2(1)[OF 2(2)])
next
  case (3 E info rest c)
  show ?case
  proof (cases "processPreAccessAction E info c")
    case (Returns c1)
    have g: "grows (agent c) (agent c1)" "ExeDirPath c1 = ExeDirPath c" "sendMsgCh c1 = sendMsgCh c"
      using processPreAccessAction_spec(2)[OF 3(2) Returns] by simp_all
    then have "device (agent c1) \<noteq> None" using grows_device by blast
    note ih = 3(1)[OF this]
    have step: "run_actions E (Some info # rest) c = run_actions E rest c1" using Returns by simp
    show ?thesis unfolding step
    proof (intro conjI allI impI)
      show "run_actions E rest c1 \<noteq> Crashes" if "calm_world E" using ih that by blast
      fix c' assume c': "run_actions E rest c1 = Returns c'"
      have i: "grows (agent c1) (agent c') \<and> ExeDirPath c' = ExeDirPath c1 \<and> sendMsgCh c' = sendMsgCh c1"
        by (rule ih[THEN conjunct2, THEN spec, THEN mp, OF c'])
      show "grows (agent c) (agent c')" by (rule grows_trans[OF g(1) i[THEN conjunct1]])
      show "ExeDirPath c' = ExeDirPath c" by (rule trans[OF _ g(2)]) (use i in blast)
      show "sendMsgCh c' = sendMsgCh c" by (rule trans[OF _ g(3)]) (use i in blast)
    qed
  next
    case Crashes
    then show ?thesis using processPreAccessAction_spec(1)[OF 3(2)] by auto
  next
    case Blocks
    then show ?thesis by simp
  qed
qed

lemma preAccessRequest_spec:
  assumes "device (agent c) \<noteq> None"
  shows "(calm_world E \<longrightarrow> preAccessRequest E msg c \<noteq> Crashes) \<and> (\<forall>c'. preAccessRequest E msg c = Returns c' \<longrightarrow>
    grows (agent c) (agent c') \<and> ExeDirPath c' = ExeDirPath c \<and> sendMsgCh c' = sendMsgCh c)"
proof (cases "UserId (knockUser (agent c)) = []")
  case True
  then show ?thesis using grows_refl[OF assms] by (simp add: preAccessRequest_def)
next
  case False
  obtain ks w where i: "iterate E (map fst (PreAccessActions msg)) (world c) = (ks, w)" by fastforce
  have "device (agent (c\<lparr>world := w\<rparr>)) \<noteq> None" using assms by simp
  from run_actions_spec[OF this] show ?thesis using False i by (simp add: preAccessRequest_def)
qed

subsection \<open>Knocks\<close>

text \<open>\<open>Knock\<close> finds no address for its first request, or for the second after a cookie.\<close>

definition knock_unresolved :: "'w agent_env \<Rightarrow> KnockTarget \<Rightarrow> nat \<Rightarrow> 'w ctx \<Rightarrow> bool" where
  "knock_unresolved E target r c =
     (let c0 = c\<lparr>world := snd (Now E (world c))\<rparr> in unresolved E r c0 \<or>
        (case knockRequest E target False c0 of
           Returns ((_, err), c1) \<Rightarrow> err = Some (CommonError ''ErrKnockTerminatedByCookie'') \<and> unresolved E r c1
         | _ \<Rightarrow> False))"

text \<open>The message \<open>m\<close> was answered with \<open>msg\<close>.\<close>

definition answered :: "'w agent_env \<Rightarrow> string \<Rightarrow> UDPAddr \<times> MsgData \<Rightarrow> ServerKnockAckMsg \<Rightarrow> agent_error option \<Rightarrow> bool" where
  "answered E failure m msg err \<longleftrightarrow>
     (\<exists>result w w'. Exchange E (fst m) (snd m) w = Returns (result, w') \<and> (msg, err) = read_ack E failure result)"

text \<open>
  \<open>m\<close> is a message of type \<open>t\<close> about the resource, for the key of the server \<open>r\<close>, to its port and to an
  address it is reached at.
\<close>

definition knock_to :: "'w agent_env \<Rightarrow> UdpAgent \<Rightarrow> int \<Rightarrow> KnockResource \<Rightarrow> nat \<Rightarrow> UDPAddr \<times> MsgData \<Rightarrow> bool" where
  "knock_to E a t res r m \<longleftrightarrow> snd m = knock_data E a t (md_TransactionId (snd m)) res (peers a ! r) \<and>
     snd (fst m) = Port (peers a ! r) \<and>
     (\<exists>ip. resolves_to E (peers a ! r) ip \<and> net_ParseIP E ip = Some (fst (fst m)))"

abbreviation local_failure :: string where "local_failure \<equiv> ''ErrPacketEncryptionFailed''"
abbreviation by_cookie :: "agent_error option" where "by_cookie \<equiv> Some (CommonError ''ErrKnockTerminatedByCookie'')"

text \<open>What a knock sends and which answer counts: one request, or a second one after a cookie.\<close>

definition knocked :: "'w agent_env \<Rightarrow> UdpAgent \<Rightarrow> KnockResource \<Rightarrow> nat \<Rightarrow> (UDPAddr \<times> MsgData) list \<Rightarrow> ServerKnockAckMsg \<Rightarrow>
    agent_error option \<Rightarrow> bool" where
  "knocked E a res r ms msg err \<longleftrightarrow>
     (\<exists>m. ms = [m] \<and> knock_to E a NHP_KNK res r m \<and> answered E local_failure m msg err \<and> err \<noteq> by_cookie) \<or>
     (\<exists>m1 msg1 m2. ms = [m1, m2] \<and> knock_to E a NHP_KNK res r m1 \<and> answered E local_failure m1 msg1 by_cookie \<and>
        knock_to E a NHP_RKN res r m2 \<and> answered E local_failure m2 msg err)"

lemma requested_sent:
  assumes "requested E t failure res r c (Some msg, err) c'" and "r < length (peers (agent c))"
  obtains m where "sendMsgCh c' = sendMsgCh c @ [m]" "knock_to E (agent c) t res r m" "answered E failure m msg err"
    "grows (agent c) (agent c')" "ExeDirPath c' = ExeDirPath c" "\<not> unresolved E r c"
    "resolved_from E (peers (agent c) ! r) (peers (agent c') ! r)"
proof -
  obtain addr n result w w' where x: "fst (SendAddr E r c) = Some addr"
    "sendMsgCh c' = sendMsgCh c @ [(addr, knock_data E (agent c) t n res (peers (agent c) ! r))]"
    "Exchange E addr (knock_data E (agent c) t n res (peers (agent c) ! r)) w = Returns (result, w')" "(msg, err) = read_ack E failure result"
    using assms(1) by (auto simp: requested_def)
  have "md_TransactionId (knock_data E (agent c) t n res p) = n" for p by (simp add: knock_data_def)
  then have "knock_to E (agent c) t res r (addr, knock_data E (agent c) t n res (peers (agent c) ! r))"
    using SendAddr_address[OF x(1) assms(2)] by (simp add: knock_to_def)
  moreover have "answered E failure (addr, knock_data E (agent c) t n res (peers (agent c) ! r)) msg err"
    using x(3,4) by (auto simp: answered_def)
  ultimately show ?thesis using that x(2) assms(1) by (simp add: requested_def)
qed

lemma requested_None:
  assumes "requested E t failure res r c (None, err) c'"
  shows "unresolved E r c" "err = Some (CommonError ''ErrKnockServerNotFound'')"
  using assms by (simp_all add: requested_def)

lemma knock_done_spec:
  assumes "device (agent c) \<noteq> None"
  shows "calm_world E \<Longrightarrow> knock_done E start target ((Some msg, err), c) \<noteq> Crashes"
    and "knock_done E start target ((Some msg, err), c) = Returns (((ack, err'), target'), c') \<Longrightarrow>
      ack = Some msg \<and> err' = err \<and> grows (agent c) (agent c') \<and> ExeDirPath c' = ExeDirPath c \<and> sendMsgCh c' = sendMsgCh c"
proof -
  note pre = preAccessRequest_spec[OF assms, of E msg]
  have wait: "agent (wait_error E s c) = agent c" "ExeDirPath (wait_error E s c) = ExeDirPath c"
    "sendMsgCh (wait_error E s c) = sendMsgCh c" for s
    by (simp_all add: wait_error_def Let_def split: prod.splits)
  show "knock_done E start target ((Some msg, err), c) \<noteq> Crashes" if "calm_world E"
    using pre[THEN conjunct1, THEN mp, OF that] by (auto simp: knock_done_def Let_def out_bind_Crashes split: prod.splits if_splits)
  assume k: "knock_done E start target ((Some msg, err), c) = Returns (((ack, err'), target'), c')"
  show "ack = Some msg \<and> err' = err \<and> grows (agent c) (agent c') \<and> ExeDirPath c' = ExeDirPath c \<and> sendMsgCh c' = sendMsgCh c"
  proof (cases "ErrCode msg \<noteq> ErrorCode ''ErrPacketEncryptionFailed'' \<and> err = None \<and> PreAccessActions msg \<noteq> []")
    case True
    then obtain c1 where c1: "preAccessRequest E msg c = Returns c1" "ack = Some msg" "err' = err"
      "agent c' = agent c1" "ExeDirPath c' = ExeDirPath c1" "sendMsgCh c' = sendMsgCh c1"
      using k by (auto simp: knock_done_def Let_def out_bind_Returns case_prod_beta)
    then show ?thesis using pre[THEN conjunct2, THEN spec, THEN mp, OF c1(1)] by simp
  next
    case False
    then have "ack = Some msg \<and> err' = err \<and> agent c' = agent c \<and> ExeDirPath c' = ExeDirPath c \<and> sendMsgCh c' = sendMsgCh c"
      using k wait by (auto simp: knock_done_def Let_def out_bind_Returns split: prod.splits if_splits)
    then show ?thesis using grows_refl[OF assms] by simp
  qed
qed

lemma Knock_unfold:
  "Knock E target c = out_bind (knockRequest E target False (c\<lparr>world := snd (Now E (world c))\<rparr>)) (\<lambda>((ackMsg, err), c1).
     out_bind (if err = by_cookie then knockRequest E target True c1 else Returns ((ackMsg, err), c1))
       (knock_done E (fst (Now E (world c))) target))"
  by (simp add: Knock_def case_prod_beta)

lemma knock_to_grows:
  assumes "grows a b" and "r < length (peers a)" and "resolved_from E (peers a ! r) (peers b ! r)" and "knock_to E b t res r m"
  shows "knock_to E a t res r m"
proof -
  have "checkResults b = checkResults a" using assms(1) by (auto simp: grows_def)
  then have "knock_data E b = knock_data E a" by (rule knock_data_same[OF assms(1)])
  moreover have "knock_data E a t n res (peers b ! r) = knock_data E a t n res (peers a ! r)" for n
    by (rule knock_data_peer) (rule peers_kept_nth(2)[OF grows_same(9)[OF assms(1)] assms(2)])
  moreover have "immutable (peers b ! r) = immutable (peers a ! r)"
    using grows_same(9)[OF assms(1)] assms(2) by (simp add: peers_kept_def)
  ultimately show ?thesis
    using assms(3,4) peers_kept_nth(5)[OF grows_same(9)[OF assms(1)] assms(2)] resolves_to_from[of "peers b ! r" "peers a ! r" E]
    unfolding knock_to_def by metis
qed

text \<open>The agent can ask the server \<open>r\<close>, and what a knock that returns has done.\<close>

definition can_knock :: "KnockTarget \<Rightarrow> nat \<Rightarrow> UdpAgent \<Rightarrow> bool" where
  "can_knock target r a \<longleftrightarrow> device a \<noteq> None \<and> running a \<and> ServerPeer target = Some r \<and> r < length (peers a)"

definition knock_result :: "'w agent_env \<Rightarrow> KnockTarget \<Rightarrow> nat \<Rightarrow> 'w ctx \<Rightarrow> ((ack \<times> KnockTarget) \<times> 'w ctx) outcome \<Rightarrow> bool" where
  "knock_result E target r c out \<longleftrightarrow> (\<forall>ack err target' c'. out = Returns (((ack, err), target'), c') \<longrightarrow>
     (\<exists>msg ms. ack = Some msg \<and> grows (agent c) (agent c') \<and> ExeDirPath c' = ExeDirPath c \<and>
        sendMsgCh c' = sendMsgCh c @ ms \<and> knocked E (agent c) (Resource target) r ms msg err))"

lemma can_knock_grows: "can_knock target r a \<Longrightarrow> grows a b \<Longrightarrow> can_knock target r b"
  using grows_device[of a b] grows_same(3)[of a b] peers_kept_nth(1)[OF grows_same(9)[of a b], of r]
  by (simp add: can_knock_def)

lemma knockRequest_spec:
  assumes "can_knock target r (agent c)"
  shows "calm_world E \<Longrightarrow> knockRequest E target b c \<noteq> Crashes" and "knockRequest E target b c = Blocks \<Longrightarrow> \<not> unresolved E r c"
    and "knockRequest E target b c = Returns (ack, c') \<Longrightarrow>
      requested E (if b then NHP_RKN else NHP_KNK) local_failure (Resource target) r c ack c'"
proof -
  have kr: "knockRequest E target b c = access_request E (if b then NHP_RKN else NHP_KNK) local_failure target c"
    by (simp add: knockRequest_def)
  show "knockRequest E target b c = Blocks \<Longrightarrow> \<not> unresolved E r c"
    using assms by (auto simp: kr can_knock_def access_request_def unresolved_def split: prod.splits option.splits)
  show "calm_world E \<Longrightarrow> knockRequest E target b c \<noteq> Crashes" "knockRequest E target b c = Returns (ack, c') \<Longrightarrow>
      requested E (if b then NHP_RKN else NHP_KNK) local_failure (Resource target) r c ack c'"
    using access_request_spec[of c target r E "if b then NHP_RKN else NHP_KNK" local_failure] assms
    by (simp_all add: kr can_knock_def)
qed

text \<open>The end of a knock whose messages \<open>ms\<close> were answered with \<open>msg\<close>.\<close>

lemma knock_ends:
  assumes "grows (agent c) (agent c1)" and "ExeDirPath c1 = ExeDirPath c" and "sendMsgCh c1 = sendMsgCh c @ ms"
    and "knocked E (agent c) (Resource target) r ms msg err"
  shows "calm_world E \<Longrightarrow> knock_done E start target ((Some msg, err), c1) \<noteq> Crashes"
    and "knock_result E target r c (knock_done E start target ((Some msg, err), c1))"
proof -
  have dev1: "device (agent c1) \<noteq> None" using grows_device[OF assms(1)] by simp
  show "calm_world E \<Longrightarrow> knock_done E start target ((Some msg, err), c1) \<noteq> Crashes" by (rule knock_done_spec(1)[OF dev1])
  show "knock_result E target r c (knock_done E start target ((Some msg, err), c1))"
    unfolding knock_result_def
  proof (intro allI impI)
    fix ack err' target' c' assume k: "knock_done E start target ((Some msg, err), c1) = Returns (((ack, err'), target'), c')"
    note s = knock_done_spec(2)[OF dev1 k]
    show "\<exists>msg ms. ack = Some msg \<and> grows (agent c) (agent c') \<and> ExeDirPath c' = ExeDirPath c \<and>
        sendMsgCh c' = sendMsgCh c @ ms \<and> knocked E (agent c) (Resource target) r ms msg err'"
      using s assms grows_trans[OF assms(1)] by (intro exI[of _ msg] exI[of _ ms]) simp
  qed
qed

text \<open>The second request of a knock, after a cookie.\<close>

lemma second_request:
  assumes can: "can_knock target r (agent c)" and g: "grows (agent c) (agent c1)" "ExeDirPath c1 = ExeDirPath c"
    and m1: "sendMsgCh c1 = sendMsgCh c @ [m1]" "knock_to E (agent c) NHP_KNK (Resource target) r m1"
      "answered E local_failure m1 msg1 by_cookie"
    and from1: "resolved_from E (peers (agent c) ! r) (peers (agent c1) ! r)"
  shows "ends_when E (out_bind (knockRequest E target True c1) (knock_done E start target)) (unresolved E r c1)"
    and "knock_result E target r c (out_bind (knockRequest E target True c1) (knock_done E start target))"
proof -
  have can1: "can_knock target r (agent c1)" by (rule can_knock_grows[OF can g(1)])
  note second = knockRequest_spec[OF can1, of E True]
  have "ends_when E (out_bind (knockRequest E target True c1) (knock_done E start target)) (unresolved E r c1) \<and>
    knock_result E target r c (out_bind (knockRequest E target True c1) (knock_done E start target))"
  proof (cases "knockRequest E target True c1")
    case (Returns y)
    obtain ack2 err2 c2 where y: "y = ((ack2, err2), c2)" by (cases y) auto
    have req: "requested E NHP_RKN local_failure (Resource target) r c1 (ack2, err2) c2"
      using second(3)[OF Returns[unfolded y]] by simp
    show ?thesis
    proof (cases ack2)
      case None
      then show ?thesis
        using requested_None(1)[OF req[unfolded None]] Returns y by (simp add: ends_when_def knock_done_def knock_result_def)
    next
      case (Some msg2)
      obtain m2 where m2: "sendMsgCh c2 = sendMsgCh c1 @ [m2]" "knock_to E (agent c1) NHP_RKN (Resource target) r m2"
        "answered E local_failure m2 msg2 err2" "grows (agent c1) (agent c2)" "ExeDirPath c2 = ExeDirPath c1" "\<not> unresolved E r c1"
        "resolved_from E (peers (agent c1) ! r) (peers (agent c2) ! r)"
        by (rule requested_sent[OF req[unfolded Some]]) (use can1 in \<open>simp add: can_knock_def\<close>)
      have r: "r < length (peers (agent c))" using can by (simp add: can_knock_def)
      have "knocked E (agent c) (Resource target) r [m1, m2] msg2 err2"
        unfolding knocked_def using m1(2,3) m2(3) knock_to_grows[OF g(1) r from1 m2(2)] by auto
      note e = knock_ends[OF grows_trans[OF g(1) m2(4)] _ _ this, of start]
      show ?thesis using e m2(1,5,6) m1(1) g(2) Returns y Some by (simp add: ends_when_def)
    qed
  qed (use second(1,2) in \<open>auto simp: ends_when_def knock_result_def\<close>)
  then show "ends_when E (out_bind (knockRequest E target True c1) (knock_done E start target)) (unresolved E r c1)"
    "knock_result E target r c (out_bind (knockRequest E target True c1) (knock_done E start target))" by blast+
qed

lemma Knock_spec:
  assumes can: "can_knock target r (agent c)"
  shows "ends_when E (Knock E target c) (knock_unresolved E target r c)" and "knock_result E target r c (Knock E target c)"
proof -
  let ?c0 = "c\<lparr>world := snd (Now E (world c))\<rparr>" and ?start = "fst (Now E (world c))"
  have can0: "can_knock target r (agent ?c0)" using can by simp
  note first = knockRequest_spec[OF can0, of E False]
  have "ends_when E (Knock E target c) (knock_unresolved E target r c) \<and> knock_result E target r c (Knock E target c)"
  proof (cases "knockRequest E target False ?c0")
    case (Returns x)
    obtain ack1 err1 c1 where x: "x = ((ack1, err1), c1)" by (cases x) auto
    have req: "requested E NHP_KNK local_failure (Resource target) r ?c0 (ack1, err1) c1"
      using first(3)[OF Returns[unfolded x]] by simp
    show ?thesis
    proof (cases ack1)
      case None
      note n = requested_None[OF req[unfolded None]]
      then show ?thesis
        using Returns x None by (simp add: ends_when_def Knock_unfold knock_unresolved_def knock_done_def knock_result_def)
    next
      case (Some msg1)
      obtain m1 where m1: "sendMsgCh c1 = sendMsgCh ?c0 @ [m1]" "knock_to E (agent ?c0) NHP_KNK (Resource target) r m1"
        "answered E local_failure m1 msg1 err1" "grows (agent ?c0) (agent c1)" "ExeDirPath c1 = ExeDirPath ?c0" "\<not> unresolved E r ?c0"
        "resolved_from E (peers (agent ?c0) ! r) (peers (agent c1) ! r)"
        by (rule requested_sent[OF req[unfolded Some]]) (use can0 in \<open>simp add: can_knock_def\<close>)
      note m1' = m1[simplified]
      show ?thesis
      proof (cases "err1 = by_cookie")
        case False
        have "knocked E (agent c) (Resource target) r [m1] msg1 err1" using m1'(2,3) False by (simp add: knocked_def)
        note e = knock_ends[OF m1'(4,5,1) this, of ?start]
        show ?thesis using e m1(6) Returns x Some False by (simp add: ends_when_def Knock_unfold knock_unresolved_def)
      next
        case True
        note e = second_request[OF can m1'(4,5,1,2) m1'(3)[unfolded True] m1'(7), of ?start]
        show ?thesis using e m1(6) Returns x Some True by (simp add: ends_when_def Knock_unfold knock_unresolved_def)
      qed
    qed
  qed (use first(1,2) in \<open>auto simp: ends_when_def Knock_unfold knock_unresolved_def knock_result_def\<close>)
  then show "ends_when E (Knock E target c) (knock_unresolved E target r c)" "knock_result E target r c (Knock E target c)" by blast+
qed

end
