(* ===== verification/Agent_Calls.thy ===== *)
theory Agent_Calls
  imports Agent_Invariant
begin

text \<open>
  Every call of the agent SDK, and every change of its configuration files, keeps the invariant of
  \<open>Agent_Invariant\<close>; and which of them end the process.
\<close>

subsection \<open>Loading the configuration\<close>

lemma servers_ok_add:
  assumes "servers_ok ps dp m" and "PubKeyBase64 p = key" and "PeerType p = NHP_SERVER"
  shows "servers_ok (ps @ [p]) (AList.update key (length ps) dp) (AList.update key (length ps) m)"
proof -
  have "r < length (ps @ [p]) \<and> PubKeyBase64 ((ps @ [p]) ! r) = k \<and> PeerType ((ps @ [p]) ! r) = NHP_SERVER \<and>
      k \<in> fst ` set (AList.update key (length ps) dp)" if "(k, r) \<in> set (AList.update key (length ps) m)" for k r
    using update_member[OF that] assms by (auto simp: servers_ok_def nth_append update_keys_set)
  then show ?thesis using assms(1) by (auto simp: servers_ok_def AList.distinct_update)
qed

lemma load_servers_ok:
  assumes "fold load_server servers (d, ps, m) = (d', ps', m')" and "device_ok ps (device_peers d)"
    and "servers_ok ps (device_peers d) m"
  shows "device_ok ps' (device_peers d') \<and> servers_ok ps' (device_peers d') m' \<and> peers_kept ps ps'"
  using assms
proof (induction servers arbitrary: d ps m)
  case Nil
  then show ?case by simp
next
  case (Cons p servers)
  let ?k = "PubKeyBase64 p" and ?p = "p\<lparr>PeerType := NHP_SERVER\<rparr>"
  have "device_ok (ps @ [?p]) (device_peers (AddPeer ?k (length ps) d))"
    using device_ok_add[OF Cons.prems(2), of ?p ?k] by (simp add: AddPeer_def)
  moreover have "servers_ok (ps @ [?p]) (device_peers (AddPeer ?k (length ps) d)) (AList.update ?k (length ps) m)"
    using servers_ok_add[OF Cons.prems(3), of ?p ?k] by (simp add: AddPeer_def)
  moreover have "fold load_server servers (AddPeer ?k (length ps) d, ps @ [?p], AList.update ?k (length ps) m) = (d', ps', m')"
    using Cons.prems(1) by simp
  ultimately have "device_ok ps' (device_peers d') \<and> servers_ok ps' (device_peers d') m' \<and> peers_kept (ps @ [?p]) ps'"
    using Cons.IH by blast
  then show ?case using peers_kept_trans[OF peers_kept_append] by blast
qed

lemma remove_peers_ok:
  assumes "device_ok ps (device_peers d)" and "servers_ok ps (device_peers d) m" and "\<forall>k \<in> set ks. map_of m k = None"
  shows "device_ok ps (device_peers (fold RemovePeer ks d)) \<and> servers_ok ps (device_peers (fold RemovePeer ks d)) m"
  using assms
proof (induction ks arbitrary: d)
  case Nil
  then show ?case by simp
next
  case (Cons k ks)
  have "device_ok ps (device_peers (RemovePeer k d))"
    using Cons.prems(1) AList.distinct_delete[of "device_peers d" k] by (auto simp: device_ok_def RemovePeer_def delete_member)
  moreover have "k \<notin> fst ` set m" using Cons.prems(3) by (simp add: map_of_eq_None_iff)
  then have "servers_ok ps (device_peers (RemovePeer k d)) m"
    using Cons.prems(2) unfolding servers_ok_def by (auto simp: RemovePeer_def delete_keys_set rev_image_eqI)
  ultimately show ?case using Cons.IH Cons.prems(3) by simp
qed

lemma servers_ok_empty [simp]: "servers_ok ps dp []"
  by (simp add: servers_ok_def)

lemma ReadConfig_frame: "ReadConfig E file c = (content, c') \<Longrightarrow> \<exists>w. c' = c\<lparr>world := w\<rparr>"
  by (auto simp: ReadConfig_def split: prod.splits)

lemma updateServerPeers_ok:
  assumes "device (agent c) = Some d" and "device_ok (peers (agent c)) (device_peers d)"
  obtains ok w d' ps m where "updateServerPeers E c =
      Returns (ok, c\<lparr>world := w, agent := (agent c)\<lparr>device := Some d', peers := ps, serverPeerMap := Some m\<rparr>\<rparr>)"
    "peers_kept (peers (agent c)) ps" "device_ok ps (device_peers d')" "servers_ok ps (device_peers d') m"
proof -
  obtain content c1 where rc: "ReadConfig E ''server.toml'' c = (content, c1)" by fastforce
  obtain w where c1: "c1 = c\<lparr>world := w\<rparr>" using ReadConfig_frame[OF rc] by blast
  obtain d1 ps m where f: "fold load_server (toml_Servers E (content_bytes content)) (d, peers (agent c), []) = (d1, ps, m)"
    using prod_cases3 by blast
  let ?old = "case serverPeerMap (agent c) of None \<Rightarrow> [] | Some m \<Rightarrow> m"
  let ?gone = "filter (\<lambda>key. map_of m key = None) (map fst ?old)"
  have l: "device_ok ps (device_peers d1)" "servers_ok ps (device_peers d1) m" "peers_kept (peers (agent c)) ps"
    using load_servers_ok[OF f assms(2)] by simp_all
  have "device_ok ps (device_peers (fold RemovePeer ?gone d1)) \<and> servers_ok ps (device_peers (fold RemovePeer ?gone d1)) m"
    by (rule remove_peers_ok[OF l(1,2)]) simp
  moreover have "updateServerPeers E c = Returns (content \<noteq> None,
      c\<lparr>world := w, agent := (agent c)\<lparr>device := Some (fold RemovePeer ?gone d1), peers := ps, serverPeerMap := Some m\<rparr>\<rparr>)"
    using assms(1) rc c1 f by (simp add: updateServerPeers_def Let_def)
  ultimately show ?thesis using that l(3) by blast
qed

text \<open>Which servers the file leaves.\<close>

lemma load_server_step:
  "fold load_server (p # servers) (d, ps, m) = x \<Longrightarrow> fold load_server servers (AddPeer (PubKeyBase64 p) (length ps) d,
     ps @ [p\<lparr>PeerType := NHP_SERVER\<rparr>], AList.update (PubKeyBase64 p) (length ps) m) = x"
  by simp

lemma load_servers_keys:
  assumes "fold load_server servers (d, ps, m) = (d', ps', m')"
  shows "fst ` set m' = fst ` set m \<union> PubKeyBase64 ` set servers \<and>
    fst ` set (device_peers d') = fst ` set (device_peers d) \<union> PubKeyBase64 ` set servers \<and>
    length ps' = length ps + length servers \<and> (\<forall>r < length ps. ps' ! r = ps ! r)"
  using assms
proof (induction servers arbitrary: d ps m)
  case Nil
  then show ?case by simp
next
  case (Cons p servers)
  note ih = Cons.IH[OF load_server_step[OF Cons.prems]]
  have "ps' ! r = ps ! r" if "r < length ps" for r using ih that by (simp add: nth_append)
  then show ?case using ih by (auto simp: update_keys_set AddPeer_def)
qed

lemma load_servers_hosts:
  assumes "fold load_server servers (d, ps, m) = (d', ps', m')" and "(k, r) \<in> set m'"
  shows "(k, r) \<in> set m \<or> (length ps \<le> r \<and> Host (ps' ! r) \<in> Host ` set servers)"
  using assms
proof (induction servers arbitrary: d ps m)
  case Nil
  then show ?case by simp
next
  case (Cons p servers)
  let ?p = "p\<lparr>PeerType := NHP_SERVER\<rparr>"
  note step = load_server_step[OF Cons.prems(1)]
  have "ps' ! length ps = ?p" using load_servers_keys[OF step] by (simp add: nth_append)
  moreover have "Host ?p = Host p" by (simp add: Host_def Let_def)
  ultimately show ?case
    using Cons.IH[OF step Cons.prems(2)] update_member[of k r "PubKeyBase64 p" "length ps" m] by auto
qed

lemma fold_RemovePeer_keys: "fst ` set (device_peers (fold RemovePeer ks d)) = fst ` set (device_peers d) - set ks"
  by (induction ks arbitrary: d) (auto simp: RemovePeer_def delete_keys_set)

lemma updateServerPeers_servers:
  assumes "device (agent c) = Some d" and "updateServerPeers E c = Returns (ok, c')"
    and servers: "servers = toml_Servers E (content_bytes (fst (ReadFile E [ExeDirPath c, ''etc'', ''server.toml''] (world c))))"
    and old: "old = (case serverPeerMap (agent c) of None \<Rightarrow> [] | Some m \<Rightarrow> m)"
  shows "\<exists>d' m. device (agent c') = Some d' \<and> serverPeerMap (agent c') = Some m \<and> fst ` set m = PubKeyBase64 ` set servers \<and>
     fst ` set (device_peers d') = fst ` set (device_peers d) - fst ` set old \<union> PubKeyBase64 ` set servers \<and>
     (\<forall>(k, r) \<in> set m. Host (peers (agent c') ! r) \<in> Host ` set servers)"
proof -
  obtain content w where rf: "ReadFile E [ExeDirPath c, ''etc'', ''server.toml''] (world c) = (content, w)" by fastforce
  obtain d1 ps m where f: "fold load_server servers (d, peers (agent c), []) = (d1, ps, m)" using prod_cases3 by blast
  let ?gone = "filter (\<lambda>key. map_of m key = None) (map fst old)"
  have u: "c' = c\<lparr>world := w, agent := (agent c)\<lparr>device := Some (fold RemovePeer ?gone d1), peers := ps, serverPeerMap := Some m\<rparr>\<rparr>"
    using assms rf f by (auto simp: updateServerPeers_def ReadConfig_def Let_def)
  note l = load_servers_keys[OF f, THEN conjunct1] load_servers_keys[OF f, THEN conjunct2, THEN conjunct1]
  have h: "Host (ps ! r) \<in> Host ` set servers" if "(k, r) \<in> set m" for k r using load_servers_hosts[OF f that] by simp
  have "set ?gone = fst ` set old - PubKeyBase64 ` set servers"
    using l(1) by (auto simp: map_of_eq_None_iff)
  then have "fst ` set (device_peers (fold RemovePeer ?gone d1)) = fst ` set (device_peers d) - fst ` set old \<union> PubKeyBase64 ` set servers"
    using l(2) by (auto simp: fold_RemovePeer_keys)
  then show ?thesis using l(1) h by (auto simp: u)
qed

text \<open>A server that is found is one of the agent's servers.\<close>

lemma Find_ok:
  assumes "FindServerPeerFromResource E res c = (Some r, c')" and "serverPeerMap (agent c) = Some m"
    and "servers_ok (peers (agent c)) dp m"
  shows "r < length (peers (agent c))" "PeerType (peers (agent c) ! r) = NHP_SERVER" "Host (peers (agent c) ! r) = ServerHost res"
proof -
  obtain k where "map_of m k = Some r" "Host (peers (agent c) ! r) = ServerHost res" using Find_server[OF assms(1)] assms(2) by auto
  then show "r < length (peers (agent c))" "PeerType (peers (agent c) ! r) = NHP_SERVER" "Host (peers (agent c) ! r) = ServerHost res"
    using map_of_SomeD[of m k r] assms(3) by (auto simp: servers_ok_def)
qed

lemma targets_ok_update:
  assumes "targets_ok ps t" and "resource_Id (Resource target) = k" and "r < length ps" and "ServerPeer target = Some r"
    and "PeerType (ps ! r) = NHP_SERVER" and "Host (ps ! r) = ServerHost (Resource target)"
  shows "targets_ok ps (AList.update k target t)"
proof -
  have "resource_Id (Resource g) = k' \<and> (\<exists>r < length ps. ServerPeer g = Some r \<and> PeerType (ps ! r) = NHP_SERVER \<and>
      Host (ps ! r) = ServerHost (Resource g))" if "(k', g) \<in> set (AList.update k target t)" for k' g
    using update_member[OF that] assms by (auto simp: targets_ok_def)
  then show ?thesis using assms(1) by (auto simp: targets_ok_def AList.distinct_update)
qed

lemma load_targets_ok:
  assumes "serverPeerMap (agent c) = Some m" and "servers_ok (peers (agent c)) dp m" and "targets_ok (peers (agent c)) t"
    and "load_targets E rs t c = (t', c')"
  shows "targets_ok (peers (agent c)) t' \<and> (\<exists>w. c' = c\<lparr>world := w\<rparr>)"
  using assms
proof (induction rs arbitrary: t c)
  case Nil
  then show ?case by (auto intro!: exI[of _ "world c"])
next
  case (Cons res rs)
  obtain x c1 where f: "FindServerPeerFromResource E res c = (x, c1)" by fastforce
  obtain w where c1: "c1 = c\<lparr>world := w\<rparr>" using f by (auto simp: FindServerPeerFromResource_def Let_def split: prod.splits)
  have a: "serverPeerMap (agent c1) = Some m" "servers_ok (peers (agent c1)) dp m" using Cons.prems(1,2) c1 by simp_all
  show ?case
  proof (cases x)
    case None
    have "load_targets E rs t c1 = (t', c')" using Cons.prems(4) f None by simp
    then show ?thesis using Cons.IH[OF a] Cons.prems(3) c1 by fastforce
  next
    case (Some r)
    note g = Find_ok[OF f[unfolded Some] Cons.prems(1,2)]
    have "targets_ok (peers (agent c)) (AList.update (resource_Id res) (new_target res r) t)"
      by (rule targets_ok_update[OF Cons.prems(3)]) (use g in \<open>simp_all add: new_target_def\<close>)
    moreover have "load_targets E rs (AList.update (resource_Id res) (new_target res r) t) c1 = (t', c')"
      using Cons.prems(4) f Some by simp
    ultimately show ?thesis using Cons.IH[OF a] c1 by fastforce
  qed
qed

text \<open>Signalling an update only marks it as pending.\<close>

lemma signal_update_open:
  assumes "knockTargetMapUpdated (agent c) = OpenChannel"
  obtains b where "signal_update c = Returns (c\<lparr>agent := (agent c)\<lparr>update_pending := b\<rparr>\<rparr>)"
proof (cases "update_pending (agent c)")
  case True
  then have "signal_update c = Returns (c\<lparr>agent := (agent c)\<lparr>update_pending := True\<rparr>\<rparr>)"
    by (simp add: signal_update_def)
  then show ?thesis by (rule that)
next
  case False
  then have "signal_update c = Returns (c\<lparr>agent := (agent c)\<lparr>update_pending := True\<rparr>\<rparr>)"
    using assms by (simp add: signal_update_def)
  then show ?thesis by (rule that)
qed

lemma updateResources_ok:
  assumes "serverPeerMap (agent c) = Some m" and "servers_ok (peers (agent c)) dp m" and "knockTargetMapUpdated (agent c) = OpenChannel"
  obtains ok w t b where "updateResources E c =
      Returns (ok, c\<lparr>world := w, agent := (agent c)\<lparr>knockTargetMap := Some t, update_pending := b\<rparr>\<rparr>)" "targets_ok (peers (agent c)) t"
proof -
  obtain content c1 where rc: "ReadConfig E ''resource.toml'' c = (content, c1)" by fastforce
  obtain w where c1: "c1 = c\<lparr>world := w\<rparr>" using ReadConfig_frame[OF rc] by blast
  obtain t c2 where l: "load_targets E (toml_Resources E (content_bytes content)) [] c1 = (t, c2)" by fastforce
  have "targets_ok (peers (agent c1)) t \<and> (\<exists>w. c2 = c1\<lparr>world := w\<rparr>)"
    by (rule load_targets_ok[OF _ _ _ l]) (use assms c1 in \<open>simp_all add: targets_ok_def\<close>)
  then obtain w' where t: "targets_ok (peers (agent c)) t" "c2 = c\<lparr>world := w'\<rparr>" using c1 by auto
  let ?c3 = "c2\<lparr>agent := (agent c2)\<lparr>knockTargetMap := Some t\<rparr>\<rparr>"
  have "knockTargetMapUpdated (agent ?c3) = OpenChannel" using assms(3) t(2) by simp
  then obtain b where sg: "signal_update ?c3 = Returns (?c3\<lparr>agent := (agent ?c3)\<lparr>update_pending := b\<rparr>\<rparr>)"
    by (rule signal_update_open)
  show ?thesis
  proof (cases "knockTargetMap (agent c2) = None")
    case True
    then have "updateResources E c = Returns (content \<noteq> None,
        c\<lparr>world := w', agent := (agent c)\<lparr>knockTargetMap := Some t, update_pending := update_pending (agent c)\<rparr>\<rparr>)"
      using rc l t(2) by (simp add: updateResources_def Let_def)
    then show ?thesis using that t(1) by blast
  next
    case False
    then have "updateResources E c = Returns (content \<noteq> None,
        c\<lparr>world := w', agent := (agent c)\<lparr>knockTargetMap := Some t, update_pending := b\<rparr>\<rparr>)"
      using rc l t(2) sg by (auto simp: updateResources_def Let_def)
    then show ?thesis using that t(1) by blast
  qed
qed

subsection \<open>Starting\<close>

lemma updateBaseConfig_frame:
  assumes "updateBaseConfig E c = (ok, c')"
  obtains w u cf where "c' = c\<lparr>world := w, agent := (agent c)\<lparr>knockUser := u, config := Some cf\<rparr>\<rparr>"
proof -
  obtain content c1 where rc: "ReadConfig E ''config.toml'' c = (content, c1)" by fastforce
  obtain w where c1: "c1 = c\<lparr>world := w\<rparr>" using ReadConfig_frame[OF rc] by blast
  show ?thesis
    using assms rc c1 that by (cases "config (agent c)") (auto simp: updateBaseConfig_def Let_def)
qed

text \<open>The configuration the agent starts with, and when its private key is too short.\<close>

definition base_config :: "'w agent_env \<Rightarrow> string \<Rightarrow> 'w ctx \<Rightarrow> Config option" where
  "base_config E dirPath c =
     map_option (toml_Config E) (fst (ReadFile E [dirPath, ''etc'', ''config.toml''] (world c)))"

definition start_crashes :: "'w agent_env \<Rightarrow> string \<Rightarrow> 'w ctx \<Rightarrow> bool" where
  "start_crashes E dirPath c = (case base_config E dirPath c of
      None \<Rightarrow> False
    | Some conf \<Rightarrow> snd (base64_Decode E (PrivateKeyBase64 conf)) \<and> SetPrivateKey_panics (PrivateKeyBase64 conf))"

definition start_succeeds :: "'w agent_env \<Rightarrow> string \<Rightarrow> 'w ctx \<Rightarrow> bool" where
  "start_succeeds E dirPath c = (case base_config E dirPath c of
      None \<Rightarrow> False
    | Some conf \<Rightarrow> snd (base64_Decode E (PrivateKeyBase64 conf)) \<and> \<not> SetPrivateKey_panics (PrivateKeyBase64 conf) \<and>
        NewDevice_accepts E (fst (base64_Decode E (PrivateKeyBase64 conf))))"

text \<open>The servers a start finds: in \<^verbatim>\<open>server.toml\<close>, read after \<^verbatim>\<open>config.toml\<close>.\<close>

definition read_servers :: "'w agent_env \<Rightarrow> string \<Rightarrow> 'w \<Rightarrow> ServerPeerData list" where
  "read_servers E dirPath w = toml_Servers E (content_bytes (fst (ReadFile E [dirPath, ''etc'', ''server.toml''] w)))"

definition start_servers :: "'w agent_env \<Rightarrow> string \<Rightarrow> 'w ctx \<Rightarrow> ServerPeerData list" where
  "start_servers E dirPath c = read_servers E dirPath (snd (ReadFile E [dirPath, ''etc'', ''config.toml''] (world c)))"

lemma half_started_zero: "half_started (zero_agent\<lparr>knockUser := u, config := cf\<rparr>)"
  "half_started (zero_agent\<lparr>knockUser := u, config := cf, base_watched := b\<rparr>)"
  by (simp_all add: half_started_def zero_agent_def)

text \<open>The servers of the agent are where the given ones are.\<close>

definition hosts_from :: "ServerPeerData list \<Rightarrow> UdpAgent \<Rightarrow> bool" where
  "hosts_from servers a \<longleftrightarrow> (\<forall>m. serverPeerMap a = Some m \<longrightarrow>
     (\<forall>(k, r) \<in> set m. Host (peers a ! r) \<in> Host ` set servers))"

lemma updateServerPeers_hosts:
  assumes "device (agent c) = Some d" and "updateServerPeers E c = Returns (ok, c')"
  shows "hosts_from (read_servers E (ExeDirPath c) (world c)) (agent c')"
  using updateServerPeers_servers[OF assms refl refl] by (auto simp: hosts_from_def read_servers_def)

text \<open>The end of a start with a device.\<close>

lemma start_rest:
  assumes "device (agent c) = Some d" and "device_peers d = []" and "knockTargetMap (agent c) = None" and "running (agent c) = False"
  obtains a w where "out_bind (updateServerPeers E c) (\<lambda>(_, c3).
       let c4 = c3\<lparr>agent := (agent c3)\<lparr>stop := OpenChannel, knockTargetStop := OpenChannel, knockTargetMapUpdated := OpenChannel\<rparr>\<rparr>
       in out_bind (updateResources E c4) (\<lambda>(_, c5).
            Returns (True, c5\<lparr>agent := (agent c5)\<lparr>running := True\<rparr>, world := Sleep E (1000 * Millisecond) (world c5)\<rparr>))) =
     Returns (True, c\<lparr>world := w, agent := a\<rparr>)" "started a" "knockTargetStop a = OpenChannel" "config a = config (agent c)"
    "knockUser a = knockUser (agent c)" "deviceId a = deviceId (agent c)" "checkResults a = checkResults (agent c)"
    "hosts_from (read_servers E (ExeDirPath c) (world c)) a"
proof -
  have "device_ok (peers (agent c)) (device_peers d)" using assms(2) by (simp add: device_ok_def)
  then obtain ok w d' ps m where u: "updateServerPeers E c =
      Returns (ok, c\<lparr>world := w, agent := (agent c)\<lparr>device := Some d', peers := ps, serverPeerMap := Some m\<rparr>\<rparr>)"
    "device_ok ps (device_peers d')" "servers_ok ps (device_peers d') m"
    by (rule updateServerPeers_ok[OF assms(1)])
  let ?c4 = "c\<lparr>world := w, agent := (agent c)\<lparr>device := Some d', peers := ps, serverPeerMap := Some m, stop := OpenChannel,
    knockTargetStop := OpenChannel, knockTargetMapUpdated := OpenChannel\<rparr>\<rparr>"
  obtain ok' w' t b where r: "updateResources E ?c4 =
      Returns (ok', ?c4\<lparr>world := w', agent := (agent ?c4)\<lparr>knockTargetMap := Some t, update_pending := b\<rparr>\<rparr>)" "targets_ok (peers (agent ?c4)) t"
    by (rule updateResources_ok[of ?c4 m "device_peers d'" E]) (simp_all add: u(3))
  let ?a = "(agent ?c4)\<lparr>knockTargetMap := Some t, update_pending := b, running := True\<rparr>"
  have "hosts_from (read_servers E (ExeDirPath c) (world c)) ?a"
    using updateServerPeers_hosts[OF assms(1) u(1)] by (simp add: hosts_from_def)
  moreover have "started ?a" unfolding started_def using u(2,3) r(2) by simp
  ultimately show ?thesis
    using u(1) r(1) by (intro that[of ?a "Sleep E (1000 * Millisecond) w'"]) (simp_all add: Let_def)
qed

lemma Start_spec:
  assumes "agent c = zero_agent"
  shows "Start E dirPath c = Crashes \<longleftrightarrow> start_crashes E dirPath c" and "Start E dirPath c \<noteq> Blocks"
    and "Start E dirPath c = Returns (ok, c') \<Longrightarrow> (ok \<longleftrightarrow> start_succeeds E dirPath c) \<and>
      (if ok then started (agent c') \<and> knockTargetStop (agent c') = OpenChannel else half_started (agent c')) \<and>
      sendMsgCh c' = sendMsgCh c \<and> accessMsgs c' = accessMsgs c \<and> checkResults (agent c') = None \<and>
      (ok \<longrightarrow> hosts_from (start_servers E dirPath c) (agent c'))"
proof -
  let ?c = "c\<lparr>ExeDirPath := dirPath\<rparr>"
  obtain content w where rf: "ReadFile E [dirPath, ''etc'', ''config.toml''] (world c) = (content, w)" by fastforce
  let ?conf = "toml_Config E (content_bytes content)" let ?key = "PrivateKeyBase64 ?conf"
  let ?c1 = "?c\<lparr>world := w, agent := zero_agent\<lparr>knockUser := ConfigUser ?conf, config := Some ?conf\<rparr>\<rparr>"
  have ub: "updateBaseConfig E ?c = (content \<noteq> None, ?c1)"
    using rf assms by (simp add: updateBaseConfig_def ReadConfig_def zero_agent_def Let_def)
  obtain prk ok64 where dec: "base64_Decode E ?key = (prk, ok64)" by fastforce
  let ?cw = "?c1\<lparr>agent := (agent ?c1)\<lparr>base_watched := True\<rparr>\<rparr>"
  let ?c2 = "?cw\<lparr>agent := (agent ?cw)\<lparr>device := Some \<lparr>privateKey = prk, counterIndex = 0, device_peers = []\<rparr>\<rparr>\<rparr>"
  obtain a w2 where rest: "out_bind (updateServerPeers E ?c2) (\<lambda>(_, c3).
       let c4 = c3\<lparr>agent := (agent c3)\<lparr>stop := OpenChannel, knockTargetStop := OpenChannel, knockTargetMapUpdated := OpenChannel\<rparr>\<rparr>
       in out_bind (updateResources E c4) (\<lambda>(_, c5).
            Returns (True, c5\<lparr>agent := (agent c5)\<lparr>running := True\<rparr>, world := Sleep E (1000 * Millisecond) (world c5)\<rparr>))) =
     Returns (True, ?c2\<lparr>world := w2, agent := a\<rparr>)" "started a" "knockTargetStop a = OpenChannel" "config a = config (agent ?c2)"
    "knockUser a = knockUser (agent ?c2)" "deviceId a = deviceId (agent ?c2)" "checkResults a = checkResults (agent ?c2)"
    "hosts_from (start_servers E dirPath c) a"
    unfolding start_servers_def
    by (rule start_rest[of ?c2 "\<lparr>privateKey = prk, counterIndex = 0, device_peers = []\<rparr>" E]) (simp_all add: zero_agent_def rf)
  have st: "Start E dirPath c = (if content = None then Returns (False, ?c1)
      else if \<not> ok64 then Returns (False, ?cw) else if SetPrivateKey_panics ?key then Crashes
      else if \<not> NewDevice_accepts E prk then Returns (False, ?cw) else Returns (True, ?c2\<lparr>world := w2, agent := a\<rparr>))"
    using ub dec rest(1) unfolding Start_def by simp
  have half: "half_started (agent ?c1)" "half_started (agent ?cw)" by (simp_all add: half_started_zero)
  have bc: "base_config E dirPath c = (if content = None then None else Some ?conf)"
    using rf by (auto simp: base_config_def content_bytes_def)
  show "Start E dirPath c = Crashes \<longleftrightarrow> start_crashes E dirPath c" "Start E dirPath c \<noteq> Blocks"
    using dec by (simp_all add: st bc start_crashes_def)
  assume s: "Start E dirPath c = Returns (ok, c')"
  show "(ok \<longleftrightarrow> start_succeeds E dirPath c) \<and>
      (if ok then started (agent c') \<and> knockTargetStop (agent c') = OpenChannel else half_started (agent c')) \<and>
      sendMsgCh c' = sendMsgCh c \<and> accessMsgs c' = accessMsgs c \<and> checkResults (agent c') = None \<and>
      (ok \<longrightarrow> hosts_from (start_servers E dirPath c) (agent c'))"
  proof (cases "content = None \<or> \<not> ok64 \<or> \<not> NewDevice_accepts E prk")
    case True
    then have "ok = False" "c' = ?c1 \<or> c' = ?cw" using s by (auto simp: st split: if_splits)
    then show ?thesis using True half dec by (auto simp: bc start_succeeds_def zero_agent_def)
  next
    case False
    then have "ok = True" "c' = ?c2\<lparr>world := w2, agent := a\<rparr>" "\<not> SetPrivateKey_panics ?key" using s by (auto simp: st split: if_splits)
    then show ?thesis using False rest(2,3,7,8) dec by (auto simp: bc start_succeeds_def zero_agent_def)
  qed
qed

subsection \<open>Calls\<close>

text \<open>The calls of a C program and the changes of the three files an agent watches.\<close>

datatype sdk_call = Init c_string int | Close | LoopStart | LoopStop | SetUser c_string c_string c_string c_string
  | Add_Server c_string c_string c_string int "64 word" | Remove_Server c_string
  | Add_Resource c_string c_string c_string c_string int | Remove_Resource c_string c_string
  | KnockRes c_string c_string c_string c_string int | ExitRes c_string c_string c_string c_string int
  | BaseChanged | ServersChanged | ResourcesChanged

definition only_state :: "('a \<times> 's) outcome \<Rightarrow> 's outcome" where
  "only_state r = out_bind r (\<lambda>(_, s). Returns s)"

text \<open>A file is watched from the moment it was loaded; the callback then runs when it has changed.\<close>

definition watched :: "(UdpAgent \<Rightarrow> bool) \<Rightarrow> ('w ctx \<Rightarrow> (bool \<times> 'w ctx) outcome) \<Rightarrow> 'w sdk \<Rightarrow> 'w sdk outcome" where
  "watched loaded f s = (case gAgentInstance s of
      None \<Rightarrow> Returns s
    | Some a \<Rightarrow> if loaded a then only_state (run_agent a f s) else Returns s)"

fun call :: "'w agent_env \<Rightarrow> sdk_call \<Rightarrow> 'w sdk \<Rightarrow> 'w sdk outcome" where
  "call E (Init dir lv) s = only_state (nhp_agent_init E dir lv s)"
| "call E Close s = only_state (nhp_agent_close E s)"
| "call E LoopStart s = only_state (nhp_agent_knockloop_start s)"
| "call E LoopStop s = only_state (nhp_agent_knockloop_stop s)"
| "call E (SetUser u d g j) s = only_state (nhp_agent_set_knock_user E u d g j s)"
| "call E (Add_Server k i h p e) s = only_state (nhp_agent_add_server k i h p e s)"
| "call E (Remove_Server k) s = only_state (nhp_agent_remove_server k s)"
| "call E (Add_Resource a r i h p) s = only_state (nhp_agent_add_resource E a r i h p s)"
| "call E (Remove_Resource a r) s = only_state (nhp_agent_remove_resource a r s)"
| "call E (KnockRes a r i h p) s = only_state (nhp_agent_knock_resource E a r i h p s)"
| "call E (ExitRes a r i h p) s = only_state (nhp_agent_exit_resource E a r i h p s)"
| "call E BaseChanged s = watched base_watched (\<lambda>c. Returns (updateBaseConfig E c)) s"
| "call E ServersChanged s = watched (\<lambda>a. serverPeerMap a \<noteq> None) (updateServerPeers E) s"
| "call E ResourcesChanged s = watched (\<lambda>a. knockTargetMap a \<noteq> None) (updateResources E) s"

text \<open>
  When a call ends the process: a private key too short on start; closing a channel that was never made
  or is closed; a server for an agent without a device; a knock at a server without an address.
\<close>

definition knock_crashes :: "'w agent_env \<Rightarrow> KnockResource \<Rightarrow> 'w ctx \<Rightarrow> bool" where
  "knock_crashes E res c = (case FindServerPeerFromResource E res c of
      (None, c1) \<Rightarrow> False
    | (Some r, c1) \<Rightarrow> knock_unresolved E (new_target res r) r c1)"

fun crashes_when :: "'w agent_env \<Rightarrow> sdk_call \<Rightarrow> 'w sdk \<Rightarrow> bool" where
  "crashes_when E (Init dir lv) s = (gAgentInstance s = None \<and> start_crashes E (deepCopyCString dir) (enter zero_agent s))"
| "crashes_when E Close s = (\<exists>a. gAgentInstance s = Some a \<and> knockTargetStop a \<noteq> OpenChannel)"
| "crashes_when E LoopStop s = (\<exists>a. gAgentInstance s = Some a \<and> knockTargetStop a \<noteq> OpenChannel)"
| "crashes_when E (Add_Server k i h p e) s = (\<exists>a. gAgentInstance s = Some a \<and> k \<noteq> None \<and> (i \<noteq> None \<or> h \<noteq> None) \<and> device a = None)"
| "crashes_when E (KnockRes a r i h p) s = (\<exists>ag. gAgentInstance s = Some ag \<and> a \<noteq> None \<and> r \<noteq> None \<and> (i \<noteq> None \<or> h \<noteq> None) \<and>
     knock_crashes E (c_resource a r i h p) (enter ag s))"
| "crashes_when E _ s = False"

lemma leave_enter [simp]: "gAgentInstance (leave a c) = a" "agent (enter b s) = b" "sendMsgCh (leave a c) = sendMsgCh c"
  "sendMsgCh (enter b s) = sendMsgCh s" "world (enter b s) = world s" "world (leave a c) = world c"
  "ExeDirPath (enter b s) = ExeDirPath s" "ExeDirPath (leave a c) = ExeDirPath c"
  by (simp_all add: leave_def enter_def)

lemma run_agent_Returns:
  "only_state (run_agent a f s) = Returns s' \<longleftrightarrow> (\<exists>x c. f (enter a s) = Returns (x, c) \<and> s' = leave (Some (agent c)) c)"
  by (auto simp: only_state_def run_agent_def out_bind_Returns)

lemma run_agent_Crashes: "only_state (run_agent a f s) = Crashes \<longleftrightarrow> f (enter a s) = Crashes"
  by (auto simp: only_state_def run_agent_def out_bind_Crashes)

lemma run_unit_Returns:
  "only_state (run_unit a f x s) = Returns s' \<longleftrightarrow> (\<exists>c. f (enter a s) = Returns c \<and> s' = leave (Some (agent c)) c)"
  by (auto simp: only_state_def run_unit_def out_bind_Returns)

lemma run_unit_Crashes: "only_state (run_unit a f x s) = Crashes \<longleftrightarrow> f (enter a s) = Crashes"
  by (auto simp: only_state_def run_unit_def out_bind_Crashes)

lemma only_state_simps [simp]: "only_state (Returns (x, s)) = Returns s" "only_state Crashes = Crashes" "only_state Blocks = Blocks"
  by (simp_all add: only_state_def)

lemmas run_simps = run_agent_Returns run_agent_Crashes run_unit_Returns run_unit_Crashes

lemma sdk_ok_leave: "agent_ok a \<Longrightarrow> sdk_ok (leave (Some a) c)" "sdk_ok (leave None c)"
  by (simp_all add: sdk_ok_def)

end
