(* ===== verification/Agent_Safety.thy ===== *)
theory Agent_Safety
  imports Agent_Calls
begin

text \<open>
  Every call keeps the invariant, and the calls that end the process are those \<open>crashes_when\<close> names, as long
  as no other goroutine panics while a call waits for it.
\<close>

subsection \<open>Fields the invariant does not mention\<close>

lemma agent_ok_fields [simp]:
  "agent_ok (a\<lparr>knockUser := u\<rparr>) = agent_ok a" "agent_ok (a\<lparr>deviceId := i\<rparr>) = agent_ok a" "agent_ok (a\<lparr>config := cf\<rparr>) = agent_ok a"
  "agent_ok (a\<lparr>knock_loops := n\<rparr>) = agent_ok a"
  by (simp_all add: agent_ok_def half_started_def started_def)

lemma started_pending [simp]: "started (a\<lparr>update_pending := b\<rparr>) = started a"
  by (simp add: started_def)

lemma no_servers: "serverPeerMap (agent c) = None \<Longrightarrow> fst (FindServerPeerFromResource E res c) = None"
  by (simp add: FindServerPeerFromResource_def List.map_filter_def case_prod_beta)

lemma Find_cases:
  assumes "agent_ok (agent c)" and "FindServerPeerFromResource E res c = (x, c1)"
  obtains "x = None" "agent c1 = agent c" "sendMsgCh c1 = sendMsgCh c" "accessMsgs c1 = accessMsgs c"
  | r where "x = Some r" "agent c1 = agent c" "sendMsgCh c1 = sendMsgCh c" "accessMsgs c1 = accessMsgs c" "started (agent c)"
    "can_knock (new_target res r) r (agent c1)" "PeerType (peers (agent c) ! r) = NHP_SERVER" "Host (peers (agent c) ! r) = ServerHost res"
proof -
  note f = Find_frame[OF assms(2)]
  show ?thesis
  proof (cases x)
    case None
    then show ?thesis using f that(1) by simp
  next
    case (Some r)
    have "started (agent c)"
      using assms no_servers[of c E res] Some by (auto simp: agent_ok_def half_started_def)
    then obtain d m where s: "device (agent c) = Some d" "serverPeerMap (agent c) = Some m" "running (agent c)"
      "servers_ok (peers (agent c)) (device_peers d) m" by (auto simp: started_def)
    note r = Find_ok[OF assms(2)[unfolded Some] s(2,4)]
    have "can_knock (new_target res r) r (agent c1)" using f s(1,3) r(1) by (simp add: can_knock_def new_target_def)
    then show ?thesis using that(2)[OF Some] f \<open>started (agent c)\<close> r(2,3) by simp
  qed
qed

subsection \<open>Servers and resources\<close>

lemma AddServer_ok:
  assumes "agent_ok (agent c)" and "PeerType p = NHP_SERVER"
  shows "AddServer p c = Crashes \<longleftrightarrow> device (agent c) = None" and "AddServer p c = Returns c' \<Longrightarrow> agent_ok (agent c')"
proof -
  have "(AddServer p c = Crashes \<longleftrightarrow> device (agent c) = None) \<and> (AddServer p c = Returns c' \<longrightarrow> agent_ok (agent c'))"
  proof (cases "half_started (agent c)")
    case True
    then show ?thesis using assms(2) by (simp add: AddServer_def half_started_def Let_def)
  next
    case False
    then have st: "started (agent c)" using assms(1) by (simp add: agent_ok_def)
    then obtain d m t where s: "device (agent c) = Some d" "serverPeerMap (agent c) = Some m" "knockTargetMap (agent c) = Some t"
      "device_ok (peers (agent c)) (device_peers d)" "servers_ok (peers (agent c)) (device_peers d) m" "targets_ok (peers (agent c)) t"
      by (auto simp: started_def)
    let ?k = "PubKeyBase64 p" and ?r = "length (peers (agent c))"
    let ?a = "(agent c)\<lparr>peers := peers (agent c) @ [p], device := Some (AddPeer ?k ?r d), serverPeerMap := Some (AList.update ?k ?r m)\<rparr>"
    have "AddServer p c = Returns (c\<lparr>agent := ?a\<rparr>)" using s(1,2) assms(2) by (simp add: AddServer_def Let_def)
    moreover have "started ?a"
      using st s device_ok_add[OF s(4), of p ?k] servers_ok_add[OF s(5), of p ?k] assms(2) targets_ok_kept[OF s(6) peers_kept_append]
      by (auto simp: started_def AddPeer_def)
    ultimately show ?thesis using s(1) by (auto simp: agent_ok_def)
  qed
  then show "AddServer p c = Crashes \<longleftrightarrow> device (agent c) = None" "AddServer p c = Returns c' \<Longrightarrow> agent_ok (agent c')" by blast+
qed

lemma servers_ok_delete: "servers_ok ps dp m \<Longrightarrow> servers_ok ps dp (AList.delete k m)"
  using AList.distinct_delete[of m k] by (auto simp: servers_ok_def delete_member)

lemma targets_ok_delete: "targets_ok ps t \<Longrightarrow> targets_ok ps (AList.delete k t)"
  using AList.distinct_delete[of t k] by (auto simp: targets_ok_def delete_member)

lemma RemoveServer_ok: "agent_ok (agent c) \<Longrightarrow> agent_ok (agent (RemoveServer k c))"
  by (auto simp: RemoveServer_def agent_ok_def half_started_def started_def servers_ok_delete)

lemma started_targets:
  assumes "started a" and "targets_ok (peers a) t"
  shows "started (a\<lparr>knockTargetMap := Some t\<rparr>)"
  using assms by (auto simp: started_def)

text \<open>Changing the targets of a started agent and signalling the change.\<close>

lemma signal_targets:
  assumes "started (agent c)" and "targets_ok (peers (agent c)) t"
  obtains b where "signal_update (c\<lparr>agent := (agent c)\<lparr>knockTargetMap := Some t\<rparr>\<rparr>) =
      Returns (c\<lparr>agent := (agent c)\<lparr>knockTargetMap := Some t, update_pending := b\<rparr>\<rparr>)"
    "started ((agent c)\<lparr>knockTargetMap := Some t, update_pending := b\<rparr>)"
proof -
  let ?c = "c\<lparr>agent := (agent c)\<lparr>knockTargetMap := Some t\<rparr>\<rparr>"
  have "knockTargetMapUpdated (agent ?c) = OpenChannel" using assms(1) by (auto simp: started_def)
  then obtain b where b: "signal_update ?c = Returns (?c\<lparr>agent := (agent ?c)\<lparr>update_pending := b\<rparr>\<rparr>)"
    by (rule signal_update_open)
  show ?thesis by (rule that[of b]) (simp_all add: b started_targets[OF assms])
qed

lemma AddResource_ok:
  assumes "agent_ok (agent c)"
  shows "AddResource E res c \<noteq> Crashes" and "AddResource E res c = Returns (ok, c') \<Longrightarrow> agent_ok (agent c')"
proof -
  obtain x c1 where f: "FindServerPeerFromResource E res c = (x, c1)" by fastforce
  have "AddResource E res c \<noteq> Crashes \<and> (AddResource E res c = Returns (ok, c') \<longrightarrow> agent_ok (agent c'))"
    using assms f
  proof (cases rule: Find_cases)
    case 1
    have "AddResource E res c = Returns (False, c1)" using f 1(1) by (simp add: AddResource_def)
    then show ?thesis using 1(2) assms by auto
  next
    case (2 r)
    then obtain t where t: "knockTargetMap (agent c1) = Some t" "targets_ok (peers (agent c1)) t"
      by (auto simp: started_def)
    have r: "r < length (peers (agent c1))" using 2(6) by (simp add: can_knock_def)
    have st: "started (agent c1)" using 2 by simp
    have upd: "targets_ok (peers (agent c1)) (AList.update (resource_Id res) g t)"
      if "Resource g = res" "ServerPeer g = Some r" for g
      by (rule targets_ok_update[OF t(2)]) (use that r 2 in simp_all)
    show ?thesis
    proof (cases "map_of t (resource_Id res)")
      case None
      have "targets_ok (peers (agent c1)) (AList.update (resource_Id res) (new_target res r) t)"
        by (rule upd) (simp_all add: new_target_def)
      with st obtain b where "signal_update (c1\<lparr>agent := (agent c1)\<lparr>knockTargetMap := Some (AList.update (resource_Id res) (new_target res r) t)\<rparr>\<rparr>) =
          Returns (c1\<lparr>agent := (agent c1)\<lparr>knockTargetMap := Some (AList.update (resource_Id res) (new_target res r) t), update_pending := b\<rparr>\<rparr>)"
        "started ((agent c1)\<lparr>knockTargetMap := Some (AList.update (resource_Id res) (new_target res r) t), update_pending := b\<rparr>)"
        by (rule signal_targets)
      then show ?thesis using f 2(1) t(1) None by (auto simp: AddResource_def agent_ok_def)
    next
      case (Some g)
      have "targets_ok (peers (agent c1)) (AList.update (resource_Id res) (g\<lparr>Resource := res, ServerPeer := Some r\<rparr>) t)"
        by (rule upd) simp_all
      from started_targets[OF st this] show ?thesis using f 2(1) t(1) Some by (auto simp: AddResource_def agent_ok_def)
    qed
  qed
  then show "AddResource E res c \<noteq> Crashes" "AddResource E res c = Returns (ok, c') \<Longrightarrow> agent_ok (agent c')" by blast+
qed

lemma RemoveResource_ok:
  assumes "agent_ok (agent c)"
  shows "RemoveResource i j c \<noteq> Crashes" and "RemoveResource i j c = Returns c' \<Longrightarrow> agent_ok (agent c')"
proof -
  have "RemoveResource i j c \<noteq> Crashes \<and> (RemoveResource i j c = Returns c' \<longrightarrow> agent_ok (agent c'))"
  proof (cases "half_started (agent c)")
    case True
    then have "agent_ok ((agent c)\<lparr>knockTargetMap := None\<rparr>)" "knockTargetMap (agent c) = None"
      by (simp_all add: agent_ok_def half_started_def)
    then show ?thesis by (auto simp: RemoveResource_def Let_def)
  next
    case False
    then have st: "started (agent c)" using assms by (simp add: agent_ok_def)
    then obtain t where t: "knockTargetMap (agent c) = Some t" "targets_ok (peers (agent c)) t" by (auto simp: started_def)
    let ?t = "AList.delete (i @ ''/'' @ j) t"
    have ok: "targets_ok (peers (agent c)) ?t" by (rule targets_ok_delete[OF t(2)])
    from signal_targets[OF st this] obtain b where "signal_update (c\<lparr>agent := (agent c)\<lparr>knockTargetMap := Some ?t\<rparr>\<rparr>) =
      Returns (c\<lparr>agent := (agent c)\<lparr>knockTargetMap := Some ?t, update_pending := b\<rparr>\<rparr>)"
      "started ((agent c)\<lparr>knockTargetMap := Some ?t, update_pending := b\<rparr>)" by blast
    then show ?thesis using t(1) started_targets[OF st ok] by (auto simp: RemoveResource_def resource_Id_def Let_def agent_ok_def)
  qed
  then show "RemoveResource i j c \<noteq> Crashes" "RemoveResource i j c = Returns c' \<Longrightarrow> agent_ok (agent c')" by blast+
qed

subsection \<open>Files that change\<close>

lemma updateBaseConfig_ok: "agent_ok (agent c) \<Longrightarrow> updateBaseConfig E c = (ok, c') \<Longrightarrow> agent_ok (agent c')"
  by (erule updateBaseConfig_frame) simp

lemma updateServerPeers_started:
  assumes "started (agent c)"
  shows "updateServerPeers E c \<noteq> Crashes" and "updateServerPeers E c = Returns (ok, c') \<Longrightarrow> started (agent c')"
proof -
  obtain d t where s: "device (agent c) = Some d" "device_ok (peers (agent c)) (device_peers d)" "knockTargetMap (agent c) = Some t"
    "targets_ok (peers (agent c)) t" using assms by (auto simp: started_def)
  obtain ok' w d' ps m where u: "updateServerPeers E c =
      Returns (ok', c\<lparr>world := w, agent := (agent c)\<lparr>device := Some d', peers := ps, serverPeerMap := Some m\<rparr>\<rparr>)"
    "peers_kept (peers (agent c)) ps" "device_ok ps (device_peers d')" "servers_ok ps (device_peers d') m"
    by (rule updateServerPeers_ok[OF s(1,2)])
  show "updateServerPeers E c \<noteq> Crashes" using u(1) by simp
  show "started (agent c')" if "updateServerPeers E c = Returns (ok, c')"
    using that u assms s(3) targets_ok_kept[OF s(4) u(2)] by (auto simp: started_def)
qed

lemma updateResources_started:
  assumes "started (agent c)"
  shows "updateResources E c \<noteq> Crashes" and "updateResources E c = Returns (ok, c') \<Longrightarrow> started (agent c')"
proof -
  obtain d :: AgentDevice and m where s: "serverPeerMap (agent c) = Some m" "servers_ok (peers (agent c)) (device_peers d) m"
    "knockTargetMapUpdated (agent c) = OpenChannel" using assms unfolding started_def by blast
  obtain ok' w t b where u: "updateResources E c =
      Returns (ok', c\<lparr>world := w, agent := (agent c)\<lparr>knockTargetMap := Some t, update_pending := b\<rparr>\<rparr>)" "targets_ok (peers (agent c)) t"
    by (rule updateResources_ok[OF s])
  show "updateResources E c \<noteq> Crashes" using u(1) by simp
  show "started (agent c')" if "updateResources E c = Returns (ok, c')"
    using that u(1) started_targets[OF assms u(2)] by auto
qed

subsection \<open>Every call\<close>

lemma enter_agent [simp]: "agent (enter a s) = a"
  by (simp add: enter_def)

definition call_good :: "'w agent_env \<Rightarrow> sdk_call \<Rightarrow> 'w sdk \<Rightarrow> bool" where
  "call_good E x s \<longleftrightarrow> ends_when E (call E x s) (crashes_when E x s) \<and> (\<forall>s'. call E x s = Returns s' \<longrightarrow> sdk_ok s')"

lemma no_agent_good:
  assumes "gAgentInstance s = None" and "\<forall>dir lv. x \<noteq> Init dir lv"
  shows "call_good E x s"
proof -
  have ok: "sdk_ok s" using assms(1) by (simp add: sdk_ok_def)
  show ?thesis
    using assms(2) ok
    by (cases x) (simp_all add: call_good_def ends_when_def assms(1) nhp_agent_close_def nhp_agent_knockloop_start_def
        nhp_agent_knockloop_stop_def nhp_agent_set_knock_user_def nhp_agent_add_server_def nhp_agent_remove_server_def
        nhp_agent_add_resource_def nhp_agent_remove_resource_def nhp_agent_knock_resource_def nhp_agent_exit_resource_def
        watched_def Let_def)
qed

lemma Init_good: "sdk_ok s \<Longrightarrow> call_good E (Init dir lv) s"
proof (cases "gAgentInstance s")
  case None
  note st = Start_spec[of "enter zero_agent s" E "deepCopyCString dir"]
  assume "sdk_ok s"
  then show ?thesis
    using None st(1) st(3)[OF _, of True] st(3)[OF _, of False]
    by (auto simp: call_good_def ends_when_def nhp_agent_init_def run_simps agent_ok_def intro!: sdk_ok_leave split: if_splits)
      (metis (full_types))
qed (simp add: call_good_def nhp_agent_init_def)

lemma run_good:
  assumes "agent_ok a" and "gAgentInstance s = Some a"
    and "call E x s = only_state (run_agent a f s)" and "ends_when E (f (enter a s)) (crashes_when E x s)"
    and "\<And>y c. f (enter a s) = Returns (y, c) \<Longrightarrow> agent_ok (agent c)"
  shows "call_good E x s"
  using assms by (auto simp: call_good_def ends_when_def run_simps intro!: sdk_ok_leave)

lemma run_unit_good:
  assumes "agent_ok a" and "gAgentInstance s = Some a"
    and "call E x s = only_state (run_unit a f y s)" and "ends_when E (f (enter a s)) (crashes_when E x s)"
    and "\<And>c. f (enter a s) = Returns c \<Longrightarrow> agent_ok (agent c)"
  shows "call_good E x s"
  using assms by (auto simp: call_good_def ends_when_def run_simps intro!: sdk_ok_leave)

lemma unchanged_good: "sdk_ok s \<Longrightarrow> call E x s = Returns s \<Longrightarrow> \<not> crashes_when E x s \<Longrightarrow> call_good E x s"
  by (simp add: call_good_def)

lemma started_open: "started a \<Longrightarrow> knockTargetStop a = OpenChannel \<or> knockTargetStop a = ClosedChannel"
  by (cases "knockTargetStop a") (auto simp: started_def)

lemma Stop_spec:
  assumes "agent_ok (agent c)"
  shows "ends_when E (Stop E c) (knockTargetStop (agent c) \<noteq> OpenChannel)"
    and "Stop E c = Blocks \<Longrightarrow> Finish E (world c) = Blocks"
    and "knockTargetStop (agent c) = OpenChannel \<Longrightarrow> Stop E c = Crashes \<longleftrightarrow> Finish E (world c) = Crashes"
proof -
  have "(knockTargetStop (agent c) \<noteq> OpenChannel \<longrightarrow> Stop E c = Crashes) \<and>
      (knockTargetStop (agent c) = OpenChannel \<longrightarrow> (Stop E c = Crashes \<longleftrightarrow> Finish E (world c) = Crashes)) \<and>
      (Stop E c = Blocks \<longrightarrow> Finish E (world c) = Blocks)"
    using assms by (cases "Finish E (world c)")
      (auto simp: agent_ok_def half_started_def started_def Stop_def close_channel_def Let_def)
  then show "ends_when E (Stop E c) (knockTargetStop (agent c) \<noteq> OpenChannel)"
    "Stop E c = Blocks \<Longrightarrow> Finish E (world c) = Blocks"
    "knockTargetStop (agent c) = OpenChannel \<Longrightarrow> Stop E c = Crashes \<longleftrightarrow> Finish E (world c) = Crashes"
    using calm_world.finish_calm[of E "world c"] by (auto simp: ends_when_def)
qed

lemma StopKnockLoop_ok:
  assumes "agent_ok (agent c)"
  shows "StopKnockLoop c = Crashes \<longleftrightarrow> knockTargetStop (agent c) \<noteq> OpenChannel" and "StopKnockLoop c = Returns c' \<Longrightarrow> agent_ok (agent c')"
  using assms by (auto simp: StopKnockLoop_def close_channel_def agent_ok_def half_started_def started_def split: if_splits)

lemma life_good:
  assumes "agent_ok a" and "gAgentInstance s = Some a"
  shows "call_good E Close s" "call_good E LoopStart s" "call_good E LoopStop s"
proof -
  show "call_good E Close s"
    using assms Stop_spec(1)[of "enter a s" E] by (auto simp: call_good_def ends_when_def nhp_agent_close_def only_state_def
        out_bind_Returns out_bind_Crashes sdk_ok_leave)
  show "call_good E LoopStart s"
    by (rule run_good[OF assms, where f = "\<lambda>c. Returns (map_prod int id (StartKnockLoop c))"])
      (use assms in \<open>auto simp: nhp_agent_knockloop_start_def StartKnockLoop_def\<close>)
  show "call_good E LoopStop s"
    by (rule run_unit_good[OF assms, where f = StopKnockLoop and y = "()"])
      (use assms StopKnockLoop_ok[of "enter a s"] in \<open>simp_all add: ends_when_iff nhp_agent_knockloop_stop_def\<close>)
qed

lemma data_good:
  assumes ok: "sdk_ok s" and a: "agent_ok a" "gAgentInstance s = Some a"
  shows "call_good E (SetUser u d g j) s" "call_good E (Add_Server k i h p e) s" "call_good E (Remove_Server k) s"
    "call_good E (Add_Resource as r i h p) s" "call_good E (Remove_Resource as r) s"
proof -
  show "call_good E (SetUser u d g j) s"
  proof (cases "deepCopyCString j \<noteq> [] \<and> json_Object E (deepCopyCString j) = None")
    case True
    then show ?thesis by (intro unchanged_good[OF ok]) (simp_all add: nhp_agent_set_knock_user_def a(2))
  next
    case False
    let ?data = "if deepCopyCString j = [] then None else json_Object E (deepCopyCString j)"
    show ?thesis
      by (rule run_unit_good[OF a, where y = True and f = "\<lambda>c. Returns (SetKnockUser (deepCopyCString u) (deepCopyCString g) ?data
            (SetDeviceId (deepCopyCString d) c))"])
        (use False a in \<open>auto simp: nhp_agent_set_knock_user_def SetKnockUser_def SetDeviceId_def Let_def split: option.splits\<close>)
  qed
  show "call_good E (Add_Server k i h p e) s"
  proof (cases "k = None \<or> (i = None \<and> h = None)")
    case True
    then show ?thesis by (intro unchanged_good[OF ok]) (auto simp: nhp_agent_add_server_def a(2))
  next
    case False
    let ?p = "new_peer (deepCopyCString k) (deepCopyCString i) (deepCopyCString h) (if p = 0 then 62206 else p) NHP_SERVER e"
    have "PeerType ?p = NHP_SERVER" by (simp add: new_peer_def)
    note add = AddServer_ok[of "enter a s" ?p, OF _ this]
    show ?thesis
      by (rule run_unit_good[OF a, where f = "AddServer ?p" and y = True])
        (use False a add in \<open>auto simp: nhp_agent_add_server_def intro!: ends_when_iff\<close>)
  qed
  show "call_good E (Remove_Server k) s"
  proof (cases "k = None")
    case True
    then show ?thesis by (intro unchanged_good[OF ok]) (simp_all add: nhp_agent_remove_server_def a(2))
  next
    case False
    then show ?thesis
      by (intro run_unit_good[OF a, where f = "\<lambda>c. Returns (RemoveServer (deepCopyCString k) c)" and y = "()"])
        (use a RemoveServer_ok[of "enter a s"] in \<open>auto simp: nhp_agent_remove_server_def\<close>)
  qed
  show "call_good E (Add_Resource as r i h p) s"
  proof (cases "as = None \<or> r = None \<or> (i = None \<and> h = None)")
    case True
    then show ?thesis by (intro unchanged_good[OF ok]) (auto simp: nhp_agent_add_resource_def a(2))
  next
    case False
    then show ?thesis
      by (intro run_good[OF a, where f = "AddResource E (c_resource as r i h p)"])
        (use a AddResource_ok[of "enter a s"] in \<open>auto simp: nhp_agent_add_resource_def\<close>)
  qed
  show "call_good E (Remove_Resource as r) s"
  proof (cases "as = None \<or> r = None")
    case True
    then show ?thesis by (intro unchanged_good[OF ok]) (auto simp: nhp_agent_remove_resource_def a(2))
  next
    case False
    then show ?thesis
      by (intro run_unit_good[OF a, where f = "RemoveResource (deepCopyCString as) (deepCopyCString r)" and y = "()"])
        (use a RemoveResource_ok[of "enter a s"] in \<open>auto simp: nhp_agent_remove_resource_def\<close>)
  qed
qed

lemma watched_good:
  assumes "agent_ok a" and "gAgentInstance s = Some a" and "sdk_ok s"
    and "call E x s = watched loaded f s" and "\<not> crashes_when E x s"
    and "loaded a \<Longrightarrow> f (enter a s) \<noteq> Crashes" and "\<And>y c. loaded a \<Longrightarrow> f (enter a s) = Returns (y, c) \<Longrightarrow> agent_ok (agent c)"
  shows "call_good E x s"
proof (cases "loaded a")
  case True
  then show ?thesis
    using assms by (intro run_good[OF assms(1,2), where f = f]) (simp_all add: watched_def)
next
  case False
  then show ?thesis using assms by (intro unchanged_good) (simp_all add: watched_def)
qed

lemma loaded_started: "agent_ok a \<Longrightarrow> serverPeerMap a \<noteq> None \<or> knockTargetMap a \<noteq> None \<Longrightarrow> started a"
  by (auto simp: agent_ok_def half_started_def)

lemma files_good:
  assumes ok: "sdk_ok s" and a: "agent_ok a" "gAgentInstance s = Some a"
  shows "call_good E BaseChanged s" "call_good E ServersChanged s" "call_good E ResourcesChanged s"
proof -
  show "call_good E BaseChanged s"
    by (rule watched_good[OF a ok, where f = "\<lambda>c. Returns (updateBaseConfig E c)" and loaded = base_watched])
      (use a updateBaseConfig_ok[of "enter a s" E] in auto)
  show "call_good E ServersChanged s"
    by (rule watched_good[OF a ok, where f = "updateServerPeers E" and loaded = "\<lambda>a. serverPeerMap a \<noteq> None"])
      (use loaded_started[OF a(1)] updateServerPeers_started[of "enter a s" E] in \<open>auto simp: agent_ok_def\<close>)
  show "call_good E ResourcesChanged s"
    by (rule watched_good[OF a ok, where f = "updateResources E" and loaded = "\<lambda>a. knockTargetMap a \<noteq> None"])
      (use loaded_started[OF a(1)] updateResources_started[of "enter a s" E] in \<open>auto simp: agent_ok_def\<close>)
qed

text \<open>The two functions that ask a server.\<close>

lemma exit_started:
  assumes "can_knock target r (agent c)" and "started (agent c)"
  shows "calm_world E \<Longrightarrow> ExitKnockRequest E target c \<noteq> Crashes"
    and "ExitKnockRequest E target c = Returns (ack, c') \<Longrightarrow> started (agent c')"
proof -
  note spec = access_request_spec[of c target r E NHP_EXT "''ErrTransactionFailedByTimeout''"]
  show "ExitKnockRequest E target c \<noteq> Crashes" if "calm_world E"
    using spec(1)[OF _ _ _ _ that] assms(1) by (simp add: can_knock_def ExitKnockRequest_def)
  assume "ExitKnockRequest E target c = Returns (ack, c')"
  then have "requested E NHP_EXT ''ErrTransactionFailedByTimeout'' (Resource target) r c ack c'"
    using spec(2) assms(1) by (simp add: can_knock_def ExitKnockRequest_def)
  then show "started (agent c')" using grows_started[OF assms(2)] by (simp add: requested_def)
qed

lemma new_target_fields [simp]: "Resource (new_target res r) = res" "ServerPeer (new_target res r) = Some r"
  by (simp_all add: new_target_def)

lemma knock_good:
  assumes ok: "sdk_ok s" and a: "agent_ok ag" "gAgentInstance s = Some ag"
  shows "call_good E (KnockRes a r i h p) s"
proof (cases "a = None \<or> r = None \<or> (i = None \<and> h = None)")
  case True
  then show ?thesis by (intro unchanged_good[OF ok]) (auto simp: nhp_agent_knock_resource_def a(2) Let_def)
next
  case False
  let ?res = "c_resource a r i h p"
  let ?f = "\<lambda>c. case FindServerPeerFromResource E ?res c of
       (None, c1) \<Rightarrow> Returns (reply_text E (Some (failed_ack ''ErrKnockServerNotFound'')), c1)
     | (Some r, c1) \<Rightarrow> out_bind (Knock E (new_target ?res r) c1) (\<lambda>(((ackMsg, _), _), c2). Returns (reply_text E ackMsg, c2))"
  have run: "call E (KnockRes a r i h p) s = only_state (run_agent ag ?f s)"
    using False by (auto simp: nhp_agent_knock_resource_def a(2) Let_def)
  obtain x c1 where f: "FindServerPeerFromResource E ?res (enter ag s) = (x, c1)" by fastforce
  have "agent_ok (agent (enter ag s))" using a(1) by simp
  from this f show ?thesis
  proof (cases rule: Find_cases)
    case 1
    have "?f (enter ag s) = Returns (reply_text E (Some (failed_ack ''ErrKnockServerNotFound'')), c1)" using f 1(1) by simp
    then show ?thesis using 1(1,2) f a by (intro run_good[OF a run]) (auto simp: knock_crashes_def)
  next
    case (2 q)
    note k = Knock_spec[OF 2(6)]
    have fe: "?f (enter ag s) = out_bind (Knock E (new_target ?res q) c1) (\<lambda>(((ackMsg, _), _), c2). Returns (reply_text E ackMsg, c2))"
      using f 2(1) by simp
    have "ends_when E (?f (enter ag s)) (crashes_when E (KnockRes a r i h p) s)"
      using k(1) f 2(1) False a(2) unfolding fe by (auto simp: ends_when_def out_bind_Crashes knock_crashes_def)
    moreover have "agent_ok (agent c)" if ret: "?f (enter ag s) = Returns (y, c)" for y c
    proof -
      obtain ack err target' where kr: "Knock E (new_target ?res q) c1 = Returns (((ack, err), target'), c)"
        using ret unfolding fe by (auto simp: out_bind_Returns)
      then have "grows (agent c1) (agent c)" using k(2) unfolding knock_result_def by blast
      then show ?thesis using grows_started 2(2,5) by (simp add: agent_ok_def)
    qed
    ultimately show ?thesis by (intro run_good[OF a run])
  qed
qed

lemma exit_good:
  assumes ok: "sdk_ok s" and a: "agent_ok ag" "gAgentInstance s = Some ag"
  shows "call_good E (ExitRes a r i h p) s"
proof (cases "a = None \<or> r = None \<or> (i = None \<and> h = None)")
  case True
  then show ?thesis by (intro unchanged_good[OF ok]) (auto simp: nhp_agent_exit_resource_def a(2) Let_def)
next
  case False
  let ?res = "c_resource a r i h p"
  let ?f = "\<lambda>c. case FindServerPeerFromResource E ?res c of
       (None, c1) \<Rightarrow> Returns (False, c1)
     | (Some r, c1) \<Rightarrow> out_bind (ExitKnockRequest E (new_target ?res r) c1) (\<lambda>((_, err), c2). Returns (err = None, c2))"
  have run: "call E (ExitRes a r i h p) s = only_state (run_agent ag ?f s)"
    using False by (auto simp: nhp_agent_exit_resource_def a(2) Let_def)
  obtain x c1 where f: "FindServerPeerFromResource E ?res (enter ag s) = (x, c1)" by fastforce
  have "agent_ok (agent (enter ag s))" using a(1) by simp
  from this f show ?thesis
  proof (cases rule: Find_cases)
    case 1
    then show ?thesis using f a by (intro run_good[OF a run]) auto
  next
    case (2 q)
    have "started (agent c1)" using 2(2,5) by simp
    note e = exit_started[OF 2(6) this, of E]
    show ?thesis
      using f 2(1) e by (intro run_good[OF a run]) (auto simp: out_bind_Crashes out_bind_Returns agent_ok_def)
  qed
qed

lemma call_spec: "sdk_ok s \<Longrightarrow> call_good E x s"
proof (cases "gAgentInstance s")
  case None
  assume "sdk_ok s"
  then show ?thesis using no_agent_good[OF None] Init_good by (cases "\<exists>dir lv. x = Init dir lv") auto
next
  case (Some a)
  assume ok: "sdk_ok s"
  then have a: "agent_ok a" using Some by (simp add: sdk_ok_def)
  show ?thesis
    by (cases x) (simp_all add: ok Init_good life_good[OF a Some] data_good[OF ok a Some] files_good[OF ok a Some]
        knock_good[OF ok a Some] exit_good[OF ok a Some])
qed

end
