(* ===== verification/Agent_Demo.thy ===== *)
theory Agent_Demo
  imports Agent_Safety Nhp_Transaction_Properties "HOL-Library.Multiset"
begin

text \<open>
  Runs of the agent SDK: any sequence of calls, a knock through \<^verbatim>\<open>nhp_agent_knock_resource\<close>, what a success
  means, and the demo program from start to end.
\<close>

subsection \<open>Sequences of calls\<close>

fun calls :: "'w agent_env \<Rightarrow> sdk_call list \<Rightarrow> 'w sdk \<Rightarrow> 'w sdk outcome" where
  "calls E [] s = Returns s"
| "calls E (x # xs) s = out_bind (call E x s) (calls E xs)"

lemma calls_ok: "sdk_ok s \<Longrightarrow> calls E xs s = Returns s' \<Longrightarrow> sdk_ok s'"
proof (induction xs arbitrary: s)
  case (Cons x xs)
  then show ?case using call_spec[of s E x] by (auto simp: out_bind_Returns call_good_def)
qed simp

text \<open>The calls reach one that ends the process.\<close>

definition reach_crash :: "'w agent_env \<Rightarrow> sdk_call list \<Rightarrow> 'w sdk \<Rightarrow> bool" where
  "reach_crash E xs s \<longleftrightarrow> (\<exists>ys x zs s'. xs = ys @ x # zs \<and> calls E ys s = Returns s' \<and> crashes_when E x s')"

lemma reach_crash_Cons:
  "reach_crash E (x # xs) s \<longleftrightarrow> crashes_when E x s \<or> (\<exists>s1. call E x s = Returns s1 \<and> reach_crash E xs s1)"
  (is "?l \<longleftrightarrow> ?r")
proof
  assume ?l
  then obtain ys y zs s' where a: "x # xs = ys @ y # zs" "calls E ys s = Returns s'" "crashes_when E y s'"
    unfolding reach_crash_def by blast
  then show ?r unfolding reach_crash_def by (cases ys) (auto simp: out_bind_Returns)
next
  assume ?r
  then show ?l
  proof
    assume "crashes_when E x s"
    then show ?l unfolding reach_crash_def by (intro exI[of _ "[]"] exI[of _ x] exI[of _ xs] exI[of _ s]) simp
  next
    assume "\<exists>s1. call E x s = Returns s1 \<and> reach_crash E xs s1"
    then obtain s1 ys y zs s' where "call E x s = Returns s1" "xs = ys @ y # zs" "calls E ys s1 = Returns s'" "crashes_when E y s'"
      unfolding reach_crash_def by blast
    then show ?l unfolding reach_crash_def by (intro exI[of _ "x # ys"] exI[of _ y] exI[of _ zs] exI[of _ s']) simp
  qed
qed

lemma calls_crash: "sdk_ok s \<Longrightarrow> ends_when E (calls E xs s) (reach_crash E xs s)"
proof (induction xs arbitrary: s)
  case Nil
  then show ?case by (simp add: ends_when_def reach_crash_def)
next
  case (Cons x xs)
  note c = call_spec[OF Cons.prems, of E x, unfolded call_good_def]
  have "ends_when E (calls E xs s1) (reach_crash E xs s1)" if "call E x s = Returns s1" for s1
    using Cons.IH c that by blast
  then show ?case
    using c by (auto simp: reach_crash_Cons ends_when_def out_bind_Crashes)
qed

subsection \<open>A knock of the C program\<close>

text \<open>Answer, messages and agent of a knock that passed the checks of its arguments.\<close>

definition knock_outcome :: "'w agent_env \<Rightarrow> UdpAgent \<Rightarrow> KnockResource \<Rightarrow> string \<Rightarrow> (UDPAddr \<times> MsgData) list \<Rightarrow> UdpAgent \<Rightarrow> bool" where
  "knock_outcome E ag res reply ms ag' \<longleftrightarrow>
     (reply = json_Reply E (failed_ack ''ErrKnockServerNotFound'') \<and> ms = [] \<and> ag' = ag) \<or>
     (\<exists>r msg err. r < length (peers ag) \<and> PeerType (peers ag ! r) = NHP_SERVER \<and> Host (peers ag ! r) = ServerHost res \<and>
        reply = json_Reply E msg \<and> knocked E ag res r ms msg err \<and> grows ag ag')"

definition no_null :: "c_string \<Rightarrow> c_string \<Rightarrow> c_string \<Rightarrow> c_string \<Rightarrow> bool" where
  "no_null aspId resId ip host \<longleftrightarrow> aspId \<noteq> None \<and> resId \<noteq> None \<and> (ip \<noteq> None \<or> host \<noteq> None)"

definition knock_ctx :: "'w agent_env \<Rightarrow> KnockResource \<Rightarrow> 'w ctx \<Rightarrow> (string \<times> 'w ctx) outcome" where
  "knock_ctx E res c = (case FindServerPeerFromResource E res c of
       (None, c1) \<Rightarrow> Returns (reply_text E (Some (failed_ack ''ErrKnockServerNotFound'')), c1)
     | (Some r, c1) \<Rightarrow> out_bind (Knock E (new_target res r) c1) (\<lambda>(((ackMsg, _), _), c2). Returns (reply_text E ackMsg, c2)))"

lemma knock_resource_run:
  "no_null a r i h \<Longrightarrow> gAgentInstance s = Some ag \<Longrightarrow>
     nhp_agent_knock_resource E a r i h p s = run_agent ag (knock_ctx E (c_resource a r i h p)) s"
  by (auto simp: nhp_agent_knock_resource_def no_null_def knock_ctx_def[abs_def] Let_def)

lemma knock_ctx_outcome:
  assumes "agent_ok (agent c)" and "knock_ctx E res c = Returns (reply, c')"
  shows "\<exists>ms. sendMsgCh c' = sendMsgCh c @ ms \<and> knock_outcome E (agent c) res reply ms (agent c')"
proof -
  obtain x c1 where f: "FindServerPeerFromResource E res c = (x, c1)" by fastforce
  from assms(1) f show ?thesis
  proof (cases rule: Find_cases)
    case 1
    then have "reply = json_Reply E (failed_ack ''ErrKnockServerNotFound'')" "c' = c1"
      using assms(2) f by (simp_all add: knock_ctx_def reply_text_def)
    then show ?thesis using 1(2,3) by (intro exI[of _ "[]"]) (simp add: knock_outcome_def)
  next
    case (2 r)
    note k = Knock_spec(2)[OF 2(6), of E, unfolded knock_result_def]
    have "out_bind (Knock E (new_target res r) c1) (\<lambda>(((ackMsg, _), _), c2). Returns (reply_text E ackMsg, c2)) = Returns (reply, c')"
      using f 2(1) assms(2) by (simp add: knock_ctx_def)
    then obtain ack err t where ret: "Knock E (new_target res r) c1 = Returns (((ack, err), t), c')" "reply = reply_text E ack"
      by (auto simp: out_bind_Returns)
    obtain msg ms where m: "ack = Some msg" "grows (agent c1) (agent c')" "sendMsgCh c' = sendMsgCh c1 @ ms"
      "knocked E (agent c1) (Resource (new_target res r)) r ms msg err"
      using k[THEN spec, THEN spec, THEN spec, THEN spec, THEN mp, OF ret(1)] by (elim exE conjE)
    have "r < length (peers (agent c))" using 2(2,6) by (simp add: can_knock_def)
    then have "knock_outcome E (agent c) res reply ms (agent c')"
      unfolding knock_outcome_def using m(2,4) ret(2) 2(2,7,8) m(1)
      by (intro disjI2 exI[of _ r] exI[of _ msg] exI[of _ err]) (simp add: reply_text_def)
    then show ?thesis using m(3) 2(3) by auto
  qed
qed

lemma knock_resource_outcome:
  assumes "sdk_ok s" and "gAgentInstance s = Some ag" and "no_null a r i h"
    and "nhp_agent_knock_resource E a r i h p s = Returns (reply, s')"
  shows "\<exists>ag' ms. gAgentInstance s' = Some ag' \<and> sendMsgCh s' = sendMsgCh s @ ms \<and>
     knock_outcome E ag (c_resource a r i h p) reply ms ag'"
proof -
  obtain c where c: "knock_ctx E (c_resource a r i h p) (enter ag s) = Returns (reply, c)" "s' = leave (Some (agent c)) c"
    using assms(4) by (auto simp: knock_resource_run[OF assms(3,2)] run_agent_def out_bind_Returns)
  have "agent_ok (agent (enter ag s))" using assms(1,2) by (simp add: sdk_ok_def)
  from knock_ctx_outcome[OF this c(1)] show ?thesis using c(2) by auto
qed

subsection \<open>What a success means\<close>

lemma success_codes: "ErrorCode ''ErrSuccess'' = ''0''" "ErrorCode local_failure = ''50009''" "ErrorCode ''ErrJsonParseFailed'' = ''50001''"
  "ErrorCode ''ErrKnockTerminatedByCookie'' = ''51003''" "ErrorCode ''ErrTransactionRepliedWithWrongType'' = ''50006''"
  by code_simp+

lemma read_ack_success:
  assumes "(msg, err) = read_ack E local_failure result"
  shows "err = None \<longleftrightarrow> ErrCode msg = ''0''"
    and "err = None \<Longrightarrow> \<exists>ppd. (result = Answer ppd \<or> result = External ppd) \<and> ppd_HeaderType ppd = NHP_ACK \<and>
      json_Ack E (ppd_BodyMessage ppd) = (msg, None)"
proof -
  have reply: "(err = None \<longleftrightarrow> ErrCode msg = ''0'') \<and> (err = None \<longrightarrow> ppd_HeaderType ppd = NHP_ACK \<and>
      json_Ack E (ppd_BodyMessage ppd) = (msg, None))" if "(msg, err) = read_reply E ppd" for ppd
    using that by (auto simp: read_reply_def failed_ack_def success_codes split: if_splits prod.splits option.splits)
  have "(err = None \<longleftrightarrow> ErrCode msg = ''0'') \<and> (err = None \<longrightarrow> (\<exists>ppd. (result = Answer ppd \<or> result = External ppd) \<and>
      ppd_HeaderType ppd = NHP_ACK \<and> json_Ack E (ppd_BodyMessage ppd) = (msg, None)))"
    using assms reply by (cases result) (simp_all add: success_codes)
  then show "err = None \<longleftrightarrow> ErrCode msg = ''0''" "err = None \<Longrightarrow> \<exists>ppd. (result = Answer ppd \<or> result = External ppd) \<and>
      ppd_HeaderType ppd = NHP_ACK \<and> json_Ack E (ppd_BodyMessage ppd) = (msg, None)" by blast+
qed

text \<open>The answer that counts is the one to the last message.\<close>

lemma knocked_answered: "knocked E a res r ms msg err \<Longrightarrow> ms \<noteq> [] \<and> answered E local_failure (last ms) msg err"
  by (auto simp: knocked_def)

lemma knock_done_target:
  assumes "knock_done E start target x = Returns (((ack, err), t), c')"
  shows "if err = None then \<exists>time. t = target\<lparr>LastKnockSuccessTime := time\<rparr> else t = target"
proof -
  obtain ackMsg e c where x: "x = ((ackMsg, e), c)" by (cases x) auto
  show ?thesis
    using assms x by (auto simp: knock_done_def out_bind_Returns Let_def case_prod_beta split: option.splits if_splits
        intro: exI[of _ "LastKnockSuccessTime target"])
qed

lemma Knock_target:
  assumes "Knock E target c = Returns (((ack, err), t), c')"
  shows "if err = None then \<exists>time. t = target\<lparr>LastKnockSuccessTime := time\<rparr> else t = target"
proof -
  obtain x where "knock_done E (fst (Now E (world c))) target x = Returns (((ack, err), t), c')"
    using assms by (auto simp: Knock_unfold out_bind_Returns)
  then show ?thesis by (rule knock_done_target)
qed

text \<open>What comes back from the network is the result of a transaction of a reachable agent, or an error.\<close>

definition exchange_by_transactions ::
  "crypto \<Rightarrow> (byte list \<Rightarrow> (64 word \<times> byte list) option) \<Rightarrow> Device \<Rightarrow> ConnectionData option \<Rightarrow> 'w agent_env \<Rightarrow> bool" where
  "exchange_by_transactions C J dev conn E \<longleftrightarrow> (\<forall>addr md w result w'. Exchange E addr md w = Returns (result, w') \<longrightarrow>
     (\<exists>e. result = Failed e) \<or>
     (\<exists>st r. agent_reachable C J dev conn st \<and> (r, result) \<in> set (ResponseMsgCh st) \<and>
        lt_transactionId (ag_transactions st ! r) = md_TransactionId md))"

lemma knock_success:
  assumes "can_knock target r (agent c)" and "Knock E target c = Returns (((ack, err), t), c')"
    and "exchange_by_transactions C J dev conn E"
  obtains msg ms where "ack = Some msg" "sendMsgCh c' = sendMsgCh c @ ms" "ms \<noteq> []" "err = None \<longleftrightarrow> ErrCode msg = ''0''"
    "err = None \<longrightarrow> (\<exists>st q ppd. agent_reachable C J dev conn st \<and> (q, Answer ppd) \<in> set (ResponseMsgCh st) \<and>
       lt_transactionId (ag_transactions st ! q) = md_TransactionId (snd (last ms)) \<and>
       ppd_HeaderType ppd = NHP_ACK \<and> json_Ack E (ppd_BodyMessage ppd) = (msg, None) \<and>
       (\<exists>tm content dev' conn'. fst (parse_packet C tm (Some (lt_mad (ag_transactions st ! q))) content dev' conn') = Ok ppd))"
proof -
  obtain msg ms where m: "ack = Some msg" "grows (agent c) (agent c')" "sendMsgCh c' = sendMsgCh c @ ms"
    "knocked E (agent c) (Resource target) r ms msg err"
    using Knock_spec(2)[OF assms(1), of E, unfolded knock_result_def, THEN spec, THEN spec, THEN spec, THEN spec, THEN mp, OF assms(2)]
    by (elim exE conjE)
  obtain result w w' where x: "Exchange E (fst (last ms)) (snd (last ms)) w = Returns (result, w')" "(msg, err) = read_ack E local_failure result"
    using knocked_answered[OF m(4)] by (auto simp: answered_def)
  note s = read_ack_success[OF x(2)]
  have "\<exists>st q ppd. agent_reachable C J dev conn st \<and> (q, Answer ppd) \<in> set (ResponseMsgCh st) \<and>
       lt_transactionId (ag_transactions st ! q) = md_TransactionId (snd (last ms)) \<and>
       ppd_HeaderType ppd = NHP_ACK \<and> json_Ack E (ppd_BodyMessage ppd) = (msg, None) \<and>
       (\<exists>tm content dev' conn'. fst (parse_packet C tm (Some (lt_mad (ag_transactions st ! q))) content dev' conn') = Ok ppd)"
    if success: "err = None"
  proof -
    obtain ppd where p: "result = Answer ppd \<or> result = External ppd" "ppd_HeaderType ppd = NHP_ACK"
      "json_Ack E (ppd_BodyMessage ppd) = (msg, None)" using s(2)[OF success] by blast
    obtain st q where st: "agent_reachable C J dev conn st" "(q, result) \<in> set (ResponseMsgCh st)"
      "lt_transactionId (ag_transactions st ! q) = md_TransactionId (snd (last ms))"
      using assms(3)[unfolded exchange_by_transactions_def, THEN spec, THEN spec, THEN spec, THEN spec, THEN spec, THEN mp, OF x(1)] p(1)
      by auto
    have "result \<noteq> External ppd"
      using agent_reachable_inv[OF st(1)] st(2) p(2) by (auto simp: agent_inv_def header_type_defs)
    moreover from this p(1) have "answers C st ppd q"
      using agent_reachable_inv[OF st(1)] st(2) by (auto simp: agent_inv_def)
    ultimately show ?thesis using st p unfolding answers_def by blast
  qed
  then show ?thesis using that m(1,3) knocked_answered[OF m(4)] s(1) by blast
qed

subsection \<open>The demo\<close>

abbreviation demo_host :: string where "demo_host \<equiv> ''192.168.1.66:62206''"

abbreviation demo_resource :: KnockResource where
  "demo_resource \<equiv> c_resource (Some ''example'') (Some ''demo'') (Some ''192.168.1.66'') None 62206"

lemma demo_port: "sprintf_int 62206 = ''62206''"
  by (simp add: sprintf_int_def sprintf_d.simps) code_simp

lemma demo_resource_host: "ServerHost demo_resource = demo_host"
  by (simp add: c_resource_def deepCopyCString_def ServerHost_def demo_port)

text \<open>A running agent whose only server at the address of the demo is \<open>q\<close>.\<close>

definition demo_ready :: "nat \<Rightarrow> UdpAgent \<Rightarrow> bool" where
  "demo_ready q a \<longleftrightarrow> started a \<and> knockTargetStop a = OpenChannel \<and>
     (\<exists>m k. serverPeerMap a = Some m \<and> (k, q) \<in> set m \<and> (\<forall>(k', r) \<in> set m. Host (peers a ! r) = demo_host \<longrightarrow> r = q)) \<and>
     Hostname (peers a ! q) = [] \<and> Ip (peers a ! q) = ''192.168.1.66'' \<and> Port (peers a ! q) = 62206"

lemma demo_ready_length: "demo_ready q a \<Longrightarrow> q < length (peers a)"
  by (auto simp: demo_ready_def started_def servers_ok_def)

lemma demo_ready_host: "demo_ready q a \<Longrightarrow> Host (peers a ! q) = demo_host"
  by (simp add: demo_ready_def Host_def demo_port)

lemma demo_ready_grows:
  assumes "demo_ready q a" and "grows a b"
  shows "demo_ready q b"
proof -
  obtain m k where m: "serverPeerMap a = Some m" "(k, q) \<in> set m" "\<forall>(k', r) \<in> set m. Host (peers a ! r) = demo_host \<longrightarrow> r = q"
    using assms(1) by (auto simp: demo_ready_def)
  have len: "r < length (peers a)" if "(k', r) \<in> set m" for k' r
    using assms(1) m(1) that by (auto simp: demo_ready_def started_def servers_ok_def)
  note kept = peers_kept_nth[OF grows_same(9)[OF assms(2)]]
  have "\<forall>(k', r) \<in> set m. Host (peers b ! r) = demo_host \<longrightarrow> r = q"
    using m(3) len kept(4) by fastforce
  moreover have "started b" using assms(1) grows_started[OF _ assms(2)] by (simp add: demo_ready_def)
  moreover note kept(5-7)[OF demo_ready_length[OF assms(1)]]
  ultimately show ?thesis
    using assms(1) m(1,2) grows_same(1,5)[OF assms(2)] unfolding demo_ready_def by auto
qed

lemma demo_resolved: "demo_ready q (agent c) \<Longrightarrow> net_ParseIP E ''192.168.1.66'' \<noteq> None \<Longrightarrow> \<not> unresolved E q c"
  using SendAddr_static[of c q E] by (simp add: unresolved_def demo_ready_def)

lemma demo_address:
  assumes "demo_ready q a" and "net_ParseIP E ''192.168.1.66'' = Some ip" and "knock_to E a t res q m"
  shows "fst m = (ip, 62206)" and "md_HeaderType (snd m) = t"
proof -
  show "fst m = (ip, 62206)" using assms by (auto simp: knock_to_def resolves_to_def demo_ready_def prod_eq_iff)
  have "snd m = knock_data E a t (md_TransactionId (snd m)) res (peers a ! q)" using assms(3) by (simp add: knock_to_def)
  then show "md_HeaderType (snd m) = t" by (metis MsgData.select_convs(3) knock_data_def)
qed

lemma demo_can_knock: "demo_ready q a \<Longrightarrow> can_knock (new_target res q) q a"
  using demo_ready_length[of q a] by (auto simp: can_knock_def demo_ready_def started_def)

lemma demo_knock_resolved:
  assumes "demo_ready q (agent c)" and "net_ParseIP E ''192.168.1.66'' = Some ip"
  shows "\<not> knock_unresolved E (new_target res q) q c"
proof -
  let ?c0 = "c\<lparr>world := snd (Now E (world c))\<rparr>"
  have r0: "demo_ready q (agent ?c0)" using assms(1) by simp
  have "\<not> unresolved E q c1" if k: "knockRequest E (new_target res q) False ?c0 = Returns ((ack, err), c1)" for ack err c1
  proof -
    have "grows (agent ?c0) (agent c1)"
      using knockRequest_spec(3)[OF demo_can_knock[OF r0] k] by (simp add: requested_def)
    from demo_resolved[OF demo_ready_grows[OF r0 this]] show ?thesis using assms(2) by simp
  qed
  then show ?thesis
    using demo_resolved[OF r0, of E] assms(2) by (auto simp: knock_unresolved_def Let_def split: outcome.splits)
qed

text \<open>The messages the demo sends in a call: of these types, to the address of the server.\<close>

definition demo_messages :: "byte list \<Rightarrow> int list \<Rightarrow> (UDPAddr \<times> MsgData) list \<Rightarrow> bool" where
  "demo_messages ip types ms \<longleftrightarrow> map (md_HeaderType \<circ> snd) ms = types \<and> (\<forall>m \<in> set ms. fst m = (ip, 62206))"

definition exit_ctx :: "'w agent_env \<Rightarrow> KnockResource \<Rightarrow> 'w ctx \<Rightarrow> (bool \<times> 'w ctx) outcome" where
  "exit_ctx E res c = (case FindServerPeerFromResource E res c of
       (None, c1) \<Rightarrow> Returns (False, c1)
     | (Some r, c1) \<Rightarrow> out_bind (ExitKnockRequest E (new_target res r) c1) (\<lambda>((_, err), c2). Returns (err = None, c2)))"

lemma exit_resource_run:
  "no_null a r i h \<Longrightarrow> gAgentInstance s = Some ag \<Longrightarrow>
     nhp_agent_exit_resource E a r i h p s = run_agent ag (exit_ctx E (c_resource a r i h p)) s"
  by (auto simp: nhp_agent_exit_resource_def no_null_def exit_ctx_def[abs_def] Let_def)

text \<open>From the knock of the demo to its end.\<close>

definition demo_tail :: "'w agent_env \<Rightarrow> 'w sdk \<Rightarrow> ((int \<times> string) \<times> 'w sdk) outcome" where
  "demo_tail E s =
     out_bind (nhp_agent_knock_resource E (Some ''example'') (Some ''demo'') (Some ''192.168.1.66'') None 62206 s) (\<lambda>(ret, s4).
     out_bind (nhp_agent_exit_resource E (Some ''example'') (Some ''demo'') (Some ''192.168.1.66'') None 62206 s4) (\<lambda>(_, s5).
     out_bind (nhp_agent_close E s5) (\<lambda>(_, s6). Returns ((0, ''knock return: '' @ ret @ [CHR 0x0A]), s6))))"

lemma Stop_sends: "Stop E c = Returns c' \<Longrightarrow> sendMsgCh c' = sendMsgCh c"
  by (auto simp: Stop_def out_bind_Returns Let_def split: option.splits)

text \<open>What the demo has done when it returns.\<close>

definition demo_result :: "'w agent_env \<Rightarrow> byte list \<Rightarrow> 'w sdk \<Rightarrow> ((int \<times> string) \<times> 'w sdk) outcome \<Rightarrow> bool" where
  "demo_result E ip s result \<longleftrightarrow> (\<forall>code output s'. result = Returns ((code, output), s') \<longrightarrow>
     code = 0 \<and> gAgentInstance s' = None \<and>
     (\<exists>ms msg. sendMsgCh s' = sendMsgCh s @ ms \<and> output = ''knock return: '' @ json_Reply E msg @ [CHR 0x0A] \<and>
        (demo_messages ip [NHP_KNK, NHP_EXT] ms \<or> demo_messages ip [NHP_KNK, NHP_RKN, NHP_EXT] ms)))"

text \<open>The server of the demo, added to an agent whose other servers are elsewhere.\<close>

abbreviation demo_server :: ServerPeerData where
  "demo_server \<equiv> new_peer ''replace_with_actual_publickeybase64'' ''192.168.1.66'' '''' 62206 NHP_SERVER 1748908471"

lemma demo_server_fields:
  "PubKeyBase64 demo_server = ''replace_with_actual_publickeybase64''" "Hostname demo_server = []" "Ip demo_server = ''192.168.1.66''"
  "Port demo_server = 62206" "PeerType demo_server = NHP_SERVER"
  by (simp_all add: new_peer_def)

lemma demo_added:
  assumes "started (agent c)" and "knockTargetStop (agent c) = OpenChannel" and "hosts_from servers (agent c)"
    and "\<forall>p \<in> set servers. Host p \<noteq> demo_host"
  obtains c' where "AddServer demo_server c = Returns c'" "demo_ready (length (peers (agent c))) (agent c')" "sendMsgCh c' = sendMsgCh c"
proof -
  let ?ps = "peers (agent c)" and ?k = "PubKeyBase64 demo_server"
  obtain d m where s: "device (agent c) = Some d" "serverPeerMap (agent c) = Some m" "servers_ok ?ps (device_peers d) m"
    using assms(1) by (auto simp: started_def)
  let ?c = "c\<lparr>agent := (agent c)\<lparr>peers := ?ps @ [demo_server], device := Some (AddPeer ?k (length ?ps) d),
    serverPeerMap := Some (AList.update ?k (length ?ps) m)\<rparr>\<rparr>"
  have add: "AddServer demo_server c = Returns ?c"
    using s(1,2) demo_server_fields(5) by (simp add: AddServer_def Let_def)
  have "agent_ok (agent ?c)"
    using AddServer_ok(2)[OF _ demo_server_fields(5) add] assms(1) by (simp add: agent_ok_def)
  then have st: "started (agent ?c)" using s(1) by (simp add: agent_ok_def half_started_def)
  have "r = length ?ps" if "(k, r) \<in> set (AList.update ?k (length ?ps) m)" "Host ((?ps @ [demo_server]) ! r) = demo_host" for k r
    using update_member[OF that(1)]
  proof
    assume old: "(k, r) \<in> set m"
    then have r: "r < length ?ps" using s(3) by (auto simp: servers_ok_def)
    have "Host (?ps ! r) \<in> Host ` set servers"
      using assms(3) s(2) old by (fastforce simp: hosts_from_def)
    moreover have "Host (?ps ! r) = demo_host" using that(2) r by (simp add: nth_append)
    ultimately show ?thesis using assms(4) by (metis imageE)
  qed simp
  then have only: "\<forall>(k, r) \<in> set (AList.update ?k (length ?ps) m). Host (peers (agent ?c) ! r) = demo_host \<longrightarrow> r = length ?ps"
    by (intro ballI, clarify) simp
  have "(?k, length ?ps) \<in> set (AList.update ?k (length ?ps) m)"
    by (rule map_of_SomeD) (simp add: AList.update_conv)
  moreover have "peers (agent ?c) ! length ?ps = demo_server" "serverPeerMap (agent ?c) = Some (AList.update ?k (length ?ps) m)"
    "knockTargetStop (agent ?c) = OpenChannel" using assms(2) by simp_all
  ultimately have "demo_ready (length ?ps) (agent ?c)"
    unfolding demo_ready_def using st only demo_server_fields(2-4)
    by (intro conjI exI[of _ "AList.update ?k (length ?ps) m"] exI[of _ ?k]) simp_all
  then show ?thesis using add that by simp
qed

lemma started_user: "started (a\<lparr>deviceId := i, knockUser := u\<rparr>) = started a"
  by (simp add: started_def)

subsection \<open>The demo among the servers of the agent\<close>

text \<open>A \<^verbatim>\<open>range\<close> over a map visits every key once, in any order.\<close>

locale agent_world =
  fixes E :: "'w agent_env"
  assumes iterates_all: "mset (fst (iterate E ks w)) = mset ks"

context agent_world
begin

text \<open>So a server that is there is found.\<close>

lemma Find_complete:
  assumes "serverPeerMap (agent c) = Some m" and "distinct (map fst m)" and "(k, q) \<in> set m"
    and "Host (peers (agent c) ! q) = ServerHost res"
    and only: "\<forall>(k', r) \<in> set m. Host (peers (agent c) ! r) = ServerHost res \<longrightarrow> r = q"
  obtains w where "FindServerPeerFromResource E res c = (Some q, c\<lparr>world := w\<rparr>)"
proof -
  obtain ks w where i: "iterate E (map fst m) (world c) = (ks, w)" by fastforce
  have ks: "set ks = fst ` set m"
    using iterates_all[of "map fst m" "world c"] i by (metis fst_conv mset_eq_setD set_map)
  let ?rs = "List.map_filter (map_of m) ks" and ?P = "\<lambda>r. Host (peers (agent c) ! r) = ServerHost res"
  have "map_of m k = Some q" using assms(2,3) by simp
  moreover have "k \<in> set ks" using assms(3) by (force simp: ks)
  ultimately have "q \<in> set ?rs" by (force simp: List.map_filter_def)
  then have "find ?P ?rs \<noteq> None" using assms(4) by (auto simp: find_None_iff)
  then obtain r where r: "find ?P ?rs = Some r" by blast
  then have "r \<in> set ?rs" "?P r" by (auto simp: find_Some_iff in_set_conv_nth)
  moreover from this(1) obtain k' where "map_of m k' = Some r" by (auto simp: List.map_filter_def)
  ultimately have "r = q" using only map_of_SomeD by fastforce
  then have "FindServerPeerFromResource E res c = (Some q, c\<lparr>world := w\<rparr>)"
    using i r assms(1) by (simp add: FindServerPeerFromResource_def)
  then show ?thesis by (rule that)
qed

lemma demo_find:
  assumes "demo_ready q (agent c)"
  obtains w where "FindServerPeerFromResource E demo_resource c = (Some q, c\<lparr>world := w\<rparr>)"
proof -
  obtain m k where m: "serverPeerMap (agent c) = Some m" "(k, q) \<in> set m"
    "\<forall>(k', r) \<in> set m. Host (peers (agent c) ! r) = demo_host \<longrightarrow> r = q"
    using assms(1) by (auto simp: demo_ready_def)
  have "distinct (map fst m)" using assms(1) m(1) by (auto simp: demo_ready_def started_def servers_ok_def)
  then obtain w where "FindServerPeerFromResource E demo_resource c = (Some q, c\<lparr>world := w\<rparr>)"
    using Find_complete[OF m(1) _ m(2), of demo_resource] demo_ready_host[OF assms(1)] m(3)
    unfolding demo_resource_host by blast
  then show ?thesis by (rule that)
qed

lemma demo_knock:
  assumes "demo_ready q (agent c)" and "net_ParseIP E ''192.168.1.66'' = Some ip"
  shows "calm_world E \<Longrightarrow> knock_ctx E demo_resource c \<noteq> Crashes"
    and "knock_ctx E demo_resource c = Returns (reply, c') \<Longrightarrow> demo_ready q (agent c') \<and>
      (\<exists>ms msg. sendMsgCh c' = sendMsgCh c @ ms \<and> reply = json_Reply E msg \<and>
         (demo_messages ip [NHP_KNK] ms \<or> demo_messages ip [NHP_KNK, NHP_RKN] ms))"
proof -
  obtain w where f: "FindServerPeerFromResource E demo_resource c = (Some q, c\<lparr>world := w\<rparr>)" by (rule demo_find[OF assms(1)])
  let ?c = "c\<lparr>world := w\<rparr>" let ?t = "new_target demo_resource q"
  have r: "demo_ready q (agent ?c)" using assms(1) by simp
  note k = Knock_spec[OF demo_can_knock[OF r, of demo_resource], of E]
  have run: "knock_ctx E demo_resource c = out_bind (Knock E ?t ?c) (\<lambda>(((ackMsg, _), _), c2). Returns (reply_text E ackMsg, c2))"
    using f by (simp add: knock_ctx_def)
  have "Knock E ?t ?c \<noteq> Crashes" if "calm_world E"
    using k(1) that demo_knock_resolved[OF r assms(2)] unfolding ends_when_def by blast
  then show "knock_ctx E demo_resource c \<noteq> Crashes" if "calm_world E" using that by (auto simp: run out_bind_Crashes)
  assume "knock_ctx E demo_resource c = Returns (reply, c')"
  then obtain ack err t where ret: "Knock E ?t ?c = Returns (((ack, err), t), c')" "reply = reply_text E ack"
    by (auto simp: run out_bind_Returns)
  obtain msg ms where m: "ack = Some msg" "grows (agent ?c) (agent c')" "sendMsgCh c' = sendMsgCh ?c @ ms"
    "knocked E (agent ?c) demo_resource q ms msg err"
    using k(2)[unfolded knock_result_def, THEN spec, THEN spec, THEN spec, THEN spec, THEN mp, OF ret(1)]
    by (elim exE conjE) simp
  have "demo_messages ip [NHP_KNK] ms \<or> demo_messages ip [NHP_KNK, NHP_RKN] ms"
    using m(4) demo_address[OF r assms(2)] unfolding knocked_def by (elim disjE exE conjE) (auto simp: demo_messages_def)
  then show "demo_ready q (agent c') \<and>
      (\<exists>ms msg. sendMsgCh c' = sendMsgCh c @ ms \<and> reply = json_Reply E msg \<and>
         (demo_messages ip [NHP_KNK] ms \<or> demo_messages ip [NHP_KNK, NHP_RKN] ms))"
    using demo_ready_grows[OF r m(2)] m(1,3) ret(2) by (intro conjI exI[of _ ms] exI[of _ msg]) (simp_all add: reply_text_def)
qed

lemma demo_exit:
  assumes "demo_ready q (agent c)" and "net_ParseIP E ''192.168.1.66'' = Some ip"
  shows "calm_world E \<Longrightarrow> exit_ctx E demo_resource c \<noteq> Crashes"
    and "exit_ctx E demo_resource c = Returns (ok, c') \<Longrightarrow> demo_ready q (agent c') \<and>
      (\<exists>ms. sendMsgCh c' = sendMsgCh c @ ms \<and> demo_messages ip [NHP_EXT] ms)"
proof -
  obtain w where f: "FindServerPeerFromResource E demo_resource c = (Some q, c\<lparr>world := w\<rparr>)" by (rule demo_find[OF assms(1)])
  let ?c = "c\<lparr>world := w\<rparr>" let ?t = "new_target demo_resource q"
  have r: "demo_ready q (agent ?c)" using assms(1) by simp
  have can: "can_knock ?t q (agent ?c)" by (rule demo_can_knock[OF r])
  note spec = access_request_spec[of ?c ?t q E NHP_EXT "''ErrTransactionFailedByTimeout''"]
  have run: "exit_ctx E demo_resource c = out_bind (ExitKnockRequest E ?t ?c) (\<lambda>((_, err), c2). Returns (err = None, c2))"
    using f by (simp add: exit_ctx_def)
  have "ExitKnockRequest E ?t ?c \<noteq> Crashes" if "calm_world E"
    using spec(1) can that by (simp add: can_knock_def ExitKnockRequest_def)
  then show "exit_ctx E demo_resource c \<noteq> Crashes" if "calm_world E" using that by (auto simp: run out_bind_Crashes)
  assume "exit_ctx E demo_resource c = Returns (ok, c')"
  then obtain ack err where ret: "ExitKnockRequest E ?t ?c = Returns ((ack, err), c')"
    by (auto simp: run out_bind_Returns)
  then have req: "requested E NHP_EXT ''ErrTransactionFailedByTimeout'' demo_resource q ?c (ack, err) c'"
    using spec(2) can by (simp add: can_knock_def ExitKnockRequest_def)
  show "demo_ready q (agent c') \<and> (\<exists>ms. sendMsgCh c' = sendMsgCh c @ ms \<and> demo_messages ip [NHP_EXT] ms)"
  proof (cases ack)
    case None
    then show ?thesis using requested_None(1)[OF req[unfolded None]] demo_resolved[OF r, of E] assms(2) by simp
  next
    case (Some msg)
    obtain m where m: "sendMsgCh c' = sendMsgCh ?c @ [m]" "knock_to E (agent ?c) NHP_EXT demo_resource q m"
      "answered E ''ErrTransactionFailedByTimeout'' m msg err" "grows (agent ?c) (agent c')" "ExeDirPath c' = ExeDirPath ?c" "\<not> unresolved E q ?c"
      by (rule requested_sent[OF req[unfolded Some]]) (use can in \<open>simp add: can_knock_def\<close>)
    have "demo_messages ip [NHP_EXT] [m]" using demo_address[OF r assms(2) m(2)] by (simp add: demo_messages_def)
    then show ?thesis using demo_ready_grows[OF r m(4)] m(1) by (intro conjI exI[of _ "[m]"]) simp_all
  qed
qed

lemma demo_tail_spec:
  assumes "net_ParseIP E ''192.168.1.66'' = Some ip" and "gAgentInstance s = Some a" and "demo_ready q a"
  shows "calm_world E \<Longrightarrow> demo_tail E s \<noteq> Crashes" and "demo_result E ip s (demo_tail E s)"
proof -
  have nn: "no_null (Some ''example'') (Some ''demo'') (Some ''192.168.1.66'') None" by (simp add: no_null_def)
  note kr = knock_resource_run[OF nn assms(2), of E 62206]
  have r0: "demo_ready q (agent (enter a s))" using assms(3) by simp
  have "(calm_world E \<longrightarrow> demo_tail E s \<noteq> Crashes) \<and> demo_result E ip s (demo_tail E s)"
  proof (cases "knock_ctx E demo_resource (enter a s)")
    case (Returns x)
    obtain reply c1 where x: "x = (reply, c1)" by (cases x)
    let ?s4 = "leave (Some (agent c1)) c1"
    obtain ms msg where k: "demo_ready q (agent c1)" "sendMsgCh c1 = sendMsgCh s @ ms" "reply = json_Reply E msg"
      "demo_messages ip [NHP_KNK] ms \<or> demo_messages ip [NHP_KNK, NHP_RKN] ms"
      using demo_knock(2)[OF r0 assms(1) Returns[unfolded x]] by (elim conjE exE) simp
    have r1: "demo_ready q (agent (enter (agent c1) ?s4))" using k(1) by simp
    have "gAgentInstance ?s4 = Some (agent c1)" by simp
    note er = exit_resource_run[OF nn this, of E 62206]
    show ?thesis
    proof (cases "exit_ctx E demo_resource (enter (agent c1) ?s4)")
      case (Returns y)
      obtain ok c2 where y: "y = (ok, c2)" by (cases y)
      obtain ms2 where e: "demo_ready q (agent c2)" "sendMsgCh c2 = sendMsgCh c1 @ ms2" "demo_messages ip [NHP_EXT] ms2"
        using demo_exit(2)[OF r1 assms(1) Returns[unfolded y]] by (elim conjE exE) simp
      let ?c = "enter (agent c2) (leave (Some (agent c2)) c2)"
      have "agent_ok (agent ?c)" "knockTargetStop (agent ?c) = OpenChannel" using e(1) by (simp_all add: demo_ready_def agent_ok_def)
      note stop = Stop_spec(1)[OF this(1), of E]
      have run: "demo_tail E s = out_bind (Stop E ?c)
          (\<lambda>c3. Returns ((0, ''knock return: '' @ reply @ [CHR 0x0A]), leave None c3))"
        using kr er \<open>knock_ctx E demo_resource (enter a s) = Returns x\<close> Returns x y
        by (simp add: demo_tail_def run_agent_def nhp_agent_close_def) (cases "Stop E ?c"; simp)
      have calm: "demo_tail E s \<noteq> Crashes" if "calm_world E"
        using stop that \<open>knockTargetStop (agent ?c) = OpenChannel\<close> by (auto simp: run ends_when_def out_bind_Crashes)
      have "demo_messages ip [NHP_KNK, NHP_EXT] (ms @ ms2) \<or> demo_messages ip [NHP_KNK, NHP_RKN, NHP_EXT] (ms @ ms2)"
        using k(4) e(3) by (auto simp: demo_messages_def)
      then have "demo_result E ip s (demo_tail E s)"
        unfolding run demo_result_def using Stop_sends[of E ?c] k(2,3) e(2)
        by (auto simp: out_bind_Returns intro!: exI[of _ "ms @ ms2"] exI[of _ msg])
      then show ?thesis using calm by blast
    next
      case Crashes
      then have "demo_tail E s = Crashes" using kr er Returns x by (simp add: demo_tail_def run_agent_def)
      then show ?thesis using demo_exit(1)[OF r1 assms(1)] Crashes by (auto simp: demo_result_def)
    next
      case Blocks
      then show ?thesis using kr er Returns x
        by (simp add: demo_tail_def run_agent_def demo_result_def)
    qed
  next
    case Crashes
    then have "demo_tail E s = Crashes" using kr by (simp add: demo_tail_def run_agent_def)
    then show ?thesis using demo_knock(1)[OF r0 assms(1)] Crashes by (auto simp: demo_result_def)
  next
    case Blocks
    then show ?thesis using kr by (simp add: demo_tail_def run_agent_def demo_result_def)
  qed
  then show "calm_world E \<Longrightarrow> demo_tail E s \<noteq> Crashes" "demo_result E ip s (demo_tail E s)" by blast+
qed

lemma demo_main_spec:
  assumes "gAgentInstance s = None" and "net_ParseIP E ''192.168.1.66'' = Some ip"
    and "\<forall>p \<in> set (start_servers E ''.'' (enter zero_agent s)). Host p \<noteq> demo_host"
  shows "ends_when E (demo_main E s) (\<not> start_succeeds E ''.'' (enter zero_agent s))" and "demo_result E ip s (demo_main E s)"
proof -
  note st = Start_spec[of "enter zero_agent s" E "''.''"]
  let ?user = "\<lambda>c. SetKnockUser ''zengl'' '''' None (SetDeviceId '''' c)"
  have "ends_when E (demo_main E s) (\<not> start_succeeds E ''.'' (enter zero_agent s)) \<and> demo_result E ip s (demo_main E s)"
  proof (cases "Start E ''.'' (enter zero_agent s)")
    case (Returns x)
    obtain ok c1 where x: "x = (ok, c1)" by (cases x)
    let ?c2 = "?user (enter (agent c1) (leave (Some (agent c1)) c1))"
    let ?c3 = "enter (agent ?c2) (leave (Some (agent ?c2)) ?c2)"
    have main: "demo_main E s = out_bind (AddServer demo_server ?c3) (\<lambda>c. demo_tail E (leave (Some (agent c)) c))"
      using assms(1) Returns x
      by (simp add: demo_main_def demo_tail_def nhp_agent_init_def nhp_agent_set_knock_user_def nhp_agent_add_server_def
          run_agent_def run_unit_def deepCopyCString_def Let_def) (cases "AddServer demo_server ?c3"; simp)
    have ag: "agent ?c3 = (agent c1)\<lparr>deviceId := '''', knockUser := \<lparr>UserId = ''zengl'', OrganizationId = '''', UserData = None\<rparr>\<rparr>"
      "sendMsgCh ?c3 = sendMsgCh c1" by (simp_all add: SetKnockUser_def SetDeviceId_def)
    have s: "ok \<longleftrightarrow> start_succeeds E ''.'' (enter zero_agent s)" "sendMsgCh c1 = sendMsgCh s"
      "if ok then started (agent c1) \<and> knockTargetStop (agent c1) = OpenChannel else half_started (agent c1)"
      "ok \<longrightarrow> hosts_from (start_servers E ''.'' (enter zero_agent s)) (agent c1)"
      using st(3)[OF _ Returns[unfolded x]] by simp_all
    show ?thesis
    proof (cases ok)
      case True
      have "started (agent ?c3)" "knockTargetStop (agent ?c3) = OpenChannel"
        "hosts_from (start_servers E ''.'' (enter zero_agent s)) (agent ?c3)"
        using s(3,4) True unfolding ag started_user hosts_from_def by simp_all
      then obtain c4 where c4: "AddServer demo_server ?c3 = Returns c4" "demo_ready (length (peers (agent ?c3))) (agent c4)"
        "sendMsgCh c4 = sendMsgCh ?c3"
        by (rule demo_added[OF _ _ _ assms(3)])
      have "gAgentInstance (leave (Some (agent c4)) c4) = Some (agent c4)" by simp
      note t = demo_tail_spec[OF assms(2) this c4(2)]
      have "demo_main E s = demo_tail E (leave (Some (agent c4)) c4)" using main c4(1) by simp
      moreover have "sendMsgCh (leave (Some (agent c4)) c4) = sendMsgCh s" using c4(3) ag(2) s(2) by simp
      ultimately show ?thesis using t s(1) True by (simp add: ends_when_def demo_result_def)
    next
      case False
      have "AddServer demo_server ?c3 = Crashes"
        using AddServer_ok(1)[of ?c3 demo_server, OF _ demo_server_fields(5)] s(3) False
        unfolding ag by (simp add: agent_ok_def half_started_def)
      then show ?thesis using main s(1) False by (simp add: ends_when_def demo_result_def)
    qed
  next
    case Crashes
    then have "start_crashes E ''.'' (enter zero_agent s)" using st(1) by simp
    then have "\<not> start_succeeds E ''.'' (enter zero_agent s)"
      by (auto simp: start_crashes_def start_succeeds_def split: option.splits)
    moreover have "demo_main E s = Crashes"
      using assms(1) Crashes by (simp add: demo_main_def nhp_agent_init_def run_agent_def deepCopyCString_def)
    ultimately show ?thesis by (simp add: ends_when_def demo_result_def)
  next
    case Blocks
    then show ?thesis using st(2) by simp
  qed
  then show "ends_when E (demo_main E s) (\<not> start_succeeds E ''.'' (enter zero_agent s))" "demo_result E ip s (demo_main E s)" by blast+
qed

end

end
