(* ===== verification/Agent_Liveness.thy ===== *)
theory Agent_Liveness
  imports Agent_Demo
begin

text \<open>
  A call of the agent SDK can wait for ever only on the network or, when it closes the agent, on the goroutines of
  the agent: when each message it sends comes back with some result and each access message leaves, every other
  call returns or ends the process.
\<close>

locale responsive_world =
  fixes E :: "'w agent_env"
  assumes exchanges: "Exchange E addr md w \<noteq> Blocks"
    and seals: "SealAccess E addr md w' \<noteq> Blocks"

lemma out_bind_Blocks: "out_bind r f = Blocks \<longleftrightarrow> r = Blocks \<or> (\<exists>x. r = Returns x \<and> f x = Blocks)"
  by (cases r) simp_all

lemma run_Blocks:
  "only_state (run_agent a f s) = Blocks \<longleftrightarrow> f (enter a s) = Blocks"
  "only_state (run_unit a g x s) = Blocks \<longleftrightarrow> g (enter a s) = Blocks"
  by (auto simp: only_state_def run_agent_def run_unit_def out_bind_Blocks)

subsection \<open>Agent\<close>

lemma AddServer_returns: "AddServer p c \<noteq> Blocks"
  by (simp add: AddServer_def Let_def split: option.splits)

lemma StopKnockLoop_returns: "StopKnockLoop c \<noteq> Blocks"
  by (simp add: StopKnockLoop_def close_channel_def)

text \<open>A running agent can always signal a change.\<close>

lemma signal_started: "knockTargetMapUpdated (agent c) = OpenChannel \<Longrightarrow> signal_update c \<noteq> Blocks"
  by (simp add: signal_update_def)

lemma AddResource_returns:
  assumes "agent_ok (agent c)"
  shows "AddResource E res c \<noteq> Blocks"
proof -
  obtain x c1 where f: "FindServerPeerFromResource E res c = (x, c1)" by fastforce
  from assms f show ?thesis
  proof (cases rule: Find_cases)
    case 1
    then show ?thesis using f by (simp add: AddResource_def)
  next
    case (2 r)
    then have "knockTargetMapUpdated (agent c1) = OpenChannel" by (auto simp: started_def)
    then show ?thesis using f 2(1)
      by (auto simp: AddResource_def out_bind_Blocks signal_started split: option.splits)
  qed
qed

lemma RemoveResource_returns:
  assumes "agent_ok (agent c)"
  shows "RemoveResource i j c \<noteq> Blocks"
proof (cases "half_started (agent c)")
  case True
  then show ?thesis by (simp add: RemoveResource_def half_started_def Let_def)
next
  case False
  then have "knockTargetMapUpdated (agent c) = OpenChannel" using assms by (auto simp: agent_ok_def started_def)
  then show ?thesis by (auto simp: RemoveResource_def signal_started Let_def)
qed

lemma reload_returns:
  assumes "started (agent c)"
  shows "updateServerPeers E c \<noteq> Blocks" "updateResources E c \<noteq> Blocks"
proof -
  obtain d where "device (agent c) = Some d" "device_ok (peers (agent c)) (device_peers d)" using assms by (auto simp: started_def)
  then obtain ok w d' ps m where "updateServerPeers E c =
      Returns (ok, c\<lparr>world := w, agent := (agent c)\<lparr>device := Some d', peers := ps, serverPeerMap := Some m\<rparr>\<rparr>)"
    by (rule updateServerPeers_ok)
  then show "updateServerPeers E c \<noteq> Blocks" by simp
  obtain d :: AgentDevice and m where "serverPeerMap (agent c) = Some m" "servers_ok (peers (agent c)) (device_peers d) m"
    "knockTargetMapUpdated (agent c) = OpenChannel" using assms unfolding started_def by blast
  then obtain ok w t b where "updateResources E c =
      Returns (ok, c\<lparr>world := w, agent := (agent c)\<lparr>knockTargetMap := Some t, update_pending := b\<rparr>\<rparr>)"
    by (rule updateResources_ok)
  then show "updateResources E c \<noteq> Blocks" by simp
qed

subsection \<open>Calls\<close>

lemma call_without_agent: "gAgentInstance s = None \<Longrightarrow> call E x s \<noteq> Blocks"
  using Start_spec(2)[of "enter zero_agent s" E]
  by (cases x) (simp_all add: nhp_agent_init_def run_Blocks nhp_agent_close_def nhp_agent_knockloop_start_def
      nhp_agent_knockloop_stop_def nhp_agent_set_knock_user_def nhp_agent_add_server_def nhp_agent_remove_server_def
      nhp_agent_add_resource_def nhp_agent_remove_resource_def nhp_agent_knock_resource_def nhp_agent_exit_resource_def
      watched_def Let_def)

lemma data_call_returns:
  assumes "agent_ok ag" and "gAgentInstance s = Some ag"
  shows "call E (SetUser u d g j) s \<noteq> Blocks" "call E (Add_Server k i h p e) s \<noteq> Blocks" "call E (Remove_Server k) s \<noteq> Blocks"
    "call E (Add_Resource a r i h p) s \<noteq> Blocks" "call E (Remove_Resource a r) s \<noteq> Blocks"
  using assms AddResource_returns[of "enter ag s" E] RemoveResource_returns[of "enter ag s"]
  by (simp_all add: run_Blocks AddServer_returns nhp_agent_set_knock_user_def nhp_agent_add_server_def nhp_agent_remove_server_def
      nhp_agent_add_resource_def nhp_agent_remove_resource_def Let_def split: option.splits)

lemma life_call_returns:
  assumes "gAgentInstance s = Some ag"
  shows "call E (Init dir lv) s \<noteq> Blocks" "call E LoopStart s \<noteq> Blocks" "call E LoopStop s \<noteq> Blocks"
  by (simp_all add: assms nhp_agent_init_def nhp_agent_knockloop_start_def nhp_agent_knockloop_stop_def run_Blocks
    StopKnockLoop_returns)

text \<open>Closing waits only for the goroutines of an agent that runs and whose loop was not stopped.\<close>

definition close_waits :: "'w agent_env \<Rightarrow> 'w sdk \<Rightarrow> bool" where
  "close_waits E s \<longleftrightarrow> Finish E (world s) = Blocks \<and>
     (\<exists>a. gAgentInstance s = Some a \<and> running a \<and> knockTargetStop a = OpenChannel)"

lemma Close_waits:
  assumes "agent_ok ag" and "gAgentInstance s = Some ag" and "call E Close s = Blocks"
  shows "close_waits E s"
proof -
  have b: "Stop E (enter ag s) = Blocks"
    using assms(2,3) by (auto simp: nhp_agent_close_def only_state_def out_bind_Blocks)
  have "knockTargetStop ag = OpenChannel"
    using Stop_spec(1)[of "enter ag s" E] assms(1) b by (auto simp: ends_when_def)
  moreover from this have "running ag" using assms(1) by (auto simp: agent_ok_def half_started_def started_def)
  ultimately show ?thesis using Stop_spec(2)[OF _ b] assms(1,2) by (simp add: close_waits_def)
qed

lemma file_call_returns:
  assumes "agent_ok ag" and "gAgentInstance s = Some ag"
  shows "call E BaseChanged s \<noteq> Blocks" "call E ServersChanged s \<noteq> Blocks" "call E ResourcesChanged s \<noteq> Blocks"
  using assms(2) loaded_started[OF assms(1)] reload_returns[of "enter ag s" E] by (auto simp: watched_def run_Blocks)

lemma out_bind_only_state: "out_bind (only_state r) g = out_bind r (\<lambda>x. g (snd x))"
  "only_state (out_bind r f) = out_bind r (\<lambda>x. only_state (f x))"
  by (cases r; simp add: only_state_def case_prod_beta)+

subsection \<open>In a world that answers\<close>

context responsive_world
begin

lemma access_request_responsive: "access_request E t failure target c \<noteq> Blocks"
  by (auto simp: access_request_def Let_def out_bind_Blocks exchanges split: option.splits prod.splits)

lemma processPreAccessAction_responsive: "processPreAccessAction E info c \<noteq> Blocks"
  by (auto simp: processPreAccessAction_def Let_def out_bind_Blocks seals split: option.splits prod.splits)

lemma run_actions_responsive: "run_actions E infos c \<noteq> Blocks"
proof (induction infos arbitrary: c)
  case (Cons x rest)
  then show ?case by (cases x) (auto simp: out_bind_Blocks processPreAccessAction_responsive)
qed simp

lemma knock_done_responsive: "knock_done E start target x \<noteq> Blocks"
  by (auto simp: knock_done_def preAccessRequest_def out_bind_Blocks run_actions_responsive Let_def case_prod_beta
      split: option.splits if_splits)

lemma Knock_responsive: "Knock E target c \<noteq> Blocks"
  by (auto simp: Knock_unfold knockRequest_def out_bind_Blocks access_request_responsive knock_done_responsive split: if_splits)

lemma knock_ctx_responsive: "knock_ctx E res c \<noteq> Blocks"
  by (auto simp: knock_ctx_def out_bind_Blocks Knock_responsive split: prod.splits option.splits)

lemma exit_ctx_responsive: "exit_ctx E res c \<noteq> Blocks"
  by (auto simp: exit_ctx_def ExitKnockRequest_def out_bind_Blocks access_request_responsive split: prod.splits option.splits)

lemma knock_call_returns:
  assumes "gAgentInstance s = Some ag"
  shows "call E (KnockRes a r i h p) s \<noteq> Blocks" "call E (ExitRes a r i h p) s \<noteq> Blocks"
proof -
  show "call E (KnockRes a r i h p) s \<noteq> Blocks"
  proof (cases "no_null a r i h")
    case True
    then show ?thesis by (simp add: knock_resource_run[OF True assms] run_Blocks knock_ctx_responsive)
  next
    case False
    then show ?thesis by (auto simp: no_null_def nhp_agent_knock_resource_def assms Let_def)
  qed
  show "call E (ExitRes a r i h p) s \<noteq> Blocks"
  proof (cases "no_null a r i h")
    case True
    then show ?thesis by (simp add: exit_resource_run[OF True assms] run_Blocks exit_ctx_responsive)
  next
    case False
    then show ?thesis by (auto simp: no_null_def nhp_agent_exit_resource_def assms)
  qed
qed

lemma call_returns:
  assumes "sdk_ok s" and "call E x s = Blocks"
  shows "x = Close \<and> close_waits E s"
proof (cases "gAgentInstance s")
  case None
  then show ?thesis using call_without_agent assms(2) by blast
next
  case (Some ag)
  then have ok: "agent_ok ag" using assms(1) by (simp add: sdk_ok_def)
  have "x = Close"
    using assms(2) by (cases x) (simp_all del: call.simps add: knock_call_returns[OF Some] data_call_returns[OF ok Some]
        life_call_returns[OF Some] file_call_returns[OF ok Some])
  then show ?thesis using Close_waits[OF ok Some] assms(2) by blast
qed

lemma calls_return:
  "sdk_ok s \<Longrightarrow> calls E xs s = Blocks \<Longrightarrow>
     \<exists>ys zs s'. xs = ys @ Close # zs \<and> calls E ys s = Returns s' \<and> close_waits E s'"
proof (induction xs arbitrary: s)
  case (Cons x xs)
  show ?case
  proof (cases "call E x s = Blocks")
    case True
    then show ?thesis using call_returns[OF Cons.prems(1)] by (intro exI[of _ "[]"] exI[of _ xs] exI[of _ s]) simp
  next
    case False
    then obtain s1 where s1: "call E x s = Returns s1" "calls E xs s1 = Blocks"
      using Cons.prems(2) by (auto simp: out_bind_Blocks)
    have "sdk_ok s1" using call_spec[OF Cons.prems(1), of E x] s1(1) by (simp add: call_good_def)
    from Cons.IH[OF this s1(2)] obtain ys zs s' where "xs = ys @ Close # zs" "calls E ys s1 = Returns s'" "close_waits E s'"
      by blast
    then show ?thesis using s1(1) by (intro exI[of _ "x # ys"] exI[of _ zs] exI[of _ s']) simp
  qed
qed simp

text \<open>The demo, which makes six calls.\<close>

lemma demo_returns:
  assumes "gAgentInstance s = None" and "demo_main E s = Blocks"
  shows "\<exists>w. Finish E w = Blocks"
proof -
  have "only_state (demo_main E s) = calls E [Init (Some ''.'') 3, SetUser (Some ''zengl'') None None None,
      Add_Server (Some ''replace_with_actual_publickeybase64'') (Some ''192.168.1.66'') None 62206 1748908471,
      KnockRes (Some ''example'') (Some ''demo'') (Some ''192.168.1.66'') None 62206,
      ExitRes (Some ''example'') (Some ''demo'') (Some ''192.168.1.66'') None 62206, Close] s"
    by (simp add: demo_main_def out_bind_only_state case_prod_beta)
  moreover have "sdk_ok s" using assms by (simp add: sdk_ok_def)
  moreover have "only_state (demo_main E s) = Blocks" using assms(2) by simp
  ultimately obtain s' where "close_waits E s'" using calls_return by metis
  then show ?thesis by (auto simp: close_waits_def)
qed

end

subsection \<open>Failed transactions\<close>

text \<open>A transaction that failed, a timeout included, has the code of a packet that was not sent: \<open>Knock\<close> does not wait.\<close>

lemma failure_returns_at_once:
  assumes "(msg, err) = read_ack E local_failure (Failed e) \<or> (msg, err) = read_ack E local_failure (Aborted a)"
  shows "ErrCode msg = ''50009'' \<and> err \<noteq> None \<and> knock_done E start target ((Some msg, err), c) = Returns (((Some msg, err), target), c)"
  using assms by (auto simp: knock_done_def success_codes)

subsection \<open>After a failed start\<close>

lemma failed_init:
  assumes "gAgentInstance s = None" and "nhp_agent_init E dir lv s = Returns (False, s1)"
  obtains a where "gAgentInstance s1 = Some a" "half_started a" "sendMsgCh s1 = sendMsgCh s"
proof -
  obtain c where c: "Start E (deepCopyCString dir) (enter zero_agent s) = Returns (False, c)" "s1 = leave (Some (agent c)) c"
    using assms by (auto simp: nhp_agent_init_def run_agent_def out_bind_Returns)
  show ?thesis using Start_spec(3)[OF _ c(1)] c(2) that[of "agent c"] by simp
qed

lemma half_started_calls:
  assumes "gAgentInstance s = Some a" and "half_started a"
  shows "nhp_agent_init E dir lv s = Returns (True, s)" "nhp_agent_close E s = Crashes" "nhp_agent_knockloop_stop s = Crashes"
    "k \<noteq> None \<Longrightarrow> i \<noteq> None \<or> h \<noteq> None \<Longrightarrow> nhp_agent_add_server k i h p e s = Crashes"
    "no_null as r i h \<Longrightarrow> \<exists>s2. nhp_agent_knock_resource E as r i h p s =
       Returns (json_Reply E (failed_ack ''ErrKnockServerNotFound''), s2) \<and> sendMsgCh s2 = sendMsgCh s"
proof -
  show "nhp_agent_init E dir lv s = Returns (True, s)" "nhp_agent_close E s = Crashes" "nhp_agent_knockloop_stop s = Crashes"
    using assms by (simp_all add: nhp_agent_init_def nhp_agent_close_def nhp_agent_knockloop_stop_def run_unit_def Stop_def
        StopKnockLoop_def close_channel_def half_started_def Let_def)
  show "nhp_agent_add_server k i h p e s = Crashes" if "k \<noteq> None" "i \<noteq> None \<or> h \<noteq> None"
    using assms that by (auto simp: nhp_agent_add_server_def run_unit_def AddServer_def new_peer_def half_started_def Let_def)
  assume nn: "no_null as r i h"
  obtain x c1 where f: "FindServerPeerFromResource E (c_resource as r i h p) (enter a s) = (x, c1)" by fastforce
  have x: "x = None" using no_servers[of "enter a s" E "c_resource as r i h p"] assms(2) f by (simp add: half_started_def)
  then show "\<exists>s2. nhp_agent_knock_resource E as r i h p s =
       Returns (json_Reply E (failed_ack ''ErrKnockServerNotFound''), s2) \<and> sendMsgCh s2 = sendMsgCh s"
    using f Find_frame[OF f] by (simp add: knock_resource_run[OF nn assms(1)] run_agent_def knock_ctx_def reply_text_def)
qed

subsection \<open>Servers\<close>

text \<open>A server added with port 0 is at port 62206; a knock with port 0 asks for one without a port.\<close>

lemma sprintf_int_nonempty: "sprintf_int n \<noteq> []"
  using sprintf_d_digits by (simp add: sprintf_int_def)

lemma no_server_at:
  assumes "serverPeerMap (agent c) = Some m" and "\<forall>(k, r) \<in> set m. Host (peers (agent c) ! r) \<noteq> ServerHost res"
  shows "fst (FindServerPeerFromResource E res c) = None"
proof (rule ccontr)
  assume "fst (FindServerPeerFromResource E res c) \<noteq> None"
  then obtain r c' where "FindServerPeerFromResource E res c = (Some r, c')"
    by (cases "FindServerPeerFromResource E res c") auto
  from Find_server[OF this] obtain k where "map_of m k = Some r" "Host (peers (agent c) ! r) = ServerHost res"
    using assms(1) by auto
  then show False using assms(2) map_of_SomeD by fastforce
qed

lemma default_port:
  assumes "sdk_ok s" and "gAgentInstance s = Some a" and "serverPeerMap a = Some m"
    and "\<forall>(k, r) \<in> set m. Host (peers a ! r) \<noteq> ip" and "as \<noteq> None" and "rs \<noteq> None"
  shows "\<exists>s1 a1 s2. nhp_agent_add_server (Some key) (Some ip) None 0 expire s = Returns (True, s1) \<and>
     gAgentInstance s1 = Some a1 \<and> Port (last (peers a1)) = 62206 \<and>
     nhp_agent_knock_resource E as rs (Some ip) None 0 s1 = Returns (json_Reply E (failed_ack ''ErrKnockServerNotFound''), s2) \<and>
     sendMsgCh s2 = sendMsgCh s"
proof -
  have "started a" using assms(1-3) by (auto simp: sdk_ok_def agent_ok_def half_started_def)
  then obtain d where d: "device a = Some d" "servers_ok (peers a) (device_peers d) m"
    using assms(3) by (auto simp: started_def)
  let ?p = "new_peer key ip '''' 62206 NHP_SERVER expire"
  let ?m = "AList.update key (length (peers a)) m"
  let ?a = "a\<lparr>peers := peers a @ [?p], device := Some (AddPeer key (length (peers a)) d), serverPeerMap := Some ?m\<rparr>"
  let ?s1 = "leave (Some ?a) (enter ?a s)"
  have add: "nhp_agent_add_server (Some key) (Some ip) None 0 expire s = Returns (True, ?s1)"
    using assms(2,3) d(1) by (simp add: nhp_agent_add_server_def run_unit_def AddServer_def deepCopyCString_def new_peer_def
        enter_def leave_def Let_def)
  let ?res = "c_resource as rs (Some ip) None 0"
  have host: "ServerHost ?res = ip" by (simp add: ServerHost_def c_resource_def deepCopyCString_def)
  have "Host (peers ?a ! r) \<noteq> ip" if "(k, r) \<in> set ?m" for k r
    using update_member[OF that]
  proof
    assume "k = key \<and> r = length (peers a)"
    then have "Host (peers ?a ! r) = ip @ '':'' @ sprintf_int 62206" by (simp add: Host_def new_peer_def)
    then show ?thesis by simp
  next
    assume old: "(k, r) \<in> set m"
    then have "r < length (peers a)" using d(2) by (auto simp: servers_ok_def)
    moreover have "Host (peers a ! r) \<noteq> ip" using assms(4) old by auto
    ultimately show ?thesis by (simp add: nth_append)
  qed
  then have "\<forall>(k, r) \<in> set ?m. Host (peers (agent (enter ?a ?s1)) ! r) \<noteq> ServerHost ?res"
    unfolding host by (intro ballI, clarify) (simp del: nth_append_length)
  from no_server_at[OF _ this, of E] obtain c1 where f: "FindServerPeerFromResource E ?res (enter ?a ?s1) = (None, c1)"
    by (cases "FindServerPeerFromResource E ?res (enter ?a ?s1)") auto
  have nn: "no_null as rs (Some ip) None" using assms(5,6) by (simp add: no_null_def)
  have ag: "gAgentInstance ?s1 = Some ?a" by simp
  have "nhp_agent_knock_resource E as rs (Some ip) None 0 ?s1 =
      Returns (json_Reply E (failed_ack ''ErrKnockServerNotFound''), leave (Some (agent c1)) c1)"
    using f by (simp add: knock_resource_run[OF nn ag] run_agent_def knock_ctx_def reply_text_def)
  moreover have "sendMsgCh (leave (Some (agent c1)) c1) = sendMsgCh s" using Find_frame[OF f] by simp
  moreover have "Port (last (peers ?a)) = 62206" by (simp add: new_peer_def)
  ultimately show ?thesis using add ag by blast
qed

text \<open>A new version of \<^verbatim>\<open>server.toml\<close> replaces every server, those added by a call too.\<close>

lemma servers_changed:
  assumes "sdk_ok s" and "gAgentInstance s = Some a" and "serverPeerMap a = Some m" and "call E ServersChanged s = Returns s'"
    and "servers = toml_Servers E (content_bytes (fst (ReadFile E [ExeDirPath s, ''etc'', ''server.toml''] (world s))))"
  shows "\<exists>a' d d' m'. gAgentInstance s' = Some a' \<and> device a = Some d \<and> device a' = Some d' \<and> serverPeerMap a' = Some m' \<and>
     fst ` set m' = PubKeyBase64 ` set servers \<and>
     fst ` set (device_peers d') = fst ` set (device_peers d) - fst ` set m \<union> PubKeyBase64 ` set servers \<and>
     (\<forall>(k, r) \<in> set m'. Host (peers a' ! r) \<in> Host ` set servers)"
proof -
  have "started a" using assms(1-3) by (auto simp: sdk_ok_def agent_ok_def half_started_def)
  then obtain d where d: "device a = Some d" by (auto simp: started_def)
  obtain ok c where c: "updateServerPeers E (enter a s) = Returns (ok, c)" "s' = leave (Some (agent c)) c"
    using assms(2-4) by (auto simp: watched_def run_agent_Returns)
  have "device (agent (enter a s)) = Some d" using d by simp
  from updateServerPeers_servers[OF this c(1), of servers m] show ?thesis
    using assms(3,5) c(2) d by simp
qed

end
