(* ===== verification/Agent_Sdk_Properties.thy ===== *)
theory Agent_Sdk_Properties
  imports Agent_Liveness
begin

text \<open>
  The properties of the agent SDK, with samples: a process without an agent in a world whose files name one
  server, and whose network answers every message.
\<close>

subsection \<open>Properties\<close>

text \<open>C18: The agent SDK keeps its state consistent. Whatever a C program calls, in whatever order and with whatever
  arguments, and however the configuration files change in between, the process has no agent, or one that a
  failed start left without device, maps and channels, or a running one, in which servers and targets are peers of
  the agent under their own keys and hosts, and every server is a peer of the device.\<close>

theorem sdk_state_consistent:
  assumes "gAgentInstance s = None" and "calls E xs s = Returns s'" and "gAgentInstance s' = Some a"
  shows "half_started a \<or> started a"
proof -
  have "sdk_ok s" using assms(1) by (simp add: sdk_ok_def)
  from calls_ok[OF this assms(2)] show ?thesis using assms(3) by (simp add: sdk_ok_def agent_ok_def)
qed

text \<open>C15: Which calls end the process of a C program, as long as it does not start the knock loop. A
  sequence of calls ends in a panic when it reaches a state in which the next call is one of these: an init
  that finds a private key of less than 44 characters; a close or a stop of the knock loop when the loop was
  stopped before or the agent did not start; a server with a key and an address added to an agent that did
  not start; a knock at a server whose address cannot be resolved. And it ends in a panic only then, if no other
  goroutine of the agent panics while a call waits for it (forged answers can bring that about, and so can
  the knock loop, which knocks on its own).\<close>

theorem sdk_crashes_exactly:
  assumes "gAgentInstance s = None" and "LoopStart \<notin> set xs"
  shows "((\<exists>ys x zs s'. xs = ys @ x # zs \<and> calls E ys s = Returns s' \<and> crashes_when E x s') \<longrightarrow> calls E xs s = Crashes) \<and>
     (calm_world E \<longrightarrow> calls E xs s = Crashes \<longrightarrow>
        (\<exists>ys x zs s'. xs = ys @ x # zs \<and> calls E ys s = Returns s' \<and> crashes_when E x s'))"
  using calls_crash[of s E xs] assms(1) by (simp add: sdk_ok_def ends_when_def reach_crash_def)

text \<open>C19: Nothing but the network, and the goroutines of an agent that is closed, can hold a C program up. If every
  message that is sent comes back with some result, an answer or an error, and every access message is
  sealed, a sequence of calls, made one after the other, can get stuck only in a close of a running agent
  whose goroutines do not all end: every other call returns, unless the process ends.\<close>

theorem sdk_calls_return:
  assumes "responsive_world E" and "gAgentInstance s = None" and "calls E xs s = Blocks"
  shows "\<exists>ys zs s' a. xs = ys @ Close # zs \<and> calls E ys s = Returns s' \<and> gAgentInstance s' = Some a \<and> running a \<and>
     knockTargetStop a = OpenChannel \<and> Finish E (world s') = Blocks"
  using responsive_world.calls_return[OF assms(1) _ assms(3)] assms(2) unfolding close_waits_def by (simp add: sdk_ok_def) blast

text \<open>C16: What \<^verbatim>\<open>nhp_agent_knock_resource\<close> does. With valid arguments it returns either the error that there is no
  server, with nothing sent and the agent as it was; or the answer to a knock at one of the agent's servers, whose host is
  the one named: it sends one request, and a second one if the first was answered with a cookie, each with
  the user, the device and the resource, for the public key and to the port of that server, and to an address
  of it: the one it was given if it has no host name; else one that looking its host name up gave, now or
  before, or the one it was given when there is none. Peers are only added.\<close>

theorem knock_sends:
  assumes "sdk_ok s" and "gAgentInstance s = Some a" and "aspId \<noteq> None" and "resId \<noteq> None" and "ip \<noteq> None \<or> host \<noteq> None"
    and "nhp_agent_knock_resource E aspId resId ip host port s = Returns (reply, s')"
  shows "\<exists>a' ms. gAgentInstance s' = Some a' \<and> sendMsgCh s' = sendMsgCh s @ ms \<and>
     ((reply = json_Reply E (failed_ack ''ErrKnockServerNotFound'') \<and> ms = [] \<and> a' = a) \<or>
      (\<exists>r msg err. r < length (peers a) \<and> PeerType (peers a ! r) = NHP_SERVER \<and>
         Host (peers a ! r) = ServerHost (c_resource aspId resId ip host port) \<and> reply = json_Reply E msg \<and>
         knocked E a (c_resource aspId resId ip host port) r ms msg err \<and> peers_kept (peers a) (peers a')))"
proof -
  have "no_null aspId resId ip host" using assms(3-5) by (simp add: no_null_def)
  from knock_resource_outcome[OF assms(1,2) this assms(6)] show ?thesis
    unfolding knock_outcome_def using grows_same(9) by blast
qed

text \<open>C17: What the success of a knock means. \<^verbatim>\<open>Knock\<close> returns no error if and only if the code it returns is 0, and
  only then takes the time of the success; and if messages come back through the transactions of an agent, a success is the
  JSON body of an acknowledgement that was decrypted and parsed with the keys of a request with the transaction
  number of the last message of the knock.\<close>

theorem knock_success_is_answer:
  assumes "device (agent c) \<noteq> None" and "running (agent c)" and "ServerPeer target = Some r" and "r < length (peers (agent c))"
    and "exchange_by_transactions C J dev conn E" and "Knock E target c = Returns (((ack, err), target'), c')"
  shows "\<exists>msg ms. ack = Some msg \<and> sendMsgCh c' = sendMsgCh c @ ms \<and> ms \<noteq> [] \<and> (err = None \<longleftrightarrow> ErrCode msg = ''0'') \<and>
     (if err = None then \<exists>time. target' = target\<lparr>LastKnockSuccessTime := time\<rparr> else target' = target) \<and>
     (err = None \<longrightarrow> (\<exists>st q ppd. agent_reachable C J dev conn st \<and> (q, Answer ppd) \<in> set (ResponseMsgCh st) \<and>
        lt_transactionId (ag_transactions st ! q) = md_TransactionId (snd (last ms)) \<and>
        ppd_HeaderType ppd = NHP_ACK \<and> json_Ack E (ppd_BodyMessage ppd) = (msg, None) \<and>
        (\<exists>tm content dev' conn'. fst (parse_packet C tm (Some (lt_mad (ag_transactions st ! q))) content dev' conn') = Ok ppd)))"
proof -
  have "can_knock target r (agent c)" using assms(1-4) by (simp add: can_knock_def)
  from this assms(6,5) show ?thesis
  proof (rule knock_success)
    fix msg ms assume a: "ack = Some msg" "sendMsgCh c' = sendMsgCh c @ ms" "ms \<noteq> []" "(err = None) = (ErrCode msg = ''0'')"
      "err = None \<longrightarrow> (\<exists>st q ppd. agent_reachable C J dev conn st \<and> (q, Answer ppd) \<in> set (ResponseMsgCh st) \<and>
        lt_transactionId (ag_transactions st ! q) = md_TransactionId (snd (last ms)) \<and>
        ppd_HeaderType ppd = NHP_ACK \<and> json_Ack E (ppd_BodyMessage ppd) = (msg, None) \<and>
        (\<exists>tm content dev' conn'. fst (parse_packet C tm (Some (lt_mad (ag_transactions st ! q))) content dev' conn') = Ok ppd))"
    show ?thesis by (intro exI conjI) (rule a Knock_target[OF assms(6)])+
  qed
qed

text \<open>C20: The demo program, started without an agent in a world whose \<^verbatim>\<open>server.toml\<close> names no server at the
  address the demo uses. It ends in a panic when the agent does not start (it ignores that and adds a server), and
  only then if no other goroutine of the agent panics while a call waits for it. Whenever it ends otherwise, its
  code is 0, the agent is closed, all its messages, a knock, a second knock after a cookie, and the exit, went
  to port 62206 of that address, and it has printed the answer to the knock. It does end if every message comes
  back with some result and the goroutines of the agent end when it is closed.\<close>

theorem demo_runs:
  assumes "agent_world E" and "gAgentInstance s = None" and "net_ParseIP E ''192.168.1.66'' = Some ip"
    and "\<forall>p \<in> set (start_servers E ''.'' (enter zero_agent s)). Host p \<noteq> ''192.168.1.66:62206''"
  shows "(\<not> start_succeeds E ''.'' (enter zero_agent s) \<longrightarrow> demo_main E s = Crashes) \<and>
     (start_succeeds E ''.'' (enter zero_agent s) \<and> calm_world E \<longrightarrow> demo_main E s \<noteq> Crashes) \<and>
     (responsive_world E \<and> (\<forall>w. Finish E w \<noteq> Blocks) \<longrightarrow> demo_main E s \<noteq> Blocks) \<and>
     (\<forall>code printed s'. demo_main E s = Returns ((code, printed), s') \<longrightarrow>
        code = 0 \<and> gAgentInstance s' = None \<and>
        (\<exists>ms msg. sendMsgCh s' = sendMsgCh s @ ms \<and> printed = ''knock return: '' @ json_Reply E msg @ [CHR 0x0A] \<and>
           map (md_HeaderType \<circ> snd) ms \<in> {[NHP_KNK, NHP_EXT], [NHP_KNK, NHP_RKN, NHP_EXT]} \<and>
           (\<forall>m \<in> set ms. fst m = (ip, 62206))))"
proof -
  note demo = agent_world.demo_main_spec[OF assms]
  have "code = 0 \<and> gAgentInstance s' = None \<and>
        (\<exists>ms msg. sendMsgCh s' = sendMsgCh s @ ms \<and> printed = ''knock return: '' @ json_Reply E msg @ [CHR 0x0A] \<and>
           map (md_HeaderType \<circ> snd) ms \<in> {[NHP_KNK, NHP_EXT], [NHP_KNK, NHP_RKN, NHP_EXT]} \<and>
           (\<forall>m \<in> set ms. fst m = (ip, 62206)))" if ret: "demo_main E s = Returns ((code, printed), s')" for code printed s'
  proof -
    obtain ms msg where "code = 0" "gAgentInstance s' = None" "sendMsgCh s' = sendMsgCh s @ ms"
      "printed = ''knock return: '' @ json_Reply E msg @ [CHR 0x0A]"
      "demo_messages ip [NHP_KNK, NHP_EXT] ms \<or> demo_messages ip [NHP_KNK, NHP_RKN, NHP_EXT] ms"
      using demo(2)[unfolded demo_result_def, THEN spec, THEN spec, THEN spec, THEN mp, OF ret] by (elim conjE exE)
    then show ?thesis by (intro conjI exI[of _ ms] exI[of _ msg]) (auto simp: demo_messages_def)
  qed
  then show ?thesis
    using demo(1) responsive_world.demo_returns[OF _ assms(2), of E] unfolding ends_when_def by blast
qed

text \<open>C21: A failed start is not undone. After \<^verbatim>\<open>nhp_agent_init\<close> has returned false, it returns true, with nothing
  done; closing the agent, stopping the knock loop and adding a server end the process; a knock finds no server.\<close>

theorem failed_init_stays:
  assumes "gAgentInstance s = None" and "nhp_agent_init E dir lv s = Returns (False, s1)"
  shows "nhp_agent_init E dir' lv' s1 = Returns (True, s1) \<and> nhp_agent_close E s1 = Crashes \<and> nhp_agent_knockloop_stop s1 = Crashes \<and>
     nhp_agent_add_server (Some key) (Some ip) host port expire s1 = Crashes \<and>
     (\<exists>s2. nhp_agent_knock_resource E (Some aspId) (Some resId) (Some ip) host port s1 =
        Returns (json_Reply E (failed_ack ''ErrKnockServerNotFound''), s2) \<and> sendMsgCh s2 = sendMsgCh s)"
proof -
  obtain a where a: "gAgentInstance s1 = Some a" "half_started a" "sendMsgCh s1 = sendMsgCh s" by (rule failed_init[OF assms])
  have nn: "no_null (Some aspId) (Some resId) (Some ip) host" by (simp add: no_null_def)
  show ?thesis
    using half_started_calls(1-3)[OF a(1,2)] half_started_calls(4)[OF a(1,2), of "Some key" "Some ip"]
      half_started_calls(5)[OF a(1,2) nn] a(3) by auto
qed

text \<open>C22: A change of \<^verbatim>\<open>server.toml\<close> replaces the servers of a running agent by those of the file: the servers added
  through the SDK are no longer found, and their keys and those of the old file leave the device, unless the file names them.\<close>

theorem reload_replaces_servers:
  assumes "sdk_ok s" and "gAgentInstance s = Some a" and "serverPeerMap a = Some m" and "call E ServersChanged s = Returns s'"
    and "servers = toml_Servers E (content_bytes (fst (ReadFile E [ExeDirPath s, ''etc'', ''server.toml''] (world s))))"
  shows "\<exists>a' d d' m'. gAgentInstance s' = Some a' \<and> device a = Some d \<and> device a' = Some d' \<and> serverPeerMap a' = Some m' \<and>
     fst ` set m' = PubKeyBase64 ` set servers \<and>
     fst ` set (device_peers d') = fst ` set (device_peers d) - fst ` set m \<union> PubKeyBase64 ` set servers \<and>
     (\<forall>(k, r) \<in> set m'. Host (peers a' ! r) \<in> Host ` set servers)"
  by (rule servers_changed[OF assms])

subsection \<open>Witnesses\<close>

definition sample_config :: Config where
  "sample_config = \<lparr>LogLevel = 3, DefaultCipherScheme = 1, PrivateKeyBase64 = replicate 44 (CHR ''A''), ConfigUser = no_user\<rparr>"

definition sample_env :: "nat agent_env" where
  "sample_env = \<lparr>ReadFile = (\<lambda>path w. (Some [], w)), toml_Config = (\<lambda>_. sample_config),
     toml_Servers = (\<lambda>_. [new_peer ''key1'' ''10.0.0.1'' '''' 7 NHP_SERVER 0]), toml_Resources = (\<lambda>_. []),
     base64_Decode = (\<lambda>_. (replicate 33 0, True)), NewDevice_accepts = (\<lambda>_. True), LookupHost = (\<lambda>_ w. (None, w)),
     net_ParseIP = (\<lambda>s. if s = ''10.0.0.1'' then Some [10, 0, 0, 1] else if s = ''192.168.1.66'' then Some [192, 168, 1, 66] else None),
     json_Object = Some, json_Knock = (\<lambda>_. [1]), json_Access = (\<lambda>_. [2]), json_Ack = (\<lambda>_. (empty_ack\<lparr>ErrCode := ''0''\<rparr>, None)),
     json_Reply = ErrCode, core_Error = (\<lambda>_. ''error''), Now = (\<lambda>w. (0, w)), Sleep = (\<lambda>_ w. Suc w), iterate = (\<lambda>ks w. (ks, w)),
     Exchange = (\<lambda>_ _ w. Returns (Aborted ErrTransactionFailedByTimeout, Suc w)), SealAccess = (\<lambda>_ _ w. Returns (Suc w)),
     Finish = (\<lambda>w. Returns (Suc w))\<rparr>"

definition fresh_process :: "nat sdk" where
  "fresh_process = \<lparr>ExeDirPath = '''', sendMsgCh = [], accessMsgs = [], world = 0, gAgentInstance = None\<rparr>"

lemma fresh_process [simp]: "gAgentInstance fresh_process = None" "sdk_ok fresh_process" "sendMsgCh fresh_process = []"
  by (simp_all add: fresh_process_def sdk_ok_def)

interpretation sample: agent_world sample_env
  by unfold_locales (simp add: sample_env_def)

interpretation sample: calm_world sample_env
  by unfold_locales (simp_all add: sample_env_def)

interpretation sample: responsive_world sample_env
  by unfold_locales (simp_all add: sample_env_def)

text \<open>The sample with an agent that never ends: a knock waits for somebody to send its message.\<close>

definition stuck_env :: "nat agent_env" where
  "stuck_env = sample_env\<lparr>Finish := (\<lambda>_. Blocks)\<rparr>"

interpretation stuck: responsive_world stuck_env
  by unfold_locales (simp_all add: stuck_env_def sample_env_def)

text \<open>The sample process with a started agent, and with the knock loop stopped.\<close>

definition returned :: "'s \<Rightarrow> 's outcome \<Rightarrow> 's" where
  "returned s r = (case r of Returns s' \<Rightarrow> s' | _ \<Rightarrow> s)"

definition is_returned :: "'s outcome \<Rightarrow> bool" where
  "is_returned r = (case r of Returns s' \<Rightarrow> True | _ \<Rightarrow> False)"

lemma returned: "is_returned r \<Longrightarrow> r = Returns (returned s r)"
  by (cases r) (simp_all add: is_returned_def returned_def)

definition started_process :: "nat sdk" where
  "started_process = returned fresh_process (calls sample_env [Init (Some ''.'') 3] fresh_process)"

definition stopped_process :: "nat sdk" where
  "stopped_process = returned fresh_process (calls sample_env [Init (Some ''.'') 3, LoopStop] fresh_process)"

lemma sample_runs:
  "calls sample_env [Init (Some ''.'') 3] fresh_process = Returns started_process"
  "calls sample_env [Init (Some ''.'') 3, LoopStop] fresh_process = Returns stopped_process"
  unfolding started_process_def stopped_process_def by (rule returned, code_simp)+

lemma started_process:
  "map_option serverPeerMap (gAgentInstance started_process) = Some (Some [(''key1'', 0)])"
  "map_option (map Ip \<circ> peers) (gAgentInstance started_process) = Some [''10.0.0.1'']"
  "map_option running (gAgentInstance started_process) = Some True"
  "map_option Host (map_option (hd \<circ> peers) (gAgentInstance started_process)) = Some ''10.0.0.1:7''"
  "sendMsgCh started_process = []"
  by code_simp+

lemma started_process_ok: "sdk_ok started_process"
  by (rule calls_ok[OF fresh_process(2) sample_runs(1)])

theorem sdk_state_consistent_witness:
  "\<exists>a. gAgentInstance started_process = Some a \<and> running a \<and> started a"
proof -
  obtain a where a: "gAgentInstance started_process = Some a" "running a" using started_process(3) by auto
  have "half_started a \<or> started a" by (rule sdk_state_consistent[OF fresh_process(1) sample_runs(1) a(1)])
  then show ?thesis using a by (auto simp: half_started_def)
qed

text \<open>Stopping the knock loop and closing the agent, which the interface offers, end the process; closing alone does not.\<close>

lemma sample_close: "is_returned (calls sample_env [Init (Some ''.'') 3, Close] fresh_process)"
  by code_simp

theorem sdk_crashes_exactly_witness:
  "calls sample_env [Init (Some ''.'') 3, LoopStop, Close] fresh_process = Crashes \<and>
   \<not> (\<exists>ys x zs s'. [Init (Some ''.'') 3, Close] = ys @ x # zs \<and> calls sample_env ys fresh_process = Returns s' \<and>
        crashes_when sample_env x s')"
proof
  have "map_option knockTargetStop (gAgentInstance stopped_process) = Some ClosedChannel" by code_simp
  then have "crashes_when sample_env Close stopped_process" by auto
  then have "\<exists>ys x zs s'. [Init (Some ''.'') 3, LoopStop, Close] = ys @ x # zs \<and>
      calls sample_env ys fresh_process = Returns s' \<and> crashes_when sample_env x s'"
    using sample_runs(2)
    by (intro exI[of _ "[Init (Some ''.'') 3, LoopStop]"] exI[of _ Close] exI[of _ "[]"] exI[of _ stopped_process])
      (simp del: calls.simps crashes_when.simps)
  then show "calls sample_env [Init (Some ''.'') 3, LoopStop, Close] fresh_process = Crashes"
    using sdk_crashes_exactly[OF fresh_process(1), of "[Init (Some ''.'') 3, LoopStop, Close]" sample_env] by simp
  have "calls sample_env [Init (Some ''.'') 3, Close] fresh_process \<noteq> Crashes"
    using sample_close by (auto simp: is_returned_def)
  then show "\<not> (\<exists>ys x zs s'. [Init (Some ''.'') 3, Close] = ys @ x # zs \<and> calls sample_env ys fresh_process = Returns s' \<and>
      crashes_when sample_env x s')"
    using sdk_crashes_exactly[OF fresh_process(1), of "[Init (Some ''.'') 3, Close]" sample_env] by simp
qed

text \<open>A close waits for ever for goroutines that do not end.\<close>

lemma stuck_close: "calls stuck_env [Init (Some ''.'') 3, Close] fresh_process = Blocks"
proof -
  have "(case calls stuck_env [Init (Some ''.'') 3, Close] fresh_process of Blocks \<Rightarrow> True | _ \<Rightarrow> False)" by code_simp
  then show ?thesis by (simp split: outcome.splits)
qed

theorem sdk_calls_return_witness:
  "\<exists>ys zs s' a. [Init (Some ''.'') 3, Close] = ys @ Close # zs \<and> calls stuck_env ys fresh_process = Returns s' \<and>
     gAgentInstance s' = Some a \<and> running a \<and> knockTargetStop a = OpenChannel \<and> Finish stuck_env (world s') = Blocks"
  by (rule sdk_calls_return[OF stuck.responsive_world_axioms fresh_process(1) stuck_close])

text \<open>A knock at the server of the sample, sent and not answered in time.\<close>

abbreviation sample_knock_call :: "(string \<times> nat sdk) outcome" where
  "sample_knock_call \<equiv> nhp_agent_knock_resource sample_env (Some ''a'') (Some ''b'') (Some ''10.0.0.1'') None 7 started_process"

abbreviation sample_knock_resource :: KnockResource where
  "sample_knock_resource \<equiv> c_resource (Some ''a'') (Some ''b'') (Some ''10.0.0.1'') None 7"

definition knocked_process :: "nat sdk" where
  "knocked_process = snd (returned ('''', started_process) sample_knock_call)"

lemma knocked_process: "sample_knock_call = Returns (''50009'', knocked_process)" "length (sendMsgCh knocked_process) = 1"
proof -
  have "sample_knock_call = Returns (returned ('''', started_process) sample_knock_call)" by (rule returned) code_simp
  moreover have "fst (returned ('''', started_process) sample_knock_call) = ''50009''" by code_simp
  ultimately show "sample_knock_call = Returns (''50009'', knocked_process)" unfolding knocked_process_def by (metis prod.collapse)
  show "length (sendMsgCh knocked_process) = 1" by code_simp
qed

theorem knock_sends_witness:
  "\<exists>a r m msg err. gAgentInstance started_process = Some a \<and> sendMsgCh knocked_process = [m] \<and> ErrCode msg = ''50009'' \<and>
     knocked sample_env a sample_knock_resource r [m] msg err"
proof -
  obtain a where a: "gAgentInstance started_process = Some a" using started_process(3) by auto
  from knock_sends[OF started_process_ok a option.distinct(2) option.distinct(2) disjI1[OF option.distinct(2)] knocked_process(1)]
  show ?thesis
  proof (elim exE conjE disjE)
    fix a' ms assume "sendMsgCh knocked_process = sendMsgCh started_process @ ms" "ms = []"
    then show ?thesis using knocked_process(2) started_process(5) by simp
  next
    fix a' ms r msg err assume k: "sendMsgCh knocked_process = sendMsgCh started_process @ ms" "''50009'' = json_Reply sample_env msg"
      "knocked sample_env a sample_knock_resource r ms msg err"
    then obtain m where m: "ms = [m]" using knocked_process(2) started_process(5) by (cases ms) auto
    have "ErrCode msg = ''50009''" using k(2) by (simp add: sample_env_def)
    then show ?thesis using a k m started_process(5) by auto
  qed
qed

text \<open>A knock answered through the transaction of the sample agent.\<close>

definition answering :: "PacketParserData \<Rightarrow> nat agent_env" where
  "answering ppd = sample_env\<lparr>Exchange := (\<lambda>_ md w. Returns (if md_TransactionId md = 77 then Answer ppd else Failed (OtherError ''lost''), w))\<rparr>"

definition sample_target :: KnockTarget where
  "sample_target = new_target sample_knock_resource 0"

definition sample_ctx :: "nat ctx" where
  "sample_ctx = \<lparr>ExeDirPath = '''', sendMsgCh = [], accessMsgs = [], world = 0, agent = zero_agent
     \<lparr>device := Some \<lparr>privateKey = [], counterIndex = 76, device_peers = []\<rparr>,
      peers := [new_peer ''key1'' ''10.0.0.1'' '''' 7 NHP_SERVER 0], running := True\<rparr>\<rparr>"

lemma answered_knock:
  assumes "ppd_HeaderType ppd = NHP_ACK"
  shows "\<exists>target' c'. Knock (answering ppd) sample_target sample_ctx = Returns (((Some (empty_ack\<lparr>ErrCode := ''0''\<rparr>), None), target'), c')"
proof -
  have codes: "ErrorCode ''ErrSuccess'' = ''0''" "ErrorCode local_failure = ''50009''" by code_simp+
  have sa: "SendAddr (answering ppd) 0 (sample_ctx\<lparr>world := w\<rparr>) = (Some ([10, 0, 0, 1], 7), sample_ctx\<lparr>world := w\<rparr>)" for w
    by (simp add: SendAddr_def ResolveHost_def answering_def sample_env_def sample_ctx_def new_peer_def)
  obtain c1 where first: "knockRequest (answering ppd) sample_target False (sample_ctx\<lparr>world := 0\<rparr>) =
      Returns ((Some (empty_ack\<lparr>ErrCode := ''0''\<rparr>), None), c1)"
    using assms sa[of 0] codes
    by (simp add: knockRequest_def access_request_def sample_target_def new_target_def sample_ctx_def NextCounterIndex_def
        answering_def knock_data_def read_reply_def sample_env_def header_type_defs Let_def)
  moreover have "fst (Now (answering ppd) w) = 0" "snd (Now (answering ppd) w) = w" for w by (simp_all add: answering_def sample_env_def)
  moreover have "world sample_ctx = 0" by (simp add: sample_ctx_def)
  ultimately show ?thesis
    using codes by (simp add: Knock_unfold knock_done_def empty_ack_def case_prod_beta)
qed

theorem knock_success_is_answer_witness:
  "\<exists>ppd target' c' st q. agent_reachable ref_crypto (\<lambda>_. None) agent_device (Some sample_connection) st \<and>
     (q, Answer ppd) \<in> set (ResponseMsgCh st) \<and> lt_transactionId (ag_transactions st ! q) = 77 \<and>
     Knock (answering ppd) sample_target sample_ctx = Returns (((Some (empty_ack\<lparr>ErrCode := ''0''\<rparr>), None), target'), c') \<and>
     (\<exists>time. target' = sample_target\<lparr>LastKnockSuccessTime := time\<rparr>)"
proof -
  note a = request_completes[OF rc.nhp_crypto_axioms sample_premises, where J = "\<lambda>_. None" and cookie = None]
  from a obtain rep :: MsgAssemblerData and ppd st where r:
    "agent_run ref_crypto (\<lambda>_. None) [Request sample_machine sample_knock True,
       Recv (BasePacket_Content rep), HandOver 0, Parse sample_clocks] sample_agent st"
    "ResponseMsgCh st = ResponseMsgCh sample_agent @ [(0, Answer ppd)]" "ppd_HeaderType ppd = NHP_ACK"
    "ppd_SenderTrxId ppd = md_TransactionId sample_knock"
    by blast
  have reach: "agent_reachable ref_crypto (\<lambda>_. None) agent_device (Some sample_connection) st"
    using r(1) unfolding agent_reachable_def sample_agent_def by blast
  have ans: "(0, Answer ppd) \<in> set (ResponseMsgCh st)" by (simp add: r(2))
  have "answers ref_crypto st ppd 0" using agent_reachable_inv[OF reach] ans by (auto simp: agent_inv_def)
  then have id: "lt_transactionId (ag_transactions st ! 0) = 77"
    using r(4) by (simp add: answers_def sample_knock_def sample_request_def)
  have x: "exchange_by_transactions ref_crypto (\<lambda>_. None) agent_device (Some sample_connection) (answering ppd)"
    using reach ans id by (auto simp: exchange_by_transactions_def answering_def split: if_splits)
  obtain target' c' where k: "Knock (answering ppd) sample_target sample_ctx =
      Returns (((Some (empty_ack\<lparr>ErrCode := ''0''\<rparr>), None), target'), c')"
    using answered_knock[OF r(3)] by blast
  have ctx: "device (agent sample_ctx) \<noteq> None" "running (agent sample_ctx)" "ServerPeer sample_target = Some 0"
    "0 < length (peers (agent sample_ctx))" by (simp_all add: sample_ctx_def sample_target_def)
  have "\<exists>time. target' = sample_target\<lparr>LastKnockSuccessTime := time\<rparr>"
    using knock_success_is_answer[OF ctx x k] by auto
  then show ?thesis using reach ans id k by blast
qed

text \<open>The demo on the sample.\<close>

theorem demo_runs_witness:
  "demo_main sample_env fresh_process \<noteq> Crashes \<and> demo_main sample_env fresh_process \<noteq> Blocks"
proof -
  have ip: "net_ParseIP sample_env ''192.168.1.66'' = Some [192, 168, 1, 66]" by (simp add: sample_env_def)
  have "Host (new_peer ''key1'' ''10.0.0.1'' '''' 7 NHP_SERVER 0) = ''10.0.0.1:7''" by code_simp
  then have "\<forall>p \<in> set (start_servers sample_env ''.'' (enter zero_agent fresh_process)). Host p \<noteq> ''192.168.1.66:62206''"
    by (simp add: start_servers_def read_servers_def sample_env_def)
  note demo = demo_runs[OF sample.agent_world_axioms fresh_process(1) ip this]
  have "start_succeeds sample_env ''.'' (enter zero_agent fresh_process)" by code_simp
  moreover have "\<forall>w. Finish sample_env w \<noteq> Blocks" by (simp add: sample_env_def)
  ultimately show ?thesis using demo sample.responsive_world_axioms sample.calm_world_axioms by blast
qed

text \<open>A process whose configuration cannot be read.\<close>

definition unreadable :: "nat agent_env" where
  "unreadable = sample_env\<lparr>ReadFile := (\<lambda>path w. (None, w))\<rparr>"

theorem failed_init_stays_witness:
  "\<exists>s1. nhp_agent_init unreadable (Some ''.'') 3 fresh_process = Returns (False, s1) \<and>
     nhp_agent_init unreadable (Some ''.'') 3 s1 = Returns (True, s1) \<and> nhp_agent_close unreadable s1 = Crashes"
proof -
  let ?r = "nhp_agent_init unreadable (Some ''.'') 3 fresh_process" let ?s1 = "snd (returned (False, fresh_process) ?r)"
  have "?r = Returns (returned (False, fresh_process) ?r)" by (rule returned) code_simp
  moreover have "\<not> fst (returned (False, fresh_process) ?r)" by code_simp
  ultimately have "?r = Returns (False, ?s1)" by (metis (full_types) prod.collapse)
  with failed_init_stays[OF fresh_process(1) this, of "Some ''.''" 3] show ?thesis by blast
qed

theorem reload_replaces_servers_witness:
  "\<exists>s' a' m'. call sample_env ServersChanged started_process = Returns s' \<and> gAgentInstance s' = Some a' \<and>
     serverPeerMap a' = Some m' \<and> fst ` set m' = {''key1''}"
proof -
  obtain a where a: "gAgentInstance started_process = Some a" "serverPeerMap a = Some [(''key1'', 0)]"
    using started_process(1) by auto
  have c: "call sample_env ServersChanged started_process = Returns (returned fresh_process (call sample_env ServersChanged started_process))"
    by (rule returned) code_simp
  have "PubKeyBase64 ` set (toml_Servers sample_env (content_bytes (fst (ReadFile sample_env
      [ExeDirPath started_process, ''etc'', ''server.toml''] (world started_process))))) = {''key1''}"
    by (simp add: sample_env_def new_peer_def)
  with reload_replaces_servers[OF started_process_ok a c refl] c show ?thesis by auto
qed

end
