(* ===== verification/Vmlinux_Bpf_Enums.thy ===== *)
theory Vmlinux_Bpf_Enums
  imports CTypes
begin

text \<open>
  The named enumerations of \<^verbatim>\<open>nhp/ebpf/xdp/vmlinux.h\<close> that describe BPF programs, maps, helpers and
  their attachment, XDP and the packet path around it, each as the list of its enumerators with
  their values. \<open>kernel_enums\<close> collects them.
\<close>

definition enum_bpf_func_id_low :: c_enum where
  "enum_bpf_func_id_low = [
     (''BPF_FUNC_unspec'', 0), (''BPF_FUNC_map_lookup_elem'', 1),
     (''BPF_FUNC_map_update_elem'', 2), (''BPF_FUNC_map_delete_elem'', 3),
     (''BPF_FUNC_probe_read'', 4), (''BPF_FUNC_ktime_get_ns'', 5),
     (''BPF_FUNC_trace_printk'', 6), (''BPF_FUNC_get_prandom_u32'', 7),
     (''BPF_FUNC_get_smp_processor_id'', 8), (''BPF_FUNC_skb_store_bytes'', 9),
     (''BPF_FUNC_l3_csum_replace'', 10), (''BPF_FUNC_l4_csum_replace'', 11),
     (''BPF_FUNC_tail_call'', 12), (''BPF_FUNC_clone_redirect'', 13),
     (''BPF_FUNC_get_current_pid_tgid'', 14), (''BPF_FUNC_get_current_uid_gid'', 15),
     (''BPF_FUNC_get_current_comm'', 16), (''BPF_FUNC_get_cgroup_classid'', 17),
     (''BPF_FUNC_skb_vlan_push'', 18), (''BPF_FUNC_skb_vlan_pop'', 19),
     (''BPF_FUNC_skb_get_tunnel_key'', 20), (''BPF_FUNC_skb_set_tunnel_key'', 21),
     (''BPF_FUNC_perf_event_read'', 22), (''BPF_FUNC_redirect'', 23),
     (''BPF_FUNC_get_route_realm'', 24), (''BPF_FUNC_perf_event_output'', 25),
     (''BPF_FUNC_skb_load_bytes'', 26), (''BPF_FUNC_get_stackid'', 27),
     (''BPF_FUNC_csum_diff'', 28), (''BPF_FUNC_skb_get_tunnel_opt'', 29),
     (''BPF_FUNC_skb_set_tunnel_opt'', 30), (''BPF_FUNC_skb_change_proto'', 31),
     (''BPF_FUNC_skb_change_type'', 32), (''BPF_FUNC_skb_under_cgroup'', 33),
     (''BPF_FUNC_get_hash_recalc'', 34), (''BPF_FUNC_get_current_task'', 35),
     (''BPF_FUNC_probe_write_user'', 36), (''BPF_FUNC_current_task_under_cgroup'', 37),
     (''BPF_FUNC_skb_change_tail'', 38), (''BPF_FUNC_skb_pull_data'', 39),
     (''BPF_FUNC_csum_update'', 40), (''BPF_FUNC_set_hash_invalid'', 41),
     (''BPF_FUNC_get_numa_node_id'', 42), (''BPF_FUNC_skb_change_head'', 43),
     (''BPF_FUNC_xdp_adjust_head'', 44), (''BPF_FUNC_probe_read_str'', 45),
     (''BPF_FUNC_get_socket_cookie'', 46), (''BPF_FUNC_get_socket_uid'', 47),
     (''BPF_FUNC_set_hash'', 48), (''BPF_FUNC_setsockopt'', 49),
     (''BPF_FUNC_skb_adjust_room'', 50), (''BPF_FUNC_redirect_map'', 51),
     (''BPF_FUNC_sk_redirect_map'', 52), (''BPF_FUNC_sock_map_update'', 53),
     (''BPF_FUNC_xdp_adjust_meta'', 54), (''BPF_FUNC_perf_event_read_value'', 55),
     (''BPF_FUNC_perf_prog_read_value'', 56), (''BPF_FUNC_getsockopt'', 57),
     (''BPF_FUNC_override_return'', 58), (''BPF_FUNC_sock_ops_cb_flags_set'', 59),
     (''BPF_FUNC_msg_redirect_map'', 60), (''BPF_FUNC_msg_apply_bytes'', 61),
     (''BPF_FUNC_msg_cork_bytes'', 62), (''BPF_FUNC_msg_pull_data'', 63),
     (''BPF_FUNC_bind'', 64), (''BPF_FUNC_xdp_adjust_tail'', 65),
     (''BPF_FUNC_skb_get_xfrm_state'', 66), (''BPF_FUNC_get_stack'', 67),
     (''BPF_FUNC_skb_load_bytes_relative'', 68), (''BPF_FUNC_fib_lookup'', 69),
     (''BPF_FUNC_sock_hash_update'', 70), (''BPF_FUNC_msg_redirect_hash'', 71),
     (''BPF_FUNC_sk_redirect_hash'', 72), (''BPF_FUNC_lwt_push_encap'', 73),
     (''BPF_FUNC_lwt_seg6_store_bytes'', 74), (''BPF_FUNC_lwt_seg6_adjust_srh'', 75),
     (''BPF_FUNC_lwt_seg6_action'', 76), (''BPF_FUNC_rc_repeat'', 77),
     (''BPF_FUNC_rc_keydown'', 78), (''BPF_FUNC_skb_cgroup_id'', 79),
     (''BPF_FUNC_get_current_cgroup_id'', 80), (''BPF_FUNC_get_local_storage'', 81),
     (''BPF_FUNC_sk_select_reuseport'', 82), (''BPF_FUNC_skb_ancestor_cgroup_id'', 83),
     (''BPF_FUNC_sk_lookup_tcp'', 84), (''BPF_FUNC_sk_lookup_udp'', 85),
     (''BPF_FUNC_sk_release'', 86), (''BPF_FUNC_map_push_elem'', 87),
     (''BPF_FUNC_map_pop_elem'', 88), (''BPF_FUNC_map_peek_elem'', 89),
     (''BPF_FUNC_msg_push_data'', 90), (''BPF_FUNC_msg_pop_data'', 91),
     (''BPF_FUNC_rc_pointer_rel'', 92), (''BPF_FUNC_spin_lock'', 93),
     (''BPF_FUNC_spin_unlock'', 94), (''BPF_FUNC_sk_fullsock'', 95),
     (''BPF_FUNC_tcp_sock'', 96), (''BPF_FUNC_skb_ecn_set_ce'', 97),
     (''BPF_FUNC_get_listener_sock'', 98), (''BPF_FUNC_skc_lookup_tcp'', 99),
     (''BPF_FUNC_tcp_check_syncookie'', 100), (''BPF_FUNC_sysctl_get_name'', 101),
     (''BPF_FUNC_sysctl_get_current_value'', 102),
     (''BPF_FUNC_sysctl_get_new_value'', 103), (''BPF_FUNC_sysctl_set_new_value'', 104),
     (''BPF_FUNC_strtol'', 105), (''BPF_FUNC_strtoul'', 106),
     (''BPF_FUNC_sk_storage_get'', 107), (''BPF_FUNC_sk_storage_delete'', 108),
     (''BPF_FUNC_send_signal'', 109)]"

definition enum_bpf_func_id_high :: c_enum where
  "enum_bpf_func_id_high = [
     (''BPF_FUNC_tcp_gen_syncookie'', 110), (''BPF_FUNC_skb_output'', 111),
     (''BPF_FUNC_probe_read_user'', 112), (''BPF_FUNC_probe_read_kernel'', 113),
     (''BPF_FUNC_probe_read_user_str'', 114), (''BPF_FUNC_probe_read_kernel_str'', 115),
     (''BPF_FUNC_tcp_send_ack'', 116), (''BPF_FUNC_send_signal_thread'', 117),
     (''BPF_FUNC_jiffies64'', 118), (''BPF_FUNC_read_branch_records'', 119),
     (''BPF_FUNC_get_ns_current_pid_tgid'', 120), (''BPF_FUNC_xdp_output'', 121),
     (''BPF_FUNC_get_netns_cookie'', 122),
     (''BPF_FUNC_get_current_ancestor_cgroup_id'', 123), (''BPF_FUNC_sk_assign'', 124),
     (''BPF_FUNC_ktime_get_boot_ns'', 125), (''BPF_FUNC_seq_printf'', 126),
     (''BPF_FUNC_seq_write'', 127), (''BPF_FUNC_sk_cgroup_id'', 128),
     (''BPF_FUNC_sk_ancestor_cgroup_id'', 129), (''BPF_FUNC_ringbuf_output'', 130),
     (''BPF_FUNC_ringbuf_reserve'', 131), (''BPF_FUNC_ringbuf_submit'', 132),
     (''BPF_FUNC_ringbuf_discard'', 133), (''BPF_FUNC_ringbuf_query'', 134),
     (''BPF_FUNC_csum_level'', 135), (''BPF_FUNC_skc_to_tcp6_sock'', 136),
     (''BPF_FUNC_skc_to_tcp_sock'', 137), (''BPF_FUNC_skc_to_tcp_timewait_sock'', 138),
     (''BPF_FUNC_skc_to_tcp_request_sock'', 139), (''BPF_FUNC_skc_to_udp6_sock'', 140),
     (''BPF_FUNC_get_task_stack'', 141), (''BPF_FUNC_load_hdr_opt'', 142),
     (''BPF_FUNC_store_hdr_opt'', 143), (''BPF_FUNC_reserve_hdr_opt'', 144),
     (''BPF_FUNC_inode_storage_get'', 145), (''BPF_FUNC_inode_storage_delete'', 146),
     (''BPF_FUNC_d_path'', 147), (''BPF_FUNC_copy_from_user'', 148),
     (''BPF_FUNC_snprintf_btf'', 149), (''BPF_FUNC_seq_printf_btf'', 150),
     (''BPF_FUNC_skb_cgroup_classid'', 151), (''BPF_FUNC_redirect_neigh'', 152),
     (''BPF_FUNC_per_cpu_ptr'', 153), (''BPF_FUNC_this_cpu_ptr'', 154),
     (''BPF_FUNC_redirect_peer'', 155), (''BPF_FUNC_task_storage_get'', 156),
     (''BPF_FUNC_task_storage_delete'', 157), (''BPF_FUNC_get_current_task_btf'', 158),
     (''BPF_FUNC_bprm_opts_set'', 159), (''BPF_FUNC_ktime_get_coarse_ns'', 160),
     (''BPF_FUNC_ima_inode_hash'', 161), (''BPF_FUNC_sock_from_file'', 162),
     (''BPF_FUNC_check_mtu'', 163), (''BPF_FUNC_for_each_map_elem'', 164),
     (''BPF_FUNC_snprintf'', 165), (''BPF_FUNC_sys_bpf'', 166),
     (''BPF_FUNC_btf_find_by_name_kind'', 167), (''BPF_FUNC_sys_close'', 168),
     (''BPF_FUNC_timer_init'', 169), (''BPF_FUNC_timer_set_callback'', 170),
     (''BPF_FUNC_timer_start'', 171), (''BPF_FUNC_timer_cancel'', 172),
     (''BPF_FUNC_get_func_ip'', 173), (''BPF_FUNC_get_attach_cookie'', 174),
     (''BPF_FUNC_task_pt_regs'', 175), (''BPF_FUNC_get_branch_snapshot'', 176),
     (''BPF_FUNC_trace_vprintk'', 177), (''BPF_FUNC_skc_to_unix_sock'', 178),
     (''BPF_FUNC_kallsyms_lookup_name'', 179), (''BPF_FUNC_find_vma'', 180),
     (''BPF_FUNC_loop'', 181), (''BPF_FUNC_strncmp'', 182),
     (''BPF_FUNC_get_func_arg'', 183), (''BPF_FUNC_get_func_ret'', 184),
     (''BPF_FUNC_get_func_arg_cnt'', 185), (''BPF_FUNC_get_retval'', 186),
     (''BPF_FUNC_set_retval'', 187), (''BPF_FUNC_xdp_get_buff_len'', 188),
     (''BPF_FUNC_xdp_load_bytes'', 189), (''BPF_FUNC_xdp_store_bytes'', 190),
     (''BPF_FUNC_copy_from_user_task'', 191), (''BPF_FUNC_skb_set_tstamp'', 192),
     (''BPF_FUNC_ima_file_hash'', 193), (''BPF_FUNC_kptr_xchg'', 194),
     (''BPF_FUNC_map_lookup_percpu_elem'', 195), (''BPF_FUNC_skc_to_mptcp_sock'', 196),
     (''BPF_FUNC_dynptr_from_mem'', 197), (''BPF_FUNC_ringbuf_reserve_dynptr'', 198),
     (''BPF_FUNC_ringbuf_submit_dynptr'', 199), (''BPF_FUNC_ringbuf_discard_dynptr'', 200),
     (''BPF_FUNC_dynptr_read'', 201), (''BPF_FUNC_dynptr_write'', 202),
     (''BPF_FUNC_dynptr_data'', 203), (''BPF_FUNC_tcp_raw_gen_syncookie_ipv4'', 204),
     (''BPF_FUNC_tcp_raw_gen_syncookie_ipv6'', 205),
     (''BPF_FUNC_tcp_raw_check_syncookie_ipv4'', 206),
     (''BPF_FUNC_tcp_raw_check_syncookie_ipv6'', 207),
     (''BPF_FUNC_ktime_get_tai_ns'', 208), (''BPF_FUNC_user_ringbuf_drain'', 209),
     (''BPF_FUNC_cgrp_storage_get'', 210), (''BPF_FUNC_cgrp_storage_delete'', 211),
     (''__BPF_FUNC_MAX_ID'', 212)]"

definition enum_bpf_func_id :: c_enum where
  "enum_bpf_func_id = enum_bpf_func_id_low @ enum_bpf_func_id_high"

definition enum_bpf_map_type :: c_enum where
  "enum_bpf_map_type = [
     (''BPF_MAP_TYPE_UNSPEC'', 0), (''BPF_MAP_TYPE_HASH'', 1), (''BPF_MAP_TYPE_ARRAY'', 2),
     (''BPF_MAP_TYPE_PROG_ARRAY'', 3), (''BPF_MAP_TYPE_PERF_EVENT_ARRAY'', 4),
     (''BPF_MAP_TYPE_PERCPU_HASH'', 5), (''BPF_MAP_TYPE_PERCPU_ARRAY'', 6),
     (''BPF_MAP_TYPE_STACK_TRACE'', 7), (''BPF_MAP_TYPE_CGROUP_ARRAY'', 8),
     (''BPF_MAP_TYPE_LRU_HASH'', 9), (''BPF_MAP_TYPE_LRU_PERCPU_HASH'', 10),
     (''BPF_MAP_TYPE_LPM_TRIE'', 11), (''BPF_MAP_TYPE_ARRAY_OF_MAPS'', 12),
     (''BPF_MAP_TYPE_HASH_OF_MAPS'', 13), (''BPF_MAP_TYPE_DEVMAP'', 14),
     (''BPF_MAP_TYPE_SOCKMAP'', 15), (''BPF_MAP_TYPE_CPUMAP'', 16),
     (''BPF_MAP_TYPE_XSKMAP'', 17), (''BPF_MAP_TYPE_SOCKHASH'', 18),
     (''BPF_MAP_TYPE_CGROUP_STORAGE_DEPRECATED'', 19),
     (''BPF_MAP_TYPE_CGROUP_STORAGE'', 19), (''BPF_MAP_TYPE_REUSEPORT_SOCKARRAY'', 20),
     (''BPF_MAP_TYPE_PERCPU_CGROUP_STORAGE_DEPRECATED'', 21),
     (''BPF_MAP_TYPE_PERCPU_CGROUP_STORAGE'', 21), (''BPF_MAP_TYPE_QUEUE'', 22),
     (''BPF_MAP_TYPE_STACK'', 23), (''BPF_MAP_TYPE_SK_STORAGE'', 24),
     (''BPF_MAP_TYPE_DEVMAP_HASH'', 25), (''BPF_MAP_TYPE_STRUCT_OPS'', 26),
     (''BPF_MAP_TYPE_RINGBUF'', 27), (''BPF_MAP_TYPE_INODE_STORAGE'', 28),
     (''BPF_MAP_TYPE_TASK_STORAGE'', 29), (''BPF_MAP_TYPE_BLOOM_FILTER'', 30),
     (''BPF_MAP_TYPE_USER_RINGBUF'', 31), (''BPF_MAP_TYPE_CGRP_STORAGE'', 32),
     (''BPF_MAP_TYPE_ARENA'', 33), (''__MAX_BPF_MAP_TYPE'', 34)]"

definition enum_bpf_prog_type :: c_enum where
  "enum_bpf_prog_type = [
     (''BPF_PROG_TYPE_UNSPEC'', 0), (''BPF_PROG_TYPE_SOCKET_FILTER'', 1),
     (''BPF_PROG_TYPE_KPROBE'', 2), (''BPF_PROG_TYPE_SCHED_CLS'', 3),
     (''BPF_PROG_TYPE_SCHED_ACT'', 4), (''BPF_PROG_TYPE_TRACEPOINT'', 5),
     (''BPF_PROG_TYPE_XDP'', 6), (''BPF_PROG_TYPE_PERF_EVENT'', 7),
     (''BPF_PROG_TYPE_CGROUP_SKB'', 8), (''BPF_PROG_TYPE_CGROUP_SOCK'', 9),
     (''BPF_PROG_TYPE_LWT_IN'', 10), (''BPF_PROG_TYPE_LWT_OUT'', 11),
     (''BPF_PROG_TYPE_LWT_XMIT'', 12), (''BPF_PROG_TYPE_SOCK_OPS'', 13),
     (''BPF_PROG_TYPE_SK_SKB'', 14), (''BPF_PROG_TYPE_CGROUP_DEVICE'', 15),
     (''BPF_PROG_TYPE_SK_MSG'', 16), (''BPF_PROG_TYPE_RAW_TRACEPOINT'', 17),
     (''BPF_PROG_TYPE_CGROUP_SOCK_ADDR'', 18), (''BPF_PROG_TYPE_LWT_SEG6LOCAL'', 19),
     (''BPF_PROG_TYPE_LIRC_MODE2'', 20), (''BPF_PROG_TYPE_SK_REUSEPORT'', 21),
     (''BPF_PROG_TYPE_FLOW_DISSECTOR'', 22), (''BPF_PROG_TYPE_CGROUP_SYSCTL'', 23),
     (''BPF_PROG_TYPE_RAW_TRACEPOINT_WRITABLE'', 24),
     (''BPF_PROG_TYPE_CGROUP_SOCKOPT'', 25), (''BPF_PROG_TYPE_TRACING'', 26),
     (''BPF_PROG_TYPE_STRUCT_OPS'', 27), (''BPF_PROG_TYPE_EXT'', 28),
     (''BPF_PROG_TYPE_LSM'', 29), (''BPF_PROG_TYPE_SK_LOOKUP'', 30),
     (''BPF_PROG_TYPE_SYSCALL'', 31), (''BPF_PROG_TYPE_NETFILTER'', 32),
     (''__MAX_BPF_PROG_TYPE'', 33)]"

definition enum_bpf_attach_type :: c_enum where
  "enum_bpf_attach_type = [
     (''BPF_CGROUP_INET_INGRESS'', 0), (''BPF_CGROUP_INET_EGRESS'', 1),
     (''BPF_CGROUP_INET_SOCK_CREATE'', 2), (''BPF_CGROUP_SOCK_OPS'', 3),
     (''BPF_SK_SKB_STREAM_PARSER'', 4), (''BPF_SK_SKB_STREAM_VERDICT'', 5),
     (''BPF_CGROUP_DEVICE'', 6), (''BPF_SK_MSG_VERDICT'', 7),
     (''BPF_CGROUP_INET4_BIND'', 8), (''BPF_CGROUP_INET6_BIND'', 9),
     (''BPF_CGROUP_INET4_CONNECT'', 10), (''BPF_CGROUP_INET6_CONNECT'', 11),
     (''BPF_CGROUP_INET4_POST_BIND'', 12), (''BPF_CGROUP_INET6_POST_BIND'', 13),
     (''BPF_CGROUP_UDP4_SENDMSG'', 14), (''BPF_CGROUP_UDP6_SENDMSG'', 15),
     (''BPF_LIRC_MODE2'', 16), (''BPF_FLOW_DISSECTOR'', 17), (''BPF_CGROUP_SYSCTL'', 18),
     (''BPF_CGROUP_UDP4_RECVMSG'', 19), (''BPF_CGROUP_UDP6_RECVMSG'', 20),
     (''BPF_CGROUP_GETSOCKOPT'', 21), (''BPF_CGROUP_SETSOCKOPT'', 22),
     (''BPF_TRACE_RAW_TP'', 23), (''BPF_TRACE_FENTRY'', 24), (''BPF_TRACE_FEXIT'', 25),
     (''BPF_MODIFY_RETURN'', 26), (''BPF_LSM_MAC'', 27), (''BPF_TRACE_ITER'', 28),
     (''BPF_CGROUP_INET4_GETPEERNAME'', 29), (''BPF_CGROUP_INET6_GETPEERNAME'', 30),
     (''BPF_CGROUP_INET4_GETSOCKNAME'', 31), (''BPF_CGROUP_INET6_GETSOCKNAME'', 32),
     (''BPF_XDP_DEVMAP'', 33), (''BPF_CGROUP_INET_SOCK_RELEASE'', 34),
     (''BPF_XDP_CPUMAP'', 35), (''BPF_SK_LOOKUP'', 36), (''BPF_XDP'', 37),
     (''BPF_SK_SKB_VERDICT'', 38), (''BPF_SK_REUSEPORT_SELECT'', 39),
     (''BPF_SK_REUSEPORT_SELECT_OR_MIGRATE'', 40), (''BPF_PERF_EVENT'', 41),
     (''BPF_TRACE_KPROBE_MULTI'', 42), (''BPF_LSM_CGROUP'', 43), (''BPF_STRUCT_OPS'', 44),
     (''BPF_NETFILTER'', 45), (''BPF_TCX_INGRESS'', 46), (''BPF_TCX_EGRESS'', 47),
     (''BPF_TRACE_UPROBE_MULTI'', 48), (''BPF_CGROUP_UNIX_CONNECT'', 49),
     (''BPF_CGROUP_UNIX_SENDMSG'', 50), (''BPF_CGROUP_UNIX_RECVMSG'', 51),
     (''BPF_CGROUP_UNIX_GETPEERNAME'', 52), (''BPF_CGROUP_UNIX_GETSOCKNAME'', 53),
     (''BPF_NETKIT_PRIMARY'', 54), (''BPF_NETKIT_PEER'', 55),
     (''BPF_TRACE_KPROBE_SESSION'', 56), (''__MAX_BPF_ATTACH_TYPE'', 57)]"

definition enum_bpf_cmd :: c_enum where
  "enum_bpf_cmd = [
     (''BPF_MAP_CREATE'', 0), (''BPF_MAP_LOOKUP_ELEM'', 1), (''BPF_MAP_UPDATE_ELEM'', 2),
     (''BPF_MAP_DELETE_ELEM'', 3), (''BPF_MAP_GET_NEXT_KEY'', 4), (''BPF_PROG_LOAD'', 5),
     (''BPF_OBJ_PIN'', 6), (''BPF_OBJ_GET'', 7), (''BPF_PROG_ATTACH'', 8),
     (''BPF_PROG_DETACH'', 9), (''BPF_PROG_TEST_RUN'', 10), (''BPF_PROG_RUN'', 10),
     (''BPF_PROG_GET_NEXT_ID'', 11), (''BPF_MAP_GET_NEXT_ID'', 12),
     (''BPF_PROG_GET_FD_BY_ID'', 13), (''BPF_MAP_GET_FD_BY_ID'', 14),
     (''BPF_OBJ_GET_INFO_BY_FD'', 15), (''BPF_PROG_QUERY'', 16),
     (''BPF_RAW_TRACEPOINT_OPEN'', 17), (''BPF_BTF_LOAD'', 18),
     (''BPF_BTF_GET_FD_BY_ID'', 19), (''BPF_TASK_FD_QUERY'', 20),
     (''BPF_MAP_LOOKUP_AND_DELETE_ELEM'', 21), (''BPF_MAP_FREEZE'', 22),
     (''BPF_BTF_GET_NEXT_ID'', 23), (''BPF_MAP_LOOKUP_BATCH'', 24),
     (''BPF_MAP_LOOKUP_AND_DELETE_BATCH'', 25), (''BPF_MAP_UPDATE_BATCH'', 26),
     (''BPF_MAP_DELETE_BATCH'', 27), (''BPF_LINK_CREATE'', 28), (''BPF_LINK_UPDATE'', 29),
     (''BPF_LINK_GET_FD_BY_ID'', 30), (''BPF_LINK_GET_NEXT_ID'', 31),
     (''BPF_ENABLE_STATS'', 32), (''BPF_ITER_CREATE'', 33), (''BPF_LINK_DETACH'', 34),
     (''BPF_PROG_BIND_MAP'', 35), (''BPF_TOKEN_CREATE'', 36), (''__MAX_BPF_CMD'', 37)]"

definition enum_bpf_link_type :: c_enum where
  "enum_bpf_link_type = [
     (''BPF_LINK_TYPE_UNSPEC'', 0), (''BPF_LINK_TYPE_RAW_TRACEPOINT'', 1),
     (''BPF_LINK_TYPE_TRACING'', 2), (''BPF_LINK_TYPE_CGROUP'', 3),
     (''BPF_LINK_TYPE_ITER'', 4), (''BPF_LINK_TYPE_NETNS'', 5), (''BPF_LINK_TYPE_XDP'', 6),
     (''BPF_LINK_TYPE_PERF_EVENT'', 7), (''BPF_LINK_TYPE_KPROBE_MULTI'', 8),
     (''BPF_LINK_TYPE_STRUCT_OPS'', 9), (''BPF_LINK_TYPE_NETFILTER'', 10),
     (''BPF_LINK_TYPE_TCX'', 11), (''BPF_LINK_TYPE_UPROBE_MULTI'', 12),
     (''BPF_LINK_TYPE_NETKIT'', 13), (''BPF_LINK_TYPE_SOCKMAP'', 14),
     (''__MAX_BPF_LINK_TYPE'', 15)]"

definition enum_bpf_arg_type :: c_enum where
  "enum_bpf_arg_type = [
     (''ARG_DONTCARE'', 0), (''ARG_CONST_MAP_PTR'', 1), (''ARG_PTR_TO_MAP_KEY'', 2),
     (''ARG_PTR_TO_MAP_VALUE'', 3), (''ARG_PTR_TO_MEM'', 4), (''ARG_PTR_TO_ARENA'', 5),
     (''ARG_CONST_SIZE'', 6), (''ARG_CONST_SIZE_OR_ZERO'', 7), (''ARG_PTR_TO_CTX'', 8),
     (''ARG_ANYTHING'', 9), (''ARG_PTR_TO_SPIN_LOCK'', 10),
     (''ARG_PTR_TO_SOCK_COMMON'', 11), (''ARG_PTR_TO_SOCKET'', 12),
     (''ARG_PTR_TO_BTF_ID'', 13), (''ARG_PTR_TO_RINGBUF_MEM'', 14),
     (''ARG_CONST_ALLOC_SIZE_OR_ZERO'', 15), (''ARG_PTR_TO_BTF_ID_SOCK_COMMON'', 16),
     (''ARG_PTR_TO_PERCPU_BTF_ID'', 17), (''ARG_PTR_TO_FUNC'', 18),
     (''ARG_PTR_TO_STACK'', 19), (''ARG_PTR_TO_CONST_STR'', 20),
     (''ARG_PTR_TO_TIMER'', 21), (''ARG_PTR_TO_KPTR'', 22), (''ARG_PTR_TO_DYNPTR'', 23),
     (''__BPF_ARG_TYPE_MAX'', 24), (''ARG_PTR_TO_MAP_VALUE_OR_NULL'', 259),
     (''ARG_PTR_TO_MEM_OR_NULL'', 260), (''ARG_PTR_TO_CTX_OR_NULL'', 264),
     (''ARG_PTR_TO_SOCKET_OR_NULL'', 268), (''ARG_PTR_TO_STACK_OR_NULL'', 275),
     (''ARG_PTR_TO_BTF_ID_OR_NULL'', 269), (''ARG_PTR_TO_UNINIT_MEM'', 67141636),
     (''ARG_PTR_TO_FIXED_SIZE_MEM'', 262148), (''__BPF_ARG_TYPE_LIMIT'', 134217727)]"

definition enum_bpf_return_type :: c_enum where
  "enum_bpf_return_type = [
     (''RET_INTEGER'', 0), (''RET_VOID'', 1), (''RET_PTR_TO_MAP_VALUE'', 2),
     (''RET_PTR_TO_SOCKET'', 3), (''RET_PTR_TO_TCP_SOCK'', 4),
     (''RET_PTR_TO_SOCK_COMMON'', 5), (''RET_PTR_TO_MEM'', 6),
     (''RET_PTR_TO_MEM_OR_BTF_ID'', 7), (''RET_PTR_TO_BTF_ID'', 8),
     (''__BPF_RET_TYPE_MAX'', 9), (''RET_PTR_TO_MAP_VALUE_OR_NULL'', 258),
     (''RET_PTR_TO_SOCKET_OR_NULL'', 259), (''RET_PTR_TO_TCP_SOCK_OR_NULL'', 260),
     (''RET_PTR_TO_SOCK_COMMON_OR_NULL'', 261), (''RET_PTR_TO_RINGBUF_MEM_OR_NULL'', 1286),
     (''RET_PTR_TO_DYNPTR_MEM_OR_NULL'', 262), (''RET_PTR_TO_BTF_ID_OR_NULL'', 264),
     (''RET_PTR_TO_BTF_ID_TRUSTED'', 1048584), (''__BPF_RET_TYPE_LIMIT'', 134217727)]"

definition enum_bpf_reg_type :: c_enum where
  "enum_bpf_reg_type = [
     (''NOT_INIT'', 0), (''SCALAR_VALUE'', 1), (''PTR_TO_CTX'', 2),
     (''CONST_PTR_TO_MAP'', 3), (''PTR_TO_MAP_VALUE'', 4), (''PTR_TO_MAP_KEY'', 5),
     (''PTR_TO_STACK'', 6), (''PTR_TO_PACKET_META'', 7), (''PTR_TO_PACKET'', 8),
     (''PTR_TO_PACKET_END'', 9), (''PTR_TO_FLOW_KEYS'', 10), (''PTR_TO_SOCKET'', 11),
     (''PTR_TO_SOCK_COMMON'', 12), (''PTR_TO_TCP_SOCK'', 13), (''PTR_TO_TP_BUFFER'', 14),
     (''PTR_TO_XDP_SOCK'', 15), (''PTR_TO_BTF_ID'', 16), (''PTR_TO_MEM'', 17),
     (''PTR_TO_ARENA'', 18), (''PTR_TO_BUF'', 19), (''PTR_TO_FUNC'', 20),
     (''CONST_PTR_TO_DYNPTR'', 21), (''__BPF_REG_TYPE_MAX'', 22),
     (''PTR_TO_MAP_VALUE_OR_NULL'', 260), (''PTR_TO_SOCKET_OR_NULL'', 267),
     (''PTR_TO_SOCK_COMMON_OR_NULL'', 268), (''PTR_TO_TCP_SOCK_OR_NULL'', 269),
     (''PTR_TO_BTF_ID_OR_NULL'', 272), (''__BPF_REG_TYPE_LIMIT'', 134217727)]"

definition enum_bpf_type_flag :: c_enum where
  "enum_bpf_type_flag = [
     (''PTR_MAYBE_NULL'', 256), (''MEM_RDONLY'', 512), (''MEM_RINGBUF'', 1024),
     (''MEM_USER'', 2048), (''MEM_PERCPU'', 4096), (''OBJ_RELEASE'', 8192),
     (''PTR_UNTRUSTED'', 16384), (''MEM_UNINIT'', 32768), (''DYNPTR_TYPE_LOCAL'', 65536),
     (''DYNPTR_TYPE_RINGBUF'', 131072), (''MEM_FIXED_SIZE'', 262144),
     (''MEM_ALLOC'', 524288), (''PTR_TRUSTED'', 1048576), (''MEM_RCU'', 2097152),
     (''NON_OWN_REF'', 4194304), (''DYNPTR_TYPE_SKB'', 8388608),
     (''DYNPTR_TYPE_XDP'', 16777216), (''MEM_ALIGNED'', 33554432),
     (''MEM_WRITE'', 67108864), (''__BPF_TYPE_FLAG_MAX'', 67108865),
     (''__BPF_TYPE_LAST_FLAG'', 67108864)]"

definition enum_bpf_access_type :: c_enum where
  "enum_bpf_access_type = [
     (''BPF_READ'', 1), (''BPF_WRITE'', 2)]"

definition enum_bpf_perf_event_type :: c_enum where
  "enum_bpf_perf_event_type = [
     (''BPF_PERF_EVENT_UNSPEC'', 0), (''BPF_PERF_EVENT_UPROBE'', 1),
     (''BPF_PERF_EVENT_URETPROBE'', 2), (''BPF_PERF_EVENT_KPROBE'', 3),
     (''BPF_PERF_EVENT_KRETPROBE'', 4), (''BPF_PERF_EVENT_TRACEPOINT'', 5),
     (''BPF_PERF_EVENT_EVENT'', 6)]"

definition enum_bpf_tramp_prog_type :: c_enum where
  "enum_bpf_tramp_prog_type = [
     (''BPF_TRAMP_FENTRY'', 0), (''BPF_TRAMP_FEXIT'', 1), (''BPF_TRAMP_MODIFY_RETURN'', 2),
     (''BPF_TRAMP_MAX'', 3), (''BPF_TRAMP_REPLACE'', 4)]"

definition enum_bpf_netdev_command :: c_enum where
  "enum_bpf_netdev_command = [
     (''XDP_SETUP_PROG'', 0), (''XDP_SETUP_PROG_HW'', 1), (''BPF_OFFLOAD_MAP_ALLOC'', 2),
     (''BPF_OFFLOAD_MAP_FREE'', 3), (''XDP_SETUP_XSK_POOL'', 4)]"

definition enum_bpf_lru_list_type :: c_enum where
  "enum_bpf_lru_list_type = [
     (''BPF_LRU_LIST_T_ACTIVE'', 0), (''BPF_LRU_LIST_T_INACTIVE'', 1),
     (''BPF_LRU_LIST_T_FREE'', 2), (''BPF_LRU_LOCAL_LIST_T_FREE'', 3),
     (''BPF_LRU_LOCAL_LIST_T_PENDING'', 4)]"

definition enum_bpf_iter_task_type :: c_enum where
  "enum_bpf_iter_task_type = [
     (''BPF_TASK_ITER_ALL'', 0), (''BPF_TASK_ITER_TID'', 1), (''BPF_TASK_ITER_TGID'', 2)]"

definition enum_bpf_jit_poke_reason :: c_enum where
  "enum_bpf_jit_poke_reason = [
     (''BPF_POKE_REASON_TAIL_CALL'', 0)]"

definition enum_bpf_stats_type :: c_enum where
  "enum_bpf_stats_type = [
     (''BPF_STATS_RUN_TIME'', 0)]"

definition enum_bpf_core_relo_kind :: c_enum where
  "enum_bpf_core_relo_kind = [
     (''BPF_CORE_FIELD_BYTE_OFFSET'', 0), (''BPF_CORE_FIELD_BYTE_SIZE'', 1),
     (''BPF_CORE_FIELD_EXISTS'', 2), (''BPF_CORE_FIELD_SIGNED'', 3),
     (''BPF_CORE_FIELD_LSHIFT_U64'', 4), (''BPF_CORE_FIELD_RSHIFT_U64'', 5),
     (''BPF_CORE_TYPE_ID_LOCAL'', 6), (''BPF_CORE_TYPE_ID_TARGET'', 7),
     (''BPF_CORE_TYPE_EXISTS'', 8), (''BPF_CORE_TYPE_SIZE'', 9),
     (''BPF_CORE_ENUMVAL_EXISTS'', 10), (''BPF_CORE_ENUMVAL_VALUE'', 11),
     (''BPF_CORE_TYPE_MATCHES'', 12)]"

definition enum_bpf_addr_space_cast :: c_enum where
  "enum_bpf_addr_space_cast = [
     (''BPF_ADDR_SPACE_CAST'', 1)]"

definition enum_bpf_hdr_start_off :: c_enum where
  "enum_bpf_hdr_start_off = [
     (''BPF_HDR_START_MAC'', 0), (''BPF_HDR_START_NET'', 1)]"

definition enum_bpf_check_mtu_ret :: c_enum where
  "enum_bpf_check_mtu_ret = [
     (''BPF_MTU_CHK_RET_SUCCESS'', 0), (''BPF_MTU_CHK_RET_FRAG_NEEDED'', 1),
     (''BPF_MTU_CHK_RET_SEGS_TOOBIG'', 2)]"

definition enum_bpf_ret_code :: c_enum where
  "enum_bpf_ret_code = [
     (''BPF_OK'', 0), (''BPF_DROP'', 2), (''BPF_REDIRECT'', 7), (''BPF_LWT_REROUTE'', 128),
     (''BPF_FLOW_DISSECTOR_CONTINUE'', 129)]"

definition enum_bpf_stack_build_id_status :: c_enum where
  "enum_bpf_stack_build_id_status = [
     (''BPF_STACK_BUILD_ID_EMPTY'', 0), (''BPF_STACK_BUILD_ID_VALID'', 1),
     (''BPF_STACK_BUILD_ID_IP'', 2)]"

definition enum_bpf_task_fd_type :: c_enum where
  "enum_bpf_task_fd_type = [
     (''BPF_FD_TYPE_RAW_TRACEPOINT'', 0), (''BPF_FD_TYPE_TRACEPOINT'', 1),
     (''BPF_FD_TYPE_KPROBE'', 2), (''BPF_FD_TYPE_KRETPROBE'', 3),
     (''BPF_FD_TYPE_UPROBE'', 4), (''BPF_FD_TYPE_URETPROBE'', 5)]"

definition enum_bpf_text_poke_type :: c_enum where
  "enum_bpf_text_poke_type = [
     (''BPF_MOD_CALL'', 0), (''BPF_MOD_JUMP'', 1)]"

definition enum_bpf_xdp_mode :: c_enum where
  "enum_bpf_xdp_mode = [
     (''XDP_MODE_SKB'', 0), (''XDP_MODE_DRV'', 1), (''XDP_MODE_HW'', 2),
     (''__MAX_XDP_MODE'', 3)]"

definition enum_bpf_iter_state :: c_enum where
  "enum_bpf_iter_state = [
     (''BPF_ITER_STATE_INVALID'', 0), (''BPF_ITER_STATE_ACTIVE'', 1),
     (''BPF_ITER_STATE_DRAINED'', 2)]"

definition enum_bpf_dynptr_type :: c_enum where
  "enum_bpf_dynptr_type = [
     (''BPF_DYNPTR_TYPE_INVALID'', 0), (''BPF_DYNPTR_TYPE_LOCAL'', 1),
     (''BPF_DYNPTR_TYPE_RINGBUF'', 2), (''BPF_DYNPTR_TYPE_SKB'', 3),
     (''BPF_DYNPTR_TYPE_XDP'', 4)]"

definition enum_bpf_stack_slot_type :: c_enum where
  "enum_bpf_stack_slot_type = [
     (''STACK_INVALID'', 0), (''STACK_SPILL'', 1), (''STACK_MISC'', 2),
     (''STACK_ZERO'', 3), (''STACK_DYNPTR'', 4), (''STACK_ITER'', 5)]"

definition enum_netns_bpf_attach_type :: c_enum where
  "enum_netns_bpf_attach_type = [
     (''NETNS_BPF_INVALID'', -1), (''NETNS_BPF_FLOW_DISSECTOR'', 0),
     (''NETNS_BPF_SK_LOOKUP'', 1), (''MAX_NETNS_BPF_ATTACH_TYPE'', 2)]"

definition enum_xdp_mem_type :: c_enum where
  "enum_xdp_mem_type = [
     (''MEM_TYPE_PAGE_SHARED'', 0), (''MEM_TYPE_PAGE_ORDER0'', 1),
     (''MEM_TYPE_PAGE_POOL'', 2), (''MEM_TYPE_XSK_BUFF_POOL'', 3), (''MEM_TYPE_MAX'', 4)]"

definition enum_xdp_rss_hash_type :: c_enum where
  "enum_xdp_rss_hash_type = [
     (''XDP_RSS_L3_IPV4'', 1), (''XDP_RSS_L3_IPV6'', 2), (''XDP_RSS_L3_DYNHDR'', 4),
     (''XDP_RSS_L4'', 8), (''XDP_RSS_L4_TCP'', 16), (''XDP_RSS_L4_UDP'', 32),
     (''XDP_RSS_L4_SCTP'', 64), (''XDP_RSS_L4_IPSEC'', 128), (''XDP_RSS_L4_ICMP'', 256),
     (''XDP_RSS_TYPE_NONE'', 0), (''XDP_RSS_TYPE_L2'', 0), (''XDP_RSS_TYPE_L3_IPV4'', 1),
     (''XDP_RSS_TYPE_L3_IPV6'', 2), (''XDP_RSS_TYPE_L3_IPV4_OPT'', 5),
     (''XDP_RSS_TYPE_L3_IPV6_EX'', 6), (''XDP_RSS_TYPE_L4_ANY'', 8),
     (''XDP_RSS_TYPE_L4_IPV4_TCP'', 25), (''XDP_RSS_TYPE_L4_IPV4_UDP'', 41),
     (''XDP_RSS_TYPE_L4_IPV4_SCTP'', 73), (''XDP_RSS_TYPE_L4_IPV4_IPSEC'', 137),
     (''XDP_RSS_TYPE_L4_IPV4_ICMP'', 265), (''XDP_RSS_TYPE_L4_IPV6_TCP'', 26),
     (''XDP_RSS_TYPE_L4_IPV6_UDP'', 42), (''XDP_RSS_TYPE_L4_IPV6_SCTP'', 74),
     (''XDP_RSS_TYPE_L4_IPV6_IPSEC'', 138), (''XDP_RSS_TYPE_L4_IPV6_ICMP'', 266),
     (''XDP_RSS_TYPE_L4_IPV6_TCP_EX'', 30), (''XDP_RSS_TYPE_L4_IPV6_UDP_EX'', 46),
     (''XDP_RSS_TYPE_L4_IPV6_SCTP_EX'', 78)]"

definition enum_xdp_buff_flags :: c_enum where
  "enum_xdp_buff_flags = [
     (''XDP_FLAGS_HAS_FRAGS'', 1), (''XDP_FLAGS_FRAGS_PF_MEMALLOC'', 2)]"

definition enum_netdev_tx :: c_enum where
  "enum_netdev_tx = [
     (''__NETDEV_TX_MIN'', -2147483648), (''NETDEV_TX_OK'', 0), (''NETDEV_TX_BUSY'', 16)]"

definition enum_skb_tstamp_type :: c_enum where
  "enum_skb_tstamp_type = [
     (''SKB_CLOCK_REALTIME'', 0), (''SKB_CLOCK_MONOTONIC'', 1), (''SKB_CLOCK_TAI'', 2),
     (''__SKB_CLOCK_MAX'', 2)]"

definition enum_pkt_hash_types :: c_enum where
  "enum_pkt_hash_types = [
     (''PKT_HASH_TYPE_NONE'', 0), (''PKT_HASH_TYPE_L2'', 1), (''PKT_HASH_TYPE_L3'', 2),
     (''PKT_HASH_TYPE_L4'', 3)]"

definition enum_skb_drop_reason :: c_enum where
  "enum_skb_drop_reason = [
     (''SKB_NOT_DROPPED_YET'', 0), (''SKB_CONSUMED'', 1),
     (''SKB_DROP_REASON_NOT_SPECIFIED'', 2), (''SKB_DROP_REASON_NO_SOCKET'', 3),
     (''SKB_DROP_REASON_PKT_TOO_SMALL'', 4), (''SKB_DROP_REASON_TCP_CSUM'', 5),
     (''SKB_DROP_REASON_SOCKET_FILTER'', 6), (''SKB_DROP_REASON_UDP_CSUM'', 7),
     (''SKB_DROP_REASON_NETFILTER_DROP'', 8), (''SKB_DROP_REASON_OTHERHOST'', 9),
     (''SKB_DROP_REASON_IP_CSUM'', 10), (''SKB_DROP_REASON_IP_INHDR'', 11),
     (''SKB_DROP_REASON_IP_RPFILTER'', 12),
     (''SKB_DROP_REASON_UNICAST_IN_L2_MULTICAST'', 13),
     (''SKB_DROP_REASON_XFRM_POLICY'', 14), (''SKB_DROP_REASON_IP_NOPROTO'', 15),
     (''SKB_DROP_REASON_SOCKET_RCVBUFF'', 16), (''SKB_DROP_REASON_PROTO_MEM'', 17),
     (''SKB_DROP_REASON_TCP_AUTH_HDR'', 18), (''SKB_DROP_REASON_TCP_MD5NOTFOUND'', 19),
     (''SKB_DROP_REASON_TCP_MD5UNEXPECTED'', 20), (''SKB_DROP_REASON_TCP_MD5FAILURE'', 21),
     (''SKB_DROP_REASON_TCP_AONOTFOUND'', 22), (''SKB_DROP_REASON_TCP_AOUNEXPECTED'', 23),
     (''SKB_DROP_REASON_TCP_AOKEYNOTFOUND'', 24), (''SKB_DROP_REASON_TCP_AOFAILURE'', 25),
     (''SKB_DROP_REASON_SOCKET_BACKLOG'', 26), (''SKB_DROP_REASON_TCP_FLAGS'', 27),
     (''SKB_DROP_REASON_TCP_ABORT_ON_DATA'', 28), (''SKB_DROP_REASON_TCP_ZEROWINDOW'', 29),
     (''SKB_DROP_REASON_TCP_OLD_DATA'', 30), (''SKB_DROP_REASON_TCP_OVERWINDOW'', 31),
     (''SKB_DROP_REASON_TCP_OFOMERGE'', 32), (''SKB_DROP_REASON_TCP_RFC7323_PAWS'', 33),
     (''SKB_DROP_REASON_TCP_OLD_SEQUENCE'', 34),
     (''SKB_DROP_REASON_TCP_INVALID_SEQUENCE'', 35),
     (''SKB_DROP_REASON_TCP_INVALID_ACK_SEQUENCE'', 36),
     (''SKB_DROP_REASON_TCP_RESET'', 37), (''SKB_DROP_REASON_TCP_INVALID_SYN'', 38),
     (''SKB_DROP_REASON_TCP_CLOSE'', 39), (''SKB_DROP_REASON_TCP_FASTOPEN'', 40),
     (''SKB_DROP_REASON_TCP_OLD_ACK'', 41), (''SKB_DROP_REASON_TCP_TOO_OLD_ACK'', 42),
     (''SKB_DROP_REASON_TCP_ACK_UNSENT_DATA'', 43),
     (''SKB_DROP_REASON_TCP_OFO_QUEUE_PRUNE'', 44), (''SKB_DROP_REASON_TCP_OFO_DROP'', 45),
     (''SKB_DROP_REASON_IP_OUTNOROUTES'', 46), (''SKB_DROP_REASON_BPF_CGROUP_EGRESS'', 47),
     (''SKB_DROP_REASON_IPV6DISABLED'', 48), (''SKB_DROP_REASON_NEIGH_CREATEFAIL'', 49),
     (''SKB_DROP_REASON_NEIGH_FAILED'', 50), (''SKB_DROP_REASON_NEIGH_QUEUEFULL'', 51),
     (''SKB_DROP_REASON_NEIGH_DEAD'', 52), (''SKB_DROP_REASON_TC_EGRESS'', 53),
     (''SKB_DROP_REASON_SECURITY_HOOK'', 54), (''SKB_DROP_REASON_QDISC_DROP'', 55),
     (''SKB_DROP_REASON_CPU_BACKLOG'', 56), (''SKB_DROP_REASON_XDP'', 57),
     (''SKB_DROP_REASON_TC_INGRESS'', 58), (''SKB_DROP_REASON_UNHANDLED_PROTO'', 59),
     (''SKB_DROP_REASON_SKB_CSUM'', 60), (''SKB_DROP_REASON_SKB_GSO_SEG'', 61),
     (''SKB_DROP_REASON_SKB_UCOPY_FAULT'', 62), (''SKB_DROP_REASON_DEV_HDR'', 63),
     (''SKB_DROP_REASON_DEV_READY'', 64), (''SKB_DROP_REASON_FULL_RING'', 65),
     (''SKB_DROP_REASON_NOMEM'', 66), (''SKB_DROP_REASON_HDR_TRUNC'', 67),
     (''SKB_DROP_REASON_TAP_FILTER'', 68), (''SKB_DROP_REASON_TAP_TXFILTER'', 69),
     (''SKB_DROP_REASON_ICMP_CSUM'', 70), (''SKB_DROP_REASON_INVALID_PROTO'', 71),
     (''SKB_DROP_REASON_IP_INADDRERRORS'', 72), (''SKB_DROP_REASON_IP_INNOROUTES'', 73),
     (''SKB_DROP_REASON_PKT_TOO_BIG'', 74), (''SKB_DROP_REASON_DUP_FRAG'', 75),
     (''SKB_DROP_REASON_FRAG_REASM_TIMEOUT'', 76), (''SKB_DROP_REASON_FRAG_TOO_FAR'', 77),
     (''SKB_DROP_REASON_TCP_MINTTL'', 78), (''SKB_DROP_REASON_IPV6_BAD_EXTHDR'', 79),
     (''SKB_DROP_REASON_IPV6_NDISC_FRAG'', 80),
     (''SKB_DROP_REASON_IPV6_NDISC_HOP_LIMIT'', 81),
     (''SKB_DROP_REASON_IPV6_NDISC_BAD_CODE'', 82),
     (''SKB_DROP_REASON_IPV6_NDISC_BAD_OPTIONS'', 83),
     (''SKB_DROP_REASON_IPV6_NDISC_NS_OTHERHOST'', 84),
     (''SKB_DROP_REASON_QUEUE_PURGE'', 85), (''SKB_DROP_REASON_TC_COOKIE_ERROR'', 86),
     (''SKB_DROP_REASON_PACKET_SOCK_ERROR'', 87),
     (''SKB_DROP_REASON_TC_CHAIN_NOTFOUND'', 88),
     (''SKB_DROP_REASON_TC_RECLASSIFY_LOOP'', 89), (''SKB_DROP_REASON_MAX'', 90),
     (''SKB_DROP_REASON_SUBSYS_MASK'', 4294901760)]"

definition enum_perf_type_id :: c_enum where
  "enum_perf_type_id = [
     (''PERF_TYPE_HARDWARE'', 0), (''PERF_TYPE_SOFTWARE'', 1),
     (''PERF_TYPE_TRACEPOINT'', 2), (''PERF_TYPE_HW_CACHE'', 3), (''PERF_TYPE_RAW'', 4),
     (''PERF_TYPE_BREAKPOINT'', 5), (''PERF_TYPE_MAX'', 6)]"

definition enum_nf_inet_hooks :: c_enum where
  "enum_nf_inet_hooks = [
     (''NF_INET_PRE_ROUTING'', 0), (''NF_INET_LOCAL_IN'', 1), (''NF_INET_FORWARD'', 2),
     (''NF_INET_LOCAL_OUT'', 3), (''NF_INET_POST_ROUTING'', 4), (''NF_INET_NUMHOOKS'', 5),
     (''NF_INET_INGRESS'', 5)]"

definition enum_ip_conntrack_dir :: c_enum where
  "enum_ip_conntrack_dir = [
     (''IP_CT_DIR_ORIGINAL'', 0), (''IP_CT_DIR_REPLY'', 1), (''IP_CT_DIR_MAX'', 2)]"

definition enum_ip_conntrack_status :: c_enum where
  "enum_ip_conntrack_status = [
     (''IPS_EXPECTED_BIT'', 0), (''IPS_EXPECTED'', 1), (''IPS_SEEN_REPLY_BIT'', 1),
     (''IPS_SEEN_REPLY'', 2), (''IPS_ASSURED_BIT'', 2), (''IPS_ASSURED'', 4),
     (''IPS_CONFIRMED_BIT'', 3), (''IPS_CONFIRMED'', 8), (''IPS_SRC_NAT_BIT'', 4),
     (''IPS_SRC_NAT'', 16), (''IPS_DST_NAT_BIT'', 5), (''IPS_DST_NAT'', 32),
     (''IPS_NAT_MASK'', 48), (''IPS_SEQ_ADJUST_BIT'', 6), (''IPS_SEQ_ADJUST'', 64),
     (''IPS_SRC_NAT_DONE_BIT'', 7), (''IPS_SRC_NAT_DONE'', 128),
     (''IPS_DST_NAT_DONE_BIT'', 8), (''IPS_DST_NAT_DONE'', 256),
     (''IPS_NAT_DONE_MASK'', 384), (''IPS_DYING_BIT'', 9), (''IPS_DYING'', 512),
     (''IPS_FIXED_TIMEOUT_BIT'', 10), (''IPS_FIXED_TIMEOUT'', 1024),
     (''IPS_TEMPLATE_BIT'', 11), (''IPS_TEMPLATE'', 2048), (''IPS_UNTRACKED_BIT'', 12),
     (''IPS_UNTRACKED'', 4096), (''IPS_NAT_CLASH_BIT'', 12), (''IPS_NAT_CLASH'', 4096),
     (''IPS_HELPER_BIT'', 13), (''IPS_HELPER'', 8192), (''IPS_OFFLOAD_BIT'', 14),
     (''IPS_OFFLOAD'', 16384), (''IPS_HW_OFFLOAD_BIT'', 15), (''IPS_HW_OFFLOAD'', 32768),
     (''IPS_UNCHANGEABLE_MASK'', 56313), (''__IPS_MAX_BIT'', 16)]"

definition enum_ip_conntrack_info :: c_enum where
  "enum_ip_conntrack_info = [
     (''IP_CT_ESTABLISHED'', 0), (''IP_CT_RELATED'', 1), (''IP_CT_NEW'', 2),
     (''IP_CT_IS_REPLY'', 3), (''IP_CT_ESTABLISHED_REPLY'', 3),
     (''IP_CT_RELATED_REPLY'', 4), (''IP_CT_NUMBER'', 5), (''IP_CT_UNTRACKED'', 7)]"

definition enum_tcp_conntrack :: c_enum where
  "enum_tcp_conntrack = [
     (''TCP_CONNTRACK_NONE'', 0), (''TCP_CONNTRACK_SYN_SENT'', 1),
     (''TCP_CONNTRACK_SYN_RECV'', 2), (''TCP_CONNTRACK_ESTABLISHED'', 3),
     (''TCP_CONNTRACK_FIN_WAIT'', 4), (''TCP_CONNTRACK_CLOSE_WAIT'', 5),
     (''TCP_CONNTRACK_LAST_ACK'', 6), (''TCP_CONNTRACK_TIME_WAIT'', 7),
     (''TCP_CONNTRACK_CLOSE'', 8), (''TCP_CONNTRACK_LISTEN'', 9),
     (''TCP_CONNTRACK_MAX'', 10), (''TCP_CONNTRACK_IGNORE'', 11),
     (''TCP_CONNTRACK_RETRANS'', 12), (''TCP_CONNTRACK_UNACK'', 13),
     (''TCP_CONNTRACK_TIMEOUT_MAX'', 14)]"

definition enum_sock_type :: c_enum where
  "enum_sock_type = [
     (''SOCK_STREAM'', 1), (''SOCK_DGRAM'', 2), (''SOCK_RAW'', 3), (''SOCK_RDM'', 4),
     (''SOCK_SEQPACKET'', 5), (''SOCK_DCCP'', 6), (''SOCK_PACKET'', 10)]"

definition enum_net_xmit_qdisc_t :: c_enum where
  "enum_net_xmit_qdisc_t = [
     (''__NET_XMIT_STOLEN'', 65536), (''__NET_XMIT_BYPASS'', 131072)]"

definition enum_sk_action :: c_enum where
  "enum_sk_action = [
     (''SK_DROP'', 0), (''SK_PASS'', 1)]"

definition enum_tc_link_layer :: c_enum where
  "enum_tc_link_layer = [
     (''TC_LINKLAYER_UNAWARE'', 0), (''TC_LINKLAYER_ETHERNET'', 1),
     (''TC_LINKLAYER_ATM'', 2)]"

definition enum_tc_setup_type :: c_enum where
  "enum_tc_setup_type = [
     (''TC_QUERY_CAPS'', 0), (''TC_SETUP_QDISC_MQPRIO'', 1), (''TC_SETUP_CLSU32'', 2),
     (''TC_SETUP_CLSFLOWER'', 3), (''TC_SETUP_CLSMATCHALL'', 4), (''TC_SETUP_CLSBPF'', 5),
     (''TC_SETUP_BLOCK'', 6), (''TC_SETUP_QDISC_CBS'', 7), (''TC_SETUP_QDISC_RED'', 8),
     (''TC_SETUP_QDISC_PRIO'', 9), (''TC_SETUP_QDISC_MQ'', 10),
     (''TC_SETUP_QDISC_ETF'', 11), (''TC_SETUP_ROOT_QDISC'', 12),
     (''TC_SETUP_QDISC_GRED'', 13), (''TC_SETUP_QDISC_TAPRIO'', 14), (''TC_SETUP_FT'', 15),
     (''TC_SETUP_QDISC_ETS'', 16), (''TC_SETUP_QDISC_TBF'', 17),
     (''TC_SETUP_QDISC_FIFO'', 18), (''TC_SETUP_QDISC_HTB'', 19), (''TC_SETUP_ACT'', 20)]"

definition kernel_enums :: "c_enum list" where
  "kernel_enums = [
     enum_bpf_func_id, enum_bpf_map_type, enum_bpf_prog_type, enum_bpf_attach_type,
     enum_bpf_cmd, enum_bpf_link_type, enum_bpf_arg_type, enum_bpf_return_type,
     enum_bpf_reg_type, enum_bpf_type_flag, enum_bpf_access_type, enum_bpf_perf_event_type,
     enum_bpf_tramp_prog_type, enum_bpf_netdev_command, enum_bpf_lru_list_type,
     enum_bpf_iter_task_type, enum_bpf_jit_poke_reason, enum_bpf_stats_type,
     enum_bpf_core_relo_kind, enum_bpf_addr_space_cast, enum_bpf_hdr_start_off,
     enum_bpf_check_mtu_ret, enum_bpf_ret_code, enum_bpf_stack_build_id_status,
     enum_bpf_task_fd_type, enum_bpf_text_poke_type, enum_bpf_xdp_mode,
     enum_bpf_iter_state, enum_bpf_dynptr_type, enum_bpf_stack_slot_type,
     enum_netns_bpf_attach_type, enum_xdp_mem_type, enum_xdp_rss_hash_type,
     enum_xdp_buff_flags, enum_netdev_tx, enum_skb_tstamp_type, enum_pkt_hash_types,
     enum_skb_drop_reason, enum_perf_type_id, enum_nf_inet_hooks, enum_ip_conntrack_dir,
     enum_ip_conntrack_status, enum_ip_conntrack_info, enum_tcp_conntrack, enum_sock_type,
     enum_net_xmit_qdisc_t, enum_sk_action, enum_tc_link_layer, enum_tc_setup_type]"

end
