(* ===== verification/Vmlinux_Kernel_Base.thy ===== *)
theory Vmlinux_Kernel_Base
  imports Vmlinux_Net
begin

text \<open>
  The building blocks of the kernel structures around BPF: typedefs, locks, lists, timers and the
  parts of the larger structures. Each is translated member by member from
  \<^verbatim>\<open>nhp/ebpf/xdp/vmlinux.h\<close>; \<open>kernel_base_structs\<close> collects the structures and unions.
\<close>

definition typedef_u32 :: ctype where
  "typedef_u32 = typedef___u32"

definition struct_xdp_buff :: ctype where
  "struct_xdp_buff = Struct False [
     Field ''data'' (Ptr ''void''), Field ''data_end'' (Ptr ''void''),
     Field ''data_meta'' (Ptr ''void''), Field ''data_hard_start'' (Ptr ''void''),
     Field ''rxq'' (Ptr ''struct xdp_rxq_info''),
     Field ''txq'' (Ptr ''struct xdp_txq_info''), Field ''frame_sz'' typedef_u32,
     Field ''flags'' typedef_u32]"

definition typedef_u16 :: ctype where
  "typedef_u16 = typedef___u16"

definition struct_xdp_mem_info :: ctype where
  "struct_xdp_mem_info = Struct False [
     Field ''type'' typedef_u32, Field ''id'' typedef_u32]"

definition struct_xdp_frame :: ctype where
  "struct_xdp_frame = Struct False [
     Field ''data'' (Ptr ''void''), Field ''len'' typedef_u16,
     Field ''headroom'' typedef_u16, Field ''metasize'' typedef_u32,
     Field ''mem'' struct_xdp_mem_info, Field ''dev_rx'' (Ptr ''struct net_device''),
     Field ''frame_sz'' typedef_u32, Field ''flags'' typedef_u32]"

definition struct_xdp_rxq_info :: ctype where
  "struct_xdp_rxq_info = Struct False [
     Field ''dev'' (Ptr ''struct net_device''), Field ''queue_index'' typedef_u32,
     Field ''reg_state'' typedef_u32, Field ''mem'' struct_xdp_mem_info,
     Field ''napi_id'' (Scalar CUInt), Field ''frag_size'' typedef_u32,
     Bits '''' (Scalar CLong) 64, Bits '''' (Scalar CLong) 64, Bits '''' (Scalar CLong) 64,
     Bits '''' (Scalar CLong) 64]"

definition struct_xdp_txq_info :: ctype where
  "struct_xdp_txq_info = Struct False [
     Field ''dev'' (Ptr ''struct net_device'')]"

definition typedef___s64 :: ctype where
  "typedef___s64 = Scalar CLongLong"

definition typedef_s64 :: ctype where
  "typedef_s64 = typedef___s64"

definition typedef_ktime_t :: ctype where
  "typedef_ktime_t = typedef_s64"

definition struct_skb_shared_hwtstamps :: ctype where
  "struct_skb_shared_hwtstamps = Struct False [
     Field '''' (Union False [Field ''hwtstamp'' typedef_ktime_t, Field ''netdev_data'' (Ptr ''void'')])]"

definition struct_xsk_tx_metadata_compl :: ctype where
  "struct_xsk_tx_metadata_compl = Struct False [
     Field ''tx_timestamp'' (Ptr ''__u64'')]"

definition typedef_atomic_t :: ctype where
  "typedef_atomic_t = Struct False [
     Field ''counter'' (Scalar CInt)]"

definition typedef_netmem_ref :: ctype where
  "typedef_netmem_ref = Scalar CULong"

definition struct_skb_frag :: ctype where
  "struct_skb_frag = Struct False [
     Field ''netmem'' typedef_netmem_ref, Field ''len'' (Scalar CUInt),
     Field ''offset'' (Scalar CUInt)]"

definition typedef_skb_frag_t :: ctype where
  "typedef_skb_frag_t = struct_skb_frag"

definition struct_skb_shared_info :: ctype where
  "struct_skb_shared_info = Struct False [
     Field ''flags'' typedef___u8, Field ''meta_len'' typedef___u8,
     Field ''nr_frags'' typedef___u8, Field ''tx_flags'' typedef___u8,
     Field ''gso_size'' (Scalar CUShort), Field ''gso_segs'' (Scalar CUShort),
     Field ''frag_list'' (Ptr ''struct sk_buff''),
     Field '''' (Union False [Field ''hwtstamps'' struct_skb_shared_hwtstamps, Field ''xsk_meta'' struct_xsk_tx_metadata_compl]),
     Field ''gso_type'' (Scalar CUInt), Field ''tskey'' typedef_u32,
     Field ''dataref'' typedef_atomic_t, Field ''xdp_frags_size'' (Scalar CUInt),
     Field ''destructor_arg'' (Ptr ''void''), Field ''frags'' (Arr typedef_skb_frag_t 17)]"

definition typedef_u64 :: ctype where
  "typedef_u64 = typedef___u64"

definition typedef_atomic64_t :: ctype where
  "typedef_atomic64_t = Struct False [
     Field ''counter'' typedef_s64]"

definition typedef_atomic_long_t :: ctype where
  "typedef_atomic_long_t = typedef_atomic64_t"

definition typedef_u8 :: ctype where
  "typedef_u8 = typedef___u8"

definition struct_qspinlock :: ctype where
  "struct_qspinlock = Struct False [
     Field '''' (Union False [Field ''val'' typedef_atomic_t, Field '''' (Struct False [Field ''locked'' typedef_u8, Field ''pending'' typedef_u8]), Field '''' (Struct False [Field ''locked_pending'' typedef_u16, Field ''tail'' typedef_u16])])]"

definition typedef_arch_spinlock_t :: ctype where
  "typedef_arch_spinlock_t = struct_qspinlock"

definition struct_raw_spinlock :: ctype where
  "struct_raw_spinlock = Struct False [
     Field ''raw_lock'' typedef_arch_spinlock_t]"

definition typedef_raw_spinlock_t :: ctype where
  "typedef_raw_spinlock_t = struct_raw_spinlock"

definition struct_optimistic_spin_queue :: ctype where
  "struct_optimistic_spin_queue = Struct False [
     Field ''tail'' typedef_atomic_t]"

definition struct_list_head :: ctype where
  "struct_list_head = Struct False [
     Field ''next'' (Ptr ''struct list_head''), Field ''prev'' (Ptr ''struct list_head'')]"

definition struct_mutex :: ctype where
  "struct_mutex = Struct False [
     Field ''owner'' typedef_atomic_long_t, Field ''wait_lock'' typedef_raw_spinlock_t,
     Field ''osq'' struct_optimistic_spin_queue, Field ''wait_list'' struct_list_head]"

definition typedef_work_func_t :: ctype where
  "typedef_work_func_t = Ptr ''fn''"

definition struct_work_struct :: ctype where
  "struct_work_struct = Struct False [
     Field ''data'' typedef_atomic_long_t, Field ''entry'' struct_list_head,
     Field ''func'' typedef_work_func_t]"

definition struct_callback_head :: ctype where
  "struct_callback_head = Struct False [
     Field ''next'' (Ptr ''struct callback_head''), Field ''func'' (Ptr ''fn'')]"

definition struct_spinlock :: ctype where
  "struct_spinlock = Struct False [
     Field '''' (Union False [Field ''rlock'' struct_raw_spinlock])]"

definition typedef_spinlock_t :: ctype where
  "typedef_spinlock_t = struct_spinlock"

definition typedef_bool :: ctype where
  "typedef_bool = Scalar CBool"

definition struct_bpf_map :: ctype where
  "struct_bpf_map = Struct False [
     Field ''ops'' (Ptr ''struct bpf_map_ops''),
     Field ''inner_map_meta'' (Ptr ''struct bpf_map''), Field ''security'' (Ptr ''void''),
     Field ''map_type'' (EnumT ''bpf_map_type''), Field ''key_size'' typedef_u32,
     Field ''value_size'' typedef_u32, Field ''max_entries'' typedef_u32,
     Field ''map_extra'' typedef_u64, Field ''map_flags'' typedef_u32,
     Field ''id'' typedef_u32, Field ''record'' (Ptr ''struct btf_record''),
     Field ''numa_node'' (Scalar CInt), Field ''btf_key_type_id'' typedef_u32,
     Field ''btf_value_type_id'' typedef_u32,
     Field ''btf_vmlinux_value_type_id'' typedef_u32, Field ''btf'' (Ptr ''struct btf''),
     Field ''objcg'' (Ptr ''struct obj_cgroup''), Field ''name'' (Arr (Scalar CChar) 16),
     Field ''freeze_mutex'' struct_mutex, Field ''refcnt'' typedef_atomic64_t,
     Field ''usercnt'' typedef_atomic64_t,
     Field '''' (Union False [Field ''work'' struct_work_struct, Field ''rcu'' struct_callback_head]),
     Field ''writecnt'' typedef_atomic64_t,
     Field ''owner'' (Struct False [Field ''attach_func_proto'' (Ptr ''struct btf_type''), Field ''lock'' typedef_spinlock_t, Field ''type'' (EnumT ''bpf_prog_type''), Field ''jited'' typedef_bool, Field ''xdp_has_frags'' typedef_bool]),
     Field ''bypass_spec_v1'' typedef_bool, Field ''frozen'' typedef_bool,
     Field ''free_after_mult_rcu_gp'' typedef_bool,
     Field ''free_after_rcu_gp'' typedef_bool,
     Field ''sleepable_refcnt'' typedef_atomic64_t, Field ''elem_count'' (Ptr ''s64'')]"

definition struct_bpf_map_ops :: ctype where
  "struct_bpf_map_ops = Struct False [
     Field ''map_alloc_check'' (Ptr ''fn''), Field ''map_alloc'' (Ptr ''fn''),
     Field ''map_release'' (Ptr ''fn''), Field ''map_free'' (Ptr ''fn''),
     Field ''map_get_next_key'' (Ptr ''fn''), Field ''map_release_uref'' (Ptr ''fn''),
     Field ''map_lookup_elem_sys_only'' (Ptr ''fn''),
     Field ''map_lookup_batch'' (Ptr ''fn''),
     Field ''map_lookup_and_delete_elem'' (Ptr ''fn''),
     Field ''map_lookup_and_delete_batch'' (Ptr ''fn''),
     Field ''map_update_batch'' (Ptr ''fn''), Field ''map_delete_batch'' (Ptr ''fn''),
     Field ''map_lookup_elem'' (Ptr ''fn''), Field ''map_update_elem'' (Ptr ''fn''),
     Field ''map_delete_elem'' (Ptr ''fn''), Field ''map_push_elem'' (Ptr ''fn''),
     Field ''map_pop_elem'' (Ptr ''fn''), Field ''map_peek_elem'' (Ptr ''fn''),
     Field ''map_lookup_percpu_elem'' (Ptr ''fn''), Field ''map_fd_get_ptr'' (Ptr ''fn''),
     Field ''map_fd_put_ptr'' (Ptr ''fn''), Field ''map_gen_lookup'' (Ptr ''fn''),
     Field ''map_fd_sys_lookup_elem'' (Ptr ''fn''),
     Field ''map_seq_show_elem'' (Ptr ''fn''), Field ''map_check_btf'' (Ptr ''fn''),
     Field ''map_poke_track'' (Ptr ''fn''), Field ''map_poke_untrack'' (Ptr ''fn''),
     Field ''map_poke_run'' (Ptr ''fn''), Field ''map_direct_value_addr'' (Ptr ''fn''),
     Field ''map_direct_value_meta'' (Ptr ''fn''), Field ''map_mmap'' (Ptr ''fn''),
     Field ''map_poll'' (Ptr ''fn''), Field ''map_get_unmapped_area'' (Ptr ''fn''),
     Field ''map_local_storage_charge'' (Ptr ''fn''),
     Field ''map_local_storage_uncharge'' (Ptr ''fn''),
     Field ''map_owner_storage_ptr'' (Ptr ''fn''), Field ''map_redirect'' (Ptr ''fn''),
     Field ''map_meta_equal'' (Ptr ''fn''),
     Field ''map_set_for_each_callback_args'' (Ptr ''fn''),
     Field ''map_for_each_callback'' (Ptr ''fn''), Field ''map_mem_usage'' (Ptr ''fn''),
     Field ''map_btf_id'' (Ptr ''int''),
     Field ''iter_seq_info'' (Ptr ''struct bpf_iter_seq_info'')]"

definition struct_sock_filter :: ctype where
  "struct_sock_filter = Struct False [
     Field ''code'' typedef___u16, Field ''jt'' typedef___u8, Field ''jf'' typedef___u8,
     Field ''k'' typedef___u32]"

definition typedef___s16 :: ctype where
  "typedef___s16 = Scalar CShort"

definition typedef___s32 :: ctype where
  "typedef___s32 = Scalar CInt"

definition struct_bpf_insn :: ctype where
  "struct_bpf_insn = Struct False [
     Field ''code'' typedef___u8, Bits ''dst_reg'' typedef___u8 4,
     Bits ''src_reg'' typedef___u8 4, Field ''off'' typedef___s16,
     Field ''imm'' typedef___s32]"

definition struct_bpf_prog :: ctype where
  "struct_bpf_prog = Struct False [
     Field ''pages'' typedef_u16, Bits ''jited'' typedef_u16 1,
     Bits ''jit_requested'' typedef_u16 1, Bits ''gpl_compatible'' typedef_u16 1,
     Bits ''cb_access'' typedef_u16 1, Bits ''dst_needed'' typedef_u16 1,
     Bits ''blinding_requested'' typedef_u16 1, Bits ''blinded'' typedef_u16 1,
     Bits ''is_func'' typedef_u16 1, Bits ''kprobe_override'' typedef_u16 1,
     Bits ''has_callchain_buf'' typedef_u16 1,
     Bits ''enforce_expected_attach_type'' typedef_u16 1,
     Bits ''call_get_stack'' typedef_u16 1, Bits ''call_get_func_ip'' typedef_u16 1,
     Bits ''tstamp_type_access'' typedef_u16 1, Bits ''sleepable'' typedef_u16 1,
     Field ''type'' (EnumT ''bpf_prog_type''),
     Field ''expected_attach_type'' (EnumT ''bpf_attach_type''), Field ''len'' typedef_u32,
     Field ''jited_len'' typedef_u32, Field ''tag'' (Arr typedef_u8 8),
     Field ''stats'' (Ptr ''struct bpf_prog_stats''), Field ''active'' (Ptr ''int''),
     Field ''bpf_func'' (Ptr ''fn''), Field ''aux'' (Ptr ''struct bpf_prog_aux''),
     Field ''orig_prog'' (Ptr ''struct sock_fprog_kern''),
     Field '''' (Union False [Field '''' (Struct False [Field ''__empty_insns'' (Struct False []), Field ''insns'' (Arr struct_sock_filter 0)]), Field '''' (Struct False [Field ''__empty_insnsi'' (Struct False []), Field ''insnsi'' (Arr struct_bpf_insn 0)])])]"

definition struct_rb_node :: ctype where
  "struct_rb_node = Struct False [
     Field ''__rb_parent_color'' (Scalar CULong),
     Field ''rb_right'' (Ptr ''struct rb_node''),
     Field ''rb_left'' (Ptr ''struct rb_node'')]"

definition struct_latch_tree_node :: ctype where
  "struct_latch_tree_node = Struct False [
     Field ''node'' (Arr struct_rb_node 2)]"

definition struct_bpf_ksym :: ctype where
  "struct_bpf_ksym = Struct False [
     Field ''start'' (Scalar CULong), Field ''end'' (Scalar CULong),
     Field ''name'' (Arr (Scalar CChar) 512), Field ''lnode'' struct_list_head,
     Field ''tnode'' struct_latch_tree_node, Field ''prog'' typedef_bool]"

definition struct_bpf_prog_aux :: ctype where
  "struct_bpf_prog_aux = Struct False [
     Field ''refcnt'' typedef_atomic64_t, Field ''used_map_cnt'' typedef_u32,
     Field ''used_btf_cnt'' typedef_u32, Field ''max_ctx_offset'' typedef_u32,
     Field ''max_pkt_offset'' typedef_u32, Field ''max_tp_access'' typedef_u32,
     Field ''stack_depth'' typedef_u32, Field ''id'' typedef_u32,
     Field ''func_cnt'' typedef_u32, Field ''real_func_cnt'' typedef_u32,
     Field ''func_idx'' typedef_u32, Field ''attach_btf_id'' typedef_u32,
     Field ''ctx_arg_info_size'' typedef_u32, Field ''max_rdonly_access'' typedef_u32,
     Field ''max_rdwr_access'' typedef_u32, Field ''attach_btf'' (Ptr ''struct btf''),
     Field ''ctx_arg_info'' (Ptr ''struct bpf_ctx_arg_aux''),
     Field ''dst_mutex'' struct_mutex, Field ''dst_prog'' (Ptr ''struct bpf_prog''),
     Field ''dst_trampoline'' (Ptr ''struct bpf_trampoline''),
     Field ''saved_dst_prog_type'' (EnumT ''bpf_prog_type''),
     Field ''saved_dst_attach_type'' (EnumT ''bpf_attach_type''),
     Field ''verifier_zext'' typedef_bool, Field ''dev_bound'' typedef_bool,
     Field ''offload_requested'' typedef_bool, Field ''attach_btf_trace'' typedef_bool,
     Field ''attach_tracing_prog'' typedef_bool,
     Field ''func_proto_unreliable'' typedef_bool,
     Field ''tail_call_reachable'' typedef_bool, Field ''xdp_has_frags'' typedef_bool,
     Field ''exception_cb'' typedef_bool, Field ''exception_boundary'' typedef_bool,
     Field ''is_extended'' typedef_bool, Field ''prog_array_member_cnt'' typedef_u64,
     Field ''ext_mutex'' struct_mutex, Field ''arena'' (Ptr ''struct bpf_arena''),
     Field ''attach_func_proto'' (Ptr ''struct btf_type''),
     Field ''attach_func_name'' (Ptr ''char''), Field ''func'' (Ptr ''struct bpf_prog''),
     Field ''jit_data'' (Ptr ''void''),
     Field ''poke_tab'' (Ptr ''struct bpf_jit_poke_descriptor''),
     Field ''kfunc_tab'' (Ptr ''struct bpf_kfunc_desc_tab''),
     Field ''kfunc_btf_tab'' (Ptr ''struct bpf_kfunc_btf_tab''),
     Field ''size_poke_tab'' typedef_u32, Field ''ksym'' struct_bpf_ksym,
     Field ''ops'' (Ptr ''struct bpf_prog_ops''),
     Field ''used_maps'' (Ptr ''struct bpf_map''), Field ''used_maps_mutex'' struct_mutex,
     Field ''used_btfs'' (Ptr ''struct btf_mod_pair''),
     Field ''prog'' (Ptr ''struct bpf_prog''), Field ''user'' (Ptr ''struct user_struct''),
     Field ''load_time'' typedef_u64, Field ''verified_insns'' typedef_u32,
     Field ''cgroup_atype'' (Scalar CInt),
     Field ''cgroup_storage'' (Arr (Ptr ''struct bpf_map'') 2),
     Field ''name'' (Arr (Scalar CChar) 16), Field ''bpf_exception_cb'' (Ptr ''fn''),
     Field ''security'' (Ptr ''void''), Field ''token'' (Ptr ''struct bpf_token''),
     Field ''offload'' (Ptr ''struct bpf_prog_offload''),
     Field ''btf'' (Ptr ''struct btf''),
     Field ''func_info'' (Ptr ''struct bpf_func_info''),
     Field ''func_info_aux'' (Ptr ''struct bpf_func_info_aux''),
     Field ''linfo'' (Ptr ''struct bpf_line_info''), Field ''jited_linfo'' (Ptr ''void''),
     Field ''func_info_cnt'' typedef_u32, Field ''nr_linfo'' typedef_u32,
     Field ''linfo_idx'' typedef_u32, Field ''mod'' (Ptr ''struct module''),
     Field ''num_exentries'' typedef_u32,
     Field ''extable'' (Ptr ''struct exception_table_entry''),
     Field '''' (Union False [Field ''work'' struct_work_struct, Field ''rcu'' struct_callback_head])]"

definition typedef___kernel_ulong_t :: ctype where
  "typedef___kernel_ulong_t = Scalar CULong"

definition typedef___kernel_size_t :: ctype where
  "typedef___kernel_size_t = typedef___kernel_ulong_t"

definition typedef_size_t :: ctype where
  "typedef_size_t = typedef___kernel_size_t"

definition struct_bpf_func_proto :: ctype where
  "struct_bpf_func_proto = Struct False [
     Field ''func'' (Ptr ''fn''), Field ''gpl_only'' typedef_bool,
     Field ''pkt_access'' typedef_bool, Field ''might_sleep'' typedef_bool,
     Field ''ret_type'' (EnumT ''bpf_return_type''),
     Field '''' (Union False [Field '''' (Struct False [Field ''arg1_type'' (EnumT ''bpf_arg_type''), Field ''arg2_type'' (EnumT ''bpf_arg_type''), Field ''arg3_type'' (EnumT ''bpf_arg_type''), Field ''arg4_type'' (EnumT ''bpf_arg_type''), Field ''arg5_type'' (EnumT ''bpf_arg_type'')]), Field ''arg_type'' (Arr (EnumT ''bpf_arg_type'') 5)]),
     Field '''' (Union False [Field '''' (Struct False [Field ''arg1_btf_id'' (Ptr ''u32''), Field ''arg2_btf_id'' (Ptr ''u32''), Field ''arg3_btf_id'' (Ptr ''u32''), Field ''arg4_btf_id'' (Ptr ''u32''), Field ''arg5_btf_id'' (Ptr ''u32'')]), Field ''arg_btf_id'' (Arr (Ptr ''u32'') 5), Field '''' (Struct False [Field ''arg1_size'' typedef_size_t, Field ''arg2_size'' typedef_size_t, Field ''arg3_size'' typedef_size_t, Field ''arg4_size'' typedef_size_t, Field ''arg5_size'' typedef_size_t]), Field ''arg_size'' (Arr typedef_size_t 5)]),
     Field ''ret_btf_id'' (Ptr ''int''), Field ''allowed'' (Ptr ''fn'')]"

definition struct_bpf_mem_alloc :: ctype where
  "struct_bpf_mem_alloc = Struct False [
     Field ''caches'' (Ptr ''struct bpf_mem_caches''),
     Field ''cache'' (Ptr ''struct bpf_mem_cache''),
     Field ''objcg'' (Ptr ''struct obj_cgroup''), Field ''percpu'' typedef_bool,
     Field ''work'' struct_work_struct]"

definition struct_pcpu_freelist_head :: ctype where
  "struct_pcpu_freelist_head = Struct False [
     Field ''first'' (Ptr ''struct pcpu_freelist_node''),
     Field ''lock'' typedef_raw_spinlock_t]"

definition struct_pcpu_freelist :: ctype where
  "struct_pcpu_freelist = Struct False [
     Field ''freelist'' (Ptr ''struct pcpu_freelist_head''),
     Field ''extralist'' struct_pcpu_freelist_head]"

definition struct_bpf_lru_list :: ctype where
  "struct_bpf_lru_list = Struct False [
     Field ''lists'' (Arr struct_list_head 3), Field ''counts'' (Arr (Scalar CUInt) 2),
     Field ''next_inactive_rotation'' (Ptr ''struct list_head''),
     Field ''lock'' typedef_raw_spinlock_t, Bits '''' (Scalar CLong) 64,
     Bits '''' (Scalar CLong) 64, Bits '''' (Scalar CLong) 64, Bits '''' (Scalar CLong) 64,
     Bits '''' (Scalar CLong) 64, Bits '''' (Scalar CLong) 64, Bits '''' (Scalar CLong) 64]"

definition struct_bpf_common_lru :: ctype where
  "struct_bpf_common_lru = Struct False [
     Field ''lru_list'' struct_bpf_lru_list,
     Field ''local_list'' (Ptr ''struct bpf_lru_locallist''), Bits '''' (Scalar CLong) 64,
     Bits '''' (Scalar CLong) 64, Bits '''' (Scalar CLong) 64, Bits '''' (Scalar CLong) 64,
     Bits '''' (Scalar CLong) 64, Bits '''' (Scalar CLong) 64, Bits '''' (Scalar CLong) 64]"

definition typedef_del_from_htab_func :: ctype where
  "typedef_del_from_htab_func = Ptr ''fn''"

definition struct_bpf_lru :: ctype where
  "struct_bpf_lru = Struct False [
     Field '''' (Union False [Field ''common_lru'' struct_bpf_common_lru, Field ''percpu_lru'' (Ptr ''struct bpf_lru_list'')]),
     Field ''del_from_htab'' typedef_del_from_htab_func, Field ''del_arg'' (Ptr ''void''),
     Field ''hash_offset'' (Scalar CUInt), Field ''nr_scans'' (Scalar CUInt),
     Field ''percpu'' typedef_bool, Bits '''' (Scalar CLong) 64,
     Bits '''' (Scalar CLong) 64, Bits '''' (Scalar CLong) 64, Bits '''' (Scalar CLong) 64]"

definition struct_percpu_counter :: ctype where
  "struct_percpu_counter = Struct False [
     Field ''lock'' typedef_raw_spinlock_t, Field ''count'' typedef_s64,
     Field ''list'' struct_list_head, Field ''counters'' (Ptr ''s32'')]"

definition struct_lock_class_key :: ctype where
  "struct_lock_class_key = Struct False []"

definition struct_bpf_htab :: ctype where
  "struct_bpf_htab = Struct False [
     Field ''map'' struct_bpf_map, Field ''ma'' struct_bpf_mem_alloc,
     Field ''pcpu_ma'' struct_bpf_mem_alloc, Field ''buckets'' (Ptr ''struct bucket''),
     Field ''elems'' (Ptr ''void''), Bits '''' (Scalar CLong) 64,
     Bits '''' (Scalar CLong) 64, Bits '''' (Scalar CLong) 64, Bits '''' (Scalar CLong) 64,
     Bits '''' (Scalar CLong) 64, Bits '''' (Scalar CLong) 64, Bits '''' (Scalar CLong) 64,
     Field '''' (Union False [Field ''freelist'' struct_pcpu_freelist, Field ''lru'' struct_bpf_lru]),
     Field ''extra_elems'' (Ptr ''struct htab_elem''),
     Field ''pcount'' struct_percpu_counter, Field ''count'' typedef_atomic_t,
     Field ''use_percpu_counter'' typedef_bool, Field ''n_buckets'' typedef_u32,
     Field ''elem_size'' typedef_u32, Field ''hashrnd'' typedef_u32,
     Field ''lockdep_key'' struct_lock_class_key,
     Field ''map_locked'' (Arr (Ptr ''int'') 8), Bits '''' (Scalar CLong) 64,
     Bits '''' (Scalar CLong) 64, Bits '''' (Scalar CLong) 64, Bits '''' (Scalar CLong) 64,
     Bits '''' (Scalar CLong) 64, Bits '''' (Scalar CLong) 64, Bits '''' (Scalar CLong) 64]"

definition struct_bpf_array :: ctype where
  "struct_bpf_array = Struct False [
     Field ''map'' struct_bpf_map, Field ''elem_size'' typedef_u32,
     Field ''index_mask'' typedef_u32, Field ''aux'' (Ptr ''struct bpf_array_aux''),
     Field '''' (Union False [Field '''' (Struct False [Field ''__empty_value'' (Struct False []), Field ''value'' (Arr (Scalar CChar) 0)]), Field '''' (Struct False [Field ''__empty_ptrs'' (Struct False []), Field ''ptrs'' (Arr (Ptr ''void'') 0)]), Field '''' (Struct False [Field ''__empty_pptrs'' (Struct False []), Field ''pptrs'' (Arr (Ptr ''void'') 0)])])]"

definition struct_bpf_prog_info :: ctype where
  "struct_bpf_prog_info = Struct False [
     Field ''type'' typedef___u32, Field ''id'' typedef___u32,
     Field ''tag'' (Arr typedef___u8 8), Field ''jited_prog_len'' typedef___u32,
     Field ''xlated_prog_len'' typedef___u32, Field ''jited_prog_insns'' typedef___u64,
     Field ''xlated_prog_insns'' typedef___u64, Field ''load_time'' typedef___u64,
     Field ''created_by_uid'' typedef___u32, Field ''nr_map_ids'' typedef___u32,
     Field ''map_ids'' typedef___u64, Field ''name'' (Arr (Scalar CChar) 16),
     Field ''ifindex'' typedef___u32, Bits ''gpl_compatible'' typedef___u32 1,
     Field ''netns_dev'' typedef___u64, Field ''netns_ino'' typedef___u64,
     Field ''nr_jited_ksyms'' typedef___u32, Field ''nr_jited_func_lens'' typedef___u32,
     Field ''jited_ksyms'' typedef___u64, Field ''jited_func_lens'' typedef___u64,
     Field ''btf_id'' typedef___u32, Field ''func_info_rec_size'' typedef___u32,
     Field ''func_info'' typedef___u64, Field ''nr_func_info'' typedef___u32,
     Field ''nr_line_info'' typedef___u32, Field ''line_info'' typedef___u64,
     Field ''jited_line_info'' typedef___u64, Field ''nr_jited_line_info'' typedef___u32,
     Field ''line_info_rec_size'' typedef___u32,
     Field ''jited_line_info_rec_size'' typedef___u32,
     Field ''nr_prog_tags'' typedef___u32, Field ''prog_tags'' typedef___u64,
     Field ''run_time_ns'' typedef___u64, Field ''run_cnt'' typedef___u64,
     Field ''recursion_misses'' typedef___u64, Field ''verified_insns'' typedef___u32,
     Field ''attach_btf_obj_id'' typedef___u32, Field ''attach_btf_id'' typedef___u32]"

definition struct_bpf_map_info :: ctype where
  "struct_bpf_map_info = Struct False [
     Field ''type'' typedef___u32, Field ''id'' typedef___u32,
     Field ''key_size'' typedef___u32, Field ''value_size'' typedef___u32,
     Field ''max_entries'' typedef___u32, Field ''map_flags'' typedef___u32,
     Field ''name'' (Arr (Scalar CChar) 16), Field ''ifindex'' typedef___u32,
     Field ''btf_vmlinux_value_type_id'' typedef___u32, Field ''netns_dev'' typedef___u64,
     Field ''netns_ino'' typedef___u64, Field ''btf_id'' typedef___u32,
     Field ''btf_key_type_id'' typedef___u32, Field ''btf_value_type_id'' typedef___u32,
     Field ''btf_vmlinux_id'' typedef___u32, Field ''map_extra'' typedef___u64]"

definition struct_bpf_link_info :: ctype where
  "struct_bpf_link_info = Struct False [
     Field ''type'' typedef___u32, Field ''id'' typedef___u32,
     Field ''prog_id'' typedef___u32,
     Field '''' (Union False [Field ''raw_tracepoint'' (Struct False [Field ''tp_name'' typedef___u64, Field ''tp_name_len'' typedef___u32]), Field ''tracing'' (Struct False [Field ''attach_type'' typedef___u32, Field ''target_obj_id'' typedef___u32, Field ''target_btf_id'' typedef___u32]), Field ''cgroup'' (Struct False [Field ''cgroup_id'' typedef___u64, Field ''attach_type'' typedef___u32]), Field ''iter'' (Struct False [Field ''target_name'' typedef___u64, Field ''target_name_len'' typedef___u32, Field '''' (Union False [Field ''map'' (Struct False [Field ''map_id'' typedef___u32])]), Field '''' (Union False [Field ''cgroup'' (Struct False [Field ''cgroup_id'' typedef___u64, Field ''order'' typedef___u32]), Field ''task'' (Struct False [Field ''tid'' typedef___u32, Field ''pid'' typedef___u32])])]), Field ''netns'' (Struct False [Field ''netns_ino'' typedef___u32, Field ''attach_type'' typedef___u32]), Field ''xdp'' (Struct False [Field ''ifindex'' typedef___u32]), Field ''struct_ops'' (Struct False [Field ''map_id'' typedef___u32]), Field ''netfilter'' (Struct False [Field ''pf'' typedef___u32, Field ''hooknum'' typedef___u32, Field ''priority'' typedef___s32, Field ''flags'' typedef___u32]), Field ''kprobe_multi'' (Struct False [Field ''addrs'' typedef___u64, Field ''count'' typedef___u32, Field ''flags'' typedef___u32, Field ''missed'' typedef___u64, Field ''cookies'' typedef___u64]), Field ''uprobe_multi'' (Struct False [Field ''path'' typedef___u64, Field ''offsets'' typedef___u64, Field ''ref_ctr_offsets'' typedef___u64, Field ''cookies'' typedef___u64, Field ''path_size'' typedef___u32, Field ''count'' typedef___u32, Field ''flags'' typedef___u32, Field ''pid'' typedef___u32]), Field ''perf_event'' (Struct False [Field ''type'' typedef___u32, Field '''' (Union False [Field ''uprobe'' (Struct False [Field ''file_name'' typedef___u64, Field ''name_len'' typedef___u32, Field ''offset'' typedef___u32, Field ''cookie'' typedef___u64]), Field ''kprobe'' (Struct False [Field ''func_name'' typedef___u64, Field ''name_len'' typedef___u32, Field ''offset'' typedef___u32, Field ''addr'' typedef___u64, Field ''missed'' typedef___u64, Field ''cookie'' typedef___u64]), Field ''tracepoint'' (Struct False [Field ''tp_name'' typedef___u64, Field ''name_len'' typedef___u32, Field ''cookie'' typedef___u64]), Field ''event'' (Struct False [Field ''config'' typedef___u64, Field ''type'' typedef___u32, Field ''cookie'' typedef___u64])])]), Field ''tcx'' (Struct False [Field ''ifindex'' typedef___u32, Field ''attach_type'' typedef___u32]), Field ''netkit'' (Struct False [Field ''ifindex'' typedef___u32, Field ''attach_type'' typedef___u32]), Field ''sockmap'' (Struct False [Field ''map_id'' typedef___u32, Field ''attach_type'' typedef___u32])])]"

definition struct_bpf_link :: ctype where
  "struct_bpf_link = Struct False [
     Field ''refcnt'' typedef_atomic64_t, Field ''id'' typedef_u32,
     Field ''type'' (EnumT ''bpf_link_type''), Field ''ops'' (Ptr ''struct bpf_link_ops''),
     Field ''prog'' (Ptr ''struct bpf_prog''),
     Field '''' (Union False [Field ''rcu'' struct_callback_head, Field ''work'' struct_work_struct])]"

definition struct_bpf_xdp_link :: ctype where
  "struct_bpf_xdp_link = Struct False [
     Field ''link'' struct_bpf_link, Field ''dev'' (Ptr ''struct net_device''),
     Field ''flags'' (Scalar CInt)]"

definition struct_tcx_link :: ctype where
  "struct_tcx_link = Struct False [
     Field ''link'' struct_bpf_link, Field ''dev'' (Ptr ''struct net_device''),
     Field ''location'' typedef_u32]"

definition struct_bpf_mprog_fp :: ctype where
  "struct_bpf_mprog_fp = Struct False [
     Field ''prog'' (Ptr ''struct bpf_prog'')]"

definition struct_bpf_mprog_entry :: ctype where
  "struct_bpf_mprog_entry = Struct False [
     Field ''fp_items'' (Arr struct_bpf_mprog_fp 64),
     Field ''parent'' (Ptr ''struct bpf_mprog_bundle'')]"

definition struct_bpf_mprog_cp :: ctype where
  "struct_bpf_mprog_cp = Struct False [
     Field ''link'' (Ptr ''struct bpf_link'')]"

definition struct_bpf_mprog_bundle :: ctype where
  "struct_bpf_mprog_bundle = Struct False [
     Field ''a'' struct_bpf_mprog_entry, Field ''b'' struct_bpf_mprog_entry,
     Field ''cp_items'' (Arr struct_bpf_mprog_cp 64),
     Field ''ref'' (Ptr ''struct bpf_prog''), Field ''revision'' typedef_atomic64_t,
     Field ''count'' typedef_u32]"

definition struct_tcx_entry :: ctype where
  "struct_tcx_entry = Struct False [
     Field ''miniq'' (Ptr ''struct mini_Qdisc''), Field ''bundle'' struct_bpf_mprog_bundle,
     Field ''miniq_active'' typedef_u32, Field ''rcu'' struct_callback_head]"

definition struct_bpf_event_entry :: ctype where
  "struct_bpf_event_entry = Struct False [
     Field ''event'' (Ptr ''struct perf_event''),
     Field ''perf_file'' (Ptr ''struct file''), Field ''map_file'' (Ptr ''struct file''),
     Field ''rcu'' struct_callback_head]"

definition struct_in6_addr :: ctype where
  "struct_in6_addr = Struct False [
     Field ''in6_u'' (Union False [Field ''u6_addr8'' (Arr typedef___u8 16), Field ''u6_addr16'' (Arr typedef___be16 8), Field ''u6_addr32'' (Arr typedef___be32 4)])]"

definition struct_ipv6hdr :: ctype where
  "struct_ipv6hdr = Struct False [
     Bits ''priority'' typedef___u8 4, Bits ''version'' typedef___u8 4,
     Field ''flow_lbl'' (Arr typedef___u8 3), Field ''payload_len'' typedef___be16,
     Field ''nexthdr'' typedef___u8, Field ''hop_limit'' typedef___u8,
     Field '''' (Union False [Field '''' (Struct False [Field ''saddr'' struct_in6_addr, Field ''daddr'' struct_in6_addr]), Field ''addrs'' (Struct False [Field ''saddr'' struct_in6_addr, Field ''daddr'' struct_in6_addr])])]"

definition struct_llist_node :: ctype where
  "struct_llist_node = Struct False [
     Field ''next'' (Ptr ''struct llist_node'')]"

definition typedef___wsum :: ctype where
  "typedef___wsum = typedef___u32"

definition typedef_sk_buff_data_t :: ctype where
  "typedef_sk_buff_data_t = Scalar CUInt"

definition struct_refcount_struct :: ctype where
  "struct_refcount_struct = Struct False [
     Field ''refs'' typedef_atomic_t]"

definition typedef_refcount_t :: ctype where
  "typedef_refcount_t = struct_refcount_struct"

definition struct_sk_buff :: ctype where
  "struct_sk_buff = Struct False [
     Field '''' (Union False [Field '''' (Struct False [Field ''next'' (Ptr ''struct sk_buff''), Field ''prev'' (Ptr ''struct sk_buff''), Field '''' (Union False [Field ''dev'' (Ptr ''struct net_device''), Field ''dev_scratch'' (Scalar CULong)])]), Field ''rbnode'' struct_rb_node, Field ''list'' struct_list_head, Field ''ll_node'' struct_llist_node]),
     Field ''sk'' (Ptr ''struct sock''),
     Field '''' (Union False [Field ''tstamp'' typedef_ktime_t, Field ''skb_mstamp_ns'' typedef_u64]),
     Field ''cb'' (Arr (Scalar CChar) 48),
     Field '''' (Union False [Field '''' (Struct False [Field ''_skb_refdst'' (Scalar CULong), Field ''destructor'' (Ptr ''fn'')]), Field ''tcp_tsorted_anchor'' struct_list_head, Field ''_sk_redir'' (Scalar CULong)]),
     Field ''_nfct'' (Scalar CULong), Field ''len'' (Scalar CUInt),
     Field ''data_len'' (Scalar CUInt), Field ''mac_len'' typedef___u16,
     Field ''hdr_len'' typedef___u16, Field ''queue_mapping'' typedef___u16,
     Field ''__cloned_offset'' (Arr typedef___u8 0), Bits ''cloned'' typedef___u8 1,
     Bits ''nohdr'' typedef___u8 1, Bits ''fclone'' typedef___u8 2,
     Bits ''peeked'' typedef___u8 1, Bits ''head_frag'' typedef___u8 1,
     Bits ''pfmemalloc'' typedef___u8 1, Bits ''pp_recycle'' typedef___u8 1,
     Field ''active_extensions'' typedef___u8,
     Field '''' (Union False [Field '''' (Struct False [Field ''__pkt_type_offset'' (Arr typedef___u8 0), Bits ''pkt_type'' typedef___u8 3, Bits ''ignore_df'' typedef___u8 1, Bits ''dst_pending_confirm'' typedef___u8 1, Bits ''ip_summed'' typedef___u8 2, Bits ''ooo_okay'' typedef___u8 1, Field ''__mono_tc_offset'' (Arr typedef___u8 0), Bits ''tstamp_type'' typedef___u8 2, Bits ''tc_at_ingress'' typedef___u8 1, Bits ''tc_skip_classify'' typedef___u8 1, Bits ''remcsum_offload'' typedef___u8 1, Bits ''csum_complete_sw'' typedef___u8 1, Bits ''csum_level'' typedef___u8 2, Bits ''inner_protocol_type'' typedef___u8 1, Bits ''l4_hash'' typedef___u8 1, Bits ''sw_hash'' typedef___u8 1, Bits ''wifi_acked_valid'' typedef___u8 1, Bits ''wifi_acked'' typedef___u8 1, Bits ''no_fcs'' typedef___u8 1, Bits ''encapsulation'' typedef___u8 1, Bits ''encap_hdr_csum'' typedef___u8 1, Bits ''csum_valid'' typedef___u8 1, Bits ''ndisc_nodetype'' typedef___u8 2, Bits ''ipvs_property'' typedef___u8 1, Bits ''nf_trace'' typedef___u8 1, Bits ''offload_fwd_mark'' typedef___u8 1, Bits ''offload_l3_fwd_mark'' typedef___u8 1, Bits ''redirected'' typedef___u8 1, Bits ''from_ingress'' typedef___u8 1, Bits ''nf_skip_egress'' typedef___u8 1, Bits ''decrypted'' typedef___u8 1, Bits ''slow_gro'' typedef___u8 1, Bits ''csum_not_inet'' typedef___u8 1, Field ''tc_index'' typedef___u16, Field ''alloc_cpu'' typedef_u16, Field '''' (Union False [Field ''csum'' typedef___wsum, Field '''' (Struct False [Field ''csum_start'' typedef___u16, Field ''csum_offset'' typedef___u16])]), Field ''priority'' typedef___u32, Field ''skb_iif'' (Scalar CInt), Field ''hash'' typedef___u32, Field '''' (Union False [Field ''vlan_all'' typedef_u32, Field '''' (Struct False [Field ''vlan_proto'' typedef___be16, Field ''vlan_tci'' typedef___u16])]), Field '''' (Union False [Field ''napi_id'' (Scalar CUInt), Field ''sender_cpu'' (Scalar CUInt)]), Field ''secmark'' typedef___u32, Field '''' (Union False [Field ''mark'' typedef___u32, Field ''reserved_tailroom'' typedef___u32]), Field '''' (Union False [Field ''inner_protocol'' typedef___be16, Field ''inner_ipproto'' typedef___u8]), Field ''inner_transport_header'' typedef___u16, Field ''inner_network_header'' typedef___u16, Field ''inner_mac_header'' typedef___u16, Field ''protocol'' typedef___be16, Field ''transport_header'' typedef___u16, Field ''network_header'' typedef___u16, Field ''mac_header'' typedef___u16]), Field ''headers'' (Struct False [Field ''__pkt_type_offset'' (Arr typedef___u8 0), Bits ''pkt_type'' typedef___u8 3, Bits ''ignore_df'' typedef___u8 1, Bits ''dst_pending_confirm'' typedef___u8 1, Bits ''ip_summed'' typedef___u8 2, Bits ''ooo_okay'' typedef___u8 1, Field ''__mono_tc_offset'' (Arr typedef___u8 0), Bits ''tstamp_type'' typedef___u8 2, Bits ''tc_at_ingress'' typedef___u8 1, Bits ''tc_skip_classify'' typedef___u8 1, Bits ''remcsum_offload'' typedef___u8 1, Bits ''csum_complete_sw'' typedef___u8 1, Bits ''csum_level'' typedef___u8 2, Bits ''inner_protocol_type'' typedef___u8 1, Bits ''l4_hash'' typedef___u8 1, Bits ''sw_hash'' typedef___u8 1, Bits ''wifi_acked_valid'' typedef___u8 1, Bits ''wifi_acked'' typedef___u8 1, Bits ''no_fcs'' typedef___u8 1, Bits ''encapsulation'' typedef___u8 1, Bits ''encap_hdr_csum'' typedef___u8 1, Bits ''csum_valid'' typedef___u8 1, Bits ''ndisc_nodetype'' typedef___u8 2, Bits ''ipvs_property'' typedef___u8 1, Bits ''nf_trace'' typedef___u8 1, Bits ''offload_fwd_mark'' typedef___u8 1, Bits ''offload_l3_fwd_mark'' typedef___u8 1, Bits ''redirected'' typedef___u8 1, Bits ''from_ingress'' typedef___u8 1, Bits ''nf_skip_egress'' typedef___u8 1, Bits ''decrypted'' typedef___u8 1, Bits ''slow_gro'' typedef___u8 1, Bits ''csum_not_inet'' typedef___u8 1, Field ''tc_index'' typedef___u16, Field ''alloc_cpu'' typedef_u16, Field '''' (Union False [Field ''csum'' typedef___wsum, Field '''' (Struct False [Field ''csum_start'' typedef___u16, Field ''csum_offset'' typedef___u16])]), Field ''priority'' typedef___u32, Field ''skb_iif'' (Scalar CInt), Field ''hash'' typedef___u32, Field '''' (Union False [Field ''vlan_all'' typedef_u32, Field '''' (Struct False [Field ''vlan_proto'' typedef___be16, Field ''vlan_tci'' typedef___u16])]), Field '''' (Union False [Field ''napi_id'' (Scalar CUInt), Field ''sender_cpu'' (Scalar CUInt)]), Field ''secmark'' typedef___u32, Field '''' (Union False [Field ''mark'' typedef___u32, Field ''reserved_tailroom'' typedef___u32]), Field '''' (Union False [Field ''inner_protocol'' typedef___be16, Field ''inner_ipproto'' typedef___u8]), Field ''inner_transport_header'' typedef___u16, Field ''inner_network_header'' typedef___u16, Field ''inner_mac_header'' typedef___u16, Field ''protocol'' typedef___be16, Field ''transport_header'' typedef___u16, Field ''network_header'' typedef___u16, Field ''mac_header'' typedef___u16])]),
     Field ''tail'' typedef_sk_buff_data_t, Field ''end'' typedef_sk_buff_data_t,
     Field ''head'' (Ptr ''unsigned char''), Field ''data'' (Ptr ''unsigned char''),
     Field ''truesize'' (Scalar CUInt), Field ''users'' typedef_refcount_t,
     Field ''extensions'' (Ptr ''struct skb_ext'')]"

definition struct_bpf_sock :: ctype where
  "struct_bpf_sock = Struct False [
     Field ''bound_dev_if'' typedef___u32, Field ''family'' typedef___u32,
     Field ''type'' typedef___u32, Field ''protocol'' typedef___u32,
     Field ''mark'' typedef___u32, Field ''priority'' typedef___u32,
     Field ''src_ip4'' typedef___u32, Field ''src_ip6'' (Arr typedef___u32 4),
     Field ''src_port'' typedef___u32, Field ''dst_port'' typedef___be16,
     Field ''dst_ip4'' typedef___u32, Field ''dst_ip6'' (Arr typedef___u32 4),
     Field ''state'' typedef___u32, Field ''rx_queue_mapping'' typedef___s32]"

definition typedef___addrpair :: ctype where
  "typedef___addrpair = typedef___u64"

definition typedef___portpair :: ctype where
  "typedef___portpair = typedef___u32"

definition struct_hlist_node :: ctype where
  "struct_hlist_node = Struct False [
     Field ''next'' (Ptr ''struct hlist_node''),
     Field ''pprev'' (Ptr ''struct hlist_node'')]"

definition typedef_possible_net_t :: ctype where
  "typedef_possible_net_t = Struct False [
     Field ''net'' (Ptr ''struct net'')]"

definition struct_hlist_nulls_node :: ctype where
  "struct_hlist_nulls_node = Struct False [
     Field ''next'' (Ptr ''struct hlist_nulls_node''),
     Field ''pprev'' (Ptr ''struct hlist_nulls_node'')]"

definition struct_sock_common :: ctype where
  "struct_sock_common = Struct False [
     Field '''' (Union False [Field ''skc_addrpair'' typedef___addrpair, Field '''' (Struct False [Field ''skc_daddr'' typedef___be32, Field ''skc_rcv_saddr'' typedef___be32])]),
     Field '''' (Union False [Field ''skc_hash'' (Scalar CUInt), Field ''skc_u16hashes'' (Arr typedef___u16 2)]),
     Field '''' (Union False [Field ''skc_portpair'' typedef___portpair, Field '''' (Struct False [Field ''skc_dport'' typedef___be16, Field ''skc_num'' typedef___u16])]),
     Field ''skc_family'' (Scalar CUShort), Field ''skc_state'' (Scalar CUChar),
     Bits ''skc_reuse'' (Scalar CUChar) 4, Bits ''skc_reuseport'' (Scalar CUChar) 1,
     Bits ''skc_ipv6only'' (Scalar CUChar) 1, Bits ''skc_net_refcnt'' (Scalar CUChar) 1,
     Field ''skc_bound_dev_if'' (Scalar CInt),
     Field '''' (Union False [Field ''skc_bind_node'' struct_hlist_node, Field ''skc_portaddr_node'' struct_hlist_node]),
     Field ''skc_prot'' (Ptr ''struct proto''), Field ''skc_net'' typedef_possible_net_t,
     Field ''skc_v6_daddr'' struct_in6_addr, Field ''skc_v6_rcv_saddr'' struct_in6_addr,
     Field ''skc_cookie'' typedef_atomic64_t,
     Field '''' (Union False [Field ''skc_flags'' (Scalar CULong), Field ''skc_listener'' (Ptr ''struct sock''), Field ''skc_tw_dr'' (Ptr ''struct inet_timewait_death_row'')]),
     Field ''skc_dontcopy_begin'' (Arr (Scalar CInt) 0),
     Field '''' (Union False [Field ''skc_node'' struct_hlist_node, Field ''skc_nulls_node'' struct_hlist_nulls_node]),
     Field ''skc_tx_queue_mapping'' (Scalar CUShort),
     Field ''skc_rx_queue_mapping'' (Scalar CUShort),
     Field '''' (Union False [Field ''skc_incoming_cpu'' (Scalar CInt), Field ''skc_rcv_wnd'' typedef_u32, Field ''skc_tw_rcv_nxt'' typedef_u32]),
     Field ''skc_refcnt'' typedef_refcount_t,
     Field ''skc_dontcopy_end'' (Arr (Scalar CInt) 0),
     Field '''' (Union False [Field ''skc_rxhash'' typedef_u32, Field ''skc_window_clamp'' typedef_u32, Field ''skc_tw_snd_nxt'' typedef_u32])]"

definition struct_sk_buff_list :: ctype where
  "struct_sk_buff_list = Struct False [
     Field ''next'' (Ptr ''struct sk_buff''), Field ''prev'' (Ptr ''struct sk_buff'')]"

definition struct_sk_buff_head :: ctype where
  "struct_sk_buff_head = Struct False [
     Field '''' (Union False [Field '''' (Struct False [Field ''next'' (Ptr ''struct sk_buff''), Field ''prev'' (Ptr ''struct sk_buff'')]), Field ''list'' struct_sk_buff_list]),
     Field ''qlen'' typedef___u32, Field ''lock'' typedef_spinlock_t]"

definition struct_wait_queue_head :: ctype where
  "struct_wait_queue_head = Struct False [
     Field ''lock'' typedef_spinlock_t, Field ''head'' struct_list_head]"

definition typedef_wait_queue_head_t :: ctype where
  "typedef_wait_queue_head_t = struct_wait_queue_head"

definition typedef_socket_lock_t :: ctype where
  "typedef_socket_lock_t = Struct False [
     Field ''slock'' typedef_spinlock_t, Field ''owned'' (Scalar CInt),
     Field ''wq'' typedef_wait_queue_head_t]"

definition struct_rb_root :: ctype where
  "struct_rb_root = Struct False [
     Field ''rb_node'' (Ptr ''struct rb_node'')]"

definition struct_page_frag :: ctype where
  "struct_page_frag = Struct False [
     Field ''page'' (Ptr ''struct page''), Field ''offset'' typedef___u32,
     Field ''size'' typedef___u32]"

definition struct_timer_list :: ctype where
  "struct_timer_list = Struct False [
     Field ''entry'' struct_hlist_node, Field ''expires'' (Scalar CULong),
     Field ''function'' (Ptr ''fn''), Field ''flags'' typedef_u32]"

definition typedef_netdev_features_t :: ctype where
  "typedef_netdev_features_t = typedef_u64"

definition typedef_gfp_t :: ctype where
  "typedef_gfp_t = Scalar CUInt"

definition struct_qrwlock :: ctype where
  "struct_qrwlock = Struct False [
     Field '''' (Union False [Field ''cnts'' typedef_atomic_t, Field '''' (Struct False [Field ''wlocked'' typedef_u8, Field ''__lstate'' (Arr typedef_u8 3)])]),
     Field ''wait_lock'' typedef_arch_spinlock_t]"

definition typedef_arch_rwlock_t :: ctype where
  "typedef_arch_rwlock_t = struct_qrwlock"

definition typedef_rwlock_t :: ctype where
  "typedef_rwlock_t = Struct False [
     Field ''raw_lock'' typedef_arch_rwlock_t]"

definition typedef___kernel_uid32_t :: ctype where
  "typedef___kernel_uid32_t = Scalar CUInt"

definition typedef_uid_t :: ctype where
  "typedef_uid_t = typedef___kernel_uid32_t"

definition typedef_kuid_t :: ctype where
  "typedef_kuid_t = Struct False [
     Field ''val'' typedef_uid_t]"

definition struct_sock_cgroup_data :: ctype where
  "struct_sock_cgroup_data = Struct False [
     Field ''cgroup'' (Ptr ''struct cgroup''), Field ''classid'' typedef_u32,
     Field ''prioidx'' typedef_u16]"

definition typedef_netns_tracker :: ctype where
  "typedef_netns_tracker = Struct False []"

definition kernel_base_structs :: "ctype list" where
  "kernel_base_structs = [
     struct_xdp_buff, struct_xdp_mem_info, struct_xdp_frame, struct_xdp_rxq_info,
     struct_xdp_txq_info, struct_skb_shared_hwtstamps, struct_xsk_tx_metadata_compl,
     typedef_atomic_t, struct_skb_frag, struct_skb_shared_info, typedef_atomic64_t,
     struct_qspinlock, struct_raw_spinlock, struct_optimistic_spin_queue, struct_list_head,
     struct_mutex, struct_work_struct, struct_callback_head, struct_spinlock,
     struct_bpf_map, struct_bpf_map_ops, struct_sock_filter, struct_bpf_insn,
     struct_bpf_prog, struct_rb_node, struct_latch_tree_node, struct_bpf_ksym,
     struct_bpf_prog_aux, struct_bpf_func_proto, struct_bpf_mem_alloc,
     struct_pcpu_freelist_head, struct_pcpu_freelist, struct_bpf_lru_list,
     struct_bpf_common_lru, struct_bpf_lru, struct_percpu_counter, struct_lock_class_key,
     struct_bpf_htab, struct_bpf_array, struct_bpf_prog_info, struct_bpf_map_info,
     struct_bpf_link_info, struct_bpf_link, struct_bpf_xdp_link, struct_tcx_link,
     struct_bpf_mprog_fp, struct_bpf_mprog_entry, struct_bpf_mprog_cp,
     struct_bpf_mprog_bundle, struct_tcx_entry, struct_bpf_event_entry, struct_in6_addr,
     struct_ipv6hdr, struct_llist_node, struct_refcount_struct, struct_sk_buff,
     struct_bpf_sock, struct_hlist_node, typedef_possible_net_t, struct_hlist_nulls_node,
     struct_sock_common, struct_sk_buff_list, struct_sk_buff_head, struct_wait_queue_head,
     typedef_socket_lock_t, struct_rb_root, struct_page_frag, struct_timer_list,
     struct_qrwlock, typedef_rwlock_t, typedef_kuid_t, struct_sock_cgroup_data,
     typedef_netns_tracker]"

end
