(* ===== verification/Vmlinux_Kernel_Bpf.thy ===== *)
theory Vmlinux_Kernel_Bpf
  imports Vmlinux_Kernel_Base
begin

text \<open>
  The kernel structures of BPF maps and programs and of the contexts programs of each type get. Each is translated member by member from
  \<^verbatim>\<open>nhp/ebpf/xdp/vmlinux.h\<close>; \<open>kernel_bpf_structs\<close> collects the structures and unions.
\<close>

definition struct_sock :: ctype where
  "struct_sock = Struct False [
     Field ''__sk_common'' struct_sock_common,
     Field ''__cacheline_group_begin__sock_write_rx'' (Arr typedef___u8 0),
     Field ''sk_drops'' typedef_atomic_t, Field ''sk_peek_off'' typedef___s32,
     Field ''sk_error_queue'' struct_sk_buff_head,
     Field ''sk_receive_queue'' struct_sk_buff_head,
     Field ''sk_backlog'' (Struct False [Field ''rmem_alloc'' typedef_atomic_t, Field ''len'' (Scalar CInt), Field ''head'' (Ptr ''struct sk_buff''), Field ''tail'' (Ptr ''struct sk_buff'')]),
     Field ''__cacheline_group_end__sock_write_rx'' (Arr typedef___u8 0),
     Field ''__cacheline_group_begin__sock_read_rx'' (Arr typedef___u8 0),
     Field ''sk_rx_dst'' (Ptr ''struct dst_entry''),
     Field ''sk_rx_dst_ifindex'' (Scalar CInt), Field ''sk_rx_dst_cookie'' typedef_u32,
     Field ''sk_ll_usec'' (Scalar CUInt), Field ''sk_napi_id'' (Scalar CUInt),
     Field ''sk_busy_poll_budget'' typedef_u16, Field ''sk_prefer_busy_poll'' typedef_u8,
     Field ''sk_userlocks'' typedef_u8, Field ''sk_rcvbuf'' (Scalar CInt),
     Field ''sk_filter'' (Ptr ''struct sk_filter''),
     Field '''' (Union False [Field ''sk_wq'' (Ptr ''struct socket_wq''), Field ''sk_wq_raw'' (Ptr ''struct socket_wq'')]),
     Field ''sk_data_ready'' (Ptr ''fn''), Field ''sk_rcvtimeo'' (Scalar CLong),
     Field ''sk_rcvlowat'' (Scalar CInt),
     Field ''__cacheline_group_end__sock_read_rx'' (Arr typedef___u8 0),
     Field ''__cacheline_group_begin__sock_read_rxtx'' (Arr typedef___u8 0),
     Field ''sk_err'' (Scalar CInt), Field ''sk_socket'' (Ptr ''struct socket''),
     Field ''sk_memcg'' (Ptr ''struct mem_cgroup''),
     Field ''sk_policy'' (Arr (Ptr ''struct xfrm_policy'') 2),
     Field ''__cacheline_group_end__sock_read_rxtx'' (Arr typedef___u8 0),
     Field ''__cacheline_group_begin__sock_write_rxtx'' (Arr typedef___u8 0),
     Field ''sk_lock'' typedef_socket_lock_t, Field ''sk_reserved_mem'' typedef_u32,
     Field ''sk_forward_alloc'' (Scalar CInt), Field ''sk_tsflags'' typedef_u32,
     Field ''__cacheline_group_end__sock_write_rxtx'' (Arr typedef___u8 0),
     Field ''__cacheline_group_begin__sock_write_tx'' (Arr typedef___u8 0),
     Field ''sk_write_pending'' (Scalar CInt), Field ''sk_omem_alloc'' typedef_atomic_t,
     Field ''sk_sndbuf'' (Scalar CInt), Field ''sk_wmem_queued'' (Scalar CInt),
     Field ''sk_wmem_alloc'' typedef_refcount_t, Field ''sk_tsq_flags'' (Scalar CULong),
     Field '''' (Union False [Field ''sk_send_head'' (Ptr ''struct sk_buff''), Field ''tcp_rtx_queue'' struct_rb_root]),
     Field ''sk_write_queue'' struct_sk_buff_head,
     Field ''sk_dst_pending_confirm'' typedef_u32, Field ''sk_pacing_status'' typedef_u32,
     Field ''sk_frag'' struct_page_frag, Field ''sk_timer'' struct_timer_list,
     Field ''sk_pacing_rate'' (Scalar CULong), Field ''sk_zckey'' typedef_atomic_t,
     Field ''sk_tskey'' typedef_atomic_t,
     Field ''__cacheline_group_end__sock_write_tx'' (Arr typedef___u8 0),
     Field ''__cacheline_group_begin__sock_read_tx'' (Arr typedef___u8 0),
     Field ''sk_max_pacing_rate'' (Scalar CULong), Field ''sk_sndtimeo'' (Scalar CLong),
     Field ''sk_priority'' typedef_u32, Field ''sk_mark'' typedef_u32,
     Field ''sk_dst_cache'' (Ptr ''struct dst_entry''),
     Field ''sk_route_caps'' typedef_netdev_features_t,
     Field ''sk_validate_xmit_skb'' (Ptr ''fn''), Field ''sk_gso_type'' typedef_u16,
     Field ''sk_gso_max_segs'' typedef_u16, Field ''sk_gso_max_size'' (Scalar CUInt),
     Field ''sk_allocation'' typedef_gfp_t, Field ''sk_txhash'' typedef_u32,
     Field ''sk_pacing_shift'' typedef_u8, Field ''sk_use_task_frag'' typedef_bool,
     Field ''__cacheline_group_end__sock_read_tx'' (Arr typedef___u8 0),
     Bits ''sk_gso_disabled'' typedef_u8 1, Bits ''sk_kern_sock'' typedef_u8 1,
     Bits ''sk_no_check_tx'' typedef_u8 1, Bits ''sk_no_check_rx'' typedef_u8 1,
     Field ''sk_shutdown'' typedef_u8, Field ''sk_type'' typedef_u16,
     Field ''sk_protocol'' typedef_u16, Field ''sk_lingertime'' (Scalar CULong),
     Field ''sk_prot_creator'' (Ptr ''struct proto''),
     Field ''sk_callback_lock'' typedef_rwlock_t, Field ''sk_err_soft'' (Scalar CInt),
     Field ''sk_ack_backlog'' typedef_u32, Field ''sk_max_ack_backlog'' typedef_u32,
     Field ''sk_uid'' typedef_kuid_t, Field ''sk_peer_lock'' typedef_spinlock_t,
     Field ''sk_bind_phc'' (Scalar CInt), Field ''sk_peer_pid'' (Ptr ''struct pid''),
     Field ''sk_peer_cred'' (Ptr ''struct cred''), Field ''sk_stamp'' typedef_ktime_t,
     Field ''sk_disconnects'' (Scalar CInt), Field ''sk_txrehash'' typedef_u8,
     Field ''sk_clockid'' typedef_u8, Bits ''sk_txtime_deadline_mode'' typedef_u8 1,
     Bits ''sk_txtime_report_errors'' typedef_u8 1, Bits ''sk_txtime_unused'' typedef_u8 6,
     Field ''sk_user_data'' (Ptr ''void''), Field ''sk_security'' (Ptr ''void''),
     Field ''sk_cgrp_data'' struct_sock_cgroup_data,
     Field ''sk_state_change'' (Ptr ''fn''), Field ''sk_write_space'' (Ptr ''fn''),
     Field ''sk_error_report'' (Ptr ''fn''), Field ''sk_backlog_rcv'' (Ptr ''fn''),
     Field ''sk_destruct'' (Ptr ''fn''),
     Field ''sk_reuseport_cb'' (Ptr ''struct sock_reuseport''),
     Field ''sk_bpf_storage'' (Ptr ''struct bpf_local_storage''),
     Field ''sk_rcu'' struct_callback_head, Field ''ns_tracker'' typedef_netns_tracker]"

definition struct_bpf_sock_addr :: ctype where
  "struct_bpf_sock_addr = Struct False [
     Field ''user_family'' typedef___u32, Field ''user_ip4'' typedef___u32,
     Field ''user_ip6'' (Arr typedef___u32 4), Field ''user_port'' typedef___u32,
     Field ''family'' typedef___u32, Field ''type'' typedef___u32,
     Field ''protocol'' typedef___u32, Field ''msg_src_ip4'' typedef___u32,
     Field ''msg_src_ip6'' (Arr typedef___u32 4),
     Field '''' (Union False [Field ''sk'' (Ptr ''struct bpf_sock'')])]"

definition struct_bpf_sock_addr_kern :: ctype where
  "struct_bpf_sock_addr_kern = Struct False [
     Field ''sk'' (Ptr ''struct sock''), Field ''uaddr'' (Ptr ''struct sockaddr''),
     Field ''tmp_reg'' typedef_u64, Field ''t_ctx'' (Ptr ''void''),
     Field ''uaddrlen'' typedef_u32]"

definition struct_bpf_sock_ops :: ctype where
  "struct_bpf_sock_ops = Struct False [
     Field ''op'' typedef___u32,
     Field '''' (Union False [Field ''args'' (Arr typedef___u32 4), Field ''reply'' typedef___u32, Field ''replylong'' (Arr typedef___u32 4)]),
     Field ''family'' typedef___u32, Field ''remote_ip4'' typedef___u32,
     Field ''local_ip4'' typedef___u32, Field ''remote_ip6'' (Arr typedef___u32 4),
     Field ''local_ip6'' (Arr typedef___u32 4), Field ''remote_port'' typedef___u32,
     Field ''local_port'' typedef___u32, Field ''is_fullsock'' typedef___u32,
     Field ''snd_cwnd'' typedef___u32, Field ''srtt_us'' typedef___u32,
     Field ''bpf_sock_ops_cb_flags'' typedef___u32, Field ''state'' typedef___u32,
     Field ''rtt_min'' typedef___u32, Field ''snd_ssthresh'' typedef___u32,
     Field ''rcv_nxt'' typedef___u32, Field ''snd_nxt'' typedef___u32,
     Field ''snd_una'' typedef___u32, Field ''mss_cache'' typedef___u32,
     Field ''ecn_flags'' typedef___u32, Field ''rate_delivered'' typedef___u32,
     Field ''rate_interval_us'' typedef___u32, Field ''packets_out'' typedef___u32,
     Field ''retrans_out'' typedef___u32, Field ''total_retrans'' typedef___u32,
     Field ''segs_in'' typedef___u32, Field ''data_segs_in'' typedef___u32,
     Field ''segs_out'' typedef___u32, Field ''data_segs_out'' typedef___u32,
     Field ''lost_out'' typedef___u32, Field ''sacked_out'' typedef___u32,
     Field ''sk_txhash'' typedef___u32, Field ''bytes_received'' typedef___u64,
     Field ''bytes_acked'' typedef___u64,
     Field '''' (Union False [Field ''sk'' (Ptr ''struct bpf_sock'')]),
     Field '''' (Union False [Field ''skb_data'' (Ptr ''void'')]),
     Field '''' (Union False [Field ''skb_data_end'' (Ptr ''void'')]),
     Field ''skb_len'' typedef___u32, Field ''skb_tcp_flags'' typedef___u32,
     Field ''skb_hwtstamp'' typedef___u64]"

definition struct_bpf_sock_ops_kern :: ctype where
  "struct_bpf_sock_ops_kern = Struct False [
     Field ''sk'' (Ptr ''struct sock''),
     Field '''' (Union False [Field ''args'' (Arr typedef_u32 4), Field ''reply'' typedef_u32, Field ''replylong'' (Arr typedef_u32 4)]),
     Field ''syn_skb'' (Ptr ''struct sk_buff''), Field ''skb'' (Ptr ''struct sk_buff''),
     Field ''skb_data_end'' (Ptr ''void''), Field ''op'' typedef_u8,
     Field ''is_fullsock'' typedef_u8, Field ''remaining_opt_len'' typedef_u8,
     Field ''temp'' typedef_u64]"

definition struct_sk_msg_md :: ctype where
  "struct_sk_msg_md = Struct False [
     Field '''' (Union False [Field ''data'' (Ptr ''void'')]),
     Field '''' (Union False [Field ''data_end'' (Ptr ''void'')]),
     Field ''family'' typedef___u32, Field ''remote_ip4'' typedef___u32,
     Field ''local_ip4'' typedef___u32, Field ''remote_ip6'' (Arr typedef___u32 4),
     Field ''local_ip6'' (Arr typedef___u32 4), Field ''remote_port'' typedef___u32,
     Field ''local_port'' typedef___u32, Field ''size'' typedef___u32,
     Field '''' (Union False [Field ''sk'' (Ptr ''struct bpf_sock'')])]"

definition typedef_dma_addr_t :: ctype where
  "typedef_dma_addr_t = typedef_u64"

definition struct_scatterlist :: ctype where
  "struct_scatterlist = Struct False [
     Field ''page_link'' (Scalar CULong), Field ''offset'' (Scalar CUInt),
     Field ''length'' (Scalar CUInt), Field ''dma_address'' typedef_dma_addr_t,
     Field ''dma_length'' (Scalar CUInt), Field ''dma_flags'' (Scalar CUInt)]"

definition struct_sk_msg_sg :: ctype where
  "struct_sk_msg_sg = Struct False [
     Field ''start'' typedef_u32, Field ''curr'' typedef_u32, Field ''end'' typedef_u32,
     Field ''size'' typedef_u32, Field ''copybreak'' typedef_u32,
     Field ''copy'' (Arr (Scalar CULong) 1), Field ''data'' (Arr struct_scatterlist 19)]"

definition struct_sk_msg :: ctype where
  "struct_sk_msg = Struct False [
     Field ''sg'' struct_sk_msg_sg, Field ''data'' (Ptr ''void''),
     Field ''data_end'' (Ptr ''void''), Field ''apply_bytes'' typedef_u32,
     Field ''cork_bytes'' typedef_u32, Field ''flags'' typedef_u32,
     Field ''skb'' (Ptr ''struct sk_buff''), Field ''sk_redir'' (Ptr ''struct sock''),
     Field ''sk'' (Ptr ''struct sock''), Field ''list'' struct_list_head]"

definition struct_bpf_flow_dissector :: ctype where
  "struct_bpf_flow_dissector = Struct False [
     Field ''flow_keys'' (Ptr ''struct bpf_flow_keys''),
     Field ''skb'' (Ptr ''struct sk_buff''), Field ''data'' (Ptr ''void''),
     Field ''data_end'' (Ptr ''void'')]"

definition struct_fred_cs :: ctype where
  "struct_fred_cs = Struct False [
     Bits ''cs'' typedef_u64 16, Bits ''sl'' typedef_u64 2, Bits ''wfe'' typedef_u64 1]"

definition struct_fred_ss :: ctype where
  "struct_fred_ss = Struct False [
     Bits ''ss'' typedef_u64 16, Bits ''sti'' typedef_u64 1,
     Bits ''swevent'' typedef_u64 1, Bits ''nmi'' typedef_u64 1,
     Bits '''' (Scalar CInt) 13, Bits ''vector'' typedef_u64 8,
     Bits '''' (Scalar CShort) 8, Bits ''type'' typedef_u64 4, Bits '''' (Scalar CChar) 4,
     Bits ''enclave'' typedef_u64 1, Bits ''lm'' typedef_u64 1,
     Bits ''nested'' typedef_u64 1, Bits '''' (Scalar CChar) 1,
     Bits ''insnlen'' typedef_u64 4]"

definition struct_pt_regs :: ctype where
  "struct_pt_regs = Struct False [
     Field ''r15'' (Scalar CULong), Field ''r14'' (Scalar CULong),
     Field ''r13'' (Scalar CULong), Field ''r12'' (Scalar CULong),
     Field ''bp'' (Scalar CULong), Field ''bx'' (Scalar CULong),
     Field ''r11'' (Scalar CULong), Field ''r10'' (Scalar CULong),
     Field ''r9'' (Scalar CULong), Field ''r8'' (Scalar CULong),
     Field ''ax'' (Scalar CULong), Field ''cx'' (Scalar CULong),
     Field ''dx'' (Scalar CULong), Field ''si'' (Scalar CULong),
     Field ''di'' (Scalar CULong), Field ''orig_ax'' (Scalar CULong),
     Field ''ip'' (Scalar CULong),
     Field '''' (Union False [Field ''cs'' typedef_u16, Field ''csx'' typedef_u64, Field ''fred_cs'' struct_fred_cs]),
     Field ''flags'' (Scalar CULong), Field ''sp'' (Scalar CULong),
     Field '''' (Union False [Field ''ss'' typedef_u16, Field ''ssx'' typedef_u64, Field ''fred_ss'' struct_fred_ss])]"

definition typedef_bpf_user_pt_regs_t :: ctype where
  "typedef_bpf_user_pt_regs_t = struct_pt_regs"

definition struct_bpf_perf_event_data :: ctype where
  "struct_bpf_perf_event_data = Struct False [
     Field ''regs'' typedef_bpf_user_pt_regs_t, Field ''sample_period'' typedef___u64,
     Field ''addr'' typedef___u64]"

definition struct_bpf_perf_event_data_kern :: ctype where
  "struct_bpf_perf_event_data_kern = Struct False [
     Field ''regs'' (Ptr ''bpf_user_pt_regs_t''),
     Field ''data'' (Ptr ''struct perf_sample_data''),
     Field ''event'' (Ptr ''struct perf_event'')]"

definition struct_bpf_raw_tracepoint_args :: ctype where
  "struct_bpf_raw_tracepoint_args = Struct False [
     Field ''args'' (Arr typedef___u64 0)]"

definition struct_bpf_cgroup_dev_ctx :: ctype where
  "struct_bpf_cgroup_dev_ctx = Struct False [
     Field ''access_type'' typedef___u32, Field ''major'' typedef___u32,
     Field ''minor'' typedef___u32]"

definition struct_bpf_sysctl :: ctype where
  "struct_bpf_sysctl = Struct False [
     Field ''write'' typedef___u32, Field ''file_pos'' typedef___u32]"

definition struct_bpf_sysctl_kern :: ctype where
  "struct_bpf_sysctl_kern = Struct False [
     Field ''head'' (Ptr ''struct ctl_table_header''),
     Field ''table'' (Ptr ''struct ctl_table''), Field ''cur_val'' (Ptr ''void''),
     Field ''cur_len'' typedef_size_t, Field ''new_val'' (Ptr ''void''),
     Field ''new_len'' typedef_size_t, Field ''new_updated'' (Scalar CInt),
     Field ''write'' (Scalar CInt), Field ''ppos'' (Ptr ''loff_t''),
     Field ''tmp_reg'' typedef_u64]"

definition struct_bpf_sockopt :: ctype where
  "struct_bpf_sockopt = Struct False [
     Field '''' (Union False [Field ''sk'' (Ptr ''struct bpf_sock'')]),
     Field '''' (Union False [Field ''optval'' (Ptr ''void'')]),
     Field '''' (Union False [Field ''optval_end'' (Ptr ''void'')]),
     Field ''level'' typedef___s32, Field ''optname'' typedef___s32,
     Field ''optlen'' typedef___s32, Field ''retval'' typedef___s32]"

definition typedef_s32 :: ctype where
  "typedef_s32 = typedef___s32"

definition struct_bpf_sockopt_kern :: ctype where
  "struct_bpf_sockopt_kern = Struct False [
     Field ''sk'' (Ptr ''struct sock''), Field ''optval'' (Ptr ''u8''),
     Field ''optval_end'' (Ptr ''u8''), Field ''level'' typedef_s32,
     Field ''optname'' typedef_s32, Field ''optlen'' typedef_s32,
     Field ''current_task'' (Ptr ''struct task_struct''), Field ''tmp_reg'' typedef_u64]"

definition struct_sk_reuseport_md :: ctype where
  "struct_sk_reuseport_md = Struct False [
     Field '''' (Union False [Field ''data'' (Ptr ''void'')]),
     Field '''' (Union False [Field ''data_end'' (Ptr ''void'')]),
     Field ''len'' typedef___u32, Field ''eth_protocol'' typedef___u32,
     Field ''ip_protocol'' typedef___u32, Field ''bind_inany'' typedef___u32,
     Field ''hash'' typedef___u32,
     Field '''' (Union False [Field ''sk'' (Ptr ''struct bpf_sock'')]),
     Field '''' (Union False [Field ''migrating_sk'' (Ptr ''struct bpf_sock'')])]"

definition struct_sk_reuseport_kern :: ctype where
  "struct_sk_reuseport_kern = Struct False [
     Field ''skb'' (Ptr ''struct sk_buff''), Field ''sk'' (Ptr ''struct sock''),
     Field ''selected_sk'' (Ptr ''struct sock''),
     Field ''migrating_sk'' (Ptr ''struct sock''), Field ''data_end'' (Ptr ''void''),
     Field ''hash'' typedef_u32, Field ''reuseport_id'' typedef_u32,
     Field ''bind_inany'' typedef_bool]"

definition struct_bpf_sk_lookup :: ctype where
  "struct_bpf_sk_lookup = Struct False [
     Field '''' (Union False [Field '''' (Union False [Field ''sk'' (Ptr ''struct bpf_sock'')]), Field ''cookie'' typedef___u64]),
     Field ''family'' typedef___u32, Field ''protocol'' typedef___u32,
     Field ''remote_ip4'' typedef___u32, Field ''remote_ip6'' (Arr typedef___u32 4),
     Field ''remote_port'' typedef___be16, Field ''local_ip4'' typedef___u32,
     Field ''local_ip6'' (Arr typedef___u32 4), Field ''local_port'' typedef___u32,
     Field ''ingress_ifindex'' typedef___u32]"

definition struct_bpf_sk_lookup_kern :: ctype where
  "struct_bpf_sk_lookup_kern = Struct False [
     Field ''family'' typedef_u16, Field ''protocol'' typedef_u16,
     Field ''sport'' typedef___be16, Field ''dport'' typedef_u16,
     Field ''v4'' (Struct False [Field ''saddr'' typedef___be32, Field ''daddr'' typedef___be32]),
     Field ''v6'' (Struct False [Field ''saddr'' (Ptr ''struct in6_addr''), Field ''daddr'' (Ptr ''struct in6_addr'')]),
     Field ''selected_sk'' (Ptr ''struct sock''), Field ''ingress_ifindex'' typedef_u32,
     Field ''no_reuseport'' typedef_bool]"

definition struct_bpf_nf_ctx :: ctype where
  "struct_bpf_nf_ctx = Struct False [
     Field ''state'' (Ptr ''struct nf_hook_state''), Field ''skb'' (Ptr ''struct sk_buff'')]"

definition struct_bpf_ctx_convert :: ctype where
  "struct_bpf_ctx_convert = Struct False [
     Field ''BPF_PROG_TYPE_SOCKET_FILTER_prog'' struct___sk_buff,
     Field ''BPF_PROG_TYPE_SOCKET_FILTER_kern'' struct_sk_buff,
     Field ''BPF_PROG_TYPE_SCHED_CLS_prog'' struct___sk_buff,
     Field ''BPF_PROG_TYPE_SCHED_CLS_kern'' struct_sk_buff,
     Field ''BPF_PROG_TYPE_SCHED_ACT_prog'' struct___sk_buff,
     Field ''BPF_PROG_TYPE_SCHED_ACT_kern'' struct_sk_buff,
     Field ''BPF_PROG_TYPE_XDP_prog'' struct_xdp_md,
     Field ''BPF_PROG_TYPE_XDP_kern'' struct_xdp_buff,
     Field ''BPF_PROG_TYPE_CGROUP_SKB_prog'' struct___sk_buff,
     Field ''BPF_PROG_TYPE_CGROUP_SKB_kern'' struct_sk_buff,
     Field ''BPF_PROG_TYPE_CGROUP_SOCK_prog'' struct_bpf_sock,
     Field ''BPF_PROG_TYPE_CGROUP_SOCK_kern'' struct_sock,
     Field ''BPF_PROG_TYPE_CGROUP_SOCK_ADDR_prog'' struct_bpf_sock_addr,
     Field ''BPF_PROG_TYPE_CGROUP_SOCK_ADDR_kern'' struct_bpf_sock_addr_kern,
     Field ''BPF_PROG_TYPE_LWT_IN_prog'' struct___sk_buff,
     Field ''BPF_PROG_TYPE_LWT_IN_kern'' struct_sk_buff,
     Field ''BPF_PROG_TYPE_LWT_OUT_prog'' struct___sk_buff,
     Field ''BPF_PROG_TYPE_LWT_OUT_kern'' struct_sk_buff,
     Field ''BPF_PROG_TYPE_LWT_XMIT_prog'' struct___sk_buff,
     Field ''BPF_PROG_TYPE_LWT_XMIT_kern'' struct_sk_buff,
     Field ''BPF_PROG_TYPE_LWT_SEG6LOCAL_prog'' struct___sk_buff,
     Field ''BPF_PROG_TYPE_LWT_SEG6LOCAL_kern'' struct_sk_buff,
     Field ''BPF_PROG_TYPE_SOCK_OPS_prog'' struct_bpf_sock_ops,
     Field ''BPF_PROG_TYPE_SOCK_OPS_kern'' struct_bpf_sock_ops_kern,
     Field ''BPF_PROG_TYPE_SK_SKB_prog'' struct___sk_buff,
     Field ''BPF_PROG_TYPE_SK_SKB_kern'' struct_sk_buff,
     Field ''BPF_PROG_TYPE_SK_MSG_prog'' struct_sk_msg_md,
     Field ''BPF_PROG_TYPE_SK_MSG_kern'' struct_sk_msg,
     Field ''BPF_PROG_TYPE_FLOW_DISSECTOR_prog'' struct___sk_buff,
     Field ''BPF_PROG_TYPE_FLOW_DISSECTOR_kern'' struct_bpf_flow_dissector,
     Field ''BPF_PROG_TYPE_KPROBE_prog'' typedef_bpf_user_pt_regs_t,
     Field ''BPF_PROG_TYPE_KPROBE_kern'' struct_pt_regs,
     Field ''BPF_PROG_TYPE_TRACEPOINT_prog'' typedef___u64,
     Field ''BPF_PROG_TYPE_TRACEPOINT_kern'' typedef_u64,
     Field ''BPF_PROG_TYPE_PERF_EVENT_prog'' struct_bpf_perf_event_data,
     Field ''BPF_PROG_TYPE_PERF_EVENT_kern'' struct_bpf_perf_event_data_kern,
     Field ''BPF_PROG_TYPE_RAW_TRACEPOINT_prog'' struct_bpf_raw_tracepoint_args,
     Field ''BPF_PROG_TYPE_RAW_TRACEPOINT_kern'' typedef_u64,
     Field ''BPF_PROG_TYPE_RAW_TRACEPOINT_WRITABLE_prog'' struct_bpf_raw_tracepoint_args,
     Field ''BPF_PROG_TYPE_RAW_TRACEPOINT_WRITABLE_kern'' typedef_u64,
     Field ''BPF_PROG_TYPE_TRACING_prog'' (Ptr ''void''),
     Field ''BPF_PROG_TYPE_TRACING_kern'' (Ptr ''void''),
     Field ''BPF_PROG_TYPE_CGROUP_DEVICE_prog'' struct_bpf_cgroup_dev_ctx,
     Field ''BPF_PROG_TYPE_CGROUP_DEVICE_kern'' struct_bpf_cgroup_dev_ctx,
     Field ''BPF_PROG_TYPE_CGROUP_SYSCTL_prog'' struct_bpf_sysctl,
     Field ''BPF_PROG_TYPE_CGROUP_SYSCTL_kern'' struct_bpf_sysctl_kern,
     Field ''BPF_PROG_TYPE_CGROUP_SOCKOPT_prog'' struct_bpf_sockopt,
     Field ''BPF_PROG_TYPE_CGROUP_SOCKOPT_kern'' struct_bpf_sockopt_kern,
     Field ''BPF_PROG_TYPE_SK_REUSEPORT_prog'' struct_sk_reuseport_md,
     Field ''BPF_PROG_TYPE_SK_REUSEPORT_kern'' struct_sk_reuseport_kern,
     Field ''BPF_PROG_TYPE_SK_LOOKUP_prog'' struct_bpf_sk_lookup,
     Field ''BPF_PROG_TYPE_SK_LOOKUP_kern'' struct_bpf_sk_lookup_kern,
     Field ''BPF_PROG_TYPE_STRUCT_OPS_prog'' (Ptr ''void''),
     Field ''BPF_PROG_TYPE_STRUCT_OPS_kern'' (Ptr ''void''),
     Field ''BPF_PROG_TYPE_EXT_prog'' (Ptr ''void''),
     Field ''BPF_PROG_TYPE_EXT_kern'' (Ptr ''void''),
     Field ''BPF_PROG_TYPE_LSM_prog'' (Ptr ''void''),
     Field ''BPF_PROG_TYPE_LSM_kern'' (Ptr ''void''),
     Field ''BPF_PROG_TYPE_SYSCALL_prog'' (Ptr ''void''),
     Field ''BPF_PROG_TYPE_SYSCALL_kern'' (Ptr ''void''),
     Field ''BPF_PROG_TYPE_NETFILTER_prog'' struct_bpf_nf_ctx,
     Field ''BPF_PROG_TYPE_NETFILTER_kern'' struct_bpf_nf_ctx]"

definition typedef_s16 :: ctype where
  "typedef_s16 = typedef___s16"

definition struct_netdev_tc_txq :: ctype where
  "struct_netdev_tc_txq = Struct False [
     Field ''count'' typedef_u16, Field ''offset'' typedef_u16]"

definition typedef_xdp_features_t :: ctype where
  "typedef_xdp_features_t = typedef_u32"

definition struct_net_device_stats :: ctype where
  "struct_net_device_stats = Struct False [
     Field '''' (Union False [Field ''rx_packets'' (Scalar CULong), Field ''__rx_packets'' typedef_atomic_long_t]),
     Field '''' (Union False [Field ''tx_packets'' (Scalar CULong), Field ''__tx_packets'' typedef_atomic_long_t]),
     Field '''' (Union False [Field ''rx_bytes'' (Scalar CULong), Field ''__rx_bytes'' typedef_atomic_long_t]),
     Field '''' (Union False [Field ''tx_bytes'' (Scalar CULong), Field ''__tx_bytes'' typedef_atomic_long_t]),
     Field '''' (Union False [Field ''rx_errors'' (Scalar CULong), Field ''__rx_errors'' typedef_atomic_long_t]),
     Field '''' (Union False [Field ''tx_errors'' (Scalar CULong), Field ''__tx_errors'' typedef_atomic_long_t]),
     Field '''' (Union False [Field ''rx_dropped'' (Scalar CULong), Field ''__rx_dropped'' typedef_atomic_long_t]),
     Field '''' (Union False [Field ''tx_dropped'' (Scalar CULong), Field ''__tx_dropped'' typedef_atomic_long_t]),
     Field '''' (Union False [Field ''multicast'' (Scalar CULong), Field ''__multicast'' typedef_atomic_long_t]),
     Field '''' (Union False [Field ''collisions'' (Scalar CULong), Field ''__collisions'' typedef_atomic_long_t]),
     Field '''' (Union False [Field ''rx_length_errors'' (Scalar CULong), Field ''__rx_length_errors'' typedef_atomic_long_t]),
     Field '''' (Union False [Field ''rx_over_errors'' (Scalar CULong), Field ''__rx_over_errors'' typedef_atomic_long_t]),
     Field '''' (Union False [Field ''rx_crc_errors'' (Scalar CULong), Field ''__rx_crc_errors'' typedef_atomic_long_t]),
     Field '''' (Union False [Field ''rx_frame_errors'' (Scalar CULong), Field ''__rx_frame_errors'' typedef_atomic_long_t]),
     Field '''' (Union False [Field ''rx_fifo_errors'' (Scalar CULong), Field ''__rx_fifo_errors'' typedef_atomic_long_t]),
     Field '''' (Union False [Field ''rx_missed_errors'' (Scalar CULong), Field ''__rx_missed_errors'' typedef_atomic_long_t]),
     Field '''' (Union False [Field ''tx_aborted_errors'' (Scalar CULong), Field ''__tx_aborted_errors'' typedef_atomic_long_t]),
     Field '''' (Union False [Field ''tx_carrier_errors'' (Scalar CULong), Field ''__tx_carrier_errors'' typedef_atomic_long_t]),
     Field '''' (Union False [Field ''tx_fifo_errors'' (Scalar CULong), Field ''__tx_fifo_errors'' typedef_atomic_long_t]),
     Field '''' (Union False [Field ''tx_heartbeat_errors'' (Scalar CULong), Field ''__tx_heartbeat_errors'' typedef_atomic_long_t]),
     Field '''' (Union False [Field ''tx_window_errors'' (Scalar CULong), Field ''__tx_window_errors'' typedef_atomic_long_t]),
     Field '''' (Union False [Field ''rx_compressed'' (Scalar CULong), Field ''__rx_compressed'' typedef_atomic_long_t]),
     Field '''' (Union False [Field ''tx_compressed'' (Scalar CULong), Field ''__tx_compressed'' typedef_atomic_long_t])]"

definition struct_netdev_hw_addr_list :: ctype where
  "struct_netdev_hw_addr_list = Struct False [
     Field ''list'' struct_list_head, Field ''count'' (Scalar CInt),
     Field ''tree'' struct_rb_root]"

definition struct_hlist_head :: ctype where
  "struct_hlist_head = Struct False [
     Field ''first'' (Ptr ''struct hlist_node'')]"

definition struct_ref_tracker_dir :: ctype where
  "struct_ref_tracker_dir = Struct False []"

definition struct_kref :: ctype where
  "struct_kref = Struct False [
     Field ''refcount'' typedef_refcount_t]"

definition struct_kobject :: ctype where
  "struct_kobject = Struct False [
     Field ''name'' (Ptr ''char''), Field ''entry'' struct_list_head,
     Field ''parent'' (Ptr ''struct kobject''), Field ''kset'' (Ptr ''struct kset''),
     Field ''ktype'' (Ptr ''struct kobj_type''), Field ''sd'' (Ptr ''struct kernfs_node''),
     Field ''kref'' struct_kref, Bits ''state_initialized'' (Scalar CUInt) 1,
     Bits ''state_in_sysfs'' (Scalar CUInt) 1,
     Bits ''state_add_uevent_sent'' (Scalar CUInt) 1,
     Bits ''state_remove_uevent_sent'' (Scalar CUInt) 1,
     Bits ''uevent_suppress'' (Scalar CUInt) 1]"

definition struct_dev_links_info :: ctype where
  "struct_dev_links_info = Struct False [
     Field ''suppliers'' struct_list_head, Field ''consumers'' struct_list_head,
     Field ''defer_sync'' struct_list_head, Field ''status'' (EnumT ''dl_dev_state'')]"

definition struct_pm_message :: ctype where
  "struct_pm_message = Struct False [
     Field ''event'' (Scalar CInt)]"

definition typedef_pm_message_t :: ctype where
  "typedef_pm_message_t = struct_pm_message"

definition struct_swait_queue_head :: ctype where
  "struct_swait_queue_head = Struct False [
     Field ''lock'' typedef_raw_spinlock_t, Field ''task_list'' struct_list_head]"

definition struct_completion :: ctype where
  "struct_completion = Struct False [
     Field ''done'' (Scalar CUInt), Field ''wait'' struct_swait_queue_head]"

definition struct_timerqueue_node :: ctype where
  "struct_timerqueue_node = Struct False [
     Field ''node'' struct_rb_node, Field ''expires'' typedef_ktime_t]"

definition struct_hrtimer :: ctype where
  "struct_hrtimer = Struct False [
     Field ''node'' struct_timerqueue_node, Field ''_softexpires'' typedef_ktime_t,
     Field ''function'' (Ptr ''fn''), Field ''base'' (Ptr ''struct hrtimer_clock_base''),
     Field ''state'' typedef_u8, Field ''is_rel'' typedef_u8, Field ''is_soft'' typedef_u8,
     Field ''is_hard'' typedef_u8]"

definition struct_dev_pm_info :: ctype where
  "struct_dev_pm_info = Struct False [
     Field ''power_state'' typedef_pm_message_t, Bits ''can_wakeup'' typedef_bool 1,
     Bits ''async_suspend'' typedef_bool 1, Bits ''in_dpm_list'' typedef_bool 1,
     Bits ''is_prepared'' typedef_bool 1, Bits ''is_suspended'' typedef_bool 1,
     Bits ''is_noirq_suspended'' typedef_bool 1, Bits ''is_late_suspended'' typedef_bool 1,
     Bits ''no_pm'' typedef_bool 1, Bits ''early_init'' typedef_bool 1,
     Bits ''direct_complete'' typedef_bool 1, Field ''driver_flags'' typedef_u32,
     Field ''lock'' typedef_spinlock_t, Field ''entry'' struct_list_head,
     Field ''completion'' struct_completion,
     Field ''wakeup'' (Ptr ''struct wakeup_source''), Bits ''wakeup_path'' typedef_bool 1,
     Bits ''syscore'' typedef_bool 1, Bits ''no_pm_callbacks'' typedef_bool 1,
     Bits ''async_in_progress'' typedef_bool 1, Bits ''must_resume'' typedef_bool 1,
     Bits ''may_skip_resume'' typedef_bool 1, Field ''suspend_timer'' struct_hrtimer,
     Field ''timer_expires'' typedef_u64, Field ''work'' struct_work_struct,
     Field ''wait_queue'' typedef_wait_queue_head_t,
     Field ''wakeirq'' (Ptr ''struct wake_irq''), Field ''usage_count'' typedef_atomic_t,
     Field ''child_count'' typedef_atomic_t, Bits ''disable_depth'' (Scalar CUInt) 3,
     Bits ''idle_notification'' typedef_bool 1, Bits ''request_pending'' typedef_bool 1,
     Bits ''deferred_resume'' typedef_bool 1, Bits ''needs_force_resume'' typedef_bool 1,
     Bits ''runtime_auto'' typedef_bool 1, Bits ''ignore_children'' typedef_bool 1,
     Bits ''no_callbacks'' typedef_bool 1, Bits ''irq_safe'' typedef_bool 1,
     Bits ''use_autosuspend'' typedef_bool 1, Bits ''timer_autosuspends'' typedef_bool 1,
     Bits ''memalloc_noio'' typedef_bool 1, Field ''links_count'' (Scalar CUInt),
     Field ''request'' (EnumT ''rpm_request''),
     Field ''runtime_status'' (EnumT ''rpm_status''),
     Field ''last_status'' (EnumT ''rpm_status''), Field ''runtime_error'' (Scalar CInt),
     Field ''autosuspend_delay'' (Scalar CInt), Field ''last_busy'' typedef_u64,
     Field ''active_time'' typedef_u64, Field ''suspended_time'' typedef_u64,
     Field ''accounting_timestamp'' typedef_u64,
     Field ''subsys_data'' (Ptr ''struct pm_subsys_data''),
     Field ''set_latency_tolerance'' (Ptr ''fn''),
     Field ''qos'' (Ptr ''struct dev_pm_qos'')]"

definition struct_dev_msi_info :: ctype where
  "struct_dev_msi_info = Struct False [
     Field ''domain'' (Ptr ''struct irq_domain''),
     Field ''data'' (Ptr ''struct msi_device_data'')]"

definition struct_dev_archdata :: ctype where
  "struct_dev_archdata = Struct False []"

definition typedef___kernel_dev_t :: ctype where
  "typedef___kernel_dev_t = typedef_u32"

definition typedef_dev_t :: ctype where
  "typedef_dev_t = typedef___kernel_dev_t"

definition struct_device :: ctype where
  "struct_device = Struct False [
     Field ''kobj'' struct_kobject, Field ''parent'' (Ptr ''struct device''),
     Field ''p'' (Ptr ''struct device_private''), Field ''init_name'' (Ptr ''char''),
     Field ''type'' (Ptr ''struct device_type''), Field ''bus'' (Ptr ''struct bus_type''),
     Field ''driver'' (Ptr ''struct device_driver''),
     Field ''platform_data'' (Ptr ''void''), Field ''driver_data'' (Ptr ''void''),
     Field ''mutex'' struct_mutex, Field ''links'' struct_dev_links_info,
     Field ''power'' struct_dev_pm_info,
     Field ''pm_domain'' (Ptr ''struct dev_pm_domain''),
     Field ''em_pd'' (Ptr ''struct em_perf_domain''),
     Field ''pins'' (Ptr ''struct dev_pin_info''), Field ''msi'' struct_dev_msi_info,
     Field ''dma_ops'' (Ptr ''struct dma_map_ops''), Field ''dma_mask'' (Ptr ''u64''),
     Field ''coherent_dma_mask'' typedef_u64, Field ''bus_dma_limit'' typedef_u64,
     Field ''dma_range_map'' (Ptr ''struct bus_dma_region''),
     Field ''dma_parms'' (Ptr ''struct device_dma_parameters''),
     Field ''dma_pools'' struct_list_head,
     Field ''dma_io_tlb_mem'' (Ptr ''struct io_tlb_mem''),
     Field ''dma_io_tlb_pools'' struct_list_head,
     Field ''dma_io_tlb_lock'' typedef_spinlock_t, Field ''dma_uses_io_tlb'' typedef_bool,
     Field ''archdata'' struct_dev_archdata,
     Field ''of_node'' (Ptr ''struct device_node''),
     Field ''fwnode'' (Ptr ''struct fwnode_handle''), Field ''numa_node'' (Scalar CInt),
     Field ''devt'' typedef_dev_t, Field ''id'' typedef_u32,
     Field ''devres_lock'' typedef_spinlock_t, Field ''devres_head'' struct_list_head,
     Field ''class'' (Ptr ''struct class''),
     Field ''groups'' (Ptr ''struct attribute_group''), Field ''release'' (Ptr ''fn''),
     Field ''iommu_group'' (Ptr ''struct iommu_group''),
     Field ''iommu'' (Ptr ''struct dev_iommu''),
     Field ''physical_location'' (Ptr ''struct device_physical_location''),
     Field ''removable'' (EnumT ''device_removable''),
     Bits ''offline_disabled'' typedef_bool 1, Bits ''offline'' typedef_bool 1,
     Bits ''of_node_reused'' typedef_bool 1, Bits ''state_synced'' typedef_bool 1,
     Bits ''can_match'' typedef_bool 1, Bits ''dma_skip_sync'' typedef_bool 1]"

definition struct_bpf_xdp_entity :: ctype where
  "struct_bpf_xdp_entity = Struct False [
     Field ''prog'' (Ptr ''struct bpf_prog''), Field ''link'' (Ptr ''struct bpf_xdp_link'')]"

definition typedef_netdevice_tracker :: ctype where
  "typedef_netdevice_tracker = Struct False []"

definition struct_net_device :: ctype where
  "struct_net_device = Struct False [
     Field ''__cacheline_group_begin__net_device_read_tx'' (Arr typedef___u8 0),
     Field ''priv_flags'' (Scalar CULongLong),
     Field ''netdev_ops'' (Ptr ''struct net_device_ops''),
     Field ''header_ops'' (Ptr ''struct header_ops''),
     Field ''_tx'' (Ptr ''struct netdev_queue''),
     Field ''gso_partial_features'' typedef_netdev_features_t,
     Field ''real_num_tx_queues'' (Scalar CUInt), Field ''gso_max_size'' (Scalar CUInt),
     Field ''gso_ipv4_max_size'' (Scalar CUInt), Field ''gso_max_segs'' typedef_u16,
     Field ''num_tc'' typedef_s16, Field ''mtu'' (Scalar CUInt),
     Field ''needed_headroom'' (Scalar CUShort),
     Field ''tc_to_txq'' (Arr struct_netdev_tc_txq 16),
     Field ''xps_maps'' (Arr (Ptr ''struct xps_dev_maps'') 2),
     Field ''nf_hooks_egress'' (Ptr ''struct nf_hook_entries''),
     Field ''tcx_egress'' (Ptr ''struct bpf_mprog_entry''),
     Field ''__cacheline_group_end__net_device_read_tx'' (Arr typedef___u8 0),
     Field ''__cacheline_group_begin__net_device_read_txrx'' (Arr typedef___u8 0),
     Field '''' (Union False [Field ''lstats'' (Ptr ''struct pcpu_lstats''), Field ''tstats'' (Ptr ''struct pcpu_sw_netstats''), Field ''dstats'' (Ptr ''struct pcpu_dstats'')]),
     Field ''state'' (Scalar CULong), Field ''flags'' (Scalar CUInt),
     Field ''hard_header_len'' (Scalar CUShort),
     Field ''features'' typedef_netdev_features_t,
     Field ''ip6_ptr'' (Ptr ''struct inet6_dev''),
     Field ''__cacheline_group_end__net_device_read_txrx'' (Arr typedef___u8 0),
     Field ''__cacheline_group_begin__net_device_read_rx'' (Arr typedef___u8 0),
     Field ''xdp_prog'' (Ptr ''struct bpf_prog''),
     Field ''ptype_specific'' struct_list_head, Field ''ifindex'' (Scalar CInt),
     Field ''real_num_rx_queues'' (Scalar CUInt),
     Field ''_rx'' (Ptr ''struct netdev_rx_queue''),
     Field ''gro_flush_timeout'' (Scalar CULong),
     Field ''napi_defer_hard_irqs'' typedef_u32, Field ''gro_max_size'' (Scalar CUInt),
     Field ''gro_ipv4_max_size'' (Scalar CUInt),
     Field ''rx_handler'' (Ptr ''rx_handler_func_t''),
     Field ''rx_handler_data'' (Ptr ''void''), Field ''nd_net'' typedef_possible_net_t,
     Field ''npinfo'' (Ptr ''struct netpoll_info''),
     Field ''tcx_ingress'' (Ptr ''struct bpf_mprog_entry''),
     Field ''__cacheline_group_end__net_device_read_rx'' (Arr typedef___u8 0),
     Field ''name'' (Arr (Scalar CChar) 16),
     Field ''name_node'' (Ptr ''struct netdev_name_node''),
     Field ''ifalias'' (Ptr ''struct dev_ifalias''), Field ''mem_end'' (Scalar CULong),
     Field ''mem_start'' (Scalar CULong), Field ''base_addr'' (Scalar CULong),
     Field ''dev_list'' struct_list_head, Field ''napi_list'' struct_list_head,
     Field ''unreg_list'' struct_list_head, Field ''close_list'' struct_list_head,
     Field ''ptype_all'' struct_list_head,
     Field ''adj_list'' (Struct False [Field ''upper'' struct_list_head, Field ''lower'' struct_list_head]),
     Field ''xdp_features'' typedef_xdp_features_t,
     Field ''xdp_metadata_ops'' (Ptr ''struct xdp_metadata_ops''),
     Field ''xsk_tx_metadata_ops'' (Ptr ''struct xsk_tx_metadata_ops''),
     Field ''gflags'' (Scalar CUShort), Field ''needed_tailroom'' (Scalar CUShort),
     Field ''hw_features'' typedef_netdev_features_t,
     Field ''wanted_features'' typedef_netdev_features_t,
     Field ''vlan_features'' typedef_netdev_features_t,
     Field ''hw_enc_features'' typedef_netdev_features_t,
     Field ''mpls_features'' typedef_netdev_features_t, Field ''min_mtu'' (Scalar CUInt),
     Field ''max_mtu'' (Scalar CUInt), Field ''type'' (Scalar CUShort),
     Field ''min_header_len'' (Scalar CUChar), Field ''name_assign_type'' (Scalar CUChar),
     Field ''group'' (Scalar CInt), Field ''stats'' struct_net_device_stats,
     Field ''core_stats'' (Ptr ''struct net_device_core_stats''),
     Field ''carrier_up_count'' typedef_atomic_t,
     Field ''carrier_down_count'' typedef_atomic_t,
     Field ''wireless_handlers'' (Ptr ''struct iw_handler_def''),
     Field ''wireless_data'' (Ptr ''struct iw_public_data''),
     Field ''ethtool_ops'' (Ptr ''struct ethtool_ops''),
     Field ''l3mdev_ops'' (Ptr ''struct l3mdev_ops''),
     Field ''ndisc_ops'' (Ptr ''struct ndisc_ops''),
     Field ''xfrmdev_ops'' (Ptr ''struct xfrmdev_ops''),
     Field ''tlsdev_ops'' (Ptr ''struct tlsdev_ops''), Field ''operstate'' (Scalar CUInt),
     Field ''link_mode'' (Scalar CUChar), Field ''if_port'' (Scalar CUChar),
     Field ''dma'' (Scalar CUChar), Field ''perm_addr'' (Arr (Scalar CUChar) 32),
     Field ''addr_assign_type'' (Scalar CUChar), Field ''addr_len'' (Scalar CUChar),
     Field ''upper_level'' (Scalar CUChar), Field ''lower_level'' (Scalar CUChar),
     Field ''neigh_priv_len'' (Scalar CUShort), Field ''dev_id'' (Scalar CUShort),
     Field ''dev_port'' (Scalar CUShort), Field ''irq'' (Scalar CInt),
     Field ''priv_len'' typedef_u32, Field ''addr_list_lock'' typedef_spinlock_t,
     Field ''uc'' struct_netdev_hw_addr_list, Field ''mc'' struct_netdev_hw_addr_list,
     Field ''dev_addrs'' struct_netdev_hw_addr_list,
     Field ''queues_kset'' (Ptr ''struct kset''), Field ''promiscuity'' (Scalar CUInt),
     Field ''allmulti'' (Scalar CUInt), Field ''uc_promisc'' typedef_bool,
     Field ''ip_ptr'' (Ptr ''struct in_device''),
     Field ''vlan_info'' (Ptr ''struct vlan_info''),
     Field ''dsa_ptr'' (Ptr ''struct dsa_port''),
     Field ''tipc_ptr'' (Ptr ''struct tipc_bearer''), Field ''atalk_ptr'' (Ptr ''void''),
     Field ''ax25_ptr'' (Ptr ''void''),
     Field ''ieee80211_ptr'' (Ptr ''struct wireless_dev''),
     Field ''ieee802154_ptr'' (Ptr ''struct wpan_dev''),
     Field ''mpls_ptr'' (Ptr ''struct mpls_dev''),
     Field ''mctp_ptr'' (Ptr ''struct mctp_dev''),
     Field ''dev_addr'' (Ptr ''unsigned char''), Field ''num_rx_queues'' (Scalar CUInt),
     Field ''xdp_zc_max_segs'' (Scalar CUInt),
     Field ''ingress_queue'' (Ptr ''struct netdev_queue''),
     Field ''nf_hooks_ingress'' (Ptr ''struct nf_hook_entries''),
     Field ''broadcast'' (Arr (Scalar CUChar) 32),
     Field ''rx_cpu_rmap'' (Ptr ''struct cpu_rmap''),
     Field ''index_hlist'' struct_hlist_node, Field ''num_tx_queues'' (Scalar CUInt),
     Field ''qdisc'' (Ptr ''struct Qdisc''), Field ''tx_queue_len'' (Scalar CUInt),
     Field ''tx_global_lock'' typedef_spinlock_t,
     Field ''xdp_bulkq'' (Ptr ''struct xdp_dev_bulk_queue''),
     Field ''qdisc_hash'' (Arr struct_hlist_head 16),
     Field ''watchdog_timer'' struct_timer_list, Field ''watchdog_timeo'' (Scalar CInt),
     Field ''proto_down_reason'' typedef_u32, Field ''todo_list'' struct_list_head,
     Field ''pcpu_refcnt'' (Ptr ''int''), Field ''refcnt_tracker'' struct_ref_tracker_dir,
     Field ''link_watch_list'' struct_list_head, Field ''reg_state'' typedef_u8,
     Field ''dismantle'' typedef_bool, Bits ''rtnl_link_state'' (EnumT ''anon'') 16,
     Field ''needs_free_netdev'' typedef_bool, Field ''priv_destructor'' (Ptr ''fn''),
     Field ''ml_priv'' (Ptr ''void''),
     Field ''ml_priv_type'' (EnumT ''netdev_ml_priv_type''),
     Bits ''pcpu_stat_type'' (EnumT ''netdev_stat_type'') 8,
     Field ''garp_port'' (Ptr ''struct garp_port''),
     Field ''mrp_port'' (Ptr ''struct mrp_port''),
     Field ''dm_private'' (Ptr ''struct dm_hw_stat_delta''), Field ''dev'' struct_device,
     Field ''sysfs_groups'' (Arr (Ptr ''struct attribute_group'') 4),
     Field ''sysfs_rx_queue_group'' (Ptr ''struct attribute_group''),
     Field ''rtnl_link_ops'' (Ptr ''struct rtnl_link_ops''),
     Field ''stat_ops'' (Ptr ''struct netdev_stat_ops''),
     Field ''queue_mgmt_ops'' (Ptr ''struct netdev_queue_mgmt_ops''),
     Field ''tso_max_size'' (Scalar CUInt), Field ''tso_max_segs'' typedef_u16,
     Field ''dcbnl_ops'' (Ptr ''struct dcbnl_rtnl_ops''),
     Field ''prio_tc_map'' (Arr typedef_u8 16), Field ''fcoe_ddp_xid'' (Scalar CUInt),
     Field ''priomap'' (Ptr ''struct netprio_map''),
     Field ''phydev'' (Ptr ''struct phy_device''),
     Field ''sfp_bus'' (Ptr ''struct sfp_bus''),
     Field ''qdisc_tx_busylock'' (Ptr ''struct lock_class_key''),
     Field ''proto_down'' typedef_bool, Field ''threaded'' typedef_bool,
     Field ''net_notifier_list'' struct_list_head,
     Field ''macsec_ops'' (Ptr ''struct macsec_ops''),
     Field ''udp_tunnel_nic_info'' (Ptr ''struct udp_tunnel_nic_info''),
     Field ''udp_tunnel_nic'' (Ptr ''struct udp_tunnel_nic''),
     Field ''ethtool'' (Ptr ''struct ethtool_netdev_state''),
     Field ''xdp_state'' (Arr struct_bpf_xdp_entity 3),
     Field ''dev_addr_shadow'' (Arr typedef_u8 32),
     Field ''linkwatch_dev_tracker'' typedef_netdevice_tracker,
     Field ''watchdog_dev_tracker'' typedef_netdevice_tracker,
     Field ''dev_registered_tracker'' typedef_netdevice_tracker,
     Field ''offload_xstats_l3'' (Ptr ''struct rtnl_hw_stats64''),
     Field ''devlink_port'' (Ptr ''struct devlink_port''),
     Field ''dpll_pin'' (Ptr ''struct dpll_pin''), Field ''page_pools'' struct_hlist_head,
     Field ''irq_moder'' (Ptr ''struct dim_irq_moder''), Bits '''' (Scalar CLong) 64,
     Field ''priv'' (Arr typedef_u8 0)]"

definition struct_net_device_ops :: ctype where
  "struct_net_device_ops = Struct False [
     Field ''ndo_init'' (Ptr ''fn''), Field ''ndo_uninit'' (Ptr ''fn''),
     Field ''ndo_open'' (Ptr ''fn''), Field ''ndo_stop'' (Ptr ''fn''),
     Field ''ndo_start_xmit'' (Ptr ''fn''), Field ''ndo_features_check'' (Ptr ''fn''),
     Field ''ndo_select_queue'' (Ptr ''fn''), Field ''ndo_change_rx_flags'' (Ptr ''fn''),
     Field ''ndo_set_rx_mode'' (Ptr ''fn''), Field ''ndo_set_mac_address'' (Ptr ''fn''),
     Field ''ndo_validate_addr'' (Ptr ''fn''), Field ''ndo_do_ioctl'' (Ptr ''fn''),
     Field ''ndo_eth_ioctl'' (Ptr ''fn''), Field ''ndo_siocbond'' (Ptr ''fn''),
     Field ''ndo_siocwandev'' (Ptr ''fn''), Field ''ndo_siocdevprivate'' (Ptr ''fn''),
     Field ''ndo_set_config'' (Ptr ''fn''), Field ''ndo_change_mtu'' (Ptr ''fn''),
     Field ''ndo_neigh_setup'' (Ptr ''fn''), Field ''ndo_tx_timeout'' (Ptr ''fn''),
     Field ''ndo_get_stats64'' (Ptr ''fn''), Field ''ndo_has_offload_stats'' (Ptr ''fn''),
     Field ''ndo_get_offload_stats'' (Ptr ''fn''), Field ''ndo_get_stats'' (Ptr ''fn''),
     Field ''ndo_vlan_rx_add_vid'' (Ptr ''fn''),
     Field ''ndo_vlan_rx_kill_vid'' (Ptr ''fn''),
     Field ''ndo_poll_controller'' (Ptr ''fn''), Field ''ndo_netpoll_setup'' (Ptr ''fn''),
     Field ''ndo_netpoll_cleanup'' (Ptr ''fn''), Field ''ndo_set_vf_mac'' (Ptr ''fn''),
     Field ''ndo_set_vf_vlan'' (Ptr ''fn''), Field ''ndo_set_vf_rate'' (Ptr ''fn''),
     Field ''ndo_set_vf_spoofchk'' (Ptr ''fn''), Field ''ndo_set_vf_trust'' (Ptr ''fn''),
     Field ''ndo_get_vf_config'' (Ptr ''fn''),
     Field ''ndo_set_vf_link_state'' (Ptr ''fn''), Field ''ndo_get_vf_stats'' (Ptr ''fn''),
     Field ''ndo_set_vf_port'' (Ptr ''fn''), Field ''ndo_get_vf_port'' (Ptr ''fn''),
     Field ''ndo_get_vf_guid'' (Ptr ''fn''), Field ''ndo_set_vf_guid'' (Ptr ''fn''),
     Field ''ndo_set_vf_rss_query_en'' (Ptr ''fn''), Field ''ndo_setup_tc'' (Ptr ''fn''),
     Field ''ndo_fcoe_enable'' (Ptr ''fn''), Field ''ndo_fcoe_disable'' (Ptr ''fn''),
     Field ''ndo_fcoe_ddp_setup'' (Ptr ''fn''), Field ''ndo_fcoe_ddp_done'' (Ptr ''fn''),
     Field ''ndo_fcoe_ddp_target'' (Ptr ''fn''),
     Field ''ndo_fcoe_get_hbainfo'' (Ptr ''fn''), Field ''ndo_fcoe_get_wwn'' (Ptr ''fn''),
     Field ''ndo_rx_flow_steer'' (Ptr ''fn''), Field ''ndo_add_slave'' (Ptr ''fn''),
     Field ''ndo_del_slave'' (Ptr ''fn''), Field ''ndo_get_xmit_slave'' (Ptr ''fn''),
     Field ''ndo_sk_get_lower_dev'' (Ptr ''fn''), Field ''ndo_fix_features'' (Ptr ''fn''),
     Field ''ndo_set_features'' (Ptr ''fn''), Field ''ndo_neigh_construct'' (Ptr ''fn''),
     Field ''ndo_neigh_destroy'' (Ptr ''fn''), Field ''ndo_fdb_add'' (Ptr ''fn''),
     Field ''ndo_fdb_del'' (Ptr ''fn''), Field ''ndo_fdb_del_bulk'' (Ptr ''fn''),
     Field ''ndo_fdb_dump'' (Ptr ''fn''), Field ''ndo_fdb_get'' (Ptr ''fn''),
     Field ''ndo_mdb_add'' (Ptr ''fn''), Field ''ndo_mdb_del'' (Ptr ''fn''),
     Field ''ndo_mdb_del_bulk'' (Ptr ''fn''), Field ''ndo_mdb_dump'' (Ptr ''fn''),
     Field ''ndo_mdb_get'' (Ptr ''fn''), Field ''ndo_bridge_setlink'' (Ptr ''fn''),
     Field ''ndo_bridge_getlink'' (Ptr ''fn''), Field ''ndo_bridge_dellink'' (Ptr ''fn''),
     Field ''ndo_change_carrier'' (Ptr ''fn''),
     Field ''ndo_get_phys_port_id'' (Ptr ''fn''),
     Field ''ndo_get_port_parent_id'' (Ptr ''fn''),
     Field ''ndo_get_phys_port_name'' (Ptr ''fn''),
     Field ''ndo_dfwd_add_station'' (Ptr ''fn''),
     Field ''ndo_dfwd_del_station'' (Ptr ''fn''),
     Field ''ndo_set_tx_maxrate'' (Ptr ''fn''), Field ''ndo_get_iflink'' (Ptr ''fn''),
     Field ''ndo_fill_metadata_dst'' (Ptr ''fn''),
     Field ''ndo_set_rx_headroom'' (Ptr ''fn''), Field ''ndo_bpf'' (Ptr ''fn''),
     Field ''ndo_xdp_xmit'' (Ptr ''fn''), Field ''ndo_xdp_get_xmit_slave'' (Ptr ''fn''),
     Field ''ndo_xsk_wakeup'' (Ptr ''fn''), Field ''ndo_tunnel_ctl'' (Ptr ''fn''),
     Field ''ndo_get_peer_dev'' (Ptr ''fn''), Field ''ndo_fill_forward_path'' (Ptr ''fn''),
     Field ''ndo_get_tstamp'' (Ptr ''fn''), Field ''ndo_hwtstamp_get'' (Ptr ''fn''),
     Field ''ndo_hwtstamp_set'' (Ptr ''fn'')]"

definition struct_nf_conntrack :: ctype where
  "struct_nf_conntrack = Struct False [
     Field ''use'' typedef_refcount_t]"

definition struct_nf_conntrack_zone :: ctype where
  "struct_nf_conntrack_zone = Struct False [
     Field ''id'' typedef_u16, Field ''flags'' typedef_u8, Field ''dir'' typedef_u8]"

definition struct_in_addr :: ctype where
  "struct_in_addr = Struct False [
     Field ''s_addr'' typedef___be32]"

definition union_nf_inet_addr :: ctype where
  "union_nf_inet_addr = Union False [
     Field ''all'' (Arr typedef___u32 4), Field ''ip'' typedef___be32,
     Field ''ip6'' (Arr typedef___be32 4), Field ''in'' struct_in_addr,
     Field ''in6'' struct_in6_addr]"

definition union_nf_conntrack_man_proto :: ctype where
  "union_nf_conntrack_man_proto = Union False [
     Field ''all'' typedef___be16,
     Field ''tcp'' (Struct False [Field ''port'' typedef___be16]),
     Field ''udp'' (Struct False [Field ''port'' typedef___be16]),
     Field ''icmp'' (Struct False [Field ''id'' typedef___be16]),
     Field ''dccp'' (Struct False [Field ''port'' typedef___be16]),
     Field ''sctp'' (Struct False [Field ''port'' typedef___be16]),
     Field ''gre'' (Struct False [Field ''key'' typedef___be16])]"

definition typedef_u_int16_t :: ctype where
  "typedef_u_int16_t = typedef_u16"

definition struct_nf_conntrack_man :: ctype where
  "struct_nf_conntrack_man = Struct False [
     Field ''u3'' union_nf_inet_addr, Field ''u'' union_nf_conntrack_man_proto,
     Field ''l3num'' typedef_u_int16_t]"

definition typedef_u_int8_t :: ctype where
  "typedef_u_int8_t = typedef_u8"

definition kernel_bpf_structs :: "ctype list" where
  "kernel_bpf_structs = [
     struct_sock, struct_bpf_sock_addr, struct_bpf_sock_addr_kern, struct_bpf_sock_ops,
     struct_bpf_sock_ops_kern, struct_sk_msg_md, struct_scatterlist, struct_sk_msg_sg,
     struct_sk_msg, struct_bpf_flow_dissector, struct_fred_cs, struct_fred_ss,
     struct_pt_regs, struct_bpf_perf_event_data, struct_bpf_perf_event_data_kern,
     struct_bpf_raw_tracepoint_args, struct_bpf_cgroup_dev_ctx, struct_bpf_sysctl,
     struct_bpf_sysctl_kern, struct_bpf_sockopt, struct_bpf_sockopt_kern,
     struct_sk_reuseport_md, struct_sk_reuseport_kern, struct_bpf_sk_lookup,
     struct_bpf_sk_lookup_kern, struct_bpf_nf_ctx, struct_bpf_ctx_convert,
     struct_netdev_tc_txq, struct_net_device_stats, struct_netdev_hw_addr_list,
     struct_hlist_head, struct_ref_tracker_dir, struct_kref, struct_kobject,
     struct_dev_links_info, struct_pm_message, struct_swait_queue_head, struct_completion,
     struct_timerqueue_node, struct_hrtimer, struct_dev_pm_info, struct_dev_msi_info,
     struct_dev_archdata, struct_device, struct_bpf_xdp_entity, typedef_netdevice_tracker,
     struct_net_device, struct_net_device_ops, struct_nf_conntrack,
     struct_nf_conntrack_zone, struct_in_addr, union_nf_inet_addr,
     union_nf_conntrack_man_proto, struct_nf_conntrack_man]"

end
