(* ===== verification/Vmlinux_Kernel_Net.thy ===== *)
theory Vmlinux_Kernel_Net
  imports Vmlinux_Kernel_Bpf
begin

text \<open>
  The kernel structures of network devices, sockets, tracked connections and perf events. Each is translated member by member from
  \<^verbatim>\<open>nhp/ebpf/xdp/vmlinux.h\<close>; \<open>kernel_net_structs\<close> collects the structures and unions.
\<close>

definition struct_nf_conntrack_tuple :: ctype where
  "struct_nf_conntrack_tuple = Struct False [
     Field ''src'' struct_nf_conntrack_man,
     Field ''dst'' (Struct False [Field ''u3'' union_nf_inet_addr, Field ''u'' (Union False [Field ''all'' typedef___be16, Field ''tcp'' (Struct False [Field ''port'' typedef___be16]), Field ''udp'' (Struct False [Field ''port'' typedef___be16]), Field ''icmp'' (Struct False [Field ''type'' typedef_u_int8_t, Field ''code'' typedef_u_int8_t]), Field ''dccp'' (Struct False [Field ''port'' typedef___be16]), Field ''sctp'' (Struct False [Field ''port'' typedef___be16]), Field ''gre'' (Struct False [Field ''key'' typedef___be16])]), Field ''protonum'' typedef_u_int8_t, Field ''__nfct_hash_offsetend'' (Struct False []), Field ''dir'' typedef_u_int8_t])]"

definition struct_nf_conntrack_tuple_hash :: ctype where
  "struct_nf_conntrack_tuple_hash = Struct False [
     Field ''hnnode'' struct_hlist_nulls_node, Field ''tuple'' struct_nf_conntrack_tuple]"

definition typedef_u_int32_t :: ctype where
  "typedef_u_int32_t = typedef_u32"

definition typedef_u_int64_t :: ctype where
  "typedef_u_int64_t = typedef_u64"

definition struct_nf_ct_dccp :: ctype where
  "struct_nf_ct_dccp = Struct False [
     Field ''role'' (Arr typedef_u_int8_t 2), Field ''state'' typedef_u_int8_t,
     Field ''last_pkt'' typedef_u_int8_t, Field ''last_dir'' typedef_u_int8_t,
     Field ''handshake_seq'' typedef_u_int64_t]"

definition struct_ip_ct_sctp :: ctype where
  "struct_ip_ct_sctp = Struct False [
     Field ''state'' (EnumT ''sctp_conntrack''), Field ''vtag'' (Arr typedef___be32 2),
     Field ''init'' (Arr typedef_u8 2), Field ''last_dir'' typedef_u8,
     Field ''flags'' typedef_u8]"

definition struct_ip_ct_tcp_state :: ctype where
  "struct_ip_ct_tcp_state = Struct False [
     Field ''td_end'' typedef_u_int32_t, Field ''td_maxend'' typedef_u_int32_t,
     Field ''td_maxwin'' typedef_u_int32_t, Field ''td_maxack'' typedef_u_int32_t,
     Field ''td_scale'' typedef_u_int8_t, Field ''flags'' typedef_u_int8_t]"

definition struct_ip_ct_tcp :: ctype where
  "struct_ip_ct_tcp = Struct False [
     Field ''seen'' (Arr struct_ip_ct_tcp_state 2), Field ''state'' typedef_u_int8_t,
     Field ''last_dir'' typedef_u_int8_t, Field ''retrans'' typedef_u_int8_t,
     Field ''last_index'' typedef_u_int8_t, Field ''last_seq'' typedef_u_int32_t,
     Field ''last_ack'' typedef_u_int32_t, Field ''last_end'' typedef_u_int32_t,
     Field ''last_win'' typedef_u_int16_t, Field ''last_wscale'' typedef_u_int8_t,
     Field ''last_flags'' typedef_u_int8_t]"

definition struct_nf_ct_udp :: ctype where
  "struct_nf_ct_udp = Struct False [
     Field ''stream_ts'' (Scalar CULong)]"

definition struct_nf_ct_gre :: ctype where
  "struct_nf_ct_gre = Struct False [
     Field ''stream_timeout'' (Scalar CUInt), Field ''timeout'' (Scalar CUInt)]"

definition union_nf_conntrack_proto :: ctype where
  "union_nf_conntrack_proto = Union False [
     Field ''dccp'' struct_nf_ct_dccp, Field ''sctp'' struct_ip_ct_sctp,
     Field ''tcp'' struct_ip_ct_tcp, Field ''udp'' struct_nf_ct_udp,
     Field ''gre'' struct_nf_ct_gre, Field ''tmpl_padto'' (Scalar CUInt)]"

definition struct_nf_conn :: ctype where
  "struct_nf_conn = Struct False [
     Field ''ct_general'' struct_nf_conntrack, Field ''lock'' typedef_spinlock_t,
     Field ''timeout'' typedef_u32, Field ''zone'' struct_nf_conntrack_zone,
     Field ''tuplehash'' (Arr struct_nf_conntrack_tuple_hash 2),
     Field ''status'' (Scalar CULong), Field ''ct_net'' typedef_possible_net_t,
     Field ''nat_bysource'' struct_hlist_node,
     Field ''__nfct_init_offset'' (Struct False []),
     Field ''master'' (Ptr ''struct nf_conn''), Field ''mark'' typedef_u_int32_t,
     Field ''secmark'' typedef_u_int32_t, Field ''ext'' (Ptr ''struct nf_ct_ext''),
     Field ''proto'' union_nf_conntrack_proto]"

definition typedef_local_t :: ctype where
  "typedef_local_t = Struct False [
     Field ''a'' typedef_atomic_long_t]"

definition typedef_local64_t :: ctype where
  "typedef_local64_t = Struct False [
     Field ''a'' typedef_local_t]"

definition struct_perf_event_attr :: ctype where
  "struct_perf_event_attr = Struct False [
     Field ''type'' typedef___u32, Field ''size'' typedef___u32,
     Field ''config'' typedef___u64,
     Field '''' (Union False [Field ''sample_period'' typedef___u64, Field ''sample_freq'' typedef___u64]),
     Field ''sample_type'' typedef___u64, Field ''read_format'' typedef___u64,
     Bits ''disabled'' typedef___u64 1, Bits ''inherit'' typedef___u64 1,
     Bits ''pinned'' typedef___u64 1, Bits ''exclusive'' typedef___u64 1,
     Bits ''exclude_user'' typedef___u64 1, Bits ''exclude_kernel'' typedef___u64 1,
     Bits ''exclude_hv'' typedef___u64 1, Bits ''exclude_idle'' typedef___u64 1,
     Bits ''mmap'' typedef___u64 1, Bits ''comm'' typedef___u64 1,
     Bits ''freq'' typedef___u64 1, Bits ''inherit_stat'' typedef___u64 1,
     Bits ''enable_on_exec'' typedef___u64 1, Bits ''task'' typedef___u64 1,
     Bits ''watermark'' typedef___u64 1, Bits ''precise_ip'' typedef___u64 2,
     Bits ''mmap_data'' typedef___u64 1, Bits ''sample_id_all'' typedef___u64 1,
     Bits ''exclude_host'' typedef___u64 1, Bits ''exclude_guest'' typedef___u64 1,
     Bits ''exclude_callchain_kernel'' typedef___u64 1,
     Bits ''exclude_callchain_user'' typedef___u64 1, Bits ''mmap2'' typedef___u64 1,
     Bits ''comm_exec'' typedef___u64 1, Bits ''use_clockid'' typedef___u64 1,
     Bits ''context_switch'' typedef___u64 1, Bits ''write_backward'' typedef___u64 1,
     Bits ''namespaces'' typedef___u64 1, Bits ''ksymbol'' typedef___u64 1,
     Bits ''bpf_event'' typedef___u64 1, Bits ''aux_output'' typedef___u64 1,
     Bits ''cgroup'' typedef___u64 1, Bits ''text_poke'' typedef___u64 1,
     Bits ''build_id'' typedef___u64 1, Bits ''inherit_thread'' typedef___u64 1,
     Bits ''remove_on_exec'' typedef___u64 1, Bits ''sigtrap'' typedef___u64 1,
     Bits ''__reserved_1'' typedef___u64 26,
     Field '''' (Union False [Field ''wakeup_events'' typedef___u32, Field ''wakeup_watermark'' typedef___u32]),
     Field ''bp_type'' typedef___u32,
     Field '''' (Union False [Field ''bp_addr'' typedef___u64, Field ''kprobe_func'' typedef___u64, Field ''uprobe_path'' typedef___u64, Field ''config1'' typedef___u64]),
     Field '''' (Union False [Field ''bp_len'' typedef___u64, Field ''kprobe_addr'' typedef___u64, Field ''probe_offset'' typedef___u64, Field ''config2'' typedef___u64]),
     Field ''branch_sample_type'' typedef___u64, Field ''sample_regs_user'' typedef___u64,
     Field ''sample_stack_user'' typedef___u32, Field ''clockid'' typedef___s32,
     Field ''sample_regs_intr'' typedef___u64, Field ''aux_watermark'' typedef___u32,
     Field ''sample_max_stack'' typedef___u16, Field ''__reserved_2'' typedef___u16,
     Field ''aux_sample_size'' typedef___u32, Field ''__reserved_3'' typedef___u32,
     Field ''sig_data'' typedef___u64, Field ''config3'' typedef___u64]"

definition struct_hw_perf_event_extra :: ctype where
  "struct_hw_perf_event_extra = Struct False [
     Field ''config'' typedef_u64, Field ''reg'' (Scalar CUInt),
     Field ''alloc'' (Scalar CInt), Field ''idx'' (Scalar CInt)]"

definition struct_arch_hw_breakpoint :: ctype where
  "struct_arch_hw_breakpoint = Struct False [
     Field ''address'' (Scalar CULong), Field ''mask'' (Scalar CULong),
     Field ''len'' typedef_u8, Field ''type'' typedef_u8]"

definition struct_rhash_head :: ctype where
  "struct_rhash_head = Struct False [
     Field ''next'' (Ptr ''struct rhash_head'')]"

definition struct_rhlist_head :: ctype where
  "struct_rhlist_head = Struct False [
     Field ''rhead'' struct_rhash_head, Field ''next'' (Ptr ''struct rhlist_head'')]"

definition struct_hw_perf_event :: ctype where
  "struct_hw_perf_event = Struct False [
     Field '''' (Union False [Field '''' (Struct False [Field ''config'' typedef_u64, Field ''last_tag'' typedef_u64, Field ''config_base'' (Scalar CULong), Field ''event_base'' (Scalar CULong), Field ''event_base_rdpmc'' (Scalar CInt), Field ''idx'' (Scalar CInt), Field ''last_cpu'' (Scalar CInt), Field ''flags'' (Scalar CInt), Field ''extra_reg'' struct_hw_perf_event_extra, Field ''branch_reg'' struct_hw_perf_event_extra]), Field '''' (Struct False [Field ''hrtimer'' struct_hrtimer]), Field '''' (Struct False [Field ''tp_list'' struct_list_head]), Field '''' (Struct False [Field ''pwr_acc'' typedef_u64, Field ''ptsc'' typedef_u64]), Field '''' (Struct False [Field ''info'' struct_arch_hw_breakpoint, Field ''bp_list'' struct_rhlist_head]), Field '''' (Struct False [Field ''iommu_bank'' typedef_u8, Field ''iommu_cntr'' typedef_u8, Field ''padding'' typedef_u16, Field ''conf'' typedef_u64, Field ''conf1'' typedef_u64])]),
     Field ''target'' (Ptr ''struct task_struct''), Field ''addr_filters'' (Ptr ''void''),
     Field ''addr_filters_gen'' (Scalar CULong), Field ''state'' (Scalar CInt),
     Field ''prev_count'' typedef_local64_t, Field ''sample_period'' typedef_u64,
     Field '''' (Union False [Field '''' (Struct False [Field ''last_period'' typedef_u64, Field ''period_left'' typedef_local64_t]), Field '''' (Struct False [Field ''saved_metric'' typedef_u64, Field ''saved_slots'' typedef_u64])]),
     Field ''interrupts_seq'' typedef_u64, Field ''interrupts'' typedef_u64,
     Field ''freq_time_stamp'' typedef_u64, Field ''freq_count_stamp'' typedef_u64]"

definition struct___call_single_node :: ctype where
  "struct___call_single_node = Struct False [
     Field ''llist'' struct_llist_node,
     Field '''' (Union False [Field ''u_flags'' (Scalar CUInt), Field ''a_flags'' typedef_atomic_t]),
     Field ''src'' typedef_u16, Field ''dst'' typedef_u16]"

definition struct_rcuwait :: ctype where
  "struct_rcuwait = Struct False [
     Field ''task'' (Ptr ''struct task_struct'')]"

definition struct_irq_work :: ctype where
  "struct_irq_work = Struct False [
     Field ''node'' struct___call_single_node, Field ''func'' (Ptr ''fn''),
     Field ''irqwait'' struct_rcuwait]"

definition struct_perf_addr_filters_head :: ctype where
  "struct_perf_addr_filters_head = Struct False [
     Field ''list'' struct_list_head, Field ''lock'' typedef_raw_spinlock_t,
     Field ''nr_file_filters'' (Scalar CUInt)]"

definition typedef_perf_overflow_handler_t :: ctype where
  "typedef_perf_overflow_handler_t = Ptr ''fn''"

definition typedef_ftrace_func_t :: ctype where
  "typedef_ftrace_func_t = Ptr ''fn''"

definition struct_ftrace_ops_hash :: ctype where
  "struct_ftrace_ops_hash = Struct False [
     Field ''notrace_hash'' (Ptr ''struct ftrace_hash''),
     Field ''filter_hash'' (Ptr ''struct ftrace_hash''), Field ''regex_lock'' struct_mutex]"

definition typedef_ftrace_ops_func_t :: ctype where
  "typedef_ftrace_ops_func_t = Ptr ''fn''"

definition struct_ftrace_ops :: ctype where
  "struct_ftrace_ops = Struct False [
     Field ''func'' typedef_ftrace_func_t, Field ''next'' (Ptr ''struct ftrace_ops''),
     Field ''flags'' (Scalar CULong), Field ''private'' (Ptr ''void''),
     Field ''saved_func'' typedef_ftrace_func_t,
     Field ''local_hash'' struct_ftrace_ops_hash,
     Field ''func_hash'' (Ptr ''struct ftrace_ops_hash''),
     Field ''old_hash'' struct_ftrace_ops_hash, Field ''trampoline'' (Scalar CULong),
     Field ''trampoline_size'' (Scalar CULong), Field ''list'' struct_list_head,
     Field ''subop_list'' struct_list_head, Field ''ops_func'' typedef_ftrace_ops_func_t,
     Field ''managed'' (Ptr ''struct ftrace_ops''), Field ''direct_call'' (Scalar CULong)]"

definition struct_perf_event :: ctype where
  "struct_perf_event = Struct False [
     Field ''event_entry'' struct_list_head, Field ''sibling_list'' struct_list_head,
     Field ''active_list'' struct_list_head, Field ''group_node'' struct_rb_node,
     Field ''group_index'' typedef_u64, Field ''migrate_entry'' struct_list_head,
     Field ''hlist_entry'' struct_hlist_node, Field ''active_entry'' struct_list_head,
     Field ''nr_siblings'' (Scalar CInt), Field ''event_caps'' (Scalar CInt),
     Field ''group_caps'' (Scalar CInt), Field ''group_generation'' (Scalar CUInt),
     Field ''group_leader'' (Ptr ''struct perf_event''),
     Field ''pmu'' (Ptr ''struct pmu''), Field ''pmu_private'' (Ptr ''void''),
     Field ''state'' (EnumT ''perf_event_state''), Field ''attach_state'' (Scalar CUInt),
     Field ''count'' typedef_local64_t, Field ''child_count'' typedef_atomic64_t,
     Field ''total_time_enabled'' typedef_u64, Field ''total_time_running'' typedef_u64,
     Field ''tstamp'' typedef_u64, Field ''attr'' struct_perf_event_attr,
     Field ''header_size'' typedef_u16, Field ''id_header_size'' typedef_u16,
     Field ''read_size'' typedef_u16, Field ''hw'' struct_hw_perf_event,
     Field ''ctx'' (Ptr ''struct perf_event_context''),
     Field ''pmu_ctx'' (Ptr ''struct perf_event_pmu_context''),
     Field ''refcount'' typedef_atomic_long_t,
     Field ''child_total_time_enabled'' typedef_atomic64_t,
     Field ''child_total_time_running'' typedef_atomic64_t,
     Field ''child_mutex'' struct_mutex, Field ''child_list'' struct_list_head,
     Field ''parent'' (Ptr ''struct perf_event''), Field ''oncpu'' (Scalar CInt),
     Field ''cpu'' (Scalar CInt), Field ''owner_entry'' struct_list_head,
     Field ''owner'' (Ptr ''struct task_struct''), Field ''mmap_mutex'' struct_mutex,
     Field ''mmap_count'' typedef_atomic_t, Field ''rb'' (Ptr ''struct perf_buffer''),
     Field ''rb_entry'' struct_list_head, Field ''rcu_batches'' (Scalar CULong),
     Field ''rcu_pending'' (Scalar CInt), Field ''waitq'' typedef_wait_queue_head_t,
     Field ''fasync'' (Ptr ''struct fasync_struct''),
     Field ''pending_wakeup'' (Scalar CUInt), Field ''pending_kill'' (Scalar CUInt),
     Field ''pending_disable'' (Scalar CUInt), Field ''pending_addr'' (Scalar CULong),
     Field ''pending_irq'' struct_irq_work, Field ''pending_disable_irq'' struct_irq_work,
     Field ''pending_task'' struct_callback_head, Field ''pending_work'' (Scalar CUInt),
     Field ''pending_work_wait'' struct_rcuwait, Field ''event_limit'' typedef_atomic_t,
     Field ''addr_filters'' struct_perf_addr_filters_head,
     Field ''addr_filter_ranges'' (Ptr ''struct perf_addr_filter_range''),
     Field ''addr_filters_gen'' (Scalar CULong),
     Field ''aux_event'' (Ptr ''struct perf_event''), Field ''destroy'' (Ptr ''fn''),
     Field ''callback_head'' struct_callback_head,
     Field ''ns'' (Ptr ''struct pid_namespace''), Field ''id'' typedef_u64,
     Field ''lost_samples'' typedef_atomic64_t, Field ''clock'' (Ptr ''fn''),
     Field ''overflow_handler'' typedef_perf_overflow_handler_t,
     Field ''overflow_handler_context'' (Ptr ''void''),
     Field ''prog'' (Ptr ''struct bpf_prog''), Field ''bpf_cookie'' typedef_u64,
     Field ''tp_event'' (Ptr ''struct trace_event_call''),
     Field ''filter'' (Ptr ''struct event_filter''),
     Field ''ftrace_ops'' struct_ftrace_ops, Field ''cgrp'' (Ptr ''struct perf_cgroup''),
     Field ''security'' (Ptr ''void''), Field ''sb_list'' struct_list_head,
     Field ''orig_type'' typedef___u32]"

definition struct_xdp_sock :: ctype where
  "struct_xdp_sock = Struct False [
     Field ''sk'' struct_sock, Bits '''' (Scalar CLong) 64,
     Field ''rx'' (Ptr ''struct xsk_queue''), Field ''dev'' (Ptr ''struct net_device''),
     Field ''umem'' (Ptr ''struct xdp_umem''), Field ''flush_node'' struct_list_head,
     Field ''pool'' (Ptr ''struct xsk_buff_pool''), Field ''queue_id'' typedef_u16,
     Field ''zc'' typedef_bool, Field ''sg'' typedef_bool,
     Field ''state'' (EnumT ''anon''), Bits '''' (Scalar CLong) 64,
     Field ''tx'' (Ptr ''struct xsk_queue''), Field ''tx_list'' struct_list_head,
     Field ''tx_budget_spent'' typedef_u32, Field ''rx_lock'' typedef_spinlock_t,
     Field ''rx_dropped'' typedef_u64, Field ''rx_queue_full'' typedef_u64,
     Field ''skb'' (Ptr ''struct sk_buff''), Field ''map_list'' struct_list_head,
     Field ''map_list_lock'' typedef_spinlock_t, Field ''mutex'' struct_mutex,
     Field ''fq_tmp'' (Ptr ''struct xsk_queue''),
     Field ''cq_tmp'' (Ptr ''struct xsk_queue'')]"

definition struct_inet_cork :: ctype where
  "struct_inet_cork = Struct False [
     Field ''flags'' (Scalar CUInt), Field ''addr'' typedef___be32,
     Field ''opt'' (Ptr ''struct ip_options''), Field ''fragsize'' (Scalar CUInt),
     Field ''length'' (Scalar CInt), Field ''dst'' (Ptr ''struct dst_entry''),
     Field ''tx_flags'' typedef_u8, Field ''ttl'' typedef___u8,
     Field ''tos'' typedef___s16, Field ''priority'' (Scalar CChar),
     Field ''gso_size'' typedef___u16, Field ''transmit_time'' typedef_u64,
     Field ''mark'' typedef_u32]"

definition typedef___be64 :: ctype where
  "typedef___be64 = typedef___u64"

definition struct_flowi_tunnel :: ctype where
  "struct_flowi_tunnel = Struct False [
     Field ''tun_id'' typedef___be64]"

definition struct_flowi_common :: ctype where
  "struct_flowi_common = Struct False [
     Field ''flowic_oif'' (Scalar CInt), Field ''flowic_iif'' (Scalar CInt),
     Field ''flowic_l3mdev'' (Scalar CInt), Field ''flowic_mark'' typedef___u32,
     Field ''flowic_tos'' typedef___u8, Field ''flowic_scope'' typedef___u8,
     Field ''flowic_proto'' typedef___u8, Field ''flowic_flags'' typedef___u8,
     Field ''flowic_secid'' typedef___u32, Field ''flowic_uid'' typedef_kuid_t,
     Field ''flowic_multipath_hash'' typedef___u32,
     Field ''flowic_tun_key'' struct_flowi_tunnel]"

definition union_flowi_uli :: ctype where
  "union_flowi_uli = Union False [
     Field ''ports'' (Struct False [Field ''dport'' typedef___be16, Field ''sport'' typedef___be16]),
     Field ''icmpt'' (Struct False [Field ''type'' typedef___u8, Field ''code'' typedef___u8]),
     Field ''gre_key'' typedef___be32,
     Field ''mht'' (Struct False [Field ''type'' typedef___u8])]"

definition struct_flowi4 :: ctype where
  "struct_flowi4 = Struct False [
     Field ''__fl_common'' struct_flowi_common, Field ''saddr'' typedef___be32,
     Field ''daddr'' typedef___be32, Field ''uli'' union_flowi_uli]"

definition struct_flowi6 :: ctype where
  "struct_flowi6 = Struct False [
     Field ''__fl_common'' struct_flowi_common, Field ''daddr'' struct_in6_addr,
     Field ''saddr'' struct_in6_addr, Field ''flowlabel'' typedef___be32,
     Field ''uli'' union_flowi_uli, Field ''mp_hash'' typedef___u32]"

definition struct_flowi :: ctype where
  "struct_flowi = Struct False [
     Field ''u'' (Union False [Field ''__fl_common'' struct_flowi_common, Field ''ip4'' struct_flowi4, Field ''ip6'' struct_flowi6])]"

definition struct_inet_cork_full :: ctype where
  "struct_inet_cork_full = Struct False [
     Field ''base'' struct_inet_cork, Field ''fl'' struct_flowi]"

definition struct_inet_sock :: ctype where
  "struct_inet_sock = Struct False [
     Field ''sk'' struct_sock, Field ''pinet6'' (Ptr ''struct ipv6_pinfo''),
     Field ''inet_flags'' (Scalar CULong), Field ''inet_saddr'' typedef___be32,
     Field ''uc_ttl'' typedef___s16, Field ''inet_sport'' typedef___be16,
     Field ''inet_opt'' (Ptr ''struct ip_options_rcu''),
     Field ''inet_id'' typedef_atomic_t, Field ''tos'' typedef___u8,
     Field ''min_ttl'' typedef___u8, Field ''mc_ttl'' typedef___u8,
     Field ''pmtudisc'' typedef___u8, Field ''rcv_tos'' typedef___u8,
     Field ''convert_csum'' typedef___u8, Field ''uc_index'' (Scalar CInt),
     Field ''mc_index'' (Scalar CInt), Field ''mc_addr'' typedef___be32,
     Field ''local_port_range'' typedef_u32,
     Field ''mc_list'' (Ptr ''struct ip_mc_socklist''),
     Field ''cork'' struct_inet_cork_full]"

definition struct_fastopen_queue :: ctype where
  "struct_fastopen_queue = Struct False [
     Field ''rskq_rst_head'' (Ptr ''struct request_sock''),
     Field ''rskq_rst_tail'' (Ptr ''struct request_sock''),
     Field ''lock'' typedef_spinlock_t, Field ''qlen'' (Scalar CInt),
     Field ''max_qlen'' (Scalar CInt), Field ''ctx'' (Ptr ''struct tcp_fastopen_context'')]"

definition struct_request_sock_queue :: ctype where
  "struct_request_sock_queue = Struct False [
     Field ''rskq_lock'' typedef_spinlock_t, Field ''rskq_defer_accept'' typedef_u8,
     Field ''synflood_warned'' typedef_u32, Field ''qlen'' typedef_atomic_t,
     Field ''young'' typedef_atomic_t,
     Field ''rskq_accept_head'' (Ptr ''struct request_sock''),
     Field ''rskq_accept_tail'' (Ptr ''struct request_sock''),
     Field ''fastopenq'' struct_fastopen_queue]"

definition struct_inet_connection_sock :: ctype where
  "struct_inet_connection_sock = Struct False [
     Field ''icsk_inet'' struct_inet_sock,
     Field ''icsk_accept_queue'' struct_request_sock_queue,
     Field ''icsk_bind_hash'' (Ptr ''struct inet_bind_bucket''),
     Field ''icsk_bind2_hash'' (Ptr ''struct inet_bind2_bucket''),
     Field ''icsk_timeout'' (Scalar CULong),
     Field ''icsk_retransmit_timer'' struct_timer_list,
     Field ''icsk_delack_timer'' struct_timer_list, Field ''icsk_rto'' typedef___u32,
     Field ''icsk_rto_min'' typedef___u32, Field ''icsk_delack_max'' typedef___u32,
     Field ''icsk_pmtu_cookie'' typedef___u32,
     Field ''icsk_ca_ops'' (Ptr ''struct tcp_congestion_ops''),
     Field ''icsk_af_ops'' (Ptr ''struct inet_connection_sock_af_ops''),
     Field ''icsk_ulp_ops'' (Ptr ''struct tcp_ulp_ops''),
     Field ''icsk_ulp_data'' (Ptr ''void''), Field ''icsk_clean_acked'' (Ptr ''fn''),
     Field ''icsk_sync_mss'' (Ptr ''fn''), Bits ''icsk_ca_state'' typedef___u8 5,
     Bits ''icsk_ca_initialized'' typedef___u8 1,
     Bits ''icsk_ca_setsockopt'' typedef___u8 1,
     Bits ''icsk_ca_dst_locked'' typedef___u8 1, Field ''icsk_retransmits'' typedef___u8,
     Field ''icsk_pending'' typedef___u8, Field ''icsk_backoff'' typedef___u8,
     Field ''icsk_syn_retries'' typedef___u8, Field ''icsk_probes_out'' typedef___u8,
     Field ''icsk_ext_hdr_len'' typedef___u16,
     Field ''icsk_ack'' (Struct False [Field ''pending'' typedef___u8, Field ''quick'' typedef___u8, Field ''pingpong'' typedef___u8, Field ''retry'' typedef___u8, Bits ''ato'' typedef___u32 8, Bits ''lrcv_flowlabel'' typedef___u32 20, Bits ''unused'' typedef___u32 4, Field ''timeout'' (Scalar CULong), Field ''lrcvtime'' typedef___u32, Field ''last_seg_size'' typedef___u16, Field ''rcv_mss'' typedef___u16]),
     Field ''icsk_mtup'' (Struct False [Field ''search_high'' (Scalar CInt), Field ''search_low'' (Scalar CInt), Bits ''probe_size'' typedef_u32 31, Bits ''enabled'' typedef_u32 1, Field ''probe_timestamp'' typedef_u32]),
     Field ''icsk_probes_tstamp'' typedef_u32, Field ''icsk_user_timeout'' typedef_u32,
     Field ''icsk_ca_priv'' (Arr typedef_u64 13)]"

definition struct_minmax_sample :: ctype where
  "struct_minmax_sample = Struct False [
     Field ''t'' typedef_u32, Field ''v'' typedef_u32]"

definition struct_minmax :: ctype where
  "struct_minmax = Struct False [
     Field ''s'' (Arr struct_minmax_sample 3)]"

definition struct_tcp_options_received :: ctype where
  "struct_tcp_options_received = Struct False [
     Field ''ts_recent_stamp'' (Scalar CInt), Field ''ts_recent'' typedef_u32,
     Field ''rcv_tsval'' typedef_u32, Field ''rcv_tsecr'' typedef_u32,
     Bits ''saw_tstamp'' typedef_u16 1, Bits ''tstamp_ok'' typedef_u16 1,
     Bits ''dsack'' typedef_u16 1, Bits ''wscale_ok'' typedef_u16 1,
     Bits ''sack_ok'' typedef_u16 3, Bits ''smc_ok'' typedef_u16 1,
     Bits ''snd_wscale'' typedef_u16 4, Bits ''rcv_wscale'' typedef_u16 4,
     Bits ''saw_unknown'' typedef_u8 1, Bits ''unused'' typedef_u8 7,
     Field ''num_sacks'' typedef_u8, Field ''user_mss'' typedef_u16,
     Field ''mss_clamp'' typedef_u16]"

definition struct_tcp_rack :: ctype where
  "struct_tcp_rack = Struct False [
     Field ''mstamp'' typedef_u64, Field ''rtt_us'' typedef_u32,
     Field ''end_seq'' typedef_u32, Field ''last_delivered'' typedef_u32,
     Field ''reo_wnd_steps'' typedef_u8, Bits ''reo_wnd_persist'' typedef_u8 5,
     Bits ''dsack_seen'' typedef_u8 1, Bits ''advanced'' typedef_u8 1]"

definition struct_tcp_sack_block :: ctype where
  "struct_tcp_sack_block = Struct False [
     Field ''start_seq'' typedef_u32, Field ''end_seq'' typedef_u32]"

definition struct_tcp_sock :: ctype where
  "struct_tcp_sock = Struct False [
     Field ''inet_conn'' struct_inet_connection_sock,
     Field ''__cacheline_group_begin__tcp_sock_read_tx'' (Arr typedef___u8 0),
     Field ''max_window'' typedef_u32, Field ''rcv_ssthresh'' typedef_u32,
     Field ''reordering'' typedef_u32, Field ''notsent_lowat'' typedef_u32,
     Field ''gso_segs'' typedef_u16, Field ''lost_skb_hint'' (Ptr ''struct sk_buff''),
     Field ''retransmit_skb_hint'' (Ptr ''struct sk_buff''),
     Field ''__cacheline_group_end__tcp_sock_read_tx'' (Arr typedef___u8 0),
     Field ''__cacheline_group_begin__tcp_sock_read_txrx'' (Arr typedef___u8 0),
     Field ''tsoffset'' typedef_u32, Field ''snd_wnd'' typedef_u32,
     Field ''mss_cache'' typedef_u32, Field ''snd_cwnd'' typedef_u32,
     Field ''prr_out'' typedef_u32, Field ''lost_out'' typedef_u32,
     Field ''sacked_out'' typedef_u32, Field ''tcp_header_len'' typedef_u16,
     Field ''scaling_ratio'' typedef_u8, Bits ''chrono_type'' typedef_u8 2,
     Bits ''repair'' typedef_u8 1, Bits ''tcp_usec_ts'' typedef_u8 1,
     Bits ''is_sack_reneg'' typedef_u8 1, Bits ''is_cwnd_limited'' typedef_u8 1,
     Field ''__cacheline_group_end__tcp_sock_read_txrx'' (Arr typedef___u8 0),
     Field ''__cacheline_group_begin__tcp_sock_read_rx'' (Arr typedef___u8 0),
     Field ''copied_seq'' typedef_u32, Field ''rcv_tstamp'' typedef_u32,
     Field ''snd_wl1'' typedef_u32, Field ''tlp_high_seq'' typedef_u32,
     Field ''rttvar_us'' typedef_u32, Field ''retrans_out'' typedef_u32,
     Field ''advmss'' typedef_u16, Field ''urg_data'' typedef_u16,
     Field ''lost'' typedef_u32, Field ''rtt_min'' struct_minmax,
     Field ''out_of_order_queue'' struct_rb_root, Field ''snd_ssthresh'' typedef_u32,
     Bits ''recvmsg_inq'' typedef_u8 1,
     Field ''__cacheline_group_end__tcp_sock_read_rx'' (Arr typedef___u8 0),
     Bits '''' (Scalar CLong) 64,
     Field ''__cacheline_group_begin__tcp_sock_write_tx'' (Arr typedef___u8 0),
     Field ''segs_out'' typedef_u32, Field ''data_segs_out'' typedef_u32,
     Field ''bytes_sent'' typedef_u64, Field ''snd_sml'' typedef_u32,
     Field ''chrono_start'' typedef_u32, Field ''chrono_stat'' (Arr typedef_u32 3),
     Field ''write_seq'' typedef_u32, Field ''pushed_seq'' typedef_u32,
     Field ''lsndtime'' typedef_u32, Field ''mdev_us'' typedef_u32,
     Field ''rtt_seq'' typedef_u32, Field ''tcp_wstamp_ns'' typedef_u64,
     Field ''tsorted_sent_queue'' struct_list_head,
     Field ''highest_sack'' (Ptr ''struct sk_buff''), Field ''ecn_flags'' typedef_u8,
     Field ''__cacheline_group_end__tcp_sock_write_tx'' (Arr typedef___u8 0),
     Field ''__cacheline_group_begin__tcp_sock_write_txrx'' (Arr typedef___u8 0),
     Field ''pred_flags'' typedef___be32, Field ''tcp_clock_cache'' typedef_u64,
     Field ''tcp_mstamp'' typedef_u64, Field ''rcv_nxt'' typedef_u32,
     Field ''snd_nxt'' typedef_u32, Field ''snd_una'' typedef_u32,
     Field ''window_clamp'' typedef_u32, Field ''srtt_us'' typedef_u32,
     Field ''packets_out'' typedef_u32, Field ''snd_up'' typedef_u32,
     Field ''delivered'' typedef_u32, Field ''delivered_ce'' typedef_u32,
     Field ''app_limited'' typedef_u32, Field ''rcv_wnd'' typedef_u32,
     Field ''rx_opt'' struct_tcp_options_received, Bits ''nonagle'' typedef_u8 4,
     Bits ''rate_app_limited'' typedef_u8 1,
     Field ''__cacheline_group_end__tcp_sock_write_txrx'' (Arr typedef___u8 0),
     Bits '''' (Scalar CLong) 0,
     Field ''__cacheline_group_begin__tcp_sock_write_rx'' (Arr typedef___u8 0),
     Field ''bytes_received'' typedef_u64, Field ''segs_in'' typedef_u32,
     Field ''data_segs_in'' typedef_u32, Field ''rcv_wup'' typedef_u32,
     Field ''max_packets_out'' typedef_u32, Field ''cwnd_usage_seq'' typedef_u32,
     Field ''rate_delivered'' typedef_u32, Field ''rate_interval_us'' typedef_u32,
     Field ''rcv_rtt_last_tsecr'' typedef_u32, Field ''first_tx_mstamp'' typedef_u64,
     Field ''delivered_mstamp'' typedef_u64, Field ''bytes_acked'' typedef_u64,
     Field ''rcv_rtt_est'' (Struct False [Field ''rtt_us'' typedef_u32, Field ''seq'' typedef_u32, Field ''time'' typedef_u64]),
     Field ''rcvq_space'' (Struct False [Field ''space'' typedef_u32, Field ''seq'' typedef_u32, Field ''time'' typedef_u64]),
     Field ''__cacheline_group_end__tcp_sock_write_rx'' (Arr typedef___u8 0),
     Field ''dsack_dups'' typedef_u32, Field ''compressed_ack_rcv_nxt'' typedef_u32,
     Field ''tsq_node'' struct_list_head, Field ''rack'' struct_tcp_rack,
     Field ''compressed_ack'' typedef_u8, Bits ''dup_ack_counter'' typedef_u8 2,
     Bits ''tlp_retrans'' typedef_u8 1, Bits ''unused'' typedef_u8 5,
     Bits ''thin_lto'' typedef_u8 1, Bits ''fastopen_connect'' typedef_u8 1,
     Bits ''fastopen_no_cookie'' typedef_u8 1, Bits ''fastopen_client_fail'' typedef_u8 2,
     Bits ''frto'' typedef_u8 1, Field ''repair_queue'' typedef_u8,
     Bits ''save_syn'' typedef_u8 2, Bits ''syn_data'' typedef_u8 1,
     Bits ''syn_fastopen'' typedef_u8 1, Bits ''syn_fastopen_exp'' typedef_u8 1,
     Bits ''syn_fastopen_ch'' typedef_u8 1, Bits ''syn_data_acked'' typedef_u8 1,
     Field ''keepalive_probes'' typedef_u8, Field ''tcp_tx_delay'' typedef_u32,
     Field ''mdev_max_us'' typedef_u32, Field ''reord_seen'' typedef_u32,
     Field ''snd_cwnd_cnt'' typedef_u32, Field ''snd_cwnd_clamp'' typedef_u32,
     Field ''snd_cwnd_used'' typedef_u32, Field ''snd_cwnd_stamp'' typedef_u32,
     Field ''prior_cwnd'' typedef_u32, Field ''prr_delivered'' typedef_u32,
     Field ''last_oow_ack_time'' typedef_u32, Field ''pacing_timer'' struct_hrtimer,
     Field ''compressed_ack_timer'' struct_hrtimer,
     Field ''ooo_last_skb'' (Ptr ''struct sk_buff''),
     Field ''duplicate_sack'' (Arr struct_tcp_sack_block 1),
     Field ''selective_acks'' (Arr struct_tcp_sack_block 4),
     Field ''recv_sack_cache'' (Arr struct_tcp_sack_block 4),
     Field ''lost_cnt_hint'' (Scalar CInt), Field ''prior_ssthresh'' typedef_u32,
     Field ''high_seq'' typedef_u32, Field ''retrans_stamp'' typedef_u32,
     Field ''undo_marker'' typedef_u32, Field ''undo_retrans'' (Scalar CInt),
     Field ''bytes_retrans'' typedef_u64, Field ''total_retrans'' typedef_u32,
     Field ''rto_stamp'' typedef_u32, Field ''total_rto'' typedef_u16,
     Field ''total_rto_recoveries'' typedef_u16, Field ''total_rto_time'' typedef_u32,
     Field ''urg_seq'' typedef_u32, Field ''keepalive_time'' (Scalar CUInt),
     Field ''keepalive_intvl'' (Scalar CUInt), Field ''linger2'' (Scalar CInt),
     Field ''bpf_sock_ops_cb_flags'' typedef_u8,
     Bits ''bpf_chg_cc_inprogress'' typedef_u8 1, Field ''timeout_rehash'' typedef_u16,
     Field ''rcv_ooopack'' typedef_u32,
     Field ''mtu_probe'' (Struct False [Field ''probe_seq_start'' typedef_u32, Field ''probe_seq_end'' typedef_u32]),
     Field ''plb_rehash'' typedef_u32, Field ''mtu_info'' typedef_u32,
     Field ''is_mptcp'' typedef_bool, Field ''syn_smc'' typedef_bool,
     Field ''smc_hs_congested'' (Ptr ''fn''),
     Field ''af_specific'' (Ptr ''struct tcp_sock_af_ops''),
     Field ''md5sig_info'' (Ptr ''struct tcp_md5sig_info''),
     Field ''ao_info'' (Ptr ''struct tcp_ao_info''),
     Field ''fastopen_req'' (Ptr ''struct tcp_fastopen_request''),
     Field ''fastopen_rsk'' (Ptr ''struct request_sock''),
     Field ''saved_syn'' (Ptr ''struct saved_syn''), Bits '''' (Scalar CLong) 64,
     Bits '''' (Scalar CLong) 64, Bits '''' (Scalar CLong) 64, Bits '''' (Scalar CLong) 64]"

definition struct_sk_psock_progs :: ctype where
  "struct_sk_psock_progs = Struct False [
     Field ''msg_parser'' (Ptr ''struct bpf_prog''),
     Field ''stream_parser'' (Ptr ''struct bpf_prog''),
     Field ''stream_verdict'' (Ptr ''struct bpf_prog''),
     Field ''skb_verdict'' (Ptr ''struct bpf_prog''),
     Field ''msg_parser_link'' (Ptr ''struct bpf_link''),
     Field ''stream_parser_link'' (Ptr ''struct bpf_link''),
     Field ''stream_verdict_link'' (Ptr ''struct bpf_link''),
     Field ''skb_verdict_link'' (Ptr ''struct bpf_link'')]"

definition struct_delayed_work :: ctype where
  "struct_delayed_work = Struct False [
     Field ''work'' struct_work_struct, Field ''timer'' struct_timer_list,
     Field ''wq'' (Ptr ''struct workqueue_struct''), Field ''cpu'' (Scalar CInt)]"

definition struct_strp_stats :: ctype where
  "struct_strp_stats = Struct False [
     Field ''msgs'' (Scalar CULongLong), Field ''bytes'' (Scalar CULongLong),
     Field ''mem_fail'' (Scalar CUInt), Field ''need_more_hdr'' (Scalar CUInt),
     Field ''msg_too_big'' (Scalar CUInt), Field ''msg_timeouts'' (Scalar CUInt),
     Field ''bad_hdr_len'' (Scalar CUInt)]"

definition struct_strp_callbacks :: ctype where
  "struct_strp_callbacks = Struct False [
     Field ''parse_msg'' (Ptr ''fn''), Field ''rcv_msg'' (Ptr ''fn''),
     Field ''read_sock_done'' (Ptr ''fn''), Field ''abort_parser'' (Ptr ''fn''),
     Field ''lock'' (Ptr ''fn''), Field ''unlock'' (Ptr ''fn'')]"

definition struct_strparser :: ctype where
  "struct_strparser = Struct False [
     Field ''sk'' (Ptr ''struct sock''), Bits ''stopped'' typedef_u32 1,
     Bits ''paused'' typedef_u32 1, Bits ''aborted'' typedef_u32 1,
     Bits ''interrupted'' typedef_u32 1, Bits ''unrecov_intr'' typedef_u32 1,
     Field ''skb_nextp'' (Ptr ''struct sk_buff''),
     Field ''skb_head'' (Ptr ''struct sk_buff''), Field ''need_bytes'' (Scalar CUInt),
     Field ''msg_timer_work'' struct_delayed_work, Field ''work'' struct_work_struct,
     Field ''stats'' struct_strp_stats, Field ''cb'' struct_strp_callbacks]"

definition struct_sk_psock_work_state :: ctype where
  "struct_sk_psock_work_state = Struct False [
     Field ''len'' typedef_u32, Field ''off'' typedef_u32]"

definition struct_rcu_work :: ctype where
  "struct_rcu_work = Struct False [
     Field ''work'' struct_work_struct, Field ''rcu'' struct_callback_head,
     Field ''wq'' (Ptr ''struct workqueue_struct'')]"

definition struct_sk_psock :: ctype where
  "struct_sk_psock = Struct False [
     Field ''sk'' (Ptr ''struct sock''), Field ''sk_redir'' (Ptr ''struct sock''),
     Field ''apply_bytes'' typedef_u32, Field ''cork_bytes'' typedef_u32,
     Field ''eval'' typedef_u32, Field ''redir_ingress'' typedef_bool,
     Field ''cork'' (Ptr ''struct sk_msg''), Field ''progs'' struct_sk_psock_progs,
     Field ''strp'' struct_strparser, Field ''ingress_skb'' struct_sk_buff_head,
     Field ''ingress_msg'' struct_list_head, Field ''ingress_lock'' typedef_spinlock_t,
     Field ''state'' (Scalar CULong), Field ''link'' struct_list_head,
     Field ''link_lock'' typedef_spinlock_t, Field ''refcnt'' typedef_refcount_t,
     Field ''saved_unhash'' (Ptr ''fn''), Field ''saved_destroy'' (Ptr ''fn''),
     Field ''saved_close'' (Ptr ''fn''), Field ''saved_write_space'' (Ptr ''fn''),
     Field ''saved_data_ready'' (Ptr ''fn''), Field ''psock_update_sk_prot'' (Ptr ''fn''),
     Field ''sk_proto'' (Ptr ''struct proto''), Field ''work_mutex'' struct_mutex,
     Field ''work_state'' struct_sk_psock_work_state, Field ''work'' struct_delayed_work,
     Field ''sk_pair'' (Ptr ''struct sock''), Field ''rwork'' struct_rcu_work]"

definition struct_bpf_ringbuf_map :: ctype where
  "struct_bpf_ringbuf_map = Struct False [
     Field ''map'' struct_bpf_map, Field ''rb'' (Ptr ''struct bpf_ringbuf'')]"

definition kernel_net_structs :: "ctype list" where
  "kernel_net_structs = [
     struct_nf_conntrack_tuple, struct_nf_conntrack_tuple_hash, struct_nf_ct_dccp,
     struct_ip_ct_sctp, struct_ip_ct_tcp_state, struct_ip_ct_tcp, struct_nf_ct_udp,
     struct_nf_ct_gre, union_nf_conntrack_proto, struct_nf_conn, typedef_local_t,
     typedef_local64_t, struct_perf_event_attr, struct_hw_perf_event_extra,
     struct_arch_hw_breakpoint, struct_rhash_head, struct_rhlist_head,
     struct_hw_perf_event, struct___call_single_node, struct_rcuwait, struct_irq_work,
     struct_perf_addr_filters_head, struct_ftrace_ops_hash, struct_ftrace_ops,
     struct_perf_event, struct_xdp_sock, struct_inet_cork, struct_flowi_tunnel,
     struct_flowi_common, union_flowi_uli, struct_flowi4, struct_flowi6, struct_flowi,
     struct_inet_cork_full, struct_inet_sock, struct_fastopen_queue,
     struct_request_sock_queue, struct_inet_connection_sock, struct_minmax_sample,
     struct_minmax, struct_tcp_options_received, struct_tcp_rack, struct_tcp_sack_block,
     struct_tcp_sock, struct_sk_psock_progs, struct_delayed_work, struct_strp_stats,
     struct_strp_callbacks, struct_strparser, struct_sk_psock_work_state, struct_rcu_work,
     struct_sk_psock, struct_bpf_ringbuf_map]"

end
