(* ===== verification/Kernel_Decls.thy ===== *)
theory Kernel_Decls
  imports Xdp_Outcomes Tc_Egress Vmlinux_Bpf_Enums Vmlinux_Bpf_Flags Vmlinux_Kernel_Net
begin

text \<open>
  What the programs take from the kernel's declarations in \<^verbatim>\<open>vmlinux.h\<close>: the values of the constants
  they name, and the layout of the structures they read and write.
\<close>

subsection \<open>Layouts\<close>

text \<open>
  A sound layout: the members of a structure follow each other without overlap and end inside it,
  and those of a union start at 0 and end inside it.
\<close>

definition layout_sound :: "ctype \<Rightarrow> bool" where
  "layout_sound t = (case t of
      Struct pk fs \<Rightarrow>
        sorted_wrt (\<lambda>(_, _, st, w) (_, _, st', _). st + w \<le> st') (layout pk fs 0) \<and>
        list_all (\<lambda>(_, _, st, w). st + w \<le> 8 * sizeof t) (layout pk fs 0)
    | Union pk fs \<Rightarrow> list_all (\<lambda>f. case f of Field _ u \<Rightarrow> sizeof u \<le> sizeof t | Bits _ u w \<Rightarrow> w \<le> 8 * sizeof t) fs
    | _ \<Rightarrow> True)"

lemma union_end_ge: "f \<in> set fs \<Longrightarrow>
    (case f of Field _ u \<Rightarrow> 8 * sizeof u | Bits _ u w \<Rightarrow> w) \<le> union_end fs"
proof (induction fs)
  case Nil
  then show ?case by simp
next
  case (Cons g fs)
  then show ?case by (cases g) (auto simp: max.coboundedI2)
qed

lemma union_end_le_sizeof: "union_end fs \<le> 8 * sizeof (Union pk fs)"
proof -
  let ?a = "8 * (if pk then 1 else fields_align fs)"
  have "8 dvd ?a" by simp
  moreover have "?a dvd round_up (union_end fs) ?a"
    using fields_align_ge1[of fs] by (intro round_up_dvd) (simp add: Suc_le_eq)
  ultimately have "8 dvd round_up (union_end fs) ?a" by (rule dvd_trans)
  then show ?thesis by simp
qed

lemma layout_sound_any: "layout_sound t"
proof (cases t)
  case (Struct pk fs)
  then show ?thesis
    using layout_sorted[of pk fs 0] layout_in_sizeof[of _ _ _ _ pk fs]
    unfolding layout_sound_def by (simp only: ctype.case) (auto simp: list_all_iff simp del: sizeof.simps)
next
  case (Union pk fs)
  have "(case f of Field _ u \<Rightarrow> 8 * sizeof u | Bits _ u w \<Rightarrow> w) \<le> 8 * sizeof t" if "f \<in> set fs" for f
    using union_end_ge[OF that] union_end_le_sizeof[of fs pk] Union by simp
  then have "case f of Field _ u \<Rightarrow> sizeof u \<le> sizeof t | Bits _ u w \<Rightarrow> w \<le> 8 * sizeof t"
    if "f \<in> set fs" for f
    using that by (cases f) fastforce+
  then show ?thesis unfolding layout_sound_def Union by (simp add: list_all_iff del: sizeof.simps)
qed (simp_all add: layout_sound_def)

text \<open>Every structure and union of the kernel declarations is laid out soundly: members do not
  overlap, and none reaches past the end. The header fields are where the protocols put them and the contexts are the kernel's: sizes of
  the Ethernet, IPv4, TCP, UDP and ICMP headers and byte offsets of the members the programs load,
  computed from the declarations member by member.\<close>

lemma kernel_layouts:
  "list_all layout_sound (kernel_base_structs @ kernel_bpf_structs @ kernel_net_structs) \<and>
   map sizeof [struct_ethhdr, struct_iphdr, struct_tcphdr, struct_udphdr, struct_icmphdr] = [14, 20, 20, 8, 8] \<and>
   map (offsetof struct_ethhdr) [''h_dest'', ''h_source'', ''h_proto''] = [Some 0, Some 6, Some 12] \<and>
   member struct_iphdr ''ihl'' = Some (0, 4) \<and> member struct_iphdr ''version'' = Some (4, 4) \<and>
   map (offsetof struct_iphdr) [''tot_len'', ''protocol'', ''saddr'', ''daddr''] =
     [Some 2, Some 9, Some 12, Some 16] \<and>
   map (offsetof struct_tcphdr) [''source'', ''dest''] = [Some 0, Some 2] \<and>
   map (offsetof struct_udphdr) [''source'', ''dest''] = [Some 0, Some 2] \<and>
   map (offsetof struct_icmphdr) [''type'', ''code''] = [Some 0, Some 1] \<and>
   sizeof struct_xdp_md = 24 \<and> sizeof struct___sk_buff = 192 \<and>
   map (offsetof struct_xdp_md) [''data'', ''data_end''] = [Some 0, Some 4] \<and>
   map (offsetof struct___sk_buff) [''data'', ''data_end''] = [Some 76, Some 80]"
proof (intro conjI)
  show "list_all layout_sound (kernel_base_structs @ kernel_bpf_structs @ kernel_net_structs)"
    by (simp only: list_all_iff) (blast intro: layout_sound_any)
qed code_simp+

text \<open>The keys are what the kernel compares: the key structures of the allow-lists and the event record
  have no padding, the connection key has two bytes of it, and the encoders write each member at its
  declared offset and fill the map's key size.\<close>

lemma map_keys_exact:
  "list_all gapless [struct_whitelist_key, struct_src_port_list_key, struct_port_list_key,
     struct_protocol_port_key, struct_icmpwhitelist_key, struct_sdwhitelist_key, struct_event_t] \<and>
   \<not> gapless struct_ipv4_ct_tuple \<and> drop 14 (enc_ct_tuple ct) = [0, 0] \<and>
   length (enc_whitelist_key wk) = key_size Spp \<and> length (enc_ct_tuple ct) = key_size Conn_track \<and>
   length (enc_src_port_list_key sk) = key_size Src_port \<and>
   length (enc_port_list_key lk) = key_size Port_list \<and>
   length (enc_protocol_port_key pk) = key_size Protocol_port \<and>
   length (enc_ip_pair_key ik) = key_size Sdwhitelist \<and>
   length (enc_ip_pair_key ik) = key_size Icmpwhitelist \<and>
   read_field struct_whitelist_key ''dst_port'' (enc_whitelist_key wk) 0 = Some (wk_dst_port wk) \<and>
   read_field struct_whitelist_key ''protocol'' (enc_whitelist_key wk) 0 = Some (wk_protocol wk) \<and>
   read_field struct_port_list_key ''max_port'' (enc_port_list_key lk) 0 = Some (lk_max_port lk) \<and>
   read_field struct_sdwhitelist_key ''dst_ip'' (enc_ip_pair_key ik) 0 = Some (ik_dst_ip ik) \<and>
   read_field struct_ipv4_ct_tuple ''sport'' (enc_ct_tuple ct) 0 = Some (ct_sport ct) \<and>
   read_field struct_ipv4_ct_tuple ''flags'' (enc_ct_tuple ct) 0 = Some (ct_flags ct)"
proof -
  have g: "list_all gapless [struct_whitelist_key, struct_src_port_list_key, struct_port_list_key,
     struct_protocol_port_key, struct_icmpwhitelist_key, struct_sdwhitelist_key, struct_event_t]"
    by code_simp
  have replicate_two: "replicate 2 0 = [0, 0 :: byte]" by (simp add: numeral_2_eq_2)
  have p: "\<not> gapless struct_ipv4_ct_tuple" by code_simp
  have m: "member struct_whitelist_key ''dst_port'' = Some (64, 16)"
    "member struct_whitelist_key ''protocol'' = Some (80, 8)"
    "member struct_port_list_key ''max_port'' = Some (48, 16)"
    "member struct_sdwhitelist_key ''dst_ip'' = Some (32, 32)"
    "member struct_ipv4_ct_tuple ''sport'' = Some (80, 16)"
    "member struct_ipv4_ct_tuple ''flags'' = Some (104, 8)"
    by code_simp+
  show ?thesis
    using g p by (simp add: replicate_two m read_field_member load_Some enc_key_defs le_word_bytes)
qed

subsection \<open>Constants\<close>

fun action_name :: "xdp_action \<Rightarrow> string" where
  "action_name XDP_ABORTED = ''XDP_ABORTED''"
| "action_name XDP_DROP = ''XDP_DROP''"
| "action_name XDP_PASS = ''XDP_PASS''"
| "action_name XDP_TX = ''XDP_TX''"
| "action_name XDP_REDIRECT = ''XDP_REDIRECT''"

lemma action_values:
  "map (\<lambda>a. enum_value enum_xdp_action (action_name a)) [XDP_ABORTED, XDP_DROP, XDP_PASS, XDP_TX, XDP_REDIRECT]
     = map Some [0, 1, 2, 3, 4]"
  by (simp add: enum_value_def enum_xdp_action_def)

lemma flag_values:
  "enum_value enum_anon_BPF_ANY ''BPF_ANY'' = Some (uint BPF_ANY)"
  "enum_value enum_anon_BPF_ANY ''BPF_EXIST'' = Some (uint BPF_EXIST)"
  "enum_value enum_anon_BPF_F_INDEX_MASK ''BPF_F_CURRENT_CPU'' = Some (uint BPF_F_CURRENT_CPU)"
  by (simp_all add: enum_value_def enum_anon_BPF_ANY_def enum_anon_BPF_F_INDEX_MASK_def
      BPF_ANY_def BPF_EXIST_def BPF_F_CURRENT_CPU_def)

lemma map_type_values:
  "enum_value enum_bpf_map_type ''BPF_MAP_TYPE_LRU_HASH'' = Some 9"
  "enum_value enum_bpf_map_type ''BPF_MAP_TYPE_HASH'' = Some 1"
  "enum_value enum_bpf_map_type ''BPF_MAP_TYPE_PERF_EVENT_ARRAY'' = Some 4"
  by (simp_all add: enum_value_def enum_bpf_map_type_def)

lemma declared_map_types:
  "map (\<lambda>m. enum_value enum_bpf_map_type (md_type (map_decl_of m))) enum_class.enum =
     map Some [9, 9, 1, 9, 9, 9, 9, 4]"
  by (simp add: enum_bpf_map_def map_decl_defs map_type_values)

lemma helper_values_low:
  "map_of enum_bpf_func_id_low ''BPF_FUNC_map_lookup_elem'' = Some 1"
  "map_of enum_bpf_func_id_low ''BPF_FUNC_map_update_elem'' = Some 2"
  "map_of enum_bpf_func_id_low ''BPF_FUNC_map_delete_elem'' = Some 3"
  "map_of enum_bpf_func_id_low ''BPF_FUNC_ktime_get_ns'' = Some 5"
  "map_of enum_bpf_func_id_low ''BPF_FUNC_perf_event_output'' = Some 25"
  by (simp_all add: enum_bpf_func_id_low_def)

lemma enum_value_func_id:
  "map_of enum_bpf_func_id_low nm = Some v \<Longrightarrow> enum_value enum_bpf_func_id nm = Some v"
  by (simp add: enum_value_def enum_bpf_func_id_def)

lemma helper_values:
  "map (enum_value enum_bpf_func_id) [''BPF_FUNC_map_lookup_elem'', ''BPF_FUNC_map_update_elem'',
     ''BPF_FUNC_map_delete_elem'', ''BPF_FUNC_ktime_get_ns'', ''BPF_FUNC_perf_event_output''] =
     map Some [1, 2, 3, 5, 25]"
  by (simp add: enum_value_func_id helper_values_low)

text \<open>The constants the programs name have the kernel's values: the verdicts, the update flags, the
  current-CPU flag, the map types of all declared maps, the numbers of the five helpers, and
  \<^verbatim>\<open>TC_ACT_OK\<close>, which the traffic-control hook of the kernel calls pass.\<close>

lemma kernel_constants:
  "map (\<lambda>a. enum_value enum_xdp_action (action_name a)) [XDP_ABORTED, XDP_DROP, XDP_PASS, XDP_TX, XDP_REDIRECT]
     = map Some [0, 1, 2, 3, 4] \<and>
   enum_value enum_anon_BPF_ANY ''BPF_ANY'' = Some (uint BPF_ANY) \<and>
   enum_value enum_anon_BPF_ANY ''BPF_EXIST'' = Some (uint BPF_EXIST) \<and>
   enum_value enum_anon_BPF_F_INDEX_MASK ''BPF_F_CURRENT_CPU'' = Some (uint BPF_F_CURRENT_CPU) \<and>
   map (\<lambda>m. enum_value enum_bpf_map_type (md_type (map_decl_of m))) enum_class.enum =
     map Some [9, 9, 1, 9, 9, 9, 9, 4] \<and>
   map (enum_value enum_bpf_func_id) [''BPF_FUNC_map_lookup_elem'', ''BPF_FUNC_map_update_elem'',
     ''BPF_FUNC_map_delete_elem'', ''BPF_FUNC_ktime_get_ns'', ''BPF_FUNC_perf_event_output''] =
     map Some [1, 2, 3, 5, 25] \<and>
   enum_value enum_tcx_action_base ''TCX_PASS'' = Some TC_ACT_OK"
  by (intro conjI action_values flag_values declared_map_types helper_values)
    (simp add: enum_value_def enum_tcx_action_base_def TC_ACT_OK_def)

end
