(* ===== verification/Spec2Isabelle.thy ===== *)
theory Spec2Isabelle
  imports Xdp_Header_Properties Access_Expiry Concurrency_Properties Ac_Handler_Properties Audit_Log
    Device_Sdk_Properties Nhp_Overload Agent_Sdk_Properties Kernel_Decls
begin

text \<open>
  OpenNHP hides services behind a default-deny gateway. A client knocks at a server; the server
  tells the access controller (AC) in front of the service; the AC writes allow rules with a time to
  live into BPF maps; and the XDP program of the gateway passes a packet only if one of the maps, or
  the table of tracked connections, has a live entry for its flow. The C code of the repository is
  that packet path (\<^verbatim>\<open>src/nhp/ebpf/xdp\<close>), the C interface of the device SDK
  (\<^verbatim>\<open>src/nhp/core/main\<close>) and a program that uses the agent SDK (\<^verbatim>\<open>src/examples/client_sdk/desktop/c\<close>); this
  development models them, and the Go code behind them: the writer of the
  maps, the handler that calls it, the reader of the event records, under the device SDK the protocol
  itself, the Noise handshake of \<^verbatim>\<open>src/nhp/core\<close> that every message of the system goes through, and the
  agent SDK (\<^verbatim>\<open>src/endpoints/agent\<close>) with which a C program knocks.

  \<^bold>\<open>How the parts interact.\<close> \<^verbatim>\<open>HandleAccessControl\<close> (AC) calls \<^verbatim>\<open>EbpfRuleAdd\<close>, which stores an entry with an
  expiry in a pinned map. \<^verbatim>\<open>xdp_white_prog\<close> (kernel, ingress) looks the packet's flow up in the
  connection table and the allow-lists, enters accepted flows in the connection table and hands an
  event record to the perf buffer, which the AC's reader turns into a line of the accept or deny log.
  \<^verbatim>\<open>tc_egress_prog\<close> (kernel, egress) stores an entry for the answers of each outgoing packet. Agent,
  server and AC talk in packets that \<^verbatim>\<open>MsgToPacket\<close> seals for the receiver's key and \<^verbatim>\<open>PacketToMsg\<close> checks and
  opens: header, sender, time of sending, body; the device SDK offers both to C callers. The agent SDK loads
  servers and resources from files or takes them from the C program, and knocks: it sends a message to the address of a
  server through a transaction of its device and waits for the acknowledgement.

  \<^bold>\<open>Theories and the code they model.\<close>
  \<^item> \<open>Prelude\<close>: bytes, little-endian words, loads from buffers (\<^const>\<open>None\<close> is a load out of bounds).
  \<^item> \<open>CTypes\<close>: C types as values; \<open>sizeof\<close>, \<open>alignof\<close>, \<open>member\<close> by the rules of the x86-64 and BPF ABI.
  \<^item> \<open>Vmlinux_Net\<close>, \<open>Vmlinux_Bpf_Enums\<close>, \<open>Vmlinux_Bpf_Flags\<close>, \<open>Vmlinux_Kernel_Base\<close>, \<open>Vmlinux_Kernel_Bpf\<close>,
    \<open>Vmlinux_Kernel_Net\<close>: declarations of \<^verbatim>\<open>vmlinux.h\<close>; \<open>Kernel_Decls\<close>: their layout, the constants the
    programs take from them and the exact layout of the map keys (the connection key is not packed, whatever its
    declaration seems to say).
  \<^item> \<open>Nhp_Maps\<close>: the map declarations and key and value structures of \<^verbatim>\<open>nhp_ebpf_xdp.c\<close> and
    \<^verbatim>\<open>tc_egress.c\<close>, as C types and as records with encoders and decoders.
  \<^item> \<open>Bpf_Kernel\<close>: the interface to the kernel's helpers (\<open>bpf_kernel\<close>), its contract and a reference kernel.
  \<^item> \<open>Xdp_Prog\<close>: \<^verbatim>\<open>xdp_white_prog\<close>, one definition per stage in the order of the code: \<open>xdp_headers\<close>,
    \<open>xdp_icmp\<close>, \<open>xdp_conntrack\<close>, \<open>xdp_allowlists\<close>, composed by \<open>xdp_stages\<close>.
  \<^item> \<open>Tc_Egress\<close>: \<^verbatim>\<open>tc_egress_prog\<close>.
  \<^item> \<open>Ac_Rules\<close>: \<^verbatim>\<open>nhp/utils/ebpf/ebpf.go\<close> and \<^verbatim>\<open>ebpf_linux.go\<close>; \<open>Ac_Handler\<close>: \<^verbatim>\<open>HandleAccessControl\<close> of
    \<^verbatim>\<open>endpoints/ac/msghandler.go\<close>; \<open>Event_Log\<close>: the reader in \<^verbatim>\<open>endpoints/ac/ebpf/ebpfegine.go\<close>.
  \<^item> \<open>Device_Def\<close>: \<^verbatim>\<open>nhpdevicedef.h\<close>; \<open>Device_Sdk\<close>: the registry of \<^verbatim>\<open>nhpdevice.go\<close>; \<open>Device_Sdk_Crypt\<close>: its
    encryption and decryption over the protocol.
  \<^item> \<open>Nhp_Packet\<close>: message and device types, the two headers and the first checks (\<^verbatim>\<open>core/packet.go\<close>,
    \<^verbatim>\<open>scheme/*/header.go\<close>); \<open>Nhp_Noise\<close>: cipher suites and key derivation (\<^verbatim>\<open>crypto.go\<close>, \<^verbatim>\<open>kdf.go\<close>);
    \<open>Nhp_Initiator\<close>: \<^verbatim>\<open>initiator.go\<close> and \<^verbatim>\<open>MsgToPacket\<close>; \<open>Nhp_Responder\<close>: \<^verbatim>\<open>responder.go\<close> and \<^verbatim>\<open>PacketToMsg\<close>,
    with the fields of device, connection and peer they read and write.
  \<^item> \<open>Nhp_Transactions\<close>: the requests of an agent and their answers (\<^verbatim>\<open>transaction.go\<close>, \<^verbatim>\<open>packetToMsgRoutine\<close>,
    \<^verbatim>\<open>connectionRoutine\<close> and \<^verbatim>\<open>recvMessageRoutine\<close> of \<^verbatim>\<open>endpoints/agent/udpagent.go\<close>, the cookie messages of
    \<^verbatim>\<open>msghandler.go\<close>) as the step relation \<open>agent_step\<close> of its goroutines; its parameter \<open>J\<close> reads the JSON text
    of a cookie message, transaction id and cookie.
  \<^item> \<open>Agent_Sdk\<close>: the agent as the agent SDK sees it (\<^verbatim>\<open>endpoints/agent/udpagent.go\<close>, \<^verbatim>\<open>config.go\<close>, \<^verbatim>\<open>core/peer.go\<close>): start and
    stop, servers, resources, user, configuration files; \<open>Agent_Knock\<close>: \<^verbatim>\<open>knock.go\<close> and the errors of
    \<^verbatim>\<open>common/errors.go\<close>; \<open>Agent_Exports\<close>: the exported functions of \<^verbatim>\<open>endpoints/agent/main/export.go\<close> over the process
    with its one agent, and the demo \<^verbatim>\<open>nhp-agent-demo.c\<close>.
  \<^item> \<open>Samples\<close>: packets and states on which the properties are instantiated.

  \<^bold>\<open>Interfaces.\<close> Kernel helpers are fields of a record over an arbitrary state type. The locale
  \<open>bpf_kernel_contract\<close> states their documented behaviour (an LRU map may evict other entries, an
  update may fail, an event may be lost, the clock is monotone), \<open>bpf_kernel_roomy\<close> adds that nothing
  is evicted, refused or lost; \<open>lookups_sized\<close>, which asks only for values of the declared size, is
  all that memory safety needs. \<open>allow_map\<close> is what the six allow-lists share, interpreted on each.
  \<open>ac_contract\<close> adds what the Go side calls: opening and updating pinned maps, the boot-time clock and
  the parser of IP addresses. Each is interpreted on a reference kernel. The cryptographic primitives
  are fields of the record \<open>crypto\<close>; \<open>nhp_primitives\<close> states that opening undoes sealing, lengths, and
  agreement on shared secrets, \<open>nhp_crypto\<close> adds that decompression undoes compression; both are
  interpreted on reference primitives without secrecy, which is not a subject here. What surrounds the agent (files, TOML,
  JSON and base64, name resolution, clock, the order of a map's keys; and the other goroutines of the agent, while a call waits for
  them: \<open>Exchange\<close>, the way of a message to the result of its transaction, \<open>SealAccess\<close>, \<open>Finish\<close>) is the record \<open>agent_env\<close> over an
  arbitrary world; nothing is asked of it but what a property names: the locale \<open>agent_world\<close>, that \<^verbatim>\<open>range\<close> visits each key
  once, \<open>calm_world\<close>, that no other goroutine panics while a call waits, \<open>responsive_world\<close>, that each message comes back (all
  interpreted on sample worlds), and \<open>exchange_by_transactions\<close>, that it comes back through \<open>agent_step\<close>.

  \<^bold>\<open>What the lemmas show.\<close>
  \<^item> \<open>Allow_Maps\<close>, \<open>Xdp_Correct\<close>, \<open>Xdp_Outcomes\<close>, \<open>Header_Facts\<close>: the filter computes the verdict of \<open>policy\<close>, a
    function of packet, map contents and three clock readings, and every stage's effect on the maps.
  \<^item> \<open>Xdp_Properties\<close>, \<open>Xdp_Header_Properties\<close>: the filter on every kind of packet: default deny, live and
    expired grants, tracked connections, echo, exempt ports, memory safety, lifetimes with wrap-around.
  \<^item> \<open>Tc_Properties\<close>: the egress hook, and the filter on the answers to an outgoing packet.
  \<^item> \<open>Gateway\<close>, \<open>Gateway_Properties\<close>: runs of ingress, egress, rules and kernel in any order, each atomic:
    where every entry came from, and that no TCP or UDP packet passes a flow nobody authorised.
  \<^item> \<open>Access_Expiry\<close>: when access ends. A connection lives for what was left of the grant at the decision,
    counted from a second clock reading; \<open>delta\<close> bounds that delay for each run of the filter. The labels of a run
    carry the clock before and after each egress packet, so that its grant has an end too.
  \<^item> \<open>Xdp_Concurrent\<close>, \<open>Concurrency_Properties\<close>: no contract at all, the maps may change between any two
    helper calls; a packet passes only after a lookup of its own run returned a live entry.
  \<^item> \<open>Ac_Contract\<close>, \<open>Ac_Properties\<close>, \<open>Ac_Handler_Properties\<close>: each rule writes exactly one entry, whose key
    is the one the filter looks up (or, for two kinds of rule, is not); what a whole knock leaves behind.
  \<^item> \<open>Event_Log\<close>, \<open>Audit_Log\<close>: records read back as they were written; the log tells what happened.
  \<^item> \<open>Nhp_Noise_Correct\<close>: sender and receiver compute the same chain of hashes and keys over the bytes of the
    packet; \<open>Nhp_Noise_Properties\<close>, \<open>Nhp_Reply\<close>: messages and answers arrive as they were sent, and the two
    cases where the code loses a message or a link; \<open>Nhp_Attacks\<close>: replays, overload, bodies that crash.
  \<^item> \<open>Nhp_Transaction_Properties\<close>: the invariant of \<open>agent_step\<close>: an answer reaches the request it belongs to, and
    a request gets one result at most; the whole way from a request to its answer; what two forged answers do.
  \<^item> \<open>Nhp_Overload\<close>: the cookie challenge of an overloaded server: its cookie reaches the agent that knocked, and the
    repeated knock is accepted, but for the first 20 ms after the cookie was made.
  \<^item> \<open>Device_Sdk\<close>, \<open>Device_Sdk_Properties\<close>: the registry keeps keys, devices and handles in correspondence;
    what encryption and decryption give a C caller, the end of its process included.
  \<^item> \<open>Agent_Invariant\<close>, \<open>Agent_Calls\<close>, \<open>Agent_Safety\<close>: the states between two calls of the agent SDK, what a request sends and
    makes of the result, and that every call keeps the invariant and ends the process when \<open>crashes_when\<close> holds, in a
    calm world only then;
    \<open>Agent_Demo\<close>: sequences of calls, what a success means, the demo from start to end; \<open>Agent_Liveness\<close>: that only the network,
    and the goroutines a close waits for, can hold a call up, failed starts, reloaded servers; \<open>Agent_Sdk_Properties\<close>: the properties, with samples.

  \<^bold>\<open>Bounds and loops.\<close> The two BPF programs have no loops. The range loop of the handler is a
  \<open>partial_function\<close>, proved to end after 128 addresses; all other recursion is structural. Machine
  integers are words of their width, so sums of clock and lifetime wrap as in the code.

  \<^bold>\<open>Limits.\<close> A map value is read once, when it is looked up; the C code keeps a pointer and loads its
  fields one by one. Each helper call is atomic. Counters of a connection are written back whole.
  Below the transactions the protocol is modelled one packet at a time: parsing a packet is one step. A step of
  the transactions is what one goroutine does between two points where another may run, an agent has
  one connection, and the end of a connection or a timeout may come at any moment. A device has one private key for both schemes, as \<^verbatim>\<open>NewDevice\<close> gives it.
  The bytes of a packet are its content: where a packet is shorter than its header, the Go code would read on in the
  buffer behind it.
  A call of the agent SDK is one function from process to process, with the outcomes return, panic and wait for ever;
  calls and changes of files follow one another. What other goroutines do during a call is in the outcome of \<open>Exchange\<close>,
  \<open>SealAccess\<close> and \<open>Finish\<close>; what they do between two calls, a panic included, is not modelled. Of the knock loop only the
  start and the stop are modelled: a property that the loop can break is stated for programs that do not start it.
  The goroutines of the pre-access messages run one after the other.

  \<^bold>\<open>Not modelled.\<close> The rest of \<^verbatim>\<open>vmlinux.h\<close>, a dump of the kernel's types that no code here uses; loading and
  attaching the programs, pinning, log rotation; the iptables mode of the AC, its mode with a
  listening port and the framing of its messages; remote transactions and the queue of messages to send,
  key generation, the data objects (\<^verbatim>\<open>ztdo\<close>) and the CBC and SM2 helpers; the peer key
  the SDK writes back through its context; the knocks of the agent's own loop, its sockets and connections, its messages about
  data objects; server, relay and database daemons; an Objective-C declaration without a body.
\<close>

end
